(* ===== verification/Prelude.thy ===== *)
theory Prelude
  imports Complex_Main "HOL-Library.Char_ord" "HOL-Library.List_Lexorder" "HOL-Library.Multiset"
begin

text \<open>
  Shared vocabulary of the development: the exceptions of the modelled code and its result type,
  instants, the JSON values that \<^verbatim>\<open>model_dump(mode="json")\<close> produces, and the three idioms
  that occur in every checking function of the program:

  \<^item> \<open>reasons_of\<close>: a run of \<^verbatim>\<open>if condition: reasons.append(reason)\<close> statements;
  \<^item> \<open>first_failed\<close>: a \<^verbatim>\<open>for passed, reason in checks\<close> loop that returns at the first
    check that did not pass;
  \<^item> \<open>dedup\<close>: \<^verbatim>\<open>tuple(dict.fromkeys(reasons))\<close>.

  The collections \<open>reason_simps\<close> and \<open>res_simps\<close> carry the rewrite rules the component proofs use.
\<close>

named_theorems reason_simps \<open>emptiness and membership of collected reasons\<close>
named_theorems res_simps \<open>success and failure of chained fallible steps\<close>

section \<open>Exceptions, results and instants\<close>

datatype exn =
    ValueError string
  | ValidationError
  | OverflowError
  | RuntimeError string
  | CommandTranslationError string
  | PermitIssuanceError string
  | PhysicalSimulationError string
  | TransportReplayLedgerError string
  | NamedError string string
  | OtherError string

text \<open>\<^verbatim>\<open>type(exc).__name__\<close>\<close>

fun exn_name :: "exn \<Rightarrow> string" where
  "exn_name (ValueError _) = ''ValueError''"
| "exn_name ValidationError = ''ValidationError''"
| "exn_name OverflowError = ''OverflowError''"
| "exn_name (RuntimeError _) = ''RuntimeError''"
| "exn_name (CommandTranslationError _) = ''CommandTranslationError''"
| "exn_name (PermitIssuanceError _) = ''PermitIssuanceError''"
| "exn_name (PhysicalSimulationError _) = ''PhysicalSimulationError''"
| "exn_name (TransportReplayLedgerError _) = ''TransportReplayLedgerError''"
| "exn_name (NamedError n _) = n"
| "exn_name (OtherError n) = n"

text \<open>
  \<^verbatim>\<open>str(exc)\<close>: the message where the program chooses it; the text of the other exceptions is the
  argument \<open>other\<close>.
\<close>

fun exn_text :: "(exn \<Rightarrow> string) \<Rightarrow> exn \<Rightarrow> string" where
  "exn_text other (ValueError m) = m"
| "exn_text other (RuntimeError m) = m"
| "exn_text other (CommandTranslationError m) = m"
| "exn_text other (PermitIssuanceError m) = m"
| "exn_text other (PhysicalSimulationError m) = m"
| "exn_text other (TransportReplayLedgerError m) = m"
| "exn_text other (NamedError _ m) = m"
| "exn_text other e = other e"

type_synonym 'a res = "exn + 'a"

text \<open>Instants and durations in microseconds; every instant of the model is timezone-aware.\<close>

type_synonym instant = int
type_synonym duration = int

abbreviation seconds :: "int \<Rightarrow> duration" where
  "seconds n \<equiv> n * 1000000"

definition bind_res :: "'a res \<Rightarrow> ('a \<Rightarrow> 'b res) \<Rightarrow> 'b res" where
  "bind_res r f = (case r of Inl e \<Rightarrow> Inl e | Inr x \<Rightarrow> f x)"

lemma bind_res_simps [simp]:
  "bind_res (Inl e) f = Inl e"
  "bind_res (Inr x) f = f x"
  by (simp_all add: bind_res_def)

lemma bind_res_Inr [res_simps]:
  "bind_res r f = Inr y \<longleftrightarrow> (\<exists>x. r = Inr x \<and> f x = Inr y)"
  by (cases r) auto

section \<open>Collected reasons\<close>

definition reasons_of :: "(bool \<times> string) list \<Rightarrow> string list" where
  "reasons_of cs = map snd (filter fst cs)"

lemma reasons_of_Nil [simp]: "reasons_of [] = []"
  by (simp add: reasons_of_def)

lemma reasons_of_Cons [simp]:
  "reasons_of ((c, r) # cs) = (if c then r # reasons_of cs else reasons_of cs)"
  by (simp add: reasons_of_def)

lemma reasons_of_append [simp]: "reasons_of (cs @ ds) = reasons_of cs @ reasons_of ds"
  by (simp add: reasons_of_def)

lemma reasons_of_empty [reason_simps]:
  "reasons_of cs = [] \<longleftrightarrow> (\<forall>(c, r) \<in> set cs. \<not> c)"
  by (induction cs) (auto split: if_splits)

lemma set_reasons_of [reason_simps]: "set (reasons_of cs) = {r. (True, r) \<in> set cs}"
  by (force simp: reasons_of_def)

text \<open>The loop that returns the reason of the first check that did not pass.\<close>

fun first_failed :: "(bool \<times> string) list \<Rightarrow> string option" where
  "first_failed [] = None"
| "first_failed ((passed, reason) # cs) = (if passed then first_failed cs else Some reason)"

lemma first_failed_None [reason_simps]:
  "first_failed cs = None \<longleftrightarrow> (\<forall>(p, r) \<in> set cs. p)"
  by (induction cs rule: first_failed.induct) auto

lemma first_failed_all_pass: "(\<forall>p \<in> set (map fst cs). p) \<Longrightarrow> first_failed cs = None"
  by (induction cs) auto

lemma first_failed_mem: "first_failed cs = Some r \<Longrightarrow> (False, r) \<in> set cs"
  by (induction cs rule: first_failed.induct) (auto split: if_splits)

text \<open>First occurrences in order, as \<^verbatim>\<open>dict.fromkeys\<close> keeps them.\<close>

definition dedup :: "'a list \<Rightarrow> 'a list" where
  "dedup xs = rev (remdups (rev xs))"

lemma set_dedup [simp]: "set (dedup xs) = set xs"
  by (simp add: dedup_def)

lemma distinct_dedup [simp]: "distinct (dedup xs)"
  by (simp add: dedup_def)

lemma dedup_Nil_iff [simp]: "dedup xs = [] \<longleftrightarrow> xs = []"
  by (simp add: dedup_def)

section \<open>JSON values\<close>

text \<open>
  The value that \<^verbatim>\<open>model_dump(mode="json")\<close> returns. \<open>JNum\<close> holds a finite \<^verbatim>\<open>float\<close>,
  \<open>JNonFinite\<close> marks an infinity or a NaN, and \<open>JTime\<close> holds an instant, which determines its
  ISO 8601 text.
\<close>

datatype json =
    JNull
  | JBool bool
  | JInt int
  | JNum rat
  | JNonFinite int
  | JStr string
  | JTime instant
  | JArr "json list"
  | JObj "(string \<times> json) list"

fun jopt :: "('a \<Rightarrow> json) \<Rightarrow> 'a option \<Rightarrow> json" where
  "jopt f None = JNull"
| "jopt f (Some x) = f x"

text \<open>Member lookup, \<^verbatim>\<open>payload.get(key)\<close> on a dumped object.\<close>

definition jget :: "string \<Rightarrow> json \<Rightarrow> json option" where
  "jget k j = (case j of JObj kvs \<Rightarrow> map_of kvs k | _ \<Rightarrow> None)"

text \<open>\<^verbatim>\<open>sort_keys=True\<close>: every object of the value with its members in key order.\<close>

fun canonical :: "json \<Rightarrow> json" where
  "canonical (JArr xs) = JArr (map canonical xs)"
| "canonical (JObj kvs) = JObj (sort_key fst (map (\<lambda>(k, v). (k, canonical v)) kvs))"
| "canonical j = j"

text \<open>
  Two objects with the same distinct keys have the same canonical form exactly when their members
  do, position by position.
\<close>

lemma map_of_sort_key:
  assumes "distinct (map fst kvs)"
  shows "map_of (sort_key fst kvs) = map_of kvs"
proof -
  have "mset (map fst (sort_key fst kvs)) = mset (map fst kvs)" by simp
  then have "distinct (map fst (sort_key fst kvs))" using assms by (metis mset_eq_imp_distinct_iff)
  then show ?thesis using assms by (simp add: map_of_inject_set)
qed

lemma map_of_keys:
  "distinct (map fst kvs) \<Longrightarrow> map (\<lambda>k. the (map_of kvs k)) (map fst kvs) = map snd kvs"
  by (induction kvs) (auto simp: image_iff intro!: map_cong)

lemma canonical_obj_eq:
  assumes d: "distinct (map fst kvs)" and same: "map fst lvs = map fst kvs"
  shows "canonical (JObj kvs) = canonical (JObj lvs) \<longleftrightarrow>
         map (canonical \<circ> snd) kvs = map (canonical \<circ> snd) lvs"
proof
  let ?c = "map (\<lambda>(k, v). (k, canonical v))"
  have keys: "map fst (?c xs) = map fst xs" for xs by (simp add: case_prod_beta comp_def)
  have vals: "map snd (?c xs) = map (canonical \<circ> snd) xs" for xs
    by (simp add: case_prod_beta comp_def)
  assume "canonical (JObj kvs) = canonical (JObj lvs)"
  then have eq: "map_of (?c kvs) = map_of (?c lvs)"
    using map_of_sort_key [of "?c kvs", unfolded keys, OF d]
      map_of_sort_key [of "?c lvs", unfolded keys same, OF d] by simp
  have "map snd (?c kvs) = map (\<lambda>k. the (map_of (?c kvs) k)) (map fst kvs)"
    using map_of_keys [of "?c kvs"] d by (simp only: keys)
  also have "\<dots> = map (\<lambda>k. the (map_of (?c lvs) k)) (map fst lvs)" by (simp only: eq same)
  also have "\<dots> = map snd (?c lvs)" using map_of_keys [of "?c lvs"] d same by (simp only: keys)
  finally show "map (canonical \<circ> snd) kvs = map (canonical \<circ> snd) lvs" by (simp only: vals)
next
  let ?c = "map (\<lambda>(k, v). (k, canonical v))"
  assume "map (canonical \<circ> snd) kvs = map (canonical \<circ> snd) lvs"
  then have "zip (map fst kvs) (map (canonical \<circ> snd) kvs) =
      zip (map fst lvs) (map (canonical \<circ> snd) lvs)" using same by simp
  moreover have "?c xs = zip (map fst xs) (map (canonical \<circ> snd) xs)" for xs
    by (simp add: zip_map_map comp_def case_prod_beta zip_same_conv_map)
  ultimately have "?c kvs = ?c lvs" by metis
  then show "canonical (JObj kvs) = canonical (JObj lvs)" by simp
qed

section \<open>Text\<close>

definition is_hex_digest :: "string \<Rightarrow> bool" where
  "is_hex_digest s \<longleftrightarrow> length s = 64 \<and> list_all (\<lambda>c. c \<in> set ''0123456789abcdef'') s"

text \<open>\<^verbatim>\<open>str.isspace\<close> on the ASCII range.\<close>

definition is_space :: "char \<Rightarrow> bool" where
  "is_space c \<longleftrightarrow> (let n = (of_char c :: nat) in n \<in> {9, 10, 11, 12, 13, 28, 29, 30, 31, 32})"

definition no_whitespace :: "string \<Rightarrow> bool" where
  "no_whitespace s \<longleftrightarrow> list_all (\<lambda>c. \<not> is_space c) s"

definition zero_digest :: string where
  "zero_digest = replicate 64 (CHR ''0'')"

lemma zero_digest_hex [simp]: "is_hex_digest zero_digest"
  by (simp add: is_hex_digest_def zero_digest_def list_all_iff)

definition len_between :: "nat \<Rightarrow> nat \<Rightarrow> string \<Rightarrow> bool" where
  "len_between lo hi s \<longleftrightarrow> lo \<le> length s \<and> length s \<le> hi"

section \<open>Once-only acceptance\<close>

text \<open>A sequence of calls to a stateful component, with the outcome of each call.\<close>

fun run_steps :: "('i \<Rightarrow> 's \<Rightarrow> 'o \<times> 's) \<Rightarrow> 'i list \<Rightarrow> 's \<Rightarrow> ('i \<times> 'o) list \<times> 's" where
  "run_steps step [] s = ([], s)"
| "run_steps step (i # is) s =
     (let (out, s1) = step i s; (outs, s2) = run_steps step is s1 in ((i, out) # outs, s2))"

definition accepted_keys :: "('o \<Rightarrow> bool) \<Rightarrow> ('i \<Rightarrow> 'k) \<Rightarrow> ('i \<times> 'o) list \<Rightarrow> 'k list" where
  "accepted_keys accepts key calls = map (key \<circ> fst) (filter (accepts \<circ> snd) calls)"

text \<open>
  The contract of every component that consumes a one-time identifier: it accepts only an identifier
  that it does not hold, holds it afterwards, and never lets go of one. Then no sequence of calls
  accepts an identifier twice.
\<close>

locale once_only =
  fixes step :: "'i \<Rightarrow> 's \<Rightarrow> 'o \<times> 's"
    and accepts :: "'o \<Rightarrow> bool"
    and key :: "'i \<Rightarrow> 'k"
    and held :: "'s \<Rightarrow> 'k set"
  assumes accept_fresh: "step i s = (out, s') \<Longrightarrow> accepts out \<Longrightarrow> key i \<notin> held s"
    and accept_held: "step i s = (out, s') \<Longrightarrow> accepts out \<Longrightarrow> key i \<in> held s'"
    and held_mono: "step i s = (out, s') \<Longrightarrow> held s \<subseteq> held s'"
begin

lemma accepted_disjoint:
  "run_steps step is s = (calls, s') \<Longrightarrow>
   set (accepted_keys accepts key calls) \<inter> held s = {} \<and> distinct (accepted_keys accepts key calls) \<and> held s \<subseteq> held s'"
proof (induction "is" arbitrary: s calls)
  case Nil
  then show ?case by (auto simp: accepted_keys_def)
next
  case (Cons i "is")
  obtain out s1 where st: "step i s = (out, s1)" by fastforce
  obtain rest s2 where rest: "run_steps step is s1 = (rest, s2)" by fastforce
  have calls: "calls = (i, out) # rest" "s' = s2" using Cons.prems st rest by simp_all
  note IH = Cons.IH [OF rest [unfolded calls(2) [symmetric]]]
  show ?case
    using IH held_mono [OF st] accept_fresh [OF st] accept_held [OF st]
    by (auto simp: calls accepted_keys_def)
qed

lemma accepted_distinct: "distinct (accepted_keys accepts key (fst (run_steps step is s)))"
  using accepted_disjoint [of "is" s "fst (run_steps step is s)" "snd (run_steps step is s)"] by simp

end

section \<open>Codecs\<close>

text \<open>
  The contract between a writer and a reader of the wire: what is in the encoder's domain is encoded,
  and the decoder gives it back; what the decoder accepts is in the domain and is what the encoder
  writes. Then neither side is ambiguous.
\<close>

locale codec =
  fixes enc :: "'a \<Rightarrow> 'b res" and dec :: "'b \<Rightarrow> 'a res" and dom_ok :: "'a \<Rightarrow> bool" and wire_ok :: "'b \<Rightarrow> bool"
  assumes encodes: "dom_ok x \<Longrightarrow> \<exists>w. enc x = Inr w \<and> wire_ok w \<and> dec w = Inr x"
    and decodes: "wire_ok w \<Longrightarrow> dec w = Inr x \<Longrightarrow> dom_ok x \<and> enc x = Inr w"
begin

lemma encode_injective: "dom_ok x \<Longrightarrow> dom_ok y \<Longrightarrow> enc x = enc y \<Longrightarrow> x = y"
  using encodes [of x] encodes [of y] by auto

lemma decode_injective: "wire_ok v \<Longrightarrow> wire_ok w \<Longrightarrow> dec v = Inr x \<Longrightarrow> dec w = Inr x \<Longrightarrow> v = w"
  by (drule (1) decodes)+ simp

lemma encoded_iff: "dom_ok x \<Longrightarrow> wire_ok w \<Longrightarrow> enc x = Inr w \<longleftrightarrow> dec w = Inr x"
  by (metis encodes decodes sum.inject(2))

end

end
