(* ===== verification/Py_Float.thy ===== *)
theory Py_Float
  imports Prelude "HOL-Library.Log_Nat"
begin

text \<open>
  Python's \<^verbatim>\<open>float\<close>: IEEE 754 binary64. A finite value is the rational number it stands for (the
  two zeros are one value, as they are for every comparison); the sum and the difference are the
  exact result rounded to nearest, ties to even, which overflows to an infinity. \<open>round64_exact\<close>
  shows that rounding leaves every number of the binary64 range unchanged.
\<close>

section \<open>Rounding to binary64\<close>

datatype pyfloat = Fin rat | PInf | NInf | NaN

definition pow2 :: "int \<Rightarrow> rat" where
  "pow2 e = (if 0 \<le> e then 2 ^ nat e else 1 / 2 ^ nat (- e))"

definition floor_log2 :: "rat \<Rightarrow> int" where
  "floor_log2 x =
     (let (p, q) = quotient_of x; k = bitlen p - bitlen q
      in if pow2 k * of_int q \<le> of_int p then k else k - 1)"

definition round_half_even :: "rat \<Rightarrow> int" where
  "round_half_even x =
     (let f = \<lfloor>x\<rfloor>; r = x - of_int f
      in if r < 1 / 2 then f else if 1 / 2 < r then f + 1 else if even f then f else f + 1)"

definition round64 :: "rat \<Rightarrow> pyfloat" where
  "round64 x =
     (if x = 0 then Fin 0
      else let e = max (floor_log2 \<bar>x\<bar> - 52) (- 1074);
               m = round_half_even (x / pow2 e)
           in if 971 < e \<or> (e = 971 \<and> 2 ^ 53 \<le> \<bar>m\<bar>)
              then (if 0 < x then PInf else NInf)
              else Fin (of_int m * pow2 e))"

lemma pow2_pos [simp]: "0 < pow2 e"
  by (simp add: pow2_def)

lemma pow2_powi: "pow2 e = 2 powi e"
  by (simp add: pow2_def power_int_def power_one_over inverse_eq_divide)

lemma pow2_add: "pow2 (a + b) = pow2 a * pow2 b"
  by (simp add: pow2_powi power_int_add)

lemma pow2_mono: "a \<le> b \<Longrightarrow> pow2 a \<le> pow2 b"
  by (simp add: pow2_powi power_int_increasing)

lemma pow2_strict_mono: "a < b \<Longrightarrow> pow2 a < pow2 b"
  by (simp add: pow2_powi power_int_strict_increasing)

lemma pow2_nonneg_int: "0 \<le> d \<Longrightarrow> pow2 d = of_int (2 ^ nat d)"
  by (simp add: pow2_def)

lemma round_half_even_int [simp]: "round_half_even (of_int n) = n"
  by (simp add: round_half_even_def Let_def)

lemma floor_log2_le:
  assumes "0 < x"
  shows "pow2 (floor_log2 x) \<le> x"
proof -
  obtain p q where pq: "quotient_of x = (p, q)" by (cases "quotient_of x")
  have q: "0 < q" using pq by (rule quotient_of_denom_pos)
  have x: "x = of_int p / of_int q" using pq by (rule quotient_of_div)
  have p: "0 < p" using assms q by (simp add: x zero_less_divide_iff)
  define k where "k = bitlen p - bitlen q"
  have lp: "1 \<le> bitlen p" and lq: "1 \<le> bitlen q"
    using p q bitlen_eq_zero_iff [of p] bitlen_eq_zero_iff [of q]
      bitlen_nonneg [of p] bitlen_nonneg [of q] by linarith+
  have bp: "2 ^ nat (bitlen p - 1) \<le> p" using bitlen_bounds [OF p] by simp
  have bq: "q < 2 ^ nat (bitlen q)" using bitlen_bounds [OF q] by simp
  show ?thesis
  proof (cases "pow2 k * of_int q \<le> of_int p")
    case True
    then have "pow2 k \<le> x" using q by (simp add: x pos_le_divide_eq)
    with True show ?thesis by (simp add: floor_log2_def pq k_def [symmetric] Let_def)
  next
    case False
    have "pow2 (k - 1) * of_int q \<le> pow2 (k - 1) * pow2 (bitlen q)"
      using bq lq by (intro mult_left_mono) (simp_all add: pow2_nonneg_int less_imp_le)
    also have "\<dots> = pow2 (bitlen p - 1)"
      by (simp add: pow2_add [symmetric] k_def)
    also have "\<dots> \<le> of_int p"
      using bp lp by (simp add: pow2_nonneg_int)
    finally have "pow2 (k - 1) \<le> x" using q by (simp add: x pos_le_divide_eq)
    with False show ?thesis by (simp add: floor_log2_def pq k_def [symmetric] Let_def)
  qed
qed

text \<open>Every binary64 number \<open>m * 2 ^ e\<close> is a fixed point of rounding.\<close>

lemma round64_exact:
  assumes x: "x = of_int m * pow2 e" and m: "\<bar>m\<bar> < 2 ^ 53" and e: "- 1074 \<le> e" "e \<le> 971"
  shows "round64 x = Fin x"
proof (cases "x = 0")
  case True
  then show ?thesis by (simp add: round64_def)
next
  case False
  define e0 where "e0 = max (floor_log2 \<bar>x\<bar> - 52) (- 1074)"
  have "pow2 (floor_log2 \<bar>x\<bar>) \<le> \<bar>x\<bar>" using False by (intro floor_log2_le) simp
  also have "\<bar>x\<bar> = of_int \<bar>m\<bar> * pow2 e" by (simp add: x abs_mult less_imp_le)
  also have "\<dots> < of_int (2 ^ 53) * pow2 e"
    using m by (intro mult_strict_right_mono) (simp_all only: of_int_less_iff pow2_pos)
  also have "\<dots> = pow2 (e + 53)" by (simp add: pow2_add pow2_def [of 53] mult.commute)
  finally have "floor_log2 \<bar>x\<bar> < e + 53"
    using pow2_mono [of "e + 53" "floor_log2 \<bar>x\<bar>"] by (meson not_le)
  then have e0: "e0 \<le> e" using e(1) by (simp add: e0_def)
  define n where "n = m * 2 ^ nat (e - e0)"
  have "pow2 e = pow2 (e - e0) * pow2 e0" by (simp add: pow2_add [symmetric])
  then have xn: "x = of_int n * pow2 e0" using e0 by (simp add: x n_def pow2_nonneg_int)
  have quo: "x / pow2 e0 = of_int n" using less_imp_neq [OF pow2_pos [of e0]] by (simp add: xn)
  have "\<not> (971 < e0 \<or> (e0 = 971 \<and> 2 ^ 53 \<le> \<bar>n\<bar>))"
    using e0 e m by (auto simp: n_def)
  then have "round64 x = Fin (of_int n * pow2 e0)"
    using False unfolding round64_def e0_def [symmetric] Let_def quo round_half_even_int by simp
  then show ?thesis by (simp add: xn)
qed

lemma round64_of_int [simp]: "\<bar>m\<bar> < 2 ^ 53 \<Longrightarrow> round64 (of_int m) = Fin (of_int m)"
  by (rule round64_exact [of _ m 0]) (simp_all add: pow2_def)

lemma round64_0 [simp]: "round64 0 = Fin 0"
  by (simp add: round64_def)

lemma round64_numeral [simp]:
  "(numeral k :: int) < 2 ^ 53 \<Longrightarrow> round64 (numeral k) = Fin (numeral k)"
  using round64_of_int [of "numeral k"] by simp

lemma round64_1 [simp]: "round64 1 = Fin 1"
  using round64_of_int [of 1] by simp

text \<open>The literals of the source that are no binary fractions, at the value Python gives them.\<close>

lemma round64_literals [simp]:
  "round64 (7 / 10) = Fin (3152519739159347 / 4503599627370496)"
  "round64 (19 / 20) = Fin (4278419646001971 / 4503599627370496)"
  "round64 (21 / 20) = Fin (4728779608739021 / 4503599627370496)"
  "round64 (99 / 100) = Fin (4458563631096791 / 4503599627370496)"
  "round64 (101 / 100) = Fin (4548635623644201 / 4503599627370496)"
  "round64 (9 / 10) = Fin (8106479329266893 / 9007199254740992)"
  "round64 (11 / 10) = Fin (2476979795053773 / 2251799813685248)"
  by code_simp+

lemma round64_not_NaN [simp]: "round64 x \<noteq> NaN"
  by (simp add: round64_def Let_def)

section \<open>Comparison and arithmetic\<close>

fun is_finite :: "pyfloat \<Rightarrow> bool" where
  "is_finite (Fin _) = True"
| "is_finite _ = False"

text \<open>\<^verbatim>\<open>a < b\<close> and \<^verbatim>\<open>a <= b\<close>; every comparison with NaN is false.\<close>

fun flt :: "pyfloat \<Rightarrow> pyfloat \<Rightarrow> bool" where
  "flt (Fin a) (Fin b) = (a < b)"
| "flt (Fin _) PInf = True"
| "flt NInf (Fin _) = True"
| "flt NInf PInf = True"
| "flt _ _ = False"

fun fle :: "pyfloat \<Rightarrow> pyfloat \<Rightarrow> bool" where
  "fle (Fin a) (Fin b) = (a \<le> b)"
| "fle (Fin _) PInf = True"
| "fle NInf (Fin _) = True"
| "fle NInf PInf = True"
| "fle PInf PInf = True"
| "fle NInf NInf = True"
| "fle _ _ = False"

fun feq :: "pyfloat \<Rightarrow> pyfloat \<Rightarrow> bool" where
  "feq (Fin a) (Fin b) = (a = b)"
| "feq PInf PInf = True"
| "feq NInf NInf = True"
| "feq _ _ = False"

fun fneg :: "pyfloat \<Rightarrow> pyfloat" where
  "fneg (Fin a) = Fin (- a)"
| "fneg PInf = NInf"
| "fneg NInf = PInf"
| "fneg NaN = NaN"

fun fadd :: "pyfloat \<Rightarrow> pyfloat \<Rightarrow> pyfloat" where
  "fadd (Fin a) (Fin b) = round64 (a + b)"
| "fadd NaN _ = NaN"
| "fadd _ NaN = NaN"
| "fadd PInf NInf = NaN"
| "fadd NInf PInf = NaN"
| "fadd PInf _ = PInf"
| "fadd _ PInf = PInf"
| "fadd NInf _ = NInf"
| "fadd _ NInf = NInf"

definition fsub :: "pyfloat \<Rightarrow> pyfloat \<Rightarrow> pyfloat" where
  "fsub a b = fadd a (fneg b)"

text \<open>The product, and the quotient by a divisor that is not zero.\<close>

fun fsign :: "pyfloat \<Rightarrow> rat" where
  "fsign (Fin a) = sgn a"
| "fsign PInf = 1"
| "fsign NInf = - 1"
| "fsign NaN = 0"

definition signed_infinity :: "rat \<Rightarrow> pyfloat" where
  "signed_infinity s = (if s = 0 then NaN else if 0 < s then PInf else NInf)"

fun fmul :: "pyfloat \<Rightarrow> pyfloat \<Rightarrow> pyfloat" where
  "fmul (Fin a) (Fin b) = round64 (a * b)"
| "fmul NaN _ = NaN"
| "fmul _ NaN = NaN"
| "fmul a b = signed_infinity (fsign a * fsign b)"

fun fdiv :: "pyfloat \<Rightarrow> pyfloat \<Rightarrow> pyfloat" where
  "fdiv (Fin a) (Fin b) = round64 (a / b)"
| "fdiv NaN _ = NaN"
| "fdiv _ NaN = NaN"
| "fdiv (Fin _) _ = Fin 0"
| "fdiv a (Fin b) = signed_infinity (fsign a * sgn b)"
| "fdiv _ _ = NaN"

text \<open>\<^verbatim>\<open>max(a, b)\<close> and \<^verbatim>\<open>min(a, b)\<close> keep the first argument unless the second is better.\<close>

definition fmax :: "pyfloat \<Rightarrow> pyfloat \<Rightarrow> pyfloat" where
  "fmax a b = (if flt a b then b else a)"

definition fmin :: "pyfloat \<Rightarrow> pyfloat \<Rightarrow> pyfloat" where
  "fmin a b = (if flt b a then b else a)"

lemma fle_refl: "a \<noteq> NaN \<Longrightarrow> fle a a"
  by (cases a) auto

lemma fle_trans: "fle a b \<Longrightarrow> fle b c \<Longrightarrow> fle a c"
  by (cases a; cases b; cases c) auto

lemma not_flt: "a \<noteq> NaN \<Longrightarrow> b \<noteq> NaN \<Longrightarrow> \<not> flt b a \<longleftrightarrow> fle a b"
  by (cases a; cases b) auto

lemma flt_iff_not_fle: "is_finite a \<Longrightarrow> is_finite b \<Longrightarrow> flt b a \<longleftrightarrow> \<not> fle a b"
  by (cases a; cases b) auto

lemma flt_imp_fle: "flt a b \<Longrightarrow> fle a b"
  by (cases a; cases b) auto

lemma is_finite_iff: "is_finite a \<longleftrightarrow> (\<exists>x. a = Fin x)"
  by (cases a) auto

lemma finite_not_NaN: "is_finite a \<Longrightarrow> a \<noteq> NaN"
  by auto

text \<open>The clamp \<^verbatim>\<open>max(lo, min(hi, x))\<close> lies between finite bounds whatever \<open>x\<close> is.\<close>

lemma clamp_bounds:
  assumes "lo \<le> hi"
  shows "fle (Fin lo) (fmax (Fin lo) (fmin (Fin hi) x)) \<and>
         fle (fmax (Fin lo) (fmin (Fin hi) x)) (Fin hi)"
  using assms by (cases x) (auto simp: fmax_def fmin_def)

lemma fmax_ge: "fle (Fin lo) (fmax (Fin lo) x)"
  by (cases x) (auto simp: fmax_def)

text \<open>The JSON rendering of a number.\<close>

fun jfloat :: "pyfloat \<Rightarrow> json" where
  "jfloat (Fin a) = JNum a"
| "jfloat PInf = JNonFinite 1"
| "jfloat NInf = JNonFinite (- 1)"
| "jfloat NaN = JNonFinite 0"

lemma jfloat_inj [simp]: "jfloat a = jfloat b \<longleftrightarrow> a = b"
  by (cases a; cases b) auto

lemma jfloat_not_null [simp]: "jfloat a \<noteq> JNull"
  by (cases a) auto

end
