(* ===== verification/Crypto.thy ===== *)
theory Crypto
  imports Prelude
begin

text \<open>
  \<^verbatim>\<open>crypto.py\<close> and the canonical digest of \<^verbatim>\<open>physical_models.py\<close>. The URL-safe Base64 codec is modelled
  in full; SHA-256, Ed25519 and the iteration order of a \<^verbatim>\<open>frozenset\<close> are fields of the record
  \<open>runtime\<close>, which every definition that needs them takes as an argument. \<open>runtime_ok\<close> states the
  documented behaviour of those services that some theorems rely on. \<open>demo_runtime\<close> is a concrete
  instance with which witnesses are evaluated.
\<close>

section \<open>URL-safe Base64\<close>

definition b64_alphabet :: string where
  "b64_alphabet = ''ABCDEFGHIJKLMNOPQRSTUVWXYZabcdefghijklmnopqrstuvwxyz0123456789-_''"

definition b64_char :: "nat \<Rightarrow> char" where
  "b64_char n = b64_alphabet ! n"

fun index_of :: "'a \<Rightarrow> 'a list \<Rightarrow> nat option" where
  "index_of x [] = None"
| "index_of x (y # ys) = (if x = y then Some 0 else map_option Suc (index_of x ys))"

text \<open>
  \<^verbatim>\<open>b64decode(..., altchars=b"-_", validate=True)\<close> maps \<^verbatim>\<open>-\<close> and \<^verbatim>\<open>_\<close> to \<^verbatim>\<open>+\<close> and \<^verbatim>\<open>/\<close> and so
  accepts all four characters.
\<close>

definition b64_val :: "char \<Rightarrow> nat option" where
  "b64_val c = (if c = CHR ''+'' then Some 62 else if c = CHR ''/'' then Some 63
                else index_of c b64_alphabet)"

abbreviation pad :: char where
  "pad \<equiv> CHR ''=''"

fun urlsafe_b64encode :: "nat list \<Rightarrow> string" where
  "urlsafe_b64encode [] = []"
| "urlsafe_b64encode [a] = [b64_char (a div 4), b64_char (a mod 4 * 16), pad, pad]"
| "urlsafe_b64encode [a, b] =
     [b64_char (a div 4), b64_char (a mod 4 * 16 + b div 16), b64_char (b mod 16 * 4), pad]"
| "urlsafe_b64encode (a # b # c # r) =
     b64_char (a div 4) # b64_char (a mod 4 * 16 + b div 16) #
     b64_char (b mod 16 * 4 + c div 64) # b64_char (c mod 64) # urlsafe_b64encode r"

fun b64decode :: "string \<Rightarrow> nat list option" where
  "b64decode [] = Some []"
| "b64decode (w # x # y # z # r) =
     (if z = pad \<and> r = [] then
        (if y = pad then
           (case (b64_val w, b64_val x) of
              (Some a, Some b) \<Rightarrow> Some [a * 4 + b div 16]
            | _ \<Rightarrow> None)
         else
           (case (b64_val w, b64_val x, b64_val y) of
              (Some a, Some b, Some c) \<Rightarrow> Some [a * 4 + b div 16, b mod 16 * 16 + c div 4]
            | _ \<Rightarrow> None))
      else
        (case (b64_val w, b64_val x, b64_val y, b64_val z, b64decode r) of
           (Some a, Some b, Some c, Some d, Some bs) \<Rightarrow>
             Some ([a * 4 + b div 16, b mod 16 * 16 + c div 4, c mod 4 * 64 + d] @ bs)
         | _ \<Rightarrow> None))"
| "b64decode _ = None"

text \<open>Decoding accepts only the text the encoder produces.\<close>

definition decode_urlsafe_b64 :: "string \<Rightarrow> nat list res" where
  "decode_urlsafe_b64 value =
     (case b64decode value of
        None \<Rightarrow> Inl (ValueError ''invalid URL-safe Base64 encoding'')
      | Some decoded \<Rightarrow>
          if urlsafe_b64encode decoded \<noteq> value
          then Inl (ValueError ''noncanonical URL-safe Base64 encoding'')
          else Inr decoded)"

definition is_bytes :: "nat list \<Rightarrow> bool" where
  "is_bytes bs \<longleftrightarrow> list_all (\<lambda>b. b < 256) bs"

lemma b64_val_char_all: "list_all (\<lambda>n. b64_val (b64_char n) = Some n \<and> b64_char n \<noteq> pad) [0..<64]"
  by code_simp

lemma b64_val_char [simp]: "n < 64 \<Longrightarrow> b64_val (b64_char n) = Some n"
  using b64_val_char_all by (simp add: list_all_iff)

lemma b64_char_not_pad [simp]: "n < 64 \<Longrightarrow> b64_char n \<noteq> pad"
  using b64_val_char_all by (simp add: list_all_iff)

text \<open>The four sextets of a group carry its three bytes.\<close>

lemma group_div_mod:
  assumes "(r :: nat) < n"
  shows "(q * n + r) div n = q" "(q * n + r) mod n = r"
  using assms by simp_all

lemma byte_div: "(b :: nat) < 256 \<Longrightarrow> b div 4 < 64" "(b :: nat) < 256 \<Longrightarrow> b div 16 < 16"
    "(b :: nat) < 256 \<Longrightarrow> b div 64 < 4"
  by (simp_all add: less_mult_imp_div_less)

lemma group_bound: "q < k \<Longrightarrow> (r :: nat) < n \<Longrightarrow> q * n + r < k * n"
proof -
  assume "q < k" and r: "r < n"
  then have "(q + 1) * n \<le> k * n" by (intro mult_right_mono) simp_all
  with r show ?thesis by simp
qed

lemma sextet_bounds [simp]:
  assumes "(a :: nat) < 256" "b < 256"
  shows "a div 4 < 64" "a mod 4 * 16 + b div 16 < 64"
    "a mod 16 * 4 + b div 64 < 64" "a mod 4 * 16 < 64" "a mod 16 * 4 < 64" "a mod 64 < 64"
  using assms byte_div [of a] byte_div [of b]
    group_bound [of "a mod 4" 4 "b div 16" 16] group_bound [of "a mod 4" 4 0 16]
    group_bound [of "a mod 16" 16 "b div 64" 4] group_bound [of "a mod 16" 16 0 4]
  by simp_all

lemma sextet_first: "(b :: nat) < 256 \<Longrightarrow> a div 4 * 4 + (a mod 4 * 16 + b div 16) div 16 = a"
  by (simp only: group_div_mod byte_div div_mult_mod_eq)

lemma sextet_second:
  "(b :: nat) < 256 \<Longrightarrow> c < 256 \<Longrightarrow>
   (a mod 4 * 16 + b div 16) mod 16 * 16 + (b mod 16 * 4 + c div 64) div 4 = b"
  by (simp only: group_div_mod byte_div div_mult_mod_eq)

lemma sextet_third: "(c :: nat) < 256 \<Longrightarrow> (b mod 16 * 4 + c div 64) mod 4 * 64 + c mod 64 = c"
  by (simp only: group_div_mod byte_div div_mult_mod_eq)

lemma sextet_last:
  "a div 4 * 4 + a mod 4 * 16 div 16 = (a :: nat)"
  "(b :: nat) < 256 \<Longrightarrow> (a mod 4 * 16 + b div 16) mod 16 * 16 + b mod 16 * 4 div 4 = b"
  by (simp_all only: group_div_mod byte_div div_mult_mod_eq div_mult_self_is_m zero_less_numeral)

lemmas sextets = sextet_first sextet_second sextet_third sextet_last

lemma b64decode_encode: "is_bytes bs \<Longrightarrow> b64decode (urlsafe_b64encode bs) = Some bs"
proof (induction bs rule: urlsafe_b64encode.induct)
  case (2 a)
  then show ?case using sextet_bounds [of a a] by (simp add: is_bytes_def sextet_last)
next
  case (3 a b)
  then have "a < 256" "b < 256" by (simp_all add: is_bytes_def)
  then show ?case
    using sextet_bounds [of a b] sextet_bounds [of b b] byte_div(2) [of b]
    by (simp add: sextet_first sextet_last del: sextet_bounds)
next
  case (4 a b c r)
  then have "a < 256" "b < 256" "c < 256" and "is_bytes r" by (simp_all add: is_bytes_def)
  then show ?case
    using "4.IH" sextet_bounds [of a b] sextet_bounds [of b c] sextet_bounds [of c c]
      byte_div(2) [of b] byte_div(3) [of c]
    by (simp add: sextets del: sextet_bounds)
qed simp

lemma decode_encode [simp]: "is_bytes bs \<Longrightarrow> decode_urlsafe_b64 (urlsafe_b64encode bs) = Inr bs"
  by (simp add: decode_urlsafe_b64_def b64decode_encode)

lemma decode_canonical: "decode_urlsafe_b64 s = Inr bs \<Longrightarrow> s = urlsafe_b64encode bs"
  by (auto simp: decode_urlsafe_b64_def split: option.splits if_splits)

lemma encode_Nil_iff [simp]: "urlsafe_b64encode bs = [] \<longleftrightarrow> bs = []"
  by (cases bs rule: urlsafe_b64encode.cases) simp_all

section \<open>The services outside the repository\<close>

type_synonym public_key = string
type_synonym private_key = string

text \<open>A signed message: the domain prefix and the canonical JSON value that follows it.\<close>

type_synonym payload = "string \<times> json"

record runtime =
  rt_sha256 :: "json \<Rightarrow> string"
  rt_sha256_text :: "string \<Rightarrow> string"
  rt_iter :: "string set \<Rightarrow> string list"
  rt_ed_sign :: "private_key \<Rightarrow> payload \<Rightarrow> nat list"
  rt_ed_verify :: "public_key \<Rightarrow> payload \<Rightarrow> nat list \<Rightarrow> bool"
  rt_public :: "private_key \<Rightarrow> public_key"

definition digests_ok :: "runtime \<Rightarrow> bool" where
  "digests_ok rt \<longleftrightarrow> (\<forall>j. is_hex_digest (rt_sha256 rt j)) \<and> (\<forall>t. is_hex_digest (rt_sha256_text rt t))"

definition signatures_ok :: "runtime \<Rightarrow> bool" where
  "signatures_ok rt \<longleftrightarrow>
     (\<forall>sk m. is_bytes (rt_ed_sign rt sk m) \<and> rt_ed_sign rt sk m \<noteq> [] \<and>
             rt_ed_verify rt (rt_public rt sk) m (rt_ed_sign rt sk m))"

definition iteration_ok :: "runtime \<Rightarrow> bool" where
  "iteration_ok rt \<longleftrightarrow> (\<forall>S. finite S \<longrightarrow> set (rt_iter rt S) = S \<and> distinct (rt_iter rt S))"

definition canonical_digest :: "runtime \<Rightarrow> json \<Rightarrow> string" where
  "canonical_digest rt value = rt_sha256 rt (canonical value)"

definition sign_bytes :: "runtime \<Rightarrow> private_key \<Rightarrow> payload \<Rightarrow> string" where
  "sign_bytes rt private_key payload = urlsafe_b64encode (rt_ed_sign rt private_key payload)"

definition verify_bytes :: "runtime \<Rightarrow> public_key \<Rightarrow> payload \<Rightarrow> string \<Rightarrow> bool" where
  "verify_bytes rt public_key payload signature =
     (case decode_urlsafe_b64 signature of
        Inl _ \<Rightarrow> False
      | Inr decoded \<Rightarrow> rt_ed_verify rt public_key payload decoded)"

lemma canonical_digest_hex [simp]: "digests_ok rt \<Longrightarrow> is_hex_digest (canonical_digest rt j)"
  by (simp add: digests_ok_def canonical_digest_def)

lemma signatures_okD:
  assumes "signatures_ok rt"
  shows "is_bytes (rt_ed_sign rt sk m)" "rt_ed_sign rt sk m \<noteq> []"
    "rt_ed_verify rt (rt_public rt sk) m (rt_ed_sign rt sk m)"
  using assms unfolding signatures_ok_def by blast+

lemma sign_bytes_nonempty [simp]: "signatures_ok rt \<Longrightarrow> sign_bytes rt sk m \<noteq> []"
  by (simp add: signatures_okD sign_bytes_def)

lemma verify_sign [simp]:
  "signatures_ok rt \<Longrightarrow> verify_bytes rt (rt_public rt sk) m (sign_bytes rt sk m)"
  by (simp add: verify_bytes_def sign_bytes_def signatures_okD)

text \<open>A signature that verifies is the one canonical text of its bytes.\<close>

lemma verify_bytes_canonical:
  "verify_bytes rt pk m s \<longleftrightarrow>
     (\<exists>bs. decode_urlsafe_b64 s = Inr bs \<and> s = urlsafe_b64encode bs \<and> rt_ed_verify rt pk m bs)"
  by (auto simp: verify_bytes_def dest: decode_canonical split: sum.splits)

section \<open>A concrete runtime for evaluation\<close>

text \<open>
  The key pair of the demonstration is the key itself; a signature is one byte that depends on the
  key and on the signed prefix, and the digest is the all-zero digest. It obeys the three laws.
\<close>

definition demo_byte :: "private_key \<Rightarrow> payload \<Rightarrow> nat" where
  "demo_byte sk m = (length sk + length (fst m)) mod 256"

definition demo_runtime :: runtime where
  "demo_runtime =
     \<lparr>rt_sha256 = (\<lambda>_. zero_digest), rt_sha256_text = (\<lambda>_. zero_digest),
      rt_iter = (\<lambda>S. sorted_list_of_set S),
      rt_ed_sign = (\<lambda>sk m. [demo_byte sk m]),
      rt_ed_verify = (\<lambda>pk m s. s = [demo_byte pk m]),
      rt_public = (\<lambda>sk. sk)\<rparr>"

lemma demo_runtime_ok [simp]:
  "digests_ok demo_runtime" "signatures_ok demo_runtime" "iteration_ok demo_runtime"
  by (simp_all add: digests_ok_def signatures_ok_def iteration_ok_def demo_runtime_def
      demo_byte_def is_bytes_def)

lemma demo_digest [simp]: "canonical_digest demo_runtime j = zero_digest"
  by (simp add: canonical_digest_def demo_runtime_def)

lemma demo_public [simp]: "rt_public demo_runtime sk = sk"
  by (simp add: demo_runtime_def)

lemma demo_verify_sign [simp]: "verify_bytes demo_runtime sk m (sign_bytes demo_runtime sk m)"
  using verify_sign [of demo_runtime sk m] by simp

section \<open>The Base64 codec as a contract\<close>

lemma index_of_bound: "index_of x xs = Some i \<Longrightarrow> i < length xs"
  by (induction x xs arbitrary: i rule: index_of.induct) (auto split: if_splits)

lemma b64_val_bound: "b64_val c = Some n \<Longrightarrow> n < 64"
  using index_of_bound [of c b64_alphabet n] by (auto simp: b64_val_def b64_alphabet_def split: if_splits)

lemma sextets_bytes:
  assumes "a < 64" "b < (64 :: nat)"
  shows "a * 4 + b div 16 < 256" "a mod 16 * 16 + b div 4 < 256" "a mod 4 * 64 + b < 256"
proof -
  have "b div 16 < 4" "b div 4 < 16" using assms(2) by (simp_all add: less_mult_imp_div_less)
  then show "a * 4 + b div 16 < 256" "a mod 16 * 16 + b div 4 < 256" "a mod 4 * 64 + b < 256"
    using group_bound [of a 64 "b div 16" 4] group_bound [of "a mod 16" 16 "b div 4" 16]
      group_bound [of "a mod 4" 4 b 64] assms by simp_all
qed

lemma b64decode_bytes: "b64decode s = Some bs \<Longrightarrow> is_bytes bs"
proof (induction s arbitrary: bs rule: b64decode.induct)
  case (2 w x y z r)
  then show ?case
    using sextets_bytes b64_val_bound
    by (auto simp: is_bytes_def split: if_splits option.splits)
qed (simp_all add: is_bytes_def)

lemma decode_bytes: "decode_urlsafe_b64 s = Inr bs \<Longrightarrow> is_bytes bs"
  by (auto simp: decode_urlsafe_b64_def intro: b64decode_bytes split: option.splits if_splits)

interpretation b64: codec "\<lambda>bs. Inr (urlsafe_b64encode bs)" decode_urlsafe_b64 is_bytes "\<lambda>_. True"
  by unfold_locales (auto dest: decode_canonical decode_bytes)

text \<open>
  The text of a signature is unambiguous: every byte string is decoded from its own encoding, the
  strict decoder accepts nothing but the encoding of the bytes it returns, and so two texts that decode
  to the same bytes are equal. No second text of a valid signature can pass for a different one.
\<close>
theorem signature_text_roundtrip:
  "(is_bytes bs \<longrightarrow> decode_urlsafe_b64 (urlsafe_b64encode bs) = Inr bs) \<and>
   (decode_urlsafe_b64 s = Inr bs \<longrightarrow> is_bytes bs \<and> s = urlsafe_b64encode bs) \<and>
   (decode_urlsafe_b64 s = Inr bs \<longrightarrow> decode_urlsafe_b64 t = Inr bs \<longrightarrow> s = t)"
  using b64.decodes b64.decode_injective by auto

theorem signature_text_roundtrip_witness:
  "decode_urlsafe_b64 (urlsafe_b64encode [0, 255, 16, 7]) = Inr [0, 255, 16, 7] \<and>
   decode_urlsafe_b64 ''AP8QBw=='' = Inr [0, 255, 16, 7]"
proof -
  have "urlsafe_b64encode [0, 255, 16, 7] = ''AP8QBw==''" by code_simp
  moreover have "is_bytes [0, 255, 16, 7]" by (simp add: is_bytes_def)
  ultimately show ?thesis using signature_text_roundtrip [of "[0, 255, 16, 7]" "[]" "[]"] by simp
qed

end
