(* ===== verification/Models.thy ===== *)
theory Models
  imports Py_Float Crypto
begin

text \<open>
  \<^verbatim>\<open>models.py\<close>: the typed values at the trust boundary, the constraints their constructors enforce,
  and their JSON dumps. A constructor that rejects its arguments is a function with a result of
  type \<open>res\<close>; the predicates \<open>..._valid\<close> hold of the values such a constructor returns.
\<close>

section \<open>Operations and outcomes\<close>

datatype operation = ISOLATE_ASSET | RESTORE_ASSET | SHED_LOAD | DISPATCH_BATTERY

fun operation_value :: "operation \<Rightarrow> string" where
  "operation_value ISOLATE_ASSET = ''isolate_asset''"
| "operation_value RESTORE_ASSET = ''restore_asset''"
| "operation_value SHED_LOAD = ''shed_load''"
| "operation_value DISPATCH_BATTERY = ''dispatch_battery''"

lemma operation_value_inj [simp]: "operation_value a = operation_value b \<longleftrightarrow> a = b"
  by (cases a; cases b) simp_all

lemma UNIV_operation: "(UNIV :: operation set) = {ISOLATE_ASSET, RESTORE_ASSET, SHED_LOAD, DISPATCH_BATTERY}"
  by (auto intro: operation.exhaust)

instantiation operation :: linorder
begin

definition less_eq_operation :: "operation \<Rightarrow> operation \<Rightarrow> bool" where
  "less_eq_operation a b \<longleftrightarrow> operation_value a \<le> operation_value b"

definition less_operation :: "operation \<Rightarrow> operation \<Rightarrow> bool" where
  "less_operation a b \<longleftrightarrow> operation_value a < operation_value b"

instance
  by standard (auto simp: less_eq_operation_def less_operation_def order.strict_iff_order)

end

fun operation_parameters :: "operation \<Rightarrow> string set" where
  "operation_parameters ISOLATE_ASSET = {''critical_load_impact_pct'', ''line_loading_delta_pct''}"
| "operation_parameters RESTORE_ASSET = {''critical_load_restore_pct'', ''line_loading_delta_pct''}"
| "operation_parameters SHED_LOAD = {''critical_load_impact_pct'', ''line_loading_relief_pct''}"
| "operation_parameters DISPATCH_BATTERY =
     {''mw'', ''minimum_voltage_delta_pu'', ''maximum_voltage_delta_pu''}"

definition percentage_parameters :: "string set" where
  "percentage_parameters =
     {''critical_load_impact_pct'', ''critical_load_restore_pct'', ''line_loading_relief_pct''}"

datatype decision_outcome =
  PERMIT | DENY | MODIFY | DEFER | SIMULATE | REQUIRE_APPROVAL | QUARANTINE | REVOKE

fun outcome_value :: "decision_outcome \<Rightarrow> string" where
  "outcome_value PERMIT = ''permit''"
| "outcome_value DENY = ''deny''"
| "outcome_value MODIFY = ''modify''"
| "outcome_value DEFER = ''defer''"
| "outcome_value SIMULATE = ''simulate''"
| "outcome_value REQUIRE_APPROVAL = ''require_approval''"
| "outcome_value QUARANTINE = ''quarantine''"
| "outcome_value REVOKE = ''revoke''"

lemma outcome_value_inj [simp]: "outcome_value a = outcome_value b \<longleftrightarrow> a = b"
  by (cases a; cases b) simp_all

section \<open>System state\<close>

record system_state =
  ss_version :: int
  ss_observed_at :: instant
  ss_critical_load_served_pct :: pyfloat
  ss_minimum_voltage_pu :: pyfloat
  ss_maximum_voltage_pu :: pyfloat
  ss_maximum_line_loading_pct :: pyfloat
  ss_isolated_assets :: "string set"
  ss_battery_dispatch_mw :: pyfloat

text \<open>Finiteness is the model configuration \<^verbatim>\<open>allow_inf_nan=False\<close>.\<close>

definition system_state_valid :: "system_state \<Rightarrow> bool" where
  "system_state_valid s \<longleftrightarrow>
     0 \<le> ss_version s \<and>
     is_finite (ss_critical_load_served_pct s) \<and> is_finite (ss_minimum_voltage_pu s) \<and>
     is_finite (ss_maximum_voltage_pu s) \<and> is_finite (ss_maximum_line_loading_pct s) \<and>
     is_finite (ss_battery_dispatch_mw s) \<and>
     fle (Fin 0) (ss_critical_load_served_pct s) \<and> fle (ss_critical_load_served_pct s) (Fin 100) \<and>
     flt (Fin 0) (ss_minimum_voltage_pu s) \<and> flt (Fin 0) (ss_maximum_voltage_pu s) \<and>
     fle (Fin 0) (ss_maximum_line_loading_pct s) \<and>
     \<not> flt (ss_maximum_voltage_pu s) (ss_minimum_voltage_pu s)"

definition make_system_state :: "system_state \<Rightarrow> system_state res" where
  "make_system_state s = (if system_state_valid s then Inr s else Inl ValidationError)"

definition str_set :: "runtime \<Rightarrow> string set \<Rightarrow> json" where
  "str_set rt S = JArr (map JStr (rt_iter rt S))"

definition system_state_dump :: "runtime \<Rightarrow> system_state \<Rightarrow> json" where
  "system_state_dump rt s = JObj [
     (''version'', JInt (ss_version s)),
     (''observed_at'', JTime (ss_observed_at s)),
     (''critical_load_served_pct'', jfloat (ss_critical_load_served_pct s)),
     (''minimum_voltage_pu'', jfloat (ss_minimum_voltage_pu s)),
     (''maximum_voltage_pu'', jfloat (ss_maximum_voltage_pu s)),
     (''maximum_line_loading_pct'', jfloat (ss_maximum_line_loading_pct s)),
     (''isolated_assets'', str_set rt (ss_isolated_assets s)),
     (''battery_dispatch_mw'', jfloat (ss_battery_dispatch_mw s))]"

section \<open>Action proposals\<close>

text \<open>A parameter value as it arrives, and as an accepted proposal holds it.\<close>

datatype pynum = PyInt int | PyFloat pyfloat

datatype pyval = PyNum pynum | PyBool bool | PyOther

record action_proposal =
  ap_proposal_id :: string
  ap_actor_id :: string
  ap_mission_id :: string
  ap_resource :: string
  ap_operation :: operation
  ap_parameters :: "(string \<times> pynum) list"
  ap_observed_state_version :: int
  ap_observed_at :: instant
  ap_submitted_at :: instant
  ap_nonce :: string
  ap_confidence :: pyfloat
  ap_risk_score :: pyfloat
  ap_delegation_chain :: "string list"
  ap_human_approval_id :: "string option"

text \<open>\<^verbatim>\<open>float(raw_value)\<close>; an integer beyond the float range raises \<^verbatim>\<open>OverflowError\<close>.\<close>

fun float_of :: "pynum \<Rightarrow> pyfloat" where
  "float_of (PyInt n) = round64 (of_int n)"
| "float_of (PyFloat f) = f"

fun checked_number :: "pyval \<Rightarrow> pynum res" where
  "checked_number (PyBool _) = Inl ValidationError"
| "checked_number PyOther = Inl ValidationError"
| "checked_number (PyNum (PyInt n)) =
     (if is_finite (round64 (of_int n)) then Inr (PyInt n) else Inl OverflowError)"
| "checked_number (PyNum (PyFloat f)) = (if is_finite f then Inr (PyFloat f) else Inl ValidationError)"

fun normalize_parameters :: "(string \<times> pyval) list \<Rightarrow> (string \<times> pynum) list res" where
  "normalize_parameters [] = Inr []"
| "normalize_parameters ((name, raw_value) # rest) =
     bind_res (checked_number raw_value) (\<lambda>v.
       bind_res (normalize_parameters rest) (\<lambda>vs. Inr ((name, v) # vs)))"

definition percentages_in_range :: "(string \<times> pynum) list \<Rightarrow> bool" where
  "percentages_in_range ps \<longleftrightarrow>
     list_all (\<lambda>(name, v). name \<in> percentage_parameters \<longrightarrow>
                 fle (Fin 0) (float_of v) \<and> fle (float_of v) (Fin 100)) ps"

definition require_operation_parameters ::
  "operation \<Rightarrow> (string \<times> pyval) list \<Rightarrow> (string \<times> pynum) list res" where
  "require_operation_parameters operation parameters =
     (if \<not> set (map fst parameters) \<subseteq> operation_parameters operation then Inl ValidationError
      else bind_res (normalize_parameters parameters) (\<lambda>normalized.
        if percentages_in_range normalized then Inr normalized else Inl ValidationError))"

definition proposal_fields_ok :: "action_proposal \<Rightarrow> bool" where
  "proposal_fields_ok p \<longleftrightarrow>
     ap_proposal_id p \<noteq> [] \<and> ap_actor_id p \<noteq> [] \<and> ap_mission_id p \<noteq> [] \<and> ap_resource p \<noteq> [] \<and>
     0 \<le> ap_observed_state_version p \<and>
     len_between 16 256 (ap_nonce p) \<and>
     is_finite (ap_confidence p) \<and> fle (Fin 0) (ap_confidence p) \<and> fle (ap_confidence p) (Fin 1) \<and>
     is_finite (ap_risk_score p) \<and> fle (Fin 0) (ap_risk_score p) \<and> fle (ap_risk_score p) (Fin 100) \<and>
     ap_delegation_chain p \<noteq> [] \<and> ap_human_approval_id p \<noteq> Some []"

definition make_action_proposal ::
  "action_proposal \<Rightarrow> (string \<times> pyval) list \<Rightarrow> action_proposal res" where
  "make_action_proposal p parameters =
     (if \<not> proposal_fields_ok p then Inl ValidationError
      else bind_res (require_operation_parameters (ap_operation p) parameters)
             (\<lambda>ps. Inr (p\<lparr>ap_parameters := ps\<rparr>)))"

text \<open>A proposal that its own constructor accepts again.\<close>

definition action_proposal_valid :: "action_proposal \<Rightarrow> bool" where
  "action_proposal_valid p \<longleftrightarrow>
     make_action_proposal p (map (apsnd PyNum) (ap_parameters p)) = Inr p"

fun jnum :: "pynum \<Rightarrow> json" where
  "jnum (PyInt n) = JInt n"
| "jnum (PyFloat f) = jfloat f"

definition action_proposal_dump :: "action_proposal \<Rightarrow> json" where
  "action_proposal_dump p = JObj [
     (''proposal_id'', JStr (ap_proposal_id p)),
     (''actor_id'', JStr (ap_actor_id p)),
     (''mission_id'', JStr (ap_mission_id p)),
     (''resource'', JStr (ap_resource p)),
     (''operation'', JStr (operation_value (ap_operation p))),
     (''parameters'', JObj (map (apsnd jnum) (ap_parameters p))),
     (''observed_state_version'', JInt (ap_observed_state_version p)),
     (''observed_at'', JTime (ap_observed_at p)),
     (''submitted_at'', JTime (ap_submitted_at p)),
     (''nonce'', JStr (ap_nonce p)),
     (''confidence'', jfloat (ap_confidence p)),
     (''risk_score'', jfloat (ap_risk_score p)),
     (''delegation_chain'', JArr (map JStr (ap_delegation_chain p))),
     (''human_approval_id'', jopt JStr (ap_human_approval_id p))]"

definition proposal_digest :: "runtime \<Rightarrow> action_proposal \<Rightarrow> string" where
  "proposal_digest rt p = canonical_digest rt (action_proposal_dump p)"

section \<open>Decisions and execution results\<close>

record decision =
  dec_decision_id :: string
  dec_proposal_id :: string
  dec_outcome :: decision_outcome
  dec_reasons :: "string list"
  dec_decided_at :: instant
  dec_policy_version :: string
  dec_safety_version :: string
  dec_state_version :: int
  dec_evidence_record_hash :: "string option"

definition decision_dump :: "decision \<Rightarrow> json" where
  "decision_dump d = JObj [
     (''decision_id'', JStr (dec_decision_id d)),
     (''proposal_id'', JStr (dec_proposal_id d)),
     (''outcome'', JStr (outcome_value (dec_outcome d))),
     (''reasons'', JArr (map JStr (dec_reasons d))),
     (''decided_at'', JTime (dec_decided_at d)),
     (''policy_version'', JStr (dec_policy_version d)),
     (''safety_version'', JStr (dec_safety_version d)),
     (''state_version'', JInt (dec_state_version d)),
     (''evidence_record_hash'', jopt JStr (dec_evidence_record_hash d))]"

record execution_result =
  er_proposal_id :: string
  er_decision_id :: string
  er_executed :: bool
  er_acknowledged_at :: instant
  er_resulting_state :: "system_state option"
  er_reason :: "string option"

section \<open>What validation guarantees\<close>

lemma normalize_parameters_keys:
  "normalize_parameters ps = Inr qs \<Longrightarrow> map fst qs = map fst ps"
  by (induction ps arbitrary: qs rule: normalize_parameters.induct) (auto simp: res_simps)

lemma checked_number_finite: "checked_number v = Inr n \<Longrightarrow> v = PyNum n \<and> is_finite (float_of n)"
  by (induction v rule: checked_number.induct) (auto split: if_splits)

lemma checked_number_again: "checked_number v = Inr n \<Longrightarrow> checked_number (PyNum n) = Inr n"
  by (induction v rule: checked_number.induct) (auto split: if_splits)

lemma normalize_parameters_finite:
  "normalize_parameters ps = Inr qs \<Longrightarrow> (name, v) \<in> set qs \<Longrightarrow> is_finite (float_of v)"
  by (induction ps arbitrary: qs rule: normalize_parameters.induct)
    (auto simp: res_simps dest: checked_number_finite)

lemma normalize_parameters_again:
  "normalize_parameters ps = Inr qs \<Longrightarrow> normalize_parameters (map (apsnd PyNum) qs) = Inr qs"
  by (induction ps arbitrary: qs rule: normalize_parameters.induct)
    (auto simp: res_simps intro: checked_number_again)

lemma require_operation_parametersD:
  assumes "require_operation_parameters op ps = Inr qs"
  shows "set (map fst qs) \<subseteq> operation_parameters op"
    and "\<And>name v. (name, v) \<in> set qs \<Longrightarrow> is_finite (float_of v)"
    and "percentages_in_range qs"
    and "require_operation_parameters op (map (apsnd PyNum) qs) = Inr qs"
proof -
  from assms have keys: "set (map fst ps) \<subseteq> operation_parameters op"
    and norm: "normalize_parameters ps = Inr qs" and range: "percentages_in_range qs"
    by (auto simp: require_operation_parameters_def res_simps split: if_splits)
  from norm have eq: "map fst qs = map fst ps" by (rule normalize_parameters_keys)
  show keys': "set (map fst qs) \<subseteq> operation_parameters op" unfolding eq by (rule keys)
  show "\<And>name v. (name, v) \<in> set qs \<Longrightarrow> is_finite (float_of v)"
    using normalize_parameters_finite [OF norm] .
  show "percentages_in_range qs" by (rule range)
  have "map fst (map (apsnd PyNum) qs) = map fst qs" by simp
  then show "require_operation_parameters op (map (apsnd PyNum) qs) = Inr qs"
    unfolding require_operation_parameters_def
    using keys' range normalize_parameters_again [OF norm] by simp
qed

lemma make_action_proposal_valid:
  assumes "make_action_proposal p ps = Inr q"
  shows "action_proposal_valid q"
proof -
  from assms obtain qs where ok: "proposal_fields_ok p"
    and req: "require_operation_parameters (ap_operation p) ps = Inr qs"
    and q: "q = p\<lparr>ap_parameters := qs\<rparr>"
    by (auto simp: make_action_proposal_def res_simps split: if_splits)
  have "proposal_fields_ok q" using ok by (simp add: q proposal_fields_ok_def)
  then show ?thesis
    using require_operation_parametersD(4) [OF req]
    by (simp add: action_proposal_valid_def make_action_proposal_def q)
qed

lemma action_proposal_validD:
  assumes "action_proposal_valid p"
  shows "proposal_fields_ok p"
    and "set (map fst (ap_parameters p)) \<subseteq> operation_parameters (ap_operation p)"
    and "\<And>name v. (name, v) \<in> set (ap_parameters p) \<Longrightarrow> is_finite (float_of v)"
    and "percentages_in_range (ap_parameters p)"
proof -
  from assms obtain qs where ok: "proposal_fields_ok p"
    and req: "require_operation_parameters (ap_operation p) (map (apsnd PyNum) (ap_parameters p)) = Inr qs"
    and qs: "p\<lparr>ap_parameters := qs\<rparr> = p"
    by (auto simp: action_proposal_valid_def make_action_proposal_def res_simps split: if_splits)
  from arg_cong [OF qs, of ap_parameters] have "qs = ap_parameters p" by simp
  note D = require_operation_parametersD [OF req [unfolded this]]
  show "proposal_fields_ok p" by (rule ok)
  show "set (map fst (ap_parameters p)) \<subseteq> operation_parameters (ap_operation p)" by (rule D(1))
  show "\<And>name v. (name, v) \<in> set (ap_parameters p) \<Longrightarrow> is_finite (float_of v)" by (rule D(2))
  show "percentages_in_range (ap_parameters p)" by (rule D(3))
qed

lemma decision_dump_inj: "decision_dump a = decision_dump b \<longleftrightarrow> (a :: decision) = b"
proof
  have opt: "jopt JStr x = jopt JStr y \<Longrightarrow> x = y" for x y by (cases x; cases y) simp_all
  have arr: "map JStr x = map JStr y \<Longrightarrow> x = y" for x y
    by (metis inj_map_eq_map injI json.inject(5))
  assume "decision_dump a = decision_dump b"
  then show "a = b"
    by (intro decision.equality) (auto simp: decision_dump_def dest: opt arr)
qed simp

end
