(* ===== verification/Delegation.thy ===== *)
theory Delegation
  imports Models
begin

text \<open>
  \<^verbatim>\<open>delegation.py\<close>: signed delegation grants and the validation of a whole chain. The specification
  \<open>authorizes\<close> speaks about every pair of grants of the chain; \<open>validate_iff_authorizes\<close> shows that
  the validator, which compares neighbours only, decides exactly that.
\<close>

section \<open>Grants\<close>

record delegation_grant =
  dg_grant_id :: string
  dg_issuer_id :: string
  dg_subject_id :: string
  dg_mission_id :: string
  dg_resources :: "string set"
  dg_operations :: "operation set"
  dg_not_before :: instant
  dg_expires_at :: instant
  dg_risk_limit :: pyfloat
  dg_delegation_depth_remaining :: int
  dg_parent_grant_id :: "string option"
  dg_signature :: string

definition delegation_grant_valid :: "delegation_grant \<Rightarrow> bool" where
  "delegation_grant_valid g \<longleftrightarrow>
     dg_grant_id g \<noteq> [] \<and> dg_issuer_id g \<noteq> [] \<and> dg_subject_id g \<noteq> [] \<and> dg_mission_id g \<noteq> [] \<and>
     dg_resources g \<noteq> {} \<and> dg_operations g \<noteq> {} \<and>
     is_finite (dg_risk_limit g) \<and> fle (Fin 0) (dg_risk_limit g) \<and> fle (dg_risk_limit g) (Fin 100) \<and>
     0 \<le> dg_delegation_depth_remaining g \<and> \<not> dg_expires_at g \<le> dg_not_before g"

definition delegation_grant_signing_bytes :: "runtime \<Rightarrow> delegation_grant \<Rightarrow> payload" where
  "delegation_grant_signing_bytes rt g = ('''', canonical (JObj [
     (''grant_id'', JStr (dg_grant_id g)),
     (''issuer_id'', JStr (dg_issuer_id g)),
     (''subject_id'', JStr (dg_subject_id g)),
     (''mission_id'', JStr (dg_mission_id g)),
     (''resources'', str_set rt (dg_resources g)),
     (''operations'', str_set rt (operation_value ` dg_operations g)),
     (''not_before'', JTime (dg_not_before g)),
     (''expires_at'', JTime (dg_expires_at g)),
     (''risk_limit'', jfloat (dg_risk_limit g)),
     (''delegation_depth_remaining'', JInt (dg_delegation_depth_remaining g)),
     (''parent_grant_id'', jopt JStr (dg_parent_grant_id g))]))"

definition delegation_grant_signed ::
  "runtime \<Rightarrow> delegation_grant \<Rightarrow> private_key \<Rightarrow> delegation_grant" where
  "delegation_grant_signed rt g private_key =
     g\<lparr>dg_signature := sign_bytes rt private_key (delegation_grant_signing_bytes rt g)\<rparr>"

section \<open>The validator\<close>

record delegation_validator =
  dv_grants :: "string \<Rightarrow> delegation_grant option"
  dv_public_keys :: "string \<Rightarrow> public_key option"
  dv_revoked :: "string set"

record delegation_validation =
  dvn_valid :: bool
  dvn_reasons :: "string list"

definition revoke :: "delegation_validator \<Rightarrow> string \<Rightarrow> delegation_validator" where
  "revoke v grant_id = v\<lparr>dv_revoked := insert grant_id (dv_revoked v)\<rparr>"

definition grant_signature_ok :: "runtime \<Rightarrow> delegation_validator \<Rightarrow> delegation_grant \<Rightarrow> bool" where
  "grant_signature_ok rt v g =
     (case dv_public_keys v (dg_issuer_id g) of
        None \<Rightarrow> False
      | Some key \<Rightarrow> verify_bytes rt key (delegation_grant_signing_bytes rt g) (dg_signature g))"

definition grant_reasons ::
  "runtime \<Rightarrow> delegation_validator \<Rightarrow> instant \<Rightarrow> string \<Rightarrow> delegation_grant \<Rightarrow> string list" where
  "grant_reasons rt v now grant_id g = reasons_of [
     (\<not> grant_signature_ok rt v g, ''invalid_signature:'' @ grant_id),
     (grant_id \<in> dv_revoked v, ''revoked_grant:'' @ grant_id),
     (\<not> (dg_not_before g \<le> now \<and> now \<le> dg_expires_at g), ''inactive_grant:'' @ grant_id)]"

text \<open>The first loop: look every grant up, and check it on its own.\<close>

fun collect_chain ::
  "runtime \<Rightarrow> delegation_validator \<Rightarrow> instant \<Rightarrow> string list \<Rightarrow> delegation_grant list \<times> string list"
where
  "collect_chain rt v now [] = ([], [])"
| "collect_chain rt v now (grant_id # rest) =
     (let (chain, reasons) = collect_chain rt v now rest in
      case dv_grants v grant_id of
        None \<Rightarrow> (chain, (''unknown_grant:'' @ grant_id) # reasons)
      | Some g \<Rightarrow> (g # chain, grant_reasons rt v now grant_id g @ reasons))"

definition link_checks :: "delegation_grant \<Rightarrow> delegation_grant \<Rightarrow> (bool \<times> string) list" where
  "link_checks parent g = [
     (dg_parent_grant_id g \<noteq> Some (dg_grant_id parent), ''broken_parent_link:'' @ dg_grant_id g),
     (dg_issuer_id g \<noteq> dg_subject_id parent, ''issuer_subject_mismatch:'' @ dg_grant_id g),
     (\<not> dg_resources g \<subseteq> dg_resources parent, ''resource_amplification:'' @ dg_grant_id g),
     (\<not> dg_operations g \<subseteq> dg_operations parent, ''operation_amplification:'' @ dg_grant_id g),
     (flt (dg_risk_limit parent) (dg_risk_limit g), ''risk_amplification:'' @ dg_grant_id g),
     (dg_delegation_depth_remaining g \<ge> dg_delegation_depth_remaining parent,
        ''depth_not_attenuated:'' @ dg_grant_id g),
     (dg_not_before g < dg_not_before parent \<or> dg_expires_at g > dg_expires_at parent,
        ''time_amplification:'' @ dg_grant_id g)]"

text \<open>The second loop: the root has no parent, and every other grant attenuates its predecessor.\<close>

fun link_reasons :: "delegation_grant option \<Rightarrow> delegation_grant list \<Rightarrow> string list" where
  "link_reasons _ [] = []"
| "link_reasons None (g # gs) =
     reasons_of [(dg_parent_grant_id g \<noteq> None, ''root_has_parent'')] @ link_reasons (Some g) gs"
| "link_reasons (Some parent) (g # gs) =
     reasons_of (link_checks parent g) @ link_reasons (Some g) gs"

definition leaf_reasons :: "action_proposal \<Rightarrow> delegation_grant \<Rightarrow> string list" where
  "leaf_reasons p leaf = reasons_of [
     (dg_subject_id leaf \<noteq> ap_actor_id p, ''leaf_subject_mismatch''),
     (dg_mission_id leaf \<noteq> ap_mission_id p, ''mission_out_of_scope''),
     (ap_resource p \<notin> dg_resources leaf, ''resource_out_of_scope''),
     (ap_operation p \<notin> dg_operations leaf, ''operation_out_of_scope''),
     (flt (dg_risk_limit leaf) (ap_risk_score p), ''risk_out_of_scope'')]"

definition validate ::
  "runtime \<Rightarrow> delegation_validator \<Rightarrow> action_proposal \<Rightarrow> instant \<Rightarrow> delegation_validation" where
  "validate rt v p now =
     (let chain_ids = ap_delegation_chain p in
      if \<not> distinct chain_ids
      then \<lparr>dvn_valid = False, dvn_reasons = [''delegation_cycle'']\<rparr>
      else
        let (chain, reasons) = collect_chain rt v now chain_ids in
        if reasons \<noteq> [] \<or> length chain \<noteq> length chain_ids
        then \<lparr>dvn_valid = False, dvn_reasons = reasons\<rparr>
        else
          let reasons = link_reasons None chain @
                        (if chain = [] then [] else leaf_reasons p (last chain))
          in \<lparr>dvn_valid = (reasons = []), dvn_reasons = reasons\<rparr>)"

section \<open>Specification\<close>

definition grant_good :: "runtime \<Rightarrow> delegation_validator \<Rightarrow> instant \<Rightarrow> string \<Rightarrow> delegation_grant \<Rightarrow> bool"
where
  "grant_good rt v now grant_id g \<longleftrightarrow>
     dv_grants v grant_id = Some g \<and> grant_signature_ok rt v g \<and> grant_id \<notin> dv_revoked v \<and>
     dg_not_before g \<le> now \<and> now \<le> dg_expires_at g"

definition attenuates :: "delegation_grant \<Rightarrow> delegation_grant \<Rightarrow> bool" where
  "attenuates ancestor g \<longleftrightarrow>
     dg_resources g \<subseteq> dg_resources ancestor \<and> dg_operations g \<subseteq> dg_operations ancestor \<and>
     fle (dg_risk_limit g) (dg_risk_limit ancestor) \<and>
     dg_delegation_depth_remaining g < dg_delegation_depth_remaining ancestor \<and>
     dg_not_before ancestor \<le> dg_not_before g \<and> dg_expires_at g \<le> dg_expires_at ancestor"

definition linked :: "delegation_grant \<Rightarrow> delegation_grant \<Rightarrow> bool" where
  "linked parent g \<longleftrightarrow>
     dg_parent_grant_id g = Some (dg_grant_id parent) \<and> dg_issuer_id g = dg_subject_id parent"

fun linked_chain :: "delegation_grant option \<Rightarrow> delegation_grant list \<Rightarrow> bool" where
  "linked_chain _ [] = True"
| "linked_chain None (g # gs) = (dg_parent_grant_id g = None \<and> linked_chain (Some g) gs)"
| "linked_chain (Some parent) (g # gs) = (linked parent g \<and> linked_chain (Some g) gs)"

definition in_scope :: "action_proposal \<Rightarrow> delegation_grant \<Rightarrow> bool" where
  "in_scope p g \<longleftrightarrow> ap_resource p \<in> dg_resources g \<and> ap_operation p \<in> dg_operations g \<and>
     fle (ap_risk_score p) (dg_risk_limit g)"

text \<open>
  The chain of grants that the proposal names: all known, signed, unrevoked and active; linked from
  a root to a grant held by the proposing actor for the proposed mission; each grant attenuating
  \<^emph>\<open>every\<close> grant before it; and the proposed action within the scope of \<^emph>\<open>every\<close> grant.
\<close>

definition authorizes ::
  "runtime \<Rightarrow> delegation_validator \<Rightarrow> action_proposal \<Rightarrow> instant \<Rightarrow> delegation_grant list \<Rightarrow> bool"
where
  "authorizes rt v p now chain \<longleftrightarrow>
     distinct (ap_delegation_chain p) \<and>
     list_all2 (grant_good rt v now) (ap_delegation_chain p) chain \<and>
     linked_chain None chain \<and> sorted_wrt attenuates chain \<and>
     dg_subject_id (last chain) = ap_actor_id p \<and> dg_mission_id (last chain) = ap_mission_id p \<and>
     (\<forall>g \<in> set chain. in_scope p g)"

definition grants_valid :: "delegation_validator \<Rightarrow> bool" where
  "grants_valid v \<longleftrightarrow> (\<forall>k g. dv_grants v k = Some g \<longrightarrow> delegation_grant_valid g)"

section \<open>The validator decides the specification\<close>

lemma attenuates_trans: "attenuates a b \<Longrightarrow> attenuates b c \<Longrightarrow> attenuates a c"
  by (auto simp: attenuates_def intro: fle_trans)

lemma grant_reasons_empty [reason_simps]:
  "grant_reasons rt v now k g = [] \<longleftrightarrow>
     grant_signature_ok rt v g \<and> k \<notin> dv_revoked v \<and> dg_not_before g \<le> now \<and> now \<le> dg_expires_at g"
  by (simp add: grant_reasons_def reason_simps)

lemma link_checks_empty:
  assumes "delegation_grant_valid parent" "delegation_grant_valid g"
  shows "reasons_of (link_checks parent g) = [] \<longleftrightarrow> linked parent g \<and> attenuates parent g"
proof -
  have "flt (dg_risk_limit parent) (dg_risk_limit g) \<longleftrightarrow> \<not> fle (dg_risk_limit g) (dg_risk_limit parent)"
    using assms by (intro flt_iff_not_fle) (simp_all add: delegation_grant_valid_def)
  then show ?thesis by (auto simp: link_checks_def linked_def attenuates_def)
qed

lemma leaf_reasons_empty:
  assumes "delegation_grant_valid leaf" "proposal_fields_ok p"
  shows "leaf_reasons p leaf = [] \<longleftrightarrow>
     dg_subject_id leaf = ap_actor_id p \<and> dg_mission_id leaf = ap_mission_id p \<and> in_scope p leaf"
proof -
  have "flt (dg_risk_limit leaf) (ap_risk_score p) \<longleftrightarrow> \<not> fle (ap_risk_score p) (dg_risk_limit leaf)"
    using assms by (intro flt_iff_not_fle) (simp_all add: delegation_grant_valid_def proposal_fields_ok_def)
  then show ?thesis by (auto simp: leaf_reasons_def in_scope_def)
qed

lemma collect_chain_good:
  "collect_chain rt v now ids = (chain, []) \<and> length chain = length ids \<longleftrightarrow>
   list_all2 (grant_good rt v now) ids chain"
proof (induction ids arbitrary: chain)
  case Nil
  then show ?case by auto
next
  case (Cons k ids)
  obtain c r where rec: "collect_chain rt v now ids = (c, r)" by fastforce
  show ?case
  proof (cases "dv_grants v k")
    case None
    with rec show ?thesis by (auto simp: list_all2_Cons1 grant_good_def)
  next
    case (Some g)
    have good: "grant_good rt v now k h \<longleftrightarrow> h = g \<and> grant_reasons rt v now k g = []" for h
      using Some by (auto simp: grant_good_def reason_simps)
    have uniq: "list_all2 (grant_good rt v now) ids hs \<Longrightarrow> hs = c" for hs
      using Cons.IH [of hs] rec by simp
    have "collect_chain rt v now (k # ids) = (chain, []) \<and> length chain = length (k # ids) \<longleftrightarrow>
        (chain = g # c \<and> grant_reasons rt v now k g = [] \<and> r = [] \<and> length c = length ids)"
      using Some rec by auto
    also have "\<dots> \<longleftrightarrow> chain = g # c \<and> grant_good rt v now k g \<and> list_all2 (grant_good rt v now) ids c"
      using Cons.IH [of c] rec by (auto simp: good)
    also have "\<dots> \<longleftrightarrow> list_all2 (grant_good rt v now) (k # ids) chain"
      by (auto simp: list_all2_Cons1 good dest: uniq)
    finally show ?thesis .
  qed
qed

text \<open>Neighbouring attenuation is pairwise attenuation, since \<open>attenuates\<close> is transitive.\<close>

lemma link_reasons_Some_empty:
  "\<lbrakk> delegation_grant_valid parent; \<forall>g \<in> set gs. delegation_grant_valid g \<rbrakk> \<Longrightarrow>
   link_reasons (Some parent) gs = [] \<longleftrightarrow>
     linked_chain (Some parent) gs \<and> sorted_wrt attenuates (parent # gs)"
proof (induction gs arbitrary: parent)
  case Nil
  then show ?case by simp
next
  case (Cons g gs)
  have "link_reasons (Some parent) (g # gs) = [] \<longleftrightarrow>
      linked parent g \<and> attenuates parent g \<and> linked_chain (Some g) gs \<and> sorted_wrt attenuates (g # gs)"
    using Cons link_checks_empty [of parent g] by auto
  then show ?case by (auto intro: attenuates_trans)
qed

lemma link_reasons_None_empty:
  "\<forall>g \<in> set chain. delegation_grant_valid g \<Longrightarrow>
   link_reasons None chain = [] \<longleftrightarrow> linked_chain None chain \<and> sorted_wrt attenuates chain"
  by (cases chain) (auto simp: link_reasons_Some_empty)

lemma in_scope_ancestor: "attenuates a g \<Longrightarrow> in_scope p g \<Longrightarrow> in_scope p a"
  by (auto simp: attenuates_def in_scope_def intro: fle_trans)

lemma in_scope_chain:
  assumes "sorted_wrt attenuates chain" "chain \<noteq> []" "in_scope p (last chain)" "g \<in> set chain"
  shows "in_scope p g"
proof -
  have split: "chain = butlast chain @ [last chain]" using assms(2) by simp
  have "g = last chain \<or> g \<in> set (butlast chain)"
    using assms(4) split by (metis Un_iff set_append set_ConsD empty_iff empty_set)
  moreover have "\<forall>a \<in> set (butlast chain). attenuates a (last chain)"
    using assms(1) split by (metis sorted_wrt_append list.set_intros(1))
  ultimately show ?thesis using assms(3) by (auto intro: in_scope_ancestor)
qed

lemma list_all2_grants_valid:
  assumes "grants_valid v" "list_all2 (grant_good rt v now) ids chain"
  shows "\<forall>g \<in> set chain. delegation_grant_valid g"
proof
  fix g assume "g \<in> set chain"
  with assms(2) obtain k where "grant_good rt v now k g"
    by (metis in_set_conv_nth list_all2_conv_all_nth)
  with assms(1) show "delegation_grant_valid g" by (auto simp: grants_valid_def grant_good_def)
qed

lemma authorizes_nonempty:
  "proposal_fields_ok p \<Longrightarrow> authorizes rt v p now chain \<Longrightarrow> chain \<noteq> []"
  by (auto simp: authorizes_def proposal_fields_ok_def)

lemma validate_iff_authorizes:
  assumes gv: "grants_valid v" and p: "proposal_fields_ok p"
  shows "dvn_valid (validate rt v p now) \<longleftrightarrow> (\<exists>chain. authorizes rt v p now chain)"
proof -
  let ?ids = "ap_delegation_chain p"
  obtain c r where col: "collect_chain rt v now ?ids = (c, r)" by fastforce
  have ids: "?ids \<noteq> []" using p by (simp add: proposal_fields_ok_def)
  have uniq: "list_all2 (grant_good rt v now) ?ids chain \<longleftrightarrow> chain = c \<and> r = [] \<and> length c = length ?ids"
    for chain using collect_chain_good [of rt v now ?ids chain] col by auto
  have "dvn_valid (validate rt v p now) \<longleftrightarrow>
      distinct ?ids \<and> r = [] \<and> length c = length ?ids \<and>
      link_reasons None c = [] \<and> leaf_reasons p (last c) = []"
    using ids by (auto simp: validate_def col Let_def)
  also have "\<dots> \<longleftrightarrow> (\<exists>chain. authorizes rt v p now chain)"
  proof (cases "distinct ?ids \<and> r = [] \<and> length c = length ?ids")
    case False
    then show ?thesis by (auto simp: authorizes_def uniq)
  next
    case True
    then have good: "list_all2 (grant_good rt v now) ?ids c" by (simp add: uniq)
    have valid: "\<forall>g \<in> set c. delegation_grant_valid g"
      using gv good by (rule list_all2_grants_valid)
    have ne: "c \<noteq> []" using True ids by auto
    have "link_reasons None c = [] \<and> leaf_reasons p (last c) = [] \<longleftrightarrow> authorizes rt v p now c"
      using True good ne valid p
      by (auto simp: authorizes_def link_reasons_None_empty leaf_reasons_empty
          intro: in_scope_chain [OF _ ne])
    then show ?thesis using True by (auto simp: authorizes_def uniq)
  qed
  finally show ?thesis .
qed

lemma validate_valid_iff_reasons:
  assumes "proposal_fields_ok p"
  shows "dvn_reasons (validate rt v p now) = [] \<longleftrightarrow> dvn_valid (validate rt v p now)"
proof -
  have sound: "collect_chain rt v now ids = (c, []) \<Longrightarrow> length c = length ids" for ids c
    by (induction ids arbitrary: c) (auto split: prod.splits option.splits)
  show ?thesis
    using sound by (auto simp: validate_def Let_def split: prod.splits)
qed

section \<open>Consequences\<close>

text \<open>Depth strictly decreases, so the root bounds the length of the chain.\<close>

lemma sorted_depth_bound:
  "\<lbrakk> sorted_wrt attenuates (g # gs); \<forall>x \<in> set (g # gs). 0 \<le> dg_delegation_depth_remaining x \<rbrakk> \<Longrightarrow>
   int (length gs) \<le> dg_delegation_depth_remaining g"
proof (induction gs arbitrary: g)
  case Nil
  then show ?case by simp
next
  case (Cons h gs)
  then have "int (length gs) \<le> dg_delegation_depth_remaining h" by simp
  moreover have "dg_delegation_depth_remaining h < dg_delegation_depth_remaining g"
    using Cons.prems(1) by (simp add: attenuates_def)
  ultimately show ?case by simp
qed

lemma authorizes_mem_good:
  assumes "authorizes rt v p now chain" "k \<in> set (ap_delegation_chain p)"
  shows "\<exists>g \<in> set chain. grant_good rt v now k g"
proof -
  from assms(1) have "list_all2 (grant_good rt v now) (ap_delegation_chain p) chain"
    by (simp add: authorizes_def)
  then obtain i where "i < length chain" "ap_delegation_chain p ! i = k"
    "grant_good rt v now (ap_delegation_chain p ! i) (chain ! i)"
    using assms(2) by (metis in_set_conv_nth list_all2_conv_all_nth)
  then show ?thesis by (metis nth_mem)
qed

text \<open>
  The signed bytes list the resources in iteration order: two processes whose sets iterate differently sign and
  verify different bytes for the same grant.
\<close>

lemma signing_bytes_depend_on_order:
  assumes "rt_iter rt (dg_resources g) \<noteq> rt_iter rt' (dg_resources g)"
  shows "delegation_grant_signing_bytes rt g \<noteq> delegation_grant_signing_bytes rt' g"
proof -
  have "map JStr xs = map JStr ys \<longleftrightarrow> xs = ys" for xs ys by (rule inj_map_eq_map) (simp add: inj_def)
  then show ?thesis
    using assms unfolding delegation_grant_signing_bytes_def
    by (subst prod.inject, subst canonical_obj_eq) (simp_all add: str_set_def comp_def)
qed

end
