(* ===== verification/Identity_Policy.thy ===== *)
theory Identity_Policy
  imports Models
begin

text \<open>
  \<^verbatim>\<open>identity.py\<close> and \<^verbatim>\<open>policy.py\<close>: the allowlist identity verifier and the contextual reference policy,
  and the contract \<open>policy_engine\<close> on which the gateway relies for any policy implementation.
\<close>

section \<open>Identity\<close>

record allowlist_identity_verifier =
  iv_allowed_actor_ids :: "string set"
  iv_version :: string

definition identity_verify :: "allowlist_identity_verifier \<Rightarrow> string \<Rightarrow> bool" where
  "identity_verify v actor_id \<longleftrightarrow> actor_id \<in> iv_allowed_actor_ids v"

definition allowlist :: "string set \<Rightarrow> allowlist_identity_verifier" where
  "allowlist actor_ids = \<lparr>iv_allowed_actor_ids = actor_ids, iv_version = ''local-allowlist-v1''\<rparr>"

section \<open>Policy\<close>

record policy_result =
  pr_permitted :: bool
  pr_reasons :: "string list"
  pr_requires_approval :: bool

record contextual_policy =
  cp_minimum_confidence :: pyfloat
  cp_human_approval_risk_threshold :: pyfloat
  cp_version :: string

text \<open>The default \<^verbatim>\<open>minimum_confidence = 0.70\<close> is the binary64 number nearest to 0.7.\<close>

definition default_policy :: contextual_policy where
  "default_policy =
     \<lparr>cp_minimum_confidence = round64 (7 / 10), cp_human_approval_risk_threshold = Fin 75,
      cp_version = ''local-contextual-v1''\<rparr>"

definition policy_evaluate ::
  "contextual_policy \<Rightarrow> action_proposal \<Rightarrow> system_state \<Rightarrow> policy_result" where
  "policy_evaluate c p s =
     (let requires_approval = fle (cp_human_approval_risk_threshold c) (ap_risk_score p);
          reasons = reasons_of [
            (flt (ap_confidence p) (cp_minimum_confidence c), ''confidence_below_policy_minimum''),
            (ap_observed_state_version p \<noteq> ss_version s, ''state_version_mismatch''),
            (requires_approval \<and> ap_human_approval_id p = None, ''human_approval_required'')]
      in \<lparr>pr_permitted = (reasons = []), pr_reasons = reasons,
          pr_requires_approval = requires_approval\<rparr>)"

section \<open>The contract of a policy engine\<close>

text \<open>
  What the gateway needs of any \<^verbatim>\<open>PolicyEngine\<close>: permission is the absence of reasons, a stale
  state version is always a reason, and an action that requires approval is refused without one.
\<close>

locale policy_engine =
  fixes evaluate :: "action_proposal \<Rightarrow> system_state \<Rightarrow> policy_result"
  assumes permitted_iff: "pr_permitted (evaluate p s) \<longleftrightarrow> pr_reasons (evaluate p s) = []"
    and version_checked: "pr_reasons (evaluate p s) = [] \<Longrightarrow> ap_observed_state_version p = ss_version s"
    and approval_checked: "pr_requires_approval (evaluate p s) \<Longrightarrow> ap_human_approval_id p = None \<Longrightarrow>
           ''human_approval_required'' \<in> set (pr_reasons (evaluate p s))"
begin

lemma permitted_bound: "pr_permitted (evaluate p s) \<Longrightarrow> ap_observed_state_version p = ss_version s"
  by (simp add: permitted_iff version_checked)

lemma permitted_approved:
  "pr_reasons (evaluate p s) = [] \<Longrightarrow> pr_requires_approval (evaluate p s) \<Longrightarrow> ap_human_approval_id p \<noteq> None"
  using approval_checked [of p s] by auto

end

interpretation contextual: policy_engine "policy_evaluate c"
  by unfold_locales (auto simp: policy_evaluate_def Let_def split: if_splits)

lemma policy_reasons_empty [reason_simps]:
  "pr_reasons (policy_evaluate c p s) = [] \<longleftrightarrow>
     \<not> flt (ap_confidence p) (cp_minimum_confidence c) \<and>
     ap_observed_state_version p = ss_version s \<and>
     \<not> (fle (cp_human_approval_risk_threshold c) (ap_risk_score p) \<and> ap_human_approval_id p = None)"
  by (simp add: policy_evaluate_def Let_def)

lemma policy_only_approval [reason_simps]:
  "pr_reasons (policy_evaluate c p s) = [''human_approval_required''] \<longleftrightarrow>
     \<not> flt (ap_confidence p) (cp_minimum_confidence c) \<and>
     ap_observed_state_version p = ss_version s \<and>
     fle (cp_human_approval_risk_threshold c) (ap_risk_score p) \<and> ap_human_approval_id p = None"
  by (simp add: policy_evaluate_def Let_def)

end
