(* ===== verification/Safety.thy ===== *)
theory Safety
  imports Models
begin

text \<open>
  \<^verbatim>\<open>safety.py\<close>: the gateway's candidate transition and the limits it is held to.
\<close>

section \<open>Limits and the transition\<close>

record safety_limits =
  sl_minimum_critical_load_served_pct :: pyfloat
  sl_minimum_voltage_pu :: pyfloat
  sl_maximum_voltage_pu :: pyfloat
  sl_maximum_line_loading_pct :: pyfloat
  sl_maximum_simultaneous_isolations :: int

record safety_result =
  sr_safe :: bool
  sr_reasons :: "string list"
  sr_predicted_state :: system_state

record safety_kernel =
  sk_limits :: safety_limits
  sk_version :: string

definition default_limits :: safety_limits where
  "default_limits =
     \<lparr>sl_minimum_critical_load_served_pct = Fin 80,
      sl_minimum_voltage_pu = round64 (95 / 100), sl_maximum_voltage_pu = round64 (105 / 100),
      sl_maximum_line_loading_pct = Fin 100, sl_maximum_simultaneous_isolations = 2\<rparr>"

definition default_kernel :: safety_kernel where
  "default_kernel = \<lparr>sk_limits = default_limits, sk_version = ''surrogate-safety-v1''\<rparr>"

text \<open>\<^verbatim>\<open>float(proposal.parameters.get(name, 0.0))\<close>\<close>

definition param :: "action_proposal \<Rightarrow> string \<Rightarrow> pyfloat" where
  "param p name = (case map_of (ap_parameters p) name of None \<Rightarrow> Fin 0 | Some v \<Rightarrow> float_of v)"

definition transition :: "action_proposal \<Rightarrow> system_state \<Rightarrow> system_state" where
  "transition p s =
     (let isolated0 = ss_isolated_assets s; load0 = ss_critical_load_served_pct s;
          min_v0 = ss_minimum_voltage_pu s; max_v0 = ss_maximum_voltage_pu s;
          loading0 = ss_maximum_line_loading_pct s; battery0 = ss_battery_dispatch_mw s;
          (isolated, load, min_v, max_v, loading, battery) =
            (case ap_operation p of
               ISOLATE_ASSET \<Rightarrow>
                 (insert (ap_resource p) isolated0, fsub load0 (param p ''critical_load_impact_pct''),
                  min_v0, max_v0, fadd loading0 (param p ''line_loading_delta_pct''), battery0)
             | RESTORE_ASSET \<Rightarrow>
                 (isolated0 - {ap_resource p}, fadd load0 (param p ''critical_load_restore_pct''),
                  min_v0, max_v0, fadd loading0 (param p ''line_loading_delta_pct''), battery0)
             | SHED_LOAD \<Rightarrow>
                 (isolated0, fsub load0 (param p ''critical_load_impact_pct''),
                  min_v0, max_v0, fsub loading0 (param p ''line_loading_relief_pct''), battery0)
             | DISPATCH_BATTERY \<Rightarrow>
                 (isolated0, load0, fadd min_v0 (param p ''minimum_voltage_delta_pu''),
                  fadd max_v0 (param p ''maximum_voltage_delta_pu''), loading0,
                  fadd battery0 (param p ''mw'')))
      in s\<lparr>ss_version := ss_version s + 1,
           ss_critical_load_served_pct := fmax (Fin 0) (fmin (Fin 100) load),
           ss_minimum_voltage_pu := min_v,
           ss_maximum_voltage_pu := max_v,
           ss_maximum_line_loading_pct := fmax (Fin 0) loading,
           ss_isolated_assets := isolated,
           ss_battery_dispatch_mw := battery\<rparr>)"

definition safety_reasons :: "safety_limits \<Rightarrow> system_state \<Rightarrow> string list" where
  "safety_reasons l predicted = reasons_of [
     (flt (ss_critical_load_served_pct predicted) (sl_minimum_critical_load_served_pct l),
        ''critical_load_below_limit''),
     (flt (ss_minimum_voltage_pu predicted) (sl_minimum_voltage_pu l), ''voltage_below_limit''),
     (flt (sl_maximum_voltage_pu l) (ss_maximum_voltage_pu predicted), ''voltage_above_limit''),
     (flt (sl_maximum_line_loading_pct l) (ss_maximum_line_loading_pct predicted),
        ''line_loading_above_limit''),
     (int (card (ss_isolated_assets predicted)) > sl_maximum_simultaneous_isolations l,
        ''isolation_limit_exceeded'')]"

definition safety_evaluate :: "safety_kernel \<Rightarrow> action_proposal \<Rightarrow> system_state \<Rightarrow> safety_result" where
  "safety_evaluate k p s =
     (let predicted = transition p s; reasons = safety_reasons (sk_limits k) predicted
      in \<lparr>sr_safe = (reasons = []), sr_reasons = reasons, sr_predicted_state = predicted\<rparr>)"

section \<open>Specification and properties\<close>

definition limits_finite :: "safety_limits \<Rightarrow> bool" where
  "limits_finite l \<longleftrightarrow>
     is_finite (sl_minimum_critical_load_served_pct l) \<and> is_finite (sl_minimum_voltage_pu l) \<and>
     is_finite (sl_maximum_voltage_pu l) \<and> is_finite (sl_maximum_line_loading_pct l)"

definition within_limits :: "safety_limits \<Rightarrow> system_state \<Rightarrow> bool" where
  "within_limits l s \<longleftrightarrow>
     fle (sl_minimum_critical_load_served_pct l) (ss_critical_load_served_pct s) \<and>
     fle (sl_minimum_voltage_pu l) (ss_minimum_voltage_pu s) \<and>
     fle (ss_maximum_voltage_pu s) (sl_maximum_voltage_pu l) \<and>
     fle (ss_maximum_line_loading_pct s) (sl_maximum_line_loading_pct l) \<and>
     int (card (ss_isolated_assets s)) \<le> sl_maximum_simultaneous_isolations l"

lemma fadd_not_NaN: "is_finite a \<Longrightarrow> is_finite b \<Longrightarrow> fadd a b \<noteq> NaN"
  by (auto simp: is_finite_iff)

lemma fsub_not_NaN: "is_finite a \<Longrightarrow> is_finite b \<Longrightarrow> fsub a b \<noteq> NaN"
  by (auto simp: is_finite_iff fsub_def)

lemma param_finite:
  assumes "action_proposal_valid p"
  shows "is_finite (param p name)"
  using action_proposal_validD(3) [OF assms] map_of_SomeD [of "ap_parameters p" name]
  by (auto simp: param_def split: option.splits)

text \<open>No measured quantity of the predicted state is a NaN, so the comparisons are meaningful.\<close>

definition measures_not_NaN :: "system_state \<Rightarrow> bool" where
  "measures_not_NaN s \<longleftrightarrow> ss_critical_load_served_pct s \<noteq> NaN \<and> ss_minimum_voltage_pu s \<noteq> NaN \<and>
     ss_maximum_voltage_pu s \<noteq> NaN \<and> ss_maximum_line_loading_pct s \<noteq> NaN"

lemma transition_not_NaN:
  assumes p: "action_proposal_valid p" and s: "system_state_valid s"
  shows "measures_not_NaN (transition p s)"
proof -
  have fin: "is_finite (param p name)" for name using p by (rule param_finite)
  show ?thesis
    using s finite_not_NaN
    by (auto simp: measures_not_NaN_def transition_def Let_def system_state_valid_def fmax_def
        fmin_def fadd_not_NaN fsub_not_NaN fin split: operation.splits)
qed

lemma safety_reasons_empty:
  assumes "measures_not_NaN s" "limits_finite l"
  shows "safety_reasons l s = [] \<longleftrightarrow> within_limits l s"
proof -
  have l: "sl_minimum_critical_load_served_pct l \<noteq> NaN" "sl_minimum_voltage_pu l \<noteq> NaN"
    "sl_maximum_voltage_pu l \<noteq> NaN" "sl_maximum_line_loading_pct l \<noteq> NaN"
    using assms(2) by (auto simp: limits_finite_def)
  show ?thesis
    using assms(1) l
    by (simp add: safety_reasons_def within_limits_def measures_not_NaN_def not_flt
        reasons_of_empty linorder_not_less del: reasons_of_Cons)
qed

lemma safe_iff_within_limits:
  assumes "action_proposal_valid p" "system_state_valid s" "limits_finite (sk_limits k)"
  shows "sr_reasons (safety_evaluate k p s) = [] \<longleftrightarrow> within_limits (sk_limits k) (transition p s)"
  using safety_reasons_empty [OF transition_not_NaN [OF assms(1,2)] assms(3)]
  by (simp add: safety_evaluate_def Let_def)

lemma transition_version [simp]: "ss_version (transition p s) = ss_version s + 1"
  by (simp add: transition_def Let_def split: operation.splits)

lemma transition_observed_at [simp]: "ss_observed_at (transition p s) = ss_observed_at s"
  by (simp add: transition_def Let_def split: operation.splits)

lemma transition_load_bounds:
  "fle (Fin 0) (ss_critical_load_served_pct (transition p s)) \<and>
   fle (ss_critical_load_served_pct (transition p s)) (Fin 100)"
  using clamp_bounds [of 0 100] by (auto simp: transition_def Let_def split: operation.splits)

lemma safety_predicted [simp]: "sr_predicted_state (safety_evaluate k p s) = transition p s"
  by (simp add: safety_evaluate_def Let_def)

end
