(* ===== verification/Replay.thy ===== *)
theory Replay
  imports Models
begin

text \<open>
  \<^verbatim>\<open>replay.py\<close>: the in-memory nonce ledger with a retention window. The contract \<open>nonce_ledger\<close> is
  what the gateway relies on; its lemma \<open>refused_after\<close> covers any sequence of reservations.
\<close>

section \<open>The ledger\<close>

record replay_ledger =
  rl_retention :: duration
  rl_seen :: "string \<Rightarrow> instant option"

definition new_ledger :: "duration \<Rightarrow> replay_ledger" where
  "new_ledger retention = \<lparr>rl_retention = retention, rl_seen = Map.empty\<rparr>"

definition prune :: "instant \<Rightarrow> (string \<Rightarrow> instant option) \<Rightarrow> string \<Rightarrow> instant option" where
  "prune cutoff seen = (\<lambda>value. case seen value of
     None \<Rightarrow> None | Some seen_at \<Rightarrow> if seen_at \<ge> cutoff then Some seen_at else None)"

definition reserve :: "replay_ledger \<Rightarrow> string \<Rightarrow> instant \<Rightarrow> replay_ledger \<times> bool" where
  "reserve l nonce now =
     (let cutoff = now - rl_retention l;
          seen = prune cutoff (rl_seen l)
      in if seen nonce \<noteq> None then (l\<lparr>rl_seen := seen\<rparr>, False)
         else (l\<lparr>rl_seen := seen(nonce \<mapsto> now)\<rparr>, True))"

definition contains :: "replay_ledger \<Rightarrow> string \<Rightarrow> bool" where
  "contains l nonce \<longleftrightarrow> rl_seen l nonce \<noteq> None"

section \<open>The contract of a nonce ledger\<close>

definition run_reserve :: "('l \<Rightarrow> string \<Rightarrow> instant \<Rightarrow> 'l \<times> bool) \<Rightarrow> (string \<times> instant) list \<Rightarrow> 'l \<Rightarrow> 'l"
where
  "run_reserve res calls l = fold (\<lambda>(nonce, now) l. fst (res l nonce now)) calls l"

locale nonce_ledger =
  fixes res :: "'l \<Rightarrow> string \<Rightarrow> instant \<Rightarrow> 'l \<times> bool"
    and seen_at :: "'l \<Rightarrow> string \<Rightarrow> instant option"
    and window :: "'l \<Rightarrow> duration"
  assumes window_kept: "window (fst (res l n t)) = window l"
    and fresh_accepted: "seen_at l n = None \<Longrightarrow> snd (res l n t)"
    and accepted_recorded: "snd (res l n t) \<Longrightarrow> seen_at (fst (res l n t)) n = Some t"
    and recorded_refused: "seen_at l n = Some t0 \<Longrightarrow> t \<le> t0 + window l \<Longrightarrow> \<not> snd (res l n t)"
    and recorded_kept: "seen_at l n = Some t0 \<Longrightarrow> t \<le> t0 + window l \<Longrightarrow> seen_at (fst (res l m t)) n = Some t0"
begin

lemma run_kept:
  "seen_at l n = Some t0 \<Longrightarrow> \<forall>(m, t) \<in> set calls. t \<le> t0 + window l \<Longrightarrow>
   seen_at (run_reserve res calls l) n = Some t0 \<and> window (run_reserve res calls l) = window l"
proof (induction calls arbitrary: l)
  case Nil
  then show ?case by (simp add: run_reserve_def)
next
  case (Cons c calls)
  obtain m t where c: "c = (m, t)" by (cases c)
  with Cons.prems have "t \<le> t0 + window l" by simp
  then have "seen_at (fst (res l m t)) n = Some t0" using Cons.prems(1) recorded_kept by blast
  moreover have "window (fst (res l m t)) = window l" by (rule window_kept)
  ultimately show ?case using Cons.IH [of "fst (res l m t)"] Cons.prems(2)
    by (simp add: run_reserve_def c)
qed

text \<open>An accepted nonce is refused again until its retention window has passed.\<close>

lemma refused_after:
  assumes "snd (res l n t0)" and "\<forall>(m, t) \<in> set calls. t \<le> t0 + window l" and "t1 \<le> t0 + window l"
  shows "\<not> snd (res (run_reserve res calls (fst (res l n t0))) n t1)"
proof -
  have "seen_at (fst (res l n t0)) n = Some t0" using assms(1) by (rule accepted_recorded)
  from run_kept [OF this, of calls] assms(2)
  have "seen_at (run_reserve res calls (fst (res l n t0))) n = Some t0"
    and "window (run_reserve res calls (fst (res l n t0))) = window l"
    by (simp_all add: window_kept)
  with assms(3) show ?thesis by (intro recorded_refused) simp_all
qed

end

interpretation ledger: nonce_ledger reserve rl_seen rl_retention
proof unfold_locales
  fix l :: replay_ledger and n m :: string and t t0 :: instant
  show "rl_retention (fst (reserve l n t)) = rl_retention l"
    by (simp add: reserve_def Let_def)
  show "rl_seen l n = None \<Longrightarrow> snd (reserve l n t)"
    by (simp add: reserve_def Let_def prune_def)
  show "snd (reserve l n t) \<Longrightarrow> rl_seen (fst (reserve l n t)) n = Some t"
    by (simp add: reserve_def Let_def split: if_splits)
  show "rl_seen l n = Some t0 \<Longrightarrow> t \<le> t0 + rl_retention l \<Longrightarrow> \<not> snd (reserve l n t)"
    by (simp add: reserve_def Let_def prune_def)
  show "rl_seen l n = Some t0 \<Longrightarrow> t \<le> t0 + rl_retention l \<Longrightarrow> rl_seen (fst (reserve l m t)) n = Some t0"
    by (auto simp: reserve_def Let_def prune_def)
qed

section \<open>Exact behaviour and bounded memory\<close>

lemma reserve_accepts_iff:
  "snd (reserve l n t) \<longleftrightarrow> (\<forall>t0. rl_seen l n = Some t0 \<longrightarrow> t0 + rl_retention l < t)"
  by (auto simp: reserve_def Let_def prune_def split: option.splits if_splits)

lemma reserve_forgets:
  assumes "rl_seen (fst (reserve l n t)) m = Some t0" "0 \<le> rl_retention l"
  shows "t - rl_retention l \<le> t0"
  using assms by (auto simp: reserve_def Let_def prune_def split: option.splits if_splits)

end
