(* ===== verification/Evidence.thy ===== *)
theory Evidence
  imports Models
begin

text \<open>
  \<^verbatim>\<open>evidence.py\<close>: the hash-chained decision log. Besides the invariant that every append keeps the
  chain verifiable, the last theorem shows that the hash of the last record commits to the whole log:
  two verifiable logs with the same head are equal unless two different JSON values have the same
  digest.
\<close>

section \<open>The chain\<close>

record evidence_record =
  ev_sequence :: int
  ev_recorded_at :: instant
  ev_proposal_id :: string
  ev_decision_id :: string
  ev_previous_hash :: string
  ev_payload :: json
  ev_record_hash :: string

type_synonym evidence_chain = "evidence_record list"

definition evidence_material ::
  "int \<Rightarrow> instant \<Rightarrow> string \<Rightarrow> string \<Rightarrow> string \<Rightarrow> json \<Rightarrow> json" where
  "evidence_material sequence recorded_at proposal_id decision_id previous_hash payload = JObj [
     (''sequence'', JInt sequence),
     (''recorded_at'', JTime recorded_at),
     (''proposal_id'', JStr proposal_id),
     (''decision_id'', JStr decision_id),
     (''previous_hash'', JStr previous_hash),
     (''payload'', payload)]"

definition evidence_append ::
  "runtime \<Rightarrow> instant \<Rightarrow> evidence_chain \<Rightarrow> string \<Rightarrow> string \<Rightarrow> json \<Rightarrow> evidence_chain \<times> evidence_record"
where
  "evidence_append rt recorded_at records proposal_id decision_id payload =
     (let sequence = int (length records);
          previous_hash = (if records \<noteq> [] then ev_record_hash (last records) else zero_digest);
          material = evidence_material sequence recorded_at proposal_id decision_id previous_hash payload;
          record = \<lparr>ev_sequence = sequence, ev_recorded_at = recorded_at,
                    ev_proposal_id = proposal_id, ev_decision_id = decision_id,
                    ev_previous_hash = previous_hash, ev_payload = payload,
                    ev_record_hash = canonical_digest rt material\<rparr>
      in (records @ [record], record))"

definition record_material :: "evidence_record \<Rightarrow> json" where
  "record_material r = evidence_material (ev_sequence r) (ev_recorded_at r) (ev_proposal_id r)
     (ev_decision_id r) (ev_previous_hash r) (ev_payload r)"

fun verify_from :: "runtime \<Rightarrow> string \<Rightarrow> evidence_chain \<Rightarrow> bool" where
  "verify_from rt previous_hash [] = True"
| "verify_from rt previous_hash (record # rest) =
     (if ev_previous_hash record \<noteq> previous_hash \<or>
         ev_record_hash record \<noteq> canonical_digest rt (record_material record)
      then False
      else verify_from rt (ev_record_hash record) rest)"

definition evidence_verify :: "runtime \<Rightarrow> evidence_chain \<Rightarrow> bool" where
  "evidence_verify rt records = verify_from rt zero_digest records"

section \<open>The contract of an evidence log\<close>

text \<open>
  What the gateway, the permit issuer and the controllers rely on: an append adds one record at the
  end, returns it, binds the caller's identifiers and payload, and keeps the log verifiable.
\<close>

locale evidence_log =
  fixes add :: "instant \<Rightarrow> 'l \<Rightarrow> string \<Rightarrow> string \<Rightarrow> json \<Rightarrow> 'l \<times> evidence_record"
    and entries :: "'l \<Rightarrow> evidence_record list"
    and check :: "'l \<Rightarrow> bool"
  assumes add_entries: "entries (fst (add t l p d pl)) = entries l @ [snd (add t l p d pl)]"
    and add_fields: "ev_proposal_id (snd (add t l p d pl)) = p"
      "ev_decision_id (snd (add t l p d pl)) = d" "ev_payload (snd (add t l p d pl)) = pl"
    and add_check: "check (fst (add t l p d pl)) \<longleftrightarrow> check l"
begin

lemma add_found:
  "snd (add t l p d pl) \<in> set (entries (fst (add t l p d pl)))"
  by (simp add: add_entries)

lemma add_prefix: "\<exists>r. entries (fst (add t l p d pl)) = entries l @ [r] \<and> ev_proposal_id r = p \<and>
    ev_decision_id r = d \<and> ev_payload r = pl"
  by (simp add: add_entries add_fields)

end

lemma verify_from_append:
  "verify_from rt h (xs @ ys) \<longleftrightarrow>
     verify_from rt h xs \<and> verify_from rt (if xs = [] then h else ev_record_hash (last xs)) ys"
  by (induction xs arbitrary: h) auto

interpretation log: evidence_log "evidence_append rt" "\<lambda>records. records" "evidence_verify rt"
proof unfold_locales
  fix t l p d pl
  show "fst (evidence_append rt t l p d pl) = l @ [snd (evidence_append rt t l p d pl)]"
    by (simp add: evidence_append_def Let_def)
  show "ev_proposal_id (snd (evidence_append rt t l p d pl)) = p"
    "ev_decision_id (snd (evidence_append rt t l p d pl)) = d"
    "ev_payload (snd (evidence_append rt t l p d pl)) = pl"
    by (simp_all add: evidence_append_def Let_def)
  show "evidence_verify rt (fst (evidence_append rt t l p d pl)) \<longleftrightarrow> evidence_verify rt l"
    by (auto simp: evidence_append_def Let_def evidence_verify_def verify_from_append
        record_material_def)
qed

section \<open>Numbering, truncation and tampering\<close>

definition numbered :: "evidence_chain \<Rightarrow> bool" where
  "numbered records \<longleftrightarrow> (\<forall>i < length records. ev_sequence (records ! i) = int i)"

lemma numbered_append:
  "numbered records \<Longrightarrow> numbered (fst (evidence_append rt t records p d pl))"
  by (auto simp: numbered_def evidence_append_def Let_def nth_append)

lemma numbered_Nil [simp]: "numbered []"
  by (simp add: numbered_def)

lemma numbered_snoc: "numbered (xs @ [r]) \<longleftrightarrow> numbered xs \<and> ev_sequence r = int (length xs)"
  by (auto simp: numbered_def nth_append less_Suc_eq)

lemma verify_take: "evidence_verify rt records \<Longrightarrow> evidence_verify rt (take n records)"
  unfolding evidence_verify_def by (metis append_take_drop_id verify_from_append)

lemma verify_record:
  "evidence_verify rt (xs @ [r]) \<longleftrightarrow>
     evidence_verify rt xs \<and> ev_previous_hash r = (if xs = [] then zero_digest else ev_record_hash (last xs)) \<and>
     ev_record_hash r = canonical_digest rt (record_material r)"
  by (auto simp: evidence_verify_def verify_from_append)

text \<open>A record up to the order of the members of its payload.\<close>

definition record_canon :: "evidence_record \<Rightarrow> evidence_record" where
  "record_canon r = r\<lparr>ev_payload := canonical (ev_payload r)\<rparr>"

definition collision :: "runtime \<Rightarrow> json \<Rightarrow> json \<Rightarrow> bool" where
  "collision rt x y \<longleftrightarrow> canonical x \<noteq> canonical y \<and> canonical_digest rt x = canonical_digest rt y"

lemma record_material_canonical:
  "canonical (record_material r) = canonical (record_material q) \<longleftrightarrow>
     ev_sequence r = ev_sequence q \<and> ev_recorded_at r = ev_recorded_at q \<and>
     ev_proposal_id r = ev_proposal_id q \<and> ev_decision_id r = ev_decision_id q \<and>
     ev_previous_hash r = ev_previous_hash q \<and> canonical (ev_payload r) = canonical (ev_payload q)"
  unfolding record_material_def evidence_material_def by (subst canonical_obj_eq) simp_all

lemma same_hash_same_record:
  assumes "ev_record_hash r = canonical_digest rt (record_material r)"
    and "ev_record_hash q = canonical_digest rt (record_material q)"
    and "ev_record_hash r = ev_record_hash q"
  shows "record_canon r = record_canon q \<or> collision rt (record_material r) (record_material q)"
proof (cases "canonical (record_material r) = canonical (record_material q)")
  case True
  then show ?thesis
    using assms(3) by (auto simp: record_material_canonical record_canon_def intro!: evidence_record.equality)
next
  case False
  then show ?thesis using assms by (simp add: collision_def)
qed

definition head_hash :: "evidence_chain \<Rightarrow> string" where
  "head_hash records = (if records = [] then zero_digest else ev_record_hash (last records))"

text \<open>
  (C28) The newest hash binds the whole log: two verifying, numbered, non-empty logs with the same newest
  hash hold the same records, up to the order of the members of their payloads, unless two different
  record contents in them have the same digest.
\<close>
theorem head_binds_log:
  assumes "evidence_verify rt xs" "evidence_verify rt ys" "numbered xs" "numbered ys"
    and "xs \<noteq> []" "ys \<noteq> []" "head_hash xs = head_hash ys"
  shows "map record_canon xs = map record_canon ys \<or>
         (\<exists>r \<in> set xs. \<exists>q \<in> set ys. collision rt (record_material r) (record_material q))"
  using assms
proof (induction xs arbitrary: ys rule: rev_induct)
  case Nil
  then show ?case by simp
next
  case (snoc r xs)
  obtain ys' q where ys: "ys = ys' @ [q]" using snoc.prems(6) by (cases ys rule: rev_cases) auto
  have r: "ev_record_hash r = canonical_digest rt (record_material r)"
    and pr: "ev_previous_hash r = head_hash xs" and vx: "evidence_verify rt xs"
    using snoc.prems(1) by (auto simp: verify_record head_hash_def)
  have q: "ev_record_hash q = canonical_digest rt (record_material q)"
    and pq: "ev_previous_hash q = head_hash ys'" and vy: "evidence_verify rt ys'"
    using snoc.prems(2) by (auto simp: ys verify_record head_hash_def)
  have hash: "ev_record_hash r = ev_record_hash q"
    using snoc.prems(7) by (simp add: ys head_hash_def)
  show ?case
  proof (cases "record_canon r = record_canon q")
    case False
    then have "collision rt (record_material r) (record_material q)"
      using same_hash_same_record [OF r q hash] by blast
    then show ?thesis by (auto simp: ys)
  next
    case True
    then have "ev_sequence r = ev_sequence q" "ev_previous_hash r = ev_previous_hash q"
      by (auto simp: record_canon_def dest: arg_cong [of _ _ ev_sequence] arg_cong [of _ _ ev_previous_hash])
    then have len: "length xs = length ys'" and heads: "head_hash xs = head_hash ys'"
      using snoc.prems(3,4) pr pq by (auto simp: ys numbered_snoc)
    show ?thesis
    proof (cases "xs = []")
      case True
      then show ?thesis using len \<open>record_canon r = record_canon q\<close> by (simp add: ys)
    next
      case False
      then have "ys' \<noteq> []" using len by auto
      from snoc.IH [OF vx vy _ _ False this heads] snoc.prems(3,4)
      have "map record_canon xs = map record_canon ys' \<or>
          (\<exists>r \<in> set xs. \<exists>q \<in> set ys'. collision rt (record_material r) (record_material q))"
        by (simp add: ys numbered_snoc)
      then show ?thesis using \<open>record_canon r = record_canon q\<close> by (auto simp: ys)
    qed
  qed
qed

definition demo_record :: "string \<Rightarrow> evidence_record" where
  "demo_record decision_id = snd (evidence_append demo_runtime 0 [] ''proposal-1'' decision_id JNull)"

theorem head_binds_log_witness:
  "map record_canon [demo_record ''decision-1''] = map record_canon [demo_record ''decision-2''] \<or>
   collision demo_runtime (record_material (demo_record ''decision-1'')) (record_material (demo_record ''decision-2''))"
  using head_binds_log [of demo_runtime "[demo_record ''decision-1'']" "[demo_record ''decision-2'']"]
  by (simp add: demo_record_def evidence_append_def evidence_verify_def numbered_def Let_def record_material_def head_hash_def)

end
