(* ===== verification/Degraded.thy ===== *)
theory Degraded
  imports Models
begin

text \<open>
  \<^verbatim>\<open>m5_degraded.py\<close>: the degraded-operation gate that runs before every primary assurance check, its
  signed leases and reversals, and the durable state that makes both monotonic. The sources the gate
  reads and the faults of its state store are the fields of \<open>degraded_env\<close>.
\<close>

section \<open>Roles, conditions and behaviours\<close>

datatype degraded_role =
  IDENTITY | POLICY | EVIDENCE | GATEWAY | OBSERVER | EVALUATOR | COORDINATION | MANAGEMENT | OT_ADAPTER

datatype role_condition = HEALTHY | UNAVAILABLE | UNTRUSTED | UNKNOWN | CONFLICTING | COMPROMISED

datatype degraded_behavior = SAFE_STATE | HOLD_STATE | MISSION_PRESERVING

datatype admission_outcome = CONTINUE_PRIMARY_ASSURANCE | ADMIT_SAFE_STATE | ADMIT_HOLD_STATE

fun role_value :: "degraded_role \<Rightarrow> string" where
  "role_value IDENTITY = ''identity''"
| "role_value POLICY = ''policy''"
| "role_value EVIDENCE = ''evidence''"
| "role_value GATEWAY = ''gateway''"
| "role_value OBSERVER = ''observer''"
| "role_value EVALUATOR = ''candidate_evaluator''"
| "role_value COORDINATION = ''coordination''"
| "role_value MANAGEMENT = ''management''"
| "role_value OT_ADAPTER = ''ot_adapter''"

fun condition_value :: "role_condition \<Rightarrow> string" where
  "condition_value HEALTHY = ''healthy''"
| "condition_value UNAVAILABLE = ''unavailable''"
| "condition_value UNTRUSTED = ''untrusted''"
| "condition_value UNKNOWN = ''unknown''"
| "condition_value CONFLICTING = ''conflicting''"
| "condition_value COMPROMISED = ''compromised''"

fun behavior_value :: "degraded_behavior \<Rightarrow> string" where
  "behavior_value SAFE_STATE = ''safe_state''"
| "behavior_value HOLD_STATE = ''hold_state''"
| "behavior_value MISSION_PRESERVING = ''mission_preserving''"

fun admission_value :: "admission_outcome \<Rightarrow> string" where
  "admission_value CONTINUE_PRIMARY_ASSURANCE = ''continue_primary_assurance''"
| "admission_value ADMIT_SAFE_STATE = ''safe_state''"
| "admission_value ADMIT_HOLD_STATE = ''hold_state''"

text \<open>\<^verbatim>\<open>for role in DegradedRole\<close>: declaration order.\<close>

definition all_roles :: "degraded_role list" where
  "all_roles = [IDENTITY, POLICY, EVIDENCE, GATEWAY, OBSERVER, EVALUATOR, COORDINATION, MANAGEMENT, OT_ADAPTER]"

lemma all_roles_complete [simp]: "r \<in> set all_roles"
  by (cases r) (simp_all add: all_roles_def)

text \<open>\<^verbatim>\<open>ROLE_LOSS_POLICIES\<close>: the behaviour and the mission-preserving eligibility of each role.\<close>

fun role_loss_behavior :: "degraded_role \<Rightarrow> degraded_behavior" where
  "role_loss_behavior IDENTITY = SAFE_STATE"
| "role_loss_behavior POLICY = SAFE_STATE"
| "role_loss_behavior EVIDENCE = HOLD_STATE"
| "role_loss_behavior GATEWAY = SAFE_STATE"
| "role_loss_behavior OBSERVER = HOLD_STATE"
| "role_loss_behavior EVALUATOR = HOLD_STATE"
| "role_loss_behavior COORDINATION = HOLD_STATE"
| "role_loss_behavior MANAGEMENT = MISSION_PRESERVING"
| "role_loss_behavior OT_ADAPTER = HOLD_STATE"

fun role_loss_eligible :: "degraded_role \<Rightarrow> bool" where
  "role_loss_eligible MANAGEMENT = True"
| "role_loss_eligible _ = False"

lemma role_loss_consistent: "role_loss_eligible r \<longleftrightarrow> role_loss_behavior r = MISSION_PRESERVING"
  by (cases r) simp_all

section \<open>Snapshots, leases and reversals\<close>

record degraded_snapshot =
  sn_snapshot_id :: string
  sn_captured_at :: instant
  sn_role_conditions :: "degraded_role \<Rightarrow> role_condition"
  sn_communication_conditions :: "degraded_role \<Rightarrow> role_condition"
  sn_unresolved_effect :: bool

text \<open>The validator admits a view only if it covers every role.\<close>

definition require_complete_view ::
  "(degraded_role \<Rightarrow> role_condition option) \<Rightarrow> (degraded_role \<Rightarrow> role_condition) res" where
  "require_complete_view view =
     (if list_all (\<lambda>r. view r \<noteq> None) all_roles then Inr (\<lambda>r. the (view r)) else Inl ValidationError)"

definition affected_roles :: "degraded_snapshot \<Rightarrow> degraded_role set" where
  "affected_roles s = set (filter (\<lambda>r. sn_role_conditions s r \<noteq> HEALTHY \<or>
     sn_communication_conditions s r \<noteq> HEALTHY) all_roles)"

definition snapshot_digest :: "runtime \<Rightarrow> degraded_snapshot \<Rightarrow> string" where
  "snapshot_digest rt s = canonical_digest rt (JObj [
     (''snapshot_id'', JStr (sn_snapshot_id s)),
     (''captured_at'', JTime (sn_captured_at s)),
     (''role_conditions'', JObj (map (\<lambda>r. (role_value r, JStr (condition_value (sn_role_conditions s r)))) all_roles)),
     (''communication_conditions'', JObj (map (\<lambda>r. (role_value r, JStr (condition_value (sn_communication_conditions s r)))) all_roles)),
     (''unresolved_effect'', JBool (sn_unresolved_effect s))])"

record degraded_authorization =
  da_authorization_id :: string
  da_sequence :: int
  da_authority_id :: string
  da_mode_name :: string
  da_behavior :: degraded_behavior
  da_affected_roles :: "degraded_role set"
  da_allowed_actor_ids :: "string set"
  da_allowed_mission_ids :: "string set"
  da_allowed_resources :: "string set"
  da_allowed_operations :: "operation set"
  da_maximum_risk_score :: pyfloat
  da_snapshot_sha256 :: string
  da_recovery_checkpoint_id :: string
  da_nonce :: string
  da_issued_at :: instant
  da_expires_at :: instant
  da_signature :: string

definition canonical_text :: "string \<Rightarrow> bool" where
  "canonical_text value \<longleftrightarrow> value \<noteq> [] \<and> no_whitespace value"

text \<open>The pattern \<^verbatim>\<open>^[a-z0-9][a-z0-9._:-]{2,127}$\<close> of a mode name.\<close>

definition mode_name_ok :: "string \<Rightarrow> bool" where
  "mode_name_ok name \<longleftrightarrow> len_between 3 128 name \<and> hd name \<in> set ''abcdefghijklmnopqrstuvwxyz0123456789'' \<and>
     list_all (\<lambda>c. c \<in> set ''abcdefghijklmnopqrstuvwxyz0123456789._:-'') name"

definition degraded_authorization_valid :: "degraded_authorization \<Rightarrow> bool" where
  "degraded_authorization_valid a \<longleftrightarrow>
     len_between 16 128 (da_authorization_id a) \<and> 1 \<le> da_sequence a \<and>
     len_between 1 256 (da_authority_id a) \<and> mode_name_ok (da_mode_name a) \<and>
     da_affected_roles a \<noteq> {} \<and>
     da_allowed_actor_ids a \<noteq> {} \<and> card (da_allowed_actor_ids a) \<le> 128 \<and>
     da_allowed_mission_ids a \<noteq> {} \<and> card (da_allowed_mission_ids a) \<le> 32 \<and>
     da_allowed_resources a \<noteq> {} \<and> card (da_allowed_resources a) \<le> 128 \<and>
     da_allowed_operations a \<noteq> {} \<and>
     fle (Fin 0) (da_maximum_risk_score a) \<and> fle (da_maximum_risk_score a) (Fin 100) \<and>
     is_hex_digest (da_snapshot_sha256 a) \<and> len_between 16 128 (da_recovery_checkpoint_id a) \<and>
     len_between 16 256 (da_nonce a) \<and> \<not> da_expires_at a \<le> da_issued_at a \<and>
     (\<forall>value \<in> {da_authorization_id a, da_authority_id a, da_mode_name a,
                da_recovery_checkpoint_id a, da_nonce a} \<union> da_allowed_actor_ids a \<union>
                da_allowed_mission_ids a \<union> da_allowed_resources a. canonical_text value)"

definition sorted_strs :: "string set \<Rightarrow> json" where
  "sorted_strs S = JArr (map JStr (sorted_list_of_set S))"

definition authorization_fields :: "degraded_authorization \<Rightarrow> (string \<times> json) list" where
  "authorization_fields a = [
     (''schema_version'', JStr ''aegis-ot-m5-degraded-mode-authorization-v1''),
     (''authorization_id'', JStr (da_authorization_id a)),
     (''sequence'', JInt (da_sequence a)),
     (''authority_id'', JStr (da_authority_id a)),
     (''mode_name'', JStr (da_mode_name a)),
     (''behavior'', JStr (behavior_value (da_behavior a))),
     (''affected_roles'', sorted_strs (role_value ` da_affected_roles a)),
     (''allowed_actor_ids'', sorted_strs (da_allowed_actor_ids a)),
     (''allowed_mission_ids'', sorted_strs (da_allowed_mission_ids a)),
     (''allowed_resources'', sorted_strs (da_allowed_resources a)),
     (''allowed_operations'', sorted_strs (operation_value ` da_allowed_operations a)),
     (''maximum_risk_score'', jfloat (da_maximum_risk_score a)),
     (''snapshot_sha256'', JStr (da_snapshot_sha256 a)),
     (''recovery_checkpoint_id'', JStr (da_recovery_checkpoint_id a)),
     (''nonce'', JStr (da_nonce a)),
     (''issued_at'', JTime (da_issued_at a)),
     (''expires_at'', JTime (da_expires_at a))]"

definition authorization_signing_payload :: "degraded_authorization \<Rightarrow> payload" where
  "authorization_signing_payload a =
     (''aegis-ot:m5:degraded-mode-authorization:v1'', canonical (JObj (authorization_fields a)))"

definition authorization_digest :: "runtime \<Rightarrow> degraded_authorization \<Rightarrow> string" where
  "authorization_digest rt a =
     canonical_digest rt (JObj (authorization_fields a @ [(''signature'', JStr (da_signature a))]))"

record degraded_reversal =
  rv_reversal_id :: string
  rv_sequence :: int
  rv_authority_id :: string
  rv_authorization_id :: string
  rv_authorization_sha256 :: string
  rv_recovery_checkpoint_id :: string
  rv_reason_code :: string
  rv_nonce :: string
  rv_issued_at :: instant
  rv_signature :: string

definition reversal_fields :: "degraded_reversal \<Rightarrow> (string \<times> json) list" where
  "reversal_fields r = [
     (''schema_version'', JStr ''aegis-ot-m5-degraded-mode-reversal-v1''),
     (''reversal_id'', JStr (rv_reversal_id r)),
     (''sequence'', JInt (rv_sequence r)),
     (''authority_id'', JStr (rv_authority_id r)),
     (''authorization_id'', JStr (rv_authorization_id r)),
     (''authorization_sha256'', JStr (rv_authorization_sha256 r)),
     (''recovery_checkpoint_id'', JStr (rv_recovery_checkpoint_id r)),
     (''reason_code'', JStr (rv_reason_code r)),
     (''nonce'', JStr (rv_nonce r)),
     (''issued_at'', JTime (rv_issued_at r))]"

definition reversal_signing_payload :: "degraded_reversal \<Rightarrow> payload" where
  "reversal_signing_payload r =
     (''aegis-ot:m5:degraded-mode-reversal:v1'', canonical (JObj (reversal_fields r)))"

definition reversal_digest :: "runtime \<Rightarrow> degraded_reversal \<Rightarrow> string" where
  "reversal_digest rt r =
     canonical_digest rt (JObj (reversal_fields r @ [(''signature'', JStr (rv_signature r))]))"

section \<open>Durable state\<close>

record degraded_state =
  ds_authority_id :: string
  ds_highest_authorization_sequence :: int
  ds_active_authorization_sha256 :: "string option"
  ds_highest_reversal_sequence :: int
  ds_accepted_reversal_nonce_sha256 :: "string list"
  ds_revoked_authorization_sha256 :: "string list"

definition max_degraded_state_entries :: nat where
  "max_degraded_state_entries = 10000"

definition digests_sorted_unique :: "string list \<Rightarrow> bool" where
  "digests_sorted_unique ds \<longleftrightarrow>
     list_all is_hex_digest ds \<and> sorted ds \<and> distinct ds \<and> length ds \<le> max_degraded_state_entries"

definition degraded_state_valid :: "degraded_state \<Rightarrow> bool" where
  "degraded_state_valid s \<longleftrightarrow>
     len_between 1 256 (ds_authority_id s) \<and>
     0 \<le> ds_highest_authorization_sequence s \<and> 0 \<le> ds_highest_reversal_sequence s \<and>
     (case ds_active_authorization_sha256 s of None \<Rightarrow> True | Some d \<Rightarrow> is_hex_digest d) \<and>
     digests_sorted_unique (ds_accepted_reversal_nonce_sha256 s) \<and>
     digests_sorted_unique (ds_revoked_authorization_sha256 s) \<and>
     (ds_highest_authorization_sequence s = 0 \<longleftrightarrow> ds_active_authorization_sha256 s = None)"

definition degraded_state_initial :: "string \<Rightarrow> degraded_state" where
  "degraded_state_initial authority_id =
     \<lparr>ds_authority_id = authority_id, ds_highest_authorization_sequence = 0,
      ds_active_authorization_sha256 = None, ds_highest_reversal_sequence = 0,
      ds_accepted_reversal_nonce_sha256 = [], ds_revoked_authorization_sha256 = []\<rparr>"

definition make_degraded_state :: "degraded_state \<Rightarrow> degraded_state res" where
  "make_degraded_state s = (if degraded_state_valid s then Inr s else Inl ValidationError)"

text \<open>
  An update of the store runs a transition on the current state. The file store can fail before the
  transition runs, after it but before the file is replaced, or after the file has been replaced
  (when the directory cannot be synchronised); the in-memory store has no such faults.
\<close>

datatype store_fault = No_Fault | Read_Fails | Write_Fails | Sync_Fails

definition store_update ::
  "store_fault \<Rightarrow> (degraded_state \<Rightarrow> (degraded_state \<times> 'a) res) \<Rightarrow> degraded_state \<Rightarrow>
   degraded_state \<times> 'a option \<times> bool" where
  "store_update fault transition state =
     (if fault = Read_Fails then (state, None, True)
      else case transition state of
        Inl _ \<Rightarrow> (state, None, True)
      | Inr (updated, out) \<Rightarrow>
          if ds_authority_id updated \<noteq> ds_authority_id state then (state, Some out, True)
          else if fault = Write_Fails then (state, Some out, True)
          else if fault = Sync_Fails then (updated, Some out, True)
          else (updated, Some out, False))"

section \<open>The gate\<close>

record degraded_gate =
  gate_authority_id :: string
  gate_public_key :: public_key
  gate_maximum_snapshot_age :: duration
  gate_maximum_authorization_lifetime :: duration

datatype 'a source = Raises | Wrong_Type | Returns 'a

text \<open>
  The environment of one evaluation: what the snapshot and lease sources return, what reading the
  state store does, what other processes do to the store between the read and the update, and the
  fault of the update.
\<close>

record degraded_env =
  de_snapshot :: "degraded_snapshot source"
  de_authorization :: "degraded_authorization option source"
  de_read :: "unit source"
  de_interleaved :: "degraded_state \<Rightarrow> degraded_state"
  de_update_fault :: store_fault

record degraded_result =
  dr_outcome :: admission_outcome
  dr_reasons :: "string list"
  dr_evaluated_at :: instant
  dr_snapshot_sha256 :: string
  dr_authorization_sha256 :: "string option"
  dr_mode_name :: "string option"
  dr_affected_roles :: "degraded_role list"
  dr_recovery_checkpoint_id :: "string option"
  dr_may_enter_primary_assurance :: bool
  dr_execution_authorized :: bool
  dr_observable_event_sha256 :: string

definition degraded_result_valid :: "degraded_result \<Rightarrow> bool" where
  "degraded_result_valid r \<longleftrightarrow>
     dr_reasons r \<noteq> [] \<and> is_hex_digest (dr_snapshot_sha256 r) \<and>
     (case dr_authorization_sha256 r of None \<Rightarrow> True | Some d \<Rightarrow> is_hex_digest d) \<and>
     is_hex_digest (dr_observable_event_sha256 r) \<and>
     (dr_may_enter_primary_assurance r \<longleftrightarrow> dr_outcome r = CONTINUE_PRIMARY_ASSURANCE) \<and>
     \<not> dr_execution_authorized r \<and> distinct (dr_reasons r) \<and>
     sort_key role_value (dr_affected_roles r) = dr_affected_roles r"

definition sorted_roles :: "degraded_role set \<Rightarrow> degraded_role list" where
  "sorted_roles S = sort_key role_value (filter (\<lambda>r. r \<in> S) all_roles)"

definition result_fields :: "degraded_result \<Rightarrow> (string \<times> json) list" where
  "result_fields r = [
     (''outcome'', JStr (admission_value (dr_outcome r))),
     (''reasons'', JArr (map JStr (dr_reasons r))),
     (''evaluated_at'', JTime (dr_evaluated_at r)),
     (''snapshot_sha256'', JStr (dr_snapshot_sha256 r)),
     (''authorization_sha256'', jopt JStr (dr_authorization_sha256 r)),
     (''mode_name'', jopt JStr (dr_mode_name r)),
     (''affected_roles'', JArr (map (JStr \<circ> role_value) (dr_affected_roles r))),
     (''recovery_checkpoint_id'', jopt JStr (dr_recovery_checkpoint_id r)),
     (''may_enter_primary_assurance'', JBool (dr_may_enter_primary_assurance r)),
     (''execution_authorized'', JBool (dr_execution_authorized r))]"

definition degraded_result_dump :: "degraded_result \<Rightarrow> json" where
  "degraded_result_dump r =
     JObj (result_fields r @ [(''observable_event_sha256'', JStr (dr_observable_event_sha256 r))])"

definition make_result ::
  "runtime \<Rightarrow> admission_outcome \<Rightarrow> string list \<Rightarrow> instant \<Rightarrow> string \<Rightarrow> degraded_authorization option \<Rightarrow>
   degraded_role set \<Rightarrow> bool \<Rightarrow> degraded_result res" where
  "make_result rt outcome reasons evaluated_at snapshot_sha256 authorization affected may_enter =
     (let r = \<lparr>dr_outcome = outcome, dr_reasons = reasons, dr_evaluated_at = evaluated_at,
               dr_snapshot_sha256 = snapshot_sha256,
               dr_authorization_sha256 = map_option (authorization_digest rt) authorization,
               dr_mode_name = map_option da_mode_name authorization,
               dr_affected_roles = sorted_roles affected,
               dr_recovery_checkpoint_id = map_option da_recovery_checkpoint_id authorization,
               dr_may_enter_primary_assurance = may_enter,
               dr_execution_authorized = False, dr_observable_event_sha256 = ''''\<rparr>;
          r' = r\<lparr>dr_observable_event_sha256 := canonical_digest rt (JObj (result_fields r))\<rparr>
      in if degraded_result_valid r' then Inr r' else Inl ValidationError)"

definition effective_behavior :: "degraded_role set \<Rightarrow> degraded_behavior" where
  "effective_behavior affected =
     (let behaviors = role_loss_behavior ` affected in
      if SAFE_STATE \<in> behaviors then SAFE_STATE
      else if HOLD_STATE \<in> behaviors then HOLD_STATE
      else MISSION_PRESERVING)"

definition condition_reasons :: "degraded_snapshot \<Rightarrow> string list" where
  "condition_reasons s = concat (map (\<lambda>role. reasons_of [
     (sn_role_conditions s role \<noteq> HEALTHY,
        role_value role @ ''_service_'' @ condition_value (sn_role_conditions s role)),
     (sn_communication_conditions s role \<noteq> HEALTHY,
        role_value role @ ''_communication_'' @ condition_value (sn_communication_conditions s role))])
     all_roles)"

definition lease_signed :: "runtime \<Rightarrow> degraded_gate \<Rightarrow> degraded_authorization \<Rightarrow> bool" where
  "lease_signed rt g a \<longleftrightarrow> da_signature a \<noteq> [] \<and>
     verify_bytes rt (gate_public_key g) (authorization_signing_payload a) (da_signature a)"

definition freshness_reasons :: "degraded_gate \<Rightarrow> degraded_snapshot \<Rightarrow> instant \<Rightarrow> string list" where
  "freshness_reasons g s now =
     (let snapshot_age = now - sn_captured_at s in
      if snapshot_age < 0 then [''degraded_snapshot_from_future'']
      else if snapshot_age > gate_maximum_snapshot_age g then [''degraded_snapshot_stale'']
      else [])"

definition lease_validation_reasons ::
  "runtime \<Rightarrow> degraded_gate \<Rightarrow> degraded_snapshot \<Rightarrow> degraded_authorization \<Rightarrow> instant \<Rightarrow> string list"
where
  "lease_validation_reasons rt g s a now =
     reasons_of [
       (da_authority_id a \<noteq> gate_authority_id g, ''degraded_authority_mismatch''),
       (\<not> lease_signed rt g a, ''degraded_authority_signature_invalid''),
       (\<not> (da_issued_at a \<le> now \<and> now < da_expires_at a), ''degraded_authorization_inactive''),
       (da_expires_at a - da_issued_at a > gate_maximum_authorization_lifetime g,
          ''degraded_authorization_lifetime_exceeded''),
       (da_snapshot_sha256 a \<noteq> snapshot_digest rt s, ''degraded_snapshot_evidence_mismatch''),
       (da_affected_roles a \<noteq> affected_roles s, ''degraded_role_scope_mismatch''),
       (affected_roles s = {} \<or> da_behavior a \<noteq> effective_behavior (affected_roles s),
          ''degraded_behavior_mismatch''),
       (sn_unresolved_effect s, ''degraded_unresolved_effect_blocks_new_work'')] @
     freshness_reasons g s now"

definition lease_scope_reasons :: "degraded_authorization \<Rightarrow> action_proposal \<Rightarrow> string list" where
  "lease_scope_reasons a p = reasons_of [
     (ap_actor_id p \<notin> da_allowed_actor_ids a, ''degraded_actor_out_of_scope''),
     (ap_mission_id p \<notin> da_allowed_mission_ids a, ''degraded_mission_out_of_scope''),
     (ap_resource p \<notin> da_allowed_resources a, ''degraded_resource_out_of_scope''),
     (ap_operation p \<notin> da_allowed_operations a, ''degraded_operation_out_of_scope''),
     (flt (da_maximum_risk_score a) (ap_risk_score p), ''degraded_risk_out_of_scope'')]"

text \<open>The state transition that accepts a lease, with the reasons it appends.\<close>

definition accept_authorization ::
  "runtime \<Rightarrow> degraded_gate \<Rightarrow> degraded_authorization \<Rightarrow> degraded_state \<Rightarrow> (degraded_state \<times> string list) res"
where
  "accept_authorization rt g a state =
     (let digest = authorization_digest rt a in
      if ds_authority_id state \<noteq> gate_authority_id g
      then Inl (ValueError ''degraded state belongs to a different authority'')
      else if digest \<in> set (ds_revoked_authorization_sha256 state)
      then Inr (state, [''degraded_authorization_revoked''])
      else if Some digest = ds_active_authorization_sha256 state then Inr (state, [])
      else if da_sequence a \<le> ds_highest_authorization_sequence state
      then Inr (state, [''degraded_authorization_sequence_not_monotonic''])
      else bind_res (make_degraded_state
                       (state\<lparr>ds_highest_authorization_sequence := da_sequence a,
                              ds_active_authorization_sha256 := Some digest\<rparr>))
             (\<lambda>updated. Inr (updated, [])))"

definition blocking_reasons :: "string set" where
  "blocking_reasons = {''degraded_authorization_sequence_not_monotonic'',
     ''degraded_authorization_revoked'', ''degraded_operation_state_unavailable''}"

text \<open>The lease path of the evaluation, once a lease is present and not revoked.\<close>

definition evaluate_lease ::
  "runtime \<Rightarrow> degraded_gate \<Rightarrow> degraded_env \<Rightarrow> action_proposal \<Rightarrow> instant \<Rightarrow> degraded_snapshot \<Rightarrow>
   degraded_authorization \<Rightarrow> string list \<Rightarrow> degraded_state \<Rightarrow> degraded_result res \<times> degraded_state"
where
  "evaluate_lease rt g env p now snapshot a reasons state =
     (let affected = affected_roles snapshot; sha = snapshot_digest rt snapshot;
          result = (\<lambda>outcome rs may_enter. make_result rt outcome (dedup rs) now sha (Some a) affected may_enter);
          validation_reasons = lease_validation_reasons rt g snapshot a now
      in if validation_reasons \<noteq> []
         then (result ADMIT_SAFE_STATE (reasons @ validation_reasons) False, state)
         else
           let (state', appended, raised) =
                 store_update (de_update_fault env) (accept_authorization rt g a) (de_interleaved env state);
               reasons = reasons @ (case appended of None \<Rightarrow> [] | Some rs \<Rightarrow> rs) @
                         (if raised then [''degraded_operation_state_unavailable''] else [])
           in if \<exists>r \<in> set reasons. r \<in> blocking_reasons
              then (result ADMIT_SAFE_STATE reasons False, state')
              else case effective_behavior affected of
                SAFE_STATE \<Rightarrow> (result ADMIT_SAFE_STATE (reasons @ [''authorized_safe_state'']) False, state')
              | HOLD_STATE \<Rightarrow> (result ADMIT_HOLD_STATE (reasons @ [''authorized_hold_state'']) False, state')
              | MISSION_PRESERVING \<Rightarrow>
                  let scope_reasons = lease_scope_reasons a p in
                  if scope_reasons \<noteq> []
                  then (result ADMIT_HOLD_STATE (reasons @ scope_reasons) False, state')
                  else (result CONTINUE_PRIMARY_ASSURANCE
                          (reasons @ [''authorized_mission_preserving_entry_to_primary_assurance'']) True,
                        state'))"

definition degraded_evaluate ::
  "runtime \<Rightarrow> degraded_gate \<Rightarrow> degraded_env \<Rightarrow> action_proposal \<Rightarrow> instant \<Rightarrow> degraded_state \<Rightarrow>
   degraded_result res \<times> degraded_state" where
  "degraded_evaluate rt g env p now state =
     (case de_snapshot env of
        Raises \<Rightarrow>
          (make_result rt ADMIT_SAFE_STATE [''degraded_snapshot_unavailable''] now zero_digest None {} False, state)
      | Wrong_Type \<Rightarrow>
          (make_result rt ADMIT_SAFE_STATE [''degraded_snapshot_invalid''] now zero_digest None {} False, state)
      | Returns snapshot \<Rightarrow>
          let (authorization, source_unavailable) =
                (case de_authorization env of Returns a \<Rightarrow> (a, False) | _ \<Rightarrow> (None, True));
              sha = snapshot_digest rt snapshot; affected = affected_roles snapshot
          in if de_read env = Raises then
               (make_result rt ADMIT_SAFE_STATE [''degraded_operation_state_unavailable''] now sha authorization affected False, state)
             else if de_read env = Wrong_Type \<or> ds_authority_id state \<noteq> gate_authority_id g then
               (make_result rt ADMIT_SAFE_STATE [''degraded_operation_state_invalid''] now sha authorization affected False, state)
             else
               let revoked = set (ds_revoked_authorization_sha256 state);
                   authorization_revoked = (case authorization of None \<Rightarrow> False
                     | Some a \<Rightarrow> authorization_digest rt a \<in> revoked);
                   active_revoked = (case ds_active_authorization_sha256 state of None \<Rightarrow> False
                     | Some d \<Rightarrow> d \<in> revoked);
                   freshness = freshness_reasons g snapshot now
               in if affected = {} \<and> freshness = [] \<and> \<not> sn_unresolved_effect snapshot then
                    (if ds_active_authorization_sha256 state \<noteq> None \<and> \<not> active_revoked
                     then (make_result rt ADMIT_HOLD_STATE [''degraded_condition_cleared_reversal_required'']
                             now sha authorization {} False, state)
                     else (make_result rt CONTINUE_PRIMARY_ASSURANCE
                             [if active_revoked \<or> authorization_revoked
                              then ''normal_runtime_dependencies_healthy_after_signed_reversal''
                              else ''normal_runtime_dependencies_healthy'']
                             now sha None {} True, state))
                  else
                    let reasons = condition_reasons snapshot @ freshness @ reasons_of [
                          (sn_unresolved_effect snapshot, ''outcome_reconciliation_required''),
                          (source_unavailable, ''degraded_authorization_source_unavailable'')]
                    in case authorization of
                         None \<Rightarrow>
                           (make_result rt ADMIT_SAFE_STATE
                              (dedup (reasons @ [''degraded_mode_authorization_missing''])) now sha None affected False, state)
                       | Some a \<Rightarrow>
                           if authorization_revoked
                           then (make_result rt ADMIT_SAFE_STATE
                                   (dedup (reasons @ [''degraded_authorization_revoked''])) now sha (Some a) affected False, state)
                           else evaluate_lease rt g env p now snapshot a reasons state)"

section \<open>Reversal of a lease\<close>

record reversal_result =
  rr_applied :: bool
  rr_reasons :: "string list"
  rr_evaluated_at :: instant
  rr_authorization_sha256 :: string
  rr_reversal_sha256 :: string
  rr_observable_event_sha256 :: string

definition reversal_reasons ::
  "runtime \<Rightarrow> degraded_gate \<Rightarrow> degraded_reversal \<Rightarrow> degraded_authorization \<Rightarrow> instant \<Rightarrow> string list" where
  "reversal_reasons rt g r a now =
     (let reversal_age = now - rv_issued_at r in
      reasons_of [
        (rv_authority_id r \<noteq> gate_authority_id g, ''degraded_reversal_authority_mismatch''),
        (rv_signature r = [] \<or>
           \<not> verify_bytes rt (gate_public_key g) (reversal_signing_payload r) (rv_signature r),
           ''degraded_reversal_signature_invalid''),
        (da_authority_id a \<noteq> gate_authority_id g \<or> \<not> lease_signed rt g a,
           ''degraded_reversal_authorization_invalid''),
        (rv_authorization_id r \<noteq> da_authorization_id a, ''degraded_reversal_authorization_id_mismatch''),
        (rv_authorization_sha256 r \<noteq> authorization_digest rt a,
           ''degraded_reversal_authorization_digest_mismatch''),
        (rv_recovery_checkpoint_id r \<noteq> da_recovery_checkpoint_id a,
           ''degraded_reversal_checkpoint_mismatch''),
        (reversal_age < 0, ''degraded_reversal_from_future''),
        (\<not> reversal_age < 0 \<and> reversal_age > gate_maximum_authorization_lifetime g,
           ''degraded_reversal_stale'')])"

definition apply_to_state ::
  "runtime \<Rightarrow> degraded_gate \<Rightarrow> degraded_reversal \<Rightarrow> degraded_authorization \<Rightarrow> string list \<Rightarrow> degraded_state \<Rightarrow>
   (degraded_state \<times> string list \<times> bool) res" where
  "apply_to_state rt g r a reasons state =
     (let nonce_sha = rt_sha256_text rt (rv_nonce r); digest = authorization_digest rt a;
          accepted = ds_accepted_reversal_nonce_sha256 state; revoked = ds_revoked_authorization_sha256 state
      in if ds_authority_id state \<noteq> gate_authority_id g
         then Inl (ValueError ''degraded state belongs to a different authority'')
         else
           let appended = reasons_of [
                 (rv_sequence r \<le> ds_highest_reversal_sequence state, ''degraded_reversal_sequence_not_monotonic''),
                 (nonce_sha \<in> set accepted, ''degraded_reversal_replayed''),
                 (digest \<in> set revoked, ''degraded_authorization_already_revoked'')]
           in if reasons @ appended \<noteq> [] then Inr (state, appended, False)
              else if max_degraded_state_entries \<le> length accepted \<or> max_degraded_state_entries \<le> length revoked
              then Inr (state, [''degraded_reversal_state_capacity_exceeded''], False)
              else bind_res (make_degraded_state
                     (state\<lparr>ds_highest_reversal_sequence := rv_sequence r,
                            ds_accepted_reversal_nonce_sha256 := sort (accepted @ [nonce_sha]),
                            ds_revoked_authorization_sha256 := sort (revoked @ [digest])\<rparr>))
                   (\<lambda>updated. Inr (updated, [], True)))"

definition apply_reversal ::
  "runtime \<Rightarrow> degraded_gate \<Rightarrow> store_fault \<Rightarrow> degraded_reversal \<Rightarrow> degraded_authorization \<Rightarrow> instant \<Rightarrow>
   degraded_state \<Rightarrow> reversal_result \<times> degraded_state" where
  "apply_reversal rt g fault r a now state =
     (let reasons = reversal_reasons rt g r a now;
          (state', out, raised) = store_update fault (apply_to_state rt g r a reasons) state;
          applied = (\<not> raised \<and> (case out of None \<Rightarrow> False | Some (_, ok) \<Rightarrow> ok));
          reasons = reasons @ (case out of None \<Rightarrow> [] | Some (rs, _) \<Rightarrow> rs) @
                    (if raised then [''degraded_reversal_state_unavailable''] else []);
          final_reasons = (if applied then [''degraded_authorization_revoked''] else dedup reasons);
          material = JObj [
            (''applied'', JBool applied),
            (''reasons'', JArr (map JStr final_reasons)),
            (''evaluated_at'', JTime now),
            (''authorization_sha256'', JStr (authorization_digest rt a)),
            (''reversal_sha256'', JStr (reversal_digest rt r))]
      in (\<lparr>rr_applied = applied, rr_reasons = final_reasons, rr_evaluated_at = now,
           rr_authorization_sha256 = authorization_digest rt a,
           rr_reversal_sha256 = reversal_digest rt r,
           rr_observable_event_sha256 = canonical_digest rt material\<rparr>, state'))"

section \<open>Every evaluation returns a well-formed result\<close>

lemma sorted_roles_sorted [simp]: "sort_key role_value (sorted_roles S) = sorted_roles S"
  by (simp add: sorted_roles_def sort_key_id_if_sorted)

lemma snapshot_digest_hex [simp]: "digests_ok rt \<Longrightarrow> is_hex_digest (snapshot_digest rt s)"
  by (simp add: snapshot_digest_def)

lemma authorization_digest_hex [simp]: "digests_ok rt \<Longrightarrow> is_hex_digest (authorization_digest rt a)"
  by (simp add: authorization_digest_def)

lemma make_result_ok:
  assumes "digests_ok rt" "reasons \<noteq> []" "distinct reasons" "is_hex_digest sha"
    and "may_enter \<longleftrightarrow> outcome = CONTINUE_PRIMARY_ASSURANCE"
  shows "\<exists>r. make_result rt outcome reasons now sha au affected may_enter = Inr r \<and> degraded_result_valid r \<and>
    dr_outcome r = outcome \<and> dr_reasons r = reasons"
  using assms
  by (cases au) (simp_all add: make_result_def Let_def degraded_result_valid_def)

definition continues :: "degraded_result res \<Rightarrow> bool" where
  "continues res \<longleftrightarrow> (case res of Inl _ \<Rightarrow> False | Inr r \<Rightarrow> dr_may_enter_primary_assurance r)"

lemma make_result_continues:
  "continues (make_result rt outcome reasons now sha au affected may_enter) \<Longrightarrow> may_enter"
  by (auto simp: make_result_def continues_def Let_def split: if_splits)

lemma make_result_refuses [simp]:
  "\<not> continues (make_result rt outcome reasons now sha au affected False)"
  using make_result_continues by blast

text \<open>The outcome of an update of the store with a lease.\<close>

definition accepted_by :: "runtime \<Rightarrow> degraded_gate \<Rightarrow> degraded_authorization \<Rightarrow> degraded_state \<Rightarrow> bool" where
  "accepted_by rt g a st \<longleftrightarrow>
     ds_authority_id st = gate_authority_id g \<and>
     authorization_digest rt a \<notin> set (ds_revoked_authorization_sha256 st) \<and>
     (ds_active_authorization_sha256 st = Some (authorization_digest rt a) \<or>
      ds_highest_authorization_sequence st < da_sequence a)"

lemma blocking:
  "''degraded_authorization_revoked'' \<in> blocking_reasons"
  "''degraded_authorization_sequence_not_monotonic'' \<in> blocking_reasons"
  "''degraded_operation_state_unavailable'' \<in> blocking_reasons"
  by (simp_all only: blocking_reasons_def insert_iff simp_thms)

lemma accept_cases:
  assumes "accept_authorization rt g a st = Inr (st', rs)"
  obtains "rs = []" "accepted_by rt g a st" "st' = st"
  | "rs = []" "accepted_by rt g a st" "ds_highest_authorization_sequence st < da_sequence a"
      "st' = st\<lparr>ds_highest_authorization_sequence := da_sequence a,
                ds_active_authorization_sha256 := Some (authorization_digest rt a)\<rparr>" "degraded_state_valid st'"
  | r where "rs = [r]" "r \<in> blocking_reasons" "st' = st"
proof -
  let ?d = "authorization_digest rt a"
  have auth: "ds_authority_id st = gate_authority_id g"
    using assms by (simp add: accept_authorization_def Let_def split: if_splits)
  consider (revoked) "?d \<in> set (ds_revoked_authorization_sha256 st)"
    | (active) "?d \<notin> set (ds_revoked_authorization_sha256 st)" "ds_active_authorization_sha256 st = Some ?d"
    | (old) "?d \<notin> set (ds_revoked_authorization_sha256 st)" "ds_active_authorization_sha256 st \<noteq> Some ?d"
        "da_sequence a \<le> ds_highest_authorization_sequence st"
    | (new) "?d \<notin> set (ds_revoked_authorization_sha256 st)" "ds_active_authorization_sha256 st \<noteq> Some ?d"
        "ds_highest_authorization_sequence st < da_sequence a"
    by linarith
  then show thesis
  proof cases
    case revoked
    then have "rs = [''degraded_authorization_revoked'']" "st' = st"
      using assms auth by (simp_all add: accept_authorization_def Let_def)
    then show ?thesis by (rule that(3) [OF _ blocking(1)])
  next
    case active
    then have "rs = []" "st' = st" using assms auth by (simp_all add: accept_authorization_def Let_def)
    then show ?thesis using active auth by (intro that(1)) (simp_all add: accepted_by_def)
  next
    case old
    then have "rs = [''degraded_authorization_sequence_not_monotonic'']" "st' = st"
      using assms auth by (simp_all add: accept_authorization_def Let_def)
    then show ?thesis by (rule that(3) [OF _ blocking(2)])
  next
    case new
    then have "rs = []" "st' = st\<lparr>ds_highest_authorization_sequence := da_sequence a,
        ds_active_authorization_sha256 := Some ?d\<rparr>" "degraded_state_valid st'"
      using assms auth by (auto simp: accept_authorization_def Let_def make_degraded_state_def split: if_splits)
    then show ?thesis using new auth by (intro that(2)) (simp_all add: accepted_by_def)
  qed
qed

lemma store_update_cases:
  assumes "store_update fault transition st = (st', out, raised)"
  obtains "st' = st" "raised"
  | upd x where "transition st = Inr (upd, x)" "out = Some x" "st' = upd"
      "fault = (if raised then Sync_Fails else No_Fault)"
  using assms by (cases fault) (auto simp: store_update_def split: if_splits sum.splits)

lemma store_update_accept:
  assumes "store_update fault (accept_authorization rt g a) st = (st', app, raised)"
    and "\<forall>r \<in> set (reasons @ (case app of None \<Rightarrow> [] | Some rs \<Rightarrow> rs) @
           (if raised then [''degraded_operation_state_unavailable''] else [])). r \<notin> blocking_reasons"
  shows "accepted_by rt g a st \<and> fault = No_Fault"
proof -
  have nr: "\<not> raised" using assms(2) blocking(3) by (auto simp del: blocking)
  from assms(1) obtain upd x where "accept_authorization rt g a st = Inr (upd, x)" "app = Some x"
    "fault = No_Fault" by (rule store_update_cases) (use nr in auto)
  then show ?thesis using assms(2) by (cases rule: accept_cases) auto
qed

lemma effective_mission:
  "affected \<noteq> {} \<Longrightarrow> effective_behavior affected = MISSION_PRESERVING \<Longrightarrow> affected = {MANAGEMENT}"
proof -
  assume ne: "affected \<noteq> {}" and eff: "effective_behavior affected = MISSION_PRESERVING"
  have "r = MANAGEMENT" if "r \<in> affected" for r
    using eff that by (cases r) (force simp: effective_behavior_def Let_def image_iff split: if_splits)+
  with ne show "affected = {MANAGEMENT}" by auto
qed

definition lease_admits ::
  "runtime \<Rightarrow> degraded_gate \<Rightarrow> action_proposal \<Rightarrow> instant \<Rightarrow> degraded_snapshot \<Rightarrow> degraded_authorization \<Rightarrow> bool"
where
  "lease_admits rt g p now s a \<longleftrightarrow>
     affected_roles s = {MANAGEMENT} \<and> da_affected_roles a = {MANAGEMENT} \<and> da_behavior a = MISSION_PRESERVING \<and>
     da_authority_id a = gate_authority_id g \<and> lease_signed rt g a \<and>
     da_issued_at a \<le> now \<and> now < da_expires_at a \<and>
     da_expires_at a - da_issued_at a \<le> gate_maximum_authorization_lifetime g \<and>
     da_snapshot_sha256 a = snapshot_digest rt s \<and> \<not> sn_unresolved_effect s \<and>
     sn_captured_at s \<le> now \<and> now \<le> sn_captured_at s + gate_maximum_snapshot_age g \<and>
     lease_scope_reasons a p = []"

lemma freshness_empty [reason_simps]:
  "freshness_reasons g s now = [] \<longleftrightarrow>
     sn_captured_at s \<le> now \<and> now \<le> sn_captured_at s + gate_maximum_snapshot_age g"
  by (auto simp: freshness_reasons_def Let_def)

lemma lease_admitsI:
  assumes "lease_validation_reasons rt g s a now = []" "effective_behavior (affected_roles s) = MISSION_PRESERVING"
    and "lease_scope_reasons a p = []"
  shows "lease_admits rt g p now s a"
proof -
  from assms(1) have v: "da_affected_roles a = affected_roles s" "affected_roles s \<noteq> {}"
    "da_behavior a = effective_behavior (affected_roles s)"
    by (auto simp: lease_validation_reasons_def split: if_splits)
  have "affected_roles s = {MANAGEMENT}" using effective_mission [OF v(2) assms(2)] .
  then show ?thesis
    using assms v unfolding lease_admits_def lease_validation_reasons_def
    by (simp add: reason_simps split: if_splits)
qed

lemma evaluate_lease_continues:
  assumes "continues (fst (evaluate_lease rt g env p now s a reasons st))"
  shows "lease_admits rt g p now s a \<and> accepted_by rt g a (de_interleaved env st) \<and>
    de_update_fault env = No_Fault"
proof -
  obtain st' app raised where up:
    "store_update (de_update_fault env) (accept_authorization rt g a) (de_interleaved env st) = (st', app, raised)"
    by (metis prod_cases3)
  have valid: "lease_validation_reasons rt g s a now = []"
    using assms make_result_continues by (fastforce simp: evaluate_lease_def Let_def split: if_splits)
  let ?rs = "reasons @ (case app of None \<Rightarrow> [] | Some rs \<Rightarrow> rs) @
    (if raised then [''degraded_operation_state_unavailable''] else [])"
  have free: "\<forall>r \<in> set ?rs. r \<notin> blocking_reasons"
  proof (rule ccontr)
    assume "\<not> ?thesis"
    then show False using assms make_result_continues
      by (fastforce simp: evaluate_lease_def Let_def up valid split: if_splits)
  qed
  then have acc: "accepted_by rt g a (de_interleaved env st) \<and> de_update_fault env = No_Fault" by (rule store_update_accept [OF up])
  have eff: "effective_behavior (affected_roles s) = MISSION_PRESERVING" and scope: "lease_scope_reasons a p = []"
    using assms make_result_continues free valid
    by (fastforce simp: evaluate_lease_def Let_def up split: if_splits degraded_behavior.splits)+
  show ?thesis using lease_admitsI [OF valid eff scope] acc by simp
qed

text \<open>With every dependency healthy and fresh, the gate continues unless a lease is still active.\<close>

definition healthy_admits :: "degraded_gate \<Rightarrow> instant \<Rightarrow> degraded_snapshot \<Rightarrow> degraded_state \<Rightarrow> bool" where
  "healthy_admits g now s st \<longleftrightarrow>
     affected_roles s = {} \<and> \<not> sn_unresolved_effect s \<and>
     sn_captured_at s \<le> now \<and> now \<le> sn_captured_at s + gate_maximum_snapshot_age g \<and>
     (case ds_active_authorization_sha256 st of None \<Rightarrow> True
      | Some d \<Rightarrow> d \<in> set (ds_revoked_authorization_sha256 st))"

definition readable :: "degraded_env \<Rightarrow> degraded_gate \<Rightarrow> degraded_state \<Rightarrow> bool" where
  "readable env g st \<longleftrightarrow> de_read env = Returns () \<and> ds_authority_id st = gate_authority_id g"

lemma readable_iff: "readable env g st \<longleftrightarrow>
    \<not> de_read env = Raises \<and> \<not> (de_read env = Wrong_Type \<or> ds_authority_id st \<noteq> gate_authority_id g)"
  by (cases "de_read env") (auto simp: readable_def)

text \<open>The three ways an evaluation can go once the snapshot and the state have been read.\<close>

lemma evaluate_unreadable:
  assumes "(\<nexists>s. de_snapshot env = Returns s) \<or> \<not> readable env g st"
  shows "\<exists>rs sha au aff. degraded_evaluate rt g env p now st =
    (make_result rt ADMIT_SAFE_STATE [rs] now sha au aff False, st) \<and>
    (sha = zero_digest \<or> (\<exists>s. sha = snapshot_digest rt s))"
proof (cases "de_snapshot env")
  case (Returns s)
  then have unread: "\<not> readable env g st" using assms by simp
  obtain a u where src: "(case de_authorization env of Returns a \<Rightarrow> (a, False) | _ \<Rightarrow> (None, True)) = (a, u)"
    by fastforce
  show ?thesis
  proof (cases "de_read env = Raises")
    case True
    then have "degraded_evaluate rt g env p now st = (make_result rt ADMIT_SAFE_STATE
        [''degraded_operation_state_unavailable''] now (snapshot_digest rt s) a (affected_roles s) False, st)"
      by (simp add: degraded_evaluate_def Returns src Let_def)
    then show ?thesis by blast
  next
    case False
    then have "degraded_evaluate rt g env p now st = (make_result rt ADMIT_SAFE_STATE
        [''degraded_operation_state_invalid''] now (snapshot_digest rt s) a (affected_roles s) False, st)"
      using unread by (auto simp add: degraded_evaluate_def Returns src Let_def readable_iff)
    then show ?thesis by blast
  qed
qed (auto simp: degraded_evaluate_def)

definition lease_of :: "degraded_env \<Rightarrow> degraded_authorization option" where
  "lease_of env = (case de_authorization env of Returns a \<Rightarrow> a | _ \<Rightarrow> None)"

definition lease_revoked :: "runtime \<Rightarrow> degraded_env \<Rightarrow> degraded_state \<Rightarrow> bool" where
  "lease_revoked rt env st \<longleftrightarrow> (case lease_of env of None \<Rightarrow> False
     | Some a \<Rightarrow> authorization_digest rt a \<in> set (ds_revoked_authorization_sha256 st))"

definition settled :: "degraded_gate \<Rightarrow> degraded_snapshot \<Rightarrow> instant \<Rightarrow> bool" where
  "settled g s now \<longleftrightarrow> affected_roles s = {} \<and> freshness_reasons g s now = [] \<and> \<not> sn_unresolved_effect s"

definition condition_summary :: "degraded_gate \<Rightarrow> degraded_env \<Rightarrow> degraded_snapshot \<Rightarrow> instant \<Rightarrow> string list" where
  "condition_summary g env s now = condition_reasons s @ freshness_reasons g s now @ reasons_of [
     (sn_unresolved_effect s, ''outcome_reconciliation_required''),
     (\<not> (\<exists>a. de_authorization env = Returns a), ''degraded_authorization_source_unavailable'')]"

lemma evaluate_settled:
  assumes "de_snapshot env = Returns s" "readable env g st" "settled g s now"
  shows "degraded_evaluate rt g env p now st =
    (if healthy_admits g now s st
     then (make_result rt CONTINUE_PRIMARY_ASSURANCE
             [if ds_active_authorization_sha256 st \<noteq> None \<or> lease_revoked rt env st
              then ''normal_runtime_dependencies_healthy_after_signed_reversal''
              else ''normal_runtime_dependencies_healthy''] now (snapshot_digest rt s) None {} True, st)
     else (make_result rt ADMIT_HOLD_STATE [''degraded_condition_cleared_reversal_required'']
             now (snapshot_digest rt s) (lease_of env) {} False, st))"
proof -
  have r: "de_read env \<noteq> Raises" "de_read env \<noteq> Wrong_Type" "ds_authority_id st = gate_authority_id g"
    using assms(2) by (auto simp: readable_iff)
  have h: "healthy_admits g now s st \<longleftrightarrow> (case ds_active_authorization_sha256 st of None \<Rightarrow> True
      | Some d \<Rightarrow> d \<in> set (ds_revoked_authorization_sha256 st))"
    using assms(3) by (simp add: healthy_admits_def settled_def reason_simps)
  show ?thesis
    using assms(3) r unfolding h degraded_evaluate_def assms(1) settled_def lease_revoked_def lease_of_def
    by (cases "ds_active_authorization_sha256 st"; cases "de_authorization env") (simp_all add: Let_def)
qed

lemma evaluate_unsettled:
  assumes "de_snapshot env = Returns s" "readable env g st" "\<not> settled g s now"
  shows "degraded_evaluate rt g env p now st =
    (case lease_of env of
       None \<Rightarrow> (make_result rt ADMIT_SAFE_STATE
          (dedup (condition_summary g env s now @ [''degraded_mode_authorization_missing''])) now
          (snapshot_digest rt s) None (affected_roles s) False, st)
     | Some a \<Rightarrow> if lease_revoked rt env st
         then (make_result rt ADMIT_SAFE_STATE
           (dedup (condition_summary g env s now @ [''degraded_authorization_revoked''])) now
           (snapshot_digest rt s) (Some a) (affected_roles s) False, st)
         else evaluate_lease rt g env p now s a (condition_summary g env s now) st)"
proof -
  have r: "de_read env \<noteq> Raises" "de_read env \<noteq> Wrong_Type" "ds_authority_id st = gate_authority_id g"
    using assms(2) by (auto simp: readable_iff)
  have ns: "(affected_roles s = {} \<and> freshness_reasons g s now = [] \<and> \<not> sn_unresolved_effect s) = False"
    using assms(3) by (simp add: settled_def)
  show ?thesis
  proof (cases "de_authorization env")
    case (Returns au)
    then show ?thesis
      by (cases au) (simp_all only: degraded_evaluate_def assms(1) source.case prod.case Let_def r ns if_False
          lease_revoked_def lease_of_def condition_summary_def option.case simp_thms source.inject)
  qed (simp_all only: degraded_evaluate_def assms(1) source.case prod.case Let_def r ns if_False
      lease_revoked_def lease_of_def condition_summary_def option.case simp_thms source.distinct)
qed

lemma evaluate_continues:
  assumes "continues (fst (degraded_evaluate rt g env p now st))"
  shows "\<exists>s. de_snapshot env = Returns s \<and> readable env g st \<and>
    (healthy_admits g now s st \<or>
     (\<exists>a. lease_of env = Some a \<and> \<not> lease_revoked rt env st \<and> lease_admits rt g p now s a \<and>
          accepted_by rt g a (de_interleaved env st) \<and> de_update_fault env = No_Fault))"
proof -
  obtain s where s: "de_snapshot env = Returns s" and rd: "readable env g st"
    using assms evaluate_unreadable [of env g st rt p now] by fastforce
  show ?thesis
  proof (cases "settled g s now")
    case True
    then have "healthy_admits g now s st"
      using assms evaluate_settled [OF s rd True, of rt p] by (auto split: if_splits)
    with s rd show ?thesis by blast
  next
    case False
    note ev = evaluate_unsettled [OF s rd False, of rt p]
    obtain a where a: "lease_of env = Some a" "\<not> lease_revoked rt env st"
      using assms unfolding ev by (cases "lease_of env") (auto split: if_splits)
    then have "continues (fst (evaluate_lease rt g env p now s a (condition_summary g env s now) st))"
      using assms unfolding ev by simp
    from evaluate_lease_continues [OF this] a s rd show ?thesis by blast
  qed
qed

lemma blocking_head: "r \<in> blocking_reasons \<Longrightarrow> hd r = CHR ''d''"
  by (auto simp: blocking_reasons_def)

lemma not_blocking [simp]:
  "''degraded_snapshot_from_future'' \<notin> blocking_reasons" "''degraded_snapshot_stale'' \<notin> blocking_reasons"
  "''outcome_reconciliation_required'' \<notin> blocking_reasons"
  "''degraded_authorization_source_unavailable'' \<notin> blocking_reasons"
  by code_simp+

lemma list_all_reasons_of: "list_all (P \<circ> snd) cs \<Longrightarrow> list_all P (reasons_of cs)"
  by (induction cs) auto

lemma summary_not_blocking: "list_all (\<lambda>r. r \<notin> blocking_reasons) (condition_summary g env s now)"
proof -
  have "role_value x \<noteq> [] \<and> hd (role_value x) \<noteq> CHR ''d''" for x by (cases x) simp_all
  then have "hd (role_value x @ rest) \<noteq> CHR ''d''" for x rest by simp
  then have role: "role_value x @ rest \<notin> blocking_reasons" for x rest using blocking_head by blast
  have "list_all (\<lambda>r. r \<notin> blocking_reasons) (condition_reasons s)"
    unfolding condition_reasons_def list.pred_map
    by (simp add: list_all_iff role del: reasons_of_Cons) (auto simp: role)
  moreover have "list_all (\<lambda>r. r \<notin> blocking_reasons) (freshness_reasons g s now)"
    by (simp add: freshness_reasons_def Let_def)
  ultimately show ?thesis unfolding condition_summary_def by simp
qed

text \<open>Without a store fault an acceptable lease is accepted and stored.\<close>

lemma store_update_accepted:
  assumes "digests_ok rt" "degraded_state_valid st" "accepted_by rt g a st"
  shows "\<exists>st'. store_update No_Fault (accept_authorization rt g a) st = (st', Some [], False)"
proof (cases "ds_active_authorization_sha256 st = Some (authorization_digest rt a)")
  case True
  then show ?thesis using assms(3) by (simp add: accepted_by_def store_update_def accept_authorization_def)
next
  case False
  let ?u = "st\<lparr>ds_highest_authorization_sequence := da_sequence a,
               ds_active_authorization_sha256 := Some (authorization_digest rt a)\<rparr>"
  have "degraded_state_valid ?u"
    using assms False by (auto simp: degraded_state_valid_def accepted_by_def)
  then show ?thesis
    using False assms(3)
    by (auto simp: accepted_by_def store_update_def accept_authorization_def Let_def make_degraded_state_def)
qed

lemma result_ok:
  "digests_ok rt \<Longrightarrow> reasons \<noteq> [] \<Longrightarrow> distinct reasons \<Longrightarrow>
   is_hex_digest sha \<Longrightarrow> (may_enter \<longleftrightarrow> outcome = CONTINUE_PRIMARY_ASSURANCE) \<Longrightarrow>
   \<exists>r. make_result rt outcome reasons now sha au affected may_enter = Inr r \<and> degraded_result_valid r"
  using make_result_ok [of rt reasons sha may_enter outcome now au affected] by blast

lemma evaluate_lease_total:
  assumes "digests_ok rt"
  shows "\<exists>r. fst (evaluate_lease rt g env p now s a reasons st) = Inr r \<and> degraded_result_valid r"
proof -
  obtain st' app raised where up:
    "store_update (de_update_fault env) (accept_authorization rt g a) (de_interleaved env st) = (st', app, raised)"
    by (metis prod_cases3)
  note ok = result_ok [OF assms _ distinct_dedup snapshot_digest_hex [OF assms]]
  show ?thesis
    unfolding evaluate_lease_def Let_def up prod.case
    by (simp split: degraded_behavior.splits) (auto intro!: ok)
qed

lemma evaluate_total:
  assumes d: "digests_ok rt"
  shows "\<exists>r. fst (degraded_evaluate rt g env p now st) = Inr r \<and> degraded_result_valid r"
proof (cases "(\<exists>s. de_snapshot env = Returns s) \<and> readable env g st")
  case False
  then obtain rs sha au aff where "degraded_evaluate rt g env p now st =
      (make_result rt ADMIT_SAFE_STATE [rs] now sha au aff False, st)" "is_hex_digest sha"
    using evaluate_unreadable [of env g st rt p now] d by fastforce
  then show ?thesis using result_ok [OF d, of "[rs]" sha False] by simp
next
  case True
  then obtain s where s: "de_snapshot env = Returns s" "readable env g st" by blast
  note ok = result_ok [OF d _ _ snapshot_digest_hex [OF d]]
  show ?thesis
  proof (cases "settled g s now")
    case True
    show ?thesis unfolding evaluate_settled [OF s True] by (auto intro!: ok)
  next
    case False
    show ?thesis
      unfolding evaluate_unsettled [OF s False]
      by (cases "lease_of env") (auto intro!: ok evaluate_lease_total [OF d])
  qed
qed

lemma lease_admits_validates:
  assumes "lease_admits rt g p now s a"
  shows "lease_validation_reasons rt g s a now = []"
proof -
  have "effective_behavior {MANAGEMENT} = MISSION_PRESERVING" by (simp add: effective_behavior_def)
  then show ?thesis
    using assms unfolding lease_admits_def lease_validation_reasons_def by (simp add: reason_simps)
qed

lemma make_result_enters:
  assumes "digests_ok rt" "reasons \<noteq> []" "distinct reasons" "is_hex_digest sha"
  shows "continues (make_result rt CONTINUE_PRIMARY_ASSURANCE reasons now sha au affected True)"
  using make_result_ok [OF assms, of True CONTINUE_PRIMARY_ASSURANCE now au affected]
  by (auto simp: continues_def degraded_result_valid_def)

lemma evaluate_lease_admitted:
  assumes d: "digests_ok rt" and adm: "lease_admits rt g p now s a"
    and acc: "accepted_by rt g a (de_interleaved env st)" "degraded_state_valid (de_interleaved env st)"
    and fault: "de_update_fault env = No_Fault"
    and free: "list_all (\<lambda>r. r \<notin> blocking_reasons) reasons"
  shows "continues (fst (evaluate_lease rt g env p now s a reasons st))"
proof -
  obtain st' where up: "store_update (de_update_fault env) (accept_authorization rt g a) (de_interleaved env st) =
      (st', Some [], False)"
    using store_update_accepted [OF d acc(2,1)] by (auto simp: fault)
  have aff: "affected_roles s = {MANAGEMENT}" and scope: "lease_scope_reasons a p = []"
    using adm by (simp_all add: lease_admits_def)
  have eff: "effective_behavior {MANAGEMENT} = MISSION_PRESERVING" by (simp add: effective_behavior_def)
  have nb: "\<not> (\<exists>r \<in> set reasons. r \<in> blocking_reasons)" using free by (auto simp: list_all_iff)
  let ?m = "make_result rt CONTINUE_PRIMARY_ASSURANCE
    (dedup (reasons @ [''authorized_mission_preserving_entry_to_primary_assurance''])) now (snapshot_digest rt s)
    (Some a) {MANAGEMENT} True"
  have "fst (evaluate_lease rt g env p now s a reasons st) = ?m"
    unfolding evaluate_lease_def Let_def up lease_admits_validates [OF adm] prod.case aff eff scope
    using nb by simp
  moreover have "continues ?m" using d by (intro make_result_enters) simp_all
  ultimately show ?thesis by simp
qed

lemma evaluate_admitted:
  assumes d: "digests_ok rt" and s: "de_snapshot env = Returns s" and rd: "readable env g st"
    and adm: "healthy_admits g now s st \<or>
     (\<exists>a. lease_of env = Some a \<and> \<not> lease_revoked rt env st \<and> lease_admits rt g p now s a \<and>
          accepted_by rt g a (de_interleaved env st) \<and> degraded_state_valid (de_interleaved env st) \<and>
          de_update_fault env = No_Fault)"
  shows "continues (fst (degraded_evaluate rt g env p now st))"
proof (cases "healthy_admits g now s st")
  case True
  then have "settled g s now" by (simp add: healthy_admits_def settled_def reason_simps)
  from evaluate_settled [OF s rd this, of rt p] True show ?thesis
    using make_result_enters [OF d] d by simp
next
  case False
  with adm obtain a where a: "lease_of env = Some a" "\<not> lease_revoked rt env st" "lease_admits rt g p now s a"
    "accepted_by rt g a (de_interleaved env st)" "degraded_state_valid (de_interleaved env st)"
    "de_update_fault env = No_Fault" by blast
  then have ns: "\<not> settled g s now" by (simp add: lease_admits_def settled_def)
  show ?thesis
    using a evaluate_lease_admitted [OF d a(3-6) summary_not_blocking [of g env s now]]
    by (simp add: evaluate_unsettled [OF s rd ns])
qed

section \<open>The durable state only moves forward\<close>

definition state_le :: "degraded_state \<Rightarrow> degraded_state \<Rightarrow> bool" where
  "state_le s t \<longleftrightarrow>
     ds_authority_id s = ds_authority_id t \<and>
     ds_highest_authorization_sequence s \<le> ds_highest_authorization_sequence t \<and>
     ds_highest_reversal_sequence s \<le> ds_highest_reversal_sequence t \<and>
     set (ds_accepted_reversal_nonce_sha256 s) \<subseteq> set (ds_accepted_reversal_nonce_sha256 t) \<and>
     set (ds_revoked_authorization_sha256 s) \<subseteq> set (ds_revoked_authorization_sha256 t)"

lemma state_le_refl [simp]: "state_le s s"
  by (simp add: state_le_def)

lemma state_le_trans: "state_le a b \<Longrightarrow> state_le b c \<Longrightarrow> state_le a c"
  by (auto simp: state_le_def)

text \<open>What another process may do to the store between the read and the update.\<close>

definition interleaving_ok :: "degraded_env \<Rightarrow> bool" where
  "interleaving_ok env \<longleftrightarrow>
     (\<forall>s. state_le s (de_interleaved env s) \<and>
          (degraded_state_valid s \<longrightarrow> degraded_state_valid (de_interleaved env s)))"

definition advances :: "degraded_state \<Rightarrow> degraded_state \<Rightarrow> bool" where
  "advances s t \<longleftrightarrow> state_le s t \<and> (degraded_state_valid s \<longrightarrow> degraded_state_valid t)"

lemma advances_refl [simp]: "advances s s"
  by (simp add: advances_def)

lemma advances_trans: "advances a b \<Longrightarrow> advances b c \<Longrightarrow> advances a c"
  by (auto simp: advances_def intro: state_le_trans)

lemma store_update_advances:
  assumes "\<And>upd x. transition st = Inr (upd, x) \<Longrightarrow> advances st upd"
  shows "advances st (fst (store_update fault transition st))"
  using assms by (auto simp: store_update_def split: sum.splits)

lemma accept_advances: "accept_authorization rt g a st = Inr (upd, x) \<Longrightarrow> advances st upd"
  by (erule accept_cases) (simp_all add: advances_def state_le_def)

lemma evaluate_lease_advances:
  assumes "interleaving_ok env"
  shows "advances st (snd (evaluate_lease rt g env p now s a reasons st))"
proof -
  obtain st' app raised where up:
    "store_update (de_update_fault env) (accept_authorization rt g a) (de_interleaved env st) = (st', app, raised)"
    by (metis prod_cases3)
  have "advances (de_interleaved env st) st'"
    using store_update_advances [where transition = "accept_authorization rt g a" and fault = "de_update_fault env",
        OF accept_advances, of "de_interleaved env st"] up by simp
  moreover have "advances st (de_interleaved env st)"
    using assms by (simp add: interleaving_ok_def advances_def)
  ultimately have "advances st st'" using advances_trans by blast
  then show ?thesis
    unfolding evaluate_lease_def Let_def up prod.case by (simp split: degraded_behavior.splits)
qed

lemma evaluate_advances:
  assumes "interleaving_ok env"
  shows "advances st (snd (degraded_evaluate rt g env p now st))"
proof (cases "(\<exists>s. de_snapshot env = Returns s) \<and> readable env g st")
  case False
  then show ?thesis using evaluate_unreadable [of env g st rt p now] by fastforce
next
  case True
  then obtain s where s: "de_snapshot env = Returns s" "readable env g st" by blast
  show ?thesis
    using evaluate_lease_advances [OF assms]
    by (cases "settled g s now"; cases "lease_of env")
      (simp_all add: evaluate_settled [OF s] evaluate_unsettled [OF s])
qed

section \<open>Reversals\<close>

text \<open>A reversal moves the state forward by one sequence number, one nonce and one revoked lease.\<close>

definition revokes :: "runtime \<Rightarrow> degraded_reversal \<Rightarrow> degraded_authorization \<Rightarrow> degraded_state \<Rightarrow> degraded_state \<Rightarrow> bool"
where
  "revokes rt r a st st' \<longleftrightarrow>
     ds_highest_reversal_sequence st < rv_sequence r \<and> ds_highest_reversal_sequence st' = rv_sequence r \<and>
     rt_sha256_text rt (rv_nonce r) \<notin> set (ds_accepted_reversal_nonce_sha256 st) \<and>
     set (ds_accepted_reversal_nonce_sha256 st') =
       insert (rt_sha256_text rt (rv_nonce r)) (set (ds_accepted_reversal_nonce_sha256 st)) \<and>
     authorization_digest rt a \<notin> set (ds_revoked_authorization_sha256 st) \<and>
     set (ds_revoked_authorization_sha256 st') =
       insert (authorization_digest rt a) (set (ds_revoked_authorization_sha256 st)) \<and>
     ds_authority_id st' = ds_authority_id st \<and>
     ds_highest_authorization_sequence st' = ds_highest_authorization_sequence st \<and>
     ds_active_authorization_sha256 st' = ds_active_authorization_sha256 st \<and> degraded_state_valid st'"

lemma revokes_advances: "revokes rt r a st st' \<Longrightarrow> advances st st'"
  by (auto simp: revokes_def advances_def state_le_def)

lemma apply_to_state_cases:
  assumes "apply_to_state rt g r a reasons st = Inr (st', app, ok)"
  obtains "\<not> ok" "st' = st" | "ok" "reasons = []" "app = []" "revokes rt r a st st'"
proof -
  let ?n = "rt_sha256_text rt (rv_nonce r)" and ?d = "authorization_digest rt a"
  let ?c = "ds_highest_reversal_sequence st < rv_sequence r \<and> ?n \<notin> set (ds_accepted_reversal_nonce_sha256 st) \<and>
    ?d \<notin> set (ds_revoked_authorization_sha256 st) \<and> reasons = [] \<and>
    length (ds_accepted_reversal_nonce_sha256 st) < max_degraded_state_entries \<and>
    length (ds_revoked_authorization_sha256 st) < max_degraded_state_entries"
  have auth: "ds_authority_id st = gate_authority_id g"
    using assms by (simp add: apply_to_state_def Let_def split: if_splits)
  show thesis
  proof (cases ?c)
    case True
    then have "ok \<and> app = [] \<and> degraded_state_valid st' \<and>
        st' = st\<lparr>ds_highest_reversal_sequence := rv_sequence r,
                 ds_accepted_reversal_nonce_sha256 := sort (ds_accepted_reversal_nonce_sha256 st @ [?n]),
                 ds_revoked_authorization_sha256 := sort (ds_revoked_authorization_sha256 st @ [?d])\<rparr>"
      using assms auth
      by (auto simp: apply_to_state_def Let_def make_degraded_state_def split: if_splits)
    then show ?thesis using True by (intro that(2)) (auto simp: revokes_def)
  next
    case False
    then have "\<not> ok \<and> st' = st"
      using assms auth by (auto simp: apply_to_state_def Let_def not_less split: if_splits)
    then show ?thesis using that(1) by blast
  qed
qed

lemma apply_reversal_cases:
  assumes "apply_reversal rt g fault r a now st = (result, st')"
  obtains "\<not> rr_applied result" "st' = st"
  | "\<not> rr_applied result" "fault = Sync_Fails" "reversal_reasons rt g r a now = []" "revokes rt r a st st'"
  | "rr_applied result" "fault = No_Fault" "reversal_reasons rt g r a now = []" "revokes rt r a st st'"
      "rr_reasons result = [''degraded_authorization_revoked'']"
proof -
  let ?rs = "reversal_reasons rt g r a now"
  obtain s1 out raised where up: "store_update fault (apply_to_state rt g r a ?rs) st = (s1, out, raised)"
    by (metis prod_cases3)
  have st': "st' = s1" and
    app: "rr_applied result \<longleftrightarrow> \<not> raised \<and> (case out of None \<Rightarrow> False | Some (_, ok) \<Rightarrow> ok)" and
    why: "rr_applied result \<Longrightarrow> rr_reasons result = [''degraded_authorization_revoked'']"
    using assms by (auto simp: apply_reversal_def up Let_def)
  from up show thesis
  proof (cases rule: store_update_cases)
    case 1
    then show ?thesis using that(1) app st' by blast
  next
    case (2 upd x)
    obtain rs ok where x: "x = (rs, ok)" by fastforce
    from 2(1) [unfolded x] show ?thesis
    proof (cases rule: apply_to_state_cases)
      case 1
      then show ?thesis using that(1) app st' 2 x by auto
    next
      case applied: 2
      then show ?thesis using that(2,3) app st' why x 2 by (cases raised) auto
    qed
  qed
qed

lemma apply_reversal_advances: "advances st (snd (apply_reversal rt g fault r a now st))"
  by (cases rule: apply_reversal_cases [of rt g fault r a now st
        "fst (apply_reversal rt g fault r a now st)" "snd (apply_reversal rt g fault r a now st)"])
    (auto intro: revokes_advances)

section \<open>A concrete gate\<close>

definition demo_gate :: degraded_gate where
  "demo_gate = \<lparr>gate_authority_id = ''authority:m5'', gate_public_key = ''authority-key'',
     gate_maximum_snapshot_age = seconds 5, gate_maximum_authorization_lifetime = seconds 300\<rparr>"

definition demo_snapshot :: "role_condition \<Rightarrow> degraded_snapshot" where
  "demo_snapshot c = \<lparr>sn_snapshot_id = ''snapshot-0123456789'', sn_captured_at = 0,
     sn_role_conditions = (\<lambda>r. if r = MANAGEMENT then c else HEALTHY),
     sn_communication_conditions = (\<lambda>r. HEALTHY), sn_unresolved_effect = False\<rparr>"

definition demo_unsigned_lease :: degraded_authorization where
  "demo_unsigned_lease = \<lparr>da_authorization_id = ''authorization-0001'', da_sequence = 1,
     da_authority_id = ''authority:m5'', da_mode_name = ''management-loss'', da_behavior = MISSION_PRESERVING,
     da_affected_roles = {MANAGEMENT}, da_allowed_actor_ids = {''agent:operator-1''},
     da_allowed_mission_ids = {''microgrid-containment''}, da_allowed_resources = {''feeder-1''},
     da_allowed_operations = {ISOLATE_ASSET}, da_maximum_risk_score = Fin 60,
     da_snapshot_sha256 = zero_digest, da_recovery_checkpoint_id = ''checkpoint-000001'',
     da_nonce = ''nonce-lease-000001'', da_issued_at = 0, da_expires_at = seconds 60, da_signature = ''''\<rparr>"

definition demo_lease :: degraded_authorization where
  "demo_lease = demo_unsigned_lease\<lparr>da_signature :=
     sign_bytes demo_runtime ''authority-key'' (authorization_signing_payload demo_unsigned_lease)\<rparr>"

definition demo_unsigned_reversal :: degraded_reversal where
  "demo_unsigned_reversal =
     \<lparr>rv_reversal_id = ''reversal-000000001'', rv_sequence = 1, rv_authority_id = ''authority:m5'',
      rv_authorization_id = ''authorization-0001'', rv_authorization_sha256 = zero_digest,
      rv_recovery_checkpoint_id = ''checkpoint-000001'', rv_reason_code = ''recovered'',
      rv_nonce = ''nonce-reversal-0001'', rv_issued_at = 0, rv_signature = ''''\<rparr>"

definition demo_reversal :: degraded_reversal where
  "demo_reversal = demo_unsigned_reversal\<lparr>rv_signature :=
     sign_bytes demo_runtime ''authority-key'' (reversal_signing_payload demo_unsigned_reversal)\<rparr>"

definition demo_gate_env :: "role_condition \<Rightarrow> degraded_env" where
  "demo_gate_env c = \<lparr>de_snapshot = Returns (demo_snapshot c), de_authorization = Returns (Some demo_lease),
     de_read = Returns (), de_interleaved = (\<lambda>s. s), de_update_fault = No_Fault\<rparr>"

definition demo_request :: action_proposal where
  "demo_request = \<lparr>ap_proposal_id = ''proposal-1'', ap_actor_id = ''agent:operator-1'',
      ap_mission_id = ''microgrid-containment'', ap_resource = ''feeder-1'', ap_operation = ISOLATE_ASSET,
      ap_parameters = [], ap_observed_state_version = 1, ap_observed_at = 0, ap_submitted_at = 0,
      ap_nonce = ''nonce-0123456789abcdef'', ap_confidence = Fin 1, ap_risk_score = Fin 50,
      ap_delegation_chain = [''grant-root'', ''grant-leaf''], ap_human_approval_id = None\<rparr>"

abbreviation "demo_gate_state \<equiv> degraded_state_initial ''authority:m5''"

lemma demo_authorization_digest [simp]: "authorization_digest demo_runtime a = zero_digest"
  by (simp add: authorization_digest_def)

lemma demo_snapshot_digest [simp]: "snapshot_digest demo_runtime s = zero_digest"
  by (simp add: snapshot_digest_def)

lemma demo_affected: "affected_roles (demo_snapshot UNAVAILABLE) = {MANAGEMENT}"
  by (simp add: affected_roles_def demo_snapshot_def all_roles_def)

lemma demo_settled: "\<not> sn_unresolved_effect (demo_snapshot c)"
  by (simp add: demo_snapshot_def)

lemma demo_lease_signed: "lease_signed demo_runtime demo_gate demo_lease"
proof -
  have "authorization_signing_payload demo_lease = authorization_signing_payload demo_unsigned_lease"
    by (simp add: demo_lease_def authorization_signing_payload_def authorization_fields_def)
  then show ?thesis by (simp add: lease_signed_def demo_lease_def demo_gate_def)
qed

lemma demo_lease_fields:
  "da_authority_id demo_lease = ''authority:m5''" "gate_authority_id demo_gate = ''authority:m5''"
  "da_snapshot_sha256 demo_lease = zero_digest" "da_affected_roles demo_lease = {MANAGEMENT}"
  "da_behavior demo_lease = MISSION_PRESERVING" "da_issued_at demo_lease = 0" "da_expires_at demo_lease = seconds 60"
  "gate_maximum_authorization_lifetime demo_gate = seconds 300" "da_sequence demo_lease = 1"
  by (simp_all add: demo_lease_def demo_unsigned_lease_def demo_gate_def)

lemma demo_lease_validates:
  "lease_validation_reasons demo_runtime demo_gate (demo_snapshot UNAVAILABLE) demo_lease 1 = []"
proof -
  have fresh: "freshness_reasons demo_gate (demo_snapshot UNAVAILABLE) 1 = []"
    by (simp add: reason_simps demo_gate_def demo_snapshot_def)
  have eff: "effective_behavior {MANAGEMENT} = MISSION_PRESERVING" by (simp add: effective_behavior_def)
  show ?thesis
    unfolding lease_validation_reasons_def demo_lease_fields demo_affected fresh eff demo_snapshot_digest
    by (simp add: demo_lease_signed demo_settled)
qed

section \<open>Properties\<close>

text \<open>
  (C23) The degraded-operation gate never raises and never authorizes execution: whatever its sources
  and its store do, it returns a well-formed result with at least one reason, which may enter primary
  assurance exactly when its outcome says so.
\<close>
theorem degraded_gate_total:
  assumes "digests_ok rt"
  shows "\<exists>r. fst (degraded_evaluate rt g env p now st) = Inr r \<and> degraded_result_valid r \<and>
    \<not> dr_execution_authorized r \<and> dr_reasons r \<noteq> [] \<and>
    (dr_may_enter_primary_assurance r \<longleftrightarrow> dr_outcome r = CONTINUE_PRIMARY_ASSURANCE)"
  using evaluate_total [OF assms, of g env p now st] by (auto simp: degraded_result_valid_def)

theorem degraded_gate_total_witness:
  "\<exists>r. fst (degraded_evaluate demo_runtime demo_gate (demo_gate_env UNAVAILABLE) demo_request 1 demo_gate_state) = Inr r"
  using degraded_gate_total [OF demo_runtime_ok(1)] by blast

text \<open>
  (C22) When the gate lets a proposal through: exactly when the snapshot and the state can be read and
  either every role is healthy on a fresh snapshot with no unresolved effect and no unrevoked active
  lease, or the management role alone is affected and a lease that is signed by the gate's authority,
  in force, bound to this snapshot, unrevoked, of increasing sequence and covering the proposal has
  been stored.
\<close>
theorem degraded_gate_continues_iff:
  assumes "digests_ok rt" "degraded_state_valid (de_interleaved env st)"
  shows "continues (fst (degraded_evaluate rt g env p now st)) \<longleftrightarrow>
    (\<exists>s. de_snapshot env = Returns s \<and> readable env g st \<and>
      (healthy_admits g now s st \<or>
       (\<exists>a. lease_of env = Some a \<and> \<not> lease_revoked rt env st \<and> lease_admits rt g p now s a \<and>
            accepted_by rt g a (de_interleaved env st) \<and> de_update_fault env = No_Fault)))"
  using evaluate_continues [of rt g env p now st] evaluate_admitted [OF assms(1), of env _ g st now p] assms(2)
  by blast

lemma initial_valid: "len_between 1 256 authority \<Longrightarrow> degraded_state_valid (degraded_state_initial authority)"
  by (simp add: degraded_state_valid_def degraded_state_initial_def digests_sorted_unique_def)

lemma demo_state_valid: "degraded_state_valid demo_gate_state"
  by (rule initial_valid) (simp add: len_between_def)

lemma demo_lease_admits: "lease_admits demo_runtime demo_gate demo_request 1 (demo_snapshot UNAVAILABLE) demo_lease"
proof (rule lease_admitsI [OF demo_lease_validates])
  show "effective_behavior (affected_roles (demo_snapshot UNAVAILABLE)) = MISSION_PRESERVING"
    by (simp add: demo_affected effective_behavior_def)
  show "lease_scope_reasons demo_lease demo_request = []"
    by (simp add: lease_scope_reasons_def demo_lease_def demo_unsigned_lease_def demo_request_def)
qed

lemma demo_env_simps:
  "de_snapshot (demo_gate_env c) = Returns (demo_snapshot c)" "lease_of (demo_gate_env c) = Some demo_lease"
  "readable (demo_gate_env c) demo_gate demo_gate_state" "de_interleaved (demo_gate_env c) = (\<lambda>s. s)"
  "de_update_fault (demo_gate_env c) = No_Fault" "interleaving_ok (demo_gate_env c)"
  by (simp_all add: demo_gate_env_def lease_of_def readable_def demo_gate_def degraded_state_initial_def
      interleaving_ok_def)

lemma demo_accepted: "accepted_by demo_runtime demo_gate demo_lease demo_gate_state"
  by (simp add: accepted_by_def degraded_state_initial_def demo_lease_fields)

theorem degraded_gate_continues_iff_witness:
  "continues (fst (degraded_evaluate demo_runtime demo_gate (demo_gate_env UNAVAILABLE) demo_request 1 demo_gate_state))"
proof -
  have "\<not> lease_revoked demo_runtime (demo_gate_env UNAVAILABLE) demo_gate_state"
    by (simp add: lease_revoked_def demo_env_simps degraded_state_initial_def)
  moreover have "degraded_state_valid (de_interleaved (demo_gate_env UNAVAILABLE) demo_gate_state)"
    by (simp add: demo_env_simps demo_state_valid)
  ultimately show ?thesis
    using degraded_gate_continues_iff [OF demo_runtime_ok(1), of "demo_gate_env UNAVAILABLE" demo_gate_state
        demo_gate demo_request 1] demo_lease_admits demo_accepted
    by (simp add: demo_env_simps)
qed

text \<open>
  (C24) The durable state of the gate only moves forward: neither an evaluation, with any interleaved
  updates of other processes that move it forward, nor a reversal, under any store fault, lowers a
  sequence number, forgets a reversal nonce or a revoked lease, or leaves the state malformed.
\<close>
theorem degraded_state_advances:
  assumes "interleaving_ok env"
  shows "advances st (snd (degraded_evaluate rt g env p now st)) \<and>
    advances st (snd (apply_reversal rt g fault r a now st))"
  using evaluate_advances [OF assms] apply_reversal_advances by blast

theorem degraded_state_advances_witness:
  "degraded_state_valid (snd (degraded_evaluate demo_runtime demo_gate (demo_gate_env UNAVAILABLE) demo_request 1 demo_gate_state))"
  using degraded_state_advances [OF demo_env_simps(6), of demo_gate_state demo_runtime demo_gate UNAVAILABLE]
    demo_state_valid by (auto simp: advances_def)

text \<open>
  (C25) A revoked lease is dead: after a reversal has been applied, no later evaluation with that lease,
  in any state reached by moving forward, lets a proposal through while any role is affected.
\<close>
theorem revoked_lease_never_admits:
  assumes "apply_reversal rt g fault r a t0 st = (result, st1)" "rr_applied result" "advances st1 st2"
    and "lease_of env = Some a" "de_snapshot env = Returns s" "affected_roles s \<noteq> {}"
  shows "\<not> continues (fst (degraded_evaluate rt g env p now st2))"
proof
  assume "continues (fst (degraded_evaluate rt g env p now st2))"
  from evaluate_continues [OF this] assms(4-6) have "\<not> lease_revoked rt env st2"
    by (auto simp: healthy_admits_def)
  moreover have "authorization_digest rt a \<in> set (ds_revoked_authorization_sha256 st1)"
    using assms(1,2) by (cases rule: apply_reversal_cases) (auto simp: revokes_def)
  then have "lease_revoked rt env st2"
    using assms(3,4) by (auto simp: lease_revoked_def advances_def state_le_def)
  ultimately show False by simp
qed

lemma demo_reversal_signed:
  "verify_bytes demo_runtime (gate_public_key demo_gate) (reversal_signing_payload demo_reversal) (rv_signature demo_reversal)"
  "rv_signature demo_reversal \<noteq> []"
proof -
  have "reversal_signing_payload demo_reversal = reversal_signing_payload demo_unsigned_reversal"
    by (simp add: demo_reversal_def reversal_signing_payload_def reversal_fields_def)
  then show "verify_bytes demo_runtime (gate_public_key demo_gate) (reversal_signing_payload demo_reversal) (rv_signature demo_reversal)"
    "rv_signature demo_reversal \<noteq> []" by (simp_all add: demo_reversal_def demo_gate_def)
qed

lemma demo_reversal_reasons: "reversal_reasons demo_runtime demo_gate demo_reversal demo_lease 1 = []"
proof -
  have fields: "rv_authority_id demo_reversal = ''authority:m5''" "rv_authorization_id demo_reversal = ''authorization-0001''"
    "rv_authorization_sha256 demo_reversal = zero_digest" "rv_recovery_checkpoint_id demo_reversal = ''checkpoint-000001''"
    "rv_issued_at demo_reversal = 0" "da_authorization_id demo_lease = ''authorization-0001''"
    "da_recovery_checkpoint_id demo_lease = ''checkpoint-000001''"
    by (simp_all add: demo_reversal_def demo_unsigned_reversal_def demo_lease_def demo_unsigned_lease_def)
  show ?thesis
    unfolding reversal_reasons_def Let_def fields demo_lease_fields
    by (simp add: demo_lease_signed demo_reversal_signed)
qed

definition demo_reversed :: "reversal_result \<times> degraded_state" where
  "demo_reversed = apply_reversal demo_runtime demo_gate No_Fault demo_reversal demo_lease 1 demo_gate_state"

lemma demo_applied: "rr_applied (fst demo_reversed)"
proof -
  have sha: "rt_sha256_text demo_runtime x = zero_digest" for x by (simp add: demo_runtime_def)
  let ?u = "demo_gate_state\<lparr>ds_highest_reversal_sequence := 1, ds_accepted_reversal_nonce_sha256 := [zero_digest],
    ds_revoked_authorization_sha256 := [zero_digest]\<rparr>"
  have valid: "degraded_state_valid ?u"
    using demo_state_valid
    by (simp add: degraded_state_valid_def degraded_state_initial_def digests_sorted_unique_def max_degraded_state_entries_def)
  have "apply_to_state demo_runtime demo_gate demo_reversal demo_lease [] demo_gate_state = Inr (?u, [], True)"
    using valid
    by (simp add: apply_to_state_def Let_def sha degraded_state_initial_def demo_lease_fields demo_reversal_def
        demo_unsigned_reversal_def max_degraded_state_entries_def make_degraded_state_def)
  moreover have "ds_authority_id ?u = ds_authority_id demo_gate_state" by simp
  ultimately have "store_update No_Fault (apply_to_state demo_runtime demo_gate demo_reversal demo_lease []) demo_gate_state =
      (?u, Some ([], True), False)" by (simp add: store_update_def)
  then show ?thesis unfolding demo_reversed_def apply_reversal_def Let_def demo_reversal_reasons by simp
qed

theorem revoked_lease_never_admits_witness:
  "rr_applied (fst demo_reversed) \<and>
   \<not> continues (fst (degraded_evaluate demo_runtime demo_gate (demo_gate_env UNAVAILABLE) demo_request 1 (snd demo_reversed)))"
  using revoked_lease_never_admits [of demo_runtime demo_gate No_Fault demo_reversal demo_lease 1 demo_gate_state
      "fst demo_reversed" "snd demo_reversed" "snd demo_reversed" "demo_gate_env UNAVAILABLE" "demo_snapshot UNAVAILABLE"]
    demo_applied
  by (simp add: demo_reversed_def [symmetric] demo_env_simps demo_affected)

text \<open>
  (C26) A reversal applies at most once: after a reversal has been applied, a reversal with the same
  nonce, or of the same lease, or with no larger sequence number is refused in every later state and
  leaves that state unchanged.
\<close>
theorem reversal_applies_once:
  assumes first: "apply_reversal rt g fault r a t0 st = (result, st1)" "rr_applied result" and "advances st1 st2"
    and second: "apply_reversal rt g fault' r' a' t1 st2 = (result', st3)"
    and again: "rv_nonce r' = rv_nonce r \<or> authorization_digest rt a' = authorization_digest rt a \<or>
      rv_sequence r' \<le> rv_sequence r"
  shows "\<not> rr_applied result' \<and> st3 = st2"
proof -
  from first have "revokes rt r a st st1" by (cases rule: apply_reversal_cases) auto
  then have "rv_sequence r \<le> ds_highest_reversal_sequence st2"
    "rt_sha256_text rt (rv_nonce r) \<in> set (ds_accepted_reversal_nonce_sha256 st2)"
    "authorization_digest rt a \<in> set (ds_revoked_authorization_sha256 st2)"
    using assms(3) by (auto simp: revokes_def advances_def state_le_def)
  then have "\<not> revokes rt r' a' st2 st3" using again by (auto simp: revokes_def)
  with second show ?thesis by (cases rule: apply_reversal_cases) auto
qed

theorem reversal_applies_once_witness:
  "rr_applied (fst demo_reversed) \<and>
   \<not> rr_applied (fst (apply_reversal demo_runtime demo_gate No_Fault demo_reversal demo_lease 1 (snd demo_reversed)))"
  using reversal_applies_once [of demo_runtime demo_gate No_Fault demo_reversal demo_lease 1 demo_gate_state
      "fst demo_reversed" "snd demo_reversed" "snd demo_reversed" No_Fault demo_reversal demo_lease 1] demo_applied
  by (simp add: demo_reversed_def [symmetric] prod_eq_iff)

end
