(* ===== verification/Gateway.thy ===== *)
theory Gateway
  imports Delegation Identity_Policy Safety Replay Evidence Degraded
begin

text \<open>
  \<^verbatim>\<open>gateway.py\<close>, \<^verbatim>\<open>lab.py\<close> and \<^verbatim>\<open>factory.py\<close>: the sole authorization path, the command adapter behind
  it and the local laboratory. \<open>decide\<close> composes the degraded-operation gate, identity, delegation,
  freshness, policy, safety, replay and evidence in the order of the code. \<open>gateway_step\<close> is the step
  relation of a running gateway: decisions interleaved with grant revocations and lease reversals.
\<close>

section \<open>The gateway\<close>

text \<open>
  The identity verifier and the policy engine are protocols with several implementations, so the
  gateway holds their operations.
\<close>

record gateway =
  gw_identity_verify :: "string \<Rightarrow> bool"
  gw_identity_version :: string
  gw_delegation :: delegation_validator
  gw_policy_evaluate :: "action_proposal \<Rightarrow> system_state \<Rightarrow> policy_result"
  gw_policy_version :: string
  gw_safety :: safety_kernel
  gw_replay :: replay_ledger
  gw_evidence :: evidence_chain
  gw_maximum_state_age :: duration
  gw_degraded_operation :: "degraded_gate option"
  gw_degraded_state :: degraded_state

text \<open>What one call reads from its surroundings: clock readings, a fresh identifier, the gate's sources.\<close>

record decide_env =
  env_clock :: instant
  env_decision_id :: string
  env_decided_at :: instant
  env_recorded_at :: instant
  env_degraded :: degraded_env

definition state_digest :: "runtime \<Rightarrow> system_state \<Rightarrow> string" where
  "state_digest rt s = canonical_digest rt (system_state_dump rt s)"

definition not_evaluated :: string where
  "not_evaluated = ''not-evaluated:m5-degraded-pre-authorization''"

text \<open>
  The pre-authorization gate: the reasons that deny the call, the admission to be recorded, and the
  state of the gate afterwards.
\<close>

definition degraded_admission ::
  "runtime \<Rightarrow> decide_env \<Rightarrow> gateway \<Rightarrow> action_proposal \<Rightarrow> instant \<Rightarrow>
   string list \<times> degraded_result option \<times> degraded_state" where
  "degraded_admission rt env gw p evaluated_at =
     (case gw_degraded_operation gw of
        None \<Rightarrow> ([], None, gw_degraded_state gw)
      | Some g \<Rightarrow>
          case degraded_evaluate rt g (env_degraded env) p evaluated_at (gw_degraded_state gw) of
            (Inl _, st) \<Rightarrow> ([''degraded_admission_unavailable''], None, st)
          | (Inr admission, st) \<Rightarrow>
              (if \<not> dr_may_enter_primary_assurance admission then dr_reasons admission else [],
               Some admission, st))"

definition provisional_decision ::
  "decide_env \<Rightarrow> string \<Rightarrow> decision_outcome \<Rightarrow> string list \<Rightarrow> string \<Rightarrow> string \<Rightarrow> int \<Rightarrow> decision" where
  "provisional_decision env proposal_id outcome reasons policy_version safety_version state_version =
     \<lparr>dec_decision_id = env_decision_id env, dec_proposal_id = proposal_id, dec_outcome = outcome,
      dec_reasons = reasons, dec_decided_at = env_decided_at env, dec_policy_version = policy_version,
      dec_safety_version = safety_version, dec_state_version = state_version,
      dec_evidence_record_hash = None\<rparr>"

text \<open>\<^verbatim>\<open>self.evidence.append(...)\<close> and \<^verbatim>\<open>model_copy(update={"evidence_record_hash": ...})\<close>.\<close>

definition record_decision ::
  "runtime \<Rightarrow> decide_env \<Rightarrow> gateway \<Rightarrow> decision \<Rightarrow> json \<Rightarrow> gateway \<times> decision" where
  "record_decision rt env gw provisional payload =
     (let (chain, record) = evidence_append rt (env_recorded_at env) (gw_evidence gw)
            (dec_proposal_id provisional) (dec_decision_id provisional) payload
      in (gw\<lparr>gw_evidence := chain\<rparr>,
          provisional\<lparr>dec_evidence_record_hash := Some (ev_record_hash record)\<rparr>))"

definition pre_authorization_denial ::
  "runtime \<Rightarrow> decide_env \<Rightarrow> gateway \<Rightarrow> action_proposal \<Rightarrow> system_state \<Rightarrow> string list \<Rightarrow>
   degraded_result option \<Rightarrow> gateway \<times> decision" where
  "pre_authorization_denial rt env gw p s reasons admission =
     (let untrusted_sha = proposal_digest rt p;
          provisional = provisional_decision env (''untrusted:'' @ untrusted_sha) DENY reasons
            not_evaluated not_evaluated (ss_version s)
      in record_decision rt env gw provisional (JObj [
           (''event_type'', JStr ''m5_degraded_pre_authorization_denial''),
           (''untrusted_proposal_sha256'', JStr untrusted_sha),
           (''decision'', decision_dump provisional),
           (''trusted_state_sha256'', JStr (state_digest rt s)),
           (''predicted_state'', JNull),
           (''degraded_admission'', jopt degraded_result_dump admission)]))"

text \<open>The reasons the primary checks collect before the replay ledger is consulted.\<close>

definition check_reasons ::
  "runtime \<Rightarrow> gateway \<Rightarrow> action_proposal \<Rightarrow> system_state \<Rightarrow> instant \<Rightarrow> string list" where
  "check_reasons rt gw p s evaluated_at =
     (let state_age = evaluated_at - ss_observed_at s in
      reasons_of [(\<not> gw_identity_verify gw (ap_actor_id p), ''identity_not_verified'')] @
      dvn_reasons (validate rt (gw_delegation gw) p evaluated_at) @
      reasons_of [
        (state_age < 0 \<or> state_age > gw_maximum_state_age gw, ''state_not_fresh''),
        (ap_observed_at p \<noteq> ss_observed_at s, ''proposal_observation_mismatch'')] @
      pr_reasons (gw_policy_evaluate gw p s) @
      sr_reasons (safety_evaluate (gw_safety gw) p s))"

text \<open>An unauthenticated caller does not reach the replay ledger.\<close>

definition reserve_nonce ::
  "gateway \<Rightarrow> action_proposal \<Rightarrow> instant \<Rightarrow> replay_ledger \<times> string list" where
  "reserve_nonce gw p evaluated_at =
     (if gw_identity_verify gw (ap_actor_id p) then
        let (ledger, ok) = reserve (gw_replay gw) (ap_nonce p) evaluated_at
        in (ledger, reasons_of [(\<not> ok, ''replayed_nonce'')])
      else (gw_replay gw, []))"

definition primary_decision ::
  "runtime \<Rightarrow> decide_env \<Rightarrow> gateway \<Rightarrow> action_proposal \<Rightarrow> system_state \<Rightarrow> instant \<Rightarrow>
   degraded_result option \<Rightarrow> gateway \<times> decision" where
  "primary_decision rt env gw p s evaluated_at admission =
     (let checks = check_reasons rt gw p s evaluated_at;
          (ledger, replayed) = reserve_nonce gw p evaluated_at;
          reasons = checks @ replayed;
          outcome = (if reasons = [''human_approval_required''] then REQUIRE_APPROVAL
                     else if reasons = [] then PERMIT else DENY);
          provisional = provisional_decision env (ap_proposal_id p) outcome
            (if reasons \<noteq> [] then reasons else [''all_checks_passed''])
            (gw_policy_version gw) (sk_version (gw_safety gw)) (ss_version s);
          predicted = sr_predicted_state (safety_evaluate (gw_safety gw) p s)
      in record_decision rt env (gw\<lparr>gw_replay := ledger\<rparr>) provisional (JObj ([
           (''proposal'', action_proposal_dump p),
           (''decision'', decision_dump provisional),
           (''state'', system_state_dump rt s),
           (''predicted_state'', system_state_dump rt predicted),
           (''identity_version'', JStr (gw_identity_version gw))] @
           (case admission of None \<Rightarrow> []
            | Some a \<Rightarrow> [(''degraded_admission'', degraded_result_dump a)]))))"

text \<open>\<^verbatim>\<open>now or datetime.now(UTC)\<close>\<close>

definition decide ::
  "runtime \<Rightarrow> decide_env \<Rightarrow> gateway \<Rightarrow> action_proposal \<Rightarrow> system_state \<Rightarrow> instant option \<Rightarrow>
   gateway \<times> decision" where
  "decide rt env gw p s now =
     (let evaluated_at = (case now of None \<Rightarrow> env_clock env | Some t \<Rightarrow> t);
          (reasons, admission, st) = degraded_admission rt env gw p evaluated_at;
          gw' = gw\<lparr>gw_degraded_state := st\<rparr>
      in if reasons \<noteq> [] then pre_authorization_denial rt env gw' p s reasons admission
         else primary_decision rt env gw' p s evaluated_at admission)"

section \<open>The command adapter\<close>

text \<open>\<^verbatim>\<open>SimulatedCommandAdapter.execute\<close>\<close>

definition execute ::
  "safety_kernel \<Rightarrow> instant \<Rightarrow> action_proposal \<Rightarrow> decision \<Rightarrow> system_state \<Rightarrow> execution_result" where
  "execute transition_model acknowledged_at p d current_state =
     (let refused = (\<lambda>reason.
            \<lparr>er_proposal_id = ap_proposal_id p, er_decision_id = dec_decision_id d, er_executed = False,
             er_acknowledged_at = acknowledged_at, er_resulting_state = None, er_reason = Some reason\<rparr>)
      in if dec_proposal_id d \<noteq> ap_proposal_id p then refused ''proposal_decision_mismatch''
         else if dec_outcome d \<noteq> PERMIT then refused ''decision_not_permit''
         else if dec_state_version d \<noteq> ss_version current_state
         then refused ''time_of_check_time_of_use_state_change''
         else \<lparr>er_proposal_id = ap_proposal_id p, er_decision_id = dec_decision_id d,
               er_executed = True, er_acknowledged_at = acknowledged_at,
               er_resulting_state =
                 Some (sr_predicted_state (safety_evaluate transition_model p current_state)),
               er_reason = None\<rparr>)"

section \<open>The local laboratory\<close>

definition nominal_state :: "int \<Rightarrow> instant \<Rightarrow> system_state" where
  "nominal_state version observed_at =
     \<lparr>ss_version = version, ss_observed_at = observed_at, ss_critical_load_served_pct = Fin 100,
      ss_minimum_voltage_pu = round64 (99 / 100), ss_maximum_voltage_pu = round64 (101 / 100),
      ss_maximum_line_loading_pct = Fin 72, ss_isolated_assets = {}, ss_battery_dispatch_mw = Fin 0\<rparr>"

record local_lab =
  lab_gateway :: gateway
  lab_root_grant :: delegation_grant
  lab_leaf_grant :: delegation_grant
  lab_root_private_key :: private_key
  lab_supervisor_private_key :: private_key

definition root_grant :: "instant \<Rightarrow> delegation_grant" where
  "root_grant reference_time =
     \<lparr>dg_grant_id = ''grant-root'', dg_issuer_id = ''human:principal-investigator'',
      dg_subject_id = ''agent:supervisor'', dg_mission_id = ''microgrid-containment'',
      dg_resources = {''feeder-1'', ''feeder-2'', ''battery-1''},
      dg_operations = {ISOLATE_ASSET, RESTORE_ASSET, SHED_LOAD, DISPATCH_BATTERY},
      dg_not_before = reference_time - seconds 60, dg_expires_at = reference_time + seconds 3600,
      dg_risk_limit = Fin 90, dg_delegation_depth_remaining = 2, dg_parent_grant_id = None,
      dg_signature = ''''\<rparr>"

definition leaf_grant :: "instant \<Rightarrow> string \<Rightarrow> string \<Rightarrow> delegation_grant" where
  "leaf_grant reference_time agent_actor_id parent_id =
     \<lparr>dg_grant_id = ''grant-leaf'', dg_issuer_id = ''agent:supervisor'',
      dg_subject_id = agent_actor_id, dg_mission_id = ''microgrid-containment'',
      dg_resources = {''feeder-1'', ''battery-1''},
      dg_operations = {ISOLATE_ASSET, DISPATCH_BATTERY},
      dg_not_before = reference_time - seconds 30, dg_expires_at = reference_time + seconds 1800,
      dg_risk_limit = Fin 74, dg_delegation_depth_remaining = 1, dg_parent_grant_id = Some parent_id,
      dg_signature = ''''\<rparr>"

text \<open>The two private keys are the ones \<^verbatim>\<open>generate_keypair\<close> returns.\<close>

definition build_local_lab ::
  "runtime \<Rightarrow> private_key \<Rightarrow> private_key \<Rightarrow> instant \<Rightarrow> string \<Rightarrow> local_lab res" where
  "build_local_lab rt root_private supervisor_private reference_time agent_actor_id =
     (if agent_actor_id = [] \<or> \<not> no_whitespace agent_actor_id
      then Inl (ValueError ''agent actor ID must be non-empty and contain no whitespace'')
      else
        let root = delegation_grant_signed rt (root_grant reference_time) root_private;
            leaf = delegation_grant_signed rt
              (leaf_grant reference_time agent_actor_id (dg_grant_id root)) supervisor_private;
            validator = \<lparr>
              dv_grants = [dg_grant_id root \<mapsto> root, dg_grant_id leaf \<mapsto> leaf],
              dv_public_keys = [dg_issuer_id root \<mapsto> rt_public rt root_private,
                                dg_issuer_id leaf \<mapsto> rt_public rt supervisor_private],
              dv_revoked = {}\<rparr>
        in Inr \<lparr>lab_gateway = \<lparr>
                  gw_identity_verify = identity_verify (allowlist {agent_actor_id}),
                  gw_identity_version = iv_version (allowlist {agent_actor_id}),
                  gw_delegation = validator,
                  gw_policy_evaluate = policy_evaluate default_policy,
                  gw_policy_version = cp_version default_policy,
                  gw_safety = default_kernel,
                  gw_replay = new_ledger (seconds 3600),
                  gw_evidence = [],
                  gw_maximum_state_age = seconds 5,
                  gw_degraded_operation = None,
                  gw_degraded_state = degraded_state_initial ''''\<rparr>,
                lab_root_grant = root, lab_leaf_grant = leaf,
                lab_root_private_key = root_private,
                lab_supervisor_private_key = supervisor_private\<rparr>)"

section \<open>Functional behaviour of a decision\<close>

definition admitted :: "runtime \<Rightarrow> decide_env \<Rightarrow> gateway \<Rightarrow> action_proposal \<Rightarrow> instant \<Rightarrow> bool" where
  "admitted rt env gw p t \<longleftrightarrow> fst (degraded_admission rt env gw p t) = []"

definition evaluation_time :: "decide_env \<Rightarrow> instant option \<Rightarrow> instant" where
  "evaluation_time env now = (case now of None \<Rightarrow> env_clock env | Some t \<Rightarrow> t)"

definition authorised :: "runtime \<Rightarrow> gateway \<Rightarrow> action_proposal \<Rightarrow> system_state \<Rightarrow> instant \<Rightarrow> bool" where
  "authorised rt gw p s t \<longleftrightarrow>
     gw_identity_verify gw (ap_actor_id p) \<and>
     (\<exists>chain. authorizes rt (gw_delegation gw) p t chain) \<and>
     ss_observed_at s \<le> t \<and> t \<le> ss_observed_at s + gw_maximum_state_age gw \<and>
     ap_observed_at p = ss_observed_at s \<and>
     pr_reasons (gw_policy_evaluate gw p s) = [] \<and>
     within_limits (sk_limits (gw_safety gw)) (transition p s) \<and>
     (\<forall>t0. rl_seen (gw_replay gw) (ap_nonce p) = Some t0 \<longrightarrow> t0 + rl_retention (gw_replay gw) < t)"

definition gateway_ok :: "gateway \<Rightarrow> bool" where
  "gateway_ok gw \<longleftrightarrow> grants_valid (gw_delegation gw) \<and> limits_finite (sk_limits (gw_safety gw))"

lemma record_decision_simps [simp]:
  "gw_identity_verify (fst (record_decision rt env gw d pl)) = gw_identity_verify gw"
  "gw_delegation (fst (record_decision rt env gw d pl)) = gw_delegation gw"
  "gw_policy_evaluate (fst (record_decision rt env gw d pl)) = gw_policy_evaluate gw"
  "gw_safety (fst (record_decision rt env gw d pl)) = gw_safety gw"
  "gw_replay (fst (record_decision rt env gw d pl)) = gw_replay gw"
  "gw_maximum_state_age (fst (record_decision rt env gw d pl)) = gw_maximum_state_age gw"
  "gw_degraded_operation (fst (record_decision rt env gw d pl)) = gw_degraded_operation gw"
  "gw_degraded_state (fst (record_decision rt env gw d pl)) = gw_degraded_state gw"
  "dec_outcome (snd (record_decision rt env gw d pl)) = dec_outcome d"
  "dec_reasons (snd (record_decision rt env gw d pl)) = dec_reasons d"
  "dec_proposal_id (snd (record_decision rt env gw d pl)) = dec_proposal_id d"
  "dec_decision_id (snd (record_decision rt env gw d pl)) = dec_decision_id d"
  "dec_state_version (snd (record_decision rt env gw d pl)) = dec_state_version d"
  by (simp_all add: record_decision_def case_prod_beta Let_def)

lemma provisional_simps [simp]:
  "dec_outcome (provisional_decision env i out rs pv sv v) = out"
  "dec_reasons (provisional_decision env i out rs pv sv v) = rs"
  "dec_proposal_id (provisional_decision env i out rs pv sv v) = i"
  "dec_decision_id (provisional_decision env i out rs pv sv v) = env_decision_id env"
  "dec_state_version (provisional_decision env i out rs pv sv v) = v"
  by (simp_all add: provisional_decision_def)

lemma denial_outcome [simp]:
  "dec_outcome (snd (pre_authorization_denial rt env gw p s rs a)) = DENY"
  by (simp add: pre_authorization_denial_def Let_def)

definition all_reasons :: "runtime \<Rightarrow> gateway \<Rightarrow> action_proposal \<Rightarrow> system_state \<Rightarrow> instant \<Rightarrow> string list" where
  "all_reasons rt gw p s t = check_reasons rt gw p s t @ snd (reserve_nonce gw p t)"

lemma primary_outcome [simp]:
  "dec_outcome (snd (primary_decision rt env gw p s t a)) =
     (if all_reasons rt gw p s t = [''human_approval_required''] then REQUIRE_APPROVAL
      else if all_reasons rt gw p s t = [] then PERMIT else DENY)"
  by (simp add: primary_decision_def all_reasons_def Let_def case_prod_beta)

lemma all_reasons_degraded [simp]:
  "all_reasons rt (gw\<lparr>gw_degraded_state := st\<rparr>) p s t = all_reasons rt gw p s t"
  by (simp add: all_reasons_def check_reasons_def reserve_nonce_def)

lemma decide_outcome:
  "dec_outcome (snd (decide rt env gw p s now)) =
     (let t = evaluation_time env now in
      if admitted rt env gw p t then
        (if all_reasons rt gw p s t = [''human_approval_required''] then REQUIRE_APPROVAL
         else if all_reasons rt gw p s t = [] then PERMIT else DENY)
      else DENY)"
  by (simp add: decide_def admitted_def evaluation_time_def Let_def case_prod_beta)

lemma reserve_nonce_reasons:
  "snd (reserve_nonce gw p t) = [] \<longleftrightarrow>
     (gw_identity_verify gw (ap_actor_id p) \<longrightarrow>
       (\<forall>t0. rl_seen (gw_replay gw) (ap_nonce p) = Some t0 \<longrightarrow> t0 + rl_retention (gw_replay gw) < t))"
  by (simp add: reserve_nonce_def case_prod_beta Let_def reserve_accepts_iff)

lemma all_reasons_empty:
  assumes "gateway_ok gw" "action_proposal_valid p" "system_state_valid s"
  shows "all_reasons rt gw p s t = [] \<longleftrightarrow> authorised rt gw p s t"
proof -
  have "proposal_fields_ok p" using assms(2) by (rule action_proposal_validD)
  then have deleg: "dvn_reasons (validate rt (gw_delegation gw) p t) = [] \<longleftrightarrow>
      (\<exists>chain. authorizes rt (gw_delegation gw) p t chain)"
    using assms(1) by (simp add: validate_valid_iff_reasons validate_iff_authorizes gateway_ok_def)
  have safe: "sr_reasons (safety_evaluate (gw_safety gw) p s) = [] \<longleftrightarrow>
      within_limits (sk_limits (gw_safety gw)) (transition p s)"
    using assms by (intro safe_iff_within_limits) (simp_all add: gateway_ok_def)
  show ?thesis
    by (auto simp: all_reasons_def check_reasons_def Let_def authorised_def deleg safe
        reserve_nonce_reasons not_less split: if_splits)
qed

section \<open>Effects of a decision\<close>

lemma denial_frame:
  "\<exists>chain. fst (pre_authorization_denial rt env gw p s rs a) = gw\<lparr>gw_evidence := chain\<rparr>"
  by (auto simp: pre_authorization_denial_def record_decision_def Let_def case_prod_beta)

lemma decide_frame [simp]:
  "gw_identity_verify (fst (decide rt env gw p s now)) = gw_identity_verify gw"
  "gw_delegation (fst (decide rt env gw p s now)) = gw_delegation gw"
  "gw_policy_evaluate (fst (decide rt env gw p s now)) = gw_policy_evaluate gw"
  "gw_safety (fst (decide rt env gw p s now)) = gw_safety gw"
  "gw_maximum_state_age (fst (decide rt env gw p s now)) = gw_maximum_state_age gw"
  "gw_degraded_operation (fst (decide rt env gw p s now)) = gw_degraded_operation gw"
  by (simp_all add: decide_def pre_authorization_denial_def primary_decision_def Let_def case_prod_beta)

lemma decide_replay:
  "gw_replay (fst (decide rt env gw p s now)) =
     (if admitted rt env gw p (evaluation_time env now)
      then fst (reserve_nonce gw p (evaluation_time env now)) else gw_replay gw)"
  by (simp add: decide_def admitted_def evaluation_time_def pre_authorization_denial_def
      primary_decision_def reserve_nonce_def Let_def case_prod_beta)

lemma decide_degraded_state:
  "gw_degraded_state (fst (decide rt env gw p s now)) =
     snd (snd (degraded_admission rt env gw p (evaluation_time env now)))"
  by (simp add: decide_def evaluation_time_def pre_authorization_denial_def primary_decision_def
      Let_def case_prod_beta)

text \<open>The record that an evidence append returns is the record of this decision.\<close>

definition records_decision :: "decision \<Rightarrow> evidence_record \<Rightarrow> bool" where
  "records_decision d r \<longleftrightarrow>
     ev_proposal_id r = dec_proposal_id d \<and> ev_decision_id r = dec_decision_id d \<and>
     dec_evidence_record_hash d = Some (ev_record_hash r) \<and>
     jget ''decision'' (ev_payload r) = Some (decision_dump (d\<lparr>dec_evidence_record_hash := None\<rparr>))"

text \<open>\<open>log_extended\<close>: one record of the decision is added, and the log stays as verifiable as it was.\<close>

definition log_extended :: "runtime \<Rightarrow> evidence_chain \<Rightarrow> evidence_chain \<Rightarrow> decision \<Rightarrow> bool" where
  "log_extended rt before after d \<longleftrightarrow>
     (\<exists>r. after = before @ [r] \<and> records_decision d r \<and>
          (evidence_verify rt after \<longleftrightarrow> evidence_verify rt before) \<and>
          (numbered before \<longrightarrow> numbered after))"

lemma record_decision_evidence:
  assumes payload: "jget ''decision'' payload = Some (decision_dump d)"
    and none: "dec_evidence_record_hash d = None" and before: "gw_evidence gw = before"
  shows "log_extended rt before (gw_evidence (fst (record_decision rt env gw d payload)))
           (snd (record_decision rt env gw d payload))"
proof -
  let ?a = "evidence_append rt (env_recorded_at env) before (dec_proposal_id d) (dec_decision_id d) payload"
  have d: "d\<lparr>dec_evidence_record_hash := None\<rparr> = d" using none by simp
  have eq: "fst ?a = before @ [snd ?a]" by (rule log.add_entries)
  have ev: "gw_evidence (fst (record_decision rt env gw d payload)) = fst ?a"
    by (simp add: record_decision_def case_prod_beta Let_def before)
  have rec: "records_decision (snd (record_decision rt env gw d payload)) (snd ?a)"
    using payload log.add_fields
    by (simp add: records_decision_def record_decision_def case_prod_beta Let_def d before)
  have verify: "evidence_verify rt (fst ?a) \<longleftrightarrow> evidence_verify rt before" by (rule log.add_check)
  have number: "numbered before \<longrightarrow> numbered (fst ?a)" by (simp add: numbered_append)
  show ?thesis
    unfolding log_extended_def ev by (intro exI [of _ "snd ?a"] conjI eq rec verify number)
qed

lemma decide_evidence:
  "log_extended rt (gw_evidence gw) (gw_evidence (fst (decide rt env gw p s now)))
     (snd (decide rt env gw p s now))"
proof -
  have none: "dec_evidence_record_hash (provisional_decision env i out rs pv sv v) = None" for i out rs pv sv v
    by (simp add: provisional_decision_def)
  have pre: "log_extended rt (gw_evidence g) (gw_evidence (fst (pre_authorization_denial rt env g p s rs a)))
      (snd (pre_authorization_denial rt env g p s rs a))" for g rs a
    unfolding pre_authorization_denial_def Let_def
    by (rule record_decision_evidence) (simp_all add: jget_def none)
  have prim: "log_extended rt (gw_evidence g) (gw_evidence (fst (primary_decision rt env g p s t a)))
      (snd (primary_decision rt env g p s t a))" for g t a
    unfolding primary_decision_def Let_def case_prod_beta
    by (rule record_decision_evidence) (simp_all add: jget_def none)
  show ?thesis
    using pre [of "gw\<lparr>gw_degraded_state := st\<rparr>" for st] prim [of "gw\<lparr>gw_degraded_state := st\<rparr>" for st]
    by (simp add: decide_def Let_def case_prod_beta)
qed

section \<open>A running gateway\<close>

datatype gateway_label =
    Decided action_proposal system_state instant decision
  | Revoked string
  | Reversed reversal_result

inductive gateway_step :: "runtime \<Rightarrow> gateway \<Rightarrow> gateway_label \<Rightarrow> gateway \<Rightarrow> bool" for rt where
  step_decide: "decide rt env gw p s now = (gw', d) \<Longrightarrow>
     gateway_step rt gw (Decided p s (evaluation_time env now) d) gw'"
| step_revoke: "gateway_step rt gw (Revoked k) (gw\<lparr>gw_delegation := revoke (gw_delegation gw) k\<rparr>)"
| step_reverse: "\<lbrakk> gw_degraded_operation gw = Some g;
     apply_reversal rt g fault r a now (gw_degraded_state gw) = (result, st) \<rbrakk> \<Longrightarrow>
     gateway_step rt gw (Reversed result) (gw\<lparr>gw_degraded_state := st\<rparr>)"

inductive_cases gateway_stepE: "gateway_step rt gw l gw'"
inductive_cases decidedE: "gateway_step rt gw (Decided p s t d) gw'"
inductive_cases revokedE: "gateway_step rt gw (Revoked k) gw'"

inductive gateway_run :: "runtime \<Rightarrow> gateway \<Rightarrow> gateway_label list \<Rightarrow> gateway \<Rightarrow> bool" for rt where
  run_Nil: "gateway_run rt gw [] gw"
| run_Cons: "gateway_step rt gw l gw1 \<Longrightarrow> gateway_run rt gw1 ls gw2 \<Longrightarrow> gateway_run rt gw (l # ls) gw2"

inductive_simps gateway_run_simps [simp]: "gateway_run rt gw [] gw'" "gateway_run rt gw (l # ls) gw'"

lemma gateway_run_append:
  "gateway_run rt gw (xs @ ys) gw' \<longleftrightarrow> (\<exists>g. gateway_run rt gw xs g \<and> gateway_run rt g ys gw')"
  by (induction xs arbitrary: gw) auto

text \<open>A property that every step keeps holds after every run.\<close>

lemma gateway_run_invariant:
  assumes "gateway_run rt gw ls gw'" "I gw"
    and "\<And>g l g'. gateway_step rt g l g' \<Longrightarrow> l \<in> set ls \<Longrightarrow> I g \<Longrightarrow> I g'"
  shows "I gw'"
  using assms by (induction rule: gateway_run.induct) auto

fun decisions :: "gateway_label list \<Rightarrow> decision list" where
  "decisions [] = []"
| "decisions (Decided p s t d # ls) = d # decisions ls"
| "decisions (Revoked k # ls) = decisions ls"
| "decisions (Reversed r # ls) = decisions ls"

fun not_after :: "instant \<Rightarrow> gateway_label \<Rightarrow> bool" where
  "not_after t1 (Decided p s t d) = (t \<le> t1)"
| "not_after t1 _ = True"

lemma permitD:
  assumes "dec_outcome (snd (decide rt env gw p s now)) = PERMIT"
  shows "gw_identity_verify gw (ap_actor_id p)"
    and "dvn_reasons (validate rt (gw_delegation gw) p (evaluation_time env now)) = []"
    and "snd (reserve (gw_replay gw) (ap_nonce p) (evaluation_time env now))"
    and "gw_replay (fst (decide rt env gw p s now)) =
           fst (reserve (gw_replay gw) (ap_nonce p) (evaluation_time env now))"
    and "ap_observed_at p \<le> evaluation_time env now"
    and "evaluation_time env now \<le> ap_observed_at p + gw_maximum_state_age gw"
    and "pr_reasons (gw_policy_evaluate gw p s) = []"
proof -
  let ?t = "evaluation_time env now"
  from assms have adm: "admitted rt env gw p ?t" and none: "all_reasons rt gw p s ?t = []"
    by (auto simp: decide_outcome Let_def split: if_splits)
  then have checks: "check_reasons rt gw p s ?t = []" and nonce: "snd (reserve_nonce gw p ?t) = []"
    by (simp_all add: all_reasons_def)
  show id: "gw_identity_verify gw (ap_actor_id p)"
    and "dvn_reasons (validate rt (gw_delegation gw) p ?t) = []"
    and "ap_observed_at p \<le> ?t" and "?t \<le> ap_observed_at p + gw_maximum_state_age gw"
    and "pr_reasons (gw_policy_evaluate gw p s) = []"
    using checks by (auto simp: check_reasons_def Let_def split: if_splits)
  show "snd (reserve (gw_replay gw) (ap_nonce p) ?t)"
    using nonce id by (simp add: reserve_nonce_def case_prod_beta Let_def split: if_splits)
  show "gw_replay (fst (decide rt env gw p s now)) = fst (reserve (gw_replay gw) (ap_nonce p) ?t)"
    using adm id by (simp add: decide_replay reserve_nonce_def case_prod_beta Let_def)
qed

lemma decide_nonce_kept:
  assumes "rl_seen (gw_replay gw) n = Some t0"
    and "evaluation_time env now \<le> t0 + rl_retention (gw_replay gw)"
  shows "rl_seen (gw_replay (fst (decide rt env gw p s now))) n = Some t0 \<and>
         rl_retention (gw_replay (fst (decide rt env gw p s now))) = rl_retention (gw_replay gw)"
  using ledger.recorded_kept [OF assms] assms(1)
  by (simp add: decide_replay reserve_nonce_def case_prod_beta Let_def ledger.window_kept)

lemma step_nonce_kept:
  assumes "gateway_step rt gw l gw'" "rl_seen (gw_replay gw) n = Some t0"
    and "not_after (t0 + rl_retention (gw_replay gw)) l"
  shows "rl_seen (gw_replay gw') n = Some t0 \<and> rl_retention (gw_replay gw') = rl_retention (gw_replay gw)"
  using assms
proof (cases rule: gateway_step.cases)
  case (step_decide env p s now d)
  then have "gw' = fst (decide rt env gw p s now)" by simp
  then show ?thesis using assms step_decide decide_nonce_kept [of gw n t0 env now rt p s] by simp
qed simp_all

lemma run_nonce_kept:
  assumes "gateway_run rt gw ls gw'" "rl_seen (gw_replay gw) n = Some t0"
    and "\<forall>l \<in> set ls. not_after (t0 + rl_retention (gw_replay gw)) l"
  shows "rl_seen (gw_replay gw') n = Some t0 \<and> rl_retention (gw_replay gw') = rl_retention (gw_replay gw)"
  using assms
proof (induction rule: gateway_run.induct)
  case (run_Cons gw l gw1 ls gw2)
  then show ?case using step_nonce_kept [of rt gw l gw1 n t0] by simp
qed simp

lemma not_after_mono: "not_after t l \<Longrightarrow> t \<le> t' \<Longrightarrow> not_after t' l"
  by (cases l) auto

lemma permits_apart:
  assumes run: "gateway_run rt gw (Decided p s t d # ls @ [Decided p' s' t' d']) gw'"
    and permits: "dec_outcome d = PERMIT" "dec_outcome d' = PERMIT" and nonce: "ap_nonce p' = ap_nonce p"
    and clock: "\<forall>l \<in> set ls. not_after t' l"
  shows "t + rl_retention (gw_replay gw) < t'"
proof (rule ccontr)
  assume early: "\<not> t + rl_retention (gw_replay gw) < t'"
  from run obtain g1 g2 where s1: "gateway_step rt gw (Decided p s t d) g1"
    and mid: "gateway_run rt g1 ls g2" and s2: "gateway_step rt g2 (Decided p' s' t' d') gw'"
    by (auto simp: gateway_run_append)
  from s1 obtain env now where e: "decide rt env gw p s now = (g1, d)" "t = evaluation_time env now"
    by (auto elim: decidedE)
  from s2 obtain env' now' where e': "decide rt env' g2 p' s' now' = (gw', d')" "t' = evaluation_time env' now'"
    by (auto elim: decidedE)
  note first = permitD [of rt env gw p s now, unfolded e(1) snd_conv fst_conv, OF permits(1), folded e(2)]
  have g1: "rl_seen (gw_replay g1) (ap_nonce p) = Some t" "rl_retention (gw_replay g1) = rl_retention (gw_replay gw)"
    using first(3,4) by (simp_all add: ledger.accepted_recorded ledger.window_kept)
  have "\<forall>l \<in> set ls. not_after (t + rl_retention (gw_replay g1)) l"
    using clock early g1(2) not_after_mono by fastforce
  from run_nonce_kept [OF mid g1(1) this] g1(2)
  have "rl_seen (gw_replay g2) (ap_nonce p) = Some t" "rl_retention (gw_replay g2) = rl_retention (gw_replay gw)"
    by simp_all
  then have "\<not> snd (reserve (gw_replay g2) (ap_nonce p') t')"
    using early by (intro ledger.recorded_refused) (simp_all add: nonce not_less)
  then show False
    using permitD(3) [of rt env' g2 p' s' now'] e' permits(2) by simp
qed

text \<open>A revoked grant stays revoked, and a chain that names one is always refused.\<close>

lemma collect_chain_revoked:
  "k \<in> set ids \<Longrightarrow> k \<in> dv_revoked v \<Longrightarrow> snd (collect_chain rt v now ids) \<noteq> []"
  by (induction ids) (auto simp: grant_reasons_def case_prod_beta Let_def split: option.splits)

lemma validate_revoked:
  assumes "k \<in> set (ap_delegation_chain p)" "k \<in> dv_revoked v"
  shows "dvn_reasons (validate rt v p now) \<noteq> []"
  using collect_chain_revoked [OF assms, of rt now]
  by (simp add: validate_def Let_def case_prod_beta)

lemma step_revoked_kept:
  assumes "gateway_step rt gw l gw'" "k \<in> dv_revoked (gw_delegation gw)"
  shows "k \<in> dv_revoked (gw_delegation gw')"
  using assms
proof (cases rule: gateway_step.cases)
  case (step_decide env p s now d)
  then have "gw' = fst (decide rt env gw p s now)" by simp
  then show ?thesis using assms(2) by simp
qed (simp_all add: revoke_def)

lemma run_revoked_kept:
  "gateway_run rt gw ls gw' \<Longrightarrow> k \<in> dv_revoked (gw_delegation gw) \<Longrightarrow> k \<in> dv_revoked (gw_delegation gw')"
  by (rule gateway_run_invariant [where I = "\<lambda>g. k \<in> dv_revoked (gw_delegation g)"])
    (auto intro: step_revoked_kept)

lemma revoked_never_permits:
  assumes run: "gateway_run rt gw (Revoked k # ls @ [Decided p s t d]) gw'"
    and chain: "k \<in> set (ap_delegation_chain p)"
  shows "dec_outcome d \<noteq> PERMIT"
proof
  assume permit: "dec_outcome d = PERMIT"
  from run obtain g1 g2 where s1: "gateway_step rt gw (Revoked k) g1"
    and mid: "gateway_run rt g1 ls g2" and s2: "gateway_step rt g2 (Decided p s t d) gw'"
    by (auto simp: gateway_run_append)
  from s1 have "k \<in> dv_revoked (gw_delegation g1)" by (auto elim!: revokedE simp: revoke_def)
  with mid have "k \<in> dv_revoked (gw_delegation g2)" by (rule run_revoked_kept)
  with chain have "dvn_reasons (validate rt (gw_delegation g2) p t) \<noteq> []" by (rule validate_revoked)
  moreover from s2 obtain env now where "decide rt env g2 p s now = (gw', d)" "t = evaluation_time env now"
    by (auto elim: decidedE)
  ultimately show False using permitD(2) [of rt env g2 p s now] permit by simp
qed

text \<open>The log of a run: one record per decision, in order, and verifiable throughout.\<close>

definition log_follows :: "runtime \<Rightarrow> evidence_chain \<Rightarrow> evidence_chain \<Rightarrow> decision list \<Rightarrow> bool" where
  "log_follows rt before after ds \<longleftrightarrow>
     (\<exists>rs. after = before @ rs \<and> list_all2 records_decision ds rs) \<and>
     (evidence_verify rt after \<longleftrightarrow> evidence_verify rt before) \<and> (numbered before \<longrightarrow> numbered after)"

lemma log_follows_Cons:
  "log_extended rt a b d \<Longrightarrow> log_follows rt b c ds \<Longrightarrow> log_follows rt a c (d # ds)"
  by (fastforce simp: log_extended_def log_follows_def)

lemma run_evidence:
  "gateway_run rt gw ls gw' \<Longrightarrow> log_follows rt (gw_evidence gw) (gw_evidence gw') (decisions ls)"
proof (induction rule: gateway_run.induct)
  case (run_Nil gw)
  then show ?case by (simp add: log_follows_def)
next
  case (run_Cons gw l gw1 ls gw2)
  from run_Cons(1) show ?case
  proof (cases rule: gateway_step.cases)
    case (step_decide env p s now d)
    then have "log_extended rt (gw_evidence gw) (gw_evidence gw1) d"
      using decide_evidence [of rt gw env p s now] by simp
    with run_Cons(3) show ?thesis by (simp add: step_decide log_follows_Cons)
  qed (use run_Cons(3) in simp_all)
qed

section \<open>What the outcomes mean\<close>

lemma approval_reason_not_delegation:
  "''human_approval_required'' \<notin> set (dvn_reasons (validate rt v p now))"
proof -
  have "''human_approval_required'' \<notin> set (snd (collect_chain rt v now ids))" for ids
    by (induction ids) (auto simp: grant_reasons_def case_prod_beta Let_def split: option.splits)
  moreover have "''human_approval_required'' \<notin> set (link_reasons o' gs)" for o' gs
    by (induction o' gs rule: link_reasons.induct) (auto simp: link_checks_def)
  ultimately show ?thesis
    by (auto simp: validate_def Let_def case_prod_beta leaf_reasons_def)
qed

lemma approval_reason_not_safety: "''human_approval_required'' \<notin> set (sr_reasons (safety_evaluate k p s))"
  by (simp add: safety_evaluate_def safety_reasons_def Let_def)

text \<open>If the only reason is the missing approval, every part of the checks but the policy is silent.\<close>

lemma only_approval_missing:
  assumes only: "all_reasons rt gw p s t = [''human_approval_required'']"
  shows "gw_identity_verify gw (ap_actor_id p)"
    and "dvn_reasons (validate rt (gw_delegation gw) p t) = []"
    and "ss_observed_at s \<le> t" "t \<le> ss_observed_at s + gw_maximum_state_age gw"
    and "ap_observed_at p = ss_observed_at s"
    and "pr_reasons (gw_policy_evaluate gw p s) = [''human_approval_required'']"
    and "sr_reasons (safety_evaluate (gw_safety gw) p s) = []"
    and "snd (reserve_nonce gw p t) = []"
proof -
  let ?h = "''human_approval_required''"
  have silent: "rs = []" if "set rs \<subseteq> set (all_reasons rt gw p s t)" "?h \<notin> set rs" for rs
    using that by (cases rs) (auto simp: only)
  show dv: "dvn_reasons (validate rt (gw_delegation gw) p t) = []"
    by (rule silent [OF _ approval_reason_not_delegation]) (auto simp: all_reasons_def check_reasons_def Let_def)
  show sf: "sr_reasons (safety_evaluate (gw_safety gw) p s) = []"
    by (rule silent [OF _ approval_reason_not_safety]) (auto simp: all_reasons_def check_reasons_def Let_def)
  show rp: "snd (reserve_nonce gw p t) = []"
    by (rule silent) (auto simp: all_reasons_def reserve_nonce_def case_prod_beta Let_def)
  show id: "gw_identity_verify gw (ap_actor_id p)"
    and age: "ss_observed_at s \<le> t" "t \<le> ss_observed_at s + gw_maximum_state_age gw"
    and obs: "ap_observed_at p = ss_observed_at s"
    using only by (auto simp: all_reasons_def check_reasons_def Let_def dv split: if_splits)
  show "pr_reasons (gw_policy_evaluate gw p s) = [?h]"
    using only age by (simp add: all_reasons_def check_reasons_def Let_def dv sf rp id obs)
qed

lemma approval_irrelevant [simp]:
  "validate rt v (p\<lparr>ap_human_approval_id := a\<rparr>) t = validate rt v p t"
  "transition (p\<lparr>ap_human_approval_id := a\<rparr>) s = transition p s"
  "reserve_nonce gw (p\<lparr>ap_human_approval_id := a\<rparr>) t = reserve_nonce gw p t"
proof -
  have "param (p\<lparr>ap_human_approval_id := a\<rparr>) = param p" by (intro ext) (simp add: param_def)
  then show "transition (p\<lparr>ap_human_approval_id := a\<rparr>) s = transition p s"
    by (simp add: transition_def Let_def split: operation.splits)
  have "leaf_reasons (p\<lparr>ap_human_approval_id := a\<rparr>) = leaf_reasons p"
    by (intro ext) (simp add: leaf_reasons_def)
  then show "validate rt v (p\<lparr>ap_human_approval_id := a\<rparr>) t = validate rt v p t"
    by (simp add: validate_def Let_def case_prod_beta)
qed (simp add: reserve_nonce_def)

lemma approved_reasons:
  assumes policy: "gw_policy_evaluate gw = policy_evaluate c"
  shows "all_reasons rt gw p s t = [''human_approval_required''] \<longleftrightarrow>
    fle (cp_human_approval_risk_threshold c) (ap_risk_score p) \<and> ap_human_approval_id p = None \<and>
    all_reasons rt gw (p\<lparr>ap_human_approval_id := Some a\<rparr>) s t = []"
    (is "?only \<longleftrightarrow> ?risk \<and> ?none \<and> ?clear")
proof
  assume ?only
  note parts = only_approval_missing [OF this]
  show "?risk \<and> ?none \<and> ?clear"
    using parts(1-5,7,8) parts(6) [unfolded policy policy_only_approval]
    by (simp add: all_reasons_def check_reasons_def Let_def policy policy_reasons_empty safety_evaluate_def)
next
  assume clear: "?risk \<and> ?none \<and> ?clear"
  then have "pr_reasons (policy_evaluate c p s) = [''human_approval_required'']"
    by (auto simp: all_reasons_def check_reasons_def policy Let_def policy_reasons_empty policy_only_approval)
  with clear show ?only
    by (auto simp: all_reasons_def check_reasons_def policy Let_def safety_evaluate_def split: if_splits)
qed

text \<open>The gate reads only the scope of the proposal, so an approval does not change its admission.\<close>

lemma approval_admission [simp]:
  "degraded_evaluate rt g env (p\<lparr>ap_human_approval_id := a\<rparr>) t st = degraded_evaluate rt g env p t st"
proof -
  have scope: "lease_scope_reasons au (p\<lparr>ap_human_approval_id := a\<rparr>) = lease_scope_reasons au p" for au
    by (simp add: lease_scope_reasons_def)
  have lease: "evaluate_lease rt g env (p\<lparr>ap_human_approval_id := a\<rparr>) = evaluate_lease rt g env p"
    by (intro ext) (simp only: evaluate_lease_def scope)
  show ?thesis by (simp only: degraded_evaluate_def lease)
qed

section \<open>The adapter\<close>

lemma execute_executed:
  "er_executed (execute k t p d s) \<longleftrightarrow>
     dec_proposal_id d = ap_proposal_id p \<and> dec_outcome d = PERMIT \<and> dec_state_version d = ss_version s"
  by (simp add: execute_def Let_def)

lemma execute_resulting:
  "er_resulting_state (execute k t p d s) =
     (if er_executed (execute k t p d s) then Some (transition p s) else None)"
  by (simp add: execute_def Let_def)

section \<open>The local laboratory\<close>

lemma grant_signing_bytes_unsigned [simp]:
  "delegation_grant_signing_bytes rt (g\<lparr>dg_signature := x\<rparr>) = delegation_grant_signing_bytes rt g"
  by (simp add: delegation_grant_signing_bytes_def)

lemma signed_simps [simp]:
  "dg_grant_id (delegation_grant_signed rt g k) = dg_grant_id g"
  "dg_issuer_id (delegation_grant_signed rt g k) = dg_issuer_id g"
  "dg_subject_id (delegation_grant_signed rt g k) = dg_subject_id g"
  "dg_mission_id (delegation_grant_signed rt g k) = dg_mission_id g"
  "dg_resources (delegation_grant_signed rt g k) = dg_resources g"
  "dg_operations (delegation_grant_signed rt g k) = dg_operations g"
  "dg_not_before (delegation_grant_signed rt g k) = dg_not_before g"
  "dg_expires_at (delegation_grant_signed rt g k) = dg_expires_at g"
  "dg_risk_limit (delegation_grant_signed rt g k) = dg_risk_limit g"
  "dg_delegation_depth_remaining (delegation_grant_signed rt g k) = dg_delegation_depth_remaining g"
  "dg_parent_grant_id (delegation_grant_signed rt g k) = dg_parent_grant_id g"
  by (simp_all add: delegation_grant_signed_def)

lemma signed_verifies:
  "signatures_ok rt \<Longrightarrow> dv_public_keys v (dg_issuer_id g) = Some (rt_public rt k) \<Longrightarrow>
   grant_signature_ok rt v (delegation_grant_signed rt g k)"
  by (simp add: grant_signature_ok_def) (simp add: delegation_grant_signed_def)

lemma lab_grants_valid:
  assumes "actor \<noteq> []"
  shows "delegation_grant_valid (delegation_grant_signed rt (root_grant t) k)"
    and "delegation_grant_valid (delegation_grant_signed rt (leaf_grant t actor (x # xs)) k)"
  using assms by (simp_all add: delegation_grant_valid_def root_grant_def leaf_grant_def)

lemma lab_gateway_ok:
  assumes "build_local_lab rt rk sk t actor = Inr lab"
  shows "gateway_ok (lab_gateway lab)"
proof -
  from assms have ne: "actor \<noteq> []"
    and dv: "dv_grants (gw_delegation (lab_gateway lab)) =
      [''grant-root'' \<mapsto> delegation_grant_signed rt (root_grant t) rk,
       ''grant-leaf'' \<mapsto> delegation_grant_signed rt (leaf_grant t actor ''grant-root'') sk]"
    and sk: "gw_safety (lab_gateway lab) = default_kernel"
    by (auto simp: build_local_lab_def Let_def root_grant_def leaf_grant_def split: if_splits)
  have "grants_valid (gw_delegation (lab_gateway lab))"
    unfolding grants_valid_def dv using lab_grants_valid [OF ne] by (simp split: if_splits)
  then show ?thesis
    by (simp add: gateway_ok_def sk default_kernel_def default_limits_def limits_finite_def)
qed

text \<open>
  The chain of the laboratory authorizes every action in the scope of its leaf grant, for any keys
  and any agent.
\<close>

lemma lab_authorizes:
  assumes sig: "signatures_ok rt" and lab: "build_local_lab rt rk sk t0 actor = Inr lab"
    and p: "ap_delegation_chain p = [''grant-root'', ''grant-leaf'']" "ap_actor_id p = actor"
      "ap_mission_id p = ''microgrid-containment''" "ap_resource p \<in> {''feeder-1'', ''battery-1''}"
      "ap_operation p \<in> {ISOLATE_ASSET, DISPATCH_BATTERY}" "fle (ap_risk_score p) (Fin 74)"
    and t: "t0 \<le> t" "t \<le> t0 + seconds 1800"
  shows "authorizes rt (gw_delegation (lab_gateway lab)) p t [lab_root_grant lab, lab_leaf_grant lab]"
proof -
  let ?v = "gw_delegation (lab_gateway lab)"
  from lab have root: "lab_root_grant lab = delegation_grant_signed rt (root_grant t0) rk"
    and leaf: "lab_leaf_grant lab = delegation_grant_signed rt (leaf_grant t0 actor ''grant-root'') sk"
    and dv: "dv_grants ?v = [''grant-root'' \<mapsto> lab_root_grant lab, ''grant-leaf'' \<mapsto> lab_leaf_grant lab]"
    and keys: "dv_public_keys ?v = [''human:principal-investigator'' \<mapsto> rt_public rt rk,
                 ''agent:supervisor'' \<mapsto> rt_public rt sk]"
    and rev: "dv_revoked ?v = {}"
    by (auto simp: build_local_lab_def Let_def root_grant_def leaf_grant_def split: if_splits)
  have "grant_signature_ok rt ?v (lab_root_grant lab)" "grant_signature_ok rt ?v (lab_leaf_grant lab)"
    unfolding root leaf by (rule signed_verifies [OF sig]; simp add: keys root_grant_def leaf_grant_def)+
  then have good: "list_all2 (grant_good rt ?v t) (ap_delegation_chain p) [lab_root_grant lab, lab_leaf_grant lab]"
    using t by (simp add: p(1) grant_good_def dv rev) (simp add: root leaf root_grant_def leaf_grant_def)
  have scope: "in_scope p (lab_leaf_grant lab)"
    using p(4-6) by (simp add: in_scope_def leaf leaf_grant_def)
  have att: "attenuates (lab_root_grant lab) (lab_leaf_grant lab)"
    by (simp add: attenuates_def root leaf root_grant_def leaf_grant_def)
  have link: "linked_chain None [lab_root_grant lab, lab_leaf_grant lab]"
    by (simp add: linked_def root leaf root_grant_def leaf_grant_def)
  have sub: "dg_subject_id (lab_leaf_grant lab) = ap_actor_id p" "dg_mission_id (lab_leaf_grant lab) = ap_mission_id p"
    by (simp_all add: leaf leaf_grant_def p(2,3))
  have "distinct (ap_delegation_chain p)" by (simp add: p(1))
  then show ?thesis
    using good link att sub scope in_scope_ancestor [OF att scope] unfolding authorizes_def by simp
qed


section \<open>A concrete laboratory\<close>

definition demo_lab :: local_lab where
  "demo_lab = projr (build_local_lab demo_runtime ''root-key'' ''supervisor'' 0 ''agent:operator-1'')"

definition demo_proposal :: action_proposal where
  "demo_proposal =
     \<lparr>ap_proposal_id = ''proposal-1'', ap_actor_id = ''agent:operator-1'',
      ap_mission_id = ''microgrid-containment'', ap_resource = ''feeder-1'',
      ap_operation = ISOLATE_ASSET,
      ap_parameters = [(''critical_load_impact_pct'', PyInt 5), (''line_loading_delta_pct'', PyFloat (Fin 3))],
      ap_observed_state_version = 1, ap_observed_at = 0, ap_submitted_at = 0,
      ap_nonce = ''nonce-0123456789abcdef'', ap_confidence = Fin 1, ap_risk_score = Fin 50,
      ap_delegation_chain = [''grant-root'', ''grant-leaf''], ap_human_approval_id = None\<rparr>"

definition demo_degraded_env :: degraded_env where
  "demo_degraded_env =
     \<lparr>de_snapshot = Raises, de_authorization = Raises, de_read = Raises, de_interleaved = (\<lambda>s. s),
      de_update_fault = No_Fault\<rparr>"

definition demo_env :: decide_env where
  "demo_env =
     \<lparr>env_clock = 0, env_decision_id = ''decision-1'', env_decided_at = 0, env_recorded_at = 0,
      env_degraded = demo_degraded_env\<rparr>"

abbreviation "demo_state \<equiv> nominal_state 1 0"
abbreviation "demo_gateway \<equiv> lab_gateway demo_lab"

lemma demo_build: "build_local_lab demo_runtime ''root-key'' ''supervisor'' 0 ''agent:operator-1'' = Inr demo_lab"
proof -
  have "no_whitespace ''agent:operator-1''" by code_simp
  then show ?thesis by (simp add: demo_lab_def build_local_lab_def Let_def)
qed

lemma demo_proposal_valid: "action_proposal_valid demo_proposal"
  by (simp add: action_proposal_valid_def make_action_proposal_def proposal_fields_ok_def len_between_def
      require_operation_parameters_def percentages_in_range_def percentage_parameters_def demo_proposal_def)

lemma nominal_state_valid: "0 \<le> v \<Longrightarrow> system_state_valid (nominal_state v t)"
  by (simp add: system_state_valid_def nominal_state_def)

lemma demo_transition: "within_limits default_limits (transition demo_proposal demo_state)"
  by (simp add: within_limits_def default_limits_def transition_def Let_def demo_proposal_def
      nominal_state_def param_def fsub_def fmax_def fmin_def)

section \<open>Properties\<close>

text \<open>
  (C1) The gateway permits a proposal exactly when the degraded-operation gate admits it and every
  primary check holds: a verified identity, a delegation chain that authorizes the action at this
  time, a fresh state that is the one the proposal observed, no policy reason, a predicted state
  within the safety limits, and a nonce that was not reserved within the retention window.
\<close>
theorem permit_iff:
  assumes "gateway_ok gw" "action_proposal_valid p" "system_state_valid s"
  shows "dec_outcome (snd (decide rt env gw p s now)) = PERMIT \<longleftrightarrow>
     admitted rt env gw p (evaluation_time env now) \<and> authorised rt gw p s (evaluation_time env now)"
  using all_reasons_empty [OF assms, of rt "evaluation_time env now"]
  by (auto simp: decide_outcome Let_def)

lemma lab_gateway_fields:
  assumes "build_local_lab rt rk sk t0 actor = Inr lab"
  shows "gw_degraded_operation (lab_gateway lab) = None"
    "gw_identity_verify (lab_gateway lab) = identity_verify (allowlist {actor})"
    "gw_policy_evaluate (lab_gateway lab) = policy_evaluate default_policy"
    "gw_safety (lab_gateway lab) = default_kernel" "gw_maximum_state_age (lab_gateway lab) = seconds 5"
    "gw_replay (lab_gateway lab) = new_ledger (seconds 3600)" "gw_evidence (lab_gateway lab) = []"
  using assms by (auto simp: build_local_lab_def Let_def split: if_splits)

lemmas demo_gateway_simps [simp] = lab_gateway_fields [OF demo_build]

lemma lab_fresh_authorised:
  assumes sig: "signatures_ok rt" and lab: "build_local_lab rt rk sk t0 actor = Inr lab"
    and p: "ap_delegation_chain p = [''grant-root'', ''grant-leaf'']" "ap_actor_id p = actor"
      "ap_mission_id p = ''microgrid-containment''" "ap_resource p \<in> {''feeder-1'', ''battery-1''}"
      "ap_operation p \<in> {ISOLATE_ASSET, DISPATCH_BATTERY}" "fle (ap_risk_score p) (Fin 74)"
      "fle (round64 (7 / 10)) (ap_confidence p)"
      "ap_observed_state_version p = ss_version s" "ap_observed_at p = ss_observed_at s"
    and t: "t0 \<le> t" "t \<le> t0 + seconds 1800" "ss_observed_at s \<le> t" "t \<le> ss_observed_at s + seconds 5"
    and safe: "within_limits default_limits (transition p s)"
  shows "authorised rt (lab_gateway lab) p s t"
proof -
  note gw = lab_gateway_fields [OF lab]
  have policy: "pr_reasons (policy_evaluate default_policy p s) = []"
    using p(6-8) by (cases "ap_confidence p"; cases "ap_risk_score p")
      (simp_all add: policy_reasons_empty default_policy_def)
  have "authorizes rt (gw_delegation (lab_gateway lab)) p t [lab_root_grant lab, lab_leaf_grant lab]"
    by (rule lab_authorizes [OF sig lab p(1-6) t(1,2)])
  then show ?thesis
    using policy p(2,9) t safe
    by (auto simp: authorised_def gw identity_verify_def allowlist_def default_kernel_def new_ledger_def)
qed

lemma demo_authorised: "0 \<le> t \<Longrightarrow> t \<le> seconds 5 \<Longrightarrow> authorised demo_runtime demo_gateway demo_proposal demo_state t"
  by (rule lab_fresh_authorised [OF demo_runtime_ok(2) demo_build _ _ _ _ _ _ _ _ _ _ _ _ _ demo_transition])
    (simp_all add: demo_proposal_def nominal_state_def)

lemma no_gate_admitted: "gw_degraded_operation gw = None \<Longrightarrow> admitted rt env gw p t"
  by (simp add: admitted_def degraded_admission_def)

lemma demo_all_reasons: "0 \<le> t \<Longrightarrow> t \<le> seconds 5 \<Longrightarrow> all_reasons demo_runtime demo_gateway demo_proposal demo_state t = []"
  using all_reasons_empty [OF lab_gateway_ok [OF demo_build] demo_proposal_valid nominal_state_valid [of 1 0]] demo_authorised
  by simp

lemma demo_permit:
  "dec_outcome (snd (decide demo_runtime demo_env demo_gateway demo_proposal demo_state (Some 0))) = PERMIT"
  by (simp add: decide_outcome Let_def evaluation_time_def no_gate_admitted demo_all_reasons)

lemma demo_gateway_ok: "gateway_ok demo_gateway"
  using demo_build by (rule lab_gateway_ok)

text \<open>
  (C17) The validator of delegation chains, which walks a chain link by link and compares each grant with its
  predecessor, accepts exactly the chains of the specification: signed, unrevoked, active grants from a
  root to the proposing actor, each attenuating every grant before it, with the proposal within the scope
  of all of them. It gives a reason exactly when it refuses.
\<close>
theorem delegation_decides_specification:
  assumes "grants_valid v" "proposal_fields_ok p"
  shows "(dvn_valid (validate rt v p now) \<longleftrightarrow> (\<exists>chain. authorizes rt v p now chain)) \<and>
    (dvn_valid (validate rt v p now) \<longleftrightarrow> dvn_reasons (validate rt v p now) = [])"
  using validate_iff_authorizes [OF assms] validate_valid_iff_reasons [OF assms(2)] by blast

theorem delegation_decides_specification_witness:
  "dvn_valid (validate demo_runtime (gw_delegation demo_gateway) demo_proposal 0) \<and>
   dvn_reasons (validate demo_runtime (gw_delegation demo_gateway) demo_proposal 0) = []"
  using delegation_decides_specification [of "gw_delegation demo_gateway" demo_proposal demo_runtime 0]
    demo_gateway_ok demo_authorised action_proposal_validD(1) [OF demo_proposal_valid]
  by (auto simp: gateway_ok_def authorised_def)

theorem permit_iff_witness:
  "gateway_ok demo_gateway \<and> action_proposal_valid demo_proposal \<and> system_state_valid demo_state \<and>
   admitted demo_runtime demo_env demo_gateway demo_proposal 0 \<and>
   authorised demo_runtime demo_gateway demo_proposal demo_state 0"
  using permit_iff [of demo_gateway demo_proposal demo_state demo_runtime demo_env "Some 0"]
    demo_gateway_ok demo_proposal_valid nominal_state_valid [of 1 0] demo_permit
  by (simp add: evaluation_time_def)

text \<open>A permit names its proposal and state; a denial before authorization names only a digest of the untrusted proposal.\<close>

lemma permit_names:
  assumes "decide rt env gw p s now = (gw', d)" "dec_outcome d = PERMIT"
  shows "dec_proposal_id d = ap_proposal_id p" "dec_state_version d = ss_version s"
proof -
  have denied: "dec_outcome (snd (pre_authorization_denial rt env g p s rs a)) = DENY" for g rs a
    by (simp add: pre_authorization_denial_def Let_def)
  obtain rs a st where gate: "degraded_admission rt env gw p (evaluation_time env now) = (rs, a, st)" by (metis prod.exhaust)
  have "rs = []"
  proof (rule ccontr)
    assume "rs \<noteq> []"
    then have "d = snd (pre_authorization_denial rt env (gw\<lparr>gw_degraded_state := st\<rparr>) p s rs a)"
      using assms(1) gate by (simp add: decide_def evaluation_time_def)
    then show False using assms(2) denied by simp
  qed
  then have "d = snd (primary_decision rt env (gw\<lparr>gw_degraded_state := st\<rparr>) p s (evaluation_time env now) a)"
    using assms(1) gate by (simp add: decide_def evaluation_time_def)
  then show "dec_proposal_id d = ap_proposal_id p" "dec_state_version d = ss_version s"
    by (simp_all add: primary_decision_def Let_def case_prod_beta)
qed

text \<open>
  (C2) End-to-end safety of the adapter, for any proposal and current state that are presented to it with a decision of
  the gateway, and a transition model with the gateway's limits. The adapter executes exactly when the decision is a
  permit, the presented proposal has the identifier of the decided proposal, and the current state has the version of
  the decided state; a chain of grants then authorizes the decided proposal. When an identifier belongs to one
  proposal and a version to one state, the executed proposal itself is authorized, and the resulting state is the
  next version of the current state and within the safety limits. A refusal changes nothing and has a reason.
\<close>
theorem executed_action_safe:
  assumes "gateway_ok gw" "action_proposal_valid p" "system_state_valid s"
    and dec: "decide rt env gw p s now = (gw', d)"
    and limits: "sk_limits k = sk_limits (gw_safety gw)"
  shows "let r = execute k acknowledged_at q d c; authorized = (\<lambda>x. \<exists>chain. authorizes rt (gw_delegation gw) x (evaluation_time env now) chain) in
    (er_executed r \<longleftrightarrow> dec_outcome d = PERMIT \<and> ap_proposal_id q = ap_proposal_id p \<and> ss_version c = ss_version s) \<and>
    (er_executed r \<longrightarrow> authorized p) \<and>
    ((ap_proposal_id q = ap_proposal_id p \<longrightarrow> q = p) \<longrightarrow> (ss_version c = ss_version s \<longrightarrow> c = s) \<longrightarrow> er_executed r \<longrightarrow>
       authorized q \<and> (\<exists>c'. er_resulting_state r = Some c' \<and> within_limits (sk_limits k) c' \<and> ss_version c' = ss_version c + 1)) \<and>
    (\<not> er_executed r \<longrightarrow> er_resulting_state r = None \<and> er_reason r \<noteq> None)"
proof -
  have executed: "er_executed (execute k acknowledged_at q d c) \<longleftrightarrow>
      dec_outcome d = PERMIT \<and> ap_proposal_id q = ap_proposal_id p \<and> ss_version c = ss_version s"
    using permit_names [OF dec] by (auto simp: execute_executed)
  have "authorised rt gw p s (evaluation_time env now)" if "dec_outcome d = PERMIT"
    using that decide_outcome [of rt env gw p s now] dec all_reasons_empty [OF assms(1-3)] by (auto simp: Let_def split: if_splits)
  moreover have "er_reason (execute k acknowledged_at q d c) \<noteq> None" if "\<not> er_executed (execute k acknowledged_at q d c)"
    using that by (auto simp: execute_def Let_def)
  ultimately show ?thesis
    using executed limits by (auto simp: Let_def authorised_def execute_resulting)
qed

text \<open>The decided proposal is executed; another proposal, and a state that has moved on, are refused under the same permit.\<close>

theorem executed_action_safe_witness:
  "\<exists>gw' d. decide demo_runtime demo_env demo_gateway demo_proposal demo_state (Some 0) = (gw', d) \<and>
     er_executed (execute default_kernel 1 demo_proposal d demo_state) \<and>
     (\<exists>s'. er_resulting_state (execute default_kernel 1 demo_proposal d demo_state) = Some s' \<and>
          within_limits default_limits s' \<and> ss_version s' = 2) \<and>
     \<not> er_executed (execute default_kernel 1 (demo_proposal\<lparr>ap_proposal_id := ''another-proposal''\<rparr>) d demo_state) \<and>
     \<not> er_executed (execute default_kernel 1 demo_proposal d (demo_state\<lparr>ss_version := 2\<rparr>))"
proof -
  obtain gw' d where d: "decide demo_runtime demo_env demo_gateway demo_proposal demo_state (Some 0) = (gw', d)"
    by fastforce
  have limits: "sk_limits default_kernel = sk_limits (gw_safety demo_gateway)" "sk_limits default_kernel = default_limits"
    by (simp_all add: default_kernel_def)
  note safe = executed_action_safe [OF demo_gateway_ok demo_proposal_valid nominal_state_valid d limits(1), of 1, unfolded Let_def]
  have names: "ss_version demo_state = 1" "ap_proposal_id demo_proposal \<noteq> ''another-proposal''"
    by (simp_all add: nominal_state_def demo_proposal_def)
  have "dec_outcome d = PERMIT" using demo_permit d by simp
  then show ?thesis
    using safe [of demo_proposal demo_state] safe [of "demo_proposal\<lparr>ap_proposal_id := ''another-proposal''\<rparr>" demo_state]
      safe [of demo_proposal "demo_state\<lparr>ss_version := 2\<rparr>"] d names limits(2) by auto
qed

lemma run_maximum_state_age:
  "gateway_run rt gw ls gw' \<Longrightarrow> gw_maximum_state_age gw' = gw_maximum_state_age gw"
proof (rule gateway_run_invariant [where I = "\<lambda>g. gw_maximum_state_age g = gw_maximum_state_age gw"])
  fix g l g' assume "gateway_step rt g l g'" and eq: "gw_maximum_state_age g = gw_maximum_state_age gw"
  then show "gw_maximum_state_age g' = gw_maximum_state_age gw"
  proof (cases rule: gateway_step.cases)
    case (step_decide env p s now d)
    then have "g' = fst (decide rt env g p s now)" by simp
    then show ?thesis using eq by simp
  qed simp_all
qed simp_all

text \<open>
  (C3) At most one permit per proposal: in any run of the gateway whose decisions after the first
  permit are not evaluated later than the second decision (a clock that does not go backwards), and
  with a replay retention at least as long as the maximum state age, a proposal that was permitted
  is never permitted again.
\<close>
theorem proposal_permitted_once:
  assumes run: "gateway_run rt gw (Decided p s t d # ls @ [Decided p s' t' d']) gw'"
    and first: "dec_outcome d = PERMIT" and clock: "\<forall>l \<in> set ls. not_after t' l"
    and window: "gw_maximum_state_age gw \<le> rl_retention (gw_replay gw)"
  shows "dec_outcome d' \<noteq> PERMIT"
proof
  assume second: "dec_outcome d' = PERMIT"
  from run obtain g1 g2 where s1: "gateway_step rt gw (Decided p s t d) g1"
    and mid: "gateway_run rt gw (Decided p s t d # ls) g2" and s2: "gateway_step rt g2 (Decided p s' t' d') gw'"
    by (auto simp: gateway_run_append)
  from s1 obtain env now where "decide rt env gw p s now = (g1, d)" "t = evaluation_time env now"
    by (auto elim: decidedE)
  with first have "ap_observed_at p \<le> t" using permitD(5) [of rt env gw p s now] by simp
  moreover from s2 obtain env' now' where "decide rt env' g2 p s' now' = (gw', d')" "t' = evaluation_time env' now'"
    by (auto elim: decidedE)
  with second have "t' \<le> ap_observed_at p + gw_maximum_state_age gw"
    using permitD(6) [of rt env' g2 p s' now'] run_maximum_state_age [OF mid] by simp
  ultimately show False
    using permits_apart [OF run first second refl clock] window by simp
qed

text \<open>The laboratory decides the same proposal twice.\<close>

definition demo_first :: "gateway \<times> decision" where
  "demo_first = decide demo_runtime demo_env demo_gateway demo_proposal demo_state (Some 0)"

definition demo_second :: "gateway \<times> decision" where
  "demo_second = decide demo_runtime demo_env (fst demo_first) demo_proposal demo_state (Some 1)"

lemma step_decideI:
  "t = evaluation_time env now \<Longrightarrow>
   gateway_step rt gw (Decided p s t (snd (decide rt env gw p s now))) (fst (decide rt env gw p s now))"
  using step_decide [of rt env gw p s now] by simp

lemma demo_run:
  "gateway_run demo_runtime demo_gateway
     ([Decided demo_proposal demo_state 0 (snd demo_first)] @ [Decided demo_proposal demo_state 1 (snd demo_second)])
     (fst demo_second)"
  using step_decideI [of 0 demo_env "Some 0" demo_runtime demo_gateway demo_proposal demo_state]
    step_decideI [of 1 demo_env "Some 1" demo_runtime "fst demo_first" demo_proposal demo_state]
  by (auto simp: demo_first_def demo_second_def evaluation_time_def)

theorem proposal_permitted_once_witness:
  "dec_outcome (snd demo_first) = PERMIT \<and> dec_outcome (snd demo_second) \<noteq> PERMIT"
  using proposal_permitted_once [of demo_runtime demo_gateway demo_proposal demo_state 0 "snd demo_first" "[]"
      demo_state 1 "snd demo_second" "fst demo_second"] demo_run demo_permit
  by (simp add: demo_first_def new_ledger_def)

text \<open>
  (C4) Revocation is immediate and permanent: once a grant has been revoked, no later decision of the
  run permits a proposal whose delegation chain names that grant.
\<close>
theorem revoked_grant_never_permits:
  assumes "gateway_run rt gw (Revoked k # ls @ [Decided p s t d]) gw'" "k \<in> set (ap_delegation_chain p)"
  shows "dec_outcome d \<noteq> PERMIT"
  using assms by (rule revoked_never_permits)

definition demo_revoked :: gateway where
  "demo_revoked = demo_gateway\<lparr>gw_delegation := revoke (gw_delegation demo_gateway) ''grant-root''\<rparr>"

theorem revoked_grant_never_permits_witness:
  "dec_outcome (snd (decide demo_runtime demo_env demo_gateway demo_proposal demo_state (Some 0))) = PERMIT \<and>
   dec_outcome (snd (decide demo_runtime demo_env demo_revoked demo_proposal demo_state (Some 0))) \<noteq> PERMIT"
proof -
  have "gateway_run demo_runtime demo_gateway (Revoked ''grant-root'' # [] @
      [Decided demo_proposal demo_state 0
        (snd (decide demo_runtime demo_env demo_revoked demo_proposal demo_state (Some 0)))])
      (fst (decide demo_runtime demo_env demo_revoked demo_proposal demo_state (Some 0)))"
    using step_decideI [of 0 demo_env "Some 0" demo_runtime demo_revoked demo_proposal demo_state]
      step_revoke [of demo_runtime demo_gateway "''grant-root''"]
    by (auto simp: evaluation_time_def demo_revoked_def)
  from revoked_grant_never_permits [OF this] demo_permit show ?thesis by (simp add: demo_proposal_def)
qed

text \<open>
  (C19) Complete evidence: along any run the log is extended by exactly one record per decision, in the
  order of the decisions; each record names the proposal and decision identifiers, contains the
  decision, and its hash is the one in the returned decision; a verifiable log stays verifiable and a
  correctly numbered log stays correctly numbered.
\<close>
theorem run_leaves_complete_evidence:
  assumes "gateway_run rt gw ls gw'"
  shows "(\<exists>rs. gw_evidence gw' = gw_evidence gw @ rs \<and> list_all2 records_decision (decisions ls) rs) \<and>
    (evidence_verify rt (gw_evidence gw') \<longleftrightarrow> evidence_verify rt (gw_evidence gw)) \<and>
    (numbered (gw_evidence gw) \<longrightarrow> numbered (gw_evidence gw'))"
  using run_evidence [OF assms] by (simp add: log_follows_def)

theorem run_leaves_complete_evidence_witness:
  "length (gw_evidence (fst demo_second)) = 2 \<and> evidence_verify demo_runtime (gw_evidence (fst demo_second)) \<and>
   numbered (gw_evidence (fst demo_second))"
  using run_leaves_complete_evidence [OF demo_run]
  by (auto simp: evidence_verify_def dest!: list_all2_lengthD)

text \<open>
  No poisoning of the replay ledger: when the degraded-operation gate refuses a call, the decision
  is a denial that changes nothing but the evidence log and the gate's own state; and when the actor is
  not verified, the replay ledger is left unchanged and the outcome is not a permit.
\<close>
theorem refused_call_keeps_nonces:
  assumes "\<not> admitted rt env gw p (evaluation_time env now) \<or> \<not> gw_identity_verify gw (ap_actor_id p)"
  shows "gw_replay (fst (decide rt env gw p s now)) = gw_replay gw \<and>
    dec_outcome (snd (decide rt env gw p s now)) \<noteq> PERMIT \<and>
    (\<not> admitted rt env gw p (evaluation_time env now) \<longrightarrow>
      dec_outcome (snd (decide rt env gw p s now)) = DENY \<and>
      (\<exists>chain st. fst (decide rt env gw p s now) = gw\<lparr>gw_degraded_state := st, gw_evidence := chain\<rparr>))"
proof -
  have replay: "gw_replay (fst (decide rt env gw p s now)) = gw_replay gw"
    using assms by (auto simp: decide_replay reserve_nonce_def)
  have out: "dec_outcome (snd (decide rt env gw p s now)) \<noteq> PERMIT"
    using assms permitD(1) [of rt env gw p s now] by (auto simp: decide_outcome Let_def)
  have frame: "\<exists>chain st. fst (decide rt env gw p s now) = gw\<lparr>gw_degraded_state := st, gw_evidence := chain\<rparr>"
    if "\<not> admitted rt env gw p (evaluation_time env now)"
  proof -
    obtain rs a st where adm: "degraded_admission rt env gw p (evaluation_time env now) = (rs, a, st)"
      by (metis prod_cases3)
    then have "fst (decide rt env gw p s now) =
        fst (pre_authorization_denial rt env (gw\<lparr>gw_degraded_state := st\<rparr>) p s rs a)"
      using that by (simp add: decide_def Let_def admitted_def evaluation_time_def)
    then show ?thesis using denial_frame [of rt env "gw\<lparr>gw_degraded_state := st\<rparr>" p s rs a] by auto
  qed
  show ?thesis using replay out frame by (auto simp: decide_outcome Let_def)
qed

theorem refused_call_keeps_nonces_witness:
  "\<not> gw_identity_verify demo_gateway ''agent:intruder'' \<and>
   gw_replay (fst (decide demo_runtime demo_env demo_gateway
     (demo_proposal\<lparr>ap_actor_id := ''agent:intruder''\<rparr>) demo_state (Some 0))) = gw_replay demo_gateway"
  using refused_call_keeps_nonces [of demo_runtime demo_env demo_gateway
      "demo_proposal\<lparr>ap_actor_id := ''agent:intruder''\<rparr>" "Some 0" demo_state]
  by (simp add: identity_verify_def allowlist_def)

text \<open>
  (C27) Human approval: with the contextual policy the gateway asks for approval exactly when the risk
  reaches the policy's threshold, no approval is attached, and the very same proposal with an approval
  attached would be permitted.
\<close>
theorem approval_required_iff:
  assumes "gw_policy_evaluate gw = policy_evaluate c"
  shows "dec_outcome (snd (decide rt env gw p s now)) = REQUIRE_APPROVAL \<longleftrightarrow>
    fle (cp_human_approval_risk_threshold c) (ap_risk_score p) \<and> ap_human_approval_id p = None \<and>
    dec_outcome (snd (decide rt env gw (p\<lparr>ap_human_approval_id := Some a\<rparr>) s now)) = PERMIT"
proof -
  have "admitted rt env gw (p\<lparr>ap_human_approval_id := Some a\<rparr>) t = admitted rt env gw p t" for t
    by (simp only: admitted_def degraded_admission_def approval_admission)
  then show ?thesis
    using approved_reasons [OF assms, of rt p s "evaluation_time env now" a]
    by (auto simp: decide_outcome Let_def)
qed

definition demo_strict_policy :: contextual_policy where
  "demo_strict_policy = default_policy\<lparr>cp_human_approval_risk_threshold := Fin 40\<rparr>"

definition demo_strict_gateway :: gateway where
  "demo_strict_gateway = demo_gateway\<lparr>gw_policy_evaluate := policy_evaluate demo_strict_policy\<rparr>"

lemma demo_approved:
  "dec_outcome (snd (decide demo_runtime demo_env demo_strict_gateway
     (demo_proposal\<lparr>ap_human_approval_id := Some ''approval-1''\<rparr>) demo_state (Some 0))) = PERMIT"
proof -
  let ?p = "demo_proposal\<lparr>ap_human_approval_id := Some ''approval-1''\<rparr>"
  have "pr_reasons (policy_evaluate demo_strict_policy ?p demo_state) = []"
    by (simp add: policy_reasons_empty demo_strict_policy_def default_policy_def demo_proposal_def nominal_state_def)
  then have "all_reasons demo_runtime demo_strict_gateway ?p demo_state 0 = []"
    using demo_all_reasons [of 0]
    by (simp add: all_reasons_def check_reasons_def reserve_nonce_def demo_strict_gateway_def
        safety_evaluate_def Let_def split: if_splits)
  then show ?thesis
    by (simp add: decide_outcome Let_def evaluation_time_def no_gate_admitted demo_strict_gateway_def)
qed

theorem approval_required_iff_witness:
  "dec_outcome (snd (decide demo_runtime demo_env demo_strict_gateway demo_proposal demo_state (Some 0))) = REQUIRE_APPROVAL"
  using approval_required_iff [of demo_strict_gateway demo_strict_policy demo_runtime demo_env demo_proposal
      demo_state "Some 0" "''approval-1''"] demo_approved
  by (simp add: demo_strict_gateway_def demo_strict_policy_def demo_proposal_def default_policy_def)

text \<open>
  The checks can be met: in a freshly built laboratory, with any keys and any agent, a valid
  proposal in the scope of the leaf grant, with sufficient confidence, observed on a fresh state and
  with a predicted state within the limits, is permitted.
\<close>
theorem local_lab_permits:
  assumes "signatures_ok rt" and lab: "build_local_lab rt rk sk t0 actor = Inr lab"
    and valid: "action_proposal_valid p" "system_state_valid s"
    and "ap_delegation_chain p = [''grant-root'', ''grant-leaf'']" "ap_actor_id p = actor"
      "ap_mission_id p = ''microgrid-containment''" "ap_resource p \<in> {''feeder-1'', ''battery-1''}"
      "ap_operation p \<in> {ISOLATE_ASSET, DISPATCH_BATTERY}" "fle (ap_risk_score p) (Fin 74)"
      "fle (round64 (7 / 10)) (ap_confidence p)"
      "ap_observed_state_version p = ss_version s" "ap_observed_at p = ss_observed_at s"
    and "t0 \<le> t" "t \<le> t0 + seconds 1800" "ss_observed_at s \<le> t" "t \<le> ss_observed_at s + seconds 5"
    and "within_limits default_limits (transition p s)"
  shows "dec_outcome (snd (decide rt env (lab_gateway lab) p s (Some t))) = PERMIT"
proof -
  have "authorised rt (lab_gateway lab) p s t"
    by (rule lab_fresh_authorised; fact)
  then have "all_reasons rt (lab_gateway lab) p s t = []"
    using all_reasons_empty [OF lab_gateway_ok [OF lab] valid] by simp
  then show ?thesis
    using lab_gateway_fields(1) [OF lab]
    by (simp add: decide_outcome Let_def evaluation_time_def no_gate_admitted)
qed

theorem local_lab_permits_witness:
  "dec_outcome (snd (decide demo_runtime demo_env demo_gateway demo_proposal demo_state (Some 2))) = PERMIT"
  by (rule local_lab_permits [OF demo_runtime_ok(2) demo_build demo_proposal_valid nominal_state_valid
        _ _ _ _ _ _ _ _ _ _ _ _ _ demo_transition])
    (simp_all add: demo_proposal_def nominal_state_def)

lemma admitted_iff:
  assumes "digests_ok rt"
  shows "admitted rt env gw p t \<longleftrightarrow> (case gw_degraded_operation gw of None \<Rightarrow> True
    | Some g \<Rightarrow> continues (fst (degraded_evaluate rt g (env_degraded env) p t (gw_degraded_state gw))))"
proof (cases "gw_degraded_operation gw")
  case (Some g)
  obtain r st where "degraded_evaluate rt g (env_degraded env) p t (gw_degraded_state gw) = (Inr r, st)"
    "dr_reasons r \<noteq> []"
    using evaluate_total [OF assms, of g "env_degraded env" p t "gw_degraded_state gw"]
    by (metis degraded_result_valid_def prod.collapse)
  then show ?thesis by (simp add: admitted_def degraded_admission_def Some continues_def)
qed (simp add: admitted_def degraded_admission_def)

text \<open>
  (C18) Degraded operation never widens authority: with a degraded-operation gate installed, a permit is
  issued only if the gate saw either a fully healthy fresh snapshot or the loss of the management role
  alone under a stored, signed lease that covers the proposal, and every primary check held as well.
\<close>
theorem permit_through_gate:
  assumes "digests_ok rt" "gw_degraded_operation gw = Some g"
    and "gateway_ok gw" "action_proposal_valid p" "system_state_valid s"
    and permit: "dec_outcome (snd (decide rt env gw p s now)) = PERMIT"
  shows "authorised rt gw p s (evaluation_time env now) \<and>
    (\<exists>sn. de_snapshot (env_degraded env) = Returns sn \<and>
      (healthy_admits g (evaluation_time env now) sn (gw_degraded_state gw) \<or>
       (\<exists>a. lease_of (env_degraded env) = Some a \<and> lease_admits rt g p (evaluation_time env now) sn a \<and>
            \<not> lease_revoked rt (env_degraded env) (gw_degraded_state gw))))"
proof -
  from permit have adm: "admitted rt env gw p (evaluation_time env now)"
    and none: "all_reasons rt gw p s (evaluation_time env now) = []"
    by (auto simp: decide_outcome Let_def split: if_splits)
  have "continues (fst (degraded_evaluate rt g (env_degraded env) p (evaluation_time env now) (gw_degraded_state gw)))"
    using adm by (simp add: admitted_iff [OF assms(1)] assms(2))
  from evaluate_continues [OF this] none show ?thesis
    using all_reasons_empty [OF assms(3-5)] by blast
qed

lemma all_reasons_gate: "all_reasons rt (gw\<lparr>gw_degraded_operation := o'\<rparr>) p s t = all_reasons rt gw p s t"
  by (simp add: all_reasons_def check_reasons_def reserve_nonce_def)

definition demo_gated :: gateway where
  "demo_gated = demo_gateway\<lparr>gw_degraded_operation := Some demo_gate, gw_degraded_state := demo_gate_state\<rparr>"

theorem permit_through_gate_witness:
  "dec_outcome (snd (decide demo_runtime (demo_env\<lparr>env_degraded := demo_gate_env UNAVAILABLE\<rparr>) demo_gated
     demo_proposal demo_state (Some 1))) = PERMIT \<and>
   lease_admits demo_runtime demo_gate demo_proposal 1 (demo_snapshot UNAVAILABLE) demo_lease"
proof -
  let ?env = "demo_env\<lparr>env_degraded := demo_gate_env UNAVAILABLE\<rparr>"
  have scope: "lease_scope_reasons demo_lease demo_proposal = []"
    by (simp add: lease_scope_reasons_def demo_lease_def demo_unsigned_lease_def demo_proposal_def)
  have "continues (fst (degraded_evaluate demo_runtime demo_gate (demo_gate_env UNAVAILABLE) demo_proposal 1 demo_gate_state))"
    using demo_lease_admits demo_accepted demo_state_valid scope
    by (intro evaluate_admitted [OF demo_runtime_ok(1) demo_env_simps(1,3)] disjI2 exI [of _ demo_lease])
      (simp add: demo_env_simps lease_admits_def lease_revoked_def degraded_state_initial_def)
  then have adm: "admitted demo_runtime ?env demo_gated demo_proposal 1"
    by (simp add: admitted_iff demo_gated_def)
  have "all_reasons demo_runtime demo_gated demo_proposal demo_state 1 = []"
    using demo_all_reasons [of 1] by (simp add: demo_gated_def all_reasons_gate)
  with adm have permit: "dec_outcome (snd (decide demo_runtime ?env demo_gated demo_proposal demo_state (Some 1))) = PERMIT"
    by (simp add: decide_outcome Let_def evaluation_time_def)
  have "gateway_ok demo_gated" using demo_gateway_ok by (simp add: gateway_ok_def demo_gated_def)
  from permit_through_gate [OF demo_runtime_ok(1) _ this demo_proposal_valid nominal_state_valid permit, of demo_gate]
  show ?thesis
    using permit demo_affected
    by (auto simp: demo_gated_def evaluation_time_def demo_env_simps healthy_admits_def)
qed

end
