(* ===== verification/Physical_Models.thy ===== *)
theory Physical_Models
  imports Models
begin

text \<open>
  \<^verbatim>\<open>physical_models.py\<close>: plant snapshots, actuator commands, candidate assessments, execution permits,
  acknowledgments and closed-loop results, with the constraints their constructors enforce, their
  digests and signing payloads, and the verification of an acknowledgment against its transaction.
\<close>

section \<open>Snapshots\<close>

datatype physical_command_type = SET_LINE_SERVICE | SET_BATTERY_INJECTION

fun command_type_value :: "physical_command_type \<Rightarrow> string" where
  "command_type_value SET_LINE_SERVICE = ''set_line_service''"
| "command_type_value SET_BATTERY_INJECTION = ''set_battery_injection''"

datatype command_status = APPLIED | REJECTED | UNKNOWN_EFFECT

fun command_status_value :: "command_status \<Rightarrow> string" where
  "command_status_value APPLIED = ''applied''"
| "command_status_value REJECTED = ''rejected''"
| "command_status_value UNKNOWN_EFFECT = ''unknown_effect''"

datatype closed_loop_status = NOT_DISPATCHED | CANDIDATE_REJECTED | DEVICE_REJECTED | COMPLETED | EFFECT_UNKNOWN

fun closed_loop_status_value :: "closed_loop_status \<Rightarrow> string" where
  "closed_loop_status_value NOT_DISPATCHED = ''not_dispatched''"
| "closed_loop_status_value CANDIDATE_REJECTED = ''candidate_rejected''"
| "closed_loop_status_value DEVICE_REJECTED = ''device_rejected''"
| "closed_loop_status_value COMPLETED = ''completed''"
| "closed_loop_status_value EFFECT_UNKNOWN = ''unknown_effect''"

record snapshot =
  ps_model_id :: string
  ps_simulator_version :: string
  ps_model_digest :: string
  ps_input_digest :: string
  ps_topology_digest :: string
  ps_state_digest :: string
  ps_observation_digest :: string
  ps_observation_sequence :: int
  ps_observation_source_id :: string
  ps_observation_clock_domain :: string
  ps_state_version :: int
  ps_simulation_time_s :: pyfloat
  ps_observed_at :: instant
  ps_converged :: bool
  ps_total_load_demand_mw :: pyfloat
  ps_served_load_mw :: pyfloat
  ps_unserved_load_mw :: pyfloat
  ps_total_load_served_pct :: pyfloat
  ps_priority_load_demand_mw :: pyfloat
  ps_priority_load_served_mw :: pyfloat
  ps_priority_load_served_pct :: pyfloat
  ps_minimum_voltage_pu :: "pyfloat option"
  ps_maximum_voltage_pu :: "pyfloat option"
  ps_maximum_line_loading_pct :: "pyfloat option"
  ps_voltage_violation_count :: int
  ps_thermal_violation_count :: int
  ps_unsafe_state :: bool
  ps_isolated_resources :: "string list"
  ps_battery_injection_mw :: "(string \<times> pyfloat) list"
  ps_bus_voltage_pu :: "pyfloat option list"
  ps_line_loading_pct :: "pyfloat option list"

definition nonneg :: "pyfloat \<Rightarrow> bool" where
  "nonneg x \<longleftrightarrow> is_finite x \<and> fle (Fin 0) x"

definition percentage :: "pyfloat \<Rightarrow> bool" where
  "percentage x \<longleftrightarrow> nonneg x \<and> fle x (Fin 100)"

definition opt_ok :: "('a \<Rightarrow> bool) \<Rightarrow> 'a option \<Rightarrow> bool" where
  "opt_ok P x = (case x of None \<Rightarrow> True | Some v \<Rightarrow> P v)"

lemma opt_ok_simps [simp]: "opt_ok P None" "opt_ok P (Some v) \<longleftrightarrow> P v"
  by (simp_all add: opt_ok_def)

definition snapshot_valid :: "snapshot \<Rightarrow> bool" where
  "snapshot_valid s \<longleftrightarrow>
     ps_model_id s \<noteq> [] \<and> ps_simulator_version s \<noteq> [] \<and>
     is_hex_digest (ps_model_digest s) \<and> is_hex_digest (ps_input_digest s) \<and>
     is_hex_digest (ps_topology_digest s) \<and> is_hex_digest (ps_state_digest s) \<and>
     is_hex_digest (ps_observation_digest s) \<and> 0 \<le> ps_observation_sequence s \<and>
     ps_observation_source_id s \<noteq> [] \<and> ps_observation_clock_domain s \<noteq> [] \<and>
     0 \<le> ps_state_version s \<and> nonneg (ps_simulation_time_s s) \<and>
     nonneg (ps_total_load_demand_mw s) \<and> nonneg (ps_served_load_mw s) \<and> nonneg (ps_unserved_load_mw s) \<and>
     percentage (ps_total_load_served_pct s) \<and> nonneg (ps_priority_load_demand_mw s) \<and>
     nonneg (ps_priority_load_served_mw s) \<and> percentage (ps_priority_load_served_pct s) \<and>
     opt_ok (\<lambda>v. is_finite v \<and> flt (Fin 0) v) (ps_minimum_voltage_pu s) \<and>
     opt_ok (\<lambda>v. is_finite v \<and> flt (Fin 0) v) (ps_maximum_voltage_pu s) \<and>
     opt_ok nonneg (ps_maximum_line_loading_pct s) \<and>
     0 \<le> ps_voltage_violation_count s \<and> 0 \<le> ps_thermal_violation_count s \<and>
     list_all (is_finite \<circ> snd) (ps_battery_injection_mw s) \<and>
     list_all (opt_ok is_finite) (ps_bus_voltage_pu s) \<and> list_all (opt_ok is_finite) (ps_line_loading_pct s)"

definition make_snapshot :: "snapshot \<Rightarrow> snapshot res" where
  "make_snapshot s = (if snapshot_valid s then Inr s else Inl ValidationError)"

definition digest_material_fields :: "snapshot \<Rightarrow> (string \<times> json) list" where
  "digest_material_fields s = [
     (''schema_version'', JStr ''physical-state-v1''),
     (''model_id'', JStr (ps_model_id s)),
     (''simulator_version'', JStr (ps_simulator_version s)),
     (''model_digest'', JStr (ps_model_digest s)),
     (''input_digest'', JStr (ps_input_digest s)),
     (''topology_digest'', JStr (ps_topology_digest s)),
     (''state_version'', JInt (ps_state_version s)),
     (''simulation_time_s'', jfloat (ps_simulation_time_s s)),
     (''converged'', JBool (ps_converged s)),
     (''total_load_demand_mw'', jfloat (ps_total_load_demand_mw s)),
     (''served_load_mw'', jfloat (ps_served_load_mw s)),
     (''unserved_load_mw'', jfloat (ps_unserved_load_mw s)),
     (''total_load_served_pct'', jfloat (ps_total_load_served_pct s)),
     (''priority_load_demand_mw'', jfloat (ps_priority_load_demand_mw s)),
     (''priority_load_served_mw'', jfloat (ps_priority_load_served_mw s)),
     (''priority_load_served_pct'', jfloat (ps_priority_load_served_pct s)),
     (''minimum_voltage_pu'', jopt jfloat (ps_minimum_voltage_pu s)),
     (''maximum_voltage_pu'', jopt jfloat (ps_maximum_voltage_pu s)),
     (''maximum_line_loading_pct'', jopt jfloat (ps_maximum_line_loading_pct s)),
     (''voltage_violation_count'', JInt (ps_voltage_violation_count s)),
     (''thermal_violation_count'', JInt (ps_thermal_violation_count s)),
     (''unsafe_state'', JBool (ps_unsafe_state s)),
     (''isolated_resources'', JArr (map JStr (ps_isolated_resources s))),
     (''battery_injection_mw'', JObj (map (apsnd jfloat) (ps_battery_injection_mw s))),
     (''bus_voltage_pu'', JArr (map (jopt jfloat) (ps_bus_voltage_pu s))),
     (''line_loading_pct'', JArr (map (jopt jfloat) (ps_line_loading_pct s)))]"

definition digest_material :: "snapshot \<Rightarrow> json" where
  "digest_material s = JObj (digest_material_fields s)"

definition observation_material :: "snapshot \<Rightarrow> json" where
  "observation_material s = JObj [
     (''state_digest'', JStr (ps_state_digest s)),
     (''observed_at'', JTime (ps_observed_at s)),
     (''observation_sequence'', JInt (ps_observation_sequence s)),
     (''observation_source_id'', JStr (ps_observation_source_id s)),
     (''observation_clock_domain'', JStr (ps_observation_clock_domain s))]"

definition snapshot_dump :: "snapshot \<Rightarrow> json" where
  "snapshot_dump s = JObj (digest_material_fields s @ [
     (''state_digest'', JStr (ps_state_digest s)),
     (''observation_digest'', JStr (ps_observation_digest s)),
     (''observation_sequence'', JInt (ps_observation_sequence s)),
     (''observation_source_id'', JStr (ps_observation_source_id s)),
     (''observation_clock_domain'', JStr (ps_observation_clock_domain s)),
     (''observed_at'', JTime (ps_observed_at s))])"

definition verify_digest :: "runtime \<Rightarrow> snapshot \<Rightarrow> bool" where
  "verify_digest rt s \<longleftrightarrow>
     ps_state_digest s = canonical_digest rt (digest_material s) \<and>
     ps_observation_digest s = canonical_digest rt (observation_material s)"

section \<open>Commands and assessments\<close>

datatype command_unit = Boolean_Unit | MW_Unit

fun unit_value :: "command_unit \<Rightarrow> string" where
  "unit_value Boolean_Unit = ''boolean''"
| "unit_value MW_Unit = ''MW''"

record command =
  pc_command_id :: string
  pc_proposal_id :: string
  pc_operation :: operation
  pc_resource :: string
  pc_command_type :: physical_command_type
  pc_target :: string
  pc_target_index :: int
  pc_setpoint :: pyfloat
  pc_unit :: command_unit

definition command_valid :: "command \<Rightarrow> bool" where
  "command_valid c \<longleftrightarrow>
     pc_command_id c \<noteq> [] \<and> pc_proposal_id c \<noteq> [] \<and> pc_resource c \<noteq> [] \<and> pc_target c \<noteq> [] \<and>
     0 \<le> pc_target_index c \<and> is_finite (pc_setpoint c) \<and>
     (case pc_command_type c of
        SET_LINE_SERVICE \<Rightarrow>
          \<not> (pc_unit c \<noteq> Boolean_Unit \<or> \<not> (feq (pc_setpoint c) (Fin 0) \<or> feq (pc_setpoint c) (Fin 1))) \<and>
          pc_operation c \<in> {ISOLATE_ASSET, RESTORE_ASSET}
      | SET_BATTERY_INJECTION \<Rightarrow> \<not> (pc_unit c \<noteq> MW_Unit \<or> pc_operation c \<noteq> DISPATCH_BATTERY))"

definition make_command :: "command \<Rightarrow> command res" where
  "make_command c = (if command_valid c then Inr c else Inl ValidationError)"

definition command_dump :: "command \<Rightarrow> json" where
  "command_dump c = JObj [
     (''schema_version'', JStr ''physical-command-v1''),
     (''command_id'', JStr (pc_command_id c)),
     (''proposal_id'', JStr (pc_proposal_id c)),
     (''operation'', JStr (operation_value (pc_operation c))),
     (''resource'', JStr (pc_resource c)),
     (''command_type'', JStr (command_type_value (pc_command_type c))),
     (''target'', JStr (pc_target c)),
     (''target_index'', JInt (pc_target_index c)),
     (''setpoint'', jfloat (pc_setpoint c)),
     (''unit'', JStr (unit_value (pc_unit c)))]"

definition command_digest :: "runtime \<Rightarrow> command \<Rightarrow> string" where
  "command_digest rt c = canonical_digest rt (command_dump c)"

record assessment =
  ca_assessment_id :: string
  ca_command_digest :: string
  ca_pre_state :: snapshot
  ca_post_state :: snapshot
  ca_safe :: bool
  ca_reasons :: "string list"

definition assessment_valid :: "runtime \<Rightarrow> assessment \<Rightarrow> bool" where
  "assessment_valid rt a \<longleftrightarrow>
     ca_assessment_id a \<noteq> [] \<and> is_hex_digest (ca_command_digest a) \<and>
     snapshot_valid (ca_pre_state a) \<and> snapshot_valid (ca_post_state a) \<and>
     ps_model_digest (ca_pre_state a) = ps_model_digest (ca_post_state a) \<and>
     \<not> (\<not> verify_digest rt (ca_pre_state a) \<or> \<not> verify_digest rt (ca_post_state a)) \<and>
     ps_state_version (ca_post_state a) = ps_state_version (ca_pre_state a) + 1 \<and>
     \<not> fle (ps_simulation_time_s (ca_post_state a)) (ps_simulation_time_s (ca_pre_state a)) \<and>
     \<not> ps_observed_at (ca_post_state a) \<le> ps_observed_at (ca_pre_state a) \<and>
     \<not> (ca_safe a \<and> ca_reasons a \<noteq> []) \<and> \<not> (\<not> ca_safe a \<and> ca_reasons a = []) \<and>
     ca_safe a \<noteq> ps_unsafe_state (ca_post_state a)"

definition make_assessment :: "runtime \<Rightarrow> assessment \<Rightarrow> assessment res" where
  "make_assessment rt a = (if assessment_valid rt a then Inr a else Inl ValidationError)"

definition assessment_dump :: "assessment \<Rightarrow> json" where
  "assessment_dump a = JObj [
     (''schema_version'', JStr ''candidate-assessment-v1''),
     (''assessment_id'', JStr (ca_assessment_id a)),
     (''command_digest'', JStr (ca_command_digest a)),
     (''pre_state'', snapshot_dump (ca_pre_state a)),
     (''post_state'', snapshot_dump (ca_post_state a)),
     (''safe'', JBool (ca_safe a)),
     (''reasons'', JArr (map JStr (ca_reasons a)))]"

definition assessment_digest :: "runtime \<Rightarrow> assessment \<Rightarrow> string" where
  "assessment_digest rt a = canonical_digest rt (assessment_dump a)"

section \<open>Execution permits\<close>

text \<open>\<^verbatim>\<open>decision_outcome\<close> admits the one literal \<^verbatim>\<open>permit\<close> and is a constant of the payload.\<close>

record permit =
  ep_permit_id :: string
  ep_permit_nonce :: string
  ep_decision_id :: string
  ep_proposal_id :: string
  ep_proposal_digest :: string
  ep_command :: command
  ep_command_digest :: string
  ep_assessment_digest :: string
  ep_state_version :: int
  ep_state_digest :: string
  ep_observation_digest :: string
  ep_topology_digest :: string
  ep_model_digest :: string
  ep_expected_post_state_version :: int
  ep_expected_post_state_digest :: string
  ep_expected_post_topology_digest :: string
  ep_evidence_record_hash :: string
  ep_policy_version :: string
  ep_safety_version :: string
  ep_audience :: string
  ep_issued_at :: instant
  ep_expires_at :: instant
  ep_signing_key_id :: string
  ep_signature :: string

definition permit_valid :: "runtime \<Rightarrow> permit \<Rightarrow> bool" where
  "permit_valid rt p \<longleftrightarrow>
     ep_permit_id p \<noteq> [] \<and> 16 \<le> length (ep_permit_nonce p) \<and> ep_decision_id p \<noteq> [] \<and>
     ep_proposal_id p \<noteq> [] \<and> is_hex_digest (ep_proposal_digest p) \<and> command_valid (ep_command p) \<and>
     is_hex_digest (ep_command_digest p) \<and> is_hex_digest (ep_assessment_digest p) \<and>
     0 \<le> ep_state_version p \<and> is_hex_digest (ep_state_digest p) \<and>
     is_hex_digest (ep_observation_digest p) \<and> is_hex_digest (ep_topology_digest p) \<and>
     is_hex_digest (ep_model_digest p) \<and> 1 \<le> ep_expected_post_state_version p \<and>
     is_hex_digest (ep_expected_post_state_digest p) \<and> is_hex_digest (ep_expected_post_topology_digest p) \<and>
     is_hex_digest (ep_evidence_record_hash p) \<and> ep_policy_version p \<noteq> [] \<and>
     ep_safety_version p \<noteq> [] \<and> ep_audience p \<noteq> [] \<and> ep_signing_key_id p \<noteq> [] \<and>
     \<not> ep_expires_at p \<le> ep_issued_at p \<and>
     pc_proposal_id (ep_command p) = ep_proposal_id p \<and>
     command_digest rt (ep_command p) = ep_command_digest p \<and>
     ep_expected_post_state_version p = ep_state_version p + 1"

definition make_permit :: "runtime \<Rightarrow> permit \<Rightarrow> permit res" where
  "make_permit rt p = (if permit_valid rt p then Inr p else Inl ValidationError)"

definition permit_fields :: "permit \<Rightarrow> (string \<times> json) list" where
  "permit_fields p = [
     (''schema_version'', JStr ''execution-permit-v1''),
     (''permit_id'', JStr (ep_permit_id p)),
     (''permit_nonce'', JStr (ep_permit_nonce p)),
     (''decision_id'', JStr (ep_decision_id p)),
     (''decision_outcome'', JStr (outcome_value PERMIT)),
     (''proposal_id'', JStr (ep_proposal_id p)),
     (''proposal_digest'', JStr (ep_proposal_digest p)),
     (''command'', command_dump (ep_command p)),
     (''command_digest'', JStr (ep_command_digest p)),
     (''assessment_digest'', JStr (ep_assessment_digest p)),
     (''state_version'', JInt (ep_state_version p)),
     (''state_digest'', JStr (ep_state_digest p)),
     (''observation_digest'', JStr (ep_observation_digest p)),
     (''topology_digest'', JStr (ep_topology_digest p)),
     (''model_digest'', JStr (ep_model_digest p)),
     (''expected_post_state_version'', JInt (ep_expected_post_state_version p)),
     (''expected_post_state_digest'', JStr (ep_expected_post_state_digest p)),
     (''expected_post_topology_digest'', JStr (ep_expected_post_topology_digest p)),
     (''evidence_record_hash'', JStr (ep_evidence_record_hash p)),
     (''policy_version'', JStr (ep_policy_version p)),
     (''safety_version'', JStr (ep_safety_version p)),
     (''audience'', JStr (ep_audience p)),
     (''issued_at'', JTime (ep_issued_at p)),
     (''expires_at'', JTime (ep_expires_at p)),
     (''signing_key_id'', JStr (ep_signing_key_id p))]"

definition permit_dump :: "permit \<Rightarrow> json" where
  "permit_dump p = JObj (permit_fields p @ [(''signature'', JStr (ep_signature p))])"

definition permit_signing_payload :: "permit \<Rightarrow> payload" where
  "permit_signing_payload p = ('''', canonical (JObj (permit_fields p)))"

definition permit_signed :: "runtime \<Rightarrow> permit \<Rightarrow> private_key \<Rightarrow> permit" where
  "permit_signed rt p private_key =
     p\<lparr>ep_signature := sign_bytes rt private_key (permit_signing_payload p)\<rparr>"

definition permit_verify :: "runtime \<Rightarrow> permit \<Rightarrow> public_key \<Rightarrow> bool" where
  "permit_verify rt p public_key \<longleftrightarrow> ep_signature p \<noteq> [] \<and>
     verify_bytes rt public_key (permit_signing_payload p) (ep_signature p)"

section \<open>Acknowledgments\<close>

record acknowledgment =
  ck_acknowledgment_id :: string
  ck_permit_id :: string
  ck_permit_nonce :: string
  ck_command_id :: string
  ck_command_digest :: string
  ck_assessment_digest :: string
  ck_proposal_id :: string
  ck_decision_id :: string
  ck_device_id :: string
  ck_device_scan :: int
  ck_status :: command_status
  ck_reason :: string
  ck_acknowledged_at :: instant
  ck_pre_state_digest :: string
  ck_post_state_digest :: "string option"
  ck_post_state_version :: "int option"
  ck_pre_actuator_setpoint :: pyfloat
  ck_post_actuator_setpoint :: "pyfloat option"
  ck_simulation_time_s :: pyfloat
  ck_signing_key_id :: string
  ck_signature :: string

definition require_status_shape :: "acknowledgment \<Rightarrow> bool" where
  "require_status_shape k \<longleftrightarrow>
     (case ck_status k of
        APPLIED \<Rightarrow> ck_post_state_digest k \<noteq> None \<and> ck_post_state_version k \<noteq> None \<and>
          ck_post_actuator_setpoint k \<noteq> None
      | _ \<Rightarrow> ck_post_state_digest k = None \<and> ck_post_state_version k = None) \<and>
     (case ck_status k of
        REJECTED \<Rightarrow> (case ck_post_actuator_setpoint k of None \<Rightarrow> False
                     | Some v \<Rightarrow> feq v (ck_pre_actuator_setpoint k))
      | UNKNOWN_EFFECT \<Rightarrow> ck_post_actuator_setpoint k = None
      | APPLIED \<Rightarrow> True)"

definition acknowledgment_valid :: "acknowledgment \<Rightarrow> bool" where
  "acknowledgment_valid k \<longleftrightarrow>
     ck_acknowledgment_id k \<noteq> [] \<and> ck_permit_id k \<noteq> [] \<and> 16 \<le> length (ck_permit_nonce k) \<and>
     ck_command_id k \<noteq> [] \<and> is_hex_digest (ck_command_digest k) \<and> is_hex_digest (ck_assessment_digest k) \<and>
     ck_proposal_id k \<noteq> [] \<and> ck_decision_id k \<noteq> [] \<and> ck_device_id k \<noteq> [] \<and> 1 \<le> ck_device_scan k \<and>
     ck_reason k \<noteq> [] \<and> is_hex_digest (ck_pre_state_digest k) \<and>
     opt_ok is_hex_digest (ck_post_state_digest k) \<and> opt_ok (\<lambda>v. 0 \<le> v) (ck_post_state_version k) \<and>
     is_finite (ck_pre_actuator_setpoint k) \<and> opt_ok is_finite (ck_post_actuator_setpoint k) \<and>
     nonneg (ck_simulation_time_s k) \<and> ck_signing_key_id k \<noteq> [] \<and> require_status_shape k"

definition make_acknowledgment :: "acknowledgment \<Rightarrow> acknowledgment res" where
  "make_acknowledgment k = (if acknowledgment_valid k then Inr k else Inl ValidationError)"

definition acknowledgment_fields :: "acknowledgment \<Rightarrow> (string \<times> json) list" where
  "acknowledgment_fields k = [
     (''schema_version'', JStr ''command-ack-v1''),
     (''acknowledgment_id'', JStr (ck_acknowledgment_id k)),
     (''permit_id'', JStr (ck_permit_id k)),
     (''permit_nonce'', JStr (ck_permit_nonce k)),
     (''command_id'', JStr (ck_command_id k)),
     (''command_digest'', JStr (ck_command_digest k)),
     (''assessment_digest'', JStr (ck_assessment_digest k)),
     (''proposal_id'', JStr (ck_proposal_id k)),
     (''decision_id'', JStr (ck_decision_id k)),
     (''device_id'', JStr (ck_device_id k)),
     (''device_scan'', JInt (ck_device_scan k)),
     (''status'', JStr (command_status_value (ck_status k))),
     (''reason'', JStr (ck_reason k)),
     (''acknowledged_at'', JTime (ck_acknowledged_at k)),
     (''pre_state_digest'', JStr (ck_pre_state_digest k)),
     (''post_state_digest'', jopt JStr (ck_post_state_digest k)),
     (''post_state_version'', jopt JInt (ck_post_state_version k)),
     (''pre_actuator_setpoint'', jfloat (ck_pre_actuator_setpoint k)),
     (''post_actuator_setpoint'', jopt jfloat (ck_post_actuator_setpoint k)),
     (''simulation_time_s'', jfloat (ck_simulation_time_s k)),
     (''signing_key_id'', JStr (ck_signing_key_id k))]"

definition acknowledgment_dump :: "acknowledgment \<Rightarrow> json" where
  "acknowledgment_dump k = JObj (acknowledgment_fields k @ [(''signature'', JStr (ck_signature k))])"

definition acknowledgment_signing_payload :: "acknowledgment \<Rightarrow> payload" where
  "acknowledgment_signing_payload k = ('''', canonical (JObj (acknowledgment_fields k)))"

definition acknowledgment_signed :: "runtime \<Rightarrow> acknowledgment \<Rightarrow> private_key \<Rightarrow> acknowledgment" where
  "acknowledgment_signed rt k private_key =
     k\<lparr>ck_signature := sign_bytes rt private_key (acknowledgment_signing_payload k)\<rparr>"

definition acknowledgment_verify :: "runtime \<Rightarrow> acknowledgment \<Rightarrow> public_key \<Rightarrow> bool" where
  "acknowledgment_verify rt k public_key \<longleftrightarrow> ck_signature k \<noteq> [] \<and>
     verify_bytes rt public_key (acknowledgment_signing_payload k) (ck_signature k)"

text \<open>The setpoint an actuator has in a snapshot.\<close>

definition actuator_setpoint :: "snapshot \<Rightarrow> command \<Rightarrow> pyfloat" where
  "actuator_setpoint state c =
     (if pc_command_type c = SET_LINE_SERVICE
      then (if pc_resource c \<in> set (ps_isolated_resources state) then Fin 0 else Fin 1)
      else case map_of (ps_battery_injection_mw state) (pc_resource c) of None \<Rightarrow> Fin 0 | Some v \<Rightarrow> v)"

definition verify_for_transaction ::
  "runtime \<Rightarrow> acknowledgment \<Rightarrow> public_key \<Rightarrow> permit \<Rightarrow> snapshot \<Rightarrow> snapshot \<Rightarrow> string \<Rightarrow> string \<Rightarrow> bool" where
  "verify_for_transaction rt k public_key p pre_state readback_state expected_device_id expected_key_id =
     (let identifiers_match =
            (ck_permit_id k = ep_permit_id p \<and> ck_permit_nonce k = ep_permit_nonce p \<and>
             ck_command_id k = pc_command_id (ep_command p) \<and>
             ck_command_digest k = ep_command_digest p \<and> ck_assessment_digest k = ep_assessment_digest p \<and>
             ck_proposal_id k = ep_proposal_id p \<and> ck_decision_id k = ep_decision_id p \<and>
             ck_device_id k = expected_device_id \<and> ck_signing_key_id k = expected_key_id);
          states_valid = (verify_digest rt pre_state \<and> verify_digest rt readback_state \<and>
             ps_model_digest pre_state = ps_model_digest readback_state \<and>
             ps_model_digest readback_state = ep_model_digest p)
      in if \<not> identifiers_match \<or> \<not> acknowledgment_verify rt k public_key then False
         else if \<not> states_valid then False
         else case ck_status k of
           APPLIED \<Rightarrow>
             ep_issued_at p \<le> ck_acknowledged_at k \<and> ck_acknowledged_at k < ep_expires_at p \<and>
             feq (ck_simulation_time_s k) (ps_simulation_time_s readback_state) \<and>
             ck_pre_state_digest k = ps_state_digest pre_state \<and> ps_state_digest pre_state = ep_state_digest p \<and>
             ps_topology_digest pre_state = ep_topology_digest p \<and>
             ps_observation_digest pre_state = ep_observation_digest p \<and>
             ck_post_state_digest k = Some (ep_expected_post_state_digest p) \<and>
             ck_post_state_version k = Some (ep_expected_post_state_version p) \<and>
             Some (ps_state_digest readback_state) = ck_post_state_digest k \<and>
             Some (ps_state_version readback_state) = ck_post_state_version k \<and>
             ps_topology_digest readback_state = ep_expected_post_topology_digest p \<and>
             feq (ck_pre_actuator_setpoint k) (actuator_setpoint pre_state (ep_command p)) \<and>
             (case ck_post_actuator_setpoint k of None \<Rightarrow> False | Some v \<Rightarrow> feq v (pc_setpoint (ep_command p)))
         | REJECTED \<Rightarrow>
             ep_issued_at p \<le> ck_acknowledged_at k \<and>
             feq (ck_simulation_time_s k) (ps_simulation_time_s readback_state) \<and>
             ck_pre_state_digest k = ps_state_digest pre_state \<and>
             ps_state_digest pre_state = ps_state_digest readback_state \<and>
             ps_state_version pre_state = ps_state_version readback_state \<and>
             ps_topology_digest pre_state = ps_topology_digest readback_state
         | UNKNOWN_EFFECT \<Rightarrow> True)"

section \<open>Closed-loop results\<close>

record closed_loop_result =
  cl_status :: closed_loop_status
  cl_reasons :: "string list"
  cl_proposal :: action_proposal
  cl_pre_state :: snapshot
  cl_decision :: decision
  cl_command :: "command option"
  cl_assessment :: "assessment option"
  cl_permit :: "permit option"
  cl_acknowledgment :: "acknowledgment option"
  cl_post_state :: "snapshot option"
  cl_last_observed_state :: snapshot
  cl_execution_evidence_hash :: string

definition require_terminal_shape :: "closed_loop_result \<Rightarrow> bool" where
  "require_terminal_shape r \<longleftrightarrow>
     (cl_status r = COMPLETED \<longrightarrow>
       (case (cl_acknowledgment r, cl_post_state r) of
          (Some k, Some post) \<Rightarrow> ck_status k = APPLIED \<and> cl_permit r \<noteq> None \<and> cl_assessment r \<noteq> None \<and>
             cl_command r \<noteq> None \<and> Some (ps_state_digest post) = ck_post_state_digest k
        | _ \<Rightarrow> False)) \<and>
     \<not> (cl_status r = EFFECT_UNKNOWN \<and> cl_post_state r \<noteq> None)"

definition make_closed_loop_result :: "closed_loop_result \<Rightarrow> closed_loop_result res" where
  "make_closed_loop_result r =
     (if is_hex_digest (cl_execution_evidence_hash r) \<and> require_terminal_shape r then Inr r else Inl ValidationError)"

section \<open>Lemmas\<close>

lemma make_simps [res_simps]:
  "make_snapshot s = Inr s' \<longleftrightarrow> snapshot_valid s \<and> s' = s"
  "make_command c = Inr c' \<longleftrightarrow> command_valid c \<and> c' = c"
  "make_assessment rt a = Inr a' \<longleftrightarrow> assessment_valid rt a \<and> a' = a"
  "make_permit rt p = Inr p' \<longleftrightarrow> permit_valid rt p \<and> p' = p"
  "make_acknowledgment k = Inr k' \<longleftrightarrow> acknowledgment_valid k \<and> k' = k"
  by (auto simp: make_snapshot_def make_command_def make_assessment_def make_permit_def make_acknowledgment_def)

lemma digest_hex [simp]:
  "digests_ok rt \<Longrightarrow> is_hex_digest (command_digest rt c)"
  "digests_ok rt \<Longrightarrow> is_hex_digest (assessment_digest rt a)"
  "digests_ok rt \<Longrightarrow> is_hex_digest (proposal_digest rt q)"
  by (simp_all add: command_digest_def assessment_digest_def proposal_digest_def)

lemma permit_payload_unsigned [simp]:
  "permit_signing_payload (p\<lparr>ep_signature := s\<rparr>) = permit_signing_payload p"
  by (simp add: permit_signing_payload_def permit_fields_def)

lemma acknowledgment_payload_unsigned [simp]:
  "acknowledgment_signing_payload (k\<lparr>ck_signature := s\<rparr>) = acknowledgment_signing_payload k"
  by (simp add: acknowledgment_signing_payload_def acknowledgment_fields_def)

lemma permit_signed_verifies [simp]:
  "signatures_ok rt \<Longrightarrow> permit_verify rt (permit_signed rt p sk) (rt_public rt sk)"
  by (simp add: permit_verify_def permit_signed_def)

lemma acknowledgment_signed_verifies [simp]:
  "signatures_ok rt \<Longrightarrow> acknowledgment_verify rt (acknowledgment_signed rt k sk) (rt_public rt sk)"
  by (simp add: acknowledgment_verify_def acknowledgment_signed_def)

text \<open>The digest of a state does not depend on its observation envelope.\<close>

lemma digest_material_envelope [simp]:
  "digest_material (s\<lparr>ps_observed_at := t\<rparr>) = digest_material s"
  "digest_material (s\<lparr>ps_observation_sequence := n\<rparr>) = digest_material s"
  "digest_material (s\<lparr>ps_state_digest := d\<rparr>) = digest_material s"
  "digest_material (s\<lparr>ps_observation_digest := d\<rparr>) = digest_material s"
  by (simp_all add: digest_material_def digest_material_fields_def)

end
