(* ===== verification/Plant.thy ===== *)
theory Plant
  imports Physical_Models
begin

text \<open>
  \<^verbatim>\<open>pandapower_plant.py\<close>: the transactional plant. The network object and its power-flow solver belong
  to pandapower: \<open>network\<close> holds the cells the adapter reads and writes, and \<open>pandapower\<close> the operations
  of that package, which every definition takes as an argument. Each public operation runs under one
  lock and is one function on the plant's state.
\<close>

section \<open>The network and the solver\<close>

record load_row =
  lr_index :: int
  lr_in_service :: bool
  lr_p_mw :: pyfloat
  lr_bus :: nat

record network =
  nt_line_name :: "int \<Rightarrow> string option"
  nt_storage_name :: "int \<Rightarrow> string option"
  nt_line_in_service :: "int \<Rightarrow> bool"
  nt_storage_p_mw :: "int \<Rightarrow> pyfloat"
  nt_loads :: "load_row list"
  nt_bus_count :: nat
  nt_line_count :: nat
  nt_res_bus_vm_pu :: "pyfloat list"
  nt_res_line_loading :: "pyfloat list"
  nt_converged :: bool

text \<open>
  \<open>pw_runpp\<close> is \<open>None\<close> when \<^verbatim>\<open>runpp\<close> raises; the three table functions are the JSON material of the
  static columns, the dynamic columns and the topology columns of a network.
\<close>

record pandapower =
  pw_version :: string
  pw_create_cigre_network_mv :: network
  pw_runpp :: "network \<Rightarrow> network option"
  pw_static_network_material :: "network \<Rightarrow> json"
  pw_input_tables :: "network \<Rightarrow> json"
  pw_topology_tables :: "network \<Rightarrow> json"

record physical_limits =
  pm_minimum_voltage_pu :: pyfloat
  pm_maximum_voltage_pu :: pyfloat
  pm_maximum_line_loading_pct :: pyfloat
  pm_minimum_total_load_served_pct :: pyfloat
  pm_minimum_priority_load_served_pct :: pyfloat

definition default_physical_limits :: physical_limits where
  "default_physical_limits =
     \<lparr>pm_minimum_voltage_pu = round64 (90 / 100), pm_maximum_voltage_pu = round64 (110 / 100),
      pm_maximum_line_loading_pct = Fin 100, pm_minimum_total_load_served_pct = Fin 90,
      pm_minimum_priority_load_served_pct = Fin 80\<rparr>"

record resource_binding =
  rb_resource :: string
  rb_command_type :: physical_command_type
  rb_target :: string
  rb_target_index :: int
  rb_minimum_setpoint :: pyfloat
  rb_maximum_setpoint :: pyfloat

type_synonym bindings = "(string \<times> resource_binding) list"

definition default_resource_bindings :: bindings where
  "default_resource_bindings = [
     (''feeder-1'', \<lparr>rb_resource = ''feeder-1'', rb_command_type = SET_LINE_SERVICE, rb_target = ''Line 5-6'',
        rb_target_index = 4, rb_minimum_setpoint = Fin 0, rb_maximum_setpoint = Fin 1\<rparr>),
     (''feeder-2'', \<lparr>rb_resource = ''feeder-2'', rb_command_type = SET_LINE_SERVICE, rb_target = ''Line 8-9'',
        rb_target_index = 6, rb_minimum_setpoint = Fin 0, rb_maximum_setpoint = Fin 1\<rparr>),
     (''battery-1'', \<lparr>rb_resource = ''battery-1'', rb_command_type = SET_BATTERY_INJECTION, rb_target = ''Battery 1'',
        rb_target_index = 0, rb_minimum_setpoint = Fin (- 1), rb_maximum_setpoint = Fin 1\<rparr>)]"

definition default_priority_load_indices :: "int set" where
  "default_priority_load_indices = {12, 13, 16, 17}"

section \<open>The plant\<close>

record plant =
  pl_limits :: physical_limits
  pl_resource_bindings :: bindings
  pl_priority_load_indices :: "int set"
  pl_step_seconds :: pyfloat
  pl_step_delta :: duration
  pl_net :: network
  pl_state_version :: int
  pl_simulation_time_s :: pyfloat
  pl_observed_at :: instant
  pl_observation_sequence :: int
  pl_observation_source_id :: string
  pl_model_digest :: string

definition cigre_mv_model_id :: string where
  "cigre_mv_model_id = ''pandapower-cigre-mv-all''"

definition cigre_mv_source :: string where
  "cigre_mv_source =
     ''pandapower.networks.create_cigre_network_mv(with_der='' @ [CHR 0x27] @ ''all'' @ [CHR 0x27] @ '')''"

definition simulator_version :: "pandapower \<Rightarrow> string" where
  "simulator_version pw = ''pandapower-'' @ pw_version pw"

definition sorted_bindings :: "bindings \<Rightarrow> bindings" where
  "sorted_bindings bs = sort_key fst bs"

definition binding_material :: "resource_binding \<Rightarrow> json" where
  "binding_material b = JObj [
     (''resource'', JStr (rb_resource b)),
     (''command_type'', JStr (command_type_value (rb_command_type b))),
     (''target'', JStr (rb_target b)),
     (''target_index'', JInt (rb_target_index b)),
     (''minimum_setpoint'', jfloat (rb_minimum_setpoint b)),
     (''maximum_setpoint'', jfloat (rb_maximum_setpoint b))]"

definition limits_material :: "physical_limits \<Rightarrow> json" where
  "limits_material l = JObj [
     (''minimum_voltage_pu'', jfloat (pm_minimum_voltage_pu l)),
     (''maximum_voltage_pu'', jfloat (pm_maximum_voltage_pu l)),
     (''maximum_line_loading_pct'', jfloat (pm_maximum_line_loading_pct l)),
     (''minimum_total_load_served_pct'', jfloat (pm_minimum_total_load_served_pct l)),
     (''minimum_priority_load_served_pct'', jfloat (pm_minimum_priority_load_served_pct l))]"

definition power_flow_options :: json where
  "power_flow_options = JObj [
     (''algorithm'', JStr ''nr''), (''calculate_voltage_angles'', JBool True), (''init'', JStr ''auto''),
     (''numba'', JBool False), (''tolerance_mva'', jfloat (round64 (1 / 10 ^ 8))), (''max_iteration'', JInt 20)]"

definition model_material :: "pandapower \<Rightarrow> plant \<Rightarrow> network \<Rightarrow> json" where
  "model_material pw pl net = JObj [
     (''model_id'', JStr cigre_mv_model_id),
     (''source'', JStr cigre_mv_source),
     (''pandapower_version'', JStr (pw_version pw)),
     (''license'', JStr ''BSD-3-Clause''),
     (''power_flow_options'', power_flow_options),
     (''limits'', limits_material (pl_limits pl)),
     (''priority_load_indices'', JArr (map JInt (sorted_list_of_set (pl_priority_load_indices pl)))),
     (''resource_bindings'', JObj (map (apsnd binding_material) (sorted_bindings (pl_resource_bindings pl)))),
     (''network'', pw_static_network_material pw net)]"

definition check :: "bool \<Rightarrow> string \<Rightarrow> unit res" where
  "check ok message = (if ok then Inr () else Inl (PhysicalSimulationError message))"

lemma check_Inr [res_simps]: "check ok m = Inr u \<longleftrightarrow> ok"
  by (cases u) (simp add: check_def)

definition assert_model_integrity :: "runtime \<Rightarrow> pandapower \<Rightarrow> plant \<Rightarrow> unit res" where
  "assert_model_integrity rt pw pl =
     check (canonical_digest rt (model_material pw pl (pl_net pl)) = pl_model_digest pl) ''model_configuration_changed''"

definition solve :: "pandapower \<Rightarrow> network \<Rightarrow> network \<times> bool" where
  "solve pw net =
     (case pw_runpp pw net of
        None \<Rightarrow> (net\<lparr>nt_converged := False\<rparr>, False)
      | Some net' \<Rightarrow> (net', nt_converged net'))"

definition finite_tuple :: "pyfloat list \<Rightarrow> pyfloat option list" where
  "finite_tuple values = map (\<lambda>v. if is_finite v then Some v else None) values"

text \<open>
  The loop over the load table: total and priority demand and served load. Indexing past the bus
  results raises \<^verbatim>\<open>IndexError\<close>.
\<close>

type_synonym load_sums = "pyfloat \<times> pyfloat \<times> pyfloat \<times> pyfloat"

fun load_totals :: "int set \<Rightarrow> bool \<Rightarrow> pyfloat option list \<Rightarrow> load_row list \<Rightarrow> load_sums \<Rightarrow> load_sums res" where
  "load_totals priority converged bus_voltage [] acc = Inr acc"
| "load_totals priority converged bus_voltage (load # rest) (demand_sum, served, prio, prio_served) =
     (if \<not> lr_in_service load
      then load_totals priority converged bus_voltage rest (demand_sum, served, prio, prio_served)
      else
        let demand = lr_p_mw load; is_priority = (lr_index load \<in> priority);
            demand_sum' = fadd demand_sum demand;
            prio' = (if is_priority then fadd prio demand else prio)
        in if converged \<and> length bus_voltage \<le> lr_bus load then Inl (OtherError ''IndexError'')
           else if converged \<and> bus_voltage ! lr_bus load \<noteq> None
           then load_totals priority converged bus_voltage rest
                  (demand_sum', fadd served demand, prio',
                   if is_priority then fadd prio_served demand else prio_served)
           else load_totals priority converged bus_voltage rest (demand_sum', served, prio', prio_served))"

text \<open>\<^verbatim>\<open>min\<close> and \<^verbatim>\<open>max\<close> of a non-empty sequence, in order.\<close>

fun seq_min :: "pyfloat list \<Rightarrow> pyfloat option" where
  "seq_min [] = None"
| "seq_min (x # xs) = Some (foldl fmin x xs)"

fun seq_max :: "pyfloat list \<Rightarrow> pyfloat option" where
  "seq_max [] = None"
| "seq_max (x # xs) = Some (foldl fmax x xs)"

definition served_pct :: "pyfloat \<Rightarrow> pyfloat \<Rightarrow> pyfloat" where
  "served_pct served demand =
     (if feq demand (Fin 0) then Fin 100 else fdiv (fmul (Fin 100) served) demand)"

definition violations :: "(pyfloat \<Rightarrow> bool) \<Rightarrow> pyfloat list \<Rightarrow> int" where
  "violations bad xs = int (length (filter bad xs))"

definition isolated_of :: "bindings \<Rightarrow> network \<Rightarrow> string list" where
  "isolated_of bs net = sort (map fst (filter (\<lambda>(_, b). rb_command_type b = SET_LINE_SERVICE \<and>
     \<not> nt_line_in_service net (rb_target_index b)) bs))"

definition battery_injection_of :: "bindings \<Rightarrow> network \<Rightarrow> (string \<times> pyfloat) list" where
  "battery_injection_of bs net = map (\<lambda>(r, b). (r, fneg (nt_storage_p_mw net (rb_target_index b))))
     (filter (\<lambda>(_, b). rb_command_type b = SET_BATTERY_INJECTION) (sorted_bindings bs))"

text \<open>The limits a post-state is held to, and the flag of the snapshot.\<close>

definition unsafe_measures :: "physical_limits \<Rightarrow> bool \<Rightarrow> pyfloat \<Rightarrow> pyfloat \<Rightarrow> int \<Rightarrow> int \<Rightarrow> bool" where
  "unsafe_measures l converged total_pct priority_pct voltage thermal \<longleftrightarrow>
     \<not> converged \<or> flt total_pct (pm_minimum_total_load_served_pct l) \<or>
     flt priority_pct (pm_minimum_priority_load_served_pct l) \<or> 0 < voltage \<or> 0 < thermal"

definition with_digests :: "runtime \<Rightarrow> snapshot \<Rightarrow> snapshot" where
  "with_digests rt s =
     (let s1 = s\<lparr>ps_state_digest := canonical_digest rt (digest_material s)\<rparr>
      in s1\<lparr>ps_observation_digest := canonical_digest rt (observation_material s1)\<rparr>)"

definition plant_snapshot ::
  "runtime \<Rightarrow> pandapower \<Rightarrow> plant \<Rightarrow> network \<Rightarrow> int \<Rightarrow> pyfloat \<Rightarrow> instant \<Rightarrow> int \<Rightarrow> bool \<Rightarrow> snapshot res" where
  "plant_snapshot rt pw pl net state_version simulation_time_s observed_at observation_sequence converged =
     (let bus_voltage = (if converged then finite_tuple (nt_res_bus_vm_pu net) else replicate (nt_bus_count net) None);
          line_loading = (if converged then finite_tuple (nt_res_line_loading net) else replicate (nt_line_count net) None)
      in bind_res (load_totals (pl_priority_load_indices pl) converged bus_voltage (nt_loads net)
                     (Fin 0, Fin 0, Fin 0, Fin 0))
           (\<lambda>(total_demand, served, priority_demand, priority_served).
              let limits = pl_limits pl;
                  total_pct = served_pct served total_demand;
                  priority_pct = served_pct priority_served priority_demand;
                  finite_voltage = map the (filter (\<lambda>v. v \<noteq> None) bus_voltage);
                  finite_loading = map the (filter (\<lambda>v. v \<noteq> None) line_loading);
                  voltage_violations = violations (\<lambda>v. flt v (pm_minimum_voltage_pu limits) \<or>
                    flt (pm_maximum_voltage_pu limits) v) finite_voltage;
                  thermal_violations = violations (\<lambda>v. flt (pm_maximum_line_loading_pct limits) v) finite_loading
              in bind_res (make_snapshot
                   \<lparr>ps_model_id = cigre_mv_model_id, ps_simulator_version = simulator_version pw,
                    ps_model_digest = pl_model_digest pl,
                    ps_input_digest = canonical_digest rt (pw_input_tables pw net),
                    ps_topology_digest = canonical_digest rt (pw_topology_tables pw net),
                    ps_state_digest = zero_digest, ps_observation_digest = zero_digest,
                    ps_observation_sequence = observation_sequence,
                    ps_observation_source_id = pl_observation_source_id pl,
                    ps_observation_clock_domain = ''UTC'',
                    ps_state_version = state_version, ps_simulation_time_s = simulation_time_s,
                    ps_observed_at = observed_at, ps_converged = converged,
                    ps_total_load_demand_mw = total_demand, ps_served_load_mw = served,
                    ps_unserved_load_mw = fmax (Fin 0) (fsub total_demand served),
                    ps_total_load_served_pct = total_pct,
                    ps_priority_load_demand_mw = priority_demand,
                    ps_priority_load_served_mw = priority_served,
                    ps_priority_load_served_pct = priority_pct,
                    ps_minimum_voltage_pu = seq_min finite_voltage,
                    ps_maximum_voltage_pu = seq_max finite_voltage,
                    ps_maximum_line_loading_pct = seq_max finite_loading,
                    ps_voltage_violation_count = voltage_violations,
                    ps_thermal_violation_count = thermal_violations,
                    ps_unsafe_state = unsafe_measures limits converged total_pct priority_pct
                      voltage_violations thermal_violations,
                    ps_isolated_resources = isolated_of (pl_resource_bindings pl) net,
                    ps_battery_injection_mw = battery_injection_of (pl_resource_bindings pl) net,
                    ps_bus_voltage_pu = bus_voltage, ps_line_loading_pct = line_loading\<rparr>)
                 (\<lambda>s. Inr (with_digests rt s))))"

definition read_state :: "runtime \<Rightarrow> pandapower \<Rightarrow> plant \<Rightarrow> snapshot res" where
  "read_state rt pw pl =
     bind_res (assert_model_integrity rt pw pl) (\<lambda>_.
       plant_snapshot rt pw pl (pl_net pl) (pl_state_version pl) (pl_simulation_time_s pl)
         (pl_observed_at pl) (pl_observation_sequence pl) (nt_converged (pl_net pl)))"

definition capture_state :: "runtime \<Rightarrow> pandapower \<Rightarrow> instant \<Rightarrow> plant \<Rightarrow> snapshot res \<times> plant" where
  "capture_state rt pw now pl =
     (let pl' = pl\<lparr>pl_observed_at := now, pl_observation_sequence := pl_observation_sequence pl + 1\<rparr>
      in (read_state rt pw pl', pl'))"

definition validate_command :: "plant \<Rightarrow> command \<Rightarrow> resource_binding res" where
  "validate_command pl c =
     (case map_of (pl_resource_bindings pl) (pc_resource c) of
        None \<Rightarrow> Inl (PhysicalSimulationError ''resource_not_mapped'')
      | Some b \<Rightarrow>
          if pc_command_type c \<noteq> rb_command_type b \<or> pc_target c \<noteq> rb_target b \<or>
             pc_target_index c \<noteq> rb_target_index b
          then Inl (PhysicalSimulationError ''command_target_binding_mismatch'')
          else if \<not> (fle (rb_minimum_setpoint b) (pc_setpoint c) \<and> fle (pc_setpoint c) (rb_maximum_setpoint b))
          then Inl (PhysicalSimulationError ''command_setpoint_out_of_bounds'')
          else Inr b)"

definition apply_to_network :: "plant \<Rightarrow> network \<Rightarrow> command \<Rightarrow> network res" where
  "apply_to_network pl net c =
     bind_res (validate_command pl c) (\<lambda>b.
       Inr (case pc_command_type c of
              SET_LINE_SERVICE \<Rightarrow>
                net\<lparr>nt_line_in_service := (nt_line_in_service net)(rb_target_index b := \<not> feq (pc_setpoint c) (Fin 0))\<rparr>
            | SET_BATTERY_INJECTION \<Rightarrow>
                net\<lparr>nt_storage_p_mw := (nt_storage_p_mw net)(rb_target_index b := fneg (pc_setpoint c))\<rparr>))"

definition candidate_reasons :: "physical_limits \<Rightarrow> bool \<Rightarrow> snapshot \<Rightarrow> string list" where
  "candidate_reasons l converged post = reasons_of [
     (\<not> converged, ''power_flow_nonconvergent''),
     (flt (ps_total_load_served_pct post) (pm_minimum_total_load_served_pct l), ''total_load_below_limit''),
     (flt (ps_priority_load_served_pct post) (pm_minimum_priority_load_served_pct l), ''priority_load_below_limit''),
     (ps_voltage_violation_count post \<noteq> 0, ''voltage_limit_violation''),
     (ps_thermal_violation_count post \<noteq> 0, ''thermal_limit_violation'')]"

text \<open>The candidate network is a deep copy, so the plant is only read.\<close>

definition simulate_candidate ::
  "runtime \<Rightarrow> pandapower \<Rightarrow> string \<Rightarrow> plant \<Rightarrow> command \<Rightarrow> assessment res" where
  "simulate_candidate rt pw assessment_id pl c =
     bind_res (assert_model_integrity rt pw pl) (\<lambda>_.
     bind_res (read_state rt pw pl) (\<lambda>pre_state.
     bind_res (apply_to_network pl (pl_net pl) c) (\<lambda>net.
       let (candidate_net, converged) = solve pw net
       in bind_res (plant_snapshot rt pw pl candidate_net (pl_state_version pl + 1)
              (fadd (pl_simulation_time_s pl) (pl_step_seconds pl)) (pl_observed_at pl + pl_step_delta pl)
              (pl_observation_sequence pl + 1) converged) (\<lambda>post_state.
            let reasons = candidate_reasons (pl_limits pl) converged post_state
            in make_assessment rt \<lparr>ca_assessment_id = assessment_id, ca_command_digest = command_digest rt c,
                 ca_pre_state = pre_state, ca_post_state = post_state, ca_safe = (reasons = []),
                 ca_reasons = reasons\<rparr>))))"

text \<open>The expectations of the caller, and what the call reads while it runs.\<close>

record apply_expectations =
  ax_pre_state_version :: "int option"
  ax_pre_state_digest :: "string option"
  ax_pre_observation_digest :: "string option"
  ax_post_state_digest :: "string option"
  ax_post_topology_digest :: "string option"
  ax_effect_deadline :: "instant option"
  ax_effect_clock :: "instant option"
  ax_durable_commit :: "(snapshot \<Rightarrow> snapshot \<Rightarrow> exn option) option"

definition expected :: "'a option \<Rightarrow> 'a \<Rightarrow> bool" where
  "expected e v \<longleftrightarrow> e = None \<or> e = Some v"

text \<open>An error of the durable callback is never reported as a physical rejection.\<close>

definition durable_commit :: "(snapshot \<Rightarrow> snapshot \<Rightarrow> exn option) option \<Rightarrow> snapshot \<Rightarrow> snapshot \<Rightarrow> unit res" where
  "durable_commit callback current next =
     (case callback of
        None \<Rightarrow> Inr ()
      | Some f \<Rightarrow> (case f current next of
            None \<Rightarrow> Inr ()
          | Some (PhysicalSimulationError _) \<Rightarrow> Inl (RuntimeError ''durable_pre_swap_commit_failed'')
          | Some e \<Rightarrow> Inl e))"

definition prepare_command ::
  "runtime \<Rightarrow> pandapower \<Rightarrow> instant \<Rightarrow> apply_expectations \<Rightarrow> command \<Rightarrow> plant \<Rightarrow> (snapshot \<times> plant) res" where
  "prepare_command rt pw now x c pl =
     bind_res (if (ax_effect_deadline x = None) \<noteq> (ax_effect_clock x = None)
               then Inl (ValueError ''effect deadline and clock must be configured together'') else Inr ()) (\<lambda>_.
     bind_res (assert_model_integrity rt pw pl) (\<lambda>_.
     bind_res (read_state rt pw pl) (\<lambda>current.
     bind_res (check (expected (ax_pre_state_version x) (ps_state_version current)) ''precommit_state_version_changed'') (\<lambda>_.
     bind_res (check (expected (ax_pre_state_digest x) (ps_state_digest current)) ''precommit_state_digest_changed'') (\<lambda>_.
     bind_res (check (expected (ax_pre_observation_digest x) (ps_observation_digest current)) ''precommit_observation_changed'') (\<lambda>_.
     bind_res (apply_to_network pl (pl_net pl) c) (\<lambda>net.
       let (candidate_net, converged) = solve pw net;
           next_time = fadd (pl_simulation_time_s pl) (pl_step_seconds pl)
       in bind_res (check converged ''power_flow_nonconvergent'') (\<lambda>_.
          bind_res (plant_snapshot rt pw pl candidate_net (pl_state_version pl + 1) next_time now
                      (pl_observation_sequence pl + 1) True) (\<lambda>snapshot.
          bind_res (check (\<not> ps_unsafe_state snapshot) ''post_state_violates_physical_limits'') (\<lambda>_.
          bind_res (check (expected (ax_post_state_digest x) (ps_state_digest snapshot)) ''candidate_outcome_diverged'') (\<lambda>_.
          bind_res (check (expected (ax_post_topology_digest x) (ps_topology_digest snapshot)) ''candidate_topology_diverged'') (\<lambda>_.
          bind_res (check (case (ax_effect_deadline x, ax_effect_clock x) of
                       (Some deadline, Some clock) \<Rightarrow> \<not> deadline \<le> clock | _ \<Rightarrow> True)
                     ''authorization_expired_before_effect'') (\<lambda>_.
          bind_res (durable_commit (ax_durable_commit x) current snapshot) (\<lambda>_.
            Inr (snapshot, pl\<lparr>pl_net := candidate_net, pl_simulation_time_s := next_time,
                   pl_state_version := pl_state_version pl + 1, pl_observed_at := now,
                   pl_observation_sequence := pl_observation_sequence pl + 1\<rparr>)))))))))))))))"

text \<open>Nothing is assigned before the last check, so a failure leaves the plant as it was.\<close>

definition apply_authorized_command ::
  "runtime \<Rightarrow> pandapower \<Rightarrow> instant \<Rightarrow> apply_expectations \<Rightarrow> command \<Rightarrow> plant \<Rightarrow> snapshot res \<times> plant" where
  "apply_authorized_command rt pw now x c pl =
     (case prepare_command rt pw now x c pl of
        Inl e \<Rightarrow> (Inl e, pl)
      | Inr (snapshot, pl') \<Rightarrow> (Inr snapshot, pl'))"

section \<open>Restoring a checkpoint\<close>

definition bindings_of :: "physical_command_type \<Rightarrow> bindings \<Rightarrow> bindings" where
  "bindings_of t bs = filter (\<lambda>(_, b). rb_command_type b = t) bs"

definition restore_lines :: "bindings \<Rightarrow> string set \<Rightarrow> network \<Rightarrow> network" where
  "restore_lines bs isolated net = foldl (\<lambda>n (r, b).
     n\<lparr>nt_line_in_service := (nt_line_in_service n)(rb_target_index b := r \<notin> isolated)\<rparr>) net bs"

definition restore_storage :: "bindings \<Rightarrow> (string \<times> pyfloat) list \<Rightarrow> network \<Rightarrow> network" where
  "restore_storage bs injection net = foldl (\<lambda>n (r, b).
     n\<lparr>nt_storage_p_mw := (nt_storage_p_mw n)(rb_target_index b := fneg (the (map_of injection r)))\<rparr>) net bs"

definition restored_network :: "pandapower \<Rightarrow> plant \<Rightarrow> snapshot \<Rightarrow> network" where
  "restored_network pw pl s =
     restore_storage (bindings_of SET_BATTERY_INJECTION (pl_resource_bindings pl)) (ps_battery_injection_mw s)
       (restore_lines (bindings_of SET_LINE_SERVICE (pl_resource_bindings pl)) (set (ps_isolated_resources s))
          (pw_create_cigre_network_mv pw))"

text \<open>The set of keys was compared before, so every battery binding has an injection.\<close>

definition storage_state_ok :: "bindings \<Rightarrow> (string \<times> pyfloat) list \<Rightarrow> bool" where
  "storage_state_ok bs injection \<longleftrightarrow>
     set (map fst injection) = set (map fst bs) \<and>
     list_all (\<lambda>(r, v). case map_of bs r of None \<Rightarrow> False
       | Some b \<Rightarrow> fle (rb_minimum_setpoint b) v \<and> fle v (rb_maximum_setpoint b)) injection"

definition prepare_restore ::
  "runtime \<Rightarrow> pandapower \<Rightarrow> instant \<Rightarrow> snapshot \<Rightarrow> plant \<Rightarrow> (snapshot \<times> plant) res" where
  "prepare_restore rt pw now s pl =
     (let line_bindings = bindings_of SET_LINE_SERVICE (pl_resource_bindings pl);
          battery_bindings = bindings_of SET_BATTERY_INJECTION (pl_resource_bindings pl);
          isolated = ps_isolated_resources s;
          fresh = pw_create_cigre_network_mv pw
      in bind_res (assert_model_integrity rt pw pl) (\<lambda>_.
         bind_res (check (\<not> (pl_state_version pl \<noteq> 0 \<or> \<not> feq (pl_simulation_time_s pl) (Fin 0))) ''restore_target_not_fresh'') (\<lambda>_.
         bind_res (check (verify_digest rt s) ''restore_checkpoint_digest_invalid'') (\<lambda>_.
         bind_res (check (\<not> (ps_model_id s \<noteq> cigre_mv_model_id \<or> ps_simulator_version s \<noteq> simulator_version pw \<or>
                     ps_model_digest s \<noteq> pl_model_digest pl)) ''restore_model_mismatch'') (\<lambda>_.
         bind_res (check (\<not> (\<not> ps_converged s \<or> ps_unsafe_state s)) ''restore_checkpoint_not_safe'') (\<lambda>_.
         bind_res (check (isolated = sorted_list_of_set (set isolated) \<and> set isolated \<subseteq> set (map fst line_bindings))
                     ''restore_line_state_invalid'') (\<lambda>_.
         bind_res (check (storage_state_ok battery_bindings (ps_battery_injection_mw s)) ''restore_storage_state_invalid'') (\<lambda>_.
         bind_res (check (canonical_digest rt (model_material pw pl fresh) = pl_model_digest pl) ''restore_model_mismatch'') (\<lambda>_.
           let (candidate_net, converged) = solve pw (restored_network pw pl s)
           in bind_res (check converged ''restore_power_flow_nonconvergent'') (\<lambda>_.
              bind_res (plant_snapshot rt pw pl candidate_net (ps_state_version s) (ps_simulation_time_s s) now 0 True) (\<lambda>restored.
              bind_res (check (ps_input_digest restored = ps_input_digest s) ''restore_input_digest_mismatch'') (\<lambda>_.
              bind_res (check (ps_topology_digest restored = ps_topology_digest s) ''restore_topology_digest_mismatch'') (\<lambda>_.
              bind_res (check (ps_state_digest restored = ps_state_digest s) ''restore_state_digest_mismatch'') (\<lambda>_.
                Inr (restored, pl\<lparr>pl_net := candidate_net, pl_state_version := ps_state_version s,
                       pl_simulation_time_s := ps_simulation_time_s s, pl_observed_at := now,
                       pl_observation_sequence := 0\<rparr>)))))))))))))))"

definition restore_state :: "runtime \<Rightarrow> pandapower \<Rightarrow> instant \<Rightarrow> snapshot \<Rightarrow> plant \<Rightarrow> snapshot res \<times> plant" where
  "restore_state rt pw now s pl =
     (case prepare_restore rt pw now s pl of
        Inl e \<Rightarrow> (Inl e, pl)
      | Inr (restored, pl') \<Rightarrow> (Inr restored, pl'))"

section \<open>Construction\<close>

fun first_error :: "exn option list \<Rightarrow> exn option" where
  "first_error [] = None"
| "first_error (Some e # es) = Some e"
| "first_error (None # es) = first_error es"

definition binding_error :: "network \<Rightarrow> string \<times> resource_binding \<Rightarrow> exn option" where
  "binding_error net rb =
     (let (resource, b) = rb;
          line = (rb_command_type b = SET_LINE_SERVICE);
          name = (if line then nt_line_name net else nt_storage_name net) (rb_target_index b)
      in if resource \<noteq> rb_resource b then Some (ValueError (''resource binding key mismatch: '' @ resource))
         else case name of
           None \<Rightarrow> Some (ValueError ((if line then ''line'' else ''storage'') @ '' target is absent for '' @ resource))
         | Some actual \<Rightarrow>
             if actual \<noteq> rb_target b
             then Some (ValueError (''target name mismatch for '' @ resource @ '': expected '' @ rb_target b @ '', got '' @ actual))
             else None)"

definition validate_configuration :: "plant \<Rightarrow> exn option" where
  "validate_configuration pl =
     (if pl_priority_load_indices pl = {} then Some (ValueError ''at least one mission-priority load must be configured'')
      else if \<not> pl_priority_load_indices pl \<subseteq> set (map lr_index (nt_loads (pl_net pl)))
      then Some (ValueError ''priority load indices are absent'')
      else first_error (map (binding_error (pl_net pl)) (pl_resource_bindings pl)))"

definition build_plant ::
  "runtime \<Rightarrow> pandapower \<Rightarrow> physical_limits \<Rightarrow> bindings \<Rightarrow> int set \<Rightarrow> pyfloat \<Rightarrow> duration \<Rightarrow> instant \<Rightarrow> string \<Rightarrow> plant res" where
  "build_plant rt pw limits bs priority step_seconds step_delta now source_id =
     (if \<not> (flt (Fin 0) step_seconds \<and> is_finite step_seconds)
      then Inl (ValueError ''step_seconds must be finite and positive'')
      else
        let net = pw_create_cigre_network_mv pw;
            pl0 = \<lparr>pl_limits = limits, pl_resource_bindings = bs, pl_priority_load_indices = priority,
                   pl_step_seconds = step_seconds, pl_step_delta = step_delta, pl_net = net,
                   pl_state_version = 0, pl_simulation_time_s = Fin 0, pl_observed_at = now,
                   pl_observation_sequence = 0, pl_observation_source_id = source_id, pl_model_digest = ''''\<rparr>
        in case validate_configuration pl0 of
             Some e \<Rightarrow> Inl e
           | None \<Rightarrow>
               let (solved, converged) = solve pw net
               in if \<not> converged then Inl (PhysicalSimulationError ''baseline_power_flow_nonconvergent'')
                  else Inr (pl0\<lparr>pl_model_digest := canonical_digest rt (model_material pw pl0 net), pl_net := solved\<rparr>))"

section \<open>Snapshots of the plant\<close>

lemma with_digests_simps [simp]:
  "ps_state_version (with_digests rt s) = ps_state_version s"
  "ps_simulation_time_s (with_digests rt s) = ps_simulation_time_s s"
  "ps_observed_at (with_digests rt s) = ps_observed_at s"
  "ps_model_digest (with_digests rt s) = ps_model_digest s"
  "ps_unsafe_state (with_digests rt s) = ps_unsafe_state s"
  "ps_converged (with_digests rt s) = ps_converged s"
  "ps_isolated_resources (with_digests rt s) = ps_isolated_resources s"
  "ps_battery_injection_mw (with_digests rt s) = ps_battery_injection_mw s"
  "ps_topology_digest (with_digests rt s) = ps_topology_digest s"
  "ps_input_digest (with_digests rt s) = ps_input_digest s"
  "ps_total_load_served_pct (with_digests rt s) = ps_total_load_served_pct s"
  "ps_priority_load_served_pct (with_digests rt s) = ps_priority_load_served_pct s"
  "ps_voltage_violation_count (with_digests rt s) = ps_voltage_violation_count s"
  "ps_thermal_violation_count (with_digests rt s) = ps_thermal_violation_count s"
  "ps_state_digest (with_digests rt s) = canonical_digest rt (digest_material s)"
  by (simp_all add: with_digests_def Let_def)

lemma observation_material_digest [simp]:
  "observation_material (s\<lparr>ps_observation_digest := d\<rparr>) = observation_material s"
  by (simp add: observation_material_def)

lemma with_digests_verify [simp]: "verify_digest rt (with_digests rt s)"
  by (simp add: verify_digest_def with_digests_def Let_def)

lemma with_digests_valid: "digests_ok rt \<Longrightarrow> snapshot_valid s \<Longrightarrow> snapshot_valid (with_digests rt s)"
  by (simp add: snapshot_valid_def with_digests_def Let_def)

text \<open>The fields of a snapshot that the callers rely on.\<close>

lemma plant_snapshot_fields:
  assumes "plant_snapshot rt pw pl net v t o' n c = Inr s"
  shows "verify_digest rt s" "ps_state_version s = v" "ps_simulation_time_s s = t" "ps_observed_at s = o'"
    "ps_model_digest s = pl_model_digest pl" "ps_converged s = c"
    "ps_isolated_resources s = isolated_of (pl_resource_bindings pl) net"
    "ps_battery_injection_mw s = battery_injection_of (pl_resource_bindings pl) net"
    "ps_unsafe_state s \<longleftrightarrow> unsafe_measures (pl_limits pl) c (ps_total_load_served_pct s)
       (ps_priority_load_served_pct s) (ps_voltage_violation_count s) (ps_thermal_violation_count s)"
    "0 \<le> ps_voltage_violation_count s" "0 \<le> ps_thermal_violation_count s"
  using assms by (auto simp: plant_snapshot_def Let_def res_simps violations_def)

lemma plant_snapshot_valid:
  "digests_ok rt \<Longrightarrow> plant_snapshot rt pw pl net v t o' n c = Inr s \<Longrightarrow> snapshot_valid s"
  by (auto simp: plant_snapshot_def Let_def res_simps intro: with_digests_valid)

text \<open>Capture time and sequence number are outside the state digest.\<close>

lemma snapshot_valid_envelope [simp]:
  "snapshot_valid (s\<lparr>ps_observed_at := t\<rparr>) = snapshot_valid s"
  by (simp add: snapshot_valid_def)

lemma plant_snapshot_envelope:
  assumes "plant_snapshot rt pw pl net v t o1 n1 c = Inr s" "0 \<le> n2"
  shows "\<exists>s'. plant_snapshot rt pw pl net v t o2 n2 c = Inr s' \<and> ps_state_digest s' = ps_state_digest s \<and>
    ps_topology_digest s' = ps_topology_digest s \<and> ps_unsafe_state s' = ps_unsafe_state s"
proof -
  from assms(1) obtain s0 where s0: "snapshot_valid s0" "s = with_digests rt s0"
    "plant_snapshot rt pw pl net v t o2 n2 c =
       bind_res (make_snapshot (s0\<lparr>ps_observed_at := o2, ps_observation_sequence := n2\<rparr>)) (\<lambda>s. Inr (with_digests rt s))"
    by (auto simp: plant_snapshot_def Let_def res_simps)
  have "snapshot_valid (s0\<lparr>ps_observed_at := o2, ps_observation_sequence := n2\<rparr>)"
    using s0(1) assms(2) by (simp add: snapshot_valid_def)
  then show ?thesis by (simp add: s0 make_snapshot_def)
qed

lemma candidate_reasons_unsafe:
  assumes "plant_snapshot rt pw pl net v t o' n c = Inr s"
  shows "candidate_reasons (pl_limits pl) c s = [] \<longleftrightarrow> \<not> ps_unsafe_state s"
  using plant_snapshot_fields(9-11) [OF assms] by (auto simp: candidate_reasons_def unsafe_measures_def)

section \<open>Applying a command\<close>

text \<open>
  Documented behaviour of pandapower: \<^verbatim>\<open>runpp\<close> writes result tables only, and the columns that a
  command writes are excluded from the static material.
\<close>

definition pandapower_ok :: "pandapower \<Rightarrow> bool" where
  "pandapower_ok pw \<longleftrightarrow>
     (\<forall>net net'. pw_runpp pw net = Some net' \<longrightarrow>
        nt_line_in_service net' = nt_line_in_service net \<and> nt_storage_p_mw net' = nt_storage_p_mw net \<and>
        pw_static_network_material pw net' = pw_static_network_material pw net) \<and>
     (\<forall>net f. pw_static_network_material pw (net\<lparr>nt_line_in_service := f\<rparr>) = pw_static_network_material pw net) \<and>
     (\<forall>net f. pw_static_network_material pw (net\<lparr>nt_storage_p_mw := f\<rparr>) = pw_static_network_material pw net)"

lemma runpp_keeps:
  assumes "pandapower_ok pw" "pw_runpp pw net = Some net'"
  shows "nt_line_in_service net' = nt_line_in_service net" "nt_storage_p_mw net' = nt_storage_p_mw net"
    "pw_static_network_material pw net' = pw_static_network_material pw net"
  using assms unfolding pandapower_ok_def by blast+

definition bindings_ok :: "bindings \<Rightarrow> bool" where
  "bindings_ok bs \<longleftrightarrow> distinct (map fst bs)"

lemma apply_to_network_cases:
  assumes "apply_to_network pl net c = Inr net'"
  obtains b where "map_of (pl_resource_bindings pl) (pc_resource c) = Some b"
    "pc_command_type c = rb_command_type b" "pc_target_index c = rb_target_index b"
    "fle (rb_minimum_setpoint b) (pc_setpoint c)" "fle (pc_setpoint c) (rb_maximum_setpoint b)"
    "net' = (case pc_command_type c of
              SET_LINE_SERVICE \<Rightarrow>
                net\<lparr>nt_line_in_service := (nt_line_in_service net)(rb_target_index b := \<not> feq (pc_setpoint c) (Fin 0))\<rparr>
            | SET_BATTERY_INJECTION \<Rightarrow>
                net\<lparr>nt_storage_p_mw := (nt_storage_p_mw net)(rb_target_index b := fneg (pc_setpoint c))\<rparr>)"
  using assms by (auto simp: apply_to_network_def validate_command_def res_simps split: option.splits if_splits)

lemma apply_to_network_static:
  assumes "pandapower_ok pw" "apply_to_network pl net c = Inr net'"
  shows "pw_static_network_material pw net' = pw_static_network_material pw net"
  using assms(2)
  by (cases rule: apply_to_network_cases)
    (use assms(1) in \<open>auto simp: pandapower_ok_def split: physical_command_type.splits\<close>)

lemma prepare_commandD:
  assumes "prepare_command rt pw now x c pl = Inr (s, pl')"
  obtains current net candidate where "assert_model_integrity rt pw pl = Inr ()"
    "read_state rt pw pl = Inr current" "apply_to_network pl (pl_net pl) c = Inr net"
    "solve pw net = (candidate, True)"
    "plant_snapshot rt pw pl candidate (pl_state_version pl + 1) (fadd (pl_simulation_time_s pl) (pl_step_seconds pl))
       now (pl_observation_sequence pl + 1) True = Inr s"
    "expected (ax_pre_state_version x) (ps_state_version current)"
    "expected (ax_pre_state_digest x) (ps_state_digest current)"
    "expected (ax_pre_observation_digest x) (ps_observation_digest current)"
    "\<not> ps_unsafe_state s" "expected (ax_post_state_digest x) (ps_state_digest s)"
    "expected (ax_post_topology_digest x) (ps_topology_digest s)"
    "pl' = pl\<lparr>pl_net := candidate, pl_simulation_time_s := fadd (pl_simulation_time_s pl) (pl_step_seconds pl),
               pl_state_version := pl_state_version pl + 1, pl_observed_at := now,
               pl_observation_sequence := pl_observation_sequence pl + 1\<rparr>"
  using assms by (auto simp: prepare_command_def res_simps Let_def case_prod_beta prod_eq_iff split: if_splits)

lemma solve_converged: "solve pw net = (candidate, True) \<Longrightarrow> pw_runpp pw net = Some candidate \<and> nt_converged candidate"
  by (auto simp: solve_def split: option.splits)

lemma plant_snapshot_plant:
  "plant_snapshot rt pw (pl\<lparr>pl_net := n, pl_simulation_time_s := t', pl_state_version := v', pl_observed_at := ob,
     pl_observation_sequence := sq\<rparr>) = plant_snapshot rt pw pl"
  by (intro ext) (simp add: plant_snapshot_def)

lemma model_material_plant:
  "model_material pw (pl\<lparr>pl_net := n, pl_simulation_time_s := t', pl_state_version := v', pl_observed_at := ob,
     pl_observation_sequence := sq\<rparr>) = model_material pw pl"
  by (intro ext) (simp add: model_material_def)

text \<open>What a plant reports after a successful apply is the snapshot the call returned.\<close>

lemma apply_read_back:
  assumes ok: "pandapower_ok pw" and prep: "prepare_command rt pw now x c pl = Inr (s, pl')"
  shows "read_state rt pw pl' = Inr s"
proof -
  from prep obtain net candidate where integ: "assert_model_integrity rt pw pl = Inr ()"
    and net: "apply_to_network pl (pl_net pl) c = Inr net" and sol: "solve pw net = (candidate, True)"
    and snap: "plant_snapshot rt pw pl candidate (pl_state_version pl + 1)
      (fadd (pl_simulation_time_s pl) (pl_step_seconds pl)) now (pl_observation_sequence pl + 1) True = Inr s"
    and pl': "pl' = pl\<lparr>pl_net := candidate, pl_simulation_time_s := fadd (pl_simulation_time_s pl) (pl_step_seconds pl),
               pl_state_version := pl_state_version pl + 1, pl_observed_at := now,
               pl_observation_sequence := pl_observation_sequence pl + 1\<rparr>"
    by (rule prepare_commandD)
  have "pw_static_network_material pw candidate = pw_static_network_material pw (pl_net pl)"
    using runpp_keeps(3) [OF ok] solve_converged [OF sol] apply_to_network_static [OF ok net] by metis
  then have "model_material pw pl candidate = model_material pw pl (pl_net pl)" by (simp add: model_material_def)
  then have "assert_model_integrity rt pw pl' = Inr ()"
    using integ unfolding assert_model_integrity_def pl' model_material_plant by simp
  then show ?thesis
    using snap solve_converged [OF sol] unfolding read_state_def pl' plant_snapshot_plant by simp
qed

text \<open>The actuator reads back the commanded setpoint.\<close>

lemma fneg_fneg [simp]: "fneg (fneg x) = x"
  by (cases x) simp_all

lemma isolated_of_mem:
  assumes "bindings_ok bs" "map_of bs r = Some b"
  shows "r \<in> set (isolated_of bs net) \<longleftrightarrow>
    rb_command_type b = SET_LINE_SERVICE \<and> \<not> nt_line_in_service net (rb_target_index b)"
proof -
  have "(r, b') \<in> set bs \<longleftrightarrow> b' = b" for b'
    using assms map_of_eq_Some_iff [of bs r b'] by (auto simp: bindings_ok_def)
  then show ?thesis by (force simp: isolated_of_def)
qed

lemma map_of_map_snd: "map_of (map (\<lambda>(r, b). (r, f b)) xs) r = map_option f (map_of xs r)"
  by (induction xs) auto

lemma map_of_filter_snd:
  "distinct (map fst xs) \<Longrightarrow> map_of xs r = Some b \<Longrightarrow> P b \<Longrightarrow> map_of (filter (\<lambda>(_, b). P b) xs) r = Some b"
  by (induction xs) (auto split: if_splits dest: map_of_SomeD)

lemma battery_injection_lookup:
  assumes "bindings_ok bs" "map_of bs r = Some b" "rb_command_type b = SET_BATTERY_INJECTION"
  shows "map_of (battery_injection_of bs net) r = Some (fneg (nt_storage_p_mw net (rb_target_index b)))"
proof -
  have d: "distinct (map fst (sorted_bindings bs))"
    using assms(1) unfolding bindings_ok_def sorted_bindings_def
    by (metis mset_map mset_sort mset_eq_imp_distinct_iff)
  have "map_of (sorted_bindings bs) r = Some b"
    using assms(1,2) by (simp add: sorted_bindings_def bindings_ok_def map_of_sort_key)
  from map_of_filter_snd [OF d this, of "\<lambda>b. rb_command_type b = SET_BATTERY_INJECTION"] assms(3)
  show ?thesis
    by (simp add: battery_injection_of_def map_of_map_snd [where f = "\<lambda>b. fneg (nt_storage_p_mw net (rb_target_index b))"])
qed

lemma actuator_readback:
  assumes ok: "pandapower_ok pw" "bindings_ok (pl_resource_bindings pl)" and c: "command_valid c"
    and net: "apply_to_network pl net0 c = Inr net" and sol: "solve pw net = (candidate, True)"
    and snap: "plant_snapshot rt pw pl candidate v t ob n True = Inr s"
  shows "actuator_setpoint s c = pc_setpoint c"
proof -
  note keep = runpp_keeps [OF ok(1), of net candidate]
  have run: "pw_runpp pw net = Some candidate" using solve_converged [OF sol] by simp
  from net obtain b where b: "map_of (pl_resource_bindings pl) (pc_resource c) = Some b"
    "pc_command_type c = rb_command_type b" and net_eq:
    "net = (case pc_command_type c of
        SET_LINE_SERVICE \<Rightarrow>
          net0\<lparr>nt_line_in_service := (nt_line_in_service net0)(rb_target_index b := \<not> feq (pc_setpoint c) (Fin 0))\<rparr>
      | SET_BATTERY_INJECTION \<Rightarrow>
          net0\<lparr>nt_storage_p_mw := (nt_storage_p_mw net0)(rb_target_index b := fneg (pc_setpoint c))\<rparr>)"
    by (rule apply_to_network_cases)
  note fields = plant_snapshot_fields(7,8) [OF snap]
  show ?thesis
  proof (cases "pc_command_type c")
    case SET_LINE_SERVICE
    then have "pc_setpoint c = Fin 0 \<or> pc_setpoint c = Fin 1"
      using c by (cases "pc_setpoint c") (auto simp: command_valid_def)
    then show ?thesis
      using SET_LINE_SERVICE b isolated_of_mem [OF ok(2) b(1), of candidate] keep(1) [OF run] net_eq
      by (auto simp: actuator_setpoint_def fields)
  next
    case SET_BATTERY_INJECTION
    then show ?thesis
      using b battery_injection_lookup [OF ok(2) b(1), of candidate] keep(2) [OF run] net_eq
      by (simp add: actuator_setpoint_def fields)
  qed
qed

section \<open>Simulating and then applying\<close>

lemma simulate_candidateD:
  assumes "simulate_candidate rt pw i pl c = Inr a"
  obtains pre net candidate converged post where "assert_model_integrity rt pw pl = Inr ()"
    "read_state rt pw pl = Inr pre" "apply_to_network pl (pl_net pl) c = Inr net" "solve pw net = (candidate, converged)"
    "plant_snapshot rt pw pl candidate (pl_state_version pl + 1)
       (fadd (pl_simulation_time_s pl) (pl_step_seconds pl)) (pl_observed_at pl + pl_step_delta pl)
       (pl_observation_sequence pl + 1) converged = Inr post"
    "ca_pre_state a = pre" "ca_post_state a = post" "ca_command_digest a = command_digest rt c"
    "ca_safe a \<longleftrightarrow> candidate_reasons (pl_limits pl) converged post = []" "assessment_valid rt a"
  using assms by (auto simp: simulate_candidate_def res_simps Let_def case_prod_beta prod_eq_iff)

lemma safe_candidate_converged:
  assumes "plant_snapshot rt pw pl net v t o' n c = Inr s" "candidate_reasons (pl_limits pl) c s = []"
  shows "c"
  using assms(2) by (auto simp: candidate_reasons_def split: if_splits)

text \<open>What a caller expects of an apply after a candidate assessment.\<close>

definition expectations_of :: "assessment \<Rightarrow> apply_expectations" where
  "expectations_of a =
     \<lparr>ax_pre_state_version = Some (ps_state_version (ca_pre_state a)),
      ax_pre_state_digest = Some (ps_state_digest (ca_pre_state a)),
      ax_pre_observation_digest = Some (ps_observation_digest (ca_pre_state a)),
      ax_post_state_digest = Some (ps_state_digest (ca_post_state a)),
      ax_post_topology_digest = Some (ps_topology_digest (ca_post_state a)),
      ax_effect_deadline = None, ax_effect_clock = None, ax_durable_commit = None\<rparr>"

lemma safe_candidate_applies:
  assumes sim: "simulate_candidate rt pw i pl c = Inr a" and safe: "ca_safe a"
  shows "\<exists>s pl'. prepare_command rt pw now (expectations_of a) c pl = Inr (s, pl') \<and>
    ps_state_digest s = ps_state_digest (ca_post_state a)"
proof -
  from sim obtain pre net candidate converged post where parts: "assert_model_integrity rt pw pl = Inr ()"
    "read_state rt pw pl = Inr pre" "apply_to_network pl (pl_net pl) c = Inr net" "solve pw net = (candidate, converged)"
    and post: "plant_snapshot rt pw pl candidate (pl_state_version pl + 1)
       (fadd (pl_simulation_time_s pl) (pl_step_seconds pl)) (pl_observed_at pl + pl_step_delta pl)
       (pl_observation_sequence pl + 1) converged = Inr post"
    and a: "ca_pre_state a = pre" "ca_post_state a = post"
      "ca_safe a \<longleftrightarrow> candidate_reasons (pl_limits pl) converged post = []" "assessment_valid rt a"
    by (rule simulate_candidateD)
  have conv: converged using safe_candidate_converged [OF post] a(3) safe by simp
  have "snapshot_valid post" using a by (simp add: assessment_valid_def)
  then have seq: "0 \<le> pl_observation_sequence pl + 1"
    using post by (auto simp: plant_snapshot_def Let_def res_simps snapshot_valid_def)
  from plant_snapshot_envelope [OF post seq, of now] obtain s where
    s: "plant_snapshot rt pw pl candidate (pl_state_version pl + 1)
       (fadd (pl_simulation_time_s pl) (pl_step_seconds pl)) now (pl_observation_sequence pl + 1) True = Inr s"
    "ps_state_digest s = ps_state_digest post" "ps_topology_digest s = ps_topology_digest post"
    "ps_unsafe_state s = ps_unsafe_state post"
    using conv by auto
  have "\<not> ps_unsafe_state s" using candidate_reasons_unsafe [OF post] a(3) safe s(4) by simp
  then show ?thesis
    using parts conv s
    by (simp add: prepare_command_def expectations_of_def expected_def check_def durable_commit_def a)
qed

text \<open>A candidate run that produces both snapshots always yields a well-formed assessment.\<close>

lemma simulate_candidate_total:
  assumes d: "digests_ok rt" "i \<noteq> []" and step: "flt (pl_simulation_time_s pl) (fadd (pl_simulation_time_s pl) (pl_step_seconds pl))"
      "0 < pl_step_delta pl"
    and integ: "assert_model_integrity rt pw pl = Inr ()" and pre: "read_state rt pw pl = Inr pre"
    and net: "apply_to_network pl (pl_net pl) c = Inr net" and sol: "solve pw net = (candidate, converged)"
    and post: "plant_snapshot rt pw pl candidate (pl_state_version pl + 1)
       (fadd (pl_simulation_time_s pl) (pl_step_seconds pl)) (pl_observed_at pl + pl_step_delta pl)
       (pl_observation_sequence pl + 1) converged = Inr post"
  shows "\<exists>a. simulate_candidate rt pw i pl c = Inr a \<and> ca_pre_state a = pre \<and> ca_post_state a = post \<and>
    ca_safe a = (\<not> ps_unsafe_state post)"
proof -
  have preS: "plant_snapshot rt pw pl (pl_net pl) (pl_state_version pl) (pl_simulation_time_s pl)
      (pl_observed_at pl) (pl_observation_sequence pl) (nt_converged (pl_net pl)) = Inr pre"
    using pre integ by (simp add: read_state_def)
  note F = plant_snapshot_fields [OF preS] and G = plant_snapshot_fields [OF post]
  have "\<not> fle (ps_simulation_time_s post) (ps_simulation_time_s pre)"
    using step(1) unfolding F(3) G(3)
    by (cases "fadd (pl_simulation_time_s pl) (pl_step_seconds pl)"; cases "pl_simulation_time_s pl") auto
  then have "assessment_valid rt \<lparr>ca_assessment_id = i, ca_command_digest = command_digest rt c,
      ca_pre_state = pre, ca_post_state = post, ca_safe = (candidate_reasons (pl_limits pl) converged post = []),
      ca_reasons = candidate_reasons (pl_limits pl) converged post\<rparr>"
    using d step(2) plant_snapshot_valid [OF d(1) preS] plant_snapshot_valid [OF d(1) post]
      candidate_reasons_unsafe [OF post]
    by (simp add: assessment_valid_def F G)
  then show ?thesis
    using integ pre net sol post candidate_reasons_unsafe [OF post]
    by (simp add: simulate_candidate_def make_assessment_def)
qed

section \<open>Observation and restoration\<close>

lemma capture_state_digest:
  assumes "read_state rt pw pl = Inr s" "0 \<le> pl_observation_sequence pl"
  shows "\<exists>s'. fst (capture_state rt pw now pl) = Inr s' \<and> ps_state_digest s' = ps_state_digest s \<and>
    ps_observed_at s' = now \<and> ps_state_version s' = ps_state_version s"
proof -
  let ?q = "pl\<lparr>pl_observed_at := now, pl_observation_sequence := pl_observation_sequence pl + 1\<rparr>"
  have same: "plant_snapshot rt pw ?q = plant_snapshot rt pw pl" by (intro ext) (simp add: plant_snapshot_def)
  have mat: "model_material pw ?q = model_material pw pl" by (intro ext) (simp add: model_material_def)
  have integ: "assert_model_integrity rt pw pl = Inr ()"
    and snap: "plant_snapshot rt pw pl (pl_net pl) (pl_state_version pl) (pl_simulation_time_s pl)
      (pl_observed_at pl) (pl_observation_sequence pl) (nt_converged (pl_net pl)) = Inr s"
    using assms(1) by (auto simp: read_state_def res_simps)
  from plant_snapshot_envelope [OF snap, of "pl_observation_sequence pl + 1" now] assms(2)
  obtain s' where s': "plant_snapshot rt pw pl (pl_net pl) (pl_state_version pl) (pl_simulation_time_s pl)
      now (pl_observation_sequence pl + 1) (nt_converged (pl_net pl)) = Inr s'" "ps_state_digest s' = ps_state_digest s"
    by auto
  then show ?thesis
    using integ plant_snapshot_fields(2,4) [OF s'(1)] plant_snapshot_fields(2) [OF snap]
    by (simp add: capture_state_def read_state_def same assert_model_integrity_def mat)
qed

lemma restored_network_static:
  assumes "pandapower_ok pw"
  shows "pw_static_network_material pw (restored_network pw pl s) = pw_static_network_material pw (pw_create_cigre_network_mv pw)"
proof -
  have "pw_static_network_material pw (restore_lines bs iso n) = pw_static_network_material pw n" for bs iso n
    unfolding restore_lines_def using assms by (induction bs arbitrary: n) (auto simp: pandapower_ok_def)
  moreover have "pw_static_network_material pw (restore_storage bs inj n) = pw_static_network_material pw n" for bs inj n
    unfolding restore_storage_def using assms by (induction bs arbitrary: n) (auto simp: pandapower_ok_def)
  ultimately show ?thesis by (simp add: restored_network_def)
qed

lemma prepare_restoreD:
  assumes "prepare_restore rt pw now s pl = Inr (r, pl')"
  obtains candidate where "pl_state_version pl = 0" "verify_digest rt s" "\<not> ps_unsafe_state s" "ps_converged s"
    "ps_model_digest s = pl_model_digest pl" "solve pw (restored_network pw pl s) = (candidate, True)"
    "canonical_digest rt (model_material pw pl (pw_create_cigre_network_mv pw)) = pl_model_digest pl"
    "plant_snapshot rt pw pl candidate (ps_state_version s) (ps_simulation_time_s s) now 0 True = Inr r"
    "ps_state_digest r = ps_state_digest s"
    "pl' = pl\<lparr>pl_net := candidate, pl_simulation_time_s := ps_simulation_time_s s,
       pl_state_version := ps_state_version s, pl_observed_at := now, pl_observation_sequence := 0\<rparr>"
  using assms by (auto simp: prepare_restore_def res_simps Let_def case_prod_beta prod_eq_iff)

lemma restore_read_back:
  assumes ok: "pandapower_ok pw" and prep: "prepare_restore rt pw now s pl = Inr (r, pl')"
  shows "read_state rt pw pl' = Inr r"
proof -
  from prep obtain candidate where sol: "solve pw (restored_network pw pl s) = (candidate, True)"
    and model: "canonical_digest rt (model_material pw pl (pw_create_cigre_network_mv pw)) = pl_model_digest pl"
    and snap: "plant_snapshot rt pw pl candidate (ps_state_version s) (ps_simulation_time_s s) now 0 True = Inr r"
    and pl': "pl' = pl\<lparr>pl_net := candidate, pl_simulation_time_s := ps_simulation_time_s s,
       pl_state_version := ps_state_version s, pl_observed_at := now, pl_observation_sequence := 0\<rparr>"
    by (rule prepare_restoreD)
  have "pw_static_network_material pw candidate = pw_static_network_material pw (pw_create_cigre_network_mv pw)"
    using restored_network_static [OF ok] runpp_keeps(3) [OF ok] solve_converged [OF sol] by metis
  then have "model_material pw pl candidate = model_material pw pl (pw_create_cigre_network_mv pw)"
    by (simp add: model_material_def)
  then have "assert_model_integrity rt pw pl' = Inr ()"
    using model unfolding assert_model_integrity_def pl' model_material_plant by (simp add: check_def)
  then show ?thesis
    using snap solve_converged [OF sol] unfolding read_state_def pl' plant_snapshot_plant by simp
qed

section \<open>A concrete plant\<close>

definition demo_network :: network where
  "demo_network =
     \<lparr>nt_line_name = [4 \<mapsto> ''Line 5-6'', 6 \<mapsto> ''Line 8-9''], nt_storage_name = [0 \<mapsto> ''Battery 1''],
      nt_line_in_service = (\<lambda>_. True), nt_storage_p_mw = (\<lambda>_. Fin 0),
      nt_loads = map (\<lambda>i. \<lparr>lr_index = i, lr_in_service = True, lr_p_mw = Fin 1, lr_bus = 0\<rparr>) [12, 13, 16, 17],
      nt_bus_count = 1, nt_line_count = 1, nt_res_bus_vm_pu = [], nt_res_line_loading = [],
      nt_converged = False\<rparr>"

definition demo_pandapower :: pandapower where
  "demo_pandapower =
     \<lparr>pw_version = ''3.5.4'', pw_create_cigre_network_mv = demo_network,
      pw_runpp = (\<lambda>net. Some (net\<lparr>nt_res_bus_vm_pu := [Fin 1], nt_res_line_loading := [Fin 50], nt_converged := True\<rparr>)),
      pw_static_network_material = (\<lambda>_. JNull), pw_input_tables = (\<lambda>_. JNull), pw_topology_tables = (\<lambda>_. JNull)\<rparr>"

definition demo_plant :: plant where
  "demo_plant = projr (build_plant demo_runtime demo_pandapower default_physical_limits default_resource_bindings
     default_priority_load_indices (Fin 1) (seconds 1) 0 ''pandapower-cigre-mv-process'')"

definition demo_command :: command where
  "demo_command =
     \<lparr>pc_command_id = ''command-1'', pc_proposal_id = ''proposal-1'', pc_operation = ISOLATE_ASSET,
      pc_resource = ''feeder-1'', pc_command_type = SET_LINE_SERVICE, pc_target = ''Line 5-6'',
      pc_target_index = 4, pc_setpoint = Fin 0, pc_unit = Boolean_Unit\<rparr>"

lemma demo_pandapower_ok: "pandapower_ok demo_pandapower"
  by (simp add: pandapower_ok_def demo_pandapower_def)

lemma demo_plant_eq:
  "demo_plant = \<lparr>pl_limits = default_physical_limits, pl_resource_bindings = default_resource_bindings,
     pl_priority_load_indices = default_priority_load_indices, pl_step_seconds = Fin 1, pl_step_delta = seconds 1,
     pl_net = demo_network\<lparr>nt_res_bus_vm_pu := [Fin 1], nt_res_line_loading := [Fin 50], nt_converged := True\<rparr>,
     pl_state_version = 0, pl_simulation_time_s = Fin 0, pl_observed_at = 0, pl_observation_sequence = 0,
     pl_observation_source_id = ''pandapower-cigre-mv-process'', pl_model_digest = zero_digest\<rparr>"
  by (simp add: demo_plant_def build_plant_def validate_configuration_def default_resource_bindings_def
      binding_error_def default_priority_load_indices_def demo_pandapower_def demo_network_def solve_def)

lemma demo_bindings_ok: "bindings_ok (pl_resource_bindings demo_plant)"
  by (simp add: demo_plant_eq bindings_ok_def default_resource_bindings_def)

lemma demo_command_valid: "command_valid demo_command"
  by (simp add: demo_command_def command_valid_def)

text \<open>Every snapshot of the concrete network is safe.\<close>

lemma demo_snapshot_ok:
  assumes net: "nt_loads net = nt_loads demo_network" "nt_res_bus_vm_pu net = [Fin 1]" "nt_res_line_loading net = [Fin 50]"
      "\<forall>i. is_finite (nt_storage_p_mw net i)"
    and "0 \<le> v" "0 \<le> n" "nonneg t"
  shows "\<exists>s. plant_snapshot demo_runtime demo_pandapower demo_plant net v t ob n True = Inr s \<and> \<not> ps_unsafe_state s"
proof -
  have loads: "load_totals default_priority_load_indices True [Some (Fin 1)] (nt_loads demo_network)
      (Fin 0, Fin 0, Fin 0, Fin 0) = Inr (Fin 4, Fin 4, Fin 4, Fin 4)"
    by (simp add: demo_network_def default_priority_load_indices_def)
  have pct: "served_pct (Fin 4) (Fin 4) = Fin 100" by (simp add: served_pct_def)
  have bat: "list_all (is_finite \<circ> snd) (battery_injection_of default_resource_bindings net)"
    using net(4) by (auto simp: battery_injection_of_def list_all_iff) (metis fneg.simps(1) is_finite_iff)
  show ?thesis
    using assms bat
    by (simp add: plant_snapshot_def Let_def demo_plant_eq finite_tuple_def net loads pct make_snapshot_def
        snapshot_valid_def cigre_mv_model_id_def simulator_version_def demo_pandapower_def percentage_def
        nonneg_def violations_def default_physical_limits_def unsafe_measures_def fsub_def fmax_def)
qed

lemma demo_read: "\<exists>s. read_state demo_runtime demo_pandapower demo_plant = Inr s"
proof -
  have "assert_model_integrity demo_runtime demo_pandapower demo_plant = Inr ()"
    by (simp add: assert_model_integrity_def demo_plant_eq check_def)
  moreover have "pl_state_version demo_plant = 0" "pl_simulation_time_s demo_plant = Fin 0"
    "pl_observation_sequence demo_plant = 0" "nt_converged (pl_net demo_plant)"
    by (simp_all add: demo_plant_eq)
  moreover have "\<exists>s. plant_snapshot demo_runtime demo_pandapower demo_plant (pl_net demo_plant) 0 (Fin 0)
      (pl_observed_at demo_plant) 0 True = Inr s"
    using demo_snapshot_ok [of "pl_net demo_plant" 0 0 "Fin 0" "pl_observed_at demo_plant"]
    by (auto simp: demo_plant_eq demo_network_def nonneg_def)
  ultimately show ?thesis by (simp add: read_state_def)
qed

definition demo_opened :: network where
  "demo_opened = (pl_net demo_plant)\<lparr>nt_line_in_service := (\<lambda>_. True)(4 := False)\<rparr>"

lemma demo_applied_network: "apply_to_network demo_plant (pl_net demo_plant) demo_command = Inr demo_opened"
  by (simp add: apply_to_network_def validate_command_def demo_command_def demo_plant_eq
      default_resource_bindings_def demo_opened_def demo_network_def)

lemma demo_solved: "solve demo_pandapower demo_opened = (demo_opened, True)"
  by (simp add: solve_def demo_pandapower_def demo_opened_def demo_plant_eq)

lemma demo_simulates: "\<exists>a. simulate_candidate demo_runtime demo_pandapower ''assessment-1'' demo_plant demo_command = Inr a \<and> ca_safe a"
proof -
  obtain pre where pre: "read_state demo_runtime demo_pandapower demo_plant = Inr pre" using demo_read by blast
  then have integ: "assert_model_integrity demo_runtime demo_pandapower demo_plant = Inr ()"
    by (auto simp: read_state_def res_simps)
  obtain post where post: "plant_snapshot demo_runtime demo_pandapower demo_plant demo_opened
      (pl_state_version demo_plant + 1) (fadd (pl_simulation_time_s demo_plant) (pl_step_seconds demo_plant))
      (pl_observed_at demo_plant + pl_step_delta demo_plant) (pl_observation_sequence demo_plant + 1) True = Inr post"
    "\<not> ps_unsafe_state post"
    using demo_snapshot_ok [of demo_opened "pl_state_version demo_plant + 1" "pl_observation_sequence demo_plant + 1"
        "fadd (pl_simulation_time_s demo_plant) (pl_step_seconds demo_plant)"
        "pl_observed_at demo_plant + pl_step_delta demo_plant"]
    by (auto simp: demo_opened_def demo_plant_eq demo_network_def nonneg_def)
  have step: "flt (pl_simulation_time_s demo_plant) (fadd (pl_simulation_time_s demo_plant) (pl_step_seconds demo_plant))"
    "0 < pl_step_delta demo_plant" by (simp_all add: demo_plant_eq)
  show ?thesis
    using simulate_candidate_total [OF demo_runtime_ok(1) _ step integ pre demo_applied_network demo_solved post(1),
        of "''assessment-1''"] post(2) by auto
qed

section \<open>Properties\<close>

text \<open>
  (C29) Applying a command is atomic: if the call fails, the plant is exactly what it was; if it returns
  a snapshot, the plant has advanced by one version, reports that very snapshot, the snapshot verifies,
  is safe and meets the caller's expectations, and the actuator reads back the commanded setpoint.
\<close>
theorem apply_command_atomic:
  assumes "pandapower_ok pw" "bindings_ok (pl_resource_bindings pl)" "command_valid c"
    and call: "apply_authorized_command rt pw now x c pl = (result, pl')"
  shows "case result of
      Inl e \<Rightarrow> pl' = pl
    | Inr s \<Rightarrow> read_state rt pw pl' = Inr s \<and> verify_digest rt s \<and> ps_state_version s = pl_state_version pl + 1 \<and>
        \<not> ps_unsafe_state s \<and> expected (ax_post_state_digest x) (ps_state_digest s) \<and>
        actuator_setpoint s c = pc_setpoint c \<and>
        (\<exists>current. read_state rt pw pl = Inr current \<and> expected (ax_pre_state_digest x) (ps_state_digest current) \<and>
           expected (ax_pre_state_version x) (ps_state_version current))"
proof (cases "prepare_command rt pw now x c pl")
  case (Inl e)
  then show ?thesis using call by (auto simp: apply_authorized_command_def)
next
  case (Inr q)
  then have prep: "prepare_command rt pw now x c pl = Inr (fst q, snd q)" by simp
  then have res: "result = Inr (fst q)" "pl' = snd q" using call by (auto simp: apply_authorized_command_def case_prod_beta)
  from prep obtain current net candidate where read: "read_state rt pw pl = Inr current"
    and net: "apply_to_network pl (pl_net pl) c = Inr net" and sol: "solve pw net = (candidate, True)"
    and snap: "plant_snapshot rt pw pl candidate (pl_state_version pl + 1)
      (fadd (pl_simulation_time_s pl) (pl_step_seconds pl)) now (pl_observation_sequence pl + 1) True = Inr (fst q)"
    and ex: "expected (ax_pre_state_version x) (ps_state_version current)"
      "expected (ax_pre_state_digest x) (ps_state_digest current)" "\<not> ps_unsafe_state (fst q)"
      "expected (ax_post_state_digest x) (ps_state_digest (fst q))"
    by (rule prepare_commandD)
  show ?thesis
    using apply_read_back [OF assms(1) prep] actuator_readback [OF assms(1-3) net sol snap]
      plant_snapshot_fields(1,2) [OF snap] read ex by (simp add: res)
qed

definition no_expectations :: apply_expectations where
  "no_expectations =
     \<lparr>ax_pre_state_version = None, ax_pre_state_digest = None, ax_pre_observation_digest = None,
      ax_post_state_digest = None, ax_post_topology_digest = None, ax_effect_deadline = None,
      ax_effect_clock = None, ax_durable_commit = None\<rparr>"

definition demo_apply_result :: "snapshot res \<times> plant" where
  "demo_apply_result = apply_authorized_command demo_runtime demo_pandapower 5 no_expectations demo_command demo_plant"

lemma demo_apply: "\<exists>s pl'. demo_apply_result = (Inr s, pl')"
proof -
  obtain cur where read: "read_state demo_runtime demo_pandapower demo_plant = Inr cur" using demo_read by blast
  then have integ: "assert_model_integrity demo_runtime demo_pandapower demo_plant = Inr ()"
    by (auto simp: read_state_def res_simps)
  obtain s where "plant_snapshot demo_runtime demo_pandapower demo_plant demo_opened
      (pl_state_version demo_plant + 1) (fadd (pl_simulation_time_s demo_plant) (pl_step_seconds demo_plant)) 5
      (pl_observation_sequence demo_plant + 1) True = Inr s" "\<not> ps_unsafe_state s"
    using demo_snapshot_ok [of demo_opened "pl_state_version demo_plant + 1" "pl_observation_sequence demo_plant + 1"
        "fadd (pl_simulation_time_s demo_plant) (pl_step_seconds demo_plant)" 5]
    by (auto simp: demo_opened_def demo_plant_eq demo_network_def nonneg_def)
  then show ?thesis
    using read integ demo_applied_network demo_solved
    by (simp add: demo_apply_result_def apply_authorized_command_def prepare_command_def no_expectations_def
        expected_def check_def durable_commit_def)
qed

theorem apply_command_atomic_witness:
  "\<exists>s pl'. demo_apply_result = (Inr s, pl') \<and> read_state demo_runtime demo_pandapower pl' = Inr s \<and>
     actuator_setpoint s demo_command = Fin 0"
proof -
  obtain s pl' where "apply_authorized_command demo_runtime demo_pandapower 5 no_expectations demo_command demo_plant = (Inr s, pl')"
    using demo_apply by (auto simp: demo_apply_result_def)
  from apply_command_atomic [OF demo_pandapower_ok demo_bindings_ok demo_command_valid this] this show ?thesis
    by (simp add: demo_apply_result_def demo_command_def)
qed

text \<open>
  (C16) Candidate simulation predicts the effect: when a candidate assessment is safe, applying the same
  command with the assessment's expectations on the same plant succeeds, whatever the observation clock
  reads, and yields the state digest that the assessment predicted.
\<close>
theorem safe_candidate_is_applicable:
  assumes "simulate_candidate rt pw i pl c = Inr a" "ca_safe a"
  shows "\<exists>s pl'. apply_authorized_command rt pw now (expectations_of a) c pl = (Inr s, pl') \<and>
    ps_state_digest s = ps_state_digest (ca_post_state a)"
  using safe_candidate_applies [OF assms, of now] by (auto simp: apply_authorized_command_def)

theorem safe_candidate_is_applicable_witness:
  "\<exists>a s pl'. simulate_candidate demo_runtime demo_pandapower ''assessment-1'' demo_plant demo_command = Inr a \<and>
     apply_authorized_command demo_runtime demo_pandapower 7 (expectations_of a) demo_command demo_plant = (Inr s, pl')"
  using demo_simulates safe_candidate_is_applicable by blast

text \<open>
  (C30) Restoring a checkpoint is all or nothing: a restored plant is fresh, reports the snapshot that
  the call returned, and that snapshot has the state digest, version and model of the checkpoint, which
  was intact and safe; a failed restore changes nothing.
\<close>
theorem restore_state_faithful:
  assumes "pandapower_ok pw" and call: "restore_state rt pw now s pl = (result, pl')"
  shows "case result of
      Inl e \<Rightarrow> pl' = pl
    | Inr r \<Rightarrow> read_state rt pw pl' = Inr r \<and> ps_state_digest r = ps_state_digest s \<and>
        ps_state_version r = ps_state_version s \<and> ps_model_digest r = ps_model_digest s \<and>
        verify_digest rt s \<and> \<not> ps_unsafe_state s \<and> pl_state_version pl = 0"
proof (cases "prepare_restore rt pw now s pl")
  case (Inl e)
  then show ?thesis using call by (auto simp: restore_state_def)
next
  case (Inr q)
  then have prep: "prepare_restore rt pw now s pl = Inr (fst q, snd q)" by simp
  then have res: "result = Inr (fst q)" "pl' = snd q" using call by (auto simp: restore_state_def case_prod_beta)
  from prep obtain candidate where f: "pl_state_version pl = 0" "verify_digest rt s" "\<not> ps_unsafe_state s"
    "ps_model_digest s = pl_model_digest pl"
    "plant_snapshot rt pw pl candidate (ps_state_version s) (ps_simulation_time_s s) now 0 True = Inr (fst q)"
    "ps_state_digest (fst q) = ps_state_digest s"
    by (rule prepare_restoreD)
  show ?thesis
    using f plant_snapshot_fields(2,5) [OF f(5)] restore_read_back [OF assms(1) prep] by (simp add: res)
qed

lemma with_digests_ids [simp]:
  "ps_model_id (with_digests rt s) = ps_model_id s"
  "ps_simulator_version (with_digests rt s) = ps_simulator_version s"
  by (simp_all add: with_digests_def Let_def)

lemma demo_restores:
  assumes read: "read_state demo_runtime demo_pandapower demo_plant = Inr s"
  shows "\<exists>r pl'. restore_state demo_runtime demo_pandapower 9 s demo_plant = (Inr r, pl')"
proof -
  have integ: "assert_model_integrity demo_runtime demo_pandapower demo_plant = Inr ()"
    and snap: "plant_snapshot demo_runtime demo_pandapower demo_plant (pl_net demo_plant) 0 (Fin 0) 0 0 True = Inr s"
    using read by (auto simp: read_state_def res_simps demo_plant_eq)
  note F = plant_snapshot_fields [OF snap]
  have ids: "ps_model_id s = cigre_mv_model_id" "ps_simulator_version s = simulator_version demo_pandapower"
    "ps_input_digest s = zero_digest" "ps_topology_digest s = zero_digest" "ps_state_digest s = zero_digest"
    using snap by (auto simp: plant_snapshot_def Let_def res_simps)
  have safe: "\<not> ps_unsafe_state s"
    using demo_snapshot_ok [of "pl_net demo_plant" 0 0 "Fin 0" 0] snap
    by (auto simp: demo_plant_eq demo_network_def nonneg_def)
  have iso: "ps_isolated_resources s = []" and inj: "ps_battery_injection_mw s = [(''battery-1'', Fin 0)]"
    unfolding F by (simp_all add: demo_plant_eq default_resource_bindings_def isolated_of_def
        battery_injection_of_def sorted_bindings_def demo_network_def)
  have net: "solve demo_pandapower (restored_network demo_pandapower demo_plant s) = (pl_net demo_plant, True)"
    by (simp add: restored_network_def iso inj demo_plant_eq default_resource_bindings_def bindings_of_def
        restore_lines_def restore_storage_def demo_pandapower_def solve_def demo_network_def fun_eq_iff)
  obtain r where r: "plant_snapshot demo_runtime demo_pandapower demo_plant (pl_net demo_plant) 0 (Fin 0) 9 0 True = Inr r"
    using plant_snapshot_envelope [OF snap, of 0 9] by auto
  then have rd: "ps_input_digest r = zero_digest" "ps_topology_digest r = zero_digest" "ps_state_digest r = zero_digest"
    by (auto simp: plant_snapshot_def Let_def res_simps)
  have st: "storage_state_ok (bindings_of SET_BATTERY_INJECTION (pl_resource_bindings demo_plant)) [(''battery-1'', Fin 0)]"
    by (simp add: storage_state_ok_def bindings_of_def demo_plant_eq default_resource_bindings_def)
  have pl: "pl_state_version demo_plant = 0" "pl_simulation_time_s demo_plant = Fin 0" "pl_model_digest demo_plant = zero_digest"
    by (simp_all add: demo_plant_eq)
  show ?thesis
    using integ F(1-6) ids safe st
    by (simp add: restore_state_def prepare_restore_def check_def pl iso inj net r rd)
qed

theorem restore_state_faithful_witness:
  "\<exists>s r pl'. read_state demo_runtime demo_pandapower demo_plant = Inr s \<and>
     restore_state demo_runtime demo_pandapower 9 s demo_plant = (Inr r, pl') \<and> ps_state_digest r = ps_state_digest s"
proof -
  obtain s where s: "read_state demo_runtime demo_pandapower demo_plant = Inr s" using demo_read by blast
  with demo_restores obtain r pl' where call: "restore_state demo_runtime demo_pandapower 9 s demo_plant = (Inr r, pl')"
    by blast
  from restore_state_faithful [OF demo_pandapower_ok call] s call show ?thesis by auto
qed

end
