(* ===== verification/Physical_Control.thy ===== *)
theory Physical_Control
  imports Gateway Plant
begin

text \<open>
  \<^verbatim>\<open>physical_control.py\<close>: the trusted translator, the permit issuer, the permit-enforcing virtual device
  and the closed-loop controller. The protocols \<^verbatim>\<open>TransactionalPhysicalPlant\<close>, \<^verbatim>\<open>StateCandidateSource\<close> and
  \<^verbatim>\<open>ControlDevice\<close> are records of operations over a state that the implementation chooses; the contract
  \<open>transactional_plant\<close> is what the device relies on, and it is interpreted on the plant of \<^verbatim>\<open>Plant\<close>.
\<close>

section \<open>Translation\<close>

definition translate :: "bindings \<Rightarrow> string \<Rightarrow> action_proposal \<Rightarrow> command res" where
  "translate bs command_id p =
     (case map_of bs (ap_resource p) of
        None \<Rightarrow> Inl (CommandTranslationError ''resource_not_mapped'')
      | Some b \<Rightarrow>
          bind_res
            (if ap_operation p \<in> {ISOLATE_ASSET, RESTORE_ASSET} then
               (if rb_command_type b \<noteq> SET_LINE_SERVICE
                then Inl (CommandTranslationError ''operation_resource_type_mismatch'')
                else Inr (if ap_operation p = ISOLATE_ASSET then Fin 0 else Fin 1, Boolean_Unit))
             else if ap_operation p = DISPATCH_BATTERY then
               (if rb_command_type b \<noteq> SET_BATTERY_INJECTION
                then Inl (CommandTranslationError ''operation_resource_type_mismatch'')
                else case map_of (ap_parameters p) ''mw'' of
                  None \<Rightarrow> Inl (CommandTranslationError ''battery_setpoint_missing'')
                | Some v \<Rightarrow> Inr (float_of v, MW_Unit))
             else Inl (CommandTranslationError ''operation_not_supported_by_physical_adapter''))
            (\<lambda>(setpoint, unit).
               if \<not> (fle (rb_minimum_setpoint b) setpoint \<and> fle setpoint (rb_maximum_setpoint b))
               then Inl (CommandTranslationError ''setpoint_out_of_bounds'')
               else make_command
                 \<lparr>pc_command_id = command_id, pc_proposal_id = ap_proposal_id p, pc_operation = ap_operation p,
                  pc_resource = ap_resource p, pc_command_type = rb_command_type b, pc_target = rb_target b,
                  pc_target_index = rb_target_index b, pc_setpoint = setpoint, pc_unit = unit\<rparr>))"

section \<open>Projection to the gateway's state\<close>

definition physical_state_to_gateway_state :: "snapshot \<Rightarrow> system_state res" where
  "physical_state_to_gateway_state s =
     (case (ps_minimum_voltage_pu s, ps_maximum_voltage_pu s, ps_maximum_line_loading_pct s) of
        (Some min_v, Some max_v, Some loading) \<Rightarrow>
          if \<not> ps_converged s then Inl (PhysicalSimulationError ''physical_state_not_usable_for_authorization'')
          else make_system_state
            \<lparr>ss_version = ps_state_version s, ss_observed_at = ps_observed_at s,
             ss_critical_load_served_pct = ps_priority_load_served_pct s,
             ss_minimum_voltage_pu = min_v, ss_maximum_voltage_pu = max_v,
             ss_maximum_line_loading_pct = loading,
             ss_isolated_assets = set (ps_isolated_resources s),
             ss_battery_dispatch_mw = (case map_of (ps_battery_injection_mw s) ''battery-1'' of
                None \<Rightarrow> Fin 0 | Some v \<Rightarrow> v)\<rparr>
      | _ \<Rightarrow> Inl (PhysicalSimulationError ''physical_state_not_usable_for_authorization''))"

section \<open>The permit issuer\<close>

record permit_issuer =
  pi_private_key :: private_key
  pi_signing_key_id :: string
  pi_audience :: string
  pi_time_to_live :: duration

definition make_issuer :: "private_key \<Rightarrow> string \<Rightarrow> string \<Rightarrow> duration \<Rightarrow> permit_issuer res" where
  "make_issuer private_key signing_key_id audience time_to_live =
     (if time_to_live \<le> 0 then Inl (ValueError ''permit time_to_live must be positive'')
      else Inr \<lparr>pi_private_key = private_key, pi_signing_key_id = signing_key_id,
                pi_audience = audience, pi_time_to_live = time_to_live\<rparr>)"

definition refuse :: "string \<Rightarrow> 'a res" where
  "refuse reason = Inl (PermitIssuanceError reason)"

definition evidence_binds :: "runtime \<Rightarrow> evidence_record \<Rightarrow> action_proposal \<Rightarrow> decision \<Rightarrow> system_state \<Rightarrow> bool" where
  "evidence_binds rt r p d gs \<longleftrightarrow>
     ev_proposal_id r = ap_proposal_id p \<and> ev_decision_id r = dec_decision_id d \<and>
     jget ''proposal'' (ev_payload r) = Some (action_proposal_dump p) \<and>
     jget ''state'' (ev_payload r) = Some (system_state_dump rt gs) \<and>
     jget ''decision'' (ev_payload r) = Some (decision_dump (d\<lparr>dec_evidence_record_hash := None\<rparr>))"

text \<open>The checks before a permit is built, in order; the result is the evidence record hash.\<close>

definition issue_checks ::
  "runtime \<Rightarrow> evidence_chain \<Rightarrow> action_proposal \<Rightarrow> decision \<Rightarrow> command \<Rightarrow> assessment \<Rightarrow> string res" where
  "issue_checks rt chain p d c a =
     (if \<not> (action_proposal_valid p \<and> command_valid c \<and> assessment_valid rt a)
      then refuse ''authorization_artifact_not_structurally_valid''
      else if dec_outcome d \<noteq> PERMIT then refuse ''decision_not_permit''
      else if dec_proposal_id d \<noteq> ap_proposal_id p then refuse ''proposal_decision_mismatch''
      else if pc_proposal_id c \<noteq> ap_proposal_id p then refuse ''proposal_command_mismatch''
      else if \<not> ca_safe a then refuse ''candidate_not_safe''
      else if ca_command_digest a \<noteq> command_digest rt c then refuse ''candidate_command_mismatch''
      else if dec_state_version d \<noteq> ps_state_version (ca_pre_state a) then refuse ''decision_state_version_mismatch''
      else if \<not> verify_digest rt (ca_pre_state a) then refuse ''candidate_pre_state_digest_invalid''
      else case dec_evidence_record_hash d of
        None \<Rightarrow> refuse ''decision_evidence_missing''
      | Some h \<Rightarrow>
          if \<not> evidence_verify rt chain then refuse ''decision_evidence_chain_invalid''
          else case find (\<lambda>r. ev_record_hash r = h) chain of
            None \<Rightarrow> refuse ''decision_evidence_not_found''
          | Some r \<Rightarrow>
              if ev_proposal_id r \<noteq> ap_proposal_id p \<or> ev_decision_id r \<noteq> dec_decision_id d \<or>
                 jget ''proposal'' (ev_payload r) \<noteq> Some (action_proposal_dump p)
              then refuse ''decision_evidence_binding_mismatch''
              else bind_res (physical_state_to_gateway_state (ca_pre_state a)) (\<lambda>gs.
                if \<not> evidence_binds rt r p d gs then refuse ''decision_evidence_binding_mismatch'' else Inr h))"

definition unsigned_permit ::
  "runtime \<Rightarrow> permit_issuer \<Rightarrow> instant \<Rightarrow> string \<Rightarrow> string \<Rightarrow> action_proposal \<Rightarrow> decision \<Rightarrow> command \<Rightarrow>
   assessment \<Rightarrow> string \<Rightarrow> permit" where
  "unsigned_permit rt issuer issued_at permit_id permit_nonce p d c a h =
     \<lparr>ep_permit_id = permit_id, ep_permit_nonce = permit_nonce, ep_decision_id = dec_decision_id d,
      ep_proposal_id = ap_proposal_id p, ep_proposal_digest = proposal_digest rt p, ep_command = c,
      ep_command_digest = command_digest rt c, ep_assessment_digest = assessment_digest rt a,
      ep_state_version = ps_state_version (ca_pre_state a), ep_state_digest = ps_state_digest (ca_pre_state a),
      ep_observation_digest = ps_observation_digest (ca_pre_state a),
      ep_topology_digest = ps_topology_digest (ca_pre_state a), ep_model_digest = ps_model_digest (ca_pre_state a),
      ep_expected_post_state_version = ps_state_version (ca_post_state a),
      ep_expected_post_state_digest = ps_state_digest (ca_post_state a),
      ep_expected_post_topology_digest = ps_topology_digest (ca_post_state a),
      ep_evidence_record_hash = h, ep_policy_version = dec_policy_version d,
      ep_safety_version = dec_safety_version d, ep_audience = pi_audience issuer,
      ep_issued_at = issued_at, ep_expires_at = issued_at + pi_time_to_live issuer,
      ep_signing_key_id = pi_signing_key_id issuer, ep_signature = ''''\<rparr>"

definition issue ::
  "runtime \<Rightarrow> permit_issuer \<Rightarrow> instant \<Rightarrow> string \<Rightarrow> string \<Rightarrow> evidence_chain \<Rightarrow> action_proposal \<Rightarrow> decision \<Rightarrow>
   command \<Rightarrow> assessment \<Rightarrow> permit res" where
  "issue rt issuer issued_at permit_id permit_nonce chain p d c a =
     bind_res (issue_checks rt chain p d c a) (\<lambda>h.
     bind_res (make_permit rt (unsigned_permit rt issuer issued_at permit_id permit_nonce p d c a h)) (\<lambda>permit.
       Inr (permit_signed rt permit (pi_private_key issuer))))"

section \<open>The virtual control device\<close>

text \<open>\<^verbatim>\<open>TransactionalPhysicalPlant\<close> over a plant state \<^typ>\<open>'p\<close>; identifiers and clock readings are arguments.\<close>

record 'p plant_ops =
  po_read :: "'p \<Rightarrow> snapshot res"
  po_simulate :: "string \<Rightarrow> 'p \<Rightarrow> command \<Rightarrow> assessment res"
  po_apply :: "instant \<Rightarrow> apply_expectations \<Rightarrow> command \<Rightarrow> 'p \<Rightarrow> snapshot res \<times> 'p"

record virtual_device =
  vd_device_id :: string
  vd_permit_audience :: string
  vd_permit_public_keys :: "string \<Rightarrow> public_key option"
  vd_acknowledgment_private_key :: private_key
  vd_acknowledgment_key_id :: string
  vd_consumed_permits :: "string set"
  vd_consumed_nonces :: "string set"
  vd_consumed_commands :: "string set"
  vd_scan_counter :: int

text \<open>The readings of one call: the device clock (in order), the plant clock, fresh identifiers.\<close>

record device_env =
  dx_clock :: "nat \<Rightarrow> instant"
  dx_observation_clock :: instant
  dx_acknowledgment_id :: string
  dx_assessment_id :: string

definition acknowledge ::
  "runtime \<Rightarrow> device_env \<Rightarrow> virtual_device \<Rightarrow> permit \<Rightarrow> command_status \<Rightarrow> string \<Rightarrow> instant \<Rightarrow> snapshot \<Rightarrow>
   snapshot option \<Rightarrow> acknowledgment res" where
  "acknowledge rt env dev permit status reason acknowledged_at pre_state post_state =
     bind_res (make_acknowledgment
       \<lparr>ck_acknowledgment_id = dx_acknowledgment_id env, ck_permit_id = ep_permit_id permit,
        ck_permit_nonce = ep_permit_nonce permit, ck_command_id = pc_command_id (ep_command permit),
        ck_command_digest = ep_command_digest permit, ck_assessment_digest = ep_assessment_digest permit,
        ck_proposal_id = ep_proposal_id permit, ck_decision_id = ep_decision_id permit,
        ck_device_id = vd_device_id dev, ck_device_scan = vd_scan_counter dev, ck_status = status,
        ck_reason = reason, ck_acknowledged_at = acknowledged_at,
        ck_pre_state_digest = ps_state_digest pre_state,
        ck_post_state_digest = map_option ps_state_digest post_state,
        ck_post_state_version = map_option ps_state_version post_state,
        ck_pre_actuator_setpoint = actuator_setpoint pre_state (ep_command permit),
        ck_post_actuator_setpoint =
          (case post_state of
             Some post \<Rightarrow> Some (actuator_setpoint post (ep_command permit))
           | None \<Rightarrow> if status = REJECTED then Some (actuator_setpoint pre_state (ep_command permit)) else None),
        ck_simulation_time_s =
          (case post_state of Some post \<Rightarrow> ps_simulation_time_s post | None \<Rightarrow> ps_simulation_time_s pre_state),
        ck_signing_key_id = vd_acknowledgment_key_id dev, ck_signature = ''''\<rparr>)
     (\<lambda>k. Inr (acknowledgment_signed rt k (vd_acknowledgment_private_key dev)))"

definition device_checks ::
  "runtime \<Rightarrow> virtual_device \<Rightarrow> permit \<Rightarrow> action_proposal \<Rightarrow> decision \<Rightarrow> assessment \<Rightarrow> snapshot \<Rightarrow> instant \<Rightarrow>
   (bool \<times> string) list" where
  "device_checks rt dev permit p d a pre_state evaluated_at =
     (let public_key = vd_permit_public_keys dev (ep_signing_key_id permit) in [
       (ep_audience permit = vd_permit_audience dev, ''permit_wrong_audience''),
       (public_key \<noteq> None, ''permit_unknown_signing_key''),
       (case public_key of None \<Rightarrow> False | Some k \<Rightarrow> permit_verify rt permit k, ''permit_signature_invalid''),
       (ep_issued_at permit \<le> evaluated_at, ''permit_not_yet_valid''),
       (evaluated_at < ep_expires_at permit, ''permit_expired''),
       (ep_proposal_id permit = ap_proposal_id p, ''permit_proposal_id_mismatch''),
       (ep_proposal_digest permit = proposal_digest rt p, ''permit_proposal_digest_mismatch''),
       (ep_decision_id permit = dec_decision_id d, ''permit_decision_id_mismatch''),
       (dec_outcome d = PERMIT, ''decision_not_permit''),
       (dec_proposal_id d = ap_proposal_id p, ''decision_proposal_mismatch''),
       (dec_evidence_record_hash d = Some (ep_evidence_record_hash permit), ''decision_evidence_mismatch''),
       (ep_policy_version permit = dec_policy_version d, ''decision_policy_version_mismatch''),
       (ep_safety_version permit = dec_safety_version d, ''decision_safety_version_mismatch''),
       (ep_state_version permit = dec_state_version d, ''decision_state_version_mismatch''),
       (ep_command_digest permit = command_digest rt (ep_command permit), ''permit_command_digest_mismatch''),
       (ep_assessment_digest permit = assessment_digest rt a, ''permit_assessment_digest_mismatch''),
       (ca_safe a, ''candidate_not_safe''),
       (ca_command_digest a = ep_command_digest permit, ''candidate_command_digest_mismatch''),
       (ps_state_digest (ca_pre_state a) = ep_state_digest permit, ''candidate_state_digest_mismatch''),
       (ep_permit_id permit \<notin> vd_consumed_permits dev, ''permit_replayed''),
       (ep_permit_nonce permit \<notin> vd_consumed_nonces dev, ''permit_nonce_replayed''),
       (pc_command_id (ep_command permit) \<notin> vd_consumed_commands dev, ''command_replayed''),
       (verify_digest rt pre_state, ''current_state_digest_invalid''),
       (ep_model_digest permit = ps_model_digest pre_state, ''model_digest_changed''),
       (ep_topology_digest permit = ps_topology_digest pre_state, ''topology_digest_changed''),
       (ep_state_version permit = ps_state_version pre_state, ''state_version_changed''),
       (ep_state_digest permit = ps_state_digest pre_state, ''state_digest_changed''),
       (ep_observation_digest permit = ps_observation_digest pre_state, ''observation_envelope_changed'')])"

definition permit_expectations :: "permit \<Rightarrow> apply_expectations" where
  "permit_expectations permit =
     \<lparr>ax_pre_state_version = Some (ep_state_version permit), ax_pre_state_digest = Some (ep_state_digest permit),
      ax_pre_observation_digest = Some (ep_observation_digest permit),
      ax_post_state_digest = Some (ep_expected_post_state_digest permit),
      ax_post_topology_digest = Some (ep_expected_post_topology_digest permit),
      ax_effect_deadline = None, ax_effect_clock = None, ax_durable_commit = None\<rparr>"

definition consume_permit :: "permit \<Rightarrow> virtual_device \<Rightarrow> virtual_device" where
  "consume_permit permit dev =
     dev\<lparr>vd_consumed_permits := insert (ep_permit_id permit) (vd_consumed_permits dev),
         vd_consumed_nonces := insert (ep_permit_nonce permit) (vd_consumed_nonces dev),
         vd_consumed_commands := insert (pc_command_id (ep_command permit)) (vd_consumed_commands dev)\<rparr>"

text \<open>After the reservation: the dispatch to the plant and the classification of its outcome.\<close>

definition device_dispatch ::
  "runtime \<Rightarrow> 'p plant_ops \<Rightarrow> device_env \<Rightarrow> permit \<Rightarrow> snapshot \<Rightarrow> virtual_device \<Rightarrow> 'p \<Rightarrow>
   acknowledgment res \<times> virtual_device \<times> 'p" where
  "device_dispatch rt ops env permit pre_state dev0 pl =
     (let dev = consume_permit permit dev0;
          (result, pl') = po_apply ops (dx_observation_clock env) (permit_expectations permit) (ep_command permit) pl;
          ack = (\<lambda>status reason post. acknowledge rt env dev permit status reason (dx_clock env 2) pre_state post)
      in (case result of
            Inl (PhysicalSimulationError m) \<Rightarrow> ack REJECTED m None
          | Inl _ \<Rightarrow> ack UNKNOWN_EFFECT ''unclassified_dispatch_failure'' None
          | Inr post_state \<Rightarrow>
              if ps_state_digest post_state \<noteq> ep_expected_post_state_digest permit \<or>
                 ps_state_version post_state \<noteq> ep_expected_post_state_version permit \<or>
                 ps_topology_digest post_state \<noteq> ep_expected_post_topology_digest permit \<or>
                 ps_unsafe_state post_state
              then ack UNKNOWN_EFFECT ''post_dispatch_candidate_divergence'' None
              else ack APPLIED ''command_applied_and_read_back'' (Some post_state),
          dev, pl'))"

definition execute_locked ::
  "runtime \<Rightarrow> 'p plant_ops \<Rightarrow> device_env \<Rightarrow> permit \<Rightarrow> action_proposal \<Rightarrow> decision \<Rightarrow> assessment \<Rightarrow>
   virtual_device \<times> 'p \<Rightarrow> acknowledgment res \<times> virtual_device \<times> 'p" where
  "execute_locked rt ops env permit p d a = (\<lambda>(dev0, pl).
     let evaluated_at = dx_clock env 0;
         dev = dev0\<lparr>vd_scan_counter := vd_scan_counter dev0 + 1\<rparr>
     in case po_read ops pl of
          Inl e \<Rightarrow> (Inl e, dev, pl)
        | Inr pre_state \<Rightarrow>
            case first_failed (device_checks rt dev permit p d a pre_state evaluated_at) of
              Some reason \<Rightarrow> (acknowledge rt env dev permit REJECTED reason evaluated_at pre_state None, dev, pl)
            | None \<Rightarrow>
                case po_simulate ops (dx_assessment_id env) pl (ep_command permit) of
                  Inl e \<Rightarrow> (Inl e, dev, pl)
                | Inr fresh \<Rightarrow>
                    if \<not> ca_safe fresh \<or>
                       ps_state_digest (ca_pre_state fresh) \<noteq> ps_state_digest (ca_pre_state a) \<or>
                       ps_state_digest (ca_post_state fresh) \<noteq> ps_state_digest (ca_post_state a) \<or>
                       ca_command_digest fresh \<noteq> ca_command_digest a
                    then (acknowledge rt env dev permit REJECTED ''candidate_attestation_mismatch''
                            (dx_clock env 1) pre_state None, dev, pl)
                    else if ep_expires_at permit \<le> dx_clock env 1
                    then (acknowledge rt env dev permit REJECTED ''permit_expired_before_dispatch''
                            (dx_clock env 1) pre_state None, dev, pl)
                    else device_dispatch rt ops env permit pre_state dev pl)"

section \<open>The closed-loop controller\<close>

text \<open>\<^verbatim>\<open>StateCandidateSource\<close> and \<^verbatim>\<open>ControlDevice\<close> over a shared world \<^typ>\<open>'w\<close>.\<close>

record 'w loop_ops =
  lo_capture :: "'w \<Rightarrow> snapshot res \<times> 'w"
  lo_read :: "'w \<Rightarrow> snapshot res \<times> 'w"
  lo_simulate :: "command \<Rightarrow> 'w \<Rightarrow> assessment res \<times> 'w"
  lo_execute :: "permit \<Rightarrow> action_proposal \<Rightarrow> decision \<Rightarrow> assessment \<Rightarrow> 'w \<Rightarrow> acknowledgment res \<times> 'w"
  lo_device_id :: string
  lo_acknowledgment_key_id :: string

record controller =
  co_bindings :: bindings
  co_issuer :: permit_issuer
  co_acknowledgment_public_key :: public_key

record loop_env =
  le_clock :: instant
  le_decide :: decide_env
  le_command_id :: string
  le_issued_at :: instant
  le_permit_id :: string
  le_permit_nonce :: string
  le_recorded_at :: instant

text \<open>The optional artifacts of a disposition.\<close>

record disposition =
  di_status :: closed_loop_status
  di_reasons :: "string list"
  di_command :: "command option"
  di_assessment :: "assessment option"
  di_permit :: "permit option"
  di_acknowledgment :: "acknowledgment option"
  di_post_state :: "snapshot option"
  di_last_observed_state :: "snapshot option"

definition disposition_payload ::
  "runtime \<Rightarrow> action_proposal \<Rightarrow> snapshot \<Rightarrow> decision \<Rightarrow> disposition \<Rightarrow> snapshot \<Rightarrow> json" where
  "disposition_payload rt p pre_state d di last_observed = JObj [
     (''event_type'', JStr ''physical_closed_loop_disposition''),
     (''status'', JStr (closed_loop_status_value (di_status di))),
     (''reasons'', JArr (map JStr (di_reasons di))),
     (''proposal_digest'', JStr (proposal_digest rt p)),
     (''pre_state'', snapshot_dump pre_state),
     (''decision'', decision_dump d),
     (''command'', jopt command_dump (di_command di)),
     (''assessment'', jopt assessment_dump (di_assessment di)),
     (''permit'', jopt permit_dump (di_permit di)),
     (''acknowledgment'', jopt acknowledgment_dump (di_acknowledgment di)),
     (''post_state'', jopt snapshot_dump (di_post_state di)),
     (''last_observed_state'', snapshot_dump last_observed)]"

definition record_disposition ::
  "runtime \<Rightarrow> loop_env \<Rightarrow> action_proposal \<Rightarrow> snapshot \<Rightarrow> decision \<Rightarrow> disposition \<Rightarrow> gateway \<Rightarrow>
   closed_loop_result res \<times> gateway" where
  "record_disposition rt env p pre_state d di gw =
     (let last_observed = (case di_last_observed_state di of Some s \<Rightarrow> s
            | None \<Rightarrow> (case di_post_state di of Some s \<Rightarrow> s | None \<Rightarrow> pre_state));
          (chain, record) = evidence_append rt (le_recorded_at env) (gw_evidence gw) (ap_proposal_id p)
            (dec_decision_id d) (disposition_payload rt p pre_state d di last_observed)
      in (make_closed_loop_result
            \<lparr>cl_status = di_status di, cl_reasons = di_reasons di, cl_proposal = p, cl_pre_state = pre_state,
             cl_decision = d, cl_command = di_command di, cl_assessment = di_assessment di,
             cl_permit = di_permit di, cl_acknowledgment = di_acknowledgment di,
             cl_post_state = di_post_state di, cl_last_observed_state = last_observed,
             cl_execution_evidence_hash = ev_record_hash record\<rparr>,
          gw\<lparr>gw_evidence := chain\<rparr>))"

text \<open>The disposition after the device has answered and the plant has been read back.\<close>

definition readback_matches :: "acknowledgment \<Rightarrow> snapshot \<Rightarrow> bool" where
  "readback_matches k post \<longleftrightarrow>
     ck_post_state_digest k = Some (ps_state_digest post) \<and> ck_post_state_version k = Some (ps_state_version post)"

definition classify_acknowledgment ::
  "bool \<Rightarrow> acknowledgment \<Rightarrow> snapshot \<Rightarrow> disposition \<Rightarrow> disposition" where
  "classify_acknowledgment ack_ok k post base =
     (if ck_status k = APPLIED \<and> ack_ok \<and> readback_matches k post
      then base\<lparr>di_status := COMPLETED, di_reasons := [''command_applied_acknowledged_and_read_back''],
                di_post_state := Some post\<rparr>
      else if ck_status k = REJECTED \<and> ack_ok
      then base\<lparr>di_status := DEVICE_REJECTED, di_reasons := [ck_reason k], di_post_state := Some post\<rparr>
      else base\<lparr>di_status := EFFECT_UNKNOWN,
                di_reasons := [''execution_effect_not_established'', ck_reason k] @ reasons_of [
                  (\<not> ack_ok, ''acknowledgment_signature_invalid''),
                  (ck_status k = APPLIED \<and> \<not> readback_matches k post, ''acknowledgment_readback_mismatch'')],
                di_post_state := None, di_last_observed_state := Some post\<rparr>)"

text \<open>Dispatch of an issued permit.\<close>

definition dispatch_permit ::
  "runtime \<Rightarrow> 'w loop_ops \<Rightarrow> controller \<Rightarrow> action_proposal \<Rightarrow> snapshot \<Rightarrow> decision \<Rightarrow> command \<Rightarrow> assessment \<Rightarrow>
   permit \<Rightarrow> 'w \<Rightarrow> disposition \<times> 'w" where
  "dispatch_permit rt ops ctl p pre_state d c a permit w =
     (let base = \<lparr>di_status = EFFECT_UNKNOWN, di_reasons = [], di_command = Some c, di_assessment = Some a,
                  di_permit = Some permit, di_acknowledgment = None, di_post_state = None,
                  di_last_observed_state = None\<rparr>
      in case lo_execute ops permit p d a w of
           (Inl e, w1) \<Rightarrow>
             (base\<lparr>di_reasons := [''control_dispatch_outcome_unavailable'', exn_name e]\<rparr>, w1)
         | (Inr k, w1) \<Rightarrow>
             let acked = base\<lparr>di_acknowledgment := Some k\<rparr>
             in case lo_read ops w1 of
                  (Inl e, w2) \<Rightarrow>
                    (acked\<lparr>di_reasons := [''post_dispatch_readback_unavailable'', exn_name e]\<rparr>, w2)
                | (Inr post, w2) \<Rightarrow>
                    (classify_acknowledgment
                       (verify_for_transaction rt k (co_acknowledgment_public_key ctl) permit pre_state post
                          (lo_device_id ops) (lo_acknowledgment_key_id ops)) k post acked, w2))"

definition undispatched :: "closed_loop_status \<Rightarrow> string list \<Rightarrow> command option \<Rightarrow> assessment option \<Rightarrow> snapshot \<Rightarrow> disposition"
where
  "undispatched status reasons c a pre_state =
     \<lparr>di_status = status, di_reasons = reasons, di_command = c, di_assessment = a, di_permit = None,
      di_acknowledgment = None, di_post_state = Some pre_state, di_last_observed_state = None\<rparr>"

text \<open>The steps after a permit decision; an exception that is not handled propagates.\<close>

definition permitted_steps ::
  "runtime \<Rightarrow> 'w loop_ops \<Rightarrow> controller \<Rightarrow> loop_env \<Rightarrow> evidence_chain \<Rightarrow> action_proposal \<Rightarrow> snapshot \<Rightarrow> decision \<Rightarrow>
   'w \<Rightarrow> disposition res \<times> 'w" where
  "permitted_steps rt ops ctl env chain p pre_state d w =
     (case translate (co_bindings ctl) (le_command_id env) p of
        Inl (CommandTranslationError m) \<Rightarrow> (Inr (undispatched NOT_DISPATCHED [m] None None pre_state), w)
      | Inl e \<Rightarrow> (Inl e, w)
      | Inr c \<Rightarrow>
          case lo_simulate ops c w of
            (Inl e, w1) \<Rightarrow> (Inl e, w1)
          | (Inr a, w1) \<Rightarrow>
              if \<not> ca_safe a
              then (Inr (undispatched CANDIDATE_REJECTED (ca_reasons a) (Some c) (Some a) pre_state), w1)
              else case issue rt (co_issuer ctl) (le_issued_at env) (le_permit_id env) (le_permit_nonce env) chain p d c a of
                Inl e \<Rightarrow> (Inl e, w1)
              | Inr permit \<Rightarrow>
                  let (di, w2) = dispatch_permit rt ops ctl p pre_state d c a permit w1 in (Inr di, w2))"

definition closed_loop_execute ::
  "runtime \<Rightarrow> 'w loop_ops \<Rightarrow> controller \<Rightarrow> loop_env \<Rightarrow> action_proposal \<Rightarrow> gateway \<times> 'w \<Rightarrow>
   closed_loop_result res \<times> gateway \<times> 'w" where
  "closed_loop_execute rt ops ctl env p = (\<lambda>(gw, w).
     case lo_capture ops w of
       (Inl e, w1) \<Rightarrow> (Inl e, gw, w1)
     | (Inr pre_state, w1) \<Rightarrow>
         case physical_state_to_gateway_state pre_state of
           Inl (PhysicalSimulationError _) \<Rightarrow> (Inl (PhysicalSimulationError ''authorization_state_unavailable''), gw, w1)
         | Inl e \<Rightarrow> (Inl e, gw, w1)
         | Inr gateway_state \<Rightarrow>
             let (gw1, d) = decide rt (le_decide env) gw p gateway_state (Some (le_clock env))
             in if dec_outcome d \<noteq> PERMIT then
                  (let (r, gw2) = record_disposition rt env p pre_state d
                         (undispatched NOT_DISPATCHED (dec_reasons d) None None pre_state) gw1
                   in (r, gw2, w1))
                else
                  (case permitted_steps rt ops ctl env (gw_evidence gw1) p pre_state d w1 of
                     (Inl e, w2) \<Rightarrow> (Inl e, gw1, w2)
                   | (Inr di, w2) \<Rightarrow>
                       let (r, gw2) = record_disposition rt env p pre_state d di gw1 in (r, gw2, w2)))"

text \<open>The in-process composition: the plant of \<^verbatim>\<open>Plant\<close> behind the virtual device.\<close>

definition pandapower_ops :: "runtime \<Rightarrow> pandapower \<Rightarrow> plant plant_ops" where
  "pandapower_ops rt pw =
     \<lparr>po_read = read_state rt pw, po_simulate = simulate_candidate rt pw,
      po_apply = apply_authorized_command rt pw\<rparr>"

section \<open>The device\<close>

lemma acknowledge_fields:
  assumes "acknowledge rt env dev permit status reason t pre post = Inr k"
  shows "ck_status k = status" "ck_reason k = reason" "ck_permit_id k = ep_permit_id permit"
    "ck_permit_nonce k = ep_permit_nonce permit" "ck_command_id k = pc_command_id (ep_command permit)"
    "ck_command_digest k = ep_command_digest permit" "ck_assessment_digest k = ep_assessment_digest permit"
    "ck_proposal_id k = ep_proposal_id permit" "ck_decision_id k = ep_decision_id permit"
    "ck_device_id k = vd_device_id dev" "ck_signing_key_id k = vd_acknowledgment_key_id dev"
    "ck_acknowledged_at k = t" "ck_pre_state_digest k = ps_state_digest pre"
    "ck_post_state_digest k = map_option ps_state_digest post"
    "ck_post_state_version k = map_option ps_state_version post"
    "ck_pre_actuator_setpoint k = actuator_setpoint pre (ep_command permit)"
    "ck_post_actuator_setpoint k =
       (case post of Some q \<Rightarrow> Some (actuator_setpoint q (ep_command permit))
        | None \<Rightarrow> if status = REJECTED then Some (actuator_setpoint pre (ep_command permit)) else None)"
    "ck_simulation_time_s k = (case post of Some q \<Rightarrow> ps_simulation_time_s q | None \<Rightarrow> ps_simulation_time_s pre)"
  using assms by (auto simp: acknowledge_def res_simps acknowledgment_signed_def)

lemma acknowledge_verifies:
  "signatures_ok rt \<Longrightarrow> acknowledge rt env dev permit status reason t pre post = Inr k \<Longrightarrow>
   acknowledgment_verify rt k (rt_public rt (vd_acknowledgment_private_key dev))"
  by (auto simp: acknowledge_def res_simps)

text \<open>A call that stops before the reservation only advances the scan counter.\<close>

definition scanned :: "virtual_device \<Rightarrow> virtual_device" where
  "scanned dev = dev\<lparr>vd_scan_counter := vd_scan_counter dev + 1\<rparr>"

lemma scanned_simps [simp]:
  "vd_consumed_permits (scanned dev) = vd_consumed_permits dev"
  "vd_consumed_nonces (scanned dev) = vd_consumed_nonces dev"
  "vd_consumed_commands (scanned dev) = vd_consumed_commands dev"
  "vd_device_id (scanned dev) = vd_device_id dev"
  "vd_acknowledgment_key_id (scanned dev) = vd_acknowledgment_key_id dev"
  "vd_acknowledgment_private_key (scanned dev) = vd_acknowledgment_private_key dev"
  "vd_permit_public_keys (scanned dev) = vd_permit_public_keys dev"
  "vd_permit_audience (scanned dev) = vd_permit_audience dev"
  by (simp_all add: scanned_def)

lemma device_checks_scanned [simp]: "device_checks rt (scanned dev) = device_checks rt dev"
  by (intro ext) (simp add: device_checks_def)

lemma execute_locked_cases:
  assumes "execute_locked rt ops env permit p d a (dev, pl) = (result, dev', pl')"
  obtains
    (stopped) "dev' = scanned dev" "pl' = pl" "\<And>k. result = Inr k \<Longrightarrow>
        \<exists>pre reason t. po_read ops pl = Inr pre \<and> t \<in> {dx_clock env 0, dx_clock env 1} \<and>
           acknowledge rt env (scanned dev) permit REJECTED reason t pre None = Inr k"
  | (dispatched) pre fresh where "po_read ops pl = Inr pre"
      "first_failed (device_checks rt dev permit p d a pre (dx_clock env 0)) = None"
      "po_simulate ops (dx_assessment_id env) pl (ep_command permit) = Inr fresh" "ca_safe fresh"
      "ps_state_digest (ca_post_state fresh) = ps_state_digest (ca_post_state a)"
      "dx_clock env 1 < ep_expires_at permit"
      "device_dispatch rt ops env permit pre (scanned dev) pl = (result, dev', pl')"
  using assms
  by (auto simp: execute_locked_def scanned_def [symmetric] Let_def not_le split: sum.splits option.splits if_splits)


lemma consume_permit_simps [simp]:
  "vd_consumed_permits (consume_permit permit dev) = insert (ep_permit_id permit) (vd_consumed_permits dev)"
  "vd_consumed_nonces (consume_permit permit dev) = insert (ep_permit_nonce permit) (vd_consumed_nonces dev)"
  "vd_consumed_commands (consume_permit permit dev) = insert (pc_command_id (ep_command permit)) (vd_consumed_commands dev)"
  "vd_device_id (consume_permit permit dev) = vd_device_id dev"
  "vd_acknowledgment_key_id (consume_permit permit dev) = vd_acknowledgment_key_id dev"
  "vd_acknowledgment_private_key (consume_permit permit dev) = vd_acknowledgment_private_key dev"
  by (simp_all add: consume_permit_def)

text \<open>After the reservation the permit is consumed whatever the plant answers.\<close>

lemma device_dispatch_cases:
  assumes "device_dispatch rt ops env permit pre dev pl = (result, dev', pl')"
  obtains plant_result where "po_apply ops (dx_observation_clock env) (permit_expectations permit) (ep_command permit) pl =
      (plant_result, pl')" "dev' = consume_permit permit dev"
    "\<And>k. result = Inr k \<Longrightarrow> \<exists>status reason post.
        acknowledge rt env dev' permit status reason (dx_clock env 2) pre post = Inr k \<and>
        (case status of
           APPLIED \<Rightarrow> (\<exists>s. plant_result = Inr s \<and> post = Some s \<and> ps_state_digest s = ep_expected_post_state_digest permit \<and>
             ps_state_version s = ep_expected_post_state_version permit \<and>
             ps_topology_digest s = ep_expected_post_topology_digest permit \<and> \<not> ps_unsafe_state s)
         | REJECTED \<Rightarrow> plant_result = Inl (PhysicalSimulationError reason) \<and> post = None
         | UNKNOWN_EFFECT \<Rightarrow> post = None)"
proof -
  obtain plant_result q where applied: "po_apply ops (dx_observation_clock env) (permit_expectations permit)
      (ep_command permit) pl = (plant_result, q)" by fastforce
  show thesis
  proof (rule that)
    show "po_apply ops (dx_observation_clock env) (permit_expectations permit) (ep_command permit) pl = (plant_result, pl')"
      "dev' = consume_permit permit dev"
      using assms applied by (simp_all add: device_dispatch_def Let_def)
    fix k assume "result = Inr k"
    then show "\<exists>status reason post.
        acknowledge rt env dev' permit status reason (dx_clock env 2) pre post = Inr k \<and>
        (case status of
           APPLIED \<Rightarrow> (\<exists>s. plant_result = Inr s \<and> post = Some s \<and> ps_state_digest s = ep_expected_post_state_digest permit \<and>
             ps_state_version s = ep_expected_post_state_version permit \<and>
             ps_topology_digest s = ep_expected_post_topology_digest permit \<and> \<not> ps_unsafe_state s)
         | REJECTED \<Rightarrow> plant_result = Inl (PhysicalSimulationError reason) \<and> post = None
         | UNKNOWN_EFFECT \<Rightarrow> post = None)"
      using assms applied
      by (fastforce simp: device_dispatch_def Let_def split: sum.splits exn.splits if_splits)
  qed
qed

text \<open>
  One call of the device with its inputs; the observation of a call is its result and the plant before
  and after it. A call is effective when the plant moved or the acknowledgment does not rule it out.
\<close>

record device_call =
  dc_env :: device_env
  dc_permit :: permit
  dc_proposal :: action_proposal
  dc_decision :: decision
  dc_assessment :: assessment

definition device_step ::
  "runtime \<Rightarrow> 'p plant_ops \<Rightarrow> device_call \<Rightarrow> virtual_device \<times> 'p \<Rightarrow>
   (acknowledgment res \<times> 'p \<times> 'p) \<times> virtual_device \<times> 'p" where
  "device_step rt ops call s =
     (let (result, dev', pl') = execute_locked rt ops (dc_env call) (dc_permit call) (dc_proposal call)
            (dc_decision call) (dc_assessment call) s
      in ((result, snd s, pl'), dev', pl'))"

definition effective :: "acknowledgment res \<times> 'p \<times> 'p \<Rightarrow> bool" where
  "effective = (\<lambda>(result, pl, pl'). pl' \<noteq> pl \<or> (\<exists>k. result = Inr k \<and> ck_status k \<noteq> REJECTED))"

lemma device_checks_fresh:
  assumes "first_failed (device_checks rt dev permit p d a pre t) = None"
  shows "ep_permit_id permit \<notin> vd_consumed_permits dev" "ep_permit_nonce permit \<notin> vd_consumed_nonces dev"
    "pc_command_id (ep_command permit) \<notin> vd_consumed_commands dev"
  using assms by (simp_all add: device_checks_def Let_def split: if_splits)

lemma device_step_effect:
  assumes "device_step rt ops call (dev, pl) = (out, dev', pl')"
  shows "dev' = scanned dev \<and> \<not> effective out \<or>
    dev' = consume_permit (dc_permit call) (scanned dev) \<and>
    ep_permit_id (dc_permit call) \<notin> vd_consumed_permits dev \<and>
    ep_permit_nonce (dc_permit call) \<notin> vd_consumed_nonces dev \<and>
    pc_command_id (ep_command (dc_permit call)) \<notin> vd_consumed_commands dev"
proof -
  obtain result where call: "execute_locked rt ops (dc_env call) (dc_permit call) (dc_proposal call)
      (dc_decision call) (dc_assessment call) (dev, pl) = (result, dev', pl')" and out: "out = (result, pl, pl')"
    using assms by (auto simp: device_step_def Let_def split: prod.splits)
  from call show ?thesis
  proof (cases rule: execute_locked_cases)
    case stopped
    then show ?thesis by (fastforce simp: out effective_def dest: acknowledge_fields(1))
  next
    case (dispatched pre fresh)
    note fresh = device_checks_fresh [OF dispatched(2)]
    from dispatched(7) show ?thesis by (cases rule: device_dispatch_cases) (simp add: fresh)
  qed
qed

interpretation permit_once: once_only "device_step rt ops" effective
  "\<lambda>call. ep_permit_id (dc_permit call)" "\<lambda>s. vd_consumed_permits (fst s)"
  by unfold_locales (auto dest!: device_step_effect)

interpretation nonce_once: once_only "device_step rt ops" effective
  "\<lambda>call. ep_permit_nonce (dc_permit call)" "\<lambda>s. vd_consumed_nonces (fst s)"
  by unfold_locales (auto dest!: device_step_effect)

interpretation command_once: once_only "device_step rt ops" effective
  "\<lambda>call. pc_command_id (ep_command (dc_permit call))" "\<lambda>s. vd_consumed_commands (fst s)"
  by unfold_locales (auto dest!: device_step_effect)

text \<open>
  (C12) The device acts at most once per permit: in any sequence of calls, with any plant behind it, no
  two calls that move the plant or leave its effect open carry the same permit identifier, the same
  permit nonce or the same command identifier.
\<close>
theorem device_acts_once:
  "let calls = fst (run_steps (device_step rt ops) inputs s)
   in distinct (accepted_keys effective (\<lambda>call. ep_permit_id (dc_permit call)) calls) \<and>
      distinct (accepted_keys effective (\<lambda>call. ep_permit_nonce (dc_permit call)) calls) \<and>
      distinct (accepted_keys effective (\<lambda>call. pc_command_id (ep_command (dc_permit call))) calls)"
  unfolding Let_def
  by (intro conjI permit_once.accepted_distinct nonce_once.accepted_distinct command_once.accepted_distinct)

section \<open>The contract of a transactional plant\<close>

text \<open>
  What the device and the controller rely on: a failed apply leaves the plant alone, and a successful
  one moves it by one version to a safe state that it reports from then on and in which the commanded
  actuator has the commanded setpoint.
\<close>

locale transactional_plant =
  fixes rt :: runtime and ops :: "'p plant_ops" and inv :: "'p \<Rightarrow> bool"
  assumes failed_apply: "inv pl \<Longrightarrow> po_apply ops now x c pl = (Inl e, pl') \<Longrightarrow> pl' = pl"
    and applied_invariant: "inv pl \<Longrightarrow> po_apply ops now x c pl = (result, pl') \<Longrightarrow> inv pl'"
    and applied_reads: "inv pl \<Longrightarrow> po_apply ops now x c pl = (Inr s, pl') \<Longrightarrow> po_read ops pl' = Inr s"
    and applied_safe: "inv pl \<Longrightarrow> po_apply ops now x c pl = (Inr s, pl') \<Longrightarrow> \<not> ps_unsafe_state s"
    and applied_setpoint: "inv pl \<Longrightarrow> command_valid c \<Longrightarrow> po_apply ops now x c pl = (Inr s, pl') \<Longrightarrow>
      actuator_setpoint s c = pc_setpoint c"
    and applied_version: "inv pl \<Longrightarrow> po_apply ops now x c pl = (Inr s, pl') \<Longrightarrow> po_read ops pl = Inr current \<Longrightarrow>
      ps_state_version s = ps_state_version current + 1"
    and reads_verify: "inv pl \<Longrightarrow> po_read ops pl = Inr s \<Longrightarrow> verify_digest rt s"
begin

text \<open>An acknowledgment of the device tells the truth about the plant.\<close>

lemma device_truthful:
  assumes inv: "inv pl" and c: "command_valid (ep_command permit)"
    and call: "execute_locked rt ops env permit p d a (dev, pl) = (Inr k, dev', pl')"
  shows "case ck_status k of
      APPLIED \<Rightarrow> (\<exists>pre post. po_read ops pl = Inr pre \<and> po_read ops pl' = Inr post \<and>
        first_failed (device_checks rt dev permit p d a pre (dx_clock env 0)) = None \<and>
        dx_clock env 1 < ep_expires_at permit \<and>
        ps_state_digest post = ep_expected_post_state_digest permit \<and>
        ps_topology_digest post = ep_expected_post_topology_digest permit \<and>
        ps_state_version post = ps_state_version pre + 1 \<and> \<not> ps_unsafe_state post \<and>
        actuator_setpoint post (ep_command permit) = pc_setpoint (ep_command permit) \<and>
        ck_pre_state_digest k = ps_state_digest pre \<and> ck_post_state_digest k = Some (ps_state_digest post) \<and>
        ck_post_actuator_setpoint k = Some (pc_setpoint (ep_command permit)))
    | REJECTED \<Rightarrow> pl' = pl
    | UNKNOWN_EFFECT \<Rightarrow> ep_permit_id permit \<in> vd_consumed_permits dev'"
  using call
proof (cases rule: execute_locked_cases)
  case stopped
  then show ?thesis using acknowledge_fields(1) by fastforce
next
  case (dispatched pre fresh)
  from dispatched(7) obtain plant_result where app:
    "po_apply ops (dx_observation_clock env) (permit_expectations permit) (ep_command permit) pl = (plant_result, pl')"
    and dev': "dev' = consume_permit permit (scanned dev)"
    and ack: "\<exists>status reason post. acknowledge rt env dev' permit status reason (dx_clock env 2) pre post = Inr k \<and>
        (case status of
           APPLIED \<Rightarrow> (\<exists>s. plant_result = Inr s \<and> post = Some s \<and> ps_state_digest s = ep_expected_post_state_digest permit \<and>
             ps_state_version s = ep_expected_post_state_version permit \<and>
             ps_topology_digest s = ep_expected_post_topology_digest permit \<and> \<not> ps_unsafe_state s)
         | REJECTED \<Rightarrow> plant_result = Inl (PhysicalSimulationError reason) \<and> post = None
         | UNKNOWN_EFFECT \<Rightarrow> post = None)"
    by (cases rule: device_dispatch_cases) blast
  then obtain status reason post where k: "acknowledge rt env dev' permit status reason (dx_clock env 2) pre post = Inr k"
    and st: "case status of
           APPLIED \<Rightarrow> (\<exists>s. plant_result = Inr s \<and> post = Some s \<and> ps_state_digest s = ep_expected_post_state_digest permit \<and>
             ps_state_version s = ep_expected_post_state_version permit \<and>
             ps_topology_digest s = ep_expected_post_topology_digest permit \<and> \<not> ps_unsafe_state s)
         | REJECTED \<Rightarrow> plant_result = Inl (PhysicalSimulationError reason) \<and> post = None
         | UNKNOWN_EFFECT \<Rightarrow> post = None" by blast
  note F = acknowledge_fields [OF k]
  show ?thesis
  proof (cases status)
    case APPLIED
    with st obtain s where s: "plant_result = Inr s" "post = Some s" "ps_state_digest s = ep_expected_post_state_digest permit"
      "ps_topology_digest s = ep_expected_post_topology_digest permit" by auto
    note applied = app [unfolded s(1)]
    show ?thesis
      using APPLIED dispatched(1,2,6) s(3,4) F(13) applied_reads [OF inv applied] applied_safe [OF inv applied]
        applied_setpoint [OF inv c applied] applied_version [OF inv applied dispatched(1)]
      by (simp add: F(1) F(14) F(17) s(2))
  qed (use F(1) st app dev' failed_apply [OF inv] in auto)
qed

end

lemma read_state_verifies: "read_state rt pw pl = Inr s \<Longrightarrow> verify_digest rt s"
  by (auto simp: read_state_def res_simps dest: plant_snapshot_fields(1))

lemma read_state_version: "read_state rt pw pl = Inr s \<Longrightarrow> ps_state_version s = pl_state_version pl"
  by (auto simp: read_state_def res_simps dest: plant_snapshot_fields(2))

lemma applied_prepared:
  "apply_authorized_command rt pw now x c pl = (Inr s, pl') \<longleftrightarrow> prepare_command rt pw now x c pl = Inr (s, pl')"
  "apply_authorized_command rt pw now x c pl = (Inl e, pl') \<longleftrightarrow> prepare_command rt pw now x c pl = Inl e \<and> pl' = pl"
  by (auto simp: apply_authorized_command_def split: sum.splits)

definition plant_inv :: "pandapower \<Rightarrow> plant \<Rightarrow> bool" where
  "plant_inv pw pl \<longleftrightarrow> pandapower_ok pw \<and> bindings_ok (pl_resource_bindings pl)"

lemma prepared_plant:
  assumes inv: "plant_inv pw pl" and prep: "prepare_command rt pw now x c pl = Inr (s, pl')"
  shows "plant_inv pw pl'" "\<not> ps_unsafe_state s" "ps_state_version s = pl_state_version pl + 1"
    "command_valid c \<Longrightarrow> actuator_setpoint s c = pc_setpoint c"
proof -
  have ok: "pandapower_ok pw" "bindings_ok (pl_resource_bindings pl)" using inv by (simp_all add: plant_inv_def)
  from prep obtain net candidate where net: "apply_to_network pl (pl_net pl) c = Inr net"
    and sol: "solve pw net = (candidate, True)"
    and snap: "plant_snapshot rt pw pl candidate (pl_state_version pl + 1)
      (fadd (pl_simulation_time_s pl) (pl_step_seconds pl)) now (pl_observation_sequence pl + 1) True = Inr s"
    and safe: "\<not> ps_unsafe_state s"
    and pl': "pl' = pl\<lparr>pl_net := candidate, pl_simulation_time_s := fadd (pl_simulation_time_s pl) (pl_step_seconds pl),
               pl_state_version := pl_state_version pl + 1, pl_observed_at := now,
               pl_observation_sequence := pl_observation_sequence pl + 1\<rparr>"
    by (rule prepare_commandD)
  show "plant_inv pw pl'" using inv by (simp add: plant_inv_def pl')
  show "\<not> ps_unsafe_state s" by (fact safe)
  show "ps_state_version s = pl_state_version pl + 1" by (rule plant_snapshot_fields(2) [OF snap])
  show "actuator_setpoint s c = pc_setpoint c" if "command_valid c"
    by (rule actuator_readback [OF ok that net sol snap])
qed

interpretation cigre: transactional_plant rt "pandapower_ops rt pw" "plant_inv pw"
proof unfold_locales
  show "pl' = pl" if "po_apply (pandapower_ops rt pw) now x c pl = (Inl e, pl')" for now x c pl e pl'
    using that by (simp add: pandapower_ops_def applied_prepared)
  show "plant_inv pw pl'" if "plant_inv pw pl" "po_apply (pandapower_ops rt pw) now x c pl = (result, pl')"
    for now x c pl result pl'
    using that by (cases result) (auto simp: pandapower_ops_def applied_prepared dest: prepared_plant(1))
  show "po_read (pandapower_ops rt pw) pl' = Inr s"
    if "plant_inv pw pl" "po_apply (pandapower_ops rt pw) now x c pl = (Inr s, pl')" for now x c pl s pl'
    using that by (auto simp: pandapower_ops_def applied_prepared plant_inv_def dest: apply_read_back)
  show "ps_state_version s = ps_state_version current + 1"
    if "plant_inv pw pl" "po_apply (pandapower_ops rt pw) now x c pl = (Inr s, pl')"
      "po_read (pandapower_ops rt pw) pl = Inr current" for now x c pl s pl' current
    using that prepared_plant(3) read_state_version by (fastforce simp: pandapower_ops_def applied_prepared)
qed (auto simp: pandapower_ops_def applied_prepared dest: prepared_plant read_state_verifies)

section \<open>Issuing and dispatching\<close>

lemma find_SomeD: "find P xs = Some x \<Longrightarrow> x \<in> set xs \<and> P x"
  by (auto simp: find_Some_iff)

lemma issueD:
  assumes "issue rt issuer t pid nonce chain p d c a = Inr permit"
  obtains h r gs where "dec_evidence_record_hash d = Some h"
    "permit = permit_signed rt (unsigned_permit rt issuer t pid nonce p d c a h) (pi_private_key issuer)"
    "permit_valid rt (unsigned_permit rt issuer t pid nonce p d c a h)"
    "action_proposal_valid p" "command_valid c" "assessment_valid rt a" "dec_outcome d = PERMIT"
    "dec_proposal_id d = ap_proposal_id p" "pc_proposal_id c = ap_proposal_id p" "ca_safe a"
    "ca_command_digest a = command_digest rt c" "dec_state_version d = ps_state_version (ca_pre_state a)"
    "verify_digest rt (ca_pre_state a)" "evidence_verify rt chain"
    "r \<in> set chain" "ev_record_hash r = h" "physical_state_to_gateway_state (ca_pre_state a) = Inr gs"
    "evidence_binds rt r p d gs"
  using assms
  by (auto simp: issue_def issue_checks_def refuse_def res_simps dest!: find_SomeD split: if_splits option.splits)

lemma unsigned_permit_simps [simp]:
  "ep_permit_id (unsigned_permit rt issuer t pid nonce p d c a h) = pid"
  "ep_permit_nonce (unsigned_permit rt issuer t pid nonce p d c a h) = nonce"
  "ep_decision_id (unsigned_permit rt issuer t pid nonce p d c a h) = dec_decision_id d"
  "ep_proposal_id (unsigned_permit rt issuer t pid nonce p d c a h) = ap_proposal_id p"
  "ep_proposal_digest (unsigned_permit rt issuer t pid nonce p d c a h) = proposal_digest rt p"
  "ep_command (unsigned_permit rt issuer t pid nonce p d c a h) = c"
  "ep_command_digest (unsigned_permit rt issuer t pid nonce p d c a h) = command_digest rt c"
  "ep_assessment_digest (unsigned_permit rt issuer t pid nonce p d c a h) = assessment_digest rt a"
  "ep_state_version (unsigned_permit rt issuer t pid nonce p d c a h) = ps_state_version (ca_pre_state a)"
  "ep_state_digest (unsigned_permit rt issuer t pid nonce p d c a h) = ps_state_digest (ca_pre_state a)"
  "ep_observation_digest (unsigned_permit rt issuer t pid nonce p d c a h) = ps_observation_digest (ca_pre_state a)"
  "ep_topology_digest (unsigned_permit rt issuer t pid nonce p d c a h) = ps_topology_digest (ca_pre_state a)"
  "ep_model_digest (unsigned_permit rt issuer t pid nonce p d c a h) = ps_model_digest (ca_pre_state a)"
  "ep_expected_post_state_version (unsigned_permit rt issuer t pid nonce p d c a h) = ps_state_version (ca_post_state a)"
  "ep_expected_post_state_digest (unsigned_permit rt issuer t pid nonce p d c a h) = ps_state_digest (ca_post_state a)"
  "ep_expected_post_topology_digest (unsigned_permit rt issuer t pid nonce p d c a h) = ps_topology_digest (ca_post_state a)"
  "ep_evidence_record_hash (unsigned_permit rt issuer t pid nonce p d c a h) = h"
  "ep_policy_version (unsigned_permit rt issuer t pid nonce p d c a h) = dec_policy_version d"
  "ep_safety_version (unsigned_permit rt issuer t pid nonce p d c a h) = dec_safety_version d"
  "ep_audience (unsigned_permit rt issuer t pid nonce p d c a h) = pi_audience issuer"
  "ep_issued_at (unsigned_permit rt issuer t pid nonce p d c a h) = t"
  "ep_expires_at (unsigned_permit rt issuer t pid nonce p d c a h) = t + pi_time_to_live issuer"
  "ep_signing_key_id (unsigned_permit rt issuer t pid nonce p d c a h) = pi_signing_key_id issuer"
  by (simp_all add: unsigned_permit_def)

lemma permit_signed_simps [simp]:
  "ep_permit_id (permit_signed rt q sk) = ep_permit_id q"
  "ep_permit_nonce (permit_signed rt q sk) = ep_permit_nonce q"
  "ep_decision_id (permit_signed rt q sk) = ep_decision_id q"
  "ep_proposal_id (permit_signed rt q sk) = ep_proposal_id q"
  "ep_proposal_digest (permit_signed rt q sk) = ep_proposal_digest q"
  "ep_command (permit_signed rt q sk) = ep_command q"
  "ep_command_digest (permit_signed rt q sk) = ep_command_digest q"
  "ep_assessment_digest (permit_signed rt q sk) = ep_assessment_digest q"
  "ep_state_version (permit_signed rt q sk) = ep_state_version q"
  "ep_state_digest (permit_signed rt q sk) = ep_state_digest q"
  "ep_observation_digest (permit_signed rt q sk) = ep_observation_digest q"
  "ep_topology_digest (permit_signed rt q sk) = ep_topology_digest q"
  "ep_model_digest (permit_signed rt q sk) = ep_model_digest q"
  "ep_expected_post_state_version (permit_signed rt q sk) = ep_expected_post_state_version q"
  "ep_expected_post_state_digest (permit_signed rt q sk) = ep_expected_post_state_digest q"
  "ep_expected_post_topology_digest (permit_signed rt q sk) = ep_expected_post_topology_digest q"
  "ep_evidence_record_hash (permit_signed rt q sk) = ep_evidence_record_hash q"
  "ep_policy_version (permit_signed rt q sk) = ep_policy_version q"
  "ep_safety_version (permit_signed rt q sk) = ep_safety_version q"
  "ep_audience (permit_signed rt q sk) = ep_audience q"
  "ep_issued_at (permit_signed rt q sk) = ep_issued_at q"
  "ep_expires_at (permit_signed rt q sk) = ep_expires_at q"
  "ep_signing_key_id (permit_signed rt q sk) = ep_signing_key_id q"
  "permit_valid rt' (permit_signed rt q sk) = permit_valid rt' q"
  by (simp_all add: permit_signed_def permit_valid_def)

text \<open>A device and the readings of a call that are in order for a permit of an issuer.\<close>

definition device_ready :: "runtime \<Rightarrow> permit_issuer \<Rightarrow> virtual_device \<Rightarrow> device_env \<Rightarrow> permit \<Rightarrow> bool" where
  "device_ready rt issuer dev env permit \<longleftrightarrow>
     vd_permit_audience dev = pi_audience issuer \<and>
     vd_permit_public_keys dev (pi_signing_key_id issuer) = Some (rt_public rt (pi_private_key issuer)) \<and>
     ep_permit_id permit \<notin> vd_consumed_permits dev \<and> ep_permit_nonce permit \<notin> vd_consumed_nonces dev \<and>
     pc_command_id (ep_command permit) \<notin> vd_consumed_commands dev \<and>
     ep_issued_at permit \<le> dx_clock env 0 \<and> dx_clock env 0 < ep_expires_at permit \<and>
     dx_clock env 1 < ep_expires_at permit \<and> dx_acknowledgment_id env \<noteq> [] \<and> dx_assessment_id env \<noteq> [] \<and>
     vd_device_id dev \<noteq> [] \<and> 0 \<le> vd_scan_counter dev \<and> vd_acknowledgment_key_id dev \<noteq> []"

lemma issued_permit_checks:
  assumes sig: "signatures_ok rt" and iss: "issue rt issuer t pid nonce chain p d c a = Inr permit"
    and ready: "device_ready rt issuer dev env permit" and pre: "ca_pre_state a = pre"
  shows "first_failed (device_checks rt dev permit p d a pre (dx_clock env 0)) = None"
  using iss
proof (rule issueD)
  fix h r gs
  assume "dec_evidence_record_hash d = Some h"
    and permit: "permit = permit_signed rt (unsigned_permit rt issuer t pid nonce p d c a h) (pi_private_key issuer)"
    and "dec_outcome d = PERMIT" "dec_proposal_id d = ap_proposal_id p" "ca_safe a"
      "ca_command_digest a = command_digest rt c" "dec_state_version d = ps_state_version (ca_pre_state a)"
      "verify_digest rt (ca_pre_state a)"
  then show ?thesis
    using ready permit_signed_verifies [OF sig] unfolding device_ready_def permit
    by (simp add: device_checks_def pre [symmetric])
qed

lemma simulate_candidate_id:
  assumes "simulate_candidate rt pw i pl c = Inr a" "j \<noteq> []"
  shows "simulate_candidate rt pw j pl c = Inr (a\<lparr>ca_assessment_id := j\<rparr>)"
proof -
  have "assessment_valid rt (a\<lparr>ca_assessment_id := j\<rparr>)"
    using assms by (auto simp: simulate_candidate_def res_simps Let_def case_prod_beta assessment_valid_def)
  then show ?thesis
    using assms by (auto simp: simulate_candidate_def res_simps Let_def case_prod_beta)
qed

lemma issued_expectations:
  assumes "issue rt issuer t pid nonce chain p d c a = Inr permit"
  shows "permit_expectations permit = expectations_of a" "ep_command permit = c"
  by (rule issueD [OF assms], simp add: permit_expectations_def expectations_of_def)+

text \<open>
  A permit that was issued for the plant's own safe candidate is applied by a device that is ready for
  it, and the plant ends in the predicted state.
\<close>

lemma issued_permit_dispatches:
  assumes rt: "signatures_ok rt" and inv: "plant_inv pw pl"
    and sim: "simulate_candidate rt pw i pl c = Inr a" and iss: "issue rt issuer t pid nonce chain p d c a = Inr permit"
    and ready: "device_ready rt issuer dev env permit"
  shows "\<exists>s pl'. apply_authorized_command rt pw (dx_observation_clock env) (expectations_of a) c pl = (Inr s, pl') \<and>
    ps_state_digest s = ps_state_digest (ca_post_state a) \<and>
    execute_locked rt (pandapower_ops rt pw) env permit p d a (dev, pl) =
      (acknowledge rt env (consume_permit permit (scanned dev)) permit APPLIED ''command_applied_and_read_back''
         (dx_clock env 2) (ca_pre_state a) (Some s), consume_permit permit (scanned dev), pl')"
proof -
  from sim obtain pre where pre: "read_state rt pw pl = Inr pre" "ca_pre_state a = pre" by (rule simulate_candidateD)
  from iss have a: "ca_safe a" "assessment_valid rt a" by (auto elim: issueD)
  from safe_candidate_applies [OF sim a(1), of "dx_observation_clock env"] obtain s pl' where
    prep: "prepare_command rt pw (dx_observation_clock env) (expectations_of a) c pl = Inr (s, pl')"
    and dig: "ps_state_digest s = ps_state_digest (ca_post_state a)" by blast
  have top: "ps_topology_digest s = ps_topology_digest (ca_post_state a)"
    using prep by (rule prepare_commandD) (simp add: expectations_of_def expected_def)
  have ver: "ps_state_version s = ps_state_version (ca_post_state a)"
    using prepared_plant(3) [OF inv prep] read_state_version [OF pre(1)] a(2) pre(2) by (simp add: assessment_valid_def)
  have safe: "\<not> ps_unsafe_state s" by (rule prepared_plant(2) [OF inv prep])
  have exp: "ep_expected_post_state_digest permit = ps_state_digest (ca_post_state a)"
    "ep_expected_post_state_version permit = ps_state_version (ca_post_state a)"
    "ep_expected_post_topology_digest permit = ps_topology_digest (ca_post_state a)"
    by (rule issueD [OF iss], simp)+
  note checks = issued_permit_checks [OF rt iss ready pre(2)]
  note fresh = simulate_candidate_id [OF sim, of "dx_assessment_id env"]
  have "execute_locked rt (pandapower_ops rt pw) env permit p d a (dev, pl) =
      device_dispatch rt (pandapower_ops rt pw) env permit pre (scanned dev) pl"
    using checks fresh a(1) ready pre
    by (simp add: execute_locked_def pandapower_ops_def scanned_def [symmetric] issued_expectations(2) [OF iss]
        device_ready_def)
  also have "\<dots> = (acknowledge rt env (consume_permit permit (scanned dev)) permit APPLIED ''command_applied_and_read_back''
         (dx_clock env 2) pre (Some s), consume_permit permit (scanned dev), pl')"
    using prep dig top ver safe
    by (simp add: device_dispatch_def Let_def issued_expectations [OF iss] pandapower_ops_def apply_authorized_command_def exp)
  finally show ?thesis using prep dig pre(2) by (auto simp: apply_authorized_command_def)
qed

lemma actuator_setpoint_finite: "snapshot_valid s \<Longrightarrow> is_finite (actuator_setpoint s c)"
  by (auto simp: actuator_setpoint_def snapshot_valid_def list_all_iff dest!: map_of_SomeD split: option.splits)

lemma acknowledge_applied_total:
  assumes "permit_valid rt' permit" "snapshot_valid pre" "snapshot_valid post" "dx_acknowledgment_id env \<noteq> []"
    "vd_device_id dev \<noteq> []" "1 \<le> vd_scan_counter dev" "vd_acknowledgment_key_id dev \<noteq> []" "reason \<noteq> []"
  shows "\<exists>k. acknowledge rt env dev permit APPLIED reason t pre (Some post) = Inr k"
  using assms actuator_setpoint_finite [of pre] actuator_setpoint_finite [of post]
  by (simp add: acknowledge_def make_acknowledgment_def acknowledgment_valid_def require_status_shape_def
      permit_valid_def snapshot_valid_def command_valid_def)

lemma read_state_valid: "digests_ok rt \<Longrightarrow> read_state rt pw pl = Inr s \<Longrightarrow> snapshot_valid s"
  by (auto simp: read_state_def res_simps dest: plant_snapshot_valid)

lemma issued_permit_acknowledged:
  assumes rt: "digests_ok rt" "signatures_ok rt" and inv: "plant_inv pw pl"
    and sim: "simulate_candidate rt pw i pl c = Inr a" and iss: "issue rt issuer t pid nonce chain p d c a = Inr permit"
    and ready: "device_ready rt issuer dev env permit"
  obtains k pl' s where
    "execute_locked rt (pandapower_ops rt pw) env permit p d a (dev, pl) = (Inr k, consume_permit permit (scanned dev), pl')"
    "acknowledge rt env (consume_permit permit (scanned dev)) permit APPLIED ''command_applied_and_read_back''
         (dx_clock env 2) (ca_pre_state a) (Some s) = Inr k"
    "read_state rt pw pl' = Inr s" "ps_state_digest s = ps_state_digest (ca_post_state a)"
    "apply_authorized_command rt pw (dx_observation_clock env) (expectations_of a) c pl = (Inr s, pl')"
proof -
  from issued_permit_dispatches [OF rt(2) inv sim iss ready] obtain s pl' where
    app: "apply_authorized_command rt pw (dx_observation_clock env) (expectations_of a) c pl = (Inr s, pl')"
    and dig: "ps_state_digest s = ps_state_digest (ca_post_state a)"
    and ex: "execute_locked rt (pandapower_ops rt pw) env permit p d a (dev, pl) =
      (acknowledge rt env (consume_permit permit (scanned dev)) permit APPLIED ''command_applied_and_read_back''
         (dx_clock env 2) (ca_pre_state a) (Some s), consume_permit permit (scanned dev), pl')" by blast
  have rd: "read_state rt pw pl' = Inr s"
    using apply_read_back [of pw rt] inv app by (simp add: applied_prepared plant_inv_def)
  have valid: "permit_valid rt permit" "snapshot_valid (ca_pre_state a)" by (rule issueD [OF iss], simp add: assessment_valid_def)+
  have dev: "vd_scan_counter (consume_permit permit (scanned dev)) = vd_scan_counter dev + 1"
    by (simp add: consume_permit_def scanned_def)
  obtain k where k: "acknowledge rt env (consume_permit permit (scanned dev)) permit APPLIED
      ''command_applied_and_read_back'' (dx_clock env 2) (ca_pre_state a) (Some s) = Inr k"
    using acknowledge_applied_total [OF valid read_state_valid [OF rt(1) rd]] ready dev
    by (fastforce simp: device_ready_def)
  show thesis by (rule that) (use ex k rd dig app in simp_all)
qed

end
