(* ===== verification/Closed_Loop.thy ===== *)
theory Closed_Loop
  imports Physical_Control
begin

text \<open>
  \<^verbatim>\<open>PhysicalClosedLoopController\<close> of \<^verbatim>\<open>physical_control.py\<close> in one process: the gateway, the translator, the
  permit issuer, the device and the plant composed. The theory proves that the result of a run is
  truthful about the plant, that a configured loop completes, and that the device lets the plant change
  only with an authorized permit, and evaluates all three on a concrete loop.
\<close>

section \<open>The controller\<close>

text \<open>
  The composition of one process: the plant behind the device, and both behind the controller. The
  readings of the observation clock at the capture and the assessment identifier are arguments.
\<close>

definition in_process_ops ::
  "runtime \<Rightarrow> pandapower \<Rightarrow> instant \<Rightarrow> string \<Rightarrow> device_env \<Rightarrow> string \<Rightarrow> string \<Rightarrow> (virtual_device \<times> plant) loop_ops" where
  "in_process_ops rt pw captured_at assessment_id env device_id key_id =
     \<lparr>lo_capture = (\<lambda>(dev, pl). let (s, pl') = capture_state rt pw captured_at pl in (s, dev, pl')),
      lo_read = (\<lambda>(dev, pl). (read_state rt pw pl, dev, pl)),
      lo_simulate = (\<lambda>c (dev, pl). (simulate_candidate rt pw assessment_id pl c, dev, pl)),
      lo_execute = (\<lambda>permit p d a w. execute_locked rt (pandapower_ops rt pw) env permit p d a w),
      lo_device_id = device_id, lo_acknowledgment_key_id = key_id\<rparr>"

lemma record_dispositionD:
  assumes "record_disposition rt env p pre d di gw = (Inr r, gw')"
  shows "cl_status r = di_status di" "cl_reasons r = di_reasons di" "cl_proposal r = p" "cl_pre_state r = pre" "cl_decision r = d"
    "cl_command r = di_command di" "cl_assessment r = di_assessment di" "cl_permit r = di_permit di"
    "cl_acknowledgment r = di_acknowledgment di" "cl_post_state r = di_post_state di"
    "\<exists>record. gw_evidence gw' = gw_evidence gw @ [record] \<and> ev_record_hash record = cl_execution_evidence_hash r \<and>
       ev_proposal_id record = ap_proposal_id p \<and> ev_decision_id record = dec_decision_id d \<and>
       jget ''status'' (ev_payload record) = Some (JStr (closed_loop_status_value (cl_status r)))"
  using assms
  by (auto simp: record_disposition_def Let_def evidence_append_def make_closed_loop_result_def disposition_payload_def
      jget_def split: if_splits)

lemma permitted_steps_cases:
  assumes "permitted_steps rt ops ctl env chain p pre d w = (Inr di, w')"
  obtains
    (untranslated) m where "translate (co_bindings ctl) (le_command_id env) p = Inl (CommandTranslationError m)"
      "di = undispatched NOT_DISPATCHED [m] None None pre" "w' = w"
  | (unsafe) c a where "translate (co_bindings ctl) (le_command_id env) p = Inr c" "lo_simulate ops c w = (Inr a, w')"
      "\<not> ca_safe a" "di = undispatched CANDIDATE_REJECTED (ca_reasons a) (Some c) (Some a) pre"
  | (dispatch) c a w1 permit where "translate (co_bindings ctl) (le_command_id env) p = Inr c"
      "lo_simulate ops c w = (Inr a, w1)" "ca_safe a"
      "issue rt (co_issuer ctl) (le_issued_at env) (le_permit_id env) (le_permit_nonce env) chain p d c a = Inr permit"
      "dispatch_permit rt ops ctl p pre d c a permit w1 = (di, w')"
  using assms
  by (auto simp: permitted_steps_def Let_def split: sum.splits exn.splits prod.splits if_splits)

lemma dispatch_permit_cases:
  assumes "dispatch_permit rt ops ctl p pre d c a permit w = (di, w')"
  shows "di_command di = Some c \<and> di_assessment di = Some a \<and> di_permit di = Some permit \<and>
    (\<exists>result w1. lo_execute ops permit p d a w = (result, w1) \<and>
      (case di_status di of
         COMPLETED \<Rightarrow> \<exists>k post. result = Inr k \<and> lo_read ops w1 = (Inr post, w') \<and> di_acknowledgment di = Some k \<and>
           di_post_state di = Some post \<and> ck_status k = APPLIED \<and> readback_matches k post \<and>
           verify_for_transaction rt k (co_acknowledgment_public_key ctl) permit pre post
             (lo_device_id ops) (lo_acknowledgment_key_id ops)
       | DEVICE_REJECTED \<Rightarrow> \<exists>k post. result = Inr k \<and> lo_read ops w1 = (Inr post, w') \<and> di_acknowledgment di = Some k \<and>
           ck_status k = REJECTED \<and> di_post_state di = Some post
       | EFFECT_UNKNOWN \<Rightarrow> di_post_state di = None
       | _ \<Rightarrow> False))"
  using assms
  by (auto simp: dispatch_permit_def classify_acknowledgment_def Let_def split: prod.splits sum.splits if_splits)

lemma closed_loop_cases:
  assumes "closed_loop_execute rt ops ctl env p (gw, w) = (Inr r, gw', w')"
  obtains
    (refused) pre w1 gs gw1 d where "lo_capture ops w = (Inr pre, w1)" "physical_state_to_gateway_state pre = Inr gs"
      "decide rt (le_decide env) gw p gs (Some (le_clock env)) = (gw1, d)" "dec_outcome d \<noteq> PERMIT" "w' = w1"
      "record_disposition rt env p pre d (undispatched NOT_DISPATCHED (dec_reasons d) None None pre) gw1 = (Inr r, gw')"
  | (permitted) pre w1 gs gw1 d di where "lo_capture ops w = (Inr pre, w1)" "physical_state_to_gateway_state pre = Inr gs"
      "decide rt (le_decide env) gw p gs (Some (le_clock env)) = (gw1, d)" "dec_outcome d = PERMIT"
      "permitted_steps rt ops ctl env (gw_evidence gw1) p pre d w1 = (Inr di, w')"
      "record_disposition rt env p pre d di gw1 = (Inr r, gw')"
  using assms
  by (auto simp: closed_loop_execute_def Let_def split: sum.splits exn.splits prod.splits if_splits)

lemma in_process_simps [simp]:
  "lo_capture (in_process_ops rt pw t i env dev_id key_id) (dev, pl) =
     (fst (capture_state rt pw t pl), dev, snd (capture_state rt pw t pl))"
  "lo_read (in_process_ops rt pw t i env dev_id key_id) (dev, pl) = (read_state rt pw pl, dev, pl)"
  "lo_simulate (in_process_ops rt pw t i env dev_id key_id) c (dev, pl) = (simulate_candidate rt pw i pl c, dev, pl)"
  "lo_execute (in_process_ops rt pw t i env dev_id key_id) permit p d a w =
     execute_locked rt (pandapower_ops rt pw) env permit p d a w"
  "lo_device_id (in_process_ops rt pw t i env dev_id key_id) = dev_id"
  "lo_acknowledgment_key_id (in_process_ops rt pw t i env dev_id key_id) = key_id"
  by (simp_all add: in_process_ops_def case_prod_beta Let_def)

lemma capture_reads:
  "fst (capture_state rt pw t pl) = read_state rt pw (snd (capture_state rt pw t pl))"
  "plant_inv pw (snd (capture_state rt pw t pl)) = plant_inv pw pl"
  by (simp_all add: capture_state_def Let_def plant_inv_def)

text \<open>What each disposition of a dispatched permit says about the plant.\<close>

definition disposition_truthful ::
  "runtime \<Rightarrow> pandapower \<Rightarrow> snapshot \<Rightarrow> assessment \<Rightarrow> command \<Rightarrow> plant \<Rightarrow> plant \<Rightarrow> closed_loop_status \<Rightarrow> snapshot option \<Rightarrow> bool" where
  "disposition_truthful rt pw pre a c pl pl' status post_state \<longleftrightarrow>
     (case status of
        COMPLETED \<Rightarrow> (\<exists>post. post_state = Some post \<and> read_state rt pw pl' = Inr post \<and>
          ps_state_digest post = ps_state_digest (ca_post_state a) \<and> \<not> ps_unsafe_state post \<and>
          ps_state_version post = ps_state_version pre + 1 \<and> actuator_setpoint post c = pc_setpoint c)
      | DEVICE_REJECTED \<Rightarrow> pl' = pl
      | EFFECT_UNKNOWN \<Rightarrow> post_state = None
      | _ \<Rightarrow> False)"

lemma dispatch_truthful:
  assumes inv: "plant_inv pw pl" and pre: "read_state rt pw pl = Inr pre"
    and iss: "issue rt issuer t0 pid nonce chain p d c a = Inr permit"
    and call: "dispatch_permit rt (in_process_ops rt pw t i env dev_id key_id) ctl p pre d c a permit (dev, pl) = (di, dev', pl')"
  shows "disposition_truthful rt pw pre a c pl pl' (di_status di) (di_post_state di)"
proof -
  have c: "command_valid (ep_command permit)" "ep_command permit = c"
    and exp: "ep_expected_post_state_digest permit = ps_state_digest (ca_post_state a)"
    by (rule issueD [OF iss], simp)+
  note D = dispatch_permit_cases [OF call]
  show ?thesis
  proof (cases "di_status di")
    case COMPLETED
    with D obtain k post dev1 where ex: "execute_locked rt (pandapower_ops rt pw) env permit p d a (dev, pl) = (Inr k, dev1, pl')"
      and k: "read_state rt pw pl' = Inr post" "di_post_state di = Some post" "ck_status k = APPLIED" by auto
    from cigre.device_truthful [OF inv c(1) ex] k pre show ?thesis
      by (auto simp: COMPLETED disposition_truthful_def pandapower_ops_def c(2) exp)
  next
    case DEVICE_REJECTED
    with D obtain k dev1 where ex: "execute_locked rt (pandapower_ops rt pw) env permit p d a (dev, pl) = (Inr k, dev1, pl')"
      and k: "ck_status k = REJECTED" by auto
    from cigre.device_truthful [OF inv c(1) ex] k show ?thesis
      by (simp add: DEVICE_REJECTED disposition_truthful_def)
  qed (use D in \<open>auto simp: disposition_truthful_def\<close>)
qed

text \<open>
  (C6) The result of the closed loop is truthful. A call that ends undispatched left the device and the
  plant as the observation found them and holds no permit. Every other result holds a permit that was
  issued for a permitting decision and a safe candidate of the observed state; when it is completed, the
  plant now reports the post-state of the result, which is safe, one version on, has the predicted
  digest and the commanded setpoint; when the device rejected, the plant is unchanged; when the effect is
  unknown, no post-state is claimed. The last evidence record is the one the result names.
\<close>
theorem closed_loop_truthful:
  assumes inv: "plant_inv pw pl"
    and call: "closed_loop_execute rt (in_process_ops rt pw t i env dev_id key_id) ctl lenv p (gw, dev, pl) =
      (Inr r, gw', dev', pl')"
  shows "let observed = snd (capture_state rt pw t pl) in
    read_state rt pw observed = Inr (cl_pre_state r) \<and>
    (if cl_status r = NOT_DISPATCHED \<or> cl_status r = CANDIDATE_REJECTED
     then cl_permit r = None \<and> dev' = dev \<and> pl' = observed
     else \<exists>c a permit chain. cl_command r = Some c \<and> cl_assessment r = Some a \<and> cl_permit r = Some permit \<and>
       dec_outcome (cl_decision r) = PERMIT \<and> ca_safe a \<and> simulate_candidate rt pw i observed c = Inr a \<and>
       issue rt (co_issuer ctl) (le_issued_at lenv) (le_permit_id lenv) (le_permit_nonce lenv) chain p (cl_decision r) c a
         = Inr permit \<and>
       disposition_truthful rt pw (cl_pre_state r) a c observed pl' (cl_status r) (cl_post_state r)) \<and>
    (\<exists>chain record. gw_evidence gw' = chain @ [record] \<and> ev_record_hash record = cl_execution_evidence_hash r \<and>
       jget ''status'' (ev_payload record) = Some (JStr (closed_loop_status_value (cl_status r))))"
  using call
proof (cases rule: closed_loop_cases)
  case (refused pre w1 gs gw1 d)
  note R = record_dispositionD [OF refused(6)]
  have w1: "w1 = (dev, snd (capture_state rt pw t pl))" "read_state rt pw (snd (capture_state rt pw t pl)) = Inr pre"
    using refused(1) by (simp_all add: capture_reads(1) [symmetric])
  show ?thesis using refused(5) R(11) w1 by (auto simp: R(1-10) undispatched_def)
next
  case (permitted pre w1 gs gw1 d di)
  note R = record_dispositionD [OF permitted(6)]
  let ?observed = "snd (capture_state rt pw t pl)"
  have w1: "w1 = (dev, ?observed)" and pre: "read_state rt pw ?observed = Inr pre"
    using permitted(1) by (simp_all add: capture_reads(1) [symmetric])
  have rec: "\<exists>chain record. gw_evidence gw' = chain @ [record] \<and> ev_record_hash record = cl_execution_evidence_hash r \<and>
       jget ''status'' (ev_payload record) = Some (JStr (closed_loop_status_value (cl_status r)))"
    using R(11) by auto
  from permitted(5) show ?thesis
  proof (cases rule: permitted_steps_cases)
    case (untranslated m)
    then show ?thesis using rec pre by (simp add: R(1-10) undispatched_def w1)
  next
    case (unsafe c a)
    then show ?thesis using rec pre by (simp add: R(1-10) undispatched_def w1)
  next
    case (dispatch c a w2 permit)
    have w2: "w2 = (dev, ?observed)" "simulate_candidate rt pw i ?observed c = Inr a" using dispatch(2) by (simp_all add: w1)
    have truth: "disposition_truthful rt pw pre a c ?observed pl' (di_status di) (di_post_state di)"
      using dispatch_truthful [OF _ pre dispatch(4) dispatch(5) [unfolded w2(1)]] inv by (simp add: capture_reads(2))
    then have ended: "di_status di \<noteq> NOT_DISPATCHED" "di_status di \<noteq> CANDIDATE_REJECTED"
      by (auto simp: disposition_truthful_def)
    have di: "di_command di = Some c" "di_assessment di = Some a" "di_permit di = Some permit"
      using dispatch_permit_cases [OF dispatch(5)] by simp_all
    show ?thesis
      using rec pre truth permitted(4) w2(2) dispatch(3,4) ended by (auto simp: R(1-10) di)
  qed
qed

section \<open>From a permitting decision to a completed loop\<close>

text \<open>The record of a permitting decision binds the proposal and the state.\<close>

lemma permit_recorded:
  assumes dec: "decide rt env gw p s now = (gw1, d)" and permit: "dec_outcome d = PERMIT"
  obtains r where "gw_evidence gw1 = gw_evidence gw @ [r]" "records_decision d r"
    "evidence_verify rt (gw_evidence gw1) \<longleftrightarrow> evidence_verify rt (gw_evidence gw)"
    "jget ''proposal'' (ev_payload r) = Some (action_proposal_dump p)"
    "jget ''state'' (ev_payload r) = Some (system_state_dump rt s)"
    "dec_proposal_id d = ap_proposal_id p" "dec_decision_id d = env_decision_id env"
    "dec_state_version d = ss_version s" "dec_policy_version d = gw_policy_version gw"
    "dec_safety_version d = sk_version (gw_safety gw)"
proof -
  have ext: "log_extended rt (gw_evidence gw) (gw_evidence gw1) d" using decide_evidence [of rt gw env p s now] dec by simp
  then obtain r where r: "gw_evidence gw1 = gw_evidence gw @ [r]" "records_decision d r"
    "evidence_verify rt (gw_evidence gw1) \<longleftrightarrow> evidence_verify rt (gw_evidence gw)"
    unfolding log_extended_def by blast
  define gw' where "gw' = gw\<lparr>gw_degraded_state := snd (snd (degraded_admission rt env gw p (evaluation_time env now)))\<rparr>"
  have "(gw1, d) = primary_decision rt env gw' p s (evaluation_time env now)
      (fst (snd (degraded_admission rt env gw p (evaluation_time env now))))"
    using dec permit by (auto simp: decide_def evaluation_time_def Let_def case_prod_beta gw'_def split: if_splits
        dest: arg_cong [where f = "\<lambda>x. dec_outcome (snd x)"])
  then have prim: "jget ''proposal'' (ev_payload (last (gw_evidence gw1))) = Some (action_proposal_dump p)"
    "jget ''state'' (ev_payload (last (gw_evidence gw1))) = Some (system_state_dump rt s)"
    "dec_proposal_id d = ap_proposal_id p" "dec_decision_id d = env_decision_id env"
    "dec_state_version d = ss_version s" "dec_policy_version d = gw_policy_version gw"
    "dec_safety_version d = sk_version (gw_safety gw)"
    by (simp_all add: primary_decision_def record_decision_def evidence_append_def Let_def case_prod_beta
        provisional_decision_def jget_def gw'_def)
  show thesis by (rule that) (use r prim in simp_all)
qed

lemma find_last_unique:
  assumes "\<forall>r \<in> set xs. \<not> P r" "P x"
  shows "find P (xs @ [x]) = Some x"
  using assms by (induction xs) auto

lemma translateD:
  assumes "translate bs cid p = Inr c"
  shows "command_valid c" "pc_proposal_id c = ap_proposal_id p" "pc_resource c = ap_resource p"
    "pc_operation c = ap_operation p" "pc_command_id c = cid"
  using assms by (auto simp: translate_def res_simps split: option.splits if_splits)

definition issuer_ok :: "permit_issuer \<Rightarrow> bool" where
  "issuer_ok issuer \<longleftrightarrow> 0 < pi_time_to_live issuer \<and> pi_audience issuer \<noteq> [] \<and> pi_signing_key_id issuer \<noteq> []"

lemma issue_succeeds:
  assumes rt: "digests_ok rt" and p: "action_proposal_valid p"
    and dec: "decide rt env gw p gs now = (gw1, d)" "dec_outcome d = PERMIT"
    and log: "evidence_verify rt (gw_evidence gw)"
      "\<forall>r \<in> set (gw_evidence gw). Some (ev_record_hash r) \<noteq> dec_evidence_record_hash d"
    and names: "env_decision_id env \<noteq> []" "gw_policy_version gw \<noteq> []" "sk_version (gw_safety gw) \<noteq> []"
    and c: "translate bs cid p = Inr c"
    and a: "assessment_valid rt a" "ca_safe a" "ca_command_digest a = command_digest rt c"
    and gs: "physical_state_to_gateway_state (ca_pre_state a) = Inr gs"
    and issuer: "issuer_ok issuer" "pid \<noteq> []" "16 \<le> length nonce"
  shows "\<exists>permit. issue rt issuer t pid nonce (gw_evidence gw1) p d c a = Inr permit"
proof -
  from dec obtain r where r: "gw_evidence gw1 = gw_evidence gw @ [r]" "records_decision d r"
    "evidence_verify rt (gw_evidence gw1) \<longleftrightarrow> evidence_verify rt (gw_evidence gw)"
    "jget ''proposal'' (ev_payload r) = Some (action_proposal_dump p)"
    "jget ''state'' (ev_payload r) = Some (system_state_dump rt gs)"
    and d: "dec_proposal_id d = ap_proposal_id p" "dec_decision_id d = env_decision_id env"
    "dec_state_version d = ss_version gs" "dec_policy_version d = gw_policy_version gw"
    "dec_safety_version d = sk_version (gw_safety gw)"
    by (rule permit_recorded)
  have h: "dec_evidence_record_hash d = Some (ev_record_hash r)" using r(2) by (simp add: records_decision_def)
  have found: "find (\<lambda>x. ev_record_hash x = ev_record_hash r) (gw_evidence gw1) = Some r"
    unfolding r(1) by (rule find_last_unique) (use log(2) h in auto)
  have hex: "is_hex_digest (ev_record_hash r)"
    using rt log(1) r(1,3) verify_record [of rt "gw_evidence gw" r] by simp
  have ver: "ss_version gs = ps_state_version (ca_pre_state a)"
    using gs by (auto simp: physical_state_to_gateway_state_def make_system_state_def split: option.splits if_splits)
  have checks: "issue_checks rt (gw_evidence gw1) p d c a = Inr (ev_record_hash r)"
    using p dec(2) a gs r log(1) d translateD [OF c] h found ver
    by (simp add: issue_checks_def records_decision_def evidence_binds_def assessment_valid_def)
  have pid: "ap_proposal_id p \<noteq> []"
    using p by (auto simp: action_proposal_valid_def make_action_proposal_def proposal_fields_ok_def split: if_splits)
  have "permit_valid rt (unsigned_permit rt issuer t pid nonce p d c a (ev_record_hash r))"
    using rt a(1) issuer names d translateD [OF c] hex pid
    by (simp add: permit_valid_def assessment_valid_def snapshot_valid_def issuer_ok_def)
  then show ?thesis by (simp add: issue_def checks make_permit_def)
qed

lemma feq_refl [simp]: "is_finite x \<Longrightarrow> feq x x"
  by (cases x) simp_all

lemma applied_acknowledgment_verifies:
  assumes rt: "digests_ok rt" "signatures_ok rt" and inv: "plant_inv pw pl"
    and sim: "simulate_candidate rt pw i pl c = Inr a" and iss: "issue rt issuer t pid nonce chain p d c a = Inr permit"
    and app: "apply_authorized_command rt pw now (expectations_of a) c pl = (Inr s, pl')"
    and k: "acknowledge rt env dev permit APPLIED reason t2 (ca_pre_state a) (Some s) = Inr k"
    and t2: "ep_issued_at permit \<le> t2" "t2 < ep_expires_at permit"
  shows "verify_for_transaction rt k (rt_public rt (vd_acknowledgment_private_key dev)) permit (ca_pre_state a) s
    (vd_device_id dev) (vd_acknowledgment_key_id dev)" "readback_matches k s" "ck_status k = APPLIED"
proof -
  note F = acknowledge_fields [OF k] and V = acknowledge_verifies [OF rt(2) k]
  from sim obtain pre where pre: "read_state rt pw pl = Inr pre" "ca_pre_state a = pre" by (rule simulate_candidateD)
  from app have prep: "prepare_command rt pw now (expectations_of a) c pl = Inr (s, pl')" by (simp add: applied_prepared)
  then obtain candidate where
    snap: "plant_snapshot rt pw pl candidate (pl_state_version pl + 1)
       (fadd (pl_simulation_time_s pl) (pl_step_seconds pl)) now (pl_observation_sequence pl + 1) True = Inr s"
    and post: "expected (ax_post_state_digest (expectations_of a)) (ps_state_digest s)"
      "expected (ax_post_topology_digest (expectations_of a)) (ps_topology_digest s)"
    by (rule prepare_commandD)
  note S = plant_snapshot_fields [OF snap]
  have valid: "snapshot_valid s" by (rule plant_snapshot_valid [OF rt(1) snap])
  have preS: "ps_model_digest pre = pl_model_digest pl" "verify_digest rt pre" "snapshot_valid pre"
    using pre(1) plant_snapshot_fields(5) read_state_verifies read_state_valid [OF rt(1)]
    by (auto simp: read_state_def res_simps)
  have a: "assessment_valid rt a" "command_valid c"
    and permit: "ep_command permit = c" "ep_model_digest permit = ps_model_digest pre"
      "ep_state_digest permit = ps_state_digest pre" "ep_topology_digest permit = ps_topology_digest pre"
      "ep_observation_digest permit = ps_observation_digest pre"
      "ep_expected_post_state_digest permit = ps_state_digest (ca_post_state a)"
      "ep_expected_post_state_version permit = ps_state_version (ca_post_state a)"
      "ep_expected_post_topology_digest permit = ps_topology_digest (ca_post_state a)"
    by (rule issueD [OF iss], simp add: pre(2))+
  have ver: "ps_state_version s = ps_state_version (ca_post_state a)"
    using S(2) read_state_version [OF pre(1)] a(1) by (simp add: assessment_valid_def pre(2))
  have set: "actuator_setpoint s c = pc_setpoint c" by (rule prepared_plant(4) [OF inv prep a(2)])
  have fin: "is_finite (ps_simulation_time_s s)" "is_finite (pc_setpoint c)" "is_finite (actuator_setpoint pre c)"
    using valid a(2) actuator_setpoint_finite [OF preS(3)] by (auto simp: snapshot_valid_def nonneg_def command_valid_def)
  show "verify_for_transaction rt k (rt_public rt (vd_acknowledgment_private_key dev)) permit (ca_pre_state a) s
    (vd_device_id dev) (vd_acknowledgment_key_id dev)"
    using V t2 preS post ver set fin S(1,5)
    by (simp add: verify_for_transaction_def F pre(2) permit expectations_of_def expected_def)
  show "readback_matches k s" by (simp add: readback_matches_def F)
  show "ck_status k = APPLIED" by (simp add: F)
qed

lemma evidence_append_hex: "digests_ok rt \<Longrightarrow> is_hex_digest (ev_record_hash (snd (evidence_append rt t l i j pl)))"
  by (simp add: evidence_append_def Let_def)

text \<open>
  A controller, its device and the readings of one run that fit together: the device trusts the issuer's
  key and audience, the controller the device's key; the identifiers are new to the device; the clock
  readings lie within the permit's life time.
\<close>

definition loop_configured :: "runtime \<Rightarrow> controller \<Rightarrow> loop_env \<Rightarrow> virtual_device \<Rightarrow> device_env \<Rightarrow> bool" where
  "loop_configured rt ctl lenv dev env \<longleftrightarrow>
     (let issuer = co_issuer ctl; expiry = le_issued_at lenv + pi_time_to_live issuer in
      issuer_ok issuer \<and> vd_permit_audience dev = pi_audience issuer \<and>
      vd_permit_public_keys dev (pi_signing_key_id issuer) = Some (rt_public rt (pi_private_key issuer)) \<and>
      co_acknowledgment_public_key ctl = rt_public rt (vd_acknowledgment_private_key dev) \<and>
      vd_device_id dev \<noteq> [] \<and> vd_acknowledgment_key_id dev \<noteq> [] \<and> 0 \<le> vd_scan_counter dev \<and>
      le_permit_id lenv \<noteq> [] \<and> le_permit_id lenv \<notin> vd_consumed_permits dev \<and>
      16 \<le> length (le_permit_nonce lenv) \<and> le_permit_nonce lenv \<notin> vd_consumed_nonces dev \<and>
      le_command_id lenv \<notin> vd_consumed_commands dev \<and> env_decision_id (le_decide lenv) \<noteq> [] \<and>
      dx_acknowledgment_id env \<noteq> [] \<and> dx_assessment_id env \<noteq> [] \<and>
      le_issued_at lenv \<le> dx_clock env 0 \<and> dx_clock env 0 < expiry \<and> dx_clock env 1 < expiry \<and>
      le_issued_at lenv \<le> dx_clock env 2 \<and> dx_clock env 2 < expiry)"

lemma loop_configured_ready:
  assumes conf: "loop_configured rt ctl lenv dev env" and c: "translate (co_bindings ctl) (le_command_id lenv) p = Inr c"
    and iss: "issue rt (co_issuer ctl) (le_issued_at lenv) (le_permit_id lenv) (le_permit_nonce lenv) chain p d c a = Inr permit"
  shows "device_ready rt (co_issuer ctl) dev env permit"
  by (rule issueD [OF iss]) (use conf translateD(5) [OF c] in \<open>simp add: loop_configured_def device_ready_def Let_def\<close>)

lemma loop_completes:
  assumes rt: "digests_ok rt" "signatures_ok rt" and inv: "plant_inv pw pl" and p: "action_proposal_valid p"
    and capture: "capture_state rt pw t pl = (Inr pre, observed)"
    and gs: "physical_state_to_gateway_state pre = Inr gs"
    and dec: "decide rt (le_decide lenv) gw p gs (Some (le_clock lenv)) = (gw1, d)" "dec_outcome d = PERMIT"
    and log: "evidence_verify rt (gw_evidence gw)"
      "\<forall>r \<in> set (gw_evidence gw). Some (ev_record_hash r) \<noteq> dec_evidence_record_hash d"
    and names: "gw_policy_version gw \<noteq> []" "sk_version (gw_safety gw) \<noteq> []"
    and c: "translate (co_bindings ctl) (le_command_id lenv) p = Inr c"
    and sim: "simulate_candidate rt pw i observed c = Inr a" "ca_safe a"
    and conf: "loop_configured rt ctl lenv dev env"
  shows "\<exists>r gw' dev' pl'. closed_loop_execute rt (in_process_ops rt pw t i env (vd_device_id dev)
        (vd_acknowledgment_key_id dev)) ctl lenv p (gw, dev, pl) = (Inr r, gw', dev', pl') \<and>
      cl_status r = COMPLETED \<and> (\<exists>post. read_state rt pw pl' = Inr post \<and> cl_post_state r = Some post \<and>
        ps_state_digest post = ps_state_digest (ca_post_state a)) \<and> le_permit_id lenv \<in> vd_consumed_permits dev'"
proof -
  have inv': "plant_inv pw observed" using inv capture capture_reads(2) [of pw rt t pl] by simp
  have "read_state rt pw observed = Inr pre" using capture capture_reads(1) [of rt pw t pl] by simp
  with sim(1) have pre: "ca_pre_state a = pre" "assessment_valid rt a" "ca_command_digest a = command_digest rt c"
    by (auto elim: simulate_candidateD)
  obtain permit where iss: "issue rt (co_issuer ctl) (le_issued_at lenv) (le_permit_id lenv) (le_permit_nonce lenv)
        (gw_evidence gw1) p d c a = Inr permit"
    using issue_succeeds [OF rt(1) p dec log _ names c pre(2) sim(2) pre(3) gs [folded pre(1)]] conf
    by (simp add: loop_configured_def Let_def) blast
  have permit: "ep_permit_id permit = le_permit_id lenv" "ep_issued_at permit = le_issued_at lenv"
    "ep_expires_at permit = le_issued_at lenv + pi_time_to_live (co_issuer ctl)"
    by (rule issueD [OF iss], simp)+
  from issued_permit_acknowledged [OF rt inv' sim(1) iss loop_configured_ready [OF conf c iss]] obtain k pl' s where
    ex: "execute_locked rt (pandapower_ops rt pw) env permit p d a (dev, observed) =
      (Inr k, consume_permit permit (scanned dev), pl')"
    and k: "acknowledge rt env (consume_permit permit (scanned dev)) permit APPLIED ''command_applied_and_read_back''
         (dx_clock env 2) (ca_pre_state a) (Some s) = Inr k"
    and rd: "read_state rt pw pl' = Inr s" and dig: "ps_state_digest s = ps_state_digest (ca_post_state a)"
    and app: "apply_authorized_command rt pw (dx_observation_clock env) (expectations_of a) c observed = (Inr s, pl')"
    by blast
  have ver: "verify_for_transaction rt k (co_acknowledgment_public_key ctl) permit pre s (vd_device_id dev)
      (vd_acknowledgment_key_id dev)" "readback_matches k s" "ck_status k = APPLIED"
    using applied_acknowledgment_verifies [OF rt inv' sim(1) iss app k] conf
    by (simp_all add: loop_configured_def Let_def permit pre(1))
  define ops where "ops = in_process_ops rt pw t i env (vd_device_id dev) (vd_acknowledgment_key_id dev)"
  define di where "di = \<lparr>di_status = COMPLETED, di_reasons = [''command_applied_acknowledged_and_read_back''],
      di_command = Some c, di_assessment = Some a, di_permit = Some permit, di_acknowledgment = Some k,
      di_post_state = Some s, di_last_observed_state = None\<rparr>"
  have "dispatch_permit rt ops ctl p pre d c a permit (dev, observed) = (di, consume_permit permit (scanned dev), pl')"
    using ex rd ver by (simp add: dispatch_permit_def ops_def classify_acknowledgment_def di_def)
  then have steps: "permitted_steps rt ops ctl lenv (gw_evidence gw1) p pre d (dev, observed) =
      (Inr di, consume_permit permit (scanned dev), pl')"
    using c sim iss by (simp add: permitted_steps_def ops_def)
  have digest: "ck_post_state_digest k = Some (ps_state_digest s)" using ver(2) by (simp add: readback_matches_def)
  obtain r gw' where rec: "record_disposition rt lenv p pre d di gw1 = (Inr r, gw')"
    using ver(3) digest evidence_append_hex [OF rt(1)]
    by (simp add: record_disposition_def di_def Let_def case_prod_beta make_closed_loop_result_def require_terminal_shape_def)
  have "closed_loop_execute rt ops ctl lenv p (gw, dev, pl) = (Inr r, gw', consume_permit permit (scanned dev), pl')"
    using steps capture dec gs rec by (simp add: closed_loop_execute_def ops_def)
  then show ?thesis
    using record_dispositionD(1,10) [OF rec] rd dig by (auto simp: ops_def [symmetric] di_def permit)
qed

text \<open>
  (C14) Progress of the closed loop: when the gateway permits the proposal for the observed state, the
  proposal translates to a command and the plant's candidate for it is safe, then a controller whose
  issuer, device and keys are configured for each other, with identifiers that the device has not seen
  and clock readings within the permit's life time, completes: the plant reports the candidate's
  state, and the device holds the permit as consumed.
\<close>
theorem closed_loop_completes:
  assumes rt: "digests_ok rt" "signatures_ok rt" and inv: "plant_inv pw pl" and p: "action_proposal_valid p"
    and capture: "capture_state rt pw t pl = (Inr pre, observed)"
    and gs: "physical_state_to_gateway_state pre = Inr gs"
    and dec: "decide rt (le_decide lenv) gw p gs (Some (le_clock lenv)) = (gw1, d)" "dec_outcome d = PERMIT"
    and log: "evidence_verify rt (gw_evidence gw)"
      "\<forall>r \<in> set (gw_evidence gw). Some (ev_record_hash r) \<noteq> dec_evidence_record_hash d"
    and names: "gw_policy_version gw \<noteq> []" "sk_version (gw_safety gw) \<noteq> []"
    and c: "translate (co_bindings ctl) (le_command_id lenv) p = Inr c"
    and sim: "simulate_candidate rt pw i observed c = Inr a" "ca_safe a"
    and conf: "loop_configured rt ctl lenv dev env"
  shows "\<exists>r gw' dev' pl'. closed_loop_execute rt (in_process_ops rt pw t i env (vd_device_id dev)
        (vd_acknowledgment_key_id dev)) ctl lenv p (gw, dev, pl) = (Inr r, gw', dev', pl') \<and>
      cl_status r = COMPLETED \<and> (\<exists>post. read_state rt pw pl' = Inr post \<and> cl_post_state r = Some post \<and>
        ps_state_digest post = ps_state_digest (ca_post_state a)) \<and> le_permit_id lenv \<in> vd_consumed_permits dev'"
  by (rule loop_completes [OF assms])

section \<open>A concrete loop\<close>

definition demo_observed :: plant where
  "demo_observed = demo_plant\<lparr>pl_observed_at := 0, pl_observation_sequence := 1\<rparr>"

definition demo_plant_proposal :: action_proposal where
  "demo_plant_proposal = demo_proposal\<lparr>ap_observed_state_version := 0\<rparr>"

definition demo_issuer :: permit_issuer where
  "demo_issuer = \<lparr>pi_private_key = ''issuer-key'', pi_signing_key_id = ''issuer-1'', pi_audience = ''device:plc-1'',
     pi_time_to_live = seconds 2\<rparr>"

definition demo_controller :: controller where
  "demo_controller = \<lparr>co_bindings = default_resource_bindings, co_issuer = demo_issuer,
     co_acknowledgment_public_key = ''device-key''\<rparr>"

definition demo_device :: virtual_device where
  "demo_device = \<lparr>vd_device_id = ''plc-1'', vd_permit_audience = ''device:plc-1'',
     vd_permit_public_keys = [''issuer-1'' \<mapsto> ''issuer-key''], vd_acknowledgment_private_key = ''device-key'',
     vd_acknowledgment_key_id = ''ack-1'', vd_consumed_permits = {}, vd_consumed_nonces = {}, vd_consumed_commands = {},
     vd_scan_counter = 0\<rparr>"

definition demo_device_env :: device_env where
  "demo_device_env = \<lparr>dx_clock = (\<lambda>_. 1), dx_observation_clock = 1, dx_acknowledgment_id = ''ack-id-1'',
     dx_assessment_id = ''assessment-2''\<rparr>"

definition demo_loop_env :: loop_env where
  "demo_loop_env = \<lparr>le_clock = 0, le_decide = demo_env, le_command_id = ''command-1'', le_issued_at = 0,
     le_permit_id = ''permit-1'', le_permit_nonce = ''permit-nonce-0001'', le_recorded_at = 2\<rparr>"

lemma demo_configured: "loop_configured demo_runtime demo_controller demo_loop_env demo_device demo_device_env"
  by (simp add: loop_configured_def demo_controller_def demo_loop_env_def demo_device_def demo_device_env_def
      demo_issuer_def issuer_ok_def demo_env_def Let_def)

lemma demo_observed_snapshot: "plant_snapshot rt pw demo_observed = plant_snapshot rt pw demo_plant"
  by (intro ext) (simp add: plant_snapshot_def demo_observed_def)

lemma demo_observed_integrity: "assert_model_integrity demo_runtime demo_pandapower demo_observed = Inr ()"
  by (simp add: assert_model_integrity_def demo_observed_def demo_plant_eq check_def)

lemma demo_observed_fields [simp]:
  "pl_net demo_observed = pl_net demo_plant" "pl_state_version demo_observed = 0"
  "pl_simulation_time_s demo_observed = Fin 0" "pl_observed_at demo_observed = 0"
  "pl_observation_sequence demo_observed = 1" "nt_converged (pl_net demo_plant)"
  "pl_step_seconds demo_observed = Fin 1" "pl_step_delta demo_observed = seconds 1"
  by (simp_all add: demo_observed_def demo_plant_eq)

lemma demo_translates:
  "translate default_resource_bindings ''command-1'' demo_plant_proposal = Inr demo_command"
  using demo_command_valid
  by (simp add: translate_def demo_plant_proposal_def demo_proposal_def default_resource_bindings_def demo_command_def
      make_command_def)

lemma demo_observed_simulates:
  obtains pre a where "read_state demo_runtime demo_pandapower demo_observed = Inr pre"
    "simulate_candidate demo_runtime demo_pandapower ''assessment-1'' demo_observed demo_command = Inr a" "ca_safe a"
proof -
  obtain pre where snap: "plant_snapshot demo_runtime demo_pandapower demo_plant (pl_net demo_plant) 0 (Fin 0) 0 1 True = Inr pre"
    using demo_snapshot_ok [of "pl_net demo_plant" 0 1 "Fin 0" 0]
    by (auto simp: demo_plant_eq demo_network_def nonneg_def)
  then have pre: "read_state demo_runtime demo_pandapower demo_observed = Inr pre"
    by (simp add: read_state_def demo_observed_integrity demo_observed_snapshot)
  obtain post where post: "plant_snapshot demo_runtime demo_pandapower demo_plant demo_opened 1 (Fin 1) (seconds 1) 2 True = Inr post"
    "\<not> ps_unsafe_state post"
    using demo_snapshot_ok [of demo_opened 1 2 "Fin 1" "seconds 1"]
    by (auto simp: demo_opened_def demo_plant_eq demo_network_def nonneg_def)
  have net: "apply_to_network demo_observed (pl_net demo_observed) demo_command = Inr demo_opened"
    using demo_applied_network by (simp add: apply_to_network_def validate_command_def demo_observed_def)
  obtain a where "simulate_candidate demo_runtime demo_pandapower ''assessment-1'' demo_observed demo_command = Inr a" "ca_safe a"
    using simulate_candidate_total [OF demo_runtime_ok(1) _ _ _ demo_observed_integrity pre net demo_solved,
        of "''assessment-1''" post] post
    by (auto simp: demo_observed_snapshot)
  with pre show thesis by (rule that)
qed

definition demo_gateway_state :: system_state where
  "demo_gateway_state =
     \<lparr>ss_version = 0, ss_observed_at = 0, ss_critical_load_served_pct = Fin 100, ss_minimum_voltage_pu = Fin 1,
      ss_maximum_voltage_pu = Fin 1, ss_maximum_line_loading_pct = Fin 50, ss_isolated_assets = {},
      ss_battery_dispatch_mw = Fin 0\<rparr>"

lemma demo_gateway_state_valid: "system_state_valid demo_gateway_state"
  by (simp add: system_state_valid_def demo_gateway_state_def)

lemma demo_projects:
  assumes "read_state demo_runtime demo_pandapower demo_observed = Inr pre"
  shows "physical_state_to_gateway_state pre = Inr demo_gateway_state"
proof -
  have snap: "plant_snapshot demo_runtime demo_pandapower demo_plant (pl_net demo_plant) 0 (Fin 0) 0 1 True = Inr pre"
    using assms by (simp add: read_state_def demo_observed_integrity demo_observed_snapshot)
  note F = plant_snapshot_fields [OF snap]
  have loads: "load_totals default_priority_load_indices True [Some (Fin 1)] (nt_loads demo_network)
      (Fin 0, Fin 0, Fin 0, Fin 0) = Inr (Fin 4, Fin 4, Fin 4, Fin 4)"
    by (simp add: demo_network_def default_priority_load_indices_def)
  have pct: "served_pct (Fin 4) (Fin 4) = Fin 100" by (simp add: served_pct_def)
  have net: "nt_res_bus_vm_pu (pl_net demo_plant) = [Fin 1]" "nt_res_line_loading (pl_net demo_plant) = [Fin 50]"
    "nt_loads (pl_net demo_plant) = nt_loads demo_network"
    "pl_priority_load_indices demo_plant = default_priority_load_indices" by (simp_all add: demo_plant_eq)
  have m: "ps_minimum_voltage_pu pre = Some (Fin 1)" "ps_maximum_voltage_pu pre = Some (Fin 1)"
    "ps_maximum_line_loading_pct pre = Some (Fin 50)" "ps_priority_load_served_pct pre = Fin 100"
    using snap
    by (auto simp: plant_snapshot_def Let_def res_simps net finite_tuple_def loads pct with_digests_def)
  have iso: "ps_isolated_resources pre = []" and inj: "ps_battery_injection_mw pre = [(''battery-1'', Fin 0)]"
    unfolding F by (simp_all add: demo_plant_eq default_resource_bindings_def isolated_of_def
        battery_injection_of_def sorted_bindings_def demo_network_def)
  show ?thesis
    using demo_gateway_state_valid
    by (simp add: physical_state_to_gateway_state_def m F(2,4,6) iso inj make_system_state_def demo_gateway_state_def)
qed

lemma demo_plant_proposal_valid: "action_proposal_valid demo_plant_proposal"
  using demo_proposal_valid
  by (simp add: action_proposal_valid_def make_action_proposal_def proposal_fields_ok_def len_between_def
      require_operation_parameters_def percentages_in_range_def percentage_parameters_def demo_proposal_def demo_plant_proposal_def)

lemma demo_plant_transition: "within_limits default_limits (transition demo_plant_proposal demo_gateway_state)"
  by (simp add: within_limits_def default_limits_def transition_def Let_def demo_proposal_def demo_plant_proposal_def
      demo_gateway_state_def param_def fsub_def fmax_def fmin_def)

lemma demo_plant_permit:
  "dec_outcome (snd (decide demo_runtime demo_env demo_gateway demo_plant_proposal demo_gateway_state (Some 0))) = PERMIT"
proof -
  have "authorised demo_runtime demo_gateway demo_plant_proposal demo_gateway_state 0"
    by (rule lab_fresh_authorised [OF demo_runtime_ok(2) demo_build _ _ _ _ _ _ _ _ _ _ _ _ _ demo_plant_transition])
      (simp_all add: demo_plant_proposal_def demo_proposal_def demo_gateway_state_def)
  then have "all_reasons demo_runtime demo_gateway demo_plant_proposal demo_gateway_state 0 = []"
    using all_reasons_empty [OF demo_gateway_ok demo_plant_proposal_valid demo_gateway_state_valid] by simp
  then show ?thesis by (simp add: decide_outcome Let_def evaluation_time_def no_gate_admitted)
qed

lemma demo_plant_inv: "plant_inv demo_pandapower demo_plant"
  using demo_pandapower_ok demo_bindings_ok by (simp add: plant_inv_def)

lemma demo_capture: "read_state demo_runtime demo_pandapower demo_observed = Inr pre \<Longrightarrow>
    capture_state demo_runtime demo_pandapower 0 demo_plant = (Inr pre, demo_observed)"
  by (simp add: capture_state_def demo_observed_def demo_plant_eq)

lemma demo_versions: "gw_policy_version demo_gateway \<noteq> []" "sk_version (gw_safety demo_gateway) \<noteq> []"
proof -
  have "no_whitespace ''agent:operator-1''" by code_simp
  then show "gw_policy_version demo_gateway \<noteq> []" "sk_version (gw_safety demo_gateway) \<noteq> []"
    by (simp_all add: demo_lab_def build_local_lab_def Let_def default_kernel_def default_policy_def)
qed

abbreviation "demo_ops \<equiv> in_process_ops demo_runtime demo_pandapower 0 ''assessment-1'' demo_device_env ''plc-1'' ''ack-1''"

lemma demo_loop:
  obtains pre a gw1 where "capture_state demo_runtime demo_pandapower 0 demo_plant = (Inr pre, demo_observed)"
    "physical_state_to_gateway_state pre = Inr demo_gateway_state"
    "decide demo_runtime (le_decide demo_loop_env) demo_gateway demo_plant_proposal demo_gateway_state
       (Some (le_clock demo_loop_env)) =
     (gw1, snd (decide demo_runtime demo_env demo_gateway demo_plant_proposal demo_gateway_state (Some 0)))"
    "translate (co_bindings demo_controller) (le_command_id demo_loop_env) demo_plant_proposal = Inr demo_command"
    "simulate_candidate demo_runtime demo_pandapower ''assessment-1'' demo_observed demo_command = Inr a" "ca_safe a"
proof -
  obtain pre a where pre: "read_state demo_runtime demo_pandapower demo_observed = Inr pre"
    and sim: "simulate_candidate demo_runtime demo_pandapower ''assessment-1'' demo_observed demo_command = Inr a" "ca_safe a"
    by (rule demo_observed_simulates)
  have env: "le_decide demo_loop_env = demo_env" "le_clock demo_loop_env = 0" "le_command_id demo_loop_env = ''command-1''"
    "co_bindings demo_controller = default_resource_bindings"
    by (simp_all add: demo_loop_env_def demo_controller_def)
  show thesis
    by (rule that [OF demo_capture [OF pre] demo_projects [OF pre] _ _ sim, unfolded env])
      (simp_all add: demo_translates prod_eq_iff)
qed

lemma demo_loop_names [simp]:
  "vd_device_id demo_device = ''plc-1''" "vd_acknowledgment_key_id demo_device = ''ack-1''"
  "le_permit_id demo_loop_env = ''permit-1''"
  by (simp_all add: demo_device_def demo_loop_env_def)

lemma demo_log:
  "evidence_verify demo_runtime (gw_evidence demo_gateway)" "\<forall>r \<in> set (gw_evidence demo_gateway). P r"
  by (simp_all add: evidence_verify_def)

lemma demo_loop_completes:
  "\<exists>r gw' dev' pl'. closed_loop_execute demo_runtime demo_ops demo_controller demo_loop_env demo_plant_proposal
       (demo_gateway, demo_device, demo_plant) = (Inr r, gw', dev', pl') \<and> cl_status r = COMPLETED"
proof -
  obtain pre a gw1 where steps: "capture_state demo_runtime demo_pandapower 0 demo_plant = (Inr pre, demo_observed)"
    "physical_state_to_gateway_state pre = Inr demo_gateway_state"
    "decide demo_runtime (le_decide demo_loop_env) demo_gateway demo_plant_proposal demo_gateway_state
       (Some (le_clock demo_loop_env)) =
     (gw1, snd (decide demo_runtime demo_env demo_gateway demo_plant_proposal demo_gateway_state (Some 0)))"
    "translate (co_bindings demo_controller) (le_command_id demo_loop_env) demo_plant_proposal = Inr demo_command"
    "simulate_candidate demo_runtime demo_pandapower ''assessment-1'' demo_observed demo_command = Inr a" "ca_safe a"
    by (rule demo_loop)
  from loop_completes [OF demo_runtime_ok(1,2) demo_plant_inv demo_plant_proposal_valid steps(1-3) demo_plant_permit
      demo_log demo_versions steps(4-6) demo_configured] show ?thesis by auto
qed

theorem closed_loop_completes_witness:
  "\<exists>r gw' dev' pl'. closed_loop_execute demo_runtime demo_ops demo_controller demo_loop_env demo_plant_proposal
       (demo_gateway, demo_device, demo_plant) = (Inr r, gw', dev', pl') \<and> cl_status r = COMPLETED \<and>
     ''permit-1'' \<in> vd_consumed_permits dev'"
proof -
  obtain pre a gw1 where steps: "capture_state demo_runtime demo_pandapower 0 demo_plant = (Inr pre, demo_observed)"
    "physical_state_to_gateway_state pre = Inr demo_gateway_state"
    "decide demo_runtime (le_decide demo_loop_env) demo_gateway demo_plant_proposal demo_gateway_state
       (Some (le_clock demo_loop_env)) =
     (gw1, snd (decide demo_runtime demo_env demo_gateway demo_plant_proposal demo_gateway_state (Some 0)))"
    "translate (co_bindings demo_controller) (le_command_id demo_loop_env) demo_plant_proposal = Inr demo_command"
    "simulate_candidate demo_runtime demo_pandapower ''assessment-1'' demo_observed demo_command = Inr a" "ca_safe a"
    by (rule demo_loop)
  from closed_loop_completes [OF demo_runtime_ok(1,2) demo_plant_inv demo_plant_proposal_valid steps(1-3) demo_plant_permit
      demo_log demo_versions steps(4-6) demo_configured] show ?thesis by fastforce
qed

theorem closed_loop_truthful_witness:
  "\<exists>r gw' dev' pl' post. closed_loop_execute demo_runtime demo_ops demo_controller demo_loop_env demo_plant_proposal
       (demo_gateway, demo_device, demo_plant) = (Inr r, gw', dev', pl') \<and>
     read_state demo_runtime demo_pandapower pl' = Inr post \<and> \<not> ps_unsafe_state post"
proof -
  obtain r gw' dev' pl' where call: "closed_loop_execute demo_runtime demo_ops demo_controller demo_loop_env demo_plant_proposal
       (demo_gateway, demo_device, demo_plant) = (Inr r, gw', dev', pl')" and st: "cl_status r = COMPLETED"
    using demo_loop_completes by blast
  from closed_loop_truthful [OF demo_plant_inv call] st call show ?thesis
    by (auto simp: Let_def disposition_truthful_def)
qed

lemma device_checks_pass:
  assumes "first_failed (device_checks rt dev permit p d a pre t) = None"
  obtains key where "vd_permit_public_keys dev (ep_signing_key_id permit) = Some key" "permit_verify rt permit key"
    "ep_audience permit = vd_permit_audience dev" "ep_issued_at permit \<le> t" "dec_outcome d = PERMIT"
    "dec_proposal_id d = ap_proposal_id p" "ep_proposal_digest permit = proposal_digest rt p"
    "ep_decision_id permit = dec_decision_id d" "ca_safe a" "ep_assessment_digest permit = assessment_digest rt a"
    "ep_permit_id permit \<notin> vd_consumed_permits dev" "ep_permit_nonce permit \<notin> vd_consumed_nonces dev"
    "pc_command_id (ep_command permit) \<notin> vd_consumed_commands dev" "verify_digest rt pre"
    "ep_state_digest permit = ps_state_digest pre" "ep_observation_digest permit = ps_observation_digest pre"
  using assms by (auto simp: device_checks_def Let_def split: if_splits option.splits)

definition plant_change_authorized ::
  "runtime \<Rightarrow> pandapower \<Rightarrow> device_env \<Rightarrow> virtual_device \<Rightarrow> permit \<Rightarrow> action_proposal \<Rightarrow> decision \<Rightarrow> assessment \<Rightarrow>
   plant \<Rightarrow> virtual_device \<Rightarrow> plant \<Rightarrow> bool" where
  "plant_change_authorized rt pw env dev permit p d a pl dev' pl' \<longleftrightarrow>
     (\<exists>key pre post. vd_permit_public_keys dev (ep_signing_key_id permit) = Some key \<and> permit_verify rt permit key \<and>
        ep_audience permit = vd_permit_audience dev \<and> ep_issued_at permit \<le> dx_clock env 0 \<and>
        dx_clock env 1 < ep_expires_at permit \<and> dec_outcome d = PERMIT \<and> dec_proposal_id d = ap_proposal_id p \<and>
        ep_decision_id permit = dec_decision_id d \<and> ep_proposal_digest permit = proposal_digest rt p \<and>
        ca_safe a \<and> ep_assessment_digest permit = assessment_digest rt a \<and>
        ep_permit_id permit \<notin> vd_consumed_permits dev \<and> ep_permit_id permit \<in> vd_consumed_permits dev' \<and>
        read_state rt pw pl = Inr pre \<and> ep_state_digest permit = ps_state_digest pre \<and>
        ep_observation_digest permit = ps_observation_digest pre \<and>
        read_state rt pw pl' = Inr post \<and> ps_state_digest post = ep_expected_post_state_digest permit \<and>
        ps_state_version post = ps_state_version pre + 1 \<and> \<not> ps_unsafe_state post \<and>
        actuator_setpoint post (ep_command permit) = pc_setpoint (ep_command permit))"

lemma prepared_expected: "prepare_command rt pw now x c pl = Inr (s, pl') \<Longrightarrow> expected (ax_post_state_digest x) (ps_state_digest s)"
  by (rule prepare_commandD)

lemma device_change_authorized:
  assumes inv: "plant_inv pw pl" and c: "command_valid (ep_command permit)"
    and call: "execute_locked rt (pandapower_ops rt pw) env permit p d a (dev, pl) = (result, dev', pl')"
  shows "pl' = pl \<or> plant_change_authorized rt pw env dev permit p d a pl dev' pl'"
  using call
proof (cases rule: execute_locked_cases)
  case (dispatched pre fresh)
  from dispatched(7) obtain plant_result where app: "po_apply (pandapower_ops rt pw) (dx_observation_clock env)
      (permit_expectations permit) (ep_command permit) pl = (plant_result, pl')"
    and dev': "dev' = consume_permit permit (scanned dev)" by (rule device_dispatch_cases)
  show ?thesis
  proof (cases plant_result)
    case (Inl e)
    then show ?thesis using cigre.failed_apply [OF inv] app by simp
  next
    case (Inr post)
    note applied = app [unfolded Inr]
    have dig: "ps_state_digest post = ep_expected_post_state_digest permit"
      using applied prepared_expected [of rt pw "dx_observation_clock env" "permit_expectations permit"]
      by (simp add: pandapower_ops_def applied_prepared) (fastforce simp: permit_expectations_def expected_def)
    note facts = cigre.applied_reads [OF inv applied] cigre.applied_safe [OF inv applied]
      cigre.applied_setpoint [OF inv c applied] cigre.applied_version [OF inv applied dispatched(1)]
    show ?thesis
      by (rule device_checks_pass [OF dispatched(2)])
        (use dig facts dispatched(1,6) in \<open>auto simp: plant_change_authorized_def dev' pandapower_ops_def\<close>)
  qed
qed simp

text \<open>
  (C8) Whatever permit, decision and assessment a caller presents, the device lets the plant change only
  when the permit verifies under a key that the device trusts, is addressed to it, is in force at the
  check and before the dispatch, was not used, and binds the presented permitting decision and safe
  assessment to the state and observation that the plant reports; the plant is then in the permit's
  expected state, one version on, safe, with the commanded setpoint. An acknowledgment that says
  rejected means that nothing changed, and one that says applied names the state the plant reports.
\<close>
theorem device_changes_only_when_authorized:
  assumes "plant_inv pw pl" "command_valid (ep_command permit)"
    and "execute_locked rt (pandapower_ops rt pw) env permit p d a (dev, pl) = (result, dev', pl')"
  shows "(pl' = pl \<or> plant_change_authorized rt pw env dev permit p d a pl dev' pl') \<and>
    (case result of
       Inl _ \<Rightarrow> True
     | Inr k \<Rightarrow> (ck_status k = REJECTED \<longrightarrow> pl' = pl) \<and>
         (ck_status k = APPLIED \<longrightarrow> (\<exists>post. read_state rt pw pl' = Inr post \<and>
            ck_post_state_digest k = Some (ps_state_digest post) \<and>
            ck_post_actuator_setpoint k = Some (pc_setpoint (ep_command permit)))))"
proof (intro conjI device_change_authorized [OF assms])
  show "case result of
       Inl _ \<Rightarrow> True
     | Inr k \<Rightarrow> (ck_status k = REJECTED \<longrightarrow> pl' = pl) \<and>
         (ck_status k = APPLIED \<longrightarrow> (\<exists>post. read_state rt pw pl' = Inr post \<and>
            ck_post_state_digest k = Some (ps_state_digest post) \<and>
            ck_post_actuator_setpoint k = Some (pc_setpoint (ep_command permit))))"
  proof (cases result)
    case (Inr k)
    from cigre.device_truthful [OF assms(1,2) assms(3) [unfolded Inr]] show ?thesis
      by (auto simp: Inr pandapower_ops_def)
  qed simp
qed

lemma demo_device_run:
  obtains permit d a k dev' pl' where "command_valid (ep_command permit)"
    "execute_locked demo_runtime (pandapower_ops demo_runtime demo_pandapower) demo_device_env permit demo_plant_proposal d a
       (demo_device, demo_observed) = (Inr k, dev', pl')" "pl' \<noteq> demo_observed"
proof -
  obtain pre a gw1 where steps: "capture_state demo_runtime demo_pandapower 0 demo_plant = (Inr pre, demo_observed)"
    "physical_state_to_gateway_state pre = Inr demo_gateway_state"
    "decide demo_runtime (le_decide demo_loop_env) demo_gateway demo_plant_proposal demo_gateway_state
       (Some (le_clock demo_loop_env)) =
     (gw1, snd (decide demo_runtime demo_env demo_gateway demo_plant_proposal demo_gateway_state (Some 0)))"
    "translate (co_bindings demo_controller) (le_command_id demo_loop_env) demo_plant_proposal = Inr demo_command"
    and sim: "simulate_candidate demo_runtime demo_pandapower ''assessment-1'' demo_observed demo_command = Inr a" "ca_safe a"
    by (rule demo_loop)
  have "read_state demo_runtime demo_pandapower demo_observed = Inr pre"
    using steps(1) capture_reads(1) [of demo_runtime demo_pandapower 0 demo_plant] by simp
  with sim(1) have pre: "ca_pre_state a = pre" "assessment_valid demo_runtime a"
      "ca_command_digest a = command_digest demo_runtime demo_command" by (auto elim: simulate_candidateD)
  have inv: "plant_inv demo_pandapower demo_observed" using demo_plant_inv by (simp add: plant_inv_def demo_observed_def)
  have names: "env_decision_id (le_decide demo_loop_env) \<noteq> []" "issuer_ok demo_issuer" "co_issuer demo_controller = demo_issuer"
    "le_permit_id demo_loop_env \<noteq> []" "16 \<le> length (le_permit_nonce demo_loop_env)"
    by (simp_all add: demo_loop_env_def demo_env_def demo_issuer_def issuer_ok_def demo_controller_def)
  obtain permit where iss: "issue demo_runtime (co_issuer demo_controller) (le_issued_at demo_loop_env) (le_permit_id demo_loop_env)
      (le_permit_nonce demo_loop_env) (gw_evidence gw1) demo_plant_proposal
      (snd (decide demo_runtime demo_env demo_gateway demo_plant_proposal demo_gateway_state (Some 0))) demo_command a = Inr permit"
    using issue_succeeds [OF demo_runtime_ok(1) demo_plant_proposal_valid steps(3) demo_plant_permit demo_log names(1)
        demo_versions steps(4) pre(2) sim(2) pre(3) steps(2) [folded pre(1)] names(2,4,5)] unfolding names(3) by blast
  from issued_permit_acknowledged [OF demo_runtime_ok(1,2) inv sim(1) iss
      loop_configured_ready [OF demo_configured steps(4) iss]]
  obtain k pl' s where ex: "execute_locked demo_runtime (pandapower_ops demo_runtime demo_pandapower) demo_device_env permit
      demo_plant_proposal (snd (decide demo_runtime demo_env demo_gateway demo_plant_proposal demo_gateway_state (Some 0))) a
      (demo_device, demo_observed) = (Inr k, consume_permit permit (scanned demo_device), pl')"
    and app: "apply_authorized_command demo_runtime demo_pandapower (dx_observation_clock demo_device_env) (expectations_of a)
      demo_command demo_observed = (Inr s, pl')" by blast
  have "pl_state_version pl' = 1" using app unfolding applied_prepared by (rule prepare_commandD) simp
  then have "pl' \<noteq> demo_observed" by auto
  moreover have "command_valid (ep_command permit)" by (rule issueD [OF iss]) simp
  ultimately show thesis using ex that by blast
qed

theorem device_changes_only_when_authorized_witness:
  "\<exists>permit d a result dev' pl'. command_valid (ep_command permit) \<and>
     execute_locked demo_runtime (pandapower_ops demo_runtime demo_pandapower) demo_device_env permit demo_plant_proposal d a
       (demo_device, demo_observed) = (result, dev', pl') \<and> pl' \<noteq> demo_observed \<and>
     plant_change_authorized demo_runtime demo_pandapower demo_device_env demo_device permit demo_plant_proposal d a
       demo_observed dev' pl'"
proof -
  obtain permit d a k dev' pl' where run: "command_valid (ep_command permit)"
    "execute_locked demo_runtime (pandapower_ops demo_runtime demo_pandapower) demo_device_env permit demo_plant_proposal d a
       (demo_device, demo_observed) = (Inr k, dev', pl')" "pl' \<noteq> demo_observed" by (rule demo_device_run)
  have inv: "plant_inv demo_pandapower demo_observed" using demo_plant_inv by (simp add: plant_inv_def demo_observed_def)
  from device_changes_only_when_authorized [OF inv run(1,2)] run show ?thesis by blast
qed

end
