(* ===== verification/Modbus_Wire.thy ===== *)
theory Modbus_Wire
  imports Crypto
begin

text \<open>
  \<^verbatim>\<open>modbus_wire.py\<close>: the framing of requests and responses in Modbus holding registers. Registers and
  header fields are Python integers, so they are \<^typ>\<open>int\<close> here, with the shifts, masks and the
  range errors of the code; payloads are byte lists. The theory shows that every header and payload
  that can be encoded is decoded to the same value, that a decoded header is within its bounds, and
  that decoding and encoding again gives the same registers.
\<close>

unbundle bit_operations_syntax

section \<open>Constants and enumerations\<close>

definition wire_version :: int where "wire_version = 1"
definition request_header_registers :: nat where "request_header_registers = 32"
definition response_header_registers :: nat where "response_header_registers = 40"
definition request_payload_registers :: nat where "request_payload_registers = 4096"
definition max_payload_bytes :: nat where "max_payload_bytes = request_payload_registers * 2"
definition request_magic :: int where "request_magic = 0xAE63"
definition response_magic :: int where "response_magic = 0xAE64"

lemmas wire_constants = wire_version_def request_header_registers_def response_header_registers_def
  request_payload_registers_def max_payload_bytes_def request_magic_def response_magic_def

datatype control_word = BEGIN | COMMIT | RELEASE
datatype wire_operation = READ_STATE | SIMULATE_CANDIDATE | EXECUTE | HEALTH
datatype wire_status = IDLE | STAGING | PROCESSING | COMPLETE | REJECTED_BEFORE_DISPATCH | WIRE_UNKNOWN_EFFECT
datatype wire_result_code = OK | INVALID_HEADER | INVALID_PAYLOAD | INVALID_SCHEMA | APPLICATION_REJECTED
  | APPLICATION_UNKNOWN_EFFECT | INTERNAL_ERROR

text \<open>An \<^verbatim>\<open>IntEnum\<close>: its members with their values; the constructor call looks the value up.\<close>

definition control_words :: "(int \<times> control_word) list" where
  "control_words = [(0xA500, BEGIN), (0xA501, COMMIT), (0xA502, RELEASE)]"

definition wire_operations :: "(int \<times> wire_operation) list" where
  "wire_operations = [(1, READ_STATE), (2, SIMULATE_CANDIDATE), (3, EXECUTE), (4, HEALTH)]"

definition wire_statuses :: "(int \<times> wire_status) list" where
  "wire_statuses = [(0, IDLE), (1, STAGING), (2, PROCESSING), (3, COMPLETE), (4, REJECTED_BEFORE_DISPATCH),
     (5, WIRE_UNKNOWN_EFFECT)]"

definition wire_result_codes :: "(int \<times> wire_result_code) list" where
  "wire_result_codes = [(0, OK), (1, INVALID_HEADER), (2, INVALID_PAYLOAD), (3, INVALID_SCHEMA),
     (4, APPLICATION_REJECTED), (5, APPLICATION_UNKNOWN_EFFECT), (6, INTERNAL_ERROR)]"

fun enum_value :: "(int \<times> 'a) list \<Rightarrow> 'a \<Rightarrow> int" where
  "enum_value [] x = -1"
| "enum_value ((v, y) # es) x = (if x = y then v else enum_value es x)"

definition enum_of :: "(int \<times> 'a) list \<Rightarrow> int \<Rightarrow> 'a res" where
  "enum_of es v = (case map_of es v of None \<Rightarrow> Inl (ValueError ''is not a valid member'') | Some x \<Rightarrow> Inr x)"

section \<open>Bytes and registers\<close>

text \<open>\<^verbatim>\<open>int.to_bytes(2, "big")\<close> and \<^verbatim>\<open>int.from_bytes(..., "big")\<close>\<close>

definition to_bytes2 :: "int \<Rightarrow> nat list res" where
  "to_bytes2 v = (if 0 \<le> v \<and> v < 65536 then Inr [nat (v div 256), nat (v mod 256)] else Inl OverflowError)"

fun registers_of :: "nat list \<Rightarrow> int list" where
  "registers_of (a # b # r) = (int a * 256 + int b) # registers_of r"
| "registers_of [a] = [int a]"
| "registers_of [] = []"

definition bytes_to_registers :: "nat list \<Rightarrow> int list res" where
  "bytes_to_registers payload =
     (if max_payload_bytes < length payload then Inl (ValueError ''wire payload exceeds the fixed mailbox capacity'')
      else Inr (registers_of (payload @ (if length payload mod 2 \<noteq> 0 then [0] else []))))"

fun join_registers :: "int list \<Rightarrow> nat list res" where
  "join_registers [] = Inr []"
| "join_registers (v # vs) = bind_res (to_bytes2 v) (\<lambda>b. bind_res (join_registers vs) (\<lambda>bs. Inr (b @ bs)))"

definition registers_to_bytes :: "int list \<Rightarrow> int \<Rightarrow> nat list res" where
  "registers_to_bytes registers byte_length =
     (if byte_length < 0 \<or> byte_length > int max_payload_bytes
      then Inl (ValueError ''wire byte length is outside the mailbox capacity'')
      else if int (length registers) \<noteq> (byte_length + 1) div 2
      then Inl (ValueError ''wire register count does not match the declared byte length'')
      else bind_res (join_registers registers) (\<lambda>payload. Inr (take (nat byte_length) payload)))"

definition u32_registers :: "int \<Rightarrow> int list res" where
  "u32_registers value =
     (if \<not> (0 \<le> value \<and> value < 2 ^ 32) then Inl (ValueError ''value is outside unsigned 32-bit range'')
      else Inr [drop_bit 16 value AND 0xFFFF, value AND 0xFFFF])"

definition u64_registers :: "int \<Rightarrow> int list res" where
  "u64_registers value =
     (if \<not> (0 \<le> value \<and> value < 2 ^ 64) then Inl (ValueError ''value is outside unsigned 64-bit range'')
      else Inr (map (\<lambda>shift. drop_bit shift value AND 0xFFFF) [48, 32, 16, 0]))"

definition registers_u32 :: "int list \<Rightarrow> int res" where
  "registers_u32 values =
     (if length values \<noteq> 2 then Inl (ValueError ''unsigned 32-bit value requires two registers'')
      else Inr (push_bit 16 (values ! 0) OR values ! 1))"

definition registers_u64 :: "int list \<Rightarrow> int res" where
  "registers_u64 values =
     (if length values \<noteq> 4 then Inl (ValueError ''unsigned 64-bit value requires four registers'')
      else Inr (fold (\<lambda>value result. push_bit 16 result OR value) values 0))"

section \<open>Hexadecimal digests\<close>

definition hex_digits :: string where
  "hex_digits = ''0123456789abcdef''"

definition hex_value :: "char \<Rightarrow> nat option" where
  "hex_value c = (case index_of c hex_digits of Some v \<Rightarrow> Some v | None \<Rightarrow> index_of c ''0123456789ABCDEF'')"

text \<open>\<^verbatim>\<open>bytes.fromhex\<close>: digits in pairs, white space between the pairs is skipped.\<close>

definition ascii_space :: "char \<Rightarrow> bool" where
  "ascii_space c \<longleftrightarrow> (let n = (of_char c :: nat) in n \<in> {9, 10, 11, 12, 13, 32})"

fun from_hex :: "string \<Rightarrow> nat list res" where
  "from_hex [] = Inr []"
| "from_hex [c] =
     (if ascii_space c then Inr [] else Inl (ValueError ''non-hexadecimal number found in fromhex() arg''))"
| "from_hex (c # d # s) =
     (if ascii_space c then from_hex (d # s)
      else case (hex_value c, hex_value d) of
        (Some h, Some l) \<Rightarrow> bind_res (from_hex s) (\<lambda>bs. Inr ((h * 16 + l) # bs))
      | _ \<Rightarrow> Inl (ValueError ''non-hexadecimal number found in fromhex() arg''))"

definition to_hex :: "nat list \<Rightarrow> string" where
  "to_hex bs = concat (map (\<lambda>b. [hex_digits ! (b div 16), hex_digits ! (b mod 16)]) bs)"

text \<open>A slice beyond the end of the bytes is short, and the empty slice reads as zero.\<close>

fun from_bytes :: "nat list \<Rightarrow> int" where
  "from_bytes [] = 0"
| "from_bytes [a] = int a"
| "from_bytes (a # b # _) = int a * 256 + int b"

definition digest_registers :: "string \<Rightarrow> int list res" where
  "digest_registers digest =
     bind_res (from_hex digest) (\<lambda>raw. Inr (map (\<lambda>i. from_bytes (take 2 (drop (2 * i) raw))) [0..<16]))"

definition registers_digest :: "int list \<Rightarrow> string res" where
  "registers_digest values =
     (if length values \<noteq> 16 then Inl (ValueError ''SHA-256 requires sixteen registers'')
      else bind_res (join_registers values) (\<lambda>raw. Inr (to_hex raw)))"

section \<open>Headers\<close>

definition slice :: "nat \<Rightarrow> nat \<Rightarrow> 'a list \<Rightarrow> 'a list" where
  "slice lo hi xs = take (hi - lo) (drop lo xs)"

record request_header =
  rh_control :: control_word
  rh_operation :: wire_operation
  rh_transaction_id :: int
  rh_payload_byte_length :: int
  rh_payload_register_count :: int
  rh_payload_digest :: string

definition request_to_registers :: "request_header \<Rightarrow> int list res" where
  "request_to_registers h =
     bind_res (u64_registers (rh_transaction_id h)) (\<lambda>tid.
     bind_res (u32_registers (rh_payload_byte_length h)) (\<lambda>len.
     bind_res (digest_registers (rh_payload_digest h)) (\<lambda>dig.
       Inr ([enum_value control_words (rh_control h), request_magic, wire_version,
             enum_value wire_operations (rh_operation h)] @ tid @ len @
            [rh_payload_register_count h, 0] @ dig @ replicate 4 0))))"

definition dimensions_ok :: "int \<Rightarrow> int \<Rightarrow> bool" where
  "dimensions_ok byte_length register_count \<longleftrightarrow>
     \<not> (byte_length > int max_payload_bytes \<or> register_count \<noteq> (byte_length + 1) div 2)"

definition request_from_registers :: "int list \<Rightarrow> request_header res" where
  "request_from_registers values =
     (if length values \<noteq> request_header_registers then Inl (ValueError ''request header has the wrong register count'')
      else if values ! 1 \<noteq> request_magic \<or> values ! 2 \<noteq> wire_version
      then Inl (ValueError ''request header magic or version is invalid'')
      else if values ! 11 \<noteq> 0 \<or> list_ex (\<lambda>v. v \<noteq> 0) (slice 28 32 values)
      then Inl (ValueError ''request header reserved fields must be zero'')
      else bind_res (registers_u32 (slice 8 10 values)) (\<lambda>byte_length.
        if \<not> dimensions_ok byte_length (values ! 10) then Inl (ValueError ''request payload dimensions are invalid'')
        else bind_res (enum_of control_words (values ! 0)) (\<lambda>control.
          bind_res (enum_of wire_operations (values ! 3)) (\<lambda>operation.
          bind_res (registers_u64 (slice 4 8 values)) (\<lambda>transaction_id.
          bind_res (registers_digest (slice 12 28 values)) (\<lambda>payload_digest.
            Inr \<lparr>rh_control = control, rh_operation = operation, rh_transaction_id = transaction_id,
                 rh_payload_byte_length = byte_length, rh_payload_register_count = values ! 10,
                 rh_payload_digest = payload_digest\<rparr>))))))"

record response_header =
  sh_status :: wire_status
  sh_operation :: wire_operation
  sh_transaction_id :: int
  sh_payload_byte_length :: int
  sh_payload_register_count :: int
  sh_result_code :: wire_result_code
  sh_payload_digest :: string
  sh_device_transaction_counter :: int
  sh_state_version_hint :: int

definition response_to_registers :: "response_header \<Rightarrow> int list res" where
  "response_to_registers h =
     bind_res (u64_registers (sh_transaction_id h)) (\<lambda>tid.
     bind_res (u32_registers (sh_payload_byte_length h)) (\<lambda>len.
     bind_res (digest_registers (sh_payload_digest h)) (\<lambda>dig.
     bind_res (u64_registers (sh_device_transaction_counter h)) (\<lambda>counter.
     bind_res (u64_registers (sh_state_version_hint h)) (\<lambda>hint.
       Inr ([response_magic, wire_version, enum_value wire_statuses (sh_status h),
             enum_value wire_operations (sh_operation h)] @ tid @ len @
            [sh_payload_register_count h, enum_value wire_result_codes (sh_result_code h)] @ dig @
            counter @ hint @ replicate 4 0))))))"

definition response_from_registers :: "int list \<Rightarrow> response_header res" where
  "response_from_registers values =
     (if length values \<noteq> response_header_registers then Inl (ValueError ''response header has the wrong register count'')
      else if values ! 0 \<noteq> response_magic \<or> values ! 1 \<noteq> wire_version
      then Inl (ValueError ''response header magic or version is invalid'')
      else if list_ex (\<lambda>v. v \<noteq> 0) (slice 36 40 values)
      then Inl (ValueError ''response header reserved fields must be zero'')
      else bind_res (registers_u32 (slice 8 10 values)) (\<lambda>byte_length.
        if \<not> dimensions_ok byte_length (values ! 10) then Inl (ValueError ''response payload dimensions are invalid'')
        else bind_res (enum_of wire_statuses (values ! 2)) (\<lambda>status.
          bind_res (enum_of wire_operations (values ! 3)) (\<lambda>operation.
          bind_res (registers_u64 (slice 4 8 values)) (\<lambda>transaction_id.
          bind_res (enum_of wire_result_codes (values ! 11)) (\<lambda>result_code.
          bind_res (registers_digest (slice 12 28 values)) (\<lambda>payload_digest.
          bind_res (registers_u64 (slice 28 32 values)) (\<lambda>counter.
          bind_res (registers_u64 (slice 32 36 values)) (\<lambda>hint.
            Inr \<lparr>sh_status = status, sh_operation = operation, sh_transaction_id = transaction_id,
                 sh_payload_byte_length = byte_length, sh_payload_register_count = values ! 10,
                 sh_result_code = result_code, sh_payload_digest = payload_digest,
                 sh_device_transaction_counter = counter, sh_state_version_hint = hint\<rparr>)))))))))"

section \<open>Messages\<close>

record wire_request =
  wq_transaction_id :: int
  wq_operation :: wire_operation
  wq_payload :: "(string \<times> json) list"

definition in_u64 :: "int \<Rightarrow> bool" where
  "in_u64 v \<longleftrightarrow> 0 \<le> v \<and> v < 2 ^ 64"

definition make_wire_request :: "wire_request \<Rightarrow> wire_request res" where
  "make_wire_request q = (if in_u64 (wq_transaction_id q) then Inr q else Inl ValidationError)"

record signed_wire_response =
  wr_transaction_id :: int
  wr_operation :: wire_operation
  wr_request_digest :: string
  wr_status :: wire_status
  wr_result_code :: wire_result_code
  wr_payload :: "(string \<times> json) list"
  wr_payload_digest :: string
  wr_device_id :: string
  wr_device_key_id :: string
  wr_boot_epoch :: string
  wr_device_transaction_counter :: int
  wr_signature :: string

definition wire_response_valid :: "runtime \<Rightarrow> signed_wire_response \<Rightarrow> bool" where
  "wire_response_valid rt r \<longleftrightarrow>
     in_u64 (wr_transaction_id r) \<and> is_hex_digest (wr_request_digest r) \<and> is_hex_digest (wr_payload_digest r) \<and>
     wr_device_id r \<noteq> [] \<and> wr_device_key_id r \<noteq> [] \<and> 16 \<le> length (wr_boot_epoch r) \<and>
     1 \<le> wr_device_transaction_counter r \<and> wr_payload_digest r = canonical_digest rt (JObj (wr_payload r))"

definition make_wire_response :: "runtime \<Rightarrow> signed_wire_response \<Rightarrow> signed_wire_response res" where
  "make_wire_response rt r = (if wire_response_valid rt r then Inr r else Inl ValidationError)"

definition wire_response_signing_payload :: "signed_wire_response \<Rightarrow> payload" where
  "wire_response_signing_payload r = ('''', canonical (JObj [
     (''schema_version'', JStr ''modbus-wire-response-v1''),
     (''transaction_id'', JInt (wr_transaction_id r)),
     (''operation'', JInt (enum_value wire_operations (wr_operation r))),
     (''request_digest'', JStr (wr_request_digest r)),
     (''status'', JInt (enum_value wire_statuses (wr_status r))),
     (''result_code'', JInt (enum_value wire_result_codes (wr_result_code r))),
     (''payload'', JObj (wr_payload r)),
     (''payload_digest'', JStr (wr_payload_digest r)),
     (''device_id'', JStr (wr_device_id r)),
     (''device_key_id'', JStr (wr_device_key_id r)),
     (''boot_epoch'', JStr (wr_boot_epoch r)),
     (''device_transaction_counter'', JInt (wr_device_transaction_counter r))]))"

definition wire_response_signed :: "runtime \<Rightarrow> signed_wire_response \<Rightarrow> private_key \<Rightarrow> signed_wire_response" where
  "wire_response_signed rt r private_key =
     r\<lparr>wr_signature := sign_bytes rt private_key (wire_response_signing_payload r)\<rparr>"

definition wire_response_verify :: "runtime \<Rightarrow> signed_wire_response \<Rightarrow> public_key \<Rightarrow> bool" where
  "wire_response_verify rt r public_key \<longleftrightarrow> wr_signature r \<noteq> [] \<and>
     verify_bytes rt public_key (wire_response_signing_payload r) (wr_signature r)"

section \<open>Integers\<close>

definition is_register :: "int \<Rightarrow> bool" where
  "is_register v \<longleftrightarrow> 0 \<le> v \<and> v < 65536"

lemma and_FFFF: "(v :: int) AND 0xFFFF = take_bit 16 v"
  by (simp add: take_bit_eq_mask mask_eq_exp_minus_1)

lemma take_bit_register [simp]: "is_register (take_bit 16 v)"
  by (simp add: is_register_def take_bit_eq_mod)

lemma register_take_bit: "is_register v \<longleftrightarrow> take_bit 16 v = v"
  by (simp add: is_register_def take_bit_int_eq_self_iff)

lemma u32_join: "push_bit 16 (take_bit 16 (drop_bit 16 v)) OR take_bit 16 v = take_bit 32 (v :: int)"
  by (rule bit_eqI) (auto simp: bit_simps)

definition join32 :: "int \<Rightarrow> int \<Rightarrow> int" where
  "join32 a b = push_bit 16 (take_bit 16 a) OR take_bit 16 b"

lemma u32_split:
  "take_bit 16 (drop_bit 16 (join32 a b)) = take_bit 16 a" "take_bit 16 (join32 a b) = take_bit 16 b"
  "take_bit 32 (join32 a b) = join32 a b"
  unfolding join32_def by (rule bit_eqI, auto simp: bit_simps)+

lemma u64_join:
  "push_bit 16 (push_bit 16 (push_bit 16 (take_bit 16 (drop_bit 48 v)) OR take_bit 16 (drop_bit 32 v)) OR
     take_bit 16 (drop_bit 16 v)) OR take_bit 16 v = take_bit 64 (v :: int)"
proof (rule bit_eqI)
  fix n :: nat
  consider "n < 16" | "16 \<le> n" "n < 32" | "32 \<le> n" "n < 48" | "48 \<le> n" "n < 64" | "64 \<le> n" by linarith
  then show "bit (push_bit 16 (push_bit 16 (push_bit 16 (take_bit 16 (drop_bit 48 v)) OR take_bit 16 (drop_bit 32 v)) OR
      take_bit 16 (drop_bit 16 v)) OR take_bit 16 v) n = bit (take_bit 64 v) n"
    by cases (auto simp: bit_simps)
qed

definition join64 :: "int \<Rightarrow> int \<Rightarrow> int \<Rightarrow> int \<Rightarrow> int" where
  "join64 a b c d = push_bit 16 (push_bit 16 (push_bit 16 (take_bit 16 a) OR take_bit 16 b) OR take_bit 16 c) OR take_bit 16 d"

lemma u64_split:
  "take_bit 16 (drop_bit 48 (join64 a b c d)) = take_bit 16 a" "take_bit 16 (drop_bit 32 (join64 a b c d)) = take_bit 16 b"
  "take_bit 16 (drop_bit 16 (join64 a b c d)) = take_bit 16 c" "take_bit 16 (join64 a b c d) = take_bit 16 d"
  "take_bit 64 (join64 a b c d) = join64 a b c d"
  unfolding join64_def by (rule bit_eqI, auto simp: bit_simps)+

lemma length2: "length xs = 2 \<longleftrightarrow> (\<exists>a b. xs = [a, b])"
  by (auto simp: numeral_2_eq_2 length_Suc_conv)

lemma length4: "length xs = 4 \<longleftrightarrow> (\<exists>a b c d. xs = [a, b, c, d])"
  by (auto simp: numeral_eq_Suc length_Suc_conv)

definition in_u32 :: "int \<Rightarrow> bool" where
  "in_u32 v \<longleftrightarrow> 0 \<le> v \<and> v < 2 ^ 32"

abbreviation registers :: "nat \<Rightarrow> int list \<Rightarrow> bool" where
  "registers n xs \<equiv> length xs = n \<and> list_all is_register xs"

interpretation u32: codec u32_registers registers_u32 in_u32 "registers 2"
proof
  fix v assume "in_u32 v"
  then have "0 \<le> v" "v < 2 ^ 32" and v: "take_bit 32 v = v" by (simp_all add: in_u32_def take_bit_int_eq_self_iff)
  then show "\<exists>w. u32_registers v = Inr w \<and> registers 2 w \<and> registers_u32 w = Inr v"
    using u32_join [of v] by (simp add: u32_registers_def registers_u32_def and_FFFF)
next
  fix w v assume w: "registers 2 w" and dec: "registers_u32 w = Inr v"
  from w obtain a b where ab: "w = [a, b]" "take_bit 16 a = a" "take_bit 16 b = b"
    by (auto simp: length2 register_take_bit)
  have v: "v = join32 a b" using dec ab by (simp add: registers_u32_def join32_def)
  then have "in_u32 v" using u32_split(3) [of a b] by (simp add: in_u32_def take_bit_int_eq_self_iff)
  then show "in_u32 v \<and> u32_registers v = Inr w"
    using u32_split [of a b] ab by (simp add: u32_registers_def in_u32_def and_FFFF v)
qed

interpretation u64: codec u64_registers registers_u64 in_u64 "registers 4"
proof
  fix v assume "in_u64 v"
  then have "0 \<le> v" "v < 2 ^ 64" and v: "take_bit 64 v = v" by (simp_all add: in_u64_def take_bit_int_eq_self_iff)
  then show "\<exists>w. u64_registers v = Inr w \<and> registers 4 w \<and> registers_u64 w = Inr v"
    using u64_join [of v] by (simp add: u64_registers_def registers_u64_def and_FFFF)
next
  fix w v assume w: "registers 4 w" and dec: "registers_u64 w = Inr v"
  from w obtain a b c d where ab: "w = [a, b, c, d]" "take_bit 16 a = a" "take_bit 16 b = b" "take_bit 16 c = c" "take_bit 16 d = d"
    by (auto simp: length4 register_take_bit)
  have v: "v = join64 a b c d" using dec ab by (simp add: registers_u64_def join64_def)
  then have "in_u64 v" using u64_split(5) [of a b c d] by (simp add: in_u64_def take_bit_int_eq_self_iff)
  then show "in_u64 v \<and> u64_registers v = Inr w"
    using u64_split [of a b c d] ab by (simp add: u64_registers_def in_u64_def and_FFFF v)
qed

section \<open>Bytes\<close>

lemma byte_pair: "a < 256 \<Longrightarrow> b < 256 \<Longrightarrow> to_bytes2 (int a * 256 + int b) = Inr [a, b]"
  by (simp add: to_bytes2_def div_add1_eq)

lemma to_bytes2_register: "is_register v \<Longrightarrow> \<exists>a b. to_bytes2 v = Inr [a, b] \<and> a < 256 \<and> b < 256 \<and> v = int a * 256 + int b"
  by (auto simp: to_bytes2_def is_register_def nat_less_iff)

lemma join_registers_of:
  "is_bytes bs \<Longrightarrow> even (length bs) \<Longrightarrow> join_registers (registers_of bs) = Inr bs"
  by (induction bs rule: registers_of.induct) (auto simp: is_bytes_def byte_pair)

lemma registers_of_register: "is_bytes bs \<Longrightarrow> even (length bs) \<Longrightarrow> registers (length bs div 2) (registers_of bs)"
  by (induction bs rule: registers_of.induct) (auto simp: is_bytes_def is_register_def)

lemma join_registersD:
  "list_all is_register vs \<Longrightarrow> \<exists>bs. join_registers vs = Inr bs \<and> is_bytes bs \<and> length bs = 2 * length vs \<and> registers_of bs = vs"
proof (induction vs)
  case (Cons v vs)
  then obtain bs where "join_registers vs = Inr bs" "is_bytes bs" "length bs = 2 * length vs" "registers_of bs = vs" by auto
  moreover obtain a b where "to_bytes2 v = Inr [a, b]" "a < 256" "b < 256" "v = int a * 256 + int b"
    using Cons.prems to_bytes2_register [of v] by (metis list.pred_inject(2))
  ultimately show ?case by (simp add: is_bytes_def)
qed (simp add: is_bytes_def)

section \<open>Digests\<close>

lemma hex_digit_facts:
  "list_all (\<lambda>n. hex_value (hex_digits ! n) = Some n \<and> \<not> ascii_space (hex_digits ! n)) [0..<16]"
  "list_all (\<lambda>c. case hex_value c of None \<Rightarrow> False | Some n \<Rightarrow> n < 16 \<and> hex_digits ! n = c) hex_digits"
  by code_simp+

lemma hex_value_digit [simp]: "n < 16 \<Longrightarrow> hex_value (hex_digits ! n) = Some n" "n < 16 \<Longrightarrow> \<not> ascii_space (hex_digits ! n)"
  using hex_digit_facts(1) by (simp_all add: list_all_iff)

lemma from_hex_to_hex: "is_bytes bs \<Longrightarrow> from_hex (to_hex bs) = Inr bs"
  by (induction bs) (auto simp: is_bytes_def to_hex_def div_less_iff_less_mult)

lemma hex_digit_mem: "n < 16 \<Longrightarrow> hex_digits ! n \<in> set hex_digits"
  by (rule nth_mem) (simp add: hex_digits_def)

lemma hex_digit_value: "c \<in> set hex_digits \<Longrightarrow> \<exists>n < 16. hex_value c = Some n \<and> hex_digits ! n = c"
  using hex_digit_facts(2) by (auto simp: list_all_iff split: option.splits)

lemma hex_value_not_space: "c \<in> set hex_digits \<Longrightarrow> \<not> ascii_space c"
  using hex_digit_value by fastforce

lemma to_hex_from_hex:
  "set s \<subseteq> set hex_digits \<Longrightarrow> even (length s) \<Longrightarrow>
   \<exists>bs. from_hex s = Inr bs \<and> is_bytes bs \<and> length bs = length s div 2 \<and> to_hex bs = s"
proof (induction s rule: from_hex.induct)
  case (3 c d s)
  obtain h l where hl: "h < 16" "hex_value c = Some h" "hex_digits ! h = c" "l < 16" "hex_value d = Some l" "hex_digits ! l = d"
    using "3.prems" hex_digit_value by (metis insert_subset list.set(2))
  obtain bs where "from_hex s = Inr bs" "is_bytes bs" "length bs = length s div 2" "to_hex bs = s"
    using "3.IH"(2) [OF _ refl hl(2,5)] "3.prems" hex_value_not_space by auto
  moreover have "\<not> ascii_space c" using "3.prems"(1) hex_value_not_space by (metis insert_subset list.set(2))
  moreover have "h * 16 + l < 256" using hl(1,4) by simp
  ultimately show ?case using hl by (simp add: is_bytes_def to_hex_def)
qed (auto simp: is_bytes_def to_hex_def)

lemma hex_digest_iff: "is_hex_digest s \<longleftrightarrow> length s = 64 \<and> set s \<subseteq> set hex_digits"
  unfolding is_hex_digest_def hex_digits_def list_all_iff by blast

lemma to_hex_digest: "is_bytes bs \<Longrightarrow> length bs = 32 \<Longrightarrow> is_hex_digest (to_hex bs)"
proof -
  assume b: "is_bytes bs" "length bs = 32"
  have "length (to_hex bs) = 2 * length bs" by (induction bs) (simp_all add: to_hex_def)
  moreover have "set (to_hex bs) \<subseteq> set hex_digits"
    using b(1) hex_digit_mem by (auto simp: to_hex_def is_bytes_def list_all_iff div_less_iff_less_mult)
  ultimately show ?thesis using b(2) by (simp add: hex_digest_iff)
qed

lemma registers_of_map:
  "length raw = 2 * n \<Longrightarrow> map (\<lambda>i. from_bytes (take 2 (drop (2 * i) raw))) [0..<n] = registers_of raw"
proof (induction n arbitrary: raw)
  case (Suc n)
  then obtain a b r where raw: "raw = a # b # r" "length r = 2 * n" by (auto simp: length_Suc_conv)
  have "map (\<lambda>i. from_bytes (take 2 (drop (2 * i) raw))) [0..<Suc n] =
      from_bytes (take 2 raw) # map (\<lambda>i. from_bytes (take 2 (drop (2 * Suc i) raw))) [0..<n]"
    by (simp only: map_upt_Suc) simp
  then show ?case using Suc.IH [OF raw(2)] by (simp add: raw(1) numeral_2_eq_2)
qed simp

interpretation digest: codec digest_registers registers_digest is_hex_digest "registers 16"
proof
  fix d assume "is_hex_digest d"
  then obtain raw where raw: "from_hex d = Inr raw" "is_bytes raw" "length raw = 32" "to_hex raw = d"
    using to_hex_from_hex [of d] by (auto simp: hex_digest_iff)
  then show "\<exists>w. digest_registers d = Inr w \<and> registers 16 w \<and> registers_digest w = Inr d"
    using registers_of_map [of raw 16] registers_of_register [of raw] join_registers_of [of raw]
    by (simp add: digest_registers_def registers_digest_def)
next
  fix w d assume w: "registers 16 w" and dec: "registers_digest w = Inr d"
  from w obtain raw where raw: "join_registers w = Inr raw" "is_bytes raw" "length raw = 32" "registers_of raw = w"
    using join_registersD [of w] by auto
  then have "d = to_hex raw" using dec w by (simp add: registers_digest_def)
  then show "is_hex_digest d \<and> digest_registers d = Inr w"
    using raw to_hex_digest [of raw] from_hex_to_hex [of raw] registers_of_map [of raw 16]
    by (simp add: digest_registers_def)
qed

section \<open>Payloads and headers\<close>

definition payload_ok :: "nat list \<Rightarrow> bool" where
  "payload_ok bs \<longleftrightarrow> is_bytes bs \<and> length bs \<le> max_payload_bytes"

lemma payload_roundtrip:
  assumes "payload_ok bs"
  shows "\<exists>vs. bytes_to_registers bs = Inr vs \<and> list_all is_register vs \<and> length vs \<le> request_payload_registers \<and>
    registers_to_bytes vs (int (length bs)) = Inr bs"
proof -
  define padded where "padded = bs @ (if length bs mod 2 \<noteq> 0 then [0] else [])"
  have pad: "is_bytes padded" "even (length padded)" "length padded div 2 = (length bs + 1) div 2"
    using assms by (auto simp: padded_def payload_ok_def is_bytes_def mod_Suc)
  have enc: "bytes_to_registers bs = Inr (registers_of padded)"
    using assms by (simp add: bytes_to_registers_def padded_def payload_ok_def)
  have "take (length bs) padded = bs" by (simp add: padded_def)
  moreover have "int ((length bs + 1) div 2) = (int (length bs) + 1) div 2" by simp
  moreover have "(length bs + 1) div 2 \<le> request_payload_registers"
  proof -
    have "length bs \<le> 8192" using assms by (simp add: payload_ok_def wire_constants)
    then show ?thesis unfolding wire_constants by linarith
  qed
  ultimately show ?thesis
    using assms join_registers_of [OF pad(1,2)] registers_of_register [OF pad(1,2)] pad(3)
      enc by (simp add: registers_to_bytes_def payload_ok_def)
qed

lemma enum_facts:
  "enum_of control_words (enum_value control_words c) = Inr c"
  "enum_of wire_operations (enum_value wire_operations o') = Inr o'"
  "enum_of wire_statuses (enum_value wire_statuses s) = Inr s"
  "enum_of wire_result_codes (enum_value wire_result_codes r) = Inr r"
proof -
  show "enum_of control_words (enum_value control_words c) = Inr c"
    by (cases c) (simp_all add: enum_of_def control_words_def)
  show "enum_of wire_operations (enum_value wire_operations o') = Inr o'"
    by (cases o') (simp_all add: enum_of_def wire_operations_def)
  show "enum_of wire_statuses (enum_value wire_statuses s) = Inr s"
    by (cases s) (simp_all add: enum_of_def wire_statuses_def)
  show "enum_of wire_result_codes (enum_value wire_result_codes r) = Inr r"
    by (cases r) (simp_all add: enum_of_def wire_result_codes_def)
qed

lemma enum_registers [simp]:
  "is_register (enum_value control_words c)" "is_register (enum_value wire_operations o')"
  "is_register (enum_value wire_statuses s)" "is_register (enum_value wire_result_codes r)"
proof -
  show "is_register (enum_value control_words c)" by (cases c) (simp_all add: control_words_def is_register_def)
  show "is_register (enum_value wire_operations o')" by (cases o') (simp_all add: wire_operations_def is_register_def)
  show "is_register (enum_value wire_statuses s)" by (cases s) (simp_all add: wire_statuses_def is_register_def)
  show "is_register (enum_value wire_result_codes r)" by (cases r) (simp_all add: wire_result_codes_def is_register_def)
qed

lemma enum_of_value:
  "enum_of control_words v = Inr c \<Longrightarrow> enum_value control_words c = v"
  "enum_of wire_operations v = Inr o' \<Longrightarrow> enum_value wire_operations o' = v"
  "enum_of wire_statuses v = Inr s \<Longrightarrow> enum_value wire_statuses s = v"
  "enum_of wire_result_codes v = Inr r \<Longrightarrow> enum_value wire_result_codes r = v"
  by (auto simp: enum_of_def control_words_def wire_operations_def wire_statuses_def wire_result_codes_def
      split: option.splits if_splits)

definition request_ok :: "request_header \<Rightarrow> bool" where
  "request_ok h \<longleftrightarrow> in_u64 (rh_transaction_id h) \<and> is_hex_digest (rh_payload_digest h) \<and>
     0 \<le> rh_payload_byte_length h \<and> dimensions_ok (rh_payload_byte_length h) (rh_payload_register_count h)"

lemma dimensions_register:
  "0 \<le> n \<Longrightarrow> dimensions_ok n k \<Longrightarrow> in_u32 n \<and> is_register k"
  by (auto simp: dimensions_ok_def in_u32_def is_register_def wire_constants)

text \<open>The places of the fields in the two register images.\<close>

lemma request_layout:
  assumes "length tid = 4" "length len = 2" "length dig = 16"
  shows "slice 4 8 ([c, m, v, p] @ tid @ len @ [n, z] @ dig @ rest) = tid"
    "slice 8 10 ([c, m, v, p] @ tid @ len @ [n, z] @ dig @ rest) = len"
    "slice 12 28 ([c, m, v, p] @ tid @ len @ [n, z] @ dig @ rest) = dig"
    "([c, m, v, p] @ tid @ len @ [n, z] @ dig @ rest) ! 10 = n"
    "([c, m, v, p] @ tid @ len @ [n, z] @ dig @ rest) ! 11 = z"
    "slice 28 (28 + k) ([c, m, v, p] @ tid @ len @ [n, z] @ dig @ rest) = take k rest"
    "slice 32 (32 + k) ([c, m, v, p] @ tid @ len @ [n, z] @ dig @ rest) = take k (drop 4 rest)"
    "slice 36 (36 + k) ([c, m, v, p] @ tid @ len @ [n, z] @ dig @ rest) = take k (drop 8 rest)"
  using assms by (simp_all add: slice_def nth_append)

lemma split_registers:
  assumes "28 \<le> length values"
  shows "values = [values ! 0, values ! 1, values ! 2, values ! 3] @ slice 4 8 values @ slice 8 10 values @
    [values ! 10, values ! 11] @ slice 12 28 values @ drop 28 values"
proof (rule nth_equalityI)
  show "length values = length ([values ! 0, values ! 1, values ! 2, values ! 3] @ slice 4 8 values @ slice 8 10 values @
    [values ! 10, values ! 11] @ slice 12 28 values @ drop 28 values)" using assms by (simp add: slice_def)
  fix i assume "i < length values"
  then show "values ! i = ([values ! 0, values ! 1, values ! 2, values ! 3] @ slice 4 8 values @ slice 8 10 values @
    [values ! 10, values ! 11] @ slice 12 28 values @ drop 28 values) ! i"
    using assms by (auto simp: slice_def nth_append nth_Cons' intro!: arg_cong [where f = "(!) values"])
qed

definition request_wire_ok :: "int list \<Rightarrow> bool" where
  "request_wire_ok vs \<longleftrightarrow> list_all is_register vs"

lemma request_encodes:
  assumes ok: "request_ok h"
  shows "\<exists>w. request_to_registers h = Inr w \<and> list_all is_register w \<and> request_from_registers w = Inr h"
proof -
  have dims: "in_u32 (rh_payload_byte_length h)" "is_register (rh_payload_register_count h)"
    using ok dimensions_register by (auto simp: request_ok_def)
  obtain tid where tid: "u64_registers (rh_transaction_id h) = Inr tid" "registers 4 tid" "registers_u64 tid = Inr (rh_transaction_id h)"
    using ok u64.encodes by (auto simp: request_ok_def)
  obtain len where len: "u32_registers (rh_payload_byte_length h) = Inr len" "registers 2 len"
      "registers_u32 len = Inr (rh_payload_byte_length h)" using dims(1) u32.encodes by auto
  obtain dig where dig: "digest_registers (rh_payload_digest h) = Inr dig" "registers 16 dig"
      "registers_digest dig = Inr (rh_payload_digest h)" using ok digest.encodes by (auto simp: request_ok_def)
  note lay = request_layout [of tid len dig, OF conjunct1 [OF tid(2)] conjunct1 [OF len(2)] conjunct1 [OF dig(2)]]
  define w where "w = [enum_value control_words (rh_control h), request_magic, wire_version,
      enum_value wire_operations (rh_operation h)] @ tid @ len @ [rh_payload_register_count h, 0] @ dig @ replicate 4 0"
  have enc: "request_to_registers h = Inr w" by (simp add: request_to_registers_def tid(1) len(1) dig(1) w_def)
  have fields: "slice 4 8 w = tid" "slice 8 10 w = len" "slice 12 28 w = dig" "w ! 10 = rh_payload_register_count h"
      "w ! 11 = 0" "\<not> list_ex (\<lambda>v. v \<noteq> 0) (slice 28 32 w)" "w ! 0 = enum_value control_words (rh_control h)" "w ! Suc 0 = request_magic"
      "w ! 2 = wire_version" "w ! 3 = enum_value wire_operations (rh_operation h)" "length w = request_header_registers"
    unfolding w_def using lay(1-5) lay(6) [of 4] tid(2) len(2) dig(2) by (simp_all add: wire_constants list_ex_iff)
  have "request_from_registers w = Inr h"
    using ok by (simp add: request_from_registers_def fields tid(3) len(3) dig(3) enum_facts request_ok_def)
  moreover have zeros: "list_all is_register (replicate 4 0)" by (simp add: list_all_iff is_register_def)
  have "list_all is_register w"
    using tid(2) len(2) dig(2) dims(2) zeros by (simp add: w_def wire_constants is_register_def [of 0] is_register_def [of 1] is_register_def [of "numeral n" for n])
  ultimately show ?thesis using enc by blast
qed

lemma slice_register: "list_all is_register vs \<Longrightarrow> hi \<le> length vs \<Longrightarrow> lo \<le> hi \<Longrightarrow> registers (hi - lo) (slice lo hi vs)"
  by (auto simp: slice_def list_all_iff dest: in_set_takeD in_set_dropD)

lemma zero_tail: "length xs = 4 \<Longrightarrow> \<not> list_ex (\<lambda>v. v \<noteq> 0) xs \<Longrightarrow> xs = replicate 4 (0 :: int)"
  unfolding length4 by (auto simp: numeral_eq_Suc)

lemma request_decodes:
  assumes w: "list_all is_register w" and dec: "request_from_registers w = Inr h"
  shows "request_ok h \<and> request_to_registers h = Inr w"
proof -
  have len: "length w = 32" using dec by (simp add: request_from_registers_def wire_constants split: if_splits)
  from dec obtain n where parts: "w ! 1 = request_magic" "w ! 2 = wire_version" "w ! 11 = 0" "\<not> list_ex (\<lambda>v. v \<noteq> 0) (slice 28 32 w)"
    "registers_u32 (slice 8 10 w) = Inr n" "dimensions_ok n (w ! 10)" "rh_payload_byte_length h = n"
    "rh_payload_register_count h = w ! 10"
    "enum_of control_words (w ! 0) = Inr (rh_control h)" "enum_of wire_operations (w ! 3) = Inr (rh_operation h)"
    "registers_u64 (slice 4 8 w) = Inr (rh_transaction_id h)" "registers_digest (slice 12 28 w) = Inr (rh_payload_digest h)"
    by (auto simp: request_from_registers_def res_simps split: if_splits)
  have reg: "registers 4 (slice 4 8 w)" "registers 2 (slice 8 10 w)" "registers 16 (slice 12 28 w)" "registers 4 (slice 28 32 w)"
    using slice_register [OF w, of 8 4] slice_register [OF w, of 10 8] slice_register [OF w, of 28 12]
      slice_register [OF w, of 32 28] by (simp_all add: len)
  note tid = u64.decodes [OF reg(1) parts(11)] and blen = u32.decodes [OF reg(2) parts(5)] and dig = digest.decodes [OF reg(3) parts(12)]
  have "drop 28 w = slice 28 32 w" by (simp add: slice_def len)
  then have tail: "drop 28 w = replicate 4 0" using zero_tail reg(4) parts(4) by simp
  have "28 \<le> length w" by (simp add: len)
  from split_registers [OF this] have image: "[w ! 0, request_magic, wire_version, w ! 3] @ slice 4 8 w @ slice 8 10 w @
      [w ! 10, 0] @ slice 12 28 w @ replicate 4 0 = w" unfolding parts(1-3) tail by (rule sym)
  have "request_to_registers h = Inr w"
    using tid blen dig image
    by (simp add: request_to_registers_def parts(1-3,7,8) enum_of_value(1) [OF parts(9)] enum_of_value(2) [OF parts(10)])
  moreover have "request_ok h" using tid blen dig parts(6-8) by (simp add: request_ok_def in_u32_def)
  ultimately show ?thesis by blast
qed

interpretation request: codec request_to_registers request_from_registers request_ok "list_all is_register"
  by unfold_locales (auto intro: request_encodes dest: request_decodes)

definition response_ok :: "response_header \<Rightarrow> bool" where
  "response_ok h \<longleftrightarrow> in_u64 (sh_transaction_id h) \<and> is_hex_digest (sh_payload_digest h) \<and>
     0 \<le> sh_payload_byte_length h \<and> dimensions_ok (sh_payload_byte_length h) (sh_payload_register_count h) \<and>
     in_u64 (sh_device_transaction_counter h) \<and> in_u64 (sh_state_version_hint h)"

lemma response_encodes:
  assumes ok: "response_ok h"
  shows "\<exists>w. response_to_registers h = Inr w \<and> list_all is_register w \<and> response_from_registers w = Inr h"
proof -
  have dims: "in_u32 (sh_payload_byte_length h)" "is_register (sh_payload_register_count h)"
    using ok dimensions_register by (auto simp: response_ok_def)
  obtain tid where tid: "u64_registers (sh_transaction_id h) = Inr tid" "registers 4 tid" "registers_u64 tid = Inr (sh_transaction_id h)"
    using ok u64.encodes by (auto simp: response_ok_def)
  obtain len where len: "u32_registers (sh_payload_byte_length h) = Inr len" "registers 2 len"
      "registers_u32 len = Inr (sh_payload_byte_length h)" using dims(1) u32.encodes by auto
  obtain dig where dig: "digest_registers (sh_payload_digest h) = Inr dig" "registers 16 dig"
      "registers_digest dig = Inr (sh_payload_digest h)" using ok digest.encodes by (auto simp: response_ok_def)
  obtain ctr where ctr: "u64_registers (sh_device_transaction_counter h) = Inr ctr" "registers 4 ctr"
      "registers_u64 ctr = Inr (sh_device_transaction_counter h)" using ok u64.encodes by (auto simp: response_ok_def)
  obtain hint where hint: "u64_registers (sh_state_version_hint h) = Inr hint" "registers 4 hint"
      "registers_u64 hint = Inr (sh_state_version_hint h)" using ok u64.encodes by (auto simp: response_ok_def)
  note lay = request_layout [of tid len dig, OF conjunct1 [OF tid(2)] conjunct1 [OF len(2)] conjunct1 [OF dig(2)]]
  define w where "w = [response_magic, wire_version, enum_value wire_statuses (sh_status h),
      enum_value wire_operations (sh_operation h)] @ tid @ len @
      [sh_payload_register_count h, enum_value wire_result_codes (sh_result_code h)] @ dig @ ctr @ hint @ replicate 4 0"
  have enc: "response_to_registers h = Inr w"
    by (simp add: response_to_registers_def tid(1) len(1) dig(1) ctr(1) hint(1) w_def)
  have fields: "slice 4 8 w = tid" "slice 8 10 w = len" "slice 12 28 w = dig" "w ! 10 = sh_payload_register_count h"
      "w ! 11 = enum_value wire_result_codes (sh_result_code h)" "slice 28 32 w = ctr" "slice 32 36 w = hint"
      "\<not> list_ex (\<lambda>v. v \<noteq> 0) (slice 36 40 w)" "w ! 0 = response_magic" "w ! Suc 0 = wire_version"
      "w ! 2 = enum_value wire_statuses (sh_status h)" "w ! 3 = enum_value wire_operations (sh_operation h)"
      "length w = response_header_registers"
    unfolding w_def using lay(1-5) lay(6) [of 4] lay(7) [of 4] lay(8) [of 4] tid(2) len(2) dig(2) ctr(2) hint(2)
    by (simp_all add: wire_constants list_ex_iff)
  have "response_from_registers w = Inr h"
    using ok by (simp add: response_from_registers_def fields tid(3) len(3) dig(3) ctr(3) hint(3) enum_facts response_ok_def)
  moreover have zeros: "list_all is_register (replicate 4 0)" by (simp add: list_all_iff is_register_def)
  have "list_all is_register w"
    using tid(2) len(2) dig(2) ctr(2) hint(2) dims(2) zeros
    by (simp add: w_def wire_constants is_register_def [of 1] is_register_def [of "numeral n" for n])
  ultimately show ?thesis using enc by blast
qed

lemma response_decodes:
  assumes w: "list_all is_register w" and dec: "response_from_registers w = Inr h"
  shows "response_ok h \<and> response_to_registers h = Inr w"
proof -
  have len: "length w = 40" using dec by (simp add: response_from_registers_def wire_constants split: if_splits)
  from dec obtain n where parts: "w ! 0 = response_magic" "w ! 1 = wire_version" "\<not> list_ex (\<lambda>v. v \<noteq> 0) (slice 36 40 w)"
    "registers_u32 (slice 8 10 w) = Inr n" "dimensions_ok n (w ! 10)" "sh_payload_byte_length h = n"
    "sh_payload_register_count h = w ! 10"
    "enum_of wire_statuses (w ! 2) = Inr (sh_status h)" "enum_of wire_operations (w ! 3) = Inr (sh_operation h)"
    "enum_of wire_result_codes (w ! 11) = Inr (sh_result_code h)"
    "registers_u64 (slice 4 8 w) = Inr (sh_transaction_id h)" "registers_digest (slice 12 28 w) = Inr (sh_payload_digest h)"
    "registers_u64 (slice 28 32 w) = Inr (sh_device_transaction_counter h)"
    "registers_u64 (slice 32 36 w) = Inr (sh_state_version_hint h)"
    by (auto simp: response_from_registers_def res_simps split: if_splits)
  have reg: "registers 4 (slice 4 8 w)" "registers 2 (slice 8 10 w)" "registers 16 (slice 12 28 w)" "registers 4 (slice 28 32 w)"
    "registers 4 (slice 32 36 w)" "registers 4 (slice 36 40 w)"
    using slice_register [OF w, of 8 4] slice_register [OF w, of 10 8] slice_register [OF w, of 28 12]
      slice_register [OF w, of 32 28] slice_register [OF w, of 36 32] slice_register [OF w, of 40 36] by (simp_all add: len)
  note tid = u64.decodes [OF reg(1) parts(11)] and blen = u32.decodes [OF reg(2) parts(4)] and dig = digest.decodes [OF reg(3) parts(12)]
    and ctr = u64.decodes [OF reg(4) parts(13)] and hint = u64.decodes [OF reg(5) parts(14)]
  have "drop 28 w = slice 28 32 w @ slice 32 36 w @ slice 36 40 w"
    using append_take_drop_id [of 4 "drop 28 w"] append_take_drop_id [of 4 "drop 32 w"] by (simp add: slice_def len)
  then have tail: "drop 28 w = slice 28 32 w @ slice 32 36 w @ replicate 4 0" using zero_tail reg(6) parts(3) by simp
  have "28 \<le> length w" by (simp add: len)
  from split_registers [OF this] have image: "[response_magic, wire_version, w ! 2, w ! 3] @ slice 4 8 w @ slice 8 10 w @
      [w ! 10, w ! 11] @ slice 12 28 w @ slice 28 32 w @ slice 32 36 w @ replicate 4 0 = w"
    unfolding parts(1,2) tail by (rule sym)
  have "response_to_registers h = Inr w"
    using tid blen dig ctr hint image
    by (simp add: response_to_registers_def parts(1-2,6,7) enum_of_value(3) [OF parts(8)] enum_of_value(2) [OF parts(9)]
        enum_of_value(4) [OF parts(10)])
  moreover have "response_ok h" using tid blen dig ctr hint parts(5-7) by (simp add: response_ok_def in_u32_def)
  ultimately show ?thesis by blast
qed

interpretation response: codec response_to_registers response_from_registers response_ok "list_all is_register"
  by unfold_locales (auto intro: response_encodes dest: response_decodes)

section \<open>Properties\<close>

text \<open>
  (C33) Headers survive the wire in both directions: a request or response header within the ranges of
  the protocol is written to 16-bit registers from which exactly that header is read, and registers from
  which a header is read are exactly the ones that header is written to, so the framing is unambiguous.
\<close>
theorem headers_roundtrip:
  "(request_ok q \<longrightarrow> (\<exists>w. request_to_registers q = Inr w \<and> request_from_registers w = Inr q)) \<and>
   (response_ok r \<longrightarrow> (\<exists>w. response_to_registers r = Inr w \<and> response_from_registers w = Inr r)) \<and>
   (list_all is_register w \<longrightarrow> request_from_registers w = Inr q \<longrightarrow> request_to_registers q = Inr w) \<and>
   (list_all is_register w \<longrightarrow> response_from_registers w = Inr r \<longrightarrow> response_to_registers r = Inr w)"
  using request.encodes request.decodes response.encodes response.decodes by blast

definition demo_request_header :: request_header where
  "demo_request_header = \<lparr>rh_control = COMMIT, rh_operation = EXECUTE, rh_transaction_id = 0x123456789ABCDEF0,
     rh_payload_byte_length = 515, rh_payload_register_count = 258, rh_payload_digest = zero_digest\<rparr>"

theorem headers_roundtrip_witness:
  "request_ok demo_request_header \<and>
   (\<exists>w. request_to_registers demo_request_header = Inr w \<and> request_from_registers w = Inr demo_request_header)"
proof -
  have "request_ok demo_request_header"
    by (simp add: request_ok_def demo_request_header_def in_u64_def dimensions_ok_def wire_constants)
  then show ?thesis using headers_roundtrip [of demo_request_header undefined undefined] by blast
qed

text \<open>
  A payload of bytes is carried exactly when it fits the mailbox: up to 8192 bytes it is written to
  at most 4096 registers and read back unchanged with its byte length, whether that is even or odd; a
  longer one is refused.
\<close>
theorem payload_carried_iff_fits:
  assumes "is_bytes payload"
  shows "if length payload \<le> 8192
    then \<exists>vs. bytes_to_registers payload = Inr vs \<and> list_all is_register vs \<and> length vs \<le> 4096 \<and>
           registers_to_bytes vs (int (length payload)) = Inr payload
    else \<exists>e. bytes_to_registers payload = Inl e"
proof (cases "length payload \<le> 8192")
  case True
  then have "payload_ok payload" using assms by (simp add: payload_ok_def wire_constants)
  from payload_roundtrip [OF this] True show ?thesis by (simp add: wire_constants)
qed (simp add: bytes_to_registers_def wire_constants)

theorem payload_carried_iff_fits_witness:
  "\<exists>vs. bytes_to_registers [1, 2, 255] = Inr vs \<and> registers_to_bytes vs 3 = Inr [1, 2, 255]"
  using payload_carried_iff_fits [of "[1, 2, 255]"] by (auto simp: is_bytes_def)

text \<open>
  (C34) What a reader accepts is in range: from 16-bit registers a request header is only read with the
  magic number, the version and zero reserved fields, a transaction number below \<open>2 ^ 64\<close>, a byte length
  of at most 8192 with the matching register count, and a lower-case SHA-256 digest.
\<close>
theorem request_header_bounds:
  assumes "list_all is_register w" "request_from_registers w = Inr h"
  shows "length w = 32 \<and> w ! 1 = 0xAE63 \<and> w ! 2 = 1 \<and> w ! 11 = 0 \<and> drop 28 w = replicate 4 0 \<and>
    0 \<le> rh_transaction_id h \<and> rh_transaction_id h < 2 ^ 64 \<and>
    0 \<le> rh_payload_byte_length h \<and> rh_payload_byte_length h \<le> 8192 \<and>
    rh_payload_register_count h = (rh_payload_byte_length h + 1) div 2 \<and> is_hex_digest (rh_payload_digest h)"
proof -
  from request_decodes [OF assms] have ok: "request_ok h" and enc: "request_to_registers h = Inr w" by auto
  have shape: "length w = 32" "w ! 1 = 0xAE63" "w ! 2 = 1" "w ! 11 = 0" "\<not> list_ex (\<lambda>v. v \<noteq> 0) (slice 28 32 w)"
    using assms(2) by (auto simp: request_from_registers_def wire_constants split: if_splits)
  have "drop 28 w = replicate 4 0"
    using zero_tail [of "slice 28 32 w"] shape by (simp add: slice_def)
  then show ?thesis
    using ok shape by (auto simp: request_ok_def in_u64_def dimensions_ok_def wire_constants)
qed

theorem request_header_bounds_witness:
  "\<exists>w. list_all is_register w \<and> request_from_registers w = Inr demo_request_header \<and> length w = 32"
proof -
  have "request_ok demo_request_header"
    by (simp add: request_ok_def demo_request_header_def in_u64_def dimensions_ok_def wire_constants)
  then obtain w where w: "list_all is_register w" "request_from_registers w = Inr demo_request_header"
    using request_encodes by blast
  from request_header_bounds [OF w] w show ?thesis by blast
qed

end
