(* ===== verification/Modbus_Device.thy ===== *)
theory Modbus_Device
  imports Closed_Loop Modbus_Wire
begin

text \<open>
  The server half of \<^verbatim>\<open>modbus_device.py\<close>: the mailbox service that owns the plant and the permit-aware device
  of the Modbus process. A request is staged by writing its header and its payload registers, committed by
  writing the control word, answered once by a signed response in the response registers, and released.
  \<^verbatim>\<open>pymodbus\<close> hands every register access to \<open>action\<close> together with its current registers; the model takes
  those registers as an argument and so assumes nothing about how the server keeps them. The JSON text of a
  message, its SHA-256 digest and the validation of a message by its declared model are fields of the record
  \<open>wire_codec\<close>.
\<close>

section \<open>The register map\<close>

definition request_payload_start :: nat where "request_payload_start = 32"
definition response_header_start :: nat where
  "response_header_start = request_payload_start + request_payload_registers"
definition response_payload_start :: nat where
  "response_payload_start = response_header_start + response_header_registers"
definition response_payload_registers :: nat where "response_payload_registers = 4096"
definition register_count :: nat where
  "register_count = response_payload_start + response_payload_registers"

lemmas register_map = request_payload_start_def response_header_start_def response_payload_start_def
  response_payload_registers_def register_count_def wire_constants

text \<open>Assignment to a slice: \<^verbatim>\<open>registers[i : i + len(xs)] = xs\<close>.\<close>

definition put_slice :: "nat \<Rightarrow> 'a list \<Rightarrow> 'a list \<Rightarrow> 'a list" where
  "put_slice i xs regs = take i regs @ xs @ drop (i + length xs) regs"

section \<open>Messages as bytes\<close>

record wire_codec =
  wc_bytes :: "json \<Rightarrow> nat list res"
  wc_json :: "nat list \<Rightarrow> json res"
  wc_sha256 :: "nat list \<Rightarrow> string"
  wc_request :: "json \<Rightarrow> wire_request res"
  wc_response :: "json \<Rightarrow> signed_wire_response res"
  wc_command :: "json option \<Rightarrow> command res"
  wc_permit :: "json option \<Rightarrow> permit res"
  wc_proposal :: "json option \<Rightarrow> action_proposal res"
  wc_decision :: "json option \<Rightarrow> decision res"
  wc_assessment :: "json option \<Rightarrow> assessment res"
  wc_snapshot :: "json option \<Rightarrow> snapshot res"
  wc_acknowledgment :: "json option \<Rightarrow> acknowledgment res"
  wc_text :: "exn \<Rightarrow> string"

definition canonical_json_bytes :: "wire_codec \<Rightarrow> json \<Rightarrow> nat list res" where
  "canonical_json_bytes cd material = wc_bytes cd (canonical material)"

definition wire_request_dump :: "wire_request \<Rightarrow> json" where
  "wire_request_dump q = JObj [
     (''schema_version'', JStr ''modbus-wire-request-v1''),
     (''transaction_id'', JInt (wq_transaction_id q)),
     (''operation'', JInt (enum_value wire_operations (wq_operation q))),
     (''payload'', JObj (wq_payload q))]"

definition wire_response_dump :: "signed_wire_response \<Rightarrow> json" where
  "wire_response_dump r = JObj [
     (''schema_version'', JStr ''modbus-wire-response-v1''),
     (''transaction_id'', JInt (wr_transaction_id r)),
     (''operation'', JInt (enum_value wire_operations (wr_operation r))),
     (''request_digest'', JStr (wr_request_digest r)),
     (''status'', JInt (enum_value wire_statuses (wr_status r))),
     (''result_code'', JInt (enum_value wire_result_codes (wr_result_code r))),
     (''payload'', JObj (wr_payload r)),
     (''payload_digest'', JStr (wr_payload_digest r)),
     (''device_id'', JStr (wr_device_id r)),
     (''device_key_id'', JStr (wr_device_key_id r)),
     (''boot_epoch'', JStr (wr_boot_epoch r)),
     (''device_transaction_counter'', JInt (wr_device_transaction_counter r)),
     (''signature'', JStr (wr_signature r))]"

section \<open>The service\<close>

record mailbox =
  mx_plant :: plant
  mx_device :: virtual_device
  mx_private_key :: private_key
  mx_boot_epoch :: string
  mx_transaction_counter :: int
  mx_active_transaction :: "int option"
  mx_active_header :: "request_header option"
  mx_terminal_transaction :: "int option"

text \<open>The readings of one commit: the observation clock, fresh identifiers and the readings of the device.\<close>

record mailbox_env =
  me_captured_at :: instant
  me_assessment_id :: string
  me_device :: device_env

definition clear_response :: "int list \<Rightarrow> unit res \<times> int list" where
  "clear_response regs =
     (if length regs < register_count
      then (Inl (OtherError ''IndexError''), put_slice response_header_start (replicate (length regs - response_header_start) 0) regs)
      else (Inr (), put_slice response_header_start (replicate (register_count - response_header_start) 0) regs))"

definition signed_response ::
  "runtime \<Rightarrow> int \<Rightarrow> wire_operation \<Rightarrow> string \<Rightarrow> wire_status \<Rightarrow> wire_result_code \<Rightarrow> (string \<times> json) list \<Rightarrow> mailbox \<Rightarrow>
   signed_wire_response res \<times> mailbox" where
  "signed_response rt transaction_id operation request_digest status result_code payload mb =
     (let counter = mx_transaction_counter mb + 1 in
      (bind_res (make_wire_response rt
         \<lparr>wr_transaction_id = transaction_id, wr_operation = operation, wr_request_digest = request_digest,
          wr_status = status, wr_result_code = result_code, wr_payload = payload,
          wr_payload_digest = canonical_digest rt (JObj payload), wr_device_id = vd_device_id (mx_device mb),
          wr_device_key_id = vd_acknowledgment_key_id (mx_device mb), wr_boot_epoch = mx_boot_epoch mb,
          wr_device_transaction_counter = counter, wr_signature = ''''\<rparr>)
         (\<lambda>response. Inr (wire_response_signed rt response (mx_private_key mb))),
       mb\<lparr>mx_transaction_counter := counter\<rparr>))"

definition response_header_of :: "wire_codec \<Rightarrow> signed_wire_response \<Rightarrow> nat list \<Rightarrow> int list \<Rightarrow> int \<Rightarrow> response_header" where
  "response_header_of cd r payload payload_registers hint =
     \<lparr>sh_status = wr_status r, sh_operation = wr_operation r, sh_transaction_id = wr_transaction_id r,
      sh_payload_byte_length = int (length payload), sh_payload_register_count = int (length payload_registers),
      sh_result_code = wr_result_code r, sh_payload_digest = wc_sha256 cd payload,
      sh_device_transaction_counter = wr_device_transaction_counter r, sh_state_version_hint = hint\<rparr>"

definition write_response ::
  "wire_codec \<Rightarrow> signed_wire_response \<Rightarrow> int \<Rightarrow> int list \<Rightarrow> unit res \<times> int list" where
  "write_response cd response hint regs =
     (case bind_res (canonical_json_bytes cd (wire_response_dump response)) (\<lambda>payload.
        bind_res (bytes_to_registers payload) (\<lambda>payload_registers. Inr (payload, payload_registers))) of
        Inl e \<Rightarrow> (Inl e, regs)
      | Inr (payload, payload_registers) \<Rightarrow>
          (case clear_response regs of
             (Inl e, cleared) \<Rightarrow> (Inl e, cleared)
           | (Inr _, cleared) \<Rightarrow>
               (case response_to_registers (response_header_of cd response payload payload_registers hint) of
                  Inl e \<Rightarrow> (Inl e, cleared)
                | Inr header_registers \<Rightarrow>
                    (Inr (), put_slice response_payload_start payload_registers
                       (put_slice response_header_start header_registers cleared)))))"

section \<open>The application\<close>

type_synonym application_result = "wire_status \<times> wire_result_code \<times> (string \<times> json) list \<times> int"

definition application_unknown_effect :: exn where
  "application_unknown_effect = NamedError ''_ApplicationUnknownEffect'' ''''"

definition execution_of ::
  "wire_codec \<Rightarrow> (string \<times> json) list \<Rightarrow> (permit \<times> action_proposal \<times> decision \<times> assessment) res" where
  "execution_of cd payload =
     bind_res (wc_permit cd (map_of payload ''permit'')) (\<lambda>permit.
     bind_res (wc_proposal cd (map_of payload ''proposal'')) (\<lambda>p.
     bind_res (wc_decision cd (map_of payload ''decision'')) (\<lambda>d.
     bind_res (wc_assessment cd (map_of payload ''assessment'')) (\<lambda>a. Inr (permit, p, d, a)))))"

fun execution_status :: "command_status \<Rightarrow> wire_status \<times> wire_result_code" where
  "execution_status APPLIED = (COMPLETE, OK)"
| "execution_status REJECTED = (REJECTED_BEFORE_DISPATCH, APPLICATION_REJECTED)"
| "execution_status UNKNOWN_EFFECT = (WIRE_UNKNOWN_EFFECT, APPLICATION_UNKNOWN_EFFECT)"

definition execution_result :: "acknowledgment \<Rightarrow> snapshot \<Rightarrow> application_result" where
  "execution_result k post =
     (let (status, code) = execution_status (ck_status k) in
      (status, code, [(''acknowledgment'', acknowledgment_dump k), (''post_state'', snapshot_dump post)],
       ps_state_version post))"

definition health_payload :: "mailbox \<Rightarrow> snapshot \<Rightarrow> (string \<times> json) list" where
  "health_payload mb state =
     [(''status'', JStr ''ready''), (''protocol_version'', JInt 1),
      (''model_digest'', JStr (ps_model_digest state)), (''simulator_version'', JStr (ps_simulator_version state)),
      (''device_id'', JStr (vd_device_id (mx_device mb))), (''device_key_id'', JStr (vd_acknowledgment_key_id (mx_device mb))),
      (''boot_epoch'', JStr (mx_boot_epoch mb)), (''state_version'', JInt (ps_state_version state))]"

definition handle_application ::
  "runtime \<Rightarrow> pandapower \<Rightarrow> wire_codec \<Rightarrow> mailbox_env \<Rightarrow> wire_request \<Rightarrow> mailbox \<Rightarrow> application_result res \<times> mailbox" where
  "handle_application rt pw cd env q mb =
     (case wq_operation q of
        READ_STATE \<Rightarrow>
          if wq_payload q \<noteq> [] then (Inl (ValueError ''read-state payload must be empty''), mb)
          else let (captured, pl) = capture_state rt pw (me_captured_at env) (mx_plant mb) in
            (bind_res captured (\<lambda>s. Inr (COMPLETE, OK, [(''state'', snapshot_dump s)], ps_state_version s)), mb\<lparr>mx_plant := pl\<rparr>)
      | SIMULATE_CANDIDATE \<Rightarrow>
          (bind_res (wc_command cd (map_of (wq_payload q) ''command'')) (\<lambda>c.
             bind_res (simulate_candidate rt pw (me_assessment_id env) (mx_plant mb) c) (\<lambda>a.
               Inr (COMPLETE, OK, [(''assessment'', assessment_dump a)], ps_state_version (ca_pre_state a)))), mb)
      | EXECUTE \<Rightarrow>
          (case execution_of cd (wq_payload q) of
             Inl e \<Rightarrow> (Inl e, mb)
           | Inr (permit, p, d, a) \<Rightarrow>
               let (result, dev, pl) = execute_locked rt (pandapower_ops rt pw) (me_device env) permit p d a
                     (mx_device mb, mx_plant mb)
               in (case bind_res result (\<lambda>k. bind_res (read_state rt pw pl) (\<lambda>post. Inr (execution_result k post))) of
                     Inl _ \<Rightarrow> Inl application_unknown_effect
                   | Inr outcome \<Rightarrow> Inr outcome,
                   mb\<lparr>mx_device := dev, mx_plant := pl\<rparr>))
      | HEALTH \<Rightarrow>
          if wq_payload q \<noteq> [] then (Inl (ValueError ''health payload must be empty''), mb)
          else (bind_res (read_state rt pw (mx_plant mb)) (\<lambda>s.
            Inr (COMPLETE, OK, health_payload mb s, ps_state_version s)), mb))"

section \<open>Committing the staged request\<close>

text \<open>
  Decoding the staged registers. The first component is what the response will be correlated by: the
  transaction, the operation and the request digest as far as they are known when decoding stops.
\<close>

definition staged_request ::
  "wire_codec \<Rightarrow> int option \<Rightarrow> int list \<Rightarrow> (int \<times> wire_operation \<times> string) \<times> wire_request res" where
  "staged_request cd active regs =
     (let unknown = (case active of Some t \<Rightarrow> t | None \<Rightarrow> 0, HEALTH, zero_digest) in
      case request_from_registers (take request_header_registers regs) of
        Inl e \<Rightarrow> (unknown, Inl e)
      | Inr h \<Rightarrow>
          if rh_control h \<noteq> BEGIN then (unknown, Inl (ValueError ''staged request does not contain BEGIN''))
          else let tid = rh_transaction_id h; op = rh_operation h; headed = (tid, op, zero_digest) in
            if Some tid \<noteq> active
            then (headed, Inl (ValueError ''commit transaction does not match active staging''))
            else case registers_to_bytes (slice request_payload_start
                   (request_payload_start + nat (rh_payload_register_count h)) regs) (rh_payload_byte_length h) of
                Inl e \<Rightarrow> (headed, Inl e)
              | Inr payload_bytes \<Rightarrow>
                  let digest = wc_sha256 cd payload_bytes in
                  ((tid, op, digest),
                   if digest \<noteq> rh_payload_digest h then Inl (ValueError ''request payload digest mismatch'')
                   else bind_res (wc_json cd payload_bytes) (\<lambda>raw.
                     bind_res (wc_request cd raw) (\<lambda>q.
                     bind_res (canonical_json_bytes cd (wire_request_dump q)) (\<lambda>again.
                       if again \<noteq> payload_bytes then Inl (ValueError ''request is not canonical JSON'')
                       else if wq_transaction_id q \<noteq> tid \<or> wq_operation q \<noteq> op
                       then Inl (ValueError ''request payload does not match header'')
                       else Inr q)))))"

text \<open>\<^verbatim>\<open>except (UnicodeDecodeError, json.JSONDecodeError, ValidationError, ValueError)\<close>\<close>

definition value_error :: "exn \<Rightarrow> bool" where
  "value_error e \<longleftrightarrow> exn_name e \<in> {''ValueError'', ''ValidationError'', ''UnicodeDecodeError'', ''JSONDecodeError'',
     ''CommandTranslationError'', ''PermitIssuanceError''}"

definition failure_result :: "wire_codec \<Rightarrow> wire_operation \<Rightarrow> exn \<Rightarrow> wire_status \<times> wire_result_code \<times> (string \<times> json) list" where
  "failure_result cd operation e =
     (let unclassified = [(''error'', JStr (exn_name e)), (''reason'', JStr ''unclassified_server_failure'')] in
      if e = application_unknown_effect then (WIRE_UNKNOWN_EFFECT, APPLICATION_UNKNOWN_EFFECT, unclassified)
      else if value_error e
      then (REJECTED_BEFORE_DISPATCH, INVALID_SCHEMA,
            [(''error'', JStr (exn_name e)), (''reason'', JStr (exn_text (wc_text cd) e))])
      else if operation = EXECUTE then (WIRE_UNKNOWN_EFFECT, APPLICATION_UNKNOWN_EFFECT, unclassified)
      else (REJECTED_BEFORE_DISPATCH, INTERNAL_ERROR, unclassified))"

definition commit_result ::
  "runtime \<Rightarrow> pandapower \<Rightarrow> wire_codec \<Rightarrow> wire_operation \<Rightarrow> application_result res \<Rightarrow> plant \<Rightarrow> application_result res" where
  "commit_result rt pw cd operation result pl =
     (case result of
        Inr outcome \<Rightarrow> Inr outcome
      | Inl e \<Rightarrow> let (status, code, payload) = failure_result cd operation e in
          bind_res (read_state rt pw pl) (\<lambda>s. Inr (status, code, payload, ps_state_version s)))"

definition process_commit ::
  "runtime \<Rightarrow> pandapower \<Rightarrow> wire_codec \<Rightarrow> mailbox_env \<Rightarrow> int list \<Rightarrow> mailbox \<Rightarrow> unit res \<times> int list \<times> mailbox" where
  "process_commit rt pw cd env regs mb =
     (let ((tid, op, digest), staged) = staged_request cd (mx_active_transaction mb) regs;
          (result, mb1) = (case staged of Inl e \<Rightarrow> (Inl e, mb) | Inr q \<Rightarrow> handle_application rt pw cd env q mb)
      in case commit_result rt pw cd op result (mx_plant mb1) of
           Inl e \<Rightarrow> (Inl e, regs, mb1)
         | Inr (status, code, payload, version) \<Rightarrow>
             (case signed_response rt tid op digest status code payload mb1 of
                (Inl e, mb2) \<Rightarrow> (Inl e, regs, mb2)
              | (Inr response, mb2) \<Rightarrow>
                  let (written, regs') = write_response cd response version regs in (written, regs', mb2)))"

section \<open>Register accesses\<close>

datatype exc_code = ILLEGAL_VALUE | ILLEGAL_ADDRESS | DEVICE_BUSY

definition control_action ::
  "request_header \<Rightarrow> int list \<Rightarrow> mailbox \<Rightarrow> exc_code option res \<times> int list \<times> mailbox" where
  "control_action h regs mb =
     (case rh_control h of
        RELEASE \<Rightarrow>
          if mx_active_header mb = None \<or> mx_terminal_transaction mb \<noteq> mx_active_transaction mb \<or>
             Some h \<noteq> map_option (\<lambda>active. active\<lparr>rh_control := RELEASE\<rparr>) (mx_active_header mb)
          then (Inr (Some ILLEGAL_VALUE), regs, mb)
          else (Inr None, regs, mb\<lparr>mx_active_transaction := None, mx_active_header := None, mx_terminal_transaction := None\<rparr>)
      | BEGIN \<Rightarrow>
          (case mx_active_header mb of
             Some active \<Rightarrow>
               (Inr (if h = active \<and> mx_terminal_transaction mb = None then None else Some DEVICE_BUSY), regs, mb)
           | None \<Rightarrow>
               let (cleared, regs') = clear_response regs in
               (bind_res cleared (\<lambda>_. Inr None), regs',
                mb\<lparr>mx_active_transaction := Some (rh_transaction_id h), mx_active_header := Some h\<rparr>))
      | COMMIT \<Rightarrow> (Inr (Some ILLEGAL_VALUE), regs, mb))"

definition commit_action ::
  "runtime \<Rightarrow> pandapower \<Rightarrow> wire_codec \<Rightarrow> mailbox_env \<Rightarrow> int list \<Rightarrow> mailbox \<Rightarrow> exc_code option res \<times> int list \<times> mailbox" where
  "commit_action rt pw cd env regs mb =
     (if mx_active_transaction mb = None then (Inr (Some ILLEGAL_VALUE), regs, mb)
      else if mx_terminal_transaction mb \<noteq> None then (Inr None, regs, mb)
      else case process_commit rt pw cd env regs mb of
          (Inl e, regs', mb') \<Rightarrow> (Inl e, regs', mb')
        | (Inr _, regs', mb') \<Rightarrow> (Inr None, regs', mb'\<lparr>mx_terminal_transaction := mx_active_transaction mb'\<rparr>))"

definition action ::
  "runtime \<Rightarrow> pandapower \<Rightarrow> wire_codec \<Rightarrow> mailbox_env \<Rightarrow> nat \<Rightarrow> nat \<Rightarrow> nat \<Rightarrow> int list option \<Rightarrow> int list \<Rightarrow> mailbox \<Rightarrow>
   exc_code option res \<times> int list \<times> mailbox" where
  "action rt pw cd env start_address address n set_values regs mb =
     (case set_values of
        None \<Rightarrow> (Inr None, regs, mb)
      | Some values \<Rightarrow>
          if start_address \<noteq> 0 then (Inr (Some ILLEGAL_VALUE), regs, mb)
          else if response_header_start \<le> address then (Inr (Some ILLEGAL_ADDRESS), regs, mb)
          else if address = 0 then
            (case values of
               [] \<Rightarrow> if n = request_header_registers \<or> n = 1 then (Inl (OtherError ''IndexError''), regs, mb)
                     else (Inr (Some ILLEGAL_VALUE), regs, mb)
             | word # _ \<Rightarrow>
                 if n = request_header_registers \<and>
                    word \<in> {enum_value control_words BEGIN, enum_value control_words RELEASE} then
                   (case request_from_registers values of
                      Inl e \<Rightarrow> if value_error e then (Inr (Some ILLEGAL_VALUE), regs, mb) else (Inl e, regs, mb)
                    | Inr h \<Rightarrow> control_action h regs mb)
                 else if n \<noteq> 1 then (Inr (Some ILLEGAL_VALUE), regs, mb)
                 else if word = enum_value control_words COMMIT then commit_action rt pw cd env regs mb
                 else (Inr (Some ILLEGAL_VALUE), regs, mb))
          else if mx_active_transaction mb = None \<or> mx_terminal_transaction mb \<noteq> None \<or>
             address < request_payload_start \<or> request_payload_start + 4096 < address + n
          then (Inr (Some ILLEGAL_ADDRESS), regs, mb)
          else (Inr None, regs, mb))"

section \<open>What a commit does\<close>

definition plant_physics :: "plant \<Rightarrow> network \<times> pyfloat \<times> int" where
  "plant_physics pl = (pl_net pl, pl_simulation_time_s pl, pl_state_version pl)"

lemma capture_physics: "capture_state rt pw now pl = (result, pl') \<Longrightarrow> plant_physics pl' = plant_physics pl"
  by (auto simp: capture_state_def plant_physics_def Let_def)

lemma capture_inv: "capture_state rt pw now pl = (result, pl') \<Longrightarrow> plant_inv pw pl \<Longrightarrow> plant_inv pw pl'"
  by (auto simp: capture_state_def plant_inv_def Let_def)

text \<open>Validation of a received permit includes the validation of its command.\<close>

definition codec_validates :: "wire_codec \<Rightarrow> bool" where
  "codec_validates cd \<longleftrightarrow> (\<forall>j permit. wc_permit cd j = Inr permit \<longrightarrow> command_valid (ep_command permit))"

lemma execution_of_valid:
  "codec_validates cd \<Longrightarrow> execution_of cd payload = Inr (permit, p, d, a) \<Longrightarrow> command_valid (ep_command permit)"
  by (auto simp: execution_of_def codec_validates_def bind_res_Inr)

lemma handle_application_cases:
  assumes "handle_application rt pw cd env q mb = (result, mb')"
  obtains (kept) "plant_physics (mx_plant mb') = plant_physics (mx_plant mb)" "plant_inv pw (mx_plant mb) \<Longrightarrow> plant_inv pw (mx_plant mb')"
      "mb' = mb\<lparr>mx_plant := mx_plant mb'\<rparr>" "case result of Inl _ \<Rightarrow> True | Inr outcome \<Rightarrow> fst outcome = COMPLETE \<and> wq_operation q \<noteq> EXECUTE"
    | (executed) permit p d a acked dev pl where "wq_operation q = EXECUTE" "execution_of cd (wq_payload q) = Inr (permit, p, d, a)"
      "execute_locked rt (pandapower_ops rt pw) (me_device env) permit p d a (mx_device mb, mx_plant mb) = (acked, dev, pl)"
      "mb' = mb\<lparr>mx_device := dev, mx_plant := pl\<rparr>"
      "(\<exists>k post. acked = Inr k \<and> read_state rt pw pl = Inr post \<and> result = Inr (execution_result k post)) \<or>
       result = Inl application_unknown_effect"
proof (cases "wq_operation q")
  case READ_STATE
  then show ?thesis
    using assms by (intro kept) (auto simp: handle_application_def Let_def bind_res_def split: if_splits prod.splits sum.splits
        dest: capture_physics capture_inv)
next
  case SIMULATE_CANDIDATE
  then show ?thesis using assms by (intro kept) (auto simp: handle_application_def bind_res_def split: sum.splits)
next
  case HEALTH
  then show ?thesis using assms by (intro kept) (auto simp: handle_application_def bind_res_def split: if_splits sum.splits)
next
  case EXECUTE
  show ?thesis
  proof (cases "execution_of cd (wq_payload q)")
    case (Inl e)
    then show ?thesis using assms EXECUTE by (intro kept) (auto simp: handle_application_def)
  next
    case (Inr x)
    obtain permit p d a where x: "x = (permit, p, d, a)" by (cases x)
    obtain acked dev pl where call: "execute_locked rt (pandapower_ops rt pw) (me_device env) permit p d a
        (mx_device mb, mx_plant mb) = (acked, dev, pl)" by (metis prod_cases3)
    show ?thesis
      by (rule executed [OF EXECUTE Inr [unfolded x] call])
        (use assms EXECUTE Inr x call in \<open>auto simp: handle_application_def bind_res_def split: sum.splits\<close>)
  qed
qed

definition change_authorized ::
  "runtime \<Rightarrow> pandapower \<Rightarrow> wire_codec \<Rightarrow> mailbox_env \<Rightarrow> (string \<times> json) list \<Rightarrow> mailbox \<Rightarrow> mailbox \<Rightarrow> bool" where
  "change_authorized rt pw cd env payload mb mb' \<longleftrightarrow>
     (\<exists>permit p d a. execution_of cd payload = Inr (permit, p, d, a) \<and>
        plant_change_authorized rt pw (me_device env) (mx_device mb) permit p d a (mx_plant mb) (mx_device mb') (mx_plant mb'))"

definition wire_status_truthful ::
  "runtime \<Rightarrow> pandapower \<Rightarrow> wire_codec \<Rightarrow> mailbox_env \<Rightarrow> wire_operation \<Rightarrow> (string \<times> json) list \<Rightarrow> mailbox \<Rightarrow> mailbox \<Rightarrow> wire_status \<Rightarrow> bool"
where
  "wire_status_truthful rt pw cd env operation payload mb mb' status \<longleftrightarrow>
     (case status of
        COMPLETE \<Rightarrow> (if operation = EXECUTE then change_authorized rt pw cd env payload mb mb'
                     else plant_physics (mx_plant mb') = plant_physics (mx_plant mb))
      | REJECTED_BEFORE_DISPATCH \<Rightarrow> plant_physics (mx_plant mb') = plant_physics (mx_plant mb)
      | WIRE_UNKNOWN_EFFECT \<Rightarrow> operation = EXECUTE \<or> plant_physics (mx_plant mb') = plant_physics (mx_plant mb)
      | _ \<Rightarrow> False)"

lemma changed_authorized:
  "plant_change_authorized rt pw env dev permit p d a pl dev' pl' \<Longrightarrow> pl_state_version pl' = pl_state_version pl + 1"
  by (auto simp: plant_change_authorized_def dest!: read_state_version)

lemma handle_application_truthful:
  assumes inv: "plant_inv pw (mx_plant mb)" and cd: "codec_validates cd"
    and call: "handle_application rt pw cd env q mb = (result, mb')"
  shows "plant_physics (mx_plant mb') = plant_physics (mx_plant mb) \<or>
      wq_operation q = EXECUTE \<and> change_authorized rt pw cd env (wq_payload q) mb mb'"
    and "plant_inv pw (mx_plant mb')"
    and "commit_result rt pw cd (wq_operation q) result (mx_plant mb') = Inr (status, code, payload, version) \<Longrightarrow>
      wire_status_truthful rt pw cd env (wq_operation q) (wq_payload q) mb mb' status"
proof -
  show "plant_physics (mx_plant mb') = plant_physics (mx_plant mb) \<or>
      wq_operation q = EXECUTE \<and> change_authorized rt pw cd env (wq_payload q) mb mb'"
    using call
  proof (cases rule: handle_application_cases)
    case (executed permit p d a acked dev pl)
    then show ?thesis
      using device_change_authorized [OF inv execution_of_valid [OF cd executed(2)] executed(3)]
      by (auto simp: change_authorized_def)
  qed simp
  show "plant_inv pw (mx_plant mb')"
    using call
  proof (cases rule: handle_application_cases)
    case (executed permit p d a acked dev pl)
    from executed(3) have "plant_inv pw pl"
      by (cases rule: execute_locked_cases)
        (use inv in \<open>auto elim!: device_dispatch_cases dest: cigre.applied_invariant [OF inv]\<close>)
    then show ?thesis by (simp add: executed(4))
  qed (use inv in simp)
  assume res: "commit_result rt pw cd (wq_operation q) result (mx_plant mb') = Inr (status, code, payload, version)"
  show "wire_status_truthful rt pw cd env (wq_operation q) (wq_payload q) mb mb' status"
    using call
  proof (cases rule: handle_application_cases)
    case kept
    then show ?thesis
      using res by (cases result) (auto simp: wire_status_truthful_def commit_result_def failure_result_def Let_def
          bind_res_Inr split: if_splits)
  next
    case (executed permit p d a acked dev pl)
    note valid = execution_of_valid [OF cd executed(2)]
    from executed(5) show ?thesis
    proof
      assume "result = Inl application_unknown_effect"
      then show ?thesis using res executed(1)
        by (auto simp: wire_status_truthful_def commit_result_def failure_result_def bind_res_Inr Let_def)
    next
      assume "\<exists>k post. acked = Inr k \<and> read_state rt pw pl = Inr post \<and> result = Inr (execution_result k post)"
      then obtain k post where k: "acked = Inr k" "result = Inr (execution_result k post)" by blast
      have st: "status = fst (execution_status (ck_status k))"
        using res k(2) by (auto simp: commit_result_def execution_result_def Let_def split: prod.splits)
      note truth = cigre.device_truthful [OF inv valid executed(3) [unfolded k(1)]]
      show ?thesis
      proof (cases "ck_status k")
        case APPLIED
        then obtain pre post where "read_state rt pw (mx_plant mb) = Inr pre" "read_state rt pw pl = Inr post"
          "ps_state_version post = ps_state_version pre + 1" using truth by (auto simp: pandapower_ops_def)
        then have "pl_state_version pl = pl_state_version (mx_plant mb) + 1" using read_state_version by metis
        then have "pl \<noteq> mx_plant mb" by auto
        then show ?thesis
          using APPLIED st executed device_change_authorized [OF inv valid executed(3)]
          by (auto simp: wire_status_truthful_def change_authorized_def)
      qed (use truth st executed(1,4) in \<open>auto simp: wire_status_truthful_def\<close>)
    qed
  qed
qed

section \<open>Reading back what was written\<close>

lemma length_put_slice [simp]: "i + length xs \<le> length regs \<Longrightarrow> length (put_slice i xs regs) = length regs"
  by (simp add: put_slice_def)

lemma slice_put_same: "i \<le> length regs \<Longrightarrow> j = i + length xs \<Longrightarrow> slice i j (put_slice i xs regs) = xs"
  by (simp add: slice_def put_slice_def)

lemma slice_put_before: "j \<le> i \<Longrightarrow> i \<le> length regs \<Longrightarrow> slice lo j (put_slice i xs regs) = slice lo j regs"
  by (cases "lo \<le> j") (auto simp: slice_def put_slice_def drop_take)

lemma slice_put_after:
  "i + length xs \<le> lo \<Longrightarrow> i + length xs \<le> length regs \<Longrightarrow> slice lo j (put_slice i xs regs) = slice lo j regs"
  by (simp add: slice_def put_slice_def)

text \<open>What the codec's text and digest look like.\<close>

definition codec_bytes :: "wire_codec \<Rightarrow> bool" where
  "codec_bytes cd \<longleftrightarrow> (\<forall>j bs. wc_bytes cd j = Inr bs \<longrightarrow> is_bytes bs) \<and> (\<forall>bs. is_hex_digest (wc_sha256 cd bs))"

lemma codec_bytesD:
  assumes "codec_bytes cd"
  shows "canonical_json_bytes cd j = Inr bs \<Longrightarrow> is_bytes bs" "is_hex_digest (wc_sha256 cd bs)"
  using assms by (auto simp: codec_bytes_def canonical_json_bytes_def)

lemma bytes_to_registersD:
  assumes "is_bytes bs" "bytes_to_registers bs = Inr vs"
  shows "registers_to_bytes vs (int (length bs)) = Inr bs" "length vs \<le> 4096" "list_all is_register vs"
    "dimensions_ok (int (length bs)) (int (length vs))" "length bs \<le> max_payload_bytes"
proof -
  have len: "length bs \<le> max_payload_bytes" using assms(2) by (simp add: bytes_to_registers_def split: if_splits)
  then have "payload_ok bs" using assms(1) by (simp add: payload_ok_def)
  from payload_roundtrip [OF this] assms(2) show *: "registers_to_bytes vs (int (length bs)) = Inr bs" "length vs \<le> 4096" "list_all is_register vs"
    by (auto simp: wire_constants)
  show "length bs \<le> max_payload_bytes" by (fact len)
  show "dimensions_ok (int (length bs)) (int (length vs))"
    using *(1) len by (simp add: registers_to_bytes_def dimensions_ok_def split: if_splits)
qed

lemma response_to_registers_length: "response_to_registers h = Inr w \<Longrightarrow> length w = response_header_registers"
  by (auto simp: response_to_registers_def bind_res_Inr u64_registers_def u32_registers_def digest_registers_def wire_constants
      split: if_splits)

lemma response_to_registers_range:
  "response_to_registers h = Inr w \<Longrightarrow> in_u64 (sh_transaction_id h) \<and> in_u64 (sh_device_transaction_counter h) \<and> in_u64 (sh_state_version_hint h)"
  by (auto simp: response_to_registers_def bind_res_Inr u64_registers_def in_u64_def split: if_splits)

text \<open>The response registers hold the header and the text of the response, whatever was in them.\<close>

definition holds_response :: "wire_codec \<Rightarrow> int list \<Rightarrow> signed_wire_response \<Rightarrow> int \<Rightarrow> bool" where
  "holds_response cd regs r hint \<longleftrightarrow>
     (\<exists>payload payload_registers. canonical_json_bytes cd (wire_response_dump r) = Inr payload \<and>
        length payload_registers \<le> response_payload_registers \<and>
        response_from_registers (slice response_header_start response_payload_start regs) =
          Inr (response_header_of cd r payload payload_registers hint) \<and>
        slice response_payload_start (response_payload_start + length payload_registers) regs = payload_registers \<and>
        registers_to_bytes payload_registers (int (length payload)) = Inr payload)"

lemma clear_responseD:
  assumes "clear_response regs = (Inr (), regs')"
  shows "register_count \<le> length regs" "length regs' = length regs" "take response_header_start regs' = take response_header_start regs"
proof -
  have len: "register_count \<le> length regs" and regs': "regs' = put_slice response_header_start (replicate (register_count - response_header_start) 0) regs"
    using assms by (auto simp: clear_response_def split: if_splits)
  then show "register_count \<le> length regs" "length regs' = length regs" "take response_header_start regs' = take response_header_start regs"
    by (simp_all add: put_slice_def register_map)
qed

lemma write_response_holds:
  assumes cd: "codec_bytes cd" and wrote: "write_response cd r hint regs = (Inr (), regs')"
  shows "holds_response cd regs' r hint" "take response_header_start regs' = take response_header_start regs" "length regs' = length regs"
proof -
  obtain payload pregs cleared hregs where payload: "canonical_json_bytes cd (wire_response_dump r) = Inr payload"
    "bytes_to_registers payload = Inr pregs" and cleared: "clear_response regs = (Inr (), cleared)"
    and header: "response_to_registers (response_header_of cd r payload pregs hint) = Inr hregs"
    and regs': "regs' = put_slice response_payload_start pregs (put_slice response_header_start hregs cleared)"
    using wrote by (auto simp: write_response_def bind_res_Inr bind_res_def split: sum.splits prod.splits)
  note P = bytes_to_registersD [OF codec_bytesD(1) [OF cd payload(1)] payload(2)]
  note C = clear_responseD [OF cleared]
  note H = response_to_registers_length [OF header]
  have ok: "response_ok (response_header_of cd r payload pregs hint)"
    using response_to_registers_range [OF header] P(4) codec_bytesD(2) [OF cd]
    by (simp add: response_ok_def response_header_of_def)
  have len: "length (put_slice response_header_start hregs cleared) = length regs"
    using C(1,2) H by (simp add: register_map)
  have "slice response_header_start response_payload_start regs' = hregs"
    unfolding regs' using len C H
    by (subst slice_put_before) (simp_all add: slice_put_same response_payload_start_def register_count_def)
  moreover have "slice response_payload_start (response_payload_start + length pregs) regs' = pregs"
    unfolding regs' using len C(1) by (intro slice_put_same) (simp_all add: register_count_def)
  moreover have "response_from_registers hregs = Inr (response_header_of cd r payload pregs hint)"
    using response_encodes [OF ok] header by auto
  ultimately show "holds_response cd regs' r hint"
    using payload(1) P(1,2) by (auto simp: holds_response_def response_payload_registers_def)
  show "length regs' = length regs"
    unfolding regs' using len C(1) P(2) by (simp add: register_count_def response_payload_registers_def)
  show "take response_header_start regs' = take response_header_start regs"
    unfolding regs' using C by (simp add: put_slice_def register_map)
qed

section \<open>Decoding and processing\<close>

lemma staged_requestD:
  assumes "staged_request cd active regs = (ctx, Inr q)"
  obtains h payload_bytes where "request_from_registers (take request_header_registers regs) = Inr h" "rh_control h = BEGIN"
    "active = Some (rh_transaction_id h)" "wc_sha256 cd payload_bytes = rh_payload_digest h"
    "registers_to_bytes (slice request_payload_start (request_payload_start + nat (rh_payload_register_count h)) regs)
       (rh_payload_byte_length h) = Inr payload_bytes"
    "canonical_json_bytes cd (wire_request_dump q) = Inr payload_bytes"
    "ctx = (wq_transaction_id q, wq_operation q, rh_payload_digest h)" "wq_transaction_id q = rh_transaction_id h" "wq_operation q = rh_operation h"
  using assms
  by (auto simp: staged_request_def Let_def bind_res_Inr split: sum.splits if_splits)

lemma signed_responseD:
  assumes "signed_response rt tid op digest status code payload mb = (Inr r, mb')"
  shows "mb' = mb\<lparr>mx_transaction_counter := mx_transaction_counter mb + 1\<rparr>"
    "wr_transaction_id r = tid" "wr_operation r = op" "wr_request_digest r = digest" "wr_status r = status"
    "wr_result_code r = code" "wr_payload r = payload" "wr_device_id r = vd_device_id (mx_device mb)"
    "wr_device_key_id r = vd_acknowledgment_key_id (mx_device mb)" "wr_boot_epoch r = mx_boot_epoch mb"
    "wr_device_transaction_counter r = mx_transaction_counter mb + 1"
    "r = wire_response_signed rt (r\<lparr>wr_signature := ''''\<rparr>) (mx_private_key mb)" "wire_response_valid rt r"
  using assms
  by (auto simp: signed_response_def Let_def bind_res_Inr make_wire_response_def wire_response_signed_def
      wire_response_valid_def split: if_splits)

lemma signed_response_verifies:
  assumes rt: "signatures_ok rt" and "signed_response rt tid op digest status code payload mb = (Inr r, mb')"
  shows "wire_response_verify rt r (rt_public rt (mx_private_key mb))"
proof -
  have "wire_response_signing_payload (r\<lparr>wr_signature := ''''\<rparr>) = wire_response_signing_payload r"
    by (simp add: wire_response_signing_payload_def)
  then have "wr_signature r = sign_bytes rt (mx_private_key mb) (wire_response_signing_payload r)"
    using signed_responseD(12) [OF assms(2)] by (metis signed_wire_response.select_convs(12) signed_wire_response.surjective
        signed_wire_response.update_convs(12) wire_response_signed_def)
  then show ?thesis using rt by (simp add: wire_response_verify_def)
qed

lemma handle_application_frame:
  assumes "handle_application rt pw cd env q mb = (result, mb')"
  obtains dev pl where "mb' = mb\<lparr>mx_device := dev, mx_plant := pl\<rparr>"
  using assms
proof (cases rule: handle_application_cases)
  case kept
  then show ?thesis using that [where dev = "mx_device mb" and pl = "mx_plant mb'"] by (metis mailbox.surjective mailbox.update_convs(2) mailbox.select_convs(2)
      mailbox.update_convs(1))
qed (use that in blast)

definition staged_payload :: "wire_codec \<Rightarrow> int option \<Rightarrow> int list \<Rightarrow> (string \<times> json) list" where
  "staged_payload cd active regs = (case snd (staged_request cd active regs) of Inl _ \<Rightarrow> [] | Inr q \<Rightarrow> wq_payload q)"

definition staged_execute :: "wire_codec \<Rightarrow> int option \<Rightarrow> int list \<Rightarrow> bool" where
  "staged_execute cd active regs \<longleftrightarrow> (\<exists>ctx q. staged_request cd active regs = (ctx, Inr q) \<and> wq_operation q = EXECUTE)"

text \<open>One processed commit, from the staged registers to the registers of the response.\<close>

lemma process_commit_cases:
  assumes "process_commit rt pw cd env regs mb = (result, regs', mb')"
  obtains tid op digest staged applied mb1 where "staged_request cd (mx_active_transaction mb) regs = ((tid, op, digest), staged)"
    "case staged of Inl e \<Rightarrow> applied = Inl e \<and> mb1 = mb | Inr q \<Rightarrow> handle_application rt pw cd env q mb = (applied, mb1)"
    "mb' = mb1 \<or> mb' = mb1\<lparr>mx_transaction_counter := mx_transaction_counter mb1 + 1\<rparr>"
    "result = Inr () \<Longrightarrow> \<exists>status code payload version r. commit_result rt pw cd op applied (mx_plant mb1) = Inr (status, code, payload, version) \<and>
       signed_response rt tid op digest status code payload mb1 = (Inr r, mb') \<and> write_response cd r version regs = (Inr (), regs')"
    "take response_header_start regs' = take response_header_start regs"
proof -
  obtain tid op digest staged where st: "staged_request cd (mx_active_transaction mb) regs = ((tid, op, digest), staged)"
    by (metis prod_cases3 surj_pair)
  obtain applied mb1 where app: "(case staged of Inl e \<Rightarrow> (Inl e, mb) | Inr q \<Rightarrow> handle_application rt pw cd env q mb) = (applied, mb1)"
    by fastforce
  have signed: "mb2 = mb1\<lparr>mx_transaction_counter := mx_transaction_counter mb1 + 1\<rparr>"
    if "signed_response rt tid op digest status code payload mb1 = (r, mb2)" for status code payload r mb2
    using that by (auto simp: signed_response_def Let_def)
  have kept: "take response_header_start regs2 = take response_header_start regs" if "write_response cd r v regs = (w, regs2)" for r v w regs2
    using that by (auto simp: write_response_def clear_response_def put_slice_def register_map min_def split: sum.splits prod.splits if_splits)
  show ?thesis
    by (rule that [OF st, of applied mb1])
      (use assms app in \<open>auto simp: process_commit_def st Let_def split: sum.splits prod.splits dest!: signed kept\<close>)
qed

lemma process_commit_truthful:
  assumes inv: "plant_inv pw (mx_plant mb)" and cd: "codec_validates cd"
    and call: "process_commit rt pw cd env regs mb = (result, regs', mb')"
  shows "mb' = mb\<lparr>mx_device := mx_device mb', mx_plant := mx_plant mb', mx_transaction_counter := mx_transaction_counter mb'\<rparr>"
    and "plant_inv pw (mx_plant mb')"
    and "plant_physics (mx_plant mb') = plant_physics (mx_plant mb) \<or> staged_execute cd (mx_active_transaction mb) regs \<and>
      change_authorized rt pw cd env (staged_payload cd (mx_active_transaction mb) regs) mb mb'"
    and "result = Inr () \<Longrightarrow> \<exists>r hint. write_response cd r hint regs = (Inr (), regs') \<and>
       (wr_transaction_id r, wr_operation r, wr_request_digest r) = fst (staged_request cd (mx_active_transaction mb) regs) \<and>
       mx_transaction_counter mb' = mx_transaction_counter mb + 1 \<and> wr_device_transaction_counter r = mx_transaction_counter mb' \<and>
       (signatures_ok rt \<longrightarrow> wire_response_verify rt r (rt_public rt (mx_private_key mb))) \<and>
       wire_status_truthful rt pw cd env (wr_operation r) (staged_payload cd (mx_active_transaction mb) regs) mb mb' (wr_status r)"
proof -
  obtain tid op digest staged applied mb1 where st: "staged_request cd (mx_active_transaction mb) regs = ((tid, op, digest), staged)"
    and app: "case staged of Inl e \<Rightarrow> applied = Inl e \<and> mb1 = mb | Inr q \<Rightarrow> handle_application rt pw cd env q mb = (applied, mb1)"
    and mb': "mb' = mb1 \<or> mb' = mb1\<lparr>mx_transaction_counter := mx_transaction_counter mb1 + 1\<rparr>"
    and ok: "result = Inr () \<Longrightarrow> \<exists>status code payload version r. commit_result rt pw cd op applied (mx_plant mb1) = Inr (status, code, payload, version) \<and>
       signed_response rt tid op digest status code payload mb1 = (Inr r, mb') \<and> write_response cd r version regs = (Inr (), regs')"
    using call by (cases rule: process_commit_cases) blast
  obtain dev pl where mb1: "mb1 = mb\<lparr>mx_device := dev, mx_plant := pl\<rparr>"
    using app by (cases staged) (auto elim: handle_application_frame, metis mailbox.surjective mailbox.update_convs(1,2))
  have same: "mx_plant mb' = mx_plant mb1" "mx_device mb' = mx_device mb1" using mb' by auto
  show "mb' = mb\<lparr>mx_device := mx_device mb', mx_plant := mx_plant mb', mx_transaction_counter := mx_transaction_counter mb'\<rparr>"
    using mb' mb1 by auto
  have staged: "plant_inv pw (mx_plant mb1) \<and>
    (plant_physics (mx_plant mb1) = plant_physics (mx_plant mb) \<or> staged_execute cd (mx_active_transaction mb) regs \<and>
      change_authorized rt pw cd env (staged_payload cd (mx_active_transaction mb) regs) mb mb1) \<and>
    (\<forall>status code payload version. commit_result rt pw cd op applied (mx_plant mb1) = Inr (status, code, payload, version) \<longrightarrow>
      wire_status_truthful rt pw cd env op (staged_payload cd (mx_active_transaction mb) regs) mb mb1 status)"
  proof (cases staged)
    case (Inl e)
    then show ?thesis
      using app inv by (auto simp: st staged_payload_def commit_result_def failure_result_def wire_status_truthful_def Let_def
          bind_res_Inr split: if_splits)
  next
    case (Inr q)
    note call = app [unfolded Inr, simplified]
    have "op = wq_operation q" by (rule staged_requestD [OF st [unfolded Inr]]) simp
    then show ?thesis
      using handle_application_truthful [OF inv cd call] by (auto simp: st Inr staged_payload_def staged_execute_def)
  qed
  have change: "change_authorized rt pw cd env payload mb mb' = change_authorized rt pw cd env payload mb mb1"
    "wire_status_truthful rt pw cd env op payload mb mb' status = wire_status_truthful rt pw cd env op payload mb mb1 status" for payload status
    unfolding change_authorized_def wire_status_truthful_def same by (rule refl)+
  show "plant_inv pw (mx_plant mb')" using staged same by simp
  show "plant_physics (mx_plant mb') = plant_physics (mx_plant mb) \<or> staged_execute cd (mx_active_transaction mb) regs \<and>
      change_authorized rt pw cd env (staged_payload cd (mx_active_transaction mb) regs) mb mb'"
    using staged same change by simp
  show "\<exists>r hint. write_response cd r hint regs = (Inr (), regs') \<and>
       (wr_transaction_id r, wr_operation r, wr_request_digest r) = fst (staged_request cd (mx_active_transaction mb) regs) \<and>
       mx_transaction_counter mb' = mx_transaction_counter mb + 1 \<and> wr_device_transaction_counter r = mx_transaction_counter mb' \<and>
       (signatures_ok rt \<longrightarrow> wire_response_verify rt r (rt_public rt (mx_private_key mb))) \<and>
       wire_status_truthful rt pw cd env (wr_operation r) (staged_payload cd (mx_active_transaction mb) regs) mb mb' (wr_status r)"
    if ret: "result = Inr ()"
  proof -
    from ok [OF ret] obtain status code payload version r where r: "commit_result rt pw cd op applied (mx_plant mb1) = Inr (status, code, payload, version)"
      "signed_response rt tid op digest status code payload mb1 = (Inr r, mb')" "write_response cd r version regs = (Inr (), regs')" by blast
    note S = signed_responseD [OF r(2)] and V = signed_response_verifies [OF _ r(2)]
    show ?thesis
      by (rule exI [of _ r], rule exI [of _ version])
        (use r(1,3) S V staged change in \<open>auto simp: st mb1\<close>)
  qed
qed

section \<open>Register accesses as steps\<close>

lemma action_cases:
  assumes "action rt pw cd env start_address address n values regs mb = (result, regs', mb')"
  obtains (committed) r mb1 where "mx_active_transaction mb \<noteq> None" "mx_terminal_transaction mb = None"
      "process_commit rt pw cd env regs mb = (r, regs', mb1)"
      "mb' = (case r of Inl _ \<Rightarrow> mb1 | Inr _ \<Rightarrow> mb1\<lparr>mx_terminal_transaction := mx_active_transaction mb1\<rparr>)"
    | (begun) h where "mx_active_header mb = None" "rh_control h = BEGIN" "take response_header_start regs' = take response_header_start regs"
      "mb' = mb\<lparr>mx_active_transaction := Some (rh_transaction_id h), mx_active_header := Some h\<rparr>"
    | (released) "mx_active_header mb \<noteq> None" "mx_terminal_transaction mb = mx_active_transaction mb" "regs' = regs"
      "mb' = mb\<lparr>mx_active_transaction := None, mx_active_header := None, mx_terminal_transaction := None\<rparr>"
    | (kept) "mb' = mb" "regs' = regs"
proof -
  have control: thesis if call: "control_action h regs mb = (result, regs', mb')" for h
  proof (cases "rh_control h")
    case BEGIN
    show thesis
    proof (cases "mx_active_header mb")
      case None
      show thesis
        by (rule begun [OF None BEGIN])
          (use call BEGIN None in \<open>auto simp: control_action_def Let_def clear_response_def put_slice_def split: if_splits\<close>)
    qed (rule kept, use call BEGIN in \<open>simp_all add: control_action_def\<close>)
  next
    case RELEASE
    show thesis
    proof (cases "mx_active_header mb = None \<or> mx_terminal_transaction mb \<noteq> mx_active_transaction mb")
      case False
      then have "mb' = mb \<and> regs' = regs \<or> regs' = regs \<and>
          mb' = mb\<lparr>mx_active_transaction := None, mx_active_header := None, mx_terminal_transaction := None\<rparr>"
        using call RELEASE by (simp add: control_action_def split: if_splits)
      then show thesis using kept released False by (elim disjE conjE) simp_all
    qed (rule kept, use call RELEASE in \<open>auto simp: control_action_def\<close>)
  qed (rule kept, use call in \<open>simp_all add: control_action_def\<close>)
  have "thesis" if call: "commit_action rt pw cd env regs mb = (result, regs', mb')"
  proof (cases "mx_active_transaction mb = None \<or> mx_terminal_transaction mb \<noteq> None")
    case False
    obtain r regs1 mb1 where pc: "process_commit rt pw cd env regs mb = (r, regs1, mb1)" by (metis prod_cases3)
    show thesis
      by (rule committed [of r mb1]) (use call False pc in \<open>auto simp: commit_action_def split: sum.splits\<close>)
  qed (rule kept, use call in \<open>auto simp: commit_action_def split: if_splits\<close>)
  then show ?thesis
    using assms kept control by (simp add: action_def split: option.splits list.splits if_splits sum.splits)
qed

definition mailbox_phase_ok :: "mailbox \<Rightarrow> bool" where
  "mailbox_phase_ok mb \<longleftrightarrow>
     (case mx_active_header mb of
        None \<Rightarrow> mx_active_transaction mb = None \<and> mx_terminal_transaction mb = None
      | Some h \<Rightarrow> mx_active_transaction mb = Some (rh_transaction_id h) \<and> rh_control h = BEGIN \<and>
          mx_terminal_transaction mb \<in> {None, mx_active_transaction mb})"

lemma process_commit_frame:
  assumes "process_commit rt pw cd env regs mb = (result, regs', mb')"
  obtains dev pl ctr where "mb' = mb\<lparr>mx_device := dev, mx_plant := pl, mx_transaction_counter := ctr\<rparr>"
proof -
  from assms obtain staged applied mb1 where
    app: "case staged of Inl e \<Rightarrow> applied = Inl e \<and> mb1 = mb | Inr q \<Rightarrow> handle_application rt pw cd env q mb = (applied, mb1)"
    and mb': "mb' = mb1 \<or> mb' = mb1\<lparr>mx_transaction_counter := mx_transaction_counter mb1 + 1\<rparr>"
    by (cases rule: process_commit_cases) blast
  obtain dev pl where mb1: "mb1 = mb\<lparr>mx_device := dev, mx_plant := pl\<rparr>"
    using app by (cases staged) (auto elim: handle_application_frame, metis mailbox.surjective mailbox.update_convs(1,2))
  show ?thesis by (rule that [where dev = dev and pl = pl and ctr = "mx_transaction_counter mb'"]) (use mb' mb1 in auto)
qed

lemma action_phase:
  assumes "action rt pw cd env start_address address n values regs mb = (result, regs', mb')" "mailbox_phase_ok mb"
  shows "mailbox_phase_ok mb'"
  using assms(1)
proof (cases rule: action_cases)
  case (committed r mb1)
  then show ?thesis
    using assms(2) by (elim process_commit_frame) (auto simp: mailbox_phase_ok_def split: option.splits sum.splits)
qed (use assms(2) in \<open>auto simp: mailbox_phase_ok_def split: option.splits\<close>)

text \<open>
  The permit that the staged registers carry, and what an access does to the device's memory of permits.
\<close>

definition staged_permit :: "wire_codec \<Rightarrow> int list \<Rightarrow> permit option" where
  "staged_permit cd regs =
     (case request_from_registers (take request_header_registers regs) of
        Inl _ \<Rightarrow> None
      | Inr h \<Rightarrow> (case execution_of cd (staged_payload cd (Some (rh_transaction_id h)) regs) of
          Inl _ \<Rightarrow> None
        | Inr (permit, _) \<Rightarrow> Some permit))"

lemma process_commit_device:
  assumes "process_commit rt pw cd env regs mb = (result, regs', mb')"
  shows "mx_device mb' \<in> {mx_device mb, scanned (mx_device mb)} \<and> plant_physics (mx_plant mb') = plant_physics (mx_plant mb) \<or>
    (\<exists>permit. staged_permit cd regs = Some permit \<and> mx_device mb' = consume_permit permit (scanned (mx_device mb)) \<and>
       ep_permit_id permit \<notin> vd_consumed_permits (mx_device mb) \<and> ep_permit_nonce permit \<notin> vd_consumed_nonces (mx_device mb) \<and>
       pc_command_id (ep_command permit) \<notin> vd_consumed_commands (mx_device mb))"
proof -
  from assms obtain tid op digest staged applied mb1 where st: "staged_request cd (mx_active_transaction mb) regs = ((tid, op, digest), staged)"
    and app: "case staged of Inl e \<Rightarrow> applied = Inl e \<and> mb1 = mb | Inr q \<Rightarrow> handle_application rt pw cd env q mb = (applied, mb1)"
    and same: "mx_device mb' = mx_device mb1" "mx_plant mb' = mx_plant mb1"
    by (cases rule: process_commit_cases) auto
  show ?thesis
  proof (cases staged)
    case (Inl e)
    then show ?thesis using app same by simp
  next
    case (Inr q)
    from app [unfolded Inr, simplified] show ?thesis
    proof (cases rule: handle_application_cases)
      case kept
      then show ?thesis using same by (metis insertI1 mailbox.select_convs(2) mailbox.surjective mailbox.update_convs(1))
    next
      case (executed permit p d a acked dev pl)
      obtain h where h: "request_from_registers (take request_header_registers regs) = Inr h"
        "mx_active_transaction mb = Some (rh_transaction_id h)" by (rule staged_requestD [OF st [unfolded Inr]])
      have sp: "staged_permit cd regs = Some permit"
        using executed(2) st Inr h by (simp add: staged_permit_def staged_payload_def)
      have step: "device_step rt (pandapower_ops rt pw)
          \<lparr>dc_env = me_device env, dc_permit = permit, dc_proposal = p, dc_decision = d, dc_assessment = a\<rparr> (mx_device mb, mx_plant mb) =
          ((acked, mx_plant mb, pl), dev, pl)"
        using executed(3) by (simp add: device_step_def)
      from device_step_effect [OF step] show ?thesis
        using sp same executed(4) by (auto simp: effective_def)
    qed
  qed
qed

type_synonym register_access = "mailbox_env \<times> nat \<times> nat \<times> nat \<times> int list option \<times> int list"

definition mailbox_step ::
  "runtime \<Rightarrow> pandapower \<Rightarrow> wire_codec \<Rightarrow> register_access \<Rightarrow> mailbox \<Rightarrow> (exc_code option res \<times> int list \<times> plant \<times> plant) \<times> mailbox" where
  "mailbox_step rt pw cd = (\<lambda>(env, start_address, address, n, values, regs) mb.
     let (result, regs', mb') = action rt pw cd env start_address address n values regs mb
     in ((result, regs', mx_plant mb, mx_plant mb'), mb'))"

definition moves_plant :: "exc_code option res \<times> int list \<times> plant \<times> plant \<Rightarrow> bool" where
  "moves_plant = (\<lambda>(result, regs, pl, pl'). plant_physics pl' \<noteq> plant_physics pl)"

definition access_permit :: "wire_codec \<Rightarrow> register_access \<Rightarrow> permit option" where
  "access_permit cd = (\<lambda>(env, start_address, address, n, values, regs). staged_permit cd regs)"

lemma mailbox_step_effect:
  assumes "mailbox_step rt pw cd access mb = (out, mb')"
  shows "mx_device mb' \<in> {mx_device mb, scanned (mx_device mb)} \<and> \<not> moves_plant out \<or>
    (\<exists>permit. access_permit cd access = Some permit \<and> mx_device mb' = consume_permit permit (scanned (mx_device mb)) \<and>
       ep_permit_id permit \<notin> vd_consumed_permits (mx_device mb) \<and> ep_permit_nonce permit \<notin> vd_consumed_nonces (mx_device mb) \<and>
       pc_command_id (ep_command permit) \<notin> vd_consumed_commands (mx_device mb))"
proof -
  obtain env start_address address n "values" regs where access: "access = (env, start_address, address, n, values, regs)"
    by (cases access)
  obtain result regs' where call: "action rt pw cd env start_address address n values regs mb = (result, regs', mb')"
    and out: "out = (result, regs', mx_plant mb, mx_plant mb')"
    using assms by (auto simp: mailbox_step_def access split: prod.splits)
  from call show ?thesis
  proof (cases rule: action_cases)
    case (committed r mb1)
    then have "mx_device mb' = mx_device mb1" "mx_plant mb' = mx_plant mb1" by (auto split: sum.splits)
    then show ?thesis using process_commit_device [OF committed(3)] by (simp add: access access_permit_def out moves_plant_def)
  qed (auto simp: out moves_plant_def)
qed

interpretation mailbox_permit: once_only "mailbox_step rt pw cd" moves_plant "\<lambda>access. map_option ep_permit_id (access_permit cd access)"
  "\<lambda>mb. Some ` vd_consumed_permits (mx_device mb)"
  by unfold_locales (auto dest!: mailbox_step_effect)

interpretation mailbox_nonce: once_only "mailbox_step rt pw cd" moves_plant "\<lambda>access. map_option ep_permit_nonce (access_permit cd access)"
  "\<lambda>mb. Some ` vd_consumed_nonces (mx_device mb)"
  by unfold_locales (auto dest!: mailbox_step_effect)

interpretation mailbox_command: once_only "mailbox_step rt pw cd" moves_plant
  "\<lambda>access. map_option (\<lambda>permit. pc_command_id (ep_command permit)) (access_permit cd access)"
  "\<lambda>mb. Some ` vd_consumed_commands (mx_device mb)"
  by unfold_locales (auto dest!: mailbox_step_effect)

text \<open>
  (C38) The Modbus device acts at most once per permit, whatever a client writes: in any sequence of register
  accesses, with any register contents, repeated commits included, no two accesses that move the plant carry
  the same permit, nonce or command.
\<close>
theorem mailbox_acts_once:
  "let calls = fst (run_steps (mailbox_step rt pw cd) accesses mb)
   in distinct (accepted_keys moves_plant (\<lambda>access. map_option ep_permit_id (access_permit cd access)) calls) \<and>
      distinct (accepted_keys moves_plant (\<lambda>access. map_option ep_permit_nonce (access_permit cd access)) calls) \<and>
      distinct (accepted_keys moves_plant (\<lambda>access. map_option (\<lambda>permit. pc_command_id (ep_command permit)) (access_permit cd access)) calls)"
  unfolding Let_def
  by (intro conjI mailbox_permit.accepted_distinct mailbox_nonce.accepted_distinct mailbox_command.accepted_distinct)

text \<open>
  (C9) The mailbox tells the truth about the plant. A register access moves the plant only when it commits a
  staged and unanswered execute request whose payload has the digest of its header, and then for a verified,
  unused permit in force (\<open>change_authorized\<close>). An access that answers a request leaves in the response
  registers exactly one signed response, correlated with the staged transaction, whose status is true: complete
  means that the authorized change is on the plant or, for another operation, that nothing moved; rejected
  means that nothing moved. A request that was answered is not processed again.
\<close>
theorem mailbox_truthful:
  assumes "plant_inv pw (mx_plant mb)" "codec_validates cd" "codec_bytes cd" "signatures_ok rt" "mailbox_phase_ok mb"
    and "action rt pw cd env start_address address n values regs mb = (result, regs', mb')"
  shows "mailbox_phase_ok mb' \<and>
    (plant_physics (mx_plant mb') = plant_physics (mx_plant mb) \<or>
       mx_terminal_transaction mb = None \<and> staged_execute cd (mx_active_transaction mb) regs \<and>
       change_authorized rt pw cd env (staged_payload cd (mx_active_transaction mb) regs) mb mb') \<and>
    (if mx_terminal_transaction mb = None \<and> mx_terminal_transaction mb' \<noteq> None
     then \<exists>r hint. holds_response cd regs' r hint \<and> wire_response_verify rt r (rt_public rt (mx_private_key mb)) \<and>
        (wr_transaction_id r, wr_operation r, wr_request_digest r) = fst (staged_request cd (mx_active_transaction mb) regs) \<and>
        wire_status_truthful rt pw cd env (wr_operation r) (staged_payload cd (mx_active_transaction mb) regs) mb mb' (wr_status r)
     else mx_terminal_transaction mb \<noteq> None \<longrightarrow> mx_plant mb' = mx_plant mb \<and> mx_device mb' = mx_device mb) \<and>
    take response_header_start regs' = take response_header_start regs"
proof -
  note phase = action_phase [OF assms(6,5)]
  from assms(6) show ?thesis
  proof (cases rule: action_cases)
    case (committed r mb1)
    note T = process_commit_truthful [OF assms(1,2) committed(3)]
    have same: "mx_plant mb' = mx_plant mb1" "mx_device mb' = mx_device mb1" using committed(4) by (auto split: sum.splits)
    have eqs: "change_authorized rt pw cd env payload mb mb' = change_authorized rt pw cd env payload mb mb1"
      "wire_status_truthful rt pw cd env op payload mb mb' status = wire_status_truthful rt pw cd env op payload mb mb1 status" for payload op status
      unfolding change_authorized_def wire_status_truthful_def same by (rule refl)+
    have regs: "take response_header_start regs' = take response_header_start regs"
      using committed(3) by (rule process_commit_cases)
    show ?thesis
    proof (cases r)
      case (Inl e)
      then have "mx_terminal_transaction mb' = None"
        using committed by (elim process_commit_frame) auto
      then show ?thesis using phase T(3) same eqs regs committed(2) by simp
    next
      case (Inr u)
      then show ?thesis
        using phase T(3) T(4) same eqs regs committed(2) assms(4) write_response_holds(1) [OF assms(3)] by (fastforce simp: Inr)
    qed
  qed (use phase assms(5) in \<open>auto simp: mailbox_phase_ok_def split: option.splits\<close>)
qed

section \<open>A concrete mailbox\<close>

definition demo_execute_request :: wire_request where
  "demo_execute_request = \<lparr>wq_transaction_id = 1, wq_operation = EXECUTE, wq_payload = []\<rparr>"

definition demo_execute_header :: request_header where
  "demo_execute_header = \<lparr>rh_control = BEGIN, rh_operation = EXECUTE, rh_transaction_id = 1, rh_payload_byte_length = 1,
     rh_payload_register_count = 1, rh_payload_digest = zero_digest\<rparr>"

definition demo_codec :: "permit \<Rightarrow> decision \<Rightarrow> assessment \<Rightarrow> acknowledgment \<Rightarrow> snapshot \<Rightarrow> signed_wire_response \<Rightarrow> wire_codec" where
  "demo_codec permit d a k s r =
     \<lparr>wc_bytes = (\<lambda>_. Inr [1]), wc_json = (\<lambda>_. Inr JNull), wc_sha256 = (\<lambda>_. zero_digest),
      wc_request = (\<lambda>_. Inr demo_execute_request), wc_response = (\<lambda>_. Inr r), wc_command = (\<lambda>_. Inr (ep_command permit)),
      wc_permit = (\<lambda>_. Inr permit), wc_proposal = (\<lambda>_. Inr demo_plant_proposal), wc_decision = (\<lambda>_. Inr d),
      wc_assessment = (\<lambda>_. Inr a), wc_snapshot = (\<lambda>_. Inr s), wc_acknowledgment = (\<lambda>_. Inr k), wc_text = (\<lambda>_. [])\<rparr>"

definition demo_mailbox :: mailbox where
  "demo_mailbox = \<lparr>mx_plant = demo_observed, mx_device = demo_device, mx_private_key = ''device-key'',
     mx_boot_epoch = ''boot-epoch-000001'', mx_transaction_counter = 0, mx_active_transaction = None,
     mx_active_header = None, mx_terminal_transaction = None\<rparr>"

definition demo_mailbox_env :: mailbox_env where
  "demo_mailbox_env = \<lparr>me_captured_at = 0, me_assessment_id = ''assessment-3'', me_device = demo_device_env\<rparr>"

definition demo_staged :: mailbox where
  "demo_staged = demo_mailbox\<lparr>mx_active_transaction := Some 1, mx_active_header := Some demo_execute_header\<rparr>"

lemma demo_codec_ok:
  "codec_bytes (demo_codec permit d a k s r)" "command_valid (ep_command permit) \<Longrightarrow> codec_validates (demo_codec permit d a k s r)"
  by (simp_all add: codec_bytes_def codec_validates_def demo_codec_def is_bytes_def)

lemma demo_staged_request:
  assumes "request_from_registers hregs = Inr demo_execute_header" "length hregs = request_header_registers"
  shows "staged_request (demo_codec permit d a k s r) (Some 1) (hregs @ 256 # rest) = ((1, EXECUTE, zero_digest), Inr demo_execute_request)"
  using assms
  by (simp add: staged_request_def demo_execute_header_def demo_execute_request_def slice_def register_map registers_to_bytes_def
      to_bytes2_def demo_codec_def canonical_json_bytes_def)

lemma request_from_registers_length: "request_from_registers w = Inr h \<Longrightarrow> length w = request_header_registers"
  by (simp add: request_from_registers_def split: if_splits)

theorem mailbox_truthful_witness:
  "\<exists>cd regs result regs' mb'. action demo_runtime demo_pandapower cd demo_mailbox_env 0 0 1 (Some [0xA501]) regs demo_staged = (result, regs', mb') \<and>
     change_authorized demo_runtime demo_pandapower cd demo_mailbox_env (staged_payload cd (Some 1) regs) demo_staged mb' \<and>
     plant_physics (mx_plant mb') \<noteq> plant_physics demo_observed"
proof -
  obtain permit d a k dev' pl' where c: "command_valid (ep_command permit)"
    and ex: "execute_locked demo_runtime (pandapower_ops demo_runtime demo_pandapower) demo_device_env permit demo_plant_proposal d a
       (demo_device, demo_observed) = (Inr k, dev', pl')" "pl' \<noteq> demo_observed" by (rule demo_device_run)
  have inv: "plant_inv demo_pandapower demo_observed" using demo_plant_inv by (simp add: plant_inv_def demo_observed_def)
  have "request_ok demo_execute_header"
    by (simp add: request_ok_def demo_execute_header_def in_u64_def dimensions_ok_def wire_constants)
  then obtain hregs where hregs: "request_from_registers hregs = Inr demo_execute_header" "length hregs = request_header_registers"
    using request_encodes request_from_registers_length by blast
  define cd where "cd = demo_codec permit d a k undefined undefined"
  define regs :: "int list" where "regs = hregs @ 256 # []"
  have st: "staged_request cd (mx_active_transaction demo_staged) regs = ((1, EXECUTE, zero_digest), Inr demo_execute_request)"
    using demo_staged_request [OF hregs] by (simp add: cd_def regs_def demo_staged_def)
  obtain applied mb1 where app: "handle_application demo_runtime demo_pandapower cd demo_mailbox_env demo_execute_request demo_staged = (applied, mb1)"
    and pl: "mx_plant mb1 = pl'"
    using ex(1) by (simp add: handle_application_def demo_execute_request_def execution_of_def cd_def demo_codec_def demo_staged_def
        demo_mailbox_def demo_mailbox_env_def)
  obtain result regs' mb' where act: "action demo_runtime demo_pandapower cd demo_mailbox_env 0 0 1 (Some [0xA501]) regs demo_staged = (result, regs', mb')"
    by (metis prod_cases3)
  obtain r regs2 mb2 where pc: "process_commit demo_runtime demo_pandapower cd demo_mailbox_env regs demo_staged = (r, regs2, mb2)"
    by (metis prod_cases3)
  then have "mx_plant mb2 = pl'" using st app pl by (cases rule: process_commit_cases) auto
  then have pl2: "mx_plant mb' = pl'"
    using act pc by (auto simp: action_def commit_action_def register_map control_words_def demo_staged_def demo_mailbox_def
        split: sum.splits prod.splits)
  have "plant_physics pl' \<noteq> plant_physics demo_observed"
    using device_change_authorized [OF inv c ex(1)] ex(2) changed_authorized by (fastforce simp: plant_physics_def)
  moreover have staged: "mx_plant demo_staged = demo_observed" "mailbox_phase_ok demo_staged" "mx_active_transaction demo_staged = Some 1"
    by (simp_all add: demo_staged_def demo_mailbox_def mailbox_phase_ok_def demo_execute_header_def)
  have cd: "codec_validates cd" "codec_bytes cd" unfolding cd_def using demo_codec_ok c by blast+
  from mailbox_truthful [OF _ cd demo_runtime_ok(2) staged(2) act] inv
  have "plant_physics pl' = plant_physics demo_observed \<or>
      change_authorized demo_runtime demo_pandapower cd demo_mailbox_env (staged_payload cd (Some 1) regs) demo_staged mb'"
    unfolding staged(1,3) pl2 by blast
  ultimately show ?thesis using act pl2 by blast
qed

end
