(* ===== verification/Modbus_Client.thy ===== *)
theory Modbus_Client
  imports Modbus_Device
begin

text \<open>
  The client half of \<^verbatim>\<open>modbus_device.py\<close>: one mailbox transaction over a Modbus connection, with the staging of
  a request in chunks of registers, the commit, the verification of the signed response and the release, and
  the operations that the controller calls. The connection is the record \<open>modbus_port\<close>; what a faithful server
  in front of the mailbox does with register accesses is the locale \<open>register_server\<close>.
\<close>

section \<open>Transactions\<close>

text \<open>
  A register write is answered, by a success or by an error response with its text, or it raises; likewise a read.
\<close>

record 'w modbus_port =
  mp_write :: "nat \<Rightarrow> int list \<Rightarrow> 'w \<Rightarrow> string option res \<times> 'w"
  mp_read :: "nat \<Rightarrow> nat \<Rightarrow> 'w \<Rightarrow> (string + int list) res \<times> 'w"

record modbus_client =
  mc_device_id :: string
  mc_device_key_id :: string
  mc_boot_epoch :: string
  mc_public_key :: public_key
  mc_transaction_id :: int
  mc_last_counter :: int

definition write_chunk_registers :: nat where "write_chunk_registers = 120"
definition read_chunk_registers :: nat where "read_chunk_registers = 120"

definition transport_error :: "string \<Rightarrow> exn" where
  "transport_error m = NamedError ''ModbusTransportError'' m"

definition protocol_error :: "string \<Rightarrow> exn" where
  "protocol_error m = NamedError ''ModbusProtocolError'' m"

definition unknown_effect_error :: "string \<Rightarrow> exn" where
  "unknown_effect_error m = NamedError ''ModbusUnknownEffectError'' m"

definition require_success :: "string \<Rightarrow> string option \<Rightarrow> unit res" where
  "require_success operation answer =
     (case answer of None \<Rightarrow> Inr () | Some r \<Rightarrow> Inl (transport_error (''Modbus '' @ operation @ '' failed: '' @ r)))"

definition write_registers :: "'w modbus_port \<Rightarrow> nat \<Rightarrow> int list \<Rightarrow> 'w \<Rightarrow> unit res \<times> 'w" where
  "write_registers port a vs w =
     (let (answer, w') = mp_write port a vs w in (bind_res answer (require_success ''write-multiple-registers''), w'))"

function write_payload :: "'w modbus_port \<Rightarrow> nat \<Rightarrow> int list \<Rightarrow> 'w \<Rightarrow> unit res \<times> 'w" where
  "write_payload port a vs w =
     (if vs = [] then (Inr (), w)
      else case write_registers port a (take write_chunk_registers vs) w of
          (Inl e, w') \<Rightarrow> (Inl e, w')
        | (Inr _, w') \<Rightarrow> write_payload port (a + write_chunk_registers) (drop write_chunk_registers vs) w')"
  by auto
termination by (relation "measure (\<lambda>(port, a, vs, w). length vs)") (auto simp: write_chunk_registers_def)

declare write_payload.simps [simp del]

function read_registers :: "'w modbus_port \<Rightarrow> nat \<Rightarrow> nat \<Rightarrow> 'w \<Rightarrow> int list res \<times> 'w" where
  "read_registers port a n w =
     (if n = 0 then (Inr [], w)
      else let k = min read_chunk_registers n in
        case mp_read port a k w of
          (Inl e, w') \<Rightarrow> (Inl e, w')
        | (Inr (Inl r), w') \<Rightarrow> (Inl (transport_error (''Modbus read-holding-registers failed: '' @ r)), w')
        | (Inr (Inr vs), w') \<Rightarrow>
            (case read_registers port (a + k) (n - k) w' of
               (Inl e, w'') \<Rightarrow> (Inl e, w'')
             | (Inr rest, w'') \<Rightarrow> (Inr (vs @ rest), w'')))"
  by auto
termination by (relation "measure (\<lambda>(port, a, n, w). n)") (auto simp: read_chunk_registers_def)

declare read_registers.simps [simp del]

text \<open>The release is best effort: its outcome is ignored.\<close>

definition release :: "'w modbus_port \<Rightarrow> request_header \<Rightarrow> 'w \<Rightarrow> 'w" where
  "release port header w =
     (case request_to_registers (header\<lparr>rh_control := RELEASE\<rparr>) of Inl _ \<Rightarrow> w | Inr vs \<Rightarrow> snd (mp_write port 0 vs w))"

text \<open>\<^verbatim>\<open>payload.get(key, {}).get("state_version")\<close>: a value that is not an object has no \<^verbatim>\<open>get\<close>.\<close>

definition member_of :: "string \<Rightarrow> (string \<times> json) list \<Rightarrow> (string \<times> json) list res" where
  "member_of key payload =
     (case map_of payload key of
        None \<Rightarrow> Inr []
      | Some (JObj kvs) \<Rightarrow> Inr kvs
      | Some _ \<Rightarrow> Inl (OtherError ''AttributeError''))"

definition reported_version :: "wire_operation \<Rightarrow> (string \<times> json) list \<Rightarrow> json option res" where
  "reported_version operation payload =
     (let version = (\<lambda>kvs. Inr (map_of kvs ''state_version'')) in
      case operation of
        READ_STATE \<Rightarrow> bind_res (member_of ''state'' payload) version
      | SIMULATE_CANDIDATE \<Rightarrow> bind_res (member_of ''assessment'' payload) (\<lambda>a. bind_res (member_of ''pre_state'' a) version)
      | EXECUTE \<Rightarrow> bind_res (member_of ''post_state'' payload) version
      | HEALTH \<Rightarrow> version payload)"

text \<open>Equality of a JSON value with an integer, as \<^verbatim>\<open>==\<close> decides it.\<close>

fun equals_int :: "json option \<Rightarrow> int \<Rightarrow> bool" where
  "equals_int (Some (JInt v)) n = (v = n)"
| "equals_int (Some (JNum v)) n = (v = of_int n)"
| "equals_int (Some (JBool b)) n = ((if b then 1 else 0) = n)"
| "equals_int _ n = False"

definition check_response ::
  "runtime \<Rightarrow> wire_codec \<Rightarrow> modbus_client \<Rightarrow> wire_operation \<Rightarrow> int \<Rightarrow> string \<Rightarrow> response_header \<Rightarrow> nat list \<Rightarrow> signed_wire_response res"
where
  "check_response rt cd mc operation tid request_digest h response_bytes =
     (if wc_sha256 cd response_bytes \<noteq> sh_payload_digest h then Inl (protocol_error ''response mailbox digest mismatch'')
      else bind_res (wc_json cd response_bytes) (\<lambda>raw.
        bind_res (wc_response cd raw) (\<lambda>r.
        bind_res (canonical_json_bytes cd (wire_response_dump r)) (\<lambda>again.
          if again \<noteq> response_bytes then Inl (protocol_error ''response is not canonical JSON'')
          else if wr_transaction_id r \<noteq> tid \<or> wr_operation r \<noteq> operation \<or> wr_request_digest r \<noteq> request_digest \<or>
            wr_device_id r \<noteq> mc_device_id mc \<or> wr_device_key_id r \<noteq> mc_device_key_id mc \<or>
            wr_boot_epoch r \<noteq> mc_boot_epoch mc \<or> \<not> wire_response_verify rt r (mc_public_key mc)
          then Inl (protocol_error ''signed response correlation or integrity failed'')
          else if wr_status r \<noteq> sh_status h \<or> wr_result_code r \<noteq> sh_result_code h \<or>
            wr_device_transaction_counter r \<noteq> sh_device_transaction_counter h
          then Inl (protocol_error ''signed response does not match response header'')
          else if wr_device_transaction_counter r \<le> mc_last_counter mc
          then Inl (protocol_error ''signed response transaction counter did not advance'')
          else bind_res (reported_version operation (wr_payload r)) (\<lambda>version.
            if \<not> equals_int version (sh_state_version_hint h)
            then Inl (protocol_error ''response state-version hint is inconsistent'')
            else Inr r)))))"

definition await_response ::
  "runtime \<Rightarrow> wire_codec \<Rightarrow> 'w modbus_port \<Rightarrow> modbus_client \<Rightarrow> wire_operation \<Rightarrow> int \<Rightarrow> string \<Rightarrow> 'w \<Rightarrow> signed_wire_response res \<times> 'w"
where
  "await_response rt cd port mc operation tid request_digest w =
     (case read_registers port response_header_start response_header_registers w of
        (Inl e, w1) \<Rightarrow> (Inl e, w1)
      | (Inr raw_header, w1) \<Rightarrow>
          (case response_from_registers raw_header of
             Inl e \<Rightarrow> (Inl e, w1)
           | Inr h \<Rightarrow>
               if sh_transaction_id h \<noteq> tid \<or> sh_operation h \<noteq> operation
               then (Inl (protocol_error ''response header transaction correlation failed''), w1)
               else case read_registers port response_payload_start (nat (sh_payload_register_count h)) w1 of
                   (Inl e, w2) \<Rightarrow> (Inl e, w2)
                 | (Inr raw_payload, w2) \<Rightarrow>
                     (bind_res (registers_to_bytes raw_payload (sh_payload_byte_length h))
                        (check_response rt cd mc operation tid request_digest h), w2)))"

definition mailbox_failure :: "exn \<Rightarrow> exn" where
  "mailbox_failure e =
     (if exn_name e \<in> {''ModbusTransportError'', ''ModbusProtocolError''} then e
      else transport_error ''Modbus mailbox transaction failed'')"

definition encode_request :: "wire_codec \<Rightarrow> wire_request \<Rightarrow> (nat list \<times> int list) res" where
  "encode_request cd q =
     bind_res (make_wire_request q) (\<lambda>q.
     bind_res (canonical_json_bytes cd (wire_request_dump q)) (\<lambda>request_bytes.
       if max_payload_bytes < length request_bytes
       then Inl (transport_error ''request exceeds the Modbus mailbox capacity'')
       else bind_res (bytes_to_registers request_bytes) (\<lambda>regs. Inr (request_bytes, regs))))"

definition request_header_of :: "wire_codec \<Rightarrow> wire_request \<Rightarrow> nat list \<Rightarrow> int list \<Rightarrow> request_header" where
  "request_header_of cd q request_bytes request_registers =
     \<lparr>rh_control = BEGIN, rh_operation = wq_operation q, rh_transaction_id = wq_transaction_id q,
      rh_payload_byte_length = int (length request_bytes), rh_payload_register_count = int (length request_registers),
      rh_payload_digest = wc_sha256 cd request_bytes\<rparr>"

definition stage_request :: "'w modbus_port \<Rightarrow> request_header \<Rightarrow> int list \<Rightarrow> 'w \<Rightarrow> unit res \<times> 'w" where
  "stage_request port header request_registers w =
     (case request_to_registers header of
        Inl e \<Rightarrow> (Inl e, w)
      | Inr header_registers \<Rightarrow>
          (case write_registers port 0 header_registers w of
             (Inl e, w1) \<Rightarrow> (Inl e, w1)
           | (Inr _, w1) \<Rightarrow> write_payload port request_payload_start request_registers w1))"

text \<open>
  The commit counts as sent when its write returned, whether with a success or with an error response; a write
  that raises is treated like a failure of the staging.
\<close>

definition modbus_request ::
  "runtime \<Rightarrow> wire_codec \<Rightarrow> 'w modbus_port \<Rightarrow> wire_operation \<Rightarrow> (string \<times> json) list \<Rightarrow> modbus_client \<times> 'w \<Rightarrow>
   signed_wire_response res \<times> modbus_client \<times> 'w" where
  "modbus_request rt cd port operation payload = (\<lambda>(mc0, w).
     let tid = mc_transaction_id mc0 + 1; mc = mc0\<lparr>mc_transaction_id := tid\<rparr>;
         q = \<lparr>wq_transaction_id = tid, wq_operation = operation, wq_payload = payload\<rparr>
     in case encode_request cd q of
          Inl e \<Rightarrow> (Inl e, mc, w)
        | Inr (request_bytes, request_registers) \<Rightarrow>
            let header = request_header_of cd q request_bytes request_registers
            in case stage_request port header request_registers w of
                 (Inl e, w1) \<Rightarrow> (Inl (mailbox_failure e), mc, release port header w1)
               | (Inr _, w1) \<Rightarrow>
                   (case mp_write port 0 [enum_value control_words COMMIT] w1 of
                      (Inl e, w2) \<Rightarrow> (Inl (mailbox_failure e), mc, release port header w2)
                    | (Inr answer, w2) \<Rightarrow>
                        (case (case require_success ''commit'' answer of
                                 Inl e \<Rightarrow> (Inl e, w2)
                               | Inr _ \<Rightarrow> await_response rt cd port mc operation tid (wc_sha256 cd request_bytes) w2) of
                           (Inr r, w3) \<Rightarrow> (Inr r, mc\<lparr>mc_last_counter := wr_device_transaction_counter r\<rparr>, release port header w3)
                         | (Inl e, w3) \<Rightarrow>
                             if operation = EXECUTE
                             then (Inl (unknown_effect_error ''execute failed after commit; automatic retry is prohibited''), mc, w3)
                             else (Inl (mailbox_failure e), mc, release port header w3))))"

section \<open>Operations\<close>

text \<open>The text of a refused response is its payload, which the messages leave out.\<close>

definition completed :: "string \<Rightarrow> signed_wire_response res \<Rightarrow> (string \<times> json) list res" where
  "completed message response =
     bind_res response (\<lambda>r. if wr_status r \<noteq> COMPLETE then Inl (protocol_error message) else Inr (wr_payload r))"

definition modbus_health ::
  "runtime \<Rightarrow> wire_codec \<Rightarrow> 'w modbus_port \<Rightarrow> modbus_client \<times> 'w \<Rightarrow> (string \<times> json) list res \<times> modbus_client \<times> 'w" where
  "modbus_health rt cd port s =
     (let (response, s') = modbus_request rt cd port HEALTH [] s in (completed ''health request failed'' response, s'))"

definition modbus_read_state ::
  "runtime \<Rightarrow> wire_codec \<Rightarrow> 'w modbus_port \<Rightarrow> modbus_client \<times> 'w \<Rightarrow> snapshot res \<times> modbus_client \<times> 'w" where
  "modbus_read_state rt cd port s =
     (let (response, s') = modbus_request rt cd port READ_STATE [] s
      in (bind_res (completed ''state request failed'' response) (\<lambda>payload. wc_snapshot cd (map_of payload ''state'')), s'))"

definition modbus_simulate_candidate ::
  "runtime \<Rightarrow> wire_codec \<Rightarrow> 'w modbus_port \<Rightarrow> command \<Rightarrow> modbus_client \<times> 'w \<Rightarrow> assessment res \<times> modbus_client \<times> 'w" where
  "modbus_simulate_candidate rt cd port c s =
     (let (response, s') = modbus_request rt cd port SIMULATE_CANDIDATE [(''command'', command_dump c)] s
      in (bind_res (completed ''candidate request failed'' response) (\<lambda>payload. wc_assessment cd (map_of payload ''assessment'')), s'))"

definition execute_payload :: "permit \<Rightarrow> action_proposal \<Rightarrow> decision \<Rightarrow> assessment \<Rightarrow> (string \<times> json) list" where
  "execute_payload permit p d a =
     [(''permit'', permit_dump permit), (''proposal'', action_proposal_dump p), (''decision'', decision_dump d),
      (''assessment'', assessment_dump a)]"

definition acknowledgment_of_response :: "wire_codec \<Rightarrow> signed_wire_response \<Rightarrow> acknowledgment res" where
  "acknowledgment_of_response cd r =
     (if wr_status r \<notin> {COMPLETE, REJECTED_BEFORE_DISPATCH, WIRE_UNKNOWN_EFFECT}
      then Inl (protocol_error ''execution response is incomplete'')
      else if wr_status r = WIRE_UNKNOWN_EFFECT \<and> map_of (wr_payload r) ''acknowledgment'' = None
      then Inl (unknown_effect_error ''device returned an unclassified execution outcome'')
      else wc_acknowledgment cd (map_of (wr_payload r) ''acknowledgment''))"

definition modbus_execute ::
  "runtime \<Rightarrow> wire_codec \<Rightarrow> 'w modbus_port \<Rightarrow> permit \<Rightarrow> action_proposal \<Rightarrow> decision \<Rightarrow> assessment \<Rightarrow> modbus_client \<times> 'w \<Rightarrow>
   acknowledgment res \<times> modbus_client \<times> 'w" where
  "modbus_execute rt cd port permit p d a s =
     (let (response, s') = modbus_request rt cd port EXECUTE (execute_payload permit p d a) s
      in (bind_res response (acknowledgment_of_response cd), s'))"

section \<open>A faithful register server\<close>

text \<open>
  The Modbus application protocol bounds one request: a write carries 1 to 123 registers of sixteen bits, a read asks
  for 1 to 125. Within these bounds the client relies on the following: an access that the mailbox accepts is
  answered by a success, after the registers took what the mailbox wrote and the written values; a read returns the
  registers it names. About longer requests nothing is assumed; a server answers them with an exception.
\<close>

definition max_write_registers :: nat where "max_write_registers = 123"
definition max_read_registers :: nat where "max_read_registers = 125"

definition writable :: "int list \<Rightarrow> bool" where
  "writable vs \<longleftrightarrow> vs \<noteq> [] \<and> length vs \<le> max_write_registers \<and> list_all is_register vs"

definition readable :: "nat \<Rightarrow> bool" where
  "readable n \<longleftrightarrow> 0 < n \<and> n \<le> max_read_registers"

locale register_server =
  fixes rt :: runtime and pw :: pandapower and cd :: wire_codec and port :: "'w modbus_port"
    and regs :: "'w \<Rightarrow> int list" and box :: "'w \<Rightarrow> mailbox" and env :: "'w \<Rightarrow> mailbox_env"
  assumes write_stores: "writable vs \<Longrightarrow>
      action rt pw cd (env w) 0 a (length vs) (Some vs) (regs w) (box w) = (Inr None, rs, mb) \<Longrightarrow>
      \<exists>w'. mp_write port a vs w = (Inr None, w') \<and> regs w' = put_slice a vs rs \<and> box w' = mb \<and> env w' = env w"
    and read_returns: "readable n \<Longrightarrow> a + n \<le> length (regs w) \<Longrightarrow>
      \<exists>w'. mp_read port a n w = (Inr (Inr (slice a (a + n) (regs w))), w') \<and> regs w' = regs w \<and> box w' = box w \<and> env w' = env w"
begin

lemma put_slice_append:
  assumes "k = length xs"
  shows "a + k \<le> length r \<Longrightarrow> put_slice (a + k) ys (put_slice a xs r) = put_slice a (xs @ ys) r"
  using assms by (simp add: put_slice_def ac_simps)

lemma slice_append: "slice a (a + k) r @ slice (a + k) (a + k + n) r = slice a (a + k + n) r"
  by (simp add: slice_def take_add add.commute)

lemma payload_action:
  assumes "mx_active_transaction mb \<noteq> None" "mx_terminal_transaction mb = None" "request_payload_start \<le> a"
    and "a + length vs \<le> response_header_start" "vs \<noteq> []"
  shows "action rt pw cd e 0 a (length vs) (Some vs) rs mb = (Inr None, rs, mb)"
  using assms by (cases vs) (auto simp: action_def register_map)

lemma write_payload_stores:
  assumes "mx_active_transaction (box w) \<noteq> None" "mx_terminal_transaction (box w) = None" "request_payload_start \<le> a"
    and "a + length vs \<le> response_header_start" "response_header_start \<le> length (regs w)" "list_all is_register vs"
  shows "\<exists>w'. write_payload port a vs w = (Inr (), w') \<and> regs w' = put_slice a vs (regs w) \<and> box w' = box w \<and> env w' = env w"
  using assms
proof (induction "length vs" arbitrary: a vs w rule: less_induct)
  case less
  show ?case
  proof (cases "vs = []")
    case True
    then show ?thesis by (simp add: write_payload.simps put_slice_def)
  next
    case False
    let ?c = "take write_chunk_registers vs" and ?r = "drop write_chunk_registers vs"
    have "action rt pw cd (env w) 0 a (length ?c) (Some ?c) (regs w) (box w) = (Inr None, regs w, box w)"
      by (rule payload_action) (use less.prems False in \<open>auto simp: write_chunk_registers_def\<close>)
    moreover have "writable ?c"
      using False less.prems(6)
      by (auto simp: writable_def max_write_registers_def write_chunk_registers_def list_all_iff dest: in_set_takeD)
    ultimately obtain w1 where w1: "mp_write port a ?c w = (Inr None, w1)" "regs w1 = put_slice a ?c (regs w)"
      "box w1 = box w" "env w1 = env w" using write_stores by blast
    have ok: "write_registers port a ?c w = (Inr (), w1)" by (simp add: write_registers_def w1(1) require_success_def)
    show ?thesis
    proof (cases "?r = []")
      case True
      then have "?c = vs" by simp
      then show ?thesis using False ok w1(2-4) True by (simp add: write_payload.simps [of port a] write_payload.simps [of port "a + _"])
    next
      case rest: False
      then have c: "length ?c = write_chunk_registers" by simp
      have fit: "a + length ?c \<le> length (regs w)" using less.prems(4,5) rest by simp
      have "\<exists>w'. write_payload port (a + write_chunk_registers) ?r w1 = (Inr (), w') \<and>
          regs w' = put_slice (a + write_chunk_registers) ?r (regs w1) \<and> box w' = box w1 \<and> env w' = env w1"
        by (rule less.hyps) (use less.prems False rest w1 fit in \<open>auto simp: write_chunk_registers_def list_all_iff dest: in_set_dropD\<close>)
      moreover have "put_slice (a + write_chunk_registers) ?r (regs w1) = put_slice a vs (regs w)"
        using put_slice_append [of write_chunk_registers ?c a "regs w" ?r] c fit w1(2) by simp
      ultimately show ?thesis using False ok w1(3,4) by (simp add: write_payload.simps [of port a])
    qed
  qed
qed

lemma read_registers_returns:
  assumes "a + n \<le> length (regs w)"
  shows "\<exists>w'. read_registers port a n w = (Inr (slice a (a + n) (regs w)), w') \<and> regs w' = regs w \<and> box w' = box w \<and> env w' = env w"
  using assms
proof (induction n arbitrary: a w rule: less_induct)
  case (less n)
  show ?case
  proof (cases "n = 0")
    case True
    then show ?thesis by (simp add: read_registers.simps slice_def)
  next
    case False
    define k where "k = min read_chunk_registers n"
    have k: "0 < k" "k \<le> n" "readable k"
      using False by (simp_all add: k_def read_chunk_registers_def readable_def max_read_registers_def)
    obtain w1 where w1: "mp_read port a k w = (Inr (Inr (slice a (a + k) (regs w))), w1)" "regs w1 = regs w" "box w1 = box w" "env w1 = env w"
      using read_returns [of k a w] less.prems k by auto
    obtain w2 where w2: "read_registers port (a + k) (n - k) w1 = (Inr (slice (a + k) (a + n) (regs w)), w2)" "regs w2 = regs w"
      "box w2 = box w" "env w2 = env w"
      using less.IH [of "n - k" "a + k" w1] less.prems k w1 by auto
    have "slice a (a + k) (regs w) @ slice (a + k) (a + n) (regs w) = slice a (a + n) (regs w)"
      using slice_append [of a k "regs w" "n - k"] k by simp
    then show ?thesis using False w1(1) w2 by (simp add: read_registers.simps [of port a] k_def [symmetric])
  qed
qed

end

section \<open>What the codec carries\<close>

text \<open>The text of a message fits the mailbox, and validation of the parsed text gives the message back.\<close>

definition carried :: "wire_codec \<Rightarrow> json \<Rightarrow> (json \<Rightarrow> 'a res) \<Rightarrow> 'a \<Rightarrow> bool" where
  "carried cd j parse x \<longleftrightarrow>
     (\<exists>bs. canonical_json_bytes cd j = Inr bs \<and> length bs \<le> max_payload_bytes \<and> bind_res (wc_json cd bs) parse = Inr x)"

lemma request_to_registersD:
  assumes "request_to_registers h = Inr w"
  shows "length w = request_header_registers" "\<exists>rest. w = enum_value control_words (rh_control h) # rest"
  using assms by (auto simp: request_to_registers_def bind_res_Inr u64_registers_def u32_registers_def digest_registers_def wire_constants
      split: if_splits)

lemma writable_header: "request_to_registers h = Inr vs \<Longrightarrow> list_all is_register vs \<Longrightarrow> writable vs"
  using request_to_registersD [of h vs] by (auto simp: writable_def max_write_registers_def wire_constants)

lemma writable_commit: "writable [enum_value control_words c]"
  by (simp add: writable_def max_write_registers_def)

lemma encode_requestD:
  assumes cd: "codec_bytes cd" and q: "in_u64 (wq_transaction_id q)" and carry: "carried cd (wire_request_dump q) (wc_request cd) q"
  obtains rbytes rregs hregs where "encode_request cd q = Inr (rbytes, rregs)" "canonical_json_bytes cd (wire_request_dump q) = Inr rbytes"
    "bind_res (wc_json cd rbytes) (wc_request cd) = Inr q" "registers_to_bytes rregs (int (length rbytes)) = Inr rbytes" "length rregs \<le> 4096"
    "list_all is_register rregs" "writable hregs"
    "request_to_registers (request_header_of cd q rbytes rregs) = Inr hregs" "request_from_registers hregs = Inr (request_header_of cd q rbytes rregs)"
    "request_ok (request_header_of cd q rbytes rregs)"
proof -
  obtain rbytes where b: "canonical_json_bytes cd (wire_request_dump q) = Inr rbytes" "length rbytes \<le> max_payload_bytes"
    "bind_res (wc_json cd rbytes) (wc_request cd) = Inr q" using carry by (auto simp: carried_def)
  have "payload_ok rbytes" using b codec_bytesD(1) [OF cd b(1)] by (simp add: payload_ok_def)
  then obtain rregs where r: "bytes_to_registers rbytes = Inr rregs" using payload_roundtrip by blast
  note R = bytes_to_registersD [OF codec_bytesD(1) [OF cd b(1)] r]
  have ok: "request_ok (request_header_of cd q rbytes rregs)"
    using q R(4) codec_bytesD(2) [OF cd] by (simp add: request_ok_def request_header_of_def)
  then obtain hregs where h: "request_to_registers (request_header_of cd q rbytes rregs) = Inr hregs"
    "request_from_registers hregs = Inr (request_header_of cd q rbytes rregs)" "list_all is_register hregs" using request_encodes by blast
  show ?thesis
    by (rule that [OF _ b(1,3) R(1,2,3) writable_header [OF h(1,3)] h(1,2) ok]) (use b(1,2) r q in \<open>simp add: encode_request_def make_wire_request_def\<close>)
qed

text \<open>The registers of a staged request decode to the request.\<close>

lemma staged_decodes:
  assumes "request_from_registers (take request_header_registers rs) = Inr (request_header_of cd q rbytes rregs)"
    and "slice request_payload_start (request_payload_start + length rregs) rs = rregs"
    and "canonical_json_bytes cd (wire_request_dump q) = Inr rbytes" "bind_res (wc_json cd rbytes) (wc_request cd) = Inr q"
    and "registers_to_bytes rregs (int (length rbytes)) = Inr rbytes"
  shows "staged_request cd (Some (wq_transaction_id q)) rs = ((wq_transaction_id q, wq_operation q, wc_sha256 cd rbytes), Inr q)"
proof -
  obtain raw where "wc_json cd rbytes = Inr raw" "wc_request cd raw = Inr q" using assms(4) by (auto simp: bind_res_Inr)
  then show ?thesis using assms(1-3,5) by (simp add: staged_request_def request_header_of_def)
qed

lemma handle_application_phase:
  assumes "handle_application rt pw cd env q mb = (result, mb1)"
  shows "handle_application rt pw cd env q (mb\<lparr>mx_active_transaction := t, mx_active_header := h\<rparr>) =
    (result, mb1\<lparr>mx_active_transaction := t, mx_active_header := h\<rparr>)"
  using assms
  by (auto simp: handle_application_def health_payload_def Let_def split: wire_operation.splits if_splits prod.splits sum.splits)

lemma handle_application_identity:
  assumes "handle_application rt pw cd env q mb = (result, mb1)"
  shows "vd_device_id (mx_device mb1) = vd_device_id (mx_device mb) \<and>
    vd_acknowledgment_key_id (mx_device mb1) = vd_acknowledgment_key_id (mx_device mb)"
  using assms
proof (cases rule: handle_application_cases)
  case kept
  then have "mx_device mb1 = mx_device mb" by (metis mailbox.select_convs(2) mailbox.surjective mailbox.update_convs(1))
  then show "vd_device_id (mx_device mb1) = vd_device_id (mx_device mb) \<and>
    vd_acknowledgment_key_id (mx_device mb1) = vd_acknowledgment_key_id (mx_device mb)" by simp_all
next
  case (executed permit p d a acked dev pl)
  have "device_step rt (pandapower_ops rt pw)
      \<lparr>dc_env = me_device env, dc_permit = permit, dc_proposal = p, dc_decision = d, dc_assessment = a\<rparr> (mx_device mb, mx_plant mb) =
      ((acked, mx_plant mb, pl), dev, pl)"
    using executed(3) by (simp add: device_step_def)
  from device_step_effect [OF this]
  show "vd_device_id (mx_device mb1) = vd_device_id (mx_device mb) \<and>
    vd_acknowledgment_key_id (mx_device mb1) = vd_acknowledgment_key_id (mx_device mb)" using executed(4) by auto
qed

definition mailbox_named :: "mailbox \<Rightarrow> bool" where
  "mailbox_named mb \<longleftrightarrow> vd_device_id (mx_device mb) \<noteq> [] \<and> vd_acknowledgment_key_id (mx_device mb) \<noteq> [] \<and>
     16 \<le> length (mx_boot_epoch mb) \<and> 0 \<le> mx_transaction_counter mb"

definition client_knows :: "runtime \<Rightarrow> modbus_client \<Rightarrow> mailbox \<Rightarrow> bool" where
  "client_knows rt mc mb \<longleftrightarrow> mc_device_id mc = vd_device_id (mx_device mb) \<and>
     mc_device_key_id mc = vd_acknowledgment_key_id (mx_device mb) \<and> mc_boot_epoch mc = mx_boot_epoch mb \<and>
     mc_public_key mc = rt_public rt (mx_private_key mb) \<and> mc_last_counter mc \<le> mx_transaction_counter mb"

lemma signed_response_total:
  assumes "digests_ok rt" "mailbox_named mb" "in_u64 tid" "is_hex_digest digest"
  obtains r mb' where "signed_response rt tid op digest status code payload mb = (Inr r, mb')"
  using assms
  by (simp add: signed_response_def Let_def make_wire_response_def wire_response_valid_def mailbox_named_def)

lemma write_response_total:
  assumes cd: "codec_bytes cd" and carry: "carried cd (wire_response_dump r) (wc_response cd) r"
    and range: "in_u64 (wr_transaction_id r)" "in_u64 (wr_device_transaction_counter r)" "in_u64 hint" and len: "register_count \<le> length rs"
  obtains rs' where "write_response cd r hint rs = (Inr (), rs')"
proof -
  obtain bs where b: "canonical_json_bytes cd (wire_response_dump r) = Inr bs" "length bs \<le> max_payload_bytes"
    using carry by (auto simp: carried_def)
  then have "payload_ok bs" using codec_bytesD(1) [OF cd b(1)] by (simp add: payload_ok_def)
  then obtain vs where r: "bytes_to_registers bs = Inr vs" using payload_roundtrip by blast
  note R = bytes_to_registersD [OF codec_bytesD(1) [OF cd b(1)] r]
  have "response_ok (response_header_of cd r bs vs hint)"
    using range R(4) codec_bytesD(2) [OF cd] by (simp add: response_ok_def response_header_of_def)
  then obtain hregs where "response_to_registers (response_header_of cd r bs vs hint) = Inr hregs" using response_encodes by blast
  then show ?thesis using that b r len by (simp add: write_response_def clear_response_def)
qed

section \<open>A transaction with a faithful server\<close>

definition begun :: "request_header \<Rightarrow> mailbox \<Rightarrow> mailbox" where
  "begun h mb = mb\<lparr>mx_active_transaction := Some (rh_transaction_id h), mx_active_header := Some h\<rparr>"

definition mailbox_idle :: "mailbox \<Rightarrow> bool" where
  "mailbox_idle mb \<longleftrightarrow> mx_active_transaction mb = None \<and> mx_active_header mb = None \<and> mx_terminal_transaction mb = None"

lemma begin_action:
  assumes "mailbox_idle mb" "rh_control h = BEGIN" "request_to_registers h = Inr hregs" "request_from_registers hregs = Inr h"
    and "register_count \<le> length rs"
  obtains cleared where "action rt pw cd e 0 0 (length hregs) (Some hregs) rs mb = (Inr None, cleared, begun h mb)"
    "length cleared = length rs"
proof -
  obtain rest where hregs: "hregs = enum_value control_words BEGIN # rest" "length hregs = request_header_registers"
    using request_to_registersD [OF assms(3)] assms(2) by auto
  obtain cleared where c: "clear_response rs = (Inr (), cleared)" using assms(5) by (auto simp: clear_response_def)
  have len: "length cleared = length rs" by (rule clear_responseD(2) [OF c])
  have "action rt pw cd e 0 0 (length hregs) (Some hregs) rs mb = (Inr None, cleared, begun h mb)"
    using assms(1,2,4) c hregs
    by (simp add: action_def control_action_def mailbox_idle_def begun_def register_map split: list.splits)
  then show ?thesis using len that by blast
qed

lemma release_action:
  assumes "mx_active_header mb = Some h" "mx_terminal_transaction mb = mx_active_transaction mb"
    and "request_ok h"
  obtains vs where "request_to_registers (h\<lparr>rh_control := RELEASE\<rparr>) = Inr vs" "writable vs"
    "action rt pw cd e 0 0 (length vs) (Some vs) rs mb =
      (Inr None, rs, mb\<lparr>mx_active_transaction := None, mx_active_header := None, mx_terminal_transaction := None\<rparr>)"
proof -
  have "request_ok (h\<lparr>rh_control := RELEASE\<rparr>)" using assms(3) by (simp add: request_ok_def)
  then obtain vs where vs: "request_to_registers (h\<lparr>rh_control := RELEASE\<rparr>) = Inr vs" "request_from_registers vs = Inr (h\<lparr>rh_control := RELEASE\<rparr>)"
    "list_all is_register vs" using request_encodes by blast
  obtain rest where hregs: "vs = enum_value control_words RELEASE # rest" "length vs = request_header_registers"
    using request_to_registersD [OF vs(1)] by auto
  show ?thesis
    by (rule that [OF vs(1) writable_header [OF vs(1,3)]])
      (use assms(1,2) vs(2) hregs in \<open>simp add: action_def control_action_def register_map split: list.splits\<close>)
qed

lemma commit_action_processes:
  assumes "mx_active_transaction mb = Some t" "mx_terminal_transaction mb = None"
    and "process_commit rt pw cd e rs mb = (Inr (), rs', mb')"
  shows "action rt pw cd e 0 0 (length [enum_value control_words COMMIT]) (Some [enum_value control_words COMMIT]) rs mb =
    (Inr None, rs', mb'\<lparr>mx_terminal_transaction := mx_active_transaction mb'\<rparr>)"
  using assms by (simp add: action_def commit_action_def register_map)

text \<open>The response in the registers passes every check of the client.\<close>

lemma check_response_accepts:
  assumes rt: "signatures_ok rt" and know: "client_knows rt mc mb"
    and sig: "signed_response rt tid op digest status code payload mb = (Inr r, mb')"
    and bs: "canonical_json_bytes cd (wire_response_dump r) = Inr bs" "bind_res (wc_json cd bs) (wc_response cd) = Inr r"
    and version: "reported_version op payload = Inr v" "equals_int v hint"
  shows "check_response rt cd mc op tid digest (response_header_of cd r bs vs hint) bs = Inr r"
proof -
  note S = signed_responseD [OF sig] and V = signed_response_verifies [OF rt sig]
  obtain raw where "wc_json cd bs = Inr raw" "wc_response cd raw = Inr r" using bs(2) by (auto simp: bind_res_Inr)
  then show ?thesis
    using bs(1) know version S V by (simp add: check_response_def response_header_of_def client_knows_def)
qed

context register_server
begin

lemma stage_delivers:
  assumes idle: "mailbox_idle (box w)" and len: "register_count \<le> length (regs w)"
    and h: "h = request_header_of cd q rbytes rregs" "request_to_registers h = Inr hregs" "request_from_registers hregs = Inr h"
    and r: "length rregs \<le> 4096" "list_all is_register rregs" "writable hregs"
  obtains w' where "stage_request port h rregs w = (Inr (), w')" "box w' = begun h (box w)" "env w' = env w"
    "take request_header_registers (regs w') = hregs" "length (regs w') = length (regs w)"
    "slice request_payload_start (request_payload_start + length rregs) (regs w') = rregs"
proof -
  have hl: "length hregs = request_header_registers" by (rule request_to_registersD [OF h(2)])
  obtain cleared where act: "action rt pw cd (env w) 0 0 (length hregs) (Some hregs) (regs w) (box w) = (Inr None, cleared, begun h (box w))"
    and cl: "length cleared = length (regs w)"
    by (rule begin_action [OF idle _ h(2,3) len]) (simp add: h(1) request_header_of_def)
  obtain w1 where w1: "mp_write port 0 hregs w = (Inr None, w1)" "regs w1 = put_slice 0 hregs cleared" "box w1 = begun h (box w)" "env w1 = env w"
    using write_stores [OF r(3) act] by blast
  have len1: "length (regs w1) = length (regs w)" using w1(2) cl len hl by (simp add: register_map)
  have "\<exists>w'. write_payload port request_payload_start rregs w1 = (Inr (), w') \<and> regs w' = put_slice request_payload_start rregs (regs w1) \<and>
      box w' = box w1 \<and> env w' = env w1"
    by (rule write_payload_stores) (use w1(3) idle r len len1 in \<open>auto simp: begun_def mailbox_idle_def register_map\<close>)
  then obtain w2 where w2: "write_payload port request_payload_start rregs w1 = (Inr (), w2)" "box w2 = box w1" "env w2 = env w1"
    "regs w2 = put_slice request_payload_start rregs (regs w1)" by blast
  have start: "request_payload_start \<le> length (regs w1)" "request_payload_start + length rregs \<le> length (regs w1)"
    using len len1 r by (simp_all add: register_map)
  show ?thesis
  proof (rule that)
    show "stage_request port h rregs w = (Inr (), w2)"
      using w1(1) w2(1) h(2) by (simp add: stage_request_def write_registers_def require_success_def)
    show "take request_header_registers (regs w2) = hregs"
      using start(1) hl cl len unfolding w2(4) w1(2) by (simp add: put_slice_def register_map)
    show "slice request_payload_start (request_payload_start + length rregs) (regs w2) = rregs"
      unfolding w2(4) by (rule slice_put_same [OF start(1) refl])
  qed (use w1 w2 len1 start in simp_all)
qed

lemma await_delivers:
  assumes hold: "holds_response cd (regs w) r hint" and len: "register_count \<le> length (regs w)"
    and ids: "wr_transaction_id r = tid" "wr_operation r = op"
    and checked: "\<And>bs vs. canonical_json_bytes cd (wire_response_dump r) = Inr bs \<Longrightarrow>
      check_response rt cd mc op tid digest (response_header_of cd r bs vs hint) bs = Inr r"
  obtains w' where "await_response rt cd port mc op tid digest w = (Inr r, w')" "regs w' = regs w" "box w' = box w" "env w' = env w"
proof -
  obtain bs vs where bs: "canonical_json_bytes cd (wire_response_dump r) = Inr bs" "length vs \<le> response_payload_registers"
    and hdr: "response_from_registers (slice response_header_start response_payload_start (regs w)) = Inr (response_header_of cd r bs vs hint)"
    and pay: "slice response_payload_start (response_payload_start + length vs) (regs w) = vs" "registers_to_bytes vs (int (length bs)) = Inr bs"
    using hold by (auto simp: holds_response_def)
  obtain w1 where w1: "read_registers port response_header_start response_header_registers w =
      (Inr (slice response_header_start response_payload_start (regs w)), w1)" "regs w1 = regs w" "box w1 = box w" "env w1 = env w"
    using read_registers_returns [of response_header_start response_header_registers w] len
    by (auto simp: response_payload_start_def register_count_def)
  obtain w2 where w2: "read_registers port response_payload_start (length vs) w1 = (Inr vs, w2)" "regs w2 = regs w" "box w2 = box w" "env w2 = env w"
    using read_registers_returns [of response_payload_start "length vs" w1] len bs(2) w1 pay(1) by (auto simp: register_count_def)
  have nums: "sh_payload_register_count (response_header_of cd r bs vs hint) = int (length vs)"
    "sh_payload_byte_length (response_header_of cd r bs vs hint) = int (length bs)"
    "sh_transaction_id (response_header_of cd r bs vs hint) = tid" "sh_operation (response_header_of cd r bs vs hint) = op"
    using ids by (simp_all add: response_header_of_def)
  show ?thesis
    by (rule that [OF _ w2(2-4)])
      (use w1(1) w2(1) hdr pay(2) checked [OF bs(1)] in \<open>simp add: await_response_def nums\<close>)
qed

end

lemma process_commit_answers:
  assumes rt: "digests_ok rt" and cd: "codec_bytes cd"
    and staged: "staged_request cd (mx_active_transaction mb0) rs = ((tid, op, digest), Inr q)"
    and app: "handle_application rt pw cd e q mb0 = (Inr (status, code, answer, version), mb)"
    and named: "mailbox_named mb" and dig: "is_hex_digest digest"
    and range: "in_u64 tid" "in_u64 (mx_transaction_counter mb + 1)" "in_u64 version" and len: "register_count \<le> length rs"
    and response: "\<And>r mb2. signed_response rt tid op digest status code answer mb = (Inr r, mb2) \<Longrightarrow>
      carried cd (wire_response_dump r) (wc_response cd) r"
  obtains r rs' mb2 where "signed_response rt tid op digest status code answer mb = (Inr r, mb2)"
    "carried cd (wire_response_dump r) (wc_response cd) r" "holds_response cd rs' r version" "length rs' = length rs"
    "process_commit rt pw cd e rs mb0 = (Inr (), rs', mb2)"
proof -
  obtain r mb2 where sig: "signed_response rt tid op digest status code answer mb = (Inr r, mb2)"
    by (rule signed_response_total [OF rt named range(1) dig])
  note S = signed_responseD [OF sig] and carry = response [OF sig]
  obtain rs' where wr: "write_response cd r version rs = (Inr (), rs')"
    by (rule write_response_total [OF cd carry, where hint = version and rs = rs]) (use S range len in simp_all)
  show ?thesis
    by (rule that [OF sig carry write_response_holds(1,3) [OF cd wr]])
      (use staged app sig wr in \<open>simp add: process_commit_def commit_result_def\<close>)
qed

context register_server
begin

lemma request_delivers:
  fixes mc0 operation payload
  defines "q \<equiv> \<lparr>wq_transaction_id = mc_transaction_id mc0 + 1, wq_operation = operation, wq_payload = payload\<rparr>"
  assumes rt: "digests_ok rt" "signatures_ok rt" and cd: "codec_bytes cd"
    and idle: "mailbox_idle (box w)" and len: "register_count \<le> length (regs w)"
    and named: "mailbox_named (box w)" "client_knows rt mc0 (box w)"
    and range: "in_u64 (mc_transaction_id mc0 + 1)" "in_u64 (mx_transaction_counter (box w) + 1)" "in_u64 version"
    and request: "carried cd (wire_request_dump q) (wc_request cd) q"
    and app: "handle_application rt pw cd (env w) q (box w) = (Inr (status, code, answer, version), mb1)"
    and reported: "reported_version operation answer = Inr v" "equals_int v version"
    and response: "\<And>bs r mb2. canonical_json_bytes cd (wire_request_dump q) = Inr bs \<Longrightarrow>
      signed_response rt (mc_transaction_id mc0 + 1) operation (wc_sha256 cd bs) status code answer mb1 = (Inr r, mb2) \<Longrightarrow>
      carried cd (wire_response_dump r) (wc_response cd) r"
  obtains r w' where "modbus_request rt cd port operation payload (mc0, w) =
      (Inr r, mc0\<lparr>mc_transaction_id := mc_transaction_id mc0 + 1, mc_last_counter := mx_transaction_counter (box w) + 1\<rparr>, w')"
    "wr_status r = status" "wr_payload r = answer" "mailbox_idle (box w')" "mx_plant (box w') = mx_plant mb1" "mx_device (box w') = mx_device mb1"
proof -
  let ?tid = "mc_transaction_id mc0 + 1" and ?mc = "mc0\<lparr>mc_transaction_id := mc_transaction_id mc0 + 1\<rparr>"
  have q: "wq_transaction_id q = ?tid" "wq_operation q = operation" "wq_payload q = payload" by (simp_all add: q_def)
  obtain rbytes rregs hregs where enc: "encode_request cd q = Inr (rbytes, rregs)" "canonical_json_bytes cd (wire_request_dump q) = Inr rbytes"
      "bind_res (wc_json cd rbytes) (wc_request cd) = Inr q" "registers_to_bytes rregs (int (length rbytes)) = Inr rbytes" "length rregs \<le> 4096"
      "list_all is_register rregs" "writable hregs"
    and hdr: "request_to_registers (request_header_of cd q rbytes rregs) = Inr hregs"
      "request_from_registers hregs = Inr (request_header_of cd q rbytes rregs)" "request_ok (request_header_of cd q rbytes rregs)"
    by (rule encode_requestD [OF cd _ request]) (simp add: q range)
  define h where "h = request_header_of cd q rbytes rregs"
  define digest where "digest = wc_sha256 cd rbytes"
  have h: "rh_transaction_id h = ?tid" by (simp add: h_def request_header_of_def q)
  obtain w1 where w1: "stage_request port h rregs w = (Inr (), w1)" "box w1 = begun h (box w)" "env w1 = env w"
    "take request_header_registers (regs w1) = hregs" "length (regs w1) = length (regs w)"
    "slice request_payload_start (request_payload_start + length rregs) (regs w1) = rregs"
    by (rule stage_delivers [OF idle len h_def hdr(1,2) [folded h_def] enc(5-7)])
  have staged: "staged_request cd (mx_active_transaction (box w1)) (regs w1) = ((?tid, operation, digest), Inr q)"
    using staged_decodes [of "regs w1" cd q rbytes rregs] w1 hdr(2) enc(2,3,4) by (simp add: begun_def h q digest_def)
  note app1 = handle_application_phase [OF app, where t = "Some ?tid" and h = "Some h"]
  define mb where "mb = begun h mb1"
  have app2: "handle_application rt pw cd (env w1) q (box w1) = (Inr (status, code, answer, version), mb)"
    using app1 w1(2,3) by (simp add: begun_def h mb_def)
  obtain dev pl where mb1: "mb1 = (box w)\<lparr>mx_device := dev, mx_plant := pl\<rparr>" by (rule handle_application_frame [OF app])
  have mb: "mailbox_named mb" "client_knows rt mc0 mb" "mx_transaction_counter mb = mx_transaction_counter (box w)"
    "mx_active_transaction mb = Some ?tid" "mx_active_header mb = Some h" "mx_terminal_transaction mb = None"
    "mx_plant mb = mx_plant mb1" "mx_device mb = mx_device mb1"
    using named idle handle_application_identity [OF app]
    by (auto simp: mb_def begun_def h mailbox_named_def client_knows_def mailbox_idle_def mb1)
  have signed: "signed_response rt ?tid operation digest status code answer mb1 =
      (Inr r, mb1\<lparr>mx_transaction_counter := mx_transaction_counter mb1 + 1\<rparr>)"
    if "signed_response rt ?tid operation digest status code answer mb = (Inr r, mb2)" for r mb2
    using that by (simp add: signed_response_def Let_def mb_def begun_def)
  have dig: "is_hex_digest digest" unfolding digest_def by (rule codec_bytesD(2) [OF cd])
  obtain r rs mb2 where sig: "signed_response rt ?tid operation digest status code answer mb = (Inr r, mb2)"
    and carry: "carried cd (wire_response_dump r) (wc_response cd) r"
    and W: "holds_response cd rs r version" "length rs = length (regs w1)"
    and pc: "process_commit rt pw cd (env w1) (regs w1) (box w1) = (Inr (), rs, mb2)"
    by (rule process_commit_answers [OF rt(1) cd staged app2 mb(1) dig range(1) _ range(3)])
      (use range(2) mb(3) w1(5) len response [OF enc(2) signed [unfolded digest_def]] in \<open>simp_all add: digest_def\<close>)
  note S = signed_responseD [OF sig]
  have active: "mx_active_transaction (box w1) = Some ?tid" "mx_terminal_transaction (box w1) = None"
    using w1(2) idle by (simp_all add: begun_def h mailbox_idle_def)
  obtain w2 where w2: "mp_write port 0 [enum_value control_words COMMIT] w1 = (Inr None, w2)"
    "regs w2 = put_slice 0 [enum_value control_words COMMIT] rs" "box w2 = mb2\<lparr>mx_terminal_transaction := mx_active_transaction mb2\<rparr>"
    using write_stores [OF writable_commit commit_action_processes [OF active pc]] by blast
  have kept: "slice lo j (regs w2) = slice lo j rs" if "1 \<le> lo" for lo j
    unfolding w2(2) by (rule slice_put_after) (use that W(2) w1(5) len in \<open>simp_all add: register_map\<close>)
  have hold: "holds_response cd (regs w2) r version"
    using W(1) kept by (simp add: holds_response_def register_map)
  have len2: "register_count \<le> length (regs w2)" using w2(2) W(2) w1(5) len by (simp add: register_map)
  have parse: "bind_res (wc_json cd bs) (wc_response cd) = Inr r" if "canonical_json_bytes cd (wire_response_dump r) = Inr bs" for bs
    using carry that by (auto simp: carried_def)
  have knows: "client_knows rt ?mc mb" using mb(2) by (simp add: client_knows_def)
  obtain w3 where w3: "await_response rt cd port ?mc operation ?tid digest w2 = (Inr r, w3)" "regs w3 = regs w2" "box w3 = box w2" "env w3 = env w2"
    by (rule await_delivers [OF hold len2 S(2,3)])
      (rule check_response_accepts [OF rt(2) knows sig _ parse reported])
  have box3: "mx_active_header (box w3) = Some h" "mx_terminal_transaction (box w3) = mx_active_transaction (box w3)"
    using w3(3) w2(3) S(1) mb by simp_all
  obtain vs where rel: "request_to_registers (h\<lparr>rh_control := RELEASE\<rparr>) = Inr vs" "writable vs"
    "action rt pw cd (env w3) 0 0 (length vs) (Some vs) (regs w3) (box w3) = (Inr None, regs w3,
       (box w3)\<lparr>mx_active_transaction := None, mx_active_header := None, mx_terminal_transaction := None\<rparr>)"
    by (rule release_action [OF box3 hdr(3) [folded h_def]])
  obtain w4 where w4: "mp_write port 0 vs w3 = (Inr None, w4)"
    "box w4 = (box w3)\<lparr>mx_active_transaction := None, mx_active_header := None, mx_terminal_transaction := None\<rparr>"
    using write_stores [OF rel(2,3)] by blast
  show ?thesis
  proof (rule that)
    show "modbus_request rt cd port operation payload (mc0, w) =
      (Inr r, mc0\<lparr>mc_transaction_id := ?tid, mc_last_counter := mx_transaction_counter (box w) + 1\<rparr>, w4)"
      using enc(1) w1(1) w2(1) w3(1) rel(1) w4(1) S(11) mb(3)
      by (simp add: modbus_request_def Let_def q_def [symmetric] h_def [symmetric] digest_def [symmetric] require_success_def release_def)
  qed (use w4(2) w3(3) w2(3) S mb in \<open>simp_all add: mailbox_idle_def\<close>)
qed

end

text \<open>
  A server that hands every access within the bounds of the protocol to the mailbox, stores what the mailbox accepted,
  and answers any other access with an exception.
\<close>

definition direct_port :: "runtime \<Rightarrow> pandapower \<Rightarrow> wire_codec \<Rightarrow> mailbox_env \<Rightarrow> (int list \<times> mailbox) modbus_port" where
  "direct_port rt pw cd e =
     \<lparr>mp_write = (\<lambda>a vs (rs, mb).
        if \<not> writable vs then (Inr (Some ''ExceptionResponse''), rs, mb)
        else case action rt pw cd e 0 a (length vs) (Some vs) rs mb of
          (Inr None, rs', mb') \<Rightarrow> (Inr None, put_slice a vs rs', mb')
        | (_, rs', mb') \<Rightarrow> (Inr (Some ''ExceptionResponse''), rs', mb')),
      mp_read = (\<lambda>a n (rs, mb).
        if readable n \<and> a + n \<le> length rs then (Inr (Inr (slice a (a + n) rs)), rs, mb)
        else (Inr (Inl ''ExceptionResponse''), rs, mb))\<rparr>"

interpretation direct: register_server rt pw cd "direct_port rt pw cd e" fst snd "\<lambda>_. e"
  by unfold_locales (auto simp: direct_port_def)

section \<open>Properties\<close>

lemma snapshot_version_reported:
  "\<exists>kvs. snapshot_dump s = JObj kvs \<and> map_of kvs ''state_version'' = Some (JInt (ps_state_version s))"
  by (simp add: snapshot_dump_def digest_material_fields_def map_add_def)

text \<open>
  (C15) The mailbox is transparent: over any Modbus server that stores the register writes which the mailbox accepts
  and returns the registers it holds, for requests within the bounds of the protocol (writes of at most 123 and reads
  of at most 125 registers of sixteen bits), a client that knows the device gets from \<open>modbus_execute\<close> exactly the
  acknowledgment that the device gives to the permit, the device and the plant behind the server are as after
  that call, and the mailbox is free again; however many register chunks the request and the response take,
  provided that their text fits the mailbox and that validation of a transmitted message gives the message back.
\<close>
theorem modbus_execute_transparent:
  assumes server: "register_server rt pw cd port regs box env"
    and rt: "digests_ok rt" "signatures_ok rt" and cd: "codec_bytes cd"
    and state: "mailbox_idle (box w)" "register_count \<le> length (regs w)" "mailbox_named (box w)" "client_knows rt mc (box w)"
      "in_u64 (mc_transaction_id mc + 1)" "in_u64 (mx_transaction_counter (box w) + 1)"
    and call: "execute_locked rt (pandapower_ops rt pw) (me_device (env w)) permit p d a (mx_device (box w), mx_plant (box w)) = (Inr k, dev', pl')"
      "read_state rt pw pl' = Inr post" "in_u64 (ps_state_version post)"
    and request: "let q = \<lparr>wq_transaction_id = mc_transaction_id mc + 1, wq_operation = EXECUTE, wq_payload = execute_payload permit p d a\<rparr>
      in carried cd (wire_request_dump q) (wc_request cd) q \<and>
        (\<forall>bs r mb'. canonical_json_bytes cd (wire_request_dump q) = Inr bs \<longrightarrow>
           signed_response rt (wq_transaction_id q) EXECUTE (wc_sha256 cd bs) (fst (execution_status (ck_status k))) (snd (execution_status (ck_status k)))
             [(''acknowledgment'', acknowledgment_dump k), (''post_state'', snapshot_dump post)]
             ((box w)\<lparr>mx_device := dev', mx_plant := pl'\<rparr>) = (Inr r, mb') \<longrightarrow>
           carried cd (wire_response_dump r) (wc_response cd) r)"
    and models: "execution_of cd (execute_payload permit p d a) = Inr (permit, p, d, a)"
      "wc_acknowledgment cd (Some (acknowledgment_dump k)) = Inr k"
  shows "\<exists>mc' w'. modbus_execute rt cd port permit p d a (mc, w) = (Inr k, mc', w') \<and> mailbox_idle (box w') \<and>
    mx_device (box w') = dev' \<and> mx_plant (box w') = pl'"
proof -
  let ?q = "\<lparr>wq_transaction_id = mc_transaction_id mc + 1, wq_operation = EXECUTE, wq_payload = execute_payload permit p d a\<rparr>"
  let ?answer = "[(''acknowledgment'', acknowledgment_dump k), (''post_state'', snapshot_dump post)]"
  obtain status code where st: "execution_status (ck_status k) = (status, code)" by fastforce
  have app: "handle_application rt pw cd (env w) ?q (box w) =
      (Inr (status, code, ?answer, ps_state_version post), (box w)\<lparr>mx_device := dev', mx_plant := pl'\<rparr>)"
    using call(1,2) models(1) st by (simp add: handle_application_def execution_result_def)
  have version: "reported_version EXECUTE ?answer = Inr (Some (JInt (ps_state_version post)))"
    using snapshot_version_reported [of post] by (auto simp: reported_version_def member_of_def)
  have "carried cd (wire_request_dump ?q) (wc_request cd) ?q" using request by (simp add: Let_def)
  then obtain r w' where r: "modbus_request rt cd port EXECUTE (execute_payload permit p d a) (mc, w) =
      (Inr r, mc\<lparr>mc_transaction_id := mc_transaction_id mc + 1, mc_last_counter := mx_transaction_counter (box w) + 1\<rparr>, w')"
    "wr_status r = status" "wr_payload r = ?answer" "mailbox_idle (box w')" "mx_plant (box w') = pl'" "mx_device (box w') = dev'"
    by (rule register_server.request_delivers [OF server rt cd state call(3) _ app version])
      (use request st in \<open>auto simp: Let_def\<close>)
  have "status \<in> {COMPLETE, REJECTED_BEFORE_DISPATCH, WIRE_UNKNOWN_EFFECT}" using st by (cases "ck_status k") auto
  then have "acknowledgment_of_response cd r = Inr k"
    using r(2,3) models(2) by (auto simp: acknowledgment_of_response_def)
  then show ?thesis using r by (simp add: modbus_execute_def)
qed

definition demo_client :: modbus_client where
  "demo_client = \<lparr>mc_device_id = ''plc-1'', mc_device_key_id = ''ack-1'', mc_boot_epoch = ''boot-epoch-000001'',
     mc_public_key = ''device-key'', mc_transaction_id = 0, mc_last_counter = 0\<rparr>"

lemma demo_mailbox_ready:
  "mailbox_idle demo_mailbox" "mailbox_named demo_mailbox" "client_knows demo_runtime demo_client demo_mailbox"
  "mx_device demo_mailbox = demo_device" "mx_plant demo_mailbox = demo_observed" "me_device demo_mailbox_env = demo_device_env"
  "mx_transaction_counter demo_mailbox = 0" "mc_transaction_id demo_client = 0"
  by (simp_all add: mailbox_idle_def mailbox_named_def client_knows_def demo_mailbox_def demo_client_def demo_device_def demo_mailbox_env_def)

lemma demo_execution:
  obtains permit d a k dev' pl' post where "execute_locked demo_runtime (pandapower_ops demo_runtime demo_pandapower) demo_device_env
      permit demo_plant_proposal d a (demo_device, demo_observed) = (Inr k, dev', pl')"
    "pl' \<noteq> demo_observed" "read_state demo_runtime demo_pandapower pl' = Inr post" "ps_state_version post = 1"
    "vd_device_id dev' = vd_device_id demo_device" "vd_acknowledgment_key_id dev' = vd_acknowledgment_key_id demo_device"
proof -
  obtain permit d a k dev' pl' where c: "command_valid (ep_command permit)"
    and ex: "execute_locked demo_runtime (pandapower_ops demo_runtime demo_pandapower) demo_device_env permit demo_plant_proposal d a
       (demo_device, demo_observed) = (Inr k, dev', pl')" "pl' \<noteq> demo_observed" by (rule demo_device_run)
  have inv: "plant_inv demo_pandapower demo_observed" using demo_plant_inv by (simp add: plant_inv_def demo_observed_def)
  obtain post where post: "read_state demo_runtime demo_pandapower pl' = Inr post" "pl_state_version pl' = pl_state_version demo_observed + 1"
    using device_change_authorized [OF inv c ex(1)] ex(2) changed_authorized by (auto simp: plant_change_authorized_def)
  have "device_step demo_runtime (pandapower_ops demo_runtime demo_pandapower) \<lparr>dc_env = demo_device_env, dc_permit = permit,
      dc_proposal = demo_plant_proposal, dc_decision = d, dc_assessment = a\<rparr> (demo_device, demo_observed) =
      ((Inr k, demo_observed, pl'), dev', pl')"
    using ex(1) by (simp add: device_step_def)
  from device_step_effect [OF this] have "vd_device_id dev' = vd_device_id demo_device \<and>
      vd_acknowledgment_key_id dev' = vd_acknowledgment_key_id demo_device" by auto
  moreover have "pl_state_version demo_observed = 0" by (simp add: demo_observed_def demo_plant_eq)
  ultimately show ?thesis using that [OF ex post(1)] post(2) read_state_version [OF post(1)] by simp
qed

theorem modbus_execute_transparent_witness:
  "\<exists>cd permit d a k mc' w'. modbus_execute demo_runtime cd (direct_port demo_runtime demo_pandapower cd demo_mailbox_env) permit demo_plant_proposal
      d a (demo_client, replicate register_count 0, demo_mailbox) = (Inr k, mc', w') \<and> mx_plant (snd w') \<noteq> demo_observed"
proof -
  obtain permit d a k dev' pl' post where ex: "execute_locked demo_runtime (pandapower_ops demo_runtime demo_pandapower) demo_device_env
      permit demo_plant_proposal d a (demo_device, demo_observed) = (Inr k, dev', pl')" "pl' \<noteq> demo_observed"
    "read_state demo_runtime demo_pandapower pl' = Inr post" "ps_state_version post = 1"
    and ids: "vd_device_id dev' = vd_device_id demo_device" "vd_acknowledgment_key_id dev' = vd_acknowledgment_key_id demo_device"
    by (rule demo_execution)
  define q where "q = \<lparr>wq_transaction_id = 1, wq_operation = EXECUTE, wq_payload = execute_payload permit demo_plant_proposal d a\<rparr>"
  have tid: "wq_transaction_id q = 1" by (simp add: q_def)
  define mb where "mb = demo_mailbox\<lparr>mx_device := dev', mx_plant := pl'\<rparr>"
  have "mailbox_named mb" using ids demo_mailbox_ready(2) by (simp add: mb_def mailbox_named_def demo_mailbox_def)
  then obtain r mb' where sig: "signed_response demo_runtime 1 EXECUTE zero_digest (fst (execution_status (ck_status k))) (snd (execution_status (ck_status k)))
      [(''acknowledgment'', acknowledgment_dump k), (''post_state'', snapshot_dump post)] mb = (Inr r, mb')"
    by (rule signed_response_total [OF demo_runtime_ok(1), of mb 1 zero_digest]) (simp_all add: in_u64_def)
  define cd where "cd = (demo_codec permit d a k post r)\<lparr>wc_request := \<lambda>_. Inr q\<rparr>"
  have cd: "codec_bytes cd" "wc_sha256 cd bs = zero_digest" "carried cd j (wc_request cd) q" "carried cd j (wc_response cd) r"
      "execution_of cd payload = Inr (permit, demo_plant_proposal, d, a)" "wc_acknowledgment cd x = Inr k" for bs j payload x
    by (simp_all add: cd_def codec_bytes_def demo_codec_def is_bytes_def carried_def canonical_json_bytes_def execution_of_def wire_constants)
  have "\<exists>mc' w'. modbus_execute demo_runtime cd (direct_port demo_runtime demo_pandapower cd demo_mailbox_env) permit demo_plant_proposal d a
      (demo_client, replicate register_count 0, demo_mailbox) = (Inr k, mc', w') \<and> mailbox_idle (snd w') \<and>
      mx_device (snd w') = dev' \<and> mx_plant (snd w') = pl'"
    by (rule modbus_execute_transparent [OF direct.register_server_axioms demo_runtime_ok(1,2) cd(1), where post = post])
      (use ex cd sig tid in \<open>auto simp: demo_mailbox_ready in_u64_def Let_def q_def [symmetric] mb_def [symmetric]\<close>)
  then show ?thesis using ex(2) by blast
qed

text \<open>
  When the write of the commit raises, the client reports that the transaction failed before the commit was sent,
  whatever the server did with the write.
\<close>

lemma raised_commit_reported_unsent:
  assumes "encode_request cd \<lparr>wq_transaction_id = mc_transaction_id mc + 1, wq_operation = EXECUTE, wq_payload = payload\<rparr> = Inr (bs, vs)"
    and "stage_request port (request_header_of cd \<lparr>wq_transaction_id = mc_transaction_id mc + 1, wq_operation = EXECUTE, wq_payload = payload\<rparr> bs vs)
      vs w = (Inr (), w1)"
    and "mp_write port 0 [enum_value control_words COMMIT] w1 = (Inl (OtherError e), w2)"
    and "e \<noteq> ''ModbusTransportError''" "e \<noteq> ''ModbusProtocolError''"
  shows "fst (modbus_request rt cd port EXECUTE payload (mc, w)) = Inl (transport_error ''Modbus mailbox transaction failed'')"
  using assms by (simp add: modbus_request_def Let_def mailbox_failure_def)

text \<open>
  The answer to a failed request carries no state, so the client refuses it for its state version: the signed
  failure never reaches the operation that asked for it.
\<close>

lemma failure_response_refused:
  assumes "failure_result cd operation' e = (status, code, wr_payload r)"
  shows "check_response rt cd mc operation tid digest h bs \<noteq> Inr r"
proof -
  obtain x y where "wr_payload r = [(''error'', x), (''reason'', y)]"
    using assms by (auto simp: failure_result_def Let_def dest!: sym [of "[_, _]"] split: if_splits)
  then have "reported_version operation (wr_payload r) = Inr None"
    by (cases operation) (simp_all add: reported_version_def member_of_def)
  then show ?thesis by (auto simp: check_response_def bind_res_Inr)
qed

end
