(* ===== verification/Capability_Models.thy ===== *)
theory Capability_Models
  imports Physical_Control
begin

text \<open>
  \<^verbatim>\<open>capability_models.py\<close>: the signed artifacts of the capability-separated control path and the terminal
  result that retains them. A field that holds another model keeps the instance it is given; only
  \<^verbatim>\<open>model_validate\<close> on a document checks the nested value again, so the shape of a model and its validation
  from a document are two predicates.
\<close>

section \<open>Enumerations\<close>

datatype capability_status =
    Loop_Not_Dispatched
  | Loop_Candidate_Rejected
  | Loop_Plc_Rejected
  | Loop_Completed
  | Loop_Unknown_Effect
  | Loop_Observation_Diverged

fun capability_status_value :: "capability_status \<Rightarrow> string" where
  "capability_status_value Loop_Not_Dispatched = ''not_dispatched''"
| "capability_status_value Loop_Candidate_Rejected = ''candidate_rejected''"
| "capability_status_value Loop_Plc_Rejected = ''plc_rejected''"
| "capability_status_value Loop_Completed = ''completed''"
| "capability_status_value Loop_Unknown_Effect = ''unknown_effect''"
| "capability_status_value Loop_Observation_Diverged = ''observation_diverged''"

datatype dispatch_phase = Pre_Dispatch | Known_No_Effect | Committed | Effect_Unknown

fun dispatch_phase_value :: "dispatch_phase \<Rightarrow> string" where
  "dispatch_phase_value Pre_Dispatch = ''pre_dispatch''"
| "dispatch_phase_value Known_No_Effect = ''known_no_effect''"
| "dispatch_phase_value Committed = ''committed''"
| "dispatch_phase_value Effect_Unknown = ''effect_unknown''"

datatype observation_phase = Pre_Authorization | Post_Dispatch

fun observation_phase_value :: "observation_phase \<Rightarrow> string" where
  "observation_phase_value Pre_Authorization = ''pre_authorization''"
| "observation_phase_value Post_Dispatch = ''post_dispatch''"

section \<open>Signed observations\<close>

record observation =
  so_observation_id :: string
  so_correlation_id :: string
  so_phase :: observation_phase
  so_challenge_nonce :: string
  so_observer_id :: string
  so_observer_key_id :: string
  so_observer_boot_epoch :: string
  so_observer_sequence :: int
  so_captured_at :: instant
  so_logical_time_s :: pyfloat
  so_snapshot :: snapshot
  so_permit_id :: "string option"
  so_command_digest :: "string option"
  so_plc_acknowledgment_digest :: "string option"
  so_previous_envelope_digest :: "string option"
  so_envelope_digest :: string
  so_signature :: string

definition observation_fields :: "observation \<Rightarrow> (string \<times> json) list" where
  "observation_fields ob = [
     (''schema_version'', JStr ''signed-observation-v1''),
     (''observation_id'', JStr (so_observation_id ob)),
     (''correlation_id'', JStr (so_correlation_id ob)),
     (''phase'', JStr (observation_phase_value (so_phase ob))),
     (''challenge_nonce'', JStr (so_challenge_nonce ob)),
     (''observer_id'', JStr (so_observer_id ob)),
     (''observer_key_id'', JStr (so_observer_key_id ob)),
     (''observer_boot_epoch'', JStr (so_observer_boot_epoch ob)),
     (''observer_sequence'', JInt (so_observer_sequence ob)),
     (''captured_at'', JTime (so_captured_at ob)),
     (''logical_time_s'', jfloat (so_logical_time_s ob)),
     (''snapshot'', snapshot_dump (so_snapshot ob)),
     (''permit_id'', jopt JStr (so_permit_id ob)),
     (''command_digest'', jopt JStr (so_command_digest ob)),
     (''plc_acknowledgment_digest'', jopt JStr (so_plc_acknowledgment_digest ob)),
     (''previous_envelope_digest'', jopt JStr (so_previous_envelope_digest ob))]"

definition observation_digest_material :: "observation \<Rightarrow> json" where
  "observation_digest_material ob = JObj (observation_fields ob)"

definition observation_signing_payload :: "observation \<Rightarrow> payload" where
  "observation_signing_payload ob =
     ('''', canonical (JObj (observation_fields ob @ [(''envelope_digest'', JStr (so_envelope_digest ob))])))"

definition observation_dump :: "observation \<Rightarrow> json" where
  "observation_dump ob = JObj (observation_fields ob @
     [(''envelope_digest'', JStr (so_envelope_digest ob)), (''signature'', JStr (so_signature ob))])"

definition require_consistent_envelope :: "runtime \<Rightarrow> observation \<Rightarrow> bool" where
  "require_consistent_envelope rt ob \<longleftrightarrow>
     (let post_bindings = [so_permit_id ob, so_command_digest ob, so_plc_acknowledgment_digest ob] in
      verify_digest rt (so_snapshot ob) \<and>
      so_captured_at ob = ps_observed_at (so_snapshot ob) \<and>
      feq (so_logical_time_s ob) (ps_simulation_time_s (so_snapshot ob)) \<and>
      \<not> (so_phase ob = Pre_Authorization \<and> list_ex (\<lambda>v. v \<noteq> None) post_bindings) \<and>
      \<not> (so_phase ob = Post_Dispatch \<and> list_ex (\<lambda>v. v = None) post_bindings) \<and>
      \<not> (so_phase ob = Post_Dispatch \<and> so_previous_envelope_digest ob = None) \<and>
      so_envelope_digest ob = canonical_digest rt (observation_digest_material ob))"

definition observation_valid :: "runtime \<Rightarrow> observation \<Rightarrow> bool" where
  "observation_valid rt ob \<longleftrightarrow>
     so_observation_id ob \<noteq> [] \<and> so_correlation_id ob \<noteq> [] \<and> len_between 16 256 (so_challenge_nonce ob) \<and>
     so_observer_id ob \<noteq> [] \<and> so_observer_key_id ob \<noteq> [] \<and> 16 \<le> length (so_observer_boot_epoch ob) \<and>
     1 \<le> so_observer_sequence ob \<and> nonneg (so_logical_time_s ob) \<and> snapshot_valid (so_snapshot ob) \<and>
     opt_ok (\<lambda>v. v \<noteq> []) (so_permit_id ob) \<and> opt_ok is_hex_digest (so_command_digest ob) \<and>
     opt_ok is_hex_digest (so_plc_acknowledgment_digest ob) \<and>
     opt_ok is_hex_digest (so_previous_envelope_digest ob) \<and> is_hex_digest (so_envelope_digest ob) \<and>
     require_consistent_envelope rt ob"

definition make_observation :: "runtime \<Rightarrow> observation \<Rightarrow> observation res" where
  "make_observation rt ob = (if observation_valid rt ob then Inr ob else Inl ValidationError)"

text \<open>The arguments of \<^verbatim>\<open>issue\<close> that name the transaction an observation belongs to.\<close>

record transaction_bindings =
  tb_correlation_id :: string
  tb_phase :: observation_phase
  tb_challenge_nonce :: string
  tb_previous_envelope_digest :: "string option"
  tb_permit_id :: "string option"
  tb_command_digest :: "string option"
  tb_plc_acknowledgment_digest :: "string option"

record observer_identity =
  oi_observer_id :: string
  oi_key_id :: string
  oi_boot_epoch :: string

definition provisional_observation ::
  "string \<Rightarrow> snapshot \<Rightarrow> transaction_bindings \<Rightarrow> observer_identity \<Rightarrow> int \<Rightarrow> observation" where
  "provisional_observation observation_id s tb oi sequence =
     \<lparr>so_observation_id = observation_id, so_correlation_id = tb_correlation_id tb, so_phase = tb_phase tb,
      so_challenge_nonce = tb_challenge_nonce tb, so_observer_id = oi_observer_id oi,
      so_observer_key_id = oi_key_id oi, so_observer_boot_epoch = oi_boot_epoch oi,
      so_observer_sequence = sequence, so_captured_at = ps_observed_at s,
      so_logical_time_s = ps_simulation_time_s s, so_snapshot = s, so_permit_id = tb_permit_id tb,
      so_command_digest = tb_command_digest tb,
      so_plc_acknowledgment_digest = tb_plc_acknowledgment_digest tb,
      so_previous_envelope_digest = tb_previous_envelope_digest tb,
      so_envelope_digest = zero_digest, so_signature = []\<rparr>"

definition issue_observation ::
  "runtime \<Rightarrow> string \<Rightarrow> snapshot \<Rightarrow> transaction_bindings \<Rightarrow> observer_identity \<Rightarrow> int \<Rightarrow> private_key \<Rightarrow> observation res" where
  "issue_observation rt observation_id s tb oi sequence private_key =
     (let provisional = provisional_observation observation_id s tb oi sequence
      in bind_res (make_observation rt
           (provisional\<lparr>so_envelope_digest := canonical_digest rt (observation_digest_material provisional)\<rparr>))
         (\<lambda>envelope. Inr (envelope\<lparr>so_signature := sign_bytes rt private_key (observation_signing_payload envelope)\<rparr>)))"

definition observation_verify :: "runtime \<Rightarrow> observation \<Rightarrow> public_key \<Rightarrow> bool" where
  "observation_verify rt ob public_key \<longleftrightarrow> so_signature ob \<noteq> [] \<and>
     verify_bytes rt public_key (observation_signing_payload ob) (so_signature ob)"

section \<open>Requests and permits\<close>

record action_request =
  ar_request_id :: string
  ar_correlation_id :: string
  ar_proposal :: action_proposal
  ar_observation_id :: string
  ar_observation_envelope_digest :: string
  ar_observation_challenge_nonce :: string

definition action_request_valid :: "action_request \<Rightarrow> bool" where
  "action_request_valid q \<longleftrightarrow>
     ar_request_id q \<noteq> [] \<and> ar_correlation_id q \<noteq> [] \<and> action_proposal_valid (ar_proposal q) \<and>
     ar_observation_id q \<noteq> [] \<and> is_hex_digest (ar_observation_envelope_digest q) \<and>
     len_between 16 256 (ar_observation_challenge_nonce q)"

definition action_request_dump :: "action_request \<Rightarrow> json" where
  "action_request_dump q = JObj [
     (''schema_version'', JStr ''capability-action-request-v1''),
     (''request_id'', JStr (ar_request_id q)),
     (''correlation_id'', JStr (ar_correlation_id q)),
     (''proposal'', action_proposal_dump (ar_proposal q)),
     (''observation_id'', JStr (ar_observation_id q)),
     (''observation_envelope_digest'', JStr (ar_observation_envelope_digest q)),
     (''observation_challenge_nonce'', JStr (ar_observation_challenge_nonce q))]"

definition request_digest :: "runtime \<Rightarrow> action_request \<Rightarrow> string" where
  "request_digest rt q = canonical_digest rt (action_request_dump q)"

record capability_permit =
  cp_base_permit :: permit
  cp_request_digest :: string
  cp_observation_id :: string
  cp_observation_envelope_digest :: string
  cp_observer_id :: string
  cp_observer_key_id :: string
  cp_observer_boot_epoch :: string
  cp_target_plc_id :: string
  cp_target_plc_key_id :: string
  cp_target_plc_boot_epoch :: string
  cp_signing_key_id :: string
  cp_signature :: string

definition capability_permit_shape :: "capability_permit \<Rightarrow> bool" where
  "capability_permit_shape p \<longleftrightarrow>
     is_hex_digest (cp_request_digest p) \<and> cp_observation_id p \<noteq> [] \<and>
     is_hex_digest (cp_observation_envelope_digest p) \<and> cp_observer_id p \<noteq> [] \<and> cp_observer_key_id p \<noteq> [] \<and>
     16 \<le> length (cp_observer_boot_epoch p) \<and> cp_target_plc_id p \<noteq> [] \<and> cp_target_plc_key_id p \<noteq> [] \<and>
     16 \<le> length (cp_target_plc_boot_epoch p) \<and> cp_signing_key_id p \<noteq> [] \<and>
     cp_signing_key_id p = ep_signing_key_id (cp_base_permit p)"

definition capability_permit_valid :: "runtime \<Rightarrow> capability_permit \<Rightarrow> bool" where
  "capability_permit_valid rt p \<longleftrightarrow> permit_valid rt (cp_base_permit p) \<and> capability_permit_shape p"

definition make_capability_permit :: "capability_permit \<Rightarrow> capability_permit res" where
  "make_capability_permit p = (if capability_permit_shape p then Inr p else Inl ValidationError)"

definition capability_permit_fields :: "capability_permit \<Rightarrow> (string \<times> json) list" where
  "capability_permit_fields p = [
     (''schema_version'', JStr ''capability-execution-permit-v1''),
     (''base_permit'', permit_dump (cp_base_permit p)),
     (''request_digest'', JStr (cp_request_digest p)),
     (''observation_id'', JStr (cp_observation_id p)),
     (''observation_envelope_digest'', JStr (cp_observation_envelope_digest p)),
     (''observer_id'', JStr (cp_observer_id p)),
     (''observer_key_id'', JStr (cp_observer_key_id p)),
     (''observer_boot_epoch'', JStr (cp_observer_boot_epoch p)),
     (''target_plc_id'', JStr (cp_target_plc_id p)),
     (''target_plc_key_id'', JStr (cp_target_plc_key_id p)),
     (''target_plc_boot_epoch'', JStr (cp_target_plc_boot_epoch p)),
     (''signing_key_id'', JStr (cp_signing_key_id p))]"

definition capability_permit_dump :: "capability_permit \<Rightarrow> json" where
  "capability_permit_dump p = JObj (capability_permit_fields p @ [(''signature'', JStr (cp_signature p))])"

definition capability_permit_digest :: "runtime \<Rightarrow> capability_permit \<Rightarrow> string" where
  "capability_permit_digest rt p = canonical_digest rt (capability_permit_dump p)"

definition capability_permit_payload :: "capability_permit \<Rightarrow> payload" where
  "capability_permit_payload p = ('''', canonical (JObj (capability_permit_fields p)))"

definition capability_permit_signed :: "runtime \<Rightarrow> capability_permit \<Rightarrow> private_key \<Rightarrow> capability_permit" where
  "capability_permit_signed rt p private_key =
     p\<lparr>cp_signature := sign_bytes rt private_key (capability_permit_payload p)\<rparr>"

definition capability_permit_verify :: "runtime \<Rightarrow> capability_permit \<Rightarrow> public_key \<Rightarrow> bool" where
  "capability_permit_verify rt p public_key \<longleftrightarrow>
     permit_verify rt (cp_base_permit p) public_key \<and> cp_signature p \<noteq> [] \<and>
     verify_bytes rt public_key (capability_permit_payload p) (cp_signature p)"

section \<open>Acknowledgments of the PLC\<close>

record plc_ack =
  pa_acknowledgment_id :: string
  pa_request_digest :: string
  pa_permit_digest :: string
  pa_observation_envelope_digest :: string
  pa_permit_id :: string
  pa_permit_nonce :: string
  pa_command_id :: string
  pa_command_digest :: string
  pa_assessment_digest :: string
  pa_proposal_id :: string
  pa_decision_id :: string
  pa_plc_id :: string
  pa_plc_key_id :: string
  pa_plc_boot_epoch :: string
  pa_plc_scan :: int
  pa_status :: command_status
  pa_dispatch_phase :: dispatch_phase
  pa_reason :: string
  pa_acknowledged_at :: instant
  pa_pre_state :: snapshot
  pa_pre_state_digest :: string
  pa_pre_state_version :: int
  pa_post_state_digest :: "string option"
  pa_post_state_version :: "int option"
  pa_post_topology_digest :: "string option"
  pa_pre_actuator_setpoint :: pyfloat
  pa_post_actuator_setpoint :: "pyfloat option"
  pa_simulation_time_s :: pyfloat
  pa_signature :: string

text \<open>Python's \<^verbatim>\<open>==\<close> between an optional float and a float.\<close>

definition feq_opt :: "pyfloat option \<Rightarrow> pyfloat \<Rightarrow> bool" where
  "feq_opt x y = (case x of None \<Rightarrow> False | Some v \<Rightarrow> feq v y)"

definition plc_ack_status_shape :: "runtime \<Rightarrow> plc_ack \<Rightarrow> bool" where
  "plc_ack_status_shape rt k \<longleftrightarrow>
     verify_digest rt (pa_pre_state k) \<and>
     \<not> (pa_pre_state_digest k \<noteq> ps_state_digest (pa_pre_state k) \<or>
        pa_pre_state_version k \<noteq> ps_state_version (pa_pre_state k)) \<and>
     (case pa_status k of
        APPLIED \<Rightarrow> pa_dispatch_phase k = Committed \<and>
          \<not> (pa_post_state_digest k = None \<or> pa_post_state_version k = None \<or>
             pa_post_topology_digest k = None \<or> pa_post_actuator_setpoint k = None)
      | REJECTED \<Rightarrow> pa_dispatch_phase k \<in> {Pre_Dispatch, Known_No_Effect} \<and>
          \<not> (pa_post_state_digest k \<noteq> None \<or> pa_post_state_version k \<noteq> None \<or> pa_post_topology_digest k \<noteq> None) \<and>
          feq_opt (pa_post_actuator_setpoint k) (pa_pre_actuator_setpoint k)
      | UNKNOWN_EFFECT \<Rightarrow> pa_dispatch_phase k = Effect_Unknown \<and>
          \<not> (pa_post_state_digest k \<noteq> None \<or> pa_post_state_version k \<noteq> None \<or>
             pa_post_topology_digest k \<noteq> None \<or> pa_post_actuator_setpoint k \<noteq> None))"

definition plc_ack_shape :: "runtime \<Rightarrow> plc_ack \<Rightarrow> bool" where
  "plc_ack_shape rt k \<longleftrightarrow>
     pa_acknowledgment_id k \<noteq> [] \<and> is_hex_digest (pa_request_digest k) \<and> is_hex_digest (pa_permit_digest k) \<and>
     is_hex_digest (pa_observation_envelope_digest k) \<and> pa_permit_id k \<noteq> [] \<and> 16 \<le> length (pa_permit_nonce k) \<and>
     pa_command_id k \<noteq> [] \<and> is_hex_digest (pa_command_digest k) \<and> is_hex_digest (pa_assessment_digest k) \<and>
     pa_proposal_id k \<noteq> [] \<and> pa_decision_id k \<noteq> [] \<and> pa_plc_id k \<noteq> [] \<and> pa_plc_key_id k \<noteq> [] \<and>
     16 \<le> length (pa_plc_boot_epoch k) \<and> 1 \<le> pa_plc_scan k \<and> pa_reason k \<noteq> [] \<and>
     is_hex_digest (pa_pre_state_digest k) \<and> 0 \<le> pa_pre_state_version k \<and>
     opt_ok is_hex_digest (pa_post_state_digest k) \<and> opt_ok (\<lambda>v. 0 \<le> v) (pa_post_state_version k) \<and>
     opt_ok is_hex_digest (pa_post_topology_digest k) \<and> is_finite (pa_pre_actuator_setpoint k) \<and>
     opt_ok is_finite (pa_post_actuator_setpoint k) \<and> nonneg (pa_simulation_time_s k) \<and>
     plc_ack_status_shape rt k"

definition plc_ack_valid :: "runtime \<Rightarrow> plc_ack \<Rightarrow> bool" where
  "plc_ack_valid rt k \<longleftrightarrow> snapshot_valid (pa_pre_state k) \<and> plc_ack_shape rt k"

definition make_plc_ack :: "runtime \<Rightarrow> plc_ack \<Rightarrow> plc_ack res" where
  "make_plc_ack rt k = (if plc_ack_shape rt k then Inr k else Inl ValidationError)"

definition plc_ack_fields :: "plc_ack \<Rightarrow> (string \<times> json) list" where
  "plc_ack_fields k = [
     (''schema_version'', JStr ''plc-command-ack-v1''),
     (''acknowledgment_id'', JStr (pa_acknowledgment_id k)),
     (''request_digest'', JStr (pa_request_digest k)),
     (''permit_digest'', JStr (pa_permit_digest k)),
     (''observation_envelope_digest'', JStr (pa_observation_envelope_digest k)),
     (''permit_id'', JStr (pa_permit_id k)),
     (''permit_nonce'', JStr (pa_permit_nonce k)),
     (''command_id'', JStr (pa_command_id k)),
     (''command_digest'', JStr (pa_command_digest k)),
     (''assessment_digest'', JStr (pa_assessment_digest k)),
     (''proposal_id'', JStr (pa_proposal_id k)),
     (''decision_id'', JStr (pa_decision_id k)),
     (''plc_id'', JStr (pa_plc_id k)),
     (''plc_key_id'', JStr (pa_plc_key_id k)),
     (''plc_boot_epoch'', JStr (pa_plc_boot_epoch k)),
     (''plc_scan'', JInt (pa_plc_scan k)),
     (''dispatch_attempt'', JInt 1),
     (''status'', JStr (command_status_value (pa_status k))),
     (''dispatch_phase'', JStr (dispatch_phase_value (pa_dispatch_phase k))),
     (''reason'', JStr (pa_reason k)),
     (''acknowledged_at'', JTime (pa_acknowledged_at k)),
     (''pre_state'', snapshot_dump (pa_pre_state k)),
     (''pre_state_digest'', JStr (pa_pre_state_digest k)),
     (''pre_state_version'', JInt (pa_pre_state_version k)),
     (''post_state_digest'', jopt JStr (pa_post_state_digest k)),
     (''post_state_version'', jopt JInt (pa_post_state_version k)),
     (''post_topology_digest'', jopt JStr (pa_post_topology_digest k)),
     (''pre_actuator_setpoint'', jfloat (pa_pre_actuator_setpoint k)),
     (''post_actuator_setpoint'', jopt jfloat (pa_post_actuator_setpoint k)),
     (''simulation_time_s'', jfloat (pa_simulation_time_s k))]"

definition plc_ack_dump :: "plc_ack \<Rightarrow> json" where
  "plc_ack_dump k = JObj (plc_ack_fields k @ [(''signature'', JStr (pa_signature k))])"

definition plc_ack_digest :: "runtime \<Rightarrow> plc_ack \<Rightarrow> string" where
  "plc_ack_digest rt k = canonical_digest rt (plc_ack_dump k)"

definition plc_ack_payload :: "plc_ack \<Rightarrow> payload" where
  "plc_ack_payload k = ('''', canonical (JObj (plc_ack_fields k)))"

definition plc_ack_signed :: "runtime \<Rightarrow> plc_ack \<Rightarrow> private_key \<Rightarrow> plc_ack" where
  "plc_ack_signed rt k private_key = k\<lparr>pa_signature := sign_bytes rt private_key (plc_ack_payload k)\<rparr>"

definition plc_ack_verify :: "runtime \<Rightarrow> plc_ack \<Rightarrow> public_key \<Rightarrow> bool" where
  "plc_ack_verify rt k public_key \<longleftrightarrow> pa_signature k \<noteq> [] \<and>
     verify_bytes rt public_key (plc_ack_payload k) (pa_signature k)"

section \<open>Verification of an acknowledgment against its transaction\<close>

text \<open>
  \<^verbatim>\<open>==\<close> on snapshots compares field by field; \<^verbatim>\<open>battery_injection_mw\<close> is a dictionary, whose order
  does not count.
\<close>

definition snapshot_eq :: "snapshot \<Rightarrow> snapshot \<Rightarrow> bool" where
  "snapshot_eq s t \<longleftrightarrow>
     s\<lparr>ps_battery_injection_mw := []\<rparr> = t\<lparr>ps_battery_injection_mw := []\<rparr> \<and>
     set (ps_battery_injection_mw s) = set (ps_battery_injection_mw t)"

definition replay_reasons :: "string list" where
  "replay_reasons = [''transaction_replayed'', ''permit_replayed'', ''permit_nonce_replayed'', ''command_replayed'']"

definition cas_reasons :: "string list" where
  "cas_reasons = [''model_digest_changed'', ''topology_digest_changed'', ''precommit_state_version_changed'',
     ''precommit_state_digest_changed'', ''precommit_observation_changed'']"

definition replay_rejection :: "plc_ack \<Rightarrow> bool" where
  "replay_rejection k \<longleftrightarrow> pa_status k = REJECTED \<and> pa_dispatch_phase k = Pre_Dispatch \<and>
     pa_reason k \<in> set replay_reasons"

record plc_identity =
  pid_plc_id :: string
  pid_key_id :: string
  pid_boot_epoch :: string

definition identifiers_match ::
  "runtime \<Rightarrow> plc_ack \<Rightarrow> action_request \<Rightarrow> capability_permit \<Rightarrow> observation \<Rightarrow> plc_identity \<Rightarrow> bool" where
  "identifiers_match rt k q p pre expected_plc \<longleftrightarrow>
     (let base = cp_base_permit p in
      pa_request_digest k = request_digest rt q \<and> request_digest rt q = cp_request_digest p \<and>
      pa_permit_digest k = capability_permit_digest rt p \<and>
      pa_observation_envelope_digest k = so_envelope_digest pre \<and>
      so_envelope_digest pre = cp_observation_envelope_digest p \<and>
      pa_permit_id k = ep_permit_id base \<and> pa_permit_nonce k = ep_permit_nonce base \<and>
      pa_command_id k = pc_command_id (ep_command base) \<and> pa_command_digest k = ep_command_digest base \<and>
      pa_assessment_digest k = ep_assessment_digest base \<and>
      pa_proposal_id k = ep_proposal_id base \<and> ep_proposal_id base = ap_proposal_id (ar_proposal q) \<and>
      pa_decision_id k = ep_decision_id base \<and> pa_plc_id k = pid_plc_id expected_plc \<and>
      pa_plc_key_id k = pid_key_id expected_plc \<and> pa_plc_boot_epoch k = pid_boot_epoch expected_plc \<and>
      cp_target_plc_id p = pid_plc_id expected_plc)"

definition target_instance_matches :: "capability_permit \<Rightarrow> plc_identity \<Rightarrow> bool" where
  "target_instance_matches p expected_plc \<longleftrightarrow>
     cp_target_plc_key_id p = pid_key_id expected_plc \<and> cp_target_plc_boot_epoch p = pid_boot_epoch expected_plc"

definition pre_state_valid :: "runtime \<Rightarrow> plc_ack \<Rightarrow> command \<Rightarrow> bool" where
  "pre_state_valid rt k c \<longleftrightarrow>
     verify_digest rt (pa_pre_state k) \<and> pa_pre_state_digest k = ps_state_digest (pa_pre_state k) \<and>
     pa_pre_state_version k = ps_state_version (pa_pre_state k) \<and>
     feq (pa_pre_actuator_setpoint k)
       (if pc_command_type c = SET_LINE_SERVICE \<and> pc_resource c \<in> set (ps_isolated_resources (pa_pre_state k)) then Fin 0
        else if pc_command_type c = SET_LINE_SERVICE then Fin 1
        else case map_of (ps_battery_injection_mw (pa_pre_state k)) (pc_resource c) of None \<Rightarrow> Fin 0 | Some v \<Rightarrow> v)"

definition authorized_pre_state_matches :: "plc_ack \<Rightarrow> permit \<Rightarrow> observation \<Rightarrow> bool" where
  "authorized_pre_state_matches k base pre \<longleftrightarrow>
     (let s = pa_pre_state k; seen = so_snapshot pre in
      snapshot_eq s seen \<and>
      pa_pre_state_digest k = ps_state_digest seen \<and> ps_state_digest seen = ep_state_digest base \<and>
      pa_pre_state_version k = ps_state_version seen \<and> ps_state_version seen = ep_state_version base \<and>
      ps_observation_digest s = ps_observation_digest seen \<and> ps_observation_digest seen = ep_observation_digest base \<and>
      ps_topology_digest s = ps_topology_digest seen \<and> ps_topology_digest seen = ep_topology_digest base \<and>
      ps_model_digest s = ps_model_digest seen \<and> ps_model_digest seen = ep_model_digest base)"

definition cas_rejection :: "plc_ack \<Rightarrow> permit \<Rightarrow> bool" where
  "cas_rejection k base \<longleftrightarrow>
     (let s = pa_pre_state k;
          same_model = (ps_model_digest s = ep_model_digest base);
          same_topology = (ps_topology_digest s = ep_topology_digest base);
          same_version = (pa_pre_state_version k = ep_state_version base);
          same_state = (pa_pre_state_digest k = ep_state_digest base)
      in pa_status k = REJECTED \<and> pa_dispatch_phase k \<in> {Pre_Dispatch, Known_No_Effect} \<and>
         (pa_reason k = ''model_digest_changed'' \<and> \<not> same_model \<or>
          pa_reason k = ''topology_digest_changed'' \<and> same_model \<and> \<not> same_topology \<or>
          pa_reason k = ''precommit_state_version_changed'' \<and> same_model \<and> same_topology \<and> \<not> same_version \<or>
          pa_reason k = ''precommit_state_digest_changed'' \<and> same_model \<and> same_topology \<and> same_version \<and> \<not> same_state \<or>
          pa_reason k = ''precommit_observation_changed'' \<and> same_model \<and> same_topology \<and> same_version \<and> same_state \<and>
            ps_observation_digest s \<noteq> ep_observation_digest base))"

definition rejection_time_valid :: "plc_ack \<Rightarrow> permit \<Rightarrow> bool" where
  "rejection_time_valid k base =
     (if pa_reason k = ''permit_not_yet_valid'' then pa_acknowledged_at k < ep_issued_at base
      else if pa_reason k \<in> {''permit_expired'', ''permit_expired_before_dispatch'', ''permit_expired_after_replay_reservation''}
      then ep_expires_at base \<le> pa_acknowledged_at k
      else if replay_rejection k then ep_issued_at base \<le> pa_acknowledged_at k
      else ep_issued_at base \<le> pa_acknowledged_at k \<and> pa_acknowledged_at k < ep_expires_at base)"

definition plc_ack_verify_for_transaction ::
  "runtime \<Rightarrow> plc_ack \<Rightarrow> public_key \<Rightarrow> action_request \<Rightarrow> capability_permit \<Rightarrow> observation \<Rightarrow> plc_identity \<Rightarrow> bool" where
  "plc_ack_verify_for_transaction rt k public_key q p pre expected_plc =
     (let base = cp_base_permit p in
      if \<not> identifiers_match rt k q p pre expected_plc \<or> \<not> plc_ack_verify rt k public_key \<or>
         (\<not> target_instance_matches p expected_plc \<and> \<not> replay_rejection k)
      then False
      else if \<not> pre_state_valid rt k (ep_command base) then False
      else case pa_status k of
        APPLIED \<Rightarrow>
          ep_issued_at base \<le> pa_acknowledged_at k \<and> pa_acknowledged_at k < ep_expires_at base \<and>
          authorized_pre_state_matches k base pre \<and>
          pa_post_state_digest k = Some (ep_expected_post_state_digest base) \<and>
          pa_post_state_version k = Some (ep_expected_post_state_version base) \<and>
          pa_post_topology_digest k = Some (ep_expected_post_topology_digest base) \<and>
          feq_opt (pa_post_actuator_setpoint k) (pc_setpoint (ep_command base))
      | REJECTED \<Rightarrow>
          rejection_time_valid k base \<and>
          ((authorized_pre_state_matches k base pre \<and> pa_reason k \<notin> set cas_reasons) \<or>
           replay_rejection k \<or> cas_rejection k base) \<and>
          feq_opt (pa_post_actuator_setpoint k) (pa_pre_actuator_setpoint k)
      | UNKNOWN_EFFECT \<Rightarrow>
          pa_dispatch_phase k = Effect_Unknown \<and> ep_issued_at base \<le> pa_acknowledged_at k \<and>
          authorized_pre_state_matches k base pre)"

section \<open>Terminal results\<close>

record capability_result =
  cr_status :: capability_status
  cr_reasons :: "string list"
  cr_request :: action_request
  cr_pre_observation :: "observation option"
  cr_decision :: "decision option"
  cr_command :: "command option"
  cr_assessment :: "assessment option"
  cr_permit :: "capability_permit option"
  cr_acknowledgment :: "plc_ack option"
  cr_post_observation :: "observation option"
  cr_last_observation :: "observation option"
  cr_dispatch_attempts :: int
  cr_execution_evidence_hash :: string

definition post_bindings_match :: "runtime \<Rightarrow> capability_result \<Rightarrow> bool" where
  "post_bindings_match rt r =
     (case (cr_pre_observation r, cr_permit r, cr_acknowledgment r, cr_post_observation r) of
        (Some pre, Some p, Some k, Some post) \<Rightarrow>
          so_phase post = Post_Dispatch \<and> so_correlation_id post = ar_correlation_id (cr_request r) \<and>
          so_permit_id post = Some (ep_permit_id (cp_base_permit p)) \<and>
          so_command_digest post = Some (ep_command_digest (cp_base_permit p)) \<and>
          so_plc_acknowledgment_digest post = Some (plc_ack_digest rt k) \<and>
          so_previous_envelope_digest post = Some (so_envelope_digest pre) \<and>
          cp_observation_envelope_digest p = so_envelope_digest pre
      | _ \<Rightarrow> False)"

definition post_state_matches_expected :: "capability_result \<Rightarrow> bool" where
  "post_state_matches_expected r =
     (case (cr_permit r, cr_acknowledgment r, cr_post_observation r) of
        (Some p, Some k, Some post) \<Rightarrow>
          (let s = so_snapshot post; base = cp_base_permit p in
           Some (ps_state_digest s) = pa_post_state_digest k \<and>
           pa_post_state_digest k = Some (ep_expected_post_state_digest base) \<and>
           Some (ps_state_version s) = pa_post_state_version k \<and>
           pa_post_state_version k = Some (ep_expected_post_state_version base) \<and>
           Some (ps_topology_digest s) = pa_post_topology_digest k \<and>
           pa_post_topology_digest k = Some (ep_expected_post_topology_digest base))
      | _ \<Rightarrow> False)"

text \<open>The checks of \<^verbatim>\<open>require_terminal_shape\<close>, one predicate per terminal status.\<close>

definition signed_artifacts :: "capability_result \<Rightarrow> bool" where
  "signed_artifacts r =
     (case (cr_pre_observation r, cr_permit r, cr_acknowledgment r, cr_post_observation r) of
        (Some pre, Some p, Some k, Some post) \<Rightarrow>
          so_signature pre \<noteq> [] \<and> cp_signature p \<noteq> [] \<and> pa_signature k \<noteq> [] \<and> so_signature post \<noteq> []
      | _ \<Rightarrow> False)"

definition acknowledged_with :: "command_status \<Rightarrow> capability_result \<Rightarrow> bool" where
  "acknowledged_with status r = (case cr_acknowledgment r of None \<Rightarrow> False | Some k \<Rightarrow> pa_status k = status)"

definition signed_rejection :: "capability_result \<Rightarrow> bool" where
  "signed_rejection r = (case cr_acknowledgment r of None \<Rightarrow> False
     | Some k \<Rightarrow> pa_status k = REJECTED \<and> pa_signature k \<noteq> [])"

fun terminal_status_shape :: "runtime \<Rightarrow> capability_result \<Rightarrow> capability_status \<Rightarrow> bool" where
  "terminal_status_shape rt r Loop_Not_Dispatched \<longleftrightarrow>
     cr_dispatch_attempts r = 0 \<and> cr_acknowledgment r = None \<and> cr_post_observation r = None"
| "terminal_status_shape rt r Loop_Candidate_Rejected \<longleftrightarrow>
     cr_post_observation r = None \<and>
     \<not> (cr_dispatch_attempts r = 0 \<and> (cr_permit r \<noteq> None \<or> cr_acknowledgment r \<noteq> None)) \<and>
     \<not> (cr_dispatch_attempts r = 1 \<and> (cr_permit r = None \<or> \<not> signed_rejection r))"
| "terminal_status_shape rt r Loop_Completed \<longleftrightarrow>
     cr_pre_observation r \<noteq> None \<and> cr_decision r \<noteq> None \<and> cr_command r \<noteq> None \<and> cr_assessment r \<noteq> None \<and>
     cr_permit r \<noteq> None \<and> cr_acknowledgment r \<noteq> None \<and> cr_post_observation r \<noteq> None \<and> cr_dispatch_attempts r = 1 \<and>
     acknowledged_with APPLIED r \<and> signed_artifacts r \<and> post_bindings_match rt r \<and> post_state_matches_expected r"
| "terminal_status_shape rt r Loop_Plc_Rejected \<longleftrightarrow>
     signed_rejection r \<and> cr_dispatch_attempts r = 1 \<and> cr_post_observation r = None \<and>
     (case cr_permit r of None \<Rightarrow> False | Some p \<Rightarrow> cp_signature p \<noteq> [])"
| "terminal_status_shape rt r Loop_Observation_Diverged \<longleftrightarrow>
     cr_pre_observation r \<noteq> None \<and> cr_permit r \<noteq> None \<and> cr_acknowledgment r \<noteq> None \<and> cr_post_observation r \<noteq> None \<and>
     cr_dispatch_attempts r = 1 \<and> acknowledged_with APPLIED r \<and> signed_artifacts r \<and>
     post_bindings_match rt r \<and> \<not> post_state_matches_expected r"
| "terminal_status_shape rt r Loop_Unknown_Effect \<longleftrightarrow>
     cr_post_observation r = None \<and> \<not> (cr_permit r = None \<or> cr_dispatch_attempts r \<noteq> 1)"

definition capability_terminal_shape :: "runtime \<Rightarrow> capability_result \<Rightarrow> bool" where
  "capability_terminal_shape rt r \<longleftrightarrow>
     \<not> (cr_permit r = None \<and> cr_dispatch_attempts r \<noteq> 0) \<and>
     \<not> (cr_dispatch_attempts r = 0 \<and> cr_acknowledgment r \<noteq> None) \<and>
     terminal_status_shape rt r (cr_status r)"

definition make_capability_result :: "runtime \<Rightarrow> capability_result \<Rightarrow> capability_result res" where
  "make_capability_result rt r =
     (if cr_reasons r \<noteq> [] \<and> 0 \<le> cr_dispatch_attempts r \<and> cr_dispatch_attempts r \<le> 1 \<and>
         is_hex_digest (cr_execution_evidence_hash r) \<and> capability_terminal_shape rt r
      then Inr r else Inl ValidationError)"

section \<open>Lemmas\<close>

lemma make_capability_simps [res_simps]:
  "make_observation rt ob = Inr ob' \<longleftrightarrow> observation_valid rt ob \<and> ob' = ob"
  "make_capability_permit p = Inr p' \<longleftrightarrow> capability_permit_shape p \<and> p' = p"
  "make_plc_ack rt k = Inr k' \<longleftrightarrow> plc_ack_shape rt k \<and> k' = k"
  by (auto simp: make_observation_def make_capability_permit_def make_plc_ack_def)

lemma capability_payload_unsigned [simp]:
  "observation_signing_payload (ob\<lparr>so_signature := s\<rparr>) = observation_signing_payload ob"
  "capability_permit_payload (p\<lparr>cp_signature := s\<rparr>) = capability_permit_payload p"
  "plc_ack_payload (k\<lparr>pa_signature := s\<rparr>) = plc_ack_payload k"
  by (simp_all add: observation_signing_payload_def observation_fields_def capability_permit_payload_def
      capability_permit_fields_def plc_ack_payload_def plc_ack_fields_def)

lemma plc_ack_signed_verifies [simp]:
  "signatures_ok rt \<Longrightarrow> plc_ack_verify rt (plc_ack_signed rt k sk) (rt_public rt sk)"
  by (simp add: plc_ack_verify_def plc_ack_signed_def)

lemma provisional_observation_simps [simp]:
  "so_observation_id (provisional_observation oid s tb oi n) = oid"
  "so_snapshot (provisional_observation oid s tb oi n) = s"
  "so_correlation_id (provisional_observation oid s tb oi n) = tb_correlation_id tb"
  "so_phase (provisional_observation oid s tb oi n) = tb_phase tb"
  "so_challenge_nonce (provisional_observation oid s tb oi n) = tb_challenge_nonce tb"
  "so_observer_id (provisional_observation oid s tb oi n) = oi_observer_id oi"
  "so_observer_key_id (provisional_observation oid s tb oi n) = oi_key_id oi"
  "so_observer_boot_epoch (provisional_observation oid s tb oi n) = oi_boot_epoch oi"
  "so_observer_sequence (provisional_observation oid s tb oi n) = n"
  "so_captured_at (provisional_observation oid s tb oi n) = ps_observed_at s"
  "so_logical_time_s (provisional_observation oid s tb oi n) = ps_simulation_time_s s"
  "so_permit_id (provisional_observation oid s tb oi n) = tb_permit_id tb"
  "so_command_digest (provisional_observation oid s tb oi n) = tb_command_digest tb"
  "so_plc_acknowledgment_digest (provisional_observation oid s tb oi n) = tb_plc_acknowledgment_digest tb"
  "so_previous_envelope_digest (provisional_observation oid s tb oi n) = tb_previous_envelope_digest tb"
  by (simp_all add: provisional_observation_def)

lemma observation_material_sealed [simp]:
  "observation_digest_material (ob\<lparr>so_envelope_digest := d\<rparr>) = observation_digest_material ob"
  "observation_digest_material (ob\<lparr>so_signature := sg\<rparr>) = observation_digest_material ob"
  by (simp_all add: observation_digest_material_def observation_fields_def)

lemma observation_valid_signature [simp]:
  "observation_valid rt (ob\<lparr>so_signature := sg\<rparr>) \<longleftrightarrow> observation_valid rt ob"
  by (simp add: observation_valid_def require_consistent_envelope_def)

lemma issue_observationE:
  assumes "issue_observation rt oid s tb oi n sk = Inr ob"
  obtains sealed where "sealed = (provisional_observation oid s tb oi n)\<lparr>so_envelope_digest :=
      canonical_digest rt (observation_digest_material (provisional_observation oid s tb oi n))\<rparr>"
    "observation_valid rt sealed"
    "ob = sealed\<lparr>so_signature := sign_bytes rt sk (observation_signing_payload sealed)\<rparr>"
  using assms by (auto simp: issue_observation_def Let_def res_simps)

lemma issue_observationD:
  assumes "issue_observation rt oid s tb oi n sk = Inr ob"
  shows "so_observation_id ob = oid" "so_snapshot ob = s" "so_correlation_id ob = tb_correlation_id tb"
    "so_phase ob = tb_phase tb" "so_challenge_nonce ob = tb_challenge_nonce tb"
    "so_observer_id ob = oi_observer_id oi" "so_observer_key_id ob = oi_key_id oi"
    "so_observer_boot_epoch ob = oi_boot_epoch oi" "so_observer_sequence ob = n"
    "so_captured_at ob = ps_observed_at s" "so_permit_id ob = tb_permit_id tb"
    "so_command_digest ob = tb_command_digest tb"
    "so_plc_acknowledgment_digest ob = tb_plc_acknowledgment_digest tb"
    "so_previous_envelope_digest ob = tb_previous_envelope_digest tb"
    "observation_valid rt ob" "verify_digest rt s"
proof -
  obtain sealed where sealed: "sealed = (provisional_observation oid s tb oi n)\<lparr>so_envelope_digest :=
      canonical_digest rt (observation_digest_material (provisional_observation oid s tb oi n))\<rparr>"
    and v: "observation_valid rt sealed"
    and ob: "ob = sealed\<lparr>so_signature := sign_bytes rt sk (observation_signing_payload sealed)\<rparr>"
    using assms by (rule issue_observationE)
  show "observation_valid rt ob" using v by (simp add: ob)
  have "so_snapshot sealed = s" by (simp add: sealed)
  then show "verify_digest rt s" using v by (auto simp: observation_valid_def require_consistent_envelope_def Let_def)
  show "so_observation_id ob = oid" "so_snapshot ob = s" "so_correlation_id ob = tb_correlation_id tb"
    "so_phase ob = tb_phase tb" "so_challenge_nonce ob = tb_challenge_nonce tb"
    "so_observer_id ob = oi_observer_id oi" "so_observer_key_id ob = oi_key_id oi"
    "so_observer_boot_epoch ob = oi_boot_epoch oi" "so_observer_sequence ob = n"
    "so_captured_at ob = ps_observed_at s" "so_permit_id ob = tb_permit_id tb"
    "so_command_digest ob = tb_command_digest tb"
    "so_plc_acknowledgment_digest ob = tb_plc_acknowledgment_digest tb"
    "so_previous_envelope_digest ob = tb_previous_envelope_digest tb"
    by (simp_all add: ob sealed)
qed

lemma issue_observation_verifies:
  "signatures_ok rt \<Longrightarrow> issue_observation rt oid s tb oi n sk = Inr ob \<Longrightarrow> observation_verify rt ob (rt_public rt sk)"
  by (erule issue_observationE) (simp add: observation_verify_def)

lemma plc_ack_shape_signature [simp]:
  "plc_ack_status_shape rt (k\<lparr>pa_signature := s\<rparr>) \<longleftrightarrow> plc_ack_status_shape rt k"
  "plc_ack_shape rt (k\<lparr>pa_signature := s\<rparr>) \<longleftrightarrow> plc_ack_shape rt k"
proof -
  show shape: "plc_ack_status_shape rt (k\<lparr>pa_signature := s\<rparr>) \<longleftrightarrow> plc_ack_status_shape rt k"
    by (cases "pa_status k") (simp_all add: plc_ack_status_shape_def)
  show "plc_ack_shape rt (k\<lparr>pa_signature := s\<rparr>) \<longleftrightarrow> plc_ack_shape rt k"
    by (simp add: plc_ack_shape_def shape)
qed

end
