(* ===== verification/Durable_Replay.thy ===== *)
theory Durable_Replay
  imports Crypto
begin

text \<open>
  \<^verbatim>\<open>semantic_replay.py\<close> and \<^verbatim>\<open>transport_replay.py\<close>: one-time reservations that survive a restart. Both
  ledgers reload their file before every operation, write a new file beside it and rename it, and
  report a failure at any point of that sequence. The file at the ledger's path is a record of what
  the code inspects: kind, mode, size and the JSON value of its text with the members in file order,
  together with whether the text is the compact serialisation of that value. A failed update either
  left the old file or had already renamed the new one; both are steps of the model.
\<close>

section \<open>Ledger files\<close>

record ledger_file =
  lf_regular :: bool
  lf_mode_0600 :: bool
  lf_readable :: bool
  lf_size :: nat
  lf_text :: "(json \<times> bool) option"

datatype persist_fault = Persisted | Failed_Before_Replace | Failed_After_Replace

definition max_ledger_bytes :: nat where
  "max_ledger_bytes = 4 * 1024 * 1024"

text \<open>Length of \<^verbatim>\<open>json.dumps(value, separators=(",", ":"))\<close>; a ledger holds strings, lists and objects.\<close>

definition escaped_length :: "char \<Rightarrow> nat" where
  "escaped_length c =
     (let n = (of_char c :: nat) in
      if n \<in> {8, 9, 10, 12, 13, 34, 92} then 2 else if 32 \<le> n \<and> n \<le> 126 then 1 else 6)"

definition string_length :: "string \<Rightarrow> nat" where
  "string_length s = 2 + sum_list (map escaped_length s)"

definition commas :: "'a list \<Rightarrow> nat" where
  "commas xs = length xs - 1"

fun dumps_length :: "json \<Rightarrow> nat" where
  "dumps_length (JStr s) = string_length s"
| "dumps_length (JArr xs) = 2 + commas xs + sum_list (map dumps_length xs)"
| "dumps_length (JObj kvs) = 2 + commas kvs + sum_list (map (\<lambda>(k, v). string_length k + 1 + dumps_length v) kvs)"
| "dumps_length _ = 0"

text \<open>The file that a completed update leaves.\<close>

definition written_file :: "json \<Rightarrow> ledger_file" where
  "written_file document =
     \<lparr>lf_regular = True, lf_mode_0600 = True, lf_readable = True, lf_size = dumps_length (canonical document),
      lf_text = Some (canonical document, True)\<rparr>"

text \<open>\<^verbatim>\<open>object_pairs_hook\<close>: every object of the text is checked for a repeated key.\<close>

fun closed_objects :: "json \<Rightarrow> bool" where
  "closed_objects (JArr xs) = list_all closed_objects xs"
| "closed_objects (JObj kvs) = (distinct (map fst kvs) \<and> list_all (\<lambda>(_, v). closed_objects v) kvs)"
| "closed_objects _ = True"

section \<open>Reservations of the virtual PLC\<close>

record reservation_sets =
  rv_request_digests :: "string set"
  rv_permit_ids :: "string set"
  rv_permit_nonces :: "string set"
  rv_command_ids :: "string set"

definition empty_reservations :: reservation_sets where
  "empty_reservations =
     \<lparr>rv_request_digests = {}, rv_permit_ids = {}, rv_permit_nonces = {}, rv_command_ids = {}\<rparr>"

record semantic_ledger =
  sl_writer :: bool
  sl_file :: "ledger_file option"
  sl_state :: reservation_sets

record reservation_key =
  rk_request_digest :: string
  rk_permit_id :: string
  rk_permit_nonce :: string
  rk_command_id :: string

definition string_values :: "json list \<Rightarrow> string list option" where
  "string_values xs = (if list_all (\<lambda>x. case x of JStr s \<Rightarrow> s \<noteq> [] | _ \<Rightarrow> False) xs
     then Some (map (\<lambda>x. case x of JStr s \<Rightarrow> s | _ \<Rightarrow> []) xs) else None)"

definition reservation_set :: "json option \<Rightarrow> string set res" where
  "reservation_set field =
     (case field of
        Some (JArr xs) \<Rightarrow>
          (case string_values xs of
             Some values \<Rightarrow> if sorted values \<and> distinct values then Inr (set values)
               else Inl (ValueError ''PLC replay ledger has an invalid reservation set'')
           | None \<Rightarrow> Inl (ValueError ''PLC replay ledger has an invalid reservation set''))
      | _ \<Rightarrow> Inl (ValueError ''PLC replay ledger has an invalid reservation set''))"

definition reservation_fields :: "string list" where
  "reservation_fields = [''request_digests'', ''permit_ids'', ''permit_nonces'', ''command_ids'']"

definition semantic_load :: "semantic_ledger \<Rightarrow> reservation_sets res" where
  "semantic_load sl =
     (if \<not> sl_writer sl then Inl (ValueError ''PLC replay writer lock is closed'')
      else case sl_file sl of
        None \<Rightarrow> Inl (ValueError ''PLC replay ledger is missing or unavailable'')
      | Some f \<Rightarrow>
          if \<not> lf_regular f then Inl (ValueError ''PLC replay ledger must be a regular non-symlink file'')
          else if lf_size f > max_ledger_bytes then Inl (ValueError ''PLC replay ledger exceeds its size limit'')
          else if \<not> lf_readable f then Inl (OtherError ''OSError'')
          else case lf_text f of
            None \<Rightarrow> Inl (ValueError ''not a JSON document'')
          | Some (parsed, _) \<Rightarrow>
              if \<not> closed_objects parsed then Inl (ValueError ''PLC replay ledger contains a duplicate key'')
              else case parsed of
                JObj kvs \<Rightarrow>
                  if set (map fst kvs) \<noteq> set reservation_fields
                  then Inl (ValueError ''PLC replay ledger has unexpected or missing fields'')
                  else bind_res (reservation_set (map_of kvs ''request_digests'')) (\<lambda>a.
                    bind_res (reservation_set (map_of kvs ''permit_ids'')) (\<lambda>b.
                    bind_res (reservation_set (map_of kvs ''permit_nonces'')) (\<lambda>c.
                    bind_res (reservation_set (map_of kvs ''command_ids'')) (\<lambda>d.
                      Inr \<lparr>rv_request_digests = a, rv_permit_ids = b, rv_permit_nonces = c, rv_command_ids = d\<rparr>))))
              | _ \<Rightarrow> Inl (ValueError ''PLC replay ledger root must be an object''))"

definition sorted_strings :: "string set \<Rightarrow> json" where
  "sorted_strings S = JArr (map JStr (sorted_list_of_set S))"

definition semantic_document :: "reservation_sets \<Rightarrow> json" where
  "semantic_document rv = JObj [
     (''command_ids'', sorted_strings (rv_command_ids rv)),
     (''permit_ids'', sorted_strings (rv_permit_ids rv)),
     (''permit_nonces'', sorted_strings (rv_permit_nonces rv)),
     (''request_digests'', sorted_strings (rv_request_digests rv))]"

definition semantic_persist :: "persist_fault \<Rightarrow> semantic_ledger \<Rightarrow> unit res \<times> semantic_ledger" where
  "semantic_persist fault sl =
     (if \<not> sl_writer sl then (Inl (ValueError ''PLC replay writer lock is closed''), sl)
      else let replaced = sl\<lparr>sl_file := Some (written_file (semantic_document (sl_state sl)))\<rparr> in
        case fault of
          Persisted \<Rightarrow> (Inr (), replaced)
        | Failed_Before_Replace \<Rightarrow> (Inl (OtherError ''OSError''), sl)
        | Failed_After_Replace \<Rightarrow> (Inl (OtherError ''OSError''), replaced))"

text \<open>
  Opening a ledger: the writer lock is obtained or the call fails; a new file is only written when
  initialisation was asked for and no file is there.
\<close>

definition semantic_open :: "bool \<Rightarrow> bool \<Rightarrow> persist_fault \<Rightarrow> ledger_file option \<Rightarrow> semantic_ledger res \<times> ledger_file option" where
  "semantic_open lock_free initialize fault file =
     (if \<not> lock_free then (Inl (ValueError ''PLC replay writer lock is already held or unavailable''), file)
      else let fresh = \<lparr>sl_writer = True, sl_file = file, sl_state = empty_reservations\<rparr> in
        if initialize \<and> file \<noteq> None
        then (Inl (ValueError ''PLC replay ledger already exists; refusing to initialize''), file)
        else let (result, sl) = (if initialize then semantic_persist fault fresh else (Inr (), fresh)) in
          (bind_res result (\<lambda>_. bind_res (semantic_load sl) (\<lambda>rv. Inr (sl\<lparr>sl_state := rv\<rparr>))), sl_file sl))"

definition semantic_close :: "semantic_ledger \<Rightarrow> semantic_ledger" where
  "semantic_close sl = sl\<lparr>sl_writer := False\<rparr>"

definition replay_reason_in :: "reservation_sets \<Rightarrow> reservation_key \<Rightarrow> string option" where
  "replay_reason_in rv k =
     first_failed [
       (rk_request_digest k \<notin> rv_request_digests rv, ''transaction_replayed''),
       (rk_permit_id k \<notin> rv_permit_ids rv, ''permit_replayed''),
       (rk_permit_nonce k \<notin> rv_permit_nonces rv, ''permit_nonce_replayed''),
       (rk_command_id k \<notin> rv_command_ids rv, ''command_replayed'')]"

definition replay_reason :: "reservation_key \<Rightarrow> semantic_ledger \<Rightarrow> string option res \<times> semantic_ledger" where
  "replay_reason k sl =
     (case semantic_load sl of
        Inl e \<Rightarrow> (Inl e, sl)
      | Inr rv \<Rightarrow> (Inr (replay_reason_in rv k), sl\<lparr>sl_state := rv\<rparr>))"

definition add_reservation :: "reservation_key \<Rightarrow> reservation_sets \<Rightarrow> reservation_sets" where
  "add_reservation k rv =
     rv\<lparr>rv_request_digests := insert (rk_request_digest k) (rv_request_digests rv),
        rv_permit_ids := insert (rk_permit_id k) (rv_permit_ids rv),
        rv_permit_nonces := insert (rk_permit_nonce k) (rv_permit_nonces rv),
        rv_command_ids := insert (rk_command_id k) (rv_command_ids rv)\<rparr>"

definition semantic_reserve :: "persist_fault \<Rightarrow> reservation_key \<Rightarrow> semantic_ledger \<Rightarrow> unit res \<times> semantic_ledger" where
  "semantic_reserve fault k sl =
     (case semantic_load sl of
        Inl e \<Rightarrow> (Inl e, sl)
      | Inr rv \<Rightarrow>
          (case replay_reason_in rv k of
             Some reason \<Rightarrow> (Inl (ValueError reason), sl\<lparr>sl_state := rv\<rparr>)
           | None \<Rightarrow> semantic_persist fault (sl\<lparr>sl_state := add_reservation k rv\<rparr>)))"

definition reservation_count :: "semantic_ledger \<Rightarrow> nat res \<times> semantic_ledger" where
  "reservation_count sl =
     (case semantic_load sl of
        Inl e \<Rightarrow> (Inl e, sl)
      | Inr rv \<Rightarrow> (Inr (card (rv_request_digests rv)), sl\<lparr>sl_state := rv\<rparr>))"

section \<open>Reservations of the transport\<close>

record transport_ledger =
  tl_audience :: string
  tl_gateway_key_id :: string
  tl_gateway_public_key_sha256 :: string
  tl_writer :: bool
  tl_parent_error :: "string option"
  tl_file :: "ledger_file option"
  tl_reservations :: "(string \<times> string) list"

abbreviation transport_error :: "string \<Rightarrow> 'a res" where
  "transport_error m \<equiv> Inl (TransportReplayLedgerError m)"

definition max_reservations :: nat where
  "max_reservations = 8192"

definition bounded_identity :: "string \<Rightarrow> string \<Rightarrow> string res" where
  "bounded_identity label value =
     (if \<not> len_between 1 256 value then transport_error (''transport replay '' @ label @ '' is invalid'') else Inr value)"

definition ledger_digest :: "string \<Rightarrow> string res" where
  "ledger_digest value =
     (if \<not> is_hex_digest value then transport_error ''transport replay digest is invalid'' else Inr value)"

definition ledger_nonce :: "string \<Rightarrow> string res" where
  "ledger_nonce value =
     (if \<not> len_between 16 256 value then transport_error ''transport nonce length is invalid'' else Inr value)"

text \<open>The directory is inspected before every access; the field holds what is wrong with it, if anything.\<close>

definition check_parent :: "string option \<Rightarrow> unit res" where
  "check_parent parent_error = (case parent_error of None \<Rightarrow> Inr () | Some m \<Rightarrow> transport_error m)"

definition transport_read :: "transport_ledger \<Rightarrow> ledger_file res" where
  "transport_read lg =
     (if \<not> tl_writer lg then transport_error ''transport replay writer lock is closed''
      else bind_res (check_parent (tl_parent_error lg)) (\<lambda>_. case tl_file lg of
        None \<Rightarrow> transport_error ''transport replay ledger is missing or unavailable''
      | Some f \<Rightarrow>
          if \<not> lf_readable f then transport_error ''transport replay ledger is missing or unavailable''
          else if \<not> lf_regular f then transport_error ''transport replay ledger must be a regular non-symlink file''
          else if \<not> lf_mode_0600 f then transport_error ''transport replay ledger mode must be 0600''
          else if lf_size f > max_ledger_bytes then transport_error ''transport replay ledger exceeds its size limit''
          else Inr f))"

definition entry_json :: "string \<times> string \<Rightarrow> json" where
  "entry_json = (\<lambda>(nonce, digest). JObj [(''nonce'', JStr nonce), (''signed_request_sha256'', JStr digest)])"

definition transport_document :: "transport_ledger \<Rightarrow> (string \<times> string) list \<Rightarrow> json" where
  "transport_document lg reservations = JObj [
     (''audience'', JStr (tl_audience lg)),
     (''gateway_key_id'', JStr (tl_gateway_key_id lg)),
     (''gateway_public_key_sha256'', JStr (tl_gateway_public_key_sha256 lg)),
     (''reservations'', JArr (map entry_json (sort_key fst reservations))),
     (''schema_version'', JStr ''m4f-transport-replay-ledger-v1'')]"

text \<open>The loop over the entries, with the last nonce and the digests seen so far.\<close>

definition entry_string :: "string \<Rightarrow> (string \<Rightarrow> string res) \<Rightarrow> string \<Rightarrow> (string \<times> json) list \<Rightarrow> string res" where
  "entry_string key check message kvs =
     (case map_of kvs key of Some (JStr s) \<Rightarrow> check s | _ \<Rightarrow> transport_error message)"

fun load_entries :: "string option \<Rightarrow> string set \<Rightarrow> json list \<Rightarrow> (string \<times> string) list res" where
  "load_entries prior digests [] = Inr []"
| "load_entries prior digests (entry # rest) =
     (case entry of
        JObj kvs \<Rightarrow>
          if set (map fst kvs) \<noteq> {''nonce'', ''signed_request_sha256''}
          then transport_error ''transport replay ledger reservation shape is invalid''
          else bind_res (entry_string ''nonce'' ledger_nonce ''transport nonce length is invalid'' kvs) (\<lambda>nonce.
            bind_res (entry_string ''signed_request_sha256'' ledger_digest ''transport replay digest is invalid'' kvs) (\<lambda>digest.
              if prior \<noteq> None \<and> nonce \<le> the prior
              then transport_error ''transport replay ledger reservations are not sorted and unique''
              else if digest \<in> digests
              then transport_error ''transport replay ledger request digest is duplicated''
              else bind_res (load_entries (Some nonce) (insert digest digests) rest) (\<lambda>more.
                Inr ((nonce, digest) # more))))
      | _ \<Rightarrow> transport_error ''transport replay ledger reservation shape is invalid'')"

text \<open>The checks of the members other than the reservations.\<close>

definition transport_header :: "transport_ledger \<Rightarrow> (string \<times> json) list \<Rightarrow> unit res" where
  "transport_header lg kvs =
     (if set (map fst kvs) \<noteq> {''schema_version'', ''audience'', ''gateway_key_id'',
           ''gateway_public_key_sha256'', ''reservations''}
      then transport_error ''transport replay ledger has unexpected or missing fields''
      else if map_of kvs ''schema_version'' \<noteq> Some (JStr ''m4f-transport-replay-ledger-v1'')
      then transport_error ''transport replay ledger schema is unsupported''
      else if map_of kvs ''audience'' \<noteq> Some (JStr (tl_audience lg)) \<or>
              map_of kvs ''gateway_key_id'' \<noteq> Some (JStr (tl_gateway_key_id lg)) \<or>
              map_of kvs ''gateway_public_key_sha256'' \<noteq> Some (JStr (tl_gateway_public_key_sha256 lg))
      then transport_error ''transport replay ledger identity does not match configuration''
      else Inr ())"

definition transport_entries :: "(string \<times> json) list \<Rightarrow> (string \<times> string) list res" where
  "transport_entries kvs =
     (case map_of kvs ''reservations'' of
        Some (JArr entries) \<Rightarrow>
          if length entries > max_reservations
          then transport_error ''transport replay ledger reservation set is invalid''
          else load_entries None {} entries
      | _ \<Rightarrow> transport_error ''transport replay ledger reservation set is invalid'')"

definition transport_load :: "transport_ledger \<Rightarrow> (string \<times> string) list res" where
  "transport_load lg =
     bind_res (transport_read lg) (\<lambda>f.
       case lf_text f of
         None \<Rightarrow> transport_error ''transport replay ledger is not strict UTF-8 JSON''
       | Some (parsed, exact) \<Rightarrow>
           if \<not> closed_objects parsed then transport_error ''transport replay ledger has a duplicate key''
           else case parsed of
             JObj kvs \<Rightarrow>
               bind_res (transport_header lg kvs) (\<lambda>_.
               bind_res (transport_entries kvs) (\<lambda>reservations.
                 if \<not> (exact \<and> parsed = canonical (transport_document lg reservations))
                 then transport_error ''transport replay ledger encoding is not canonical''
                 else Inr reservations))
           | _ \<Rightarrow> transport_error ''transport replay ledger has unexpected or missing fields'')"

definition transport_persist :: "persist_fault \<Rightarrow> transport_ledger \<Rightarrow> unit res \<times> transport_ledger" where
  "transport_persist fault lg =
     (let document = transport_document lg (tl_reservations lg);
          replaced = lg\<lparr>tl_file := Some (written_file document)\<rparr>
      in if \<not> tl_writer lg then (transport_error ''transport replay writer lock is closed'', lg)
         else case check_parent (tl_parent_error lg) of
           Inl e \<Rightarrow> (Inl e, lg)
         | Inr _ \<Rightarrow>
         if length (tl_reservations lg) > max_reservations
         then (transport_error ''transport replay ledger is at capacity'', lg)
         else if dumps_length (canonical document) > max_ledger_bytes
         then (transport_error ''transport replay ledger is at capacity'', lg)
         else case fault of
           Persisted \<Rightarrow> (Inr (), replaced)
         | Failed_Before_Replace \<Rightarrow> (transport_error ''transport replay ledger update failed'', lg)
         | Failed_After_Replace \<Rightarrow> (transport_error ''transport replay ledger update failed'', replaced))"

definition transport_open ::
  "bool \<Rightarrow> bool \<Rightarrow> persist_fault \<Rightarrow> string \<Rightarrow> string \<Rightarrow> string \<Rightarrow> string option \<Rightarrow> ledger_file option \<Rightarrow>
   transport_ledger res \<times> ledger_file option" where
  "transport_open lock_free initialize fault audience key_id key_sha256 parent_error file =
     (case bind_res (bounded_identity ''audience'' audience) (\<lambda>a. bind_res (bounded_identity ''gateway key ID'' key_id) (\<lambda>k.
             bind_res (ledger_digest key_sha256) (\<lambda>d. Inr (a, k, d)))) of
        Inl e \<Rightarrow> (Inl e, file)
      | Inr (a, k, d) \<Rightarrow>
          if parent_error \<noteq> None then (transport_error (the parent_error), file)
          else if \<not> lock_free then (transport_error ''transport replay writer lock is already held or unavailable'', file)
          else let fresh = \<lparr>tl_audience = a, tl_gateway_key_id = k, tl_gateway_public_key_sha256 = d, tl_writer = True,
                            tl_parent_error = parent_error, tl_file = file, tl_reservations = []\<rparr> in
            if initialize \<and> file \<noteq> None
            then (transport_error ''transport replay ledger already exists; refusing to initialize'', file)
            else let (result, lg) = (if initialize then transport_persist fault fresh else (Inr (), fresh)) in
              (bind_res result (\<lambda>_. bind_res (transport_load lg) (\<lambda>rs. Inr (lg\<lparr>tl_reservations := rs\<rparr>))), tl_file lg))"

definition transport_contains :: "string \<Rightarrow> transport_ledger \<Rightarrow> bool res \<times> transport_ledger" where
  "transport_contains nonce lg =
     (case bind_res (ledger_nonce nonce) (\<lambda>n. bind_res (transport_load lg) (\<lambda>rs. Inr (n, rs))) of
        Inl e \<Rightarrow> (Inl e, lg)
      | Inr (n, rs) \<Rightarrow> (Inr (n \<in> set (map fst rs)), lg\<lparr>tl_reservations := rs\<rparr>))"

definition transport_reserve ::
  "persist_fault \<Rightarrow> string \<Rightarrow> string \<Rightarrow> transport_ledger \<Rightarrow> bool res \<times> transport_ledger" where
  "transport_reserve fault nonce signed_request_sha256 lg =
     (case bind_res (ledger_nonce nonce) (\<lambda>n. bind_res (ledger_digest signed_request_sha256) (\<lambda>d.
             bind_res (transport_load lg) (\<lambda>rs. Inr (n, d, rs)))) of
        Inl e \<Rightarrow> (Inl e, lg)
      | Inr (n, d, rs) \<Rightarrow>
          let loaded = lg\<lparr>tl_reservations := rs\<rparr> in
          if n \<in> set (map fst rs) then (Inr False, loaded)
          else if d \<in> set (map snd rs) then (Inr False, loaded)
          else case transport_persist fault (loaded\<lparr>tl_reservations := rs @ [(n, d)]\<rparr>) of
            (Inr _, lg') \<Rightarrow> (Inr True, lg')
          | (Inl e, lg') \<Rightarrow> (Inl e, lg'\<lparr>tl_reservations := rs\<rparr>))"

definition transport_status :: "runtime \<Rightarrow> transport_ledger \<Rightarrow> (nat \<times> string) res \<times> transport_ledger" where
  "transport_status rt lg =
     (case transport_load lg of
        Inl e \<Rightarrow> (Inl e, lg)
      | Inr rs \<Rightarrow> (Inr (length rs, canonical_digest rt (transport_document lg rs)), lg\<lparr>tl_reservations := rs\<rparr>))"

definition transport_close :: "transport_ledger \<Rightarrow> transport_ledger" where
  "transport_close lg = lg\<lparr>tl_writer := False\<rparr>"

section \<open>What a written ledger loads as\<close>

lemma canonical_strings: "canonical (JArr (map JStr xs)) = JArr (map JStr xs)"
  by simp

lemma semantic_keys_sorted: "sorted [''command_ids'', ''permit_ids'', ''permit_nonces'', ''request_digests'']"
  by code_simp

lemma semantic_document_canonical: "canonical (semantic_document rv) = semantic_document rv"
proof -
  have "sort_key fst kvs = kvs" if "map fst kvs = [''command_ids'', ''permit_ids'', ''permit_nonces'', ''request_digests'']"
    for kvs :: "(string \<times> json) list"
    using semantic_keys_sorted by (intro sort_key_id_if_sorted) (simp only: that)
  then show ?thesis by (simp add: semantic_document_def sorted_strings_def)
qed

definition reservations_finite :: "reservation_sets \<Rightarrow> bool" where
  "reservations_finite rv \<longleftrightarrow> finite (rv_request_digests rv) \<and> finite (rv_permit_ids rv) \<and>
     finite (rv_permit_nonces rv) \<and> finite (rv_command_ids rv)"

lemma string_values_strings: "string_values (map JStr xs) = (if [] \<in> set xs then None else Some xs)"
  by (auto simp: string_values_def list_all_iff comp_def)

lemma reservation_set_strings:
  "finite S \<Longrightarrow> reservation_set (Some (sorted_strings S)) = Inr S \<or> (\<exists>e. reservation_set (Some (sorted_strings S)) = Inl e)"
  "finite S \<Longrightarrow> [] \<notin> S \<Longrightarrow> reservation_set (Some (sorted_strings S)) = Inr S"
  by (auto simp: reservation_set_def sorted_strings_def string_values_strings)

lemma reservation_set_finite: "reservation_set j = Inr S \<Longrightarrow> finite S"
  by (auto simp: reservation_set_def split: option.splits json.splits if_splits)

lemma semantic_load_finite:
  assumes "semantic_load sl = Inr rv"
  shows "reservations_finite rv"
proof -
  from assms obtain j1 j2 j3 j4 where "reservation_set j1 = Inr (rv_request_digests rv)" "reservation_set j2 = Inr (rv_permit_ids rv)"
    "reservation_set j3 = Inr (rv_permit_nonces rv)" "reservation_set j4 = Inr (rv_command_ids rv)"
    by (auto simp: semantic_load_def res_simps split: if_splits option.splits json.splits)
  then show ?thesis by (simp add: reservations_finite_def reservation_set_finite)
qed

lemma add_reservation_finite [simp]: "reservations_finite (add_reservation k rv) \<longleftrightarrow> reservations_finite rv"
  by (simp add: reservations_finite_def add_reservation_def)

definition no_empty_key :: "reservation_sets \<Rightarrow> bool" where
  "no_empty_key rv \<longleftrightarrow> [] \<notin> rv_request_digests rv \<union> rv_permit_ids rv \<union> rv_permit_nonces rv \<union> rv_command_ids rv"

lemma semantic_written:
  assumes "sl_writer sl" "sl_file sl = Some (written_file (semantic_document rv))" "reservations_finite rv"
  shows "semantic_load sl = Inr rv \<or> (\<exists>e. semantic_load sl = Inl e)"
    "dumps_length (semantic_document rv) \<le> max_ledger_bytes \<Longrightarrow> no_empty_key rv \<Longrightarrow> semantic_load sl = Inr rv"
proof -
  let ?kvs = "[(''command_ids'', sorted_strings (rv_command_ids rv)), (''permit_ids'', sorted_strings (rv_permit_ids rv)),
     (''permit_nonces'', sorted_strings (rv_permit_nonces rv)), (''request_digests'', sorted_strings (rv_request_digests rv))]"
  have fields: "set (map fst ?kvs) = set reservation_fields" by (auto simp: reservation_fields_def)
  have closed: "closed_objects (semantic_document rv)"
    by (simp add: semantic_document_def sorted_strings_def list_all_iff)
  have load: "semantic_load sl =
      (if dumps_length (semantic_document rv) > max_ledger_bytes then Inl (ValueError ''PLC replay ledger exceeds its size limit'')
       else bind_res (reservation_set (Some (sorted_strings (rv_request_digests rv)))) (\<lambda>a.
            bind_res (reservation_set (Some (sorted_strings (rv_permit_ids rv)))) (\<lambda>b.
            bind_res (reservation_set (Some (sorted_strings (rv_permit_nonces rv)))) (\<lambda>c.
            bind_res (reservation_set (Some (sorted_strings (rv_command_ids rv)))) (\<lambda>d.
              Inr \<lparr>rv_request_digests = a, rv_permit_ids = b, rv_permit_nonces = c, rv_command_ids = d\<rparr>)))))"
    using assms(1,2) closed fields
    by (simp add: semantic_load_def written_file_def semantic_document_canonical) (simp add: semantic_document_def)
  have fin: "finite (rv_request_digests rv)" "finite (rv_permit_ids rv)" "finite (rv_permit_nonces rv)" "finite (rv_command_ids rv)"
    using assms(3) by (simp_all add: reservations_finite_def)
  show "semantic_load sl = Inr rv \<or> (\<exists>e. semantic_load sl = Inl e)"
    unfolding load using fin [THEN reservation_set_strings(1)] by auto
  show "semantic_load sl = Inr rv" if "dumps_length (semantic_document rv) \<le> max_ledger_bytes" "no_empty_key rv"
    unfolding load using that fin [THEN reservation_set_strings(2)] by (simp add: no_empty_key_def)
qed

section \<open>The virtual PLC's ledger accepts once\<close>

text \<open>
  The life of a ledger: reservations and queries, each with a fault of the update or without one, and
  restarts that close the ledger and open the same file again, with or without initialisation.
\<close>

datatype semantic_call =
    Reserve persist_fault reservation_key
  | Query reservation_key
  | Reopen bool bool persist_fault

definition closed_ledger :: "ledger_file option \<Rightarrow> semantic_ledger" where
  "closed_ledger file = \<lparr>sl_writer = False, sl_file = file, sl_state = empty_reservations\<rparr>"

fun semantic_step :: "semantic_call \<Rightarrow> semantic_ledger \<Rightarrow> bool \<times> semantic_ledger" where
  "semantic_step (Reserve fault k) sl = (case semantic_reserve fault k sl of (r, sl') \<Rightarrow> (r = Inr (), sl'))"
| "semantic_step (Query k) sl = (False, snd (replay_reason k sl))"
| "semantic_step (Reopen lock_free initialize fault) sl =
     (case semantic_open lock_free initialize fault (sl_file (semantic_close sl)) of
        (Inr sl', file) \<Rightarrow> (False, sl')
      | (Inl e, file) \<Rightarrow> (False, closed_ledger file))"

fun call_key :: "semantic_call \<Rightarrow> reservation_key option" where
  "call_key (Reserve fault k) = Some k"
| "call_key _ = None"

text \<open>What the file holds, whoever opens it; a file that cannot be loaded holds everything.\<close>

definition durable :: "(reservation_sets \<Rightarrow> string set) \<Rightarrow> ledger_file option \<Rightarrow> string set" where
  "durable f file =
     (case file of None \<Rightarrow> {}
      | Some _ \<Rightarrow> (case semantic_load \<lparr>sl_writer = True, sl_file = file, sl_state = empty_reservations\<rparr> of
          Inr rv \<Rightarrow> f rv | Inl _ \<Rightarrow> UNIV))"

lemma semantic_load_state: "sl_writer sl \<Longrightarrow> semantic_load sl = semantic_load \<lparr>sl_writer = True, sl_file = sl_file sl, sl_state = s\<rparr>"
  by (simp add: semantic_load_def)

lemma semantic_load_durable:
  assumes "semantic_load sl = Inr rv"
  shows "durable f (sl_file sl) = f rv" "sl_writer sl" "sl_file sl \<noteq> None"
proof -
  show w: "sl_writer sl" and "sl_file sl \<noteq> None" using assms by (auto simp: semantic_load_def split: if_splits option.splits)
  then show "durable f (sl_file sl) = f rv"
    using assms semantic_load_state [of sl empty_reservations] by (auto simp: durable_def)
qed

lemma durable_written:
  "reservations_finite rv \<Longrightarrow> f rv \<subseteq> durable f (Some (written_file (semantic_document rv)))"
  using semantic_written(1) [of "\<lparr>sl_writer = True, sl_file = Some (written_file (semantic_document rv)),
      sl_state = empty_reservations\<rparr>" rv]
  by (auto simp: durable_def)

lemma semantic_reserve_durable:
  assumes call: "semantic_reserve fault k sl = (r, sl')" and mono: "\<And>rv. f rv \<subseteq> f (add_reservation k rv)"
  shows "durable f (sl_file sl) \<subseteq> durable f (sl_file sl')"
    "r = Inr () \<Longrightarrow> \<exists>rv. semantic_load sl = Inr rv \<and> replay_reason_in rv k = None \<and>
       f (add_reservation k rv) \<subseteq> durable f (sl_file sl')"
proof -
  consider (unloaded) e where "semantic_load sl = Inl e" "r = Inl e" "sl' = sl"
    | (replayed) rv reason where "semantic_load sl = Inr rv" "r = Inl (ValueError reason)" "sl' = sl\<lparr>sl_state := rv\<rparr>"
    | (new) rv where "semantic_load sl = Inr rv" "replay_reason_in rv k = None"
        "semantic_persist fault (sl\<lparr>sl_state := add_reservation k rv\<rparr>) = (r, sl')"
    using call by (auto simp: semantic_reserve_def split: sum.splits option.splits)
  then have "durable f (sl_file sl) \<subseteq> durable f (sl_file sl') \<and> (r = Inr () \<longrightarrow>
      (\<exists>rv. semantic_load sl = Inr rv \<and> replay_reason_in rv k = None \<and> f (add_reservation k rv) \<subseteq> durable f (sl_file sl')))"
  proof cases
    case new
    note old = semantic_load_durable(1,2) [OF new(1)]
    have "f (add_reservation k rv) \<subseteq> durable f (Some (written_file (semantic_document (add_reservation k rv))))"
      using semantic_load_finite [OF new(1)] by (intro durable_written) simp
    then show ?thesis
      using new mono [of rv] old by (cases fault) (auto simp: semantic_persist_def)
  qed auto
  then show "durable f (sl_file sl) \<subseteq> durable f (sl_file sl')"
    "r = Inr () \<Longrightarrow> \<exists>rv. semantic_load sl = Inr rv \<and> replay_reason_in rv k = None \<and>
       f (add_reservation k rv) \<subseteq> durable f (sl_file sl')" by blast+
qed

lemma reopen_durable: "durable f file \<subseteq> durable f (snd (semantic_open lock_free initialize fault file))"
proof (cases "file = None")
  case False
  then have "snd (semantic_open lock_free initialize fault file) = file" by (simp add: semantic_open_def Let_def case_prod_beta)
  then show ?thesis by simp
qed (simp add: durable_def)

lemma semantic_open_file: "semantic_open lock_free initialize fault file = (Inr sl', file') \<Longrightarrow> sl_file sl' = file'"
  by (auto simp: semantic_open_def Let_def case_prod_beta semantic_persist_def res_simps split: if_splits)

lemma semantic_step_durable:
  assumes step: "semantic_step call sl = (ok, sl')" and mono: "\<And>k rv. f rv \<subseteq> f (add_reservation k rv)"
  shows "durable f (sl_file sl) \<subseteq> durable f (sl_file sl')"
proof (cases call)
  case (Reserve fault k)
  then show ?thesis using step semantic_reserve_durable(1) [of fault k sl _ sl' f] mono by (auto split: prod.splits)
next
  case (Query k)
  then show ?thesis using step by (auto simp: replay_reason_def split: sum.splits)
next
  case (Reopen lock_free initialize fault)
  then show ?thesis
    using step reopen_durable [of f "sl_file sl" lock_free initialize fault]
    by (auto simp: semantic_close_def closed_ledger_def dest: semantic_open_file split: prod.splits sum.splits)
qed

text \<open>One reservation field of an accepted call, or nothing for the other calls.\<close>

definition field_key :: "(reservation_key \<Rightarrow> string) \<Rightarrow> semantic_call \<Rightarrow> string" where
  "field_key g call = (case call_key call of Some k \<Rightarrow> g k | None \<Rightarrow> [])"

lemma semantic_field_once:
  assumes mono: "\<And>k rv. f (add_reservation k rv) = insert (g k) (f rv)"
    and fresh: "\<And>k rv. replay_reason_in rv k = None \<Longrightarrow> g k \<notin> f rv"
  shows "once_only semantic_step (\<lambda>ok. ok) (field_key g) (\<lambda>sl. durable f (sl_file sl))"
proof
  fix call sl ok sl' assume step: "semantic_step call sl = (ok, sl')"
  show "durable f (sl_file sl) \<subseteq> durable f (sl_file sl')"
    by (rule semantic_step_durable [OF step]) (auto simp: mono)
  assume ok: "ok"
  then obtain fault k where call: "call = Reserve fault k" "semantic_reserve fault k sl = (Inr (), sl')"
    using step by (cases call) (auto split: prod.splits sum.splits)
  from semantic_reserve_durable(2) [OF call(2), of f] obtain rv where
    rv: "semantic_load sl = Inr rv" "replay_reason_in rv k = None" "f (add_reservation k rv) \<subseteq> durable f (sl_file sl')"
    by (auto simp: mono)
  show "field_key g call \<notin> durable f (sl_file sl)"
    using fresh [OF rv(2)] semantic_load_durable(1) [OF rv(1), of f] by (simp add: field_key_def call)
  show "field_key g call \<in> durable f (sl_file sl')" using rv(3) by (simp add: field_key_def call mono)
qed

lemma replay_reason_in_None:
  "replay_reason_in rv k = None \<longleftrightarrow> rk_request_digest k \<notin> rv_request_digests rv \<and> rk_permit_id k \<notin> rv_permit_ids rv \<and>
     rk_permit_nonce k \<notin> rv_permit_nonces rv \<and> rk_command_id k \<notin> rv_command_ids rv"
  by (simp add: replay_reason_in_def)

interpretation request_once: once_only semantic_step "\<lambda>ok. ok" "field_key rk_request_digest"
    "\<lambda>sl. durable rv_request_digests (sl_file sl)"
  by (rule semantic_field_once) (simp_all add: add_reservation_def replay_reason_in_None)

interpretation plc_permit_once: once_only semantic_step "\<lambda>ok. ok" "field_key rk_permit_id"
    "\<lambda>sl. durable rv_permit_ids (sl_file sl)"
  by (rule semantic_field_once) (simp_all add: add_reservation_def replay_reason_in_None)

interpretation plc_nonce_once: once_only semantic_step "\<lambda>ok. ok" "field_key rk_permit_nonce"
    "\<lambda>sl. durable rv_permit_nonces (sl_file sl)"
  by (rule semantic_field_once) (simp_all add: add_reservation_def replay_reason_in_None)

interpretation plc_command_once: once_only semantic_step "\<lambda>ok. ok" "field_key rk_command_id"
    "\<lambda>sl. durable rv_command_ids (sl_file sl)"
  by (rule semantic_field_once) (simp_all add: add_reservation_def replay_reason_in_None)

section \<open>The transport ledger\<close>

definition valid_reservations :: "(string \<times> string) list \<Rightarrow> bool" where
  "valid_reservations rs \<longleftrightarrow> distinct (map fst rs) \<and> distinct (map snd rs) \<and>
     (\<forall>(n, d) \<in> set rs. len_between 16 256 n \<and> is_hex_digest d)"

lemma entry_string_simps [simp]:
  "entry_string ''nonce'' check m [(''nonce'', JStr n), (''signed_request_sha256'', JStr d)] = check n"
  "entry_string ''signed_request_sha256'' check m [(''nonce'', JStr n), (''signed_request_sha256'', JStr d)] = check d"
  by (simp_all add: entry_string_def)

lemma load_entries_written:
  "sorted_wrt (<) (map fst rs) \<Longrightarrow> distinct (map snd rs) \<Longrightarrow> (\<forall>(n, d) \<in> set rs. len_between 16 256 n \<and> is_hex_digest d) \<Longrightarrow>
   (\<forall>p. prior = Some p \<longrightarrow> (\<forall>n \<in> set (map fst rs). p < n)) \<Longrightarrow> set (map snd rs) \<inter> D = {} \<Longrightarrow>
   load_entries prior D (map entry_json rs) = Inr rs"
proof (induction rs arbitrary: prior D)
  case (Cons r rs)
  obtain n d where r: "r = (n, d)" by (cases r)
  have "load_entries (Some n) (insert d D) (map entry_json rs) = Inr rs"
    using Cons.prems by (intro Cons.IH) (auto simp: r)
  moreover have "\<not> (prior \<noteq> None \<and> n \<le> the prior)" using Cons.prems(4) by (auto simp: r)
  ultimately show ?case
    using Cons.prems by (simp add: r entry_json_def ledger_nonce_def ledger_digest_def insert_commute)
qed simp

lemma load_entries_sound:
  "load_entries prior D js = Inr rs \<Longrightarrow>
   sorted_wrt (<) (map fst rs) \<and> distinct (map snd rs) \<and> (\<forall>(n, d) \<in> set rs. len_between 16 256 n \<and> is_hex_digest d) \<and>
   (\<forall>p. prior = Some p \<longrightarrow> (\<forall>n \<in> set (map fst rs). p < n)) \<and> set (map snd rs) \<inter> D = {} \<and> length rs = length js"
proof (induction js arbitrary: prior D rs)
  case (Cons j js)
  from Cons.prems obtain n d more where parts: "rs = (n, d) # more" "len_between 16 256 n" "is_hex_digest d"
      "\<not> (prior \<noteq> None \<and> n \<le> the prior)" "d \<notin> D" and rest: "load_entries (Some n) (insert d D) js = Inr more"
    by (auto simp: res_simps ledger_nonce_def ledger_digest_def entry_string_def
        split: json.splits if_splits option.splits)
  from Cons.IH [OF rest] parts show ?case by (auto simp: not_le intro: less_trans)
qed simp

lemma sorted_wrt_distinct: "sorted_wrt (<) (xs :: 'a :: linorder list) \<longleftrightarrow> sorted xs \<and> distinct xs"
  by (rule strict_sorted_iff)

lemma transport_loadD:
  assumes "transport_load lg = Inr rs"
  shows "valid_reservations rs" "sorted (map fst rs)" "length rs \<le> max_reservations" "tl_writer lg" "tl_parent_error lg = None"
    "tl_file lg \<noteq> None"
proof -
  from assms obtain f where read: "transport_read lg = Inr f" by (auto simp: transport_load_def res_simps)
  with assms obtain kvs where "transport_entries kvs = Inr rs"
    by (auto simp: transport_load_def res_simps split: option.splits json.splits if_splits)
  then obtain js where js: "load_entries None {} js = Inr rs" "length js \<le> max_reservations"
    by (auto simp: transport_entries_def split: option.splits json.splits if_splits)
  from load_entries_sound [OF js(1)] js(2)
  show "valid_reservations rs" "sorted (map fst rs)" "length rs \<le> max_reservations"
    by (auto simp: valid_reservations_def sorted_wrt_distinct)
  show "tl_writer lg" "tl_parent_error lg = None" "tl_file lg \<noteq> None"
    using read by (auto simp: transport_read_def check_parent_def res_simps split: if_splits option.splits)
qed

lemma transport_keys_sorted:
  "sorted [''audience'', ''gateway_key_id'', ''gateway_public_key_sha256'', ''reservations'', ''schema_version'']"
  "sorted [''nonce'', ''signed_request_sha256'']"
  by code_simp+

lemma entry_json_canonical: "canonical (entry_json r) = entry_json r"
proof -
  have "sort_key fst kvs = kvs" if "map fst kvs = [''nonce'', ''signed_request_sha256'']" for kvs :: "(string \<times> json) list"
    using transport_keys_sorted(2) by (intro sort_key_id_if_sorted) (simp only: that)
  then show ?thesis by (cases r) (simp add: entry_json_def)
qed

lemma transport_document_canonical: "canonical (transport_document lg rs) = transport_document lg rs"
proof -
  have "sort_key fst kvs = kvs" if "map fst kvs = [''audience'', ''gateway_key_id'', ''gateway_public_key_sha256'',
      ''reservations'', ''schema_version'']" for kvs :: "(string \<times> json) list"
    using transport_keys_sorted(1) by (intro sort_key_id_if_sorted) (simp only: that)
  then show ?thesis by (simp add: transport_document_def entry_json_canonical comp_def)
qed

lemma transport_written:
  assumes lg: "tl_writer lg" "tl_parent_error lg = None" "tl_file lg = Some (written_file (transport_document lg rs))"
    and rs: "valid_reservations rs" "length rs \<le> max_reservations"
    and size: "dumps_length (transport_document lg rs) \<le> max_ledger_bytes"
  shows "transport_load lg = Inr (sort_key fst rs)"
proof -
  let ?rs = "sort_key fst rs"
  have same: "transport_document lg ?rs = transport_document lg rs" by (simp add: transport_document_def sort_key_id_if_sorted)
  have perm: "mset ?rs = mset rs" by simp
  have dist: "distinct (map fst ?rs)" "distinct (map snd ?rs)" "set ?rs = set rs"
    using rs(1) perm by (auto simp: valid_reservations_def dest: mset_eq_setD)
      (metis mset_map mset_eq_imp_distinct_iff perm)+
  have "load_entries None {} (map entry_json ?rs) = Inr ?rs"
    using rs(1) dist by (intro load_entries_written) (auto simp: valid_reservations_def sorted_wrt_distinct)
  moreover obtain kvs where kvs: "transport_document lg rs = JObj kvs" "transport_header lg kvs = Inr ()"
      "map_of kvs ''reservations'' = Some (JArr (map entry_json ?rs))"
    by (rule that) (auto simp: transport_document_def transport_header_def)
  ultimately have "transport_entries kvs = Inr ?rs" using rs(2) by (simp add: transport_entries_def)
  moreover have "closed_objects (JObj kvs)"
    unfolding kvs(1) [symmetric] by (auto simp: transport_document_def entry_json_def list_all_iff)
  moreover have "lf_text (written_file (transport_document lg rs)) = Some (JObj kvs, True)"
    unfolding written_file_def transport_document_canonical by (simp add: kvs(1))
  moreover have "transport_read lg = Inr (written_file (transport_document lg rs))"
    using lg size
    by (simp add: transport_read_def check_parent_def written_file_def transport_document_canonical)
  moreover have canon: "canonical (transport_document lg ?rs) = JObj kvs"
    unfolding transport_document_canonical same by (rule kvs(1))
  ultimately show ?thesis using kvs(2) unfolding transport_load_def by (simp add: canon del: closed_objects.simps canonical.simps)
qed

text \<open>
  The nonces and the request digests that the file holds for this configuration; a file that cannot be
  loaded holds everything, and no file holds nothing.
\<close>

definition opened :: "transport_ledger \<Rightarrow> transport_ledger" where
  "opened lg = lg\<lparr>tl_writer := True, tl_parent_error := None\<rparr>"

definition durable_entries :: "(string \<times> string \<Rightarrow> string) \<Rightarrow> transport_ledger \<Rightarrow> string set" where
  "durable_entries g lg =
     (if tl_file lg = None then {}
      else case transport_load (opened lg) of Inr rs \<Rightarrow> set (map g rs) | Inl _ \<Rightarrow> UNIV)"

lemma transport_load_opened: "transport_load lg = Inr rs \<Longrightarrow> transport_load (opened lg) = Inr rs"
  using transport_loadD(4,5) [of lg rs] by (cases lg) (simp add: opened_def)

lemma transport_load_durable: "transport_load lg = Inr rs \<Longrightarrow> durable_entries g lg = set (map g rs)"
  using transport_load_opened [of lg rs] transport_loadD(6) [of lg rs] by (auto simp: durable_entries_def)

lemma transport_document_cong:
  "tl_audience lg' = tl_audience lg \<Longrightarrow> tl_gateway_key_id lg' = tl_gateway_key_id lg \<Longrightarrow>
   tl_gateway_public_key_sha256 lg' = tl_gateway_public_key_sha256 lg \<Longrightarrow> transport_document lg' rs = transport_document lg rs"
  by (simp add: transport_document_def)

lemma transport_reservations_only:
  "transport_read (lg\<lparr>tl_reservations := rs\<rparr>) = transport_read lg"
  "transport_header (lg\<lparr>tl_reservations := rs\<rparr>) kvs = transport_header lg kvs"
  "transport_document (lg\<lparr>tl_reservations := rs\<rparr>) qs = transport_document lg qs"
  "opened (lg\<lparr>tl_reservations := rs\<rparr>) = (opened lg)\<lparr>tl_reservations := rs\<rparr>"
  by (simp_all add: transport_read_def transport_header_def transport_document_def opened_def)

lemma transport_load_reservations [simp]: "transport_load (lg\<lparr>tl_reservations := rs\<rparr>) = transport_load lg"
  unfolding transport_load_def transport_reservations_only ..

lemma durable_entries_reservations [simp]: "durable_entries g (lg\<lparr>tl_reservations := rs\<rparr>) = durable_entries g lg"
  by (simp add: durable_entries_def transport_reservations_only)

text \<open>A replacement of the file loads as the reservations it was written from.\<close>

lemma transport_persist_cases:
  assumes call: "transport_persist fault lg = (r, lg')" and rs: "valid_reservations (tl_reservations lg)"
  shows "lg' = lg \<and> r \<noteq> Inr () \<or> transport_load lg' = Inr (sort_key fst (tl_reservations lg))"
proof -
  define doc where "doc = transport_document lg (tl_reservations lg)"
  have doc: "canonical doc = doc" by (simp add: doc_def transport_document_canonical)
  consider "lg' = lg" "r \<noteq> Inr ()" | "tl_writer lg" "tl_parent_error lg = None" "length (tl_reservations lg) \<le> max_reservations"
    "dumps_length doc \<le> max_ledger_bytes" "lg' = lg\<lparr>tl_file := Some (written_file doc)\<rparr>"
    using call
    by (auto simp: transport_persist_def Let_def check_parent_def doc_def [symmetric] doc
        split: if_splits option.splits persist_fault.splits)
  then show ?thesis
  proof cases
    case 2
    have "transport_load lg' = Inr (sort_key fst (tl_reservations lg))"
      by (rule transport_written)
        (use 2 rs in \<open>simp_all add: doc_def transport_document_cong [of "lg\<lparr>tl_file := f\<rparr>" lg for f]\<close>)
    then show ?thesis by simp
  qed simp
qed

text \<open>The life of a transport ledger.\<close>

datatype transport_call =
    Transport_Reserve persist_fault string string
  | Transport_Query string
  | Transport_Reopen bool bool persist_fault "string option"

fun transport_step :: "transport_call \<Rightarrow> transport_ledger \<Rightarrow> bool \<times> transport_ledger" where
  "transport_step (Transport_Reserve fault nonce digest) lg =
     (case transport_reserve fault nonce digest lg of (r, lg') \<Rightarrow> (r = Inr True, lg'))"
| "transport_step (Transport_Query nonce) lg = (False, snd (transport_contains nonce lg))"
| "transport_step (Transport_Reopen lock_free initialize fault parent_error) lg =
     (case transport_open lock_free initialize fault (tl_audience lg) (tl_gateway_key_id lg)
             (tl_gateway_public_key_sha256 lg) parent_error (tl_file (transport_close lg)) of
        (Inr lg', file) \<Rightarrow> (False, lg')
      | (Inl e, file) \<Rightarrow> (False, transport_close (lg\<lparr>tl_file := file\<rparr>)))"

fun transport_nonce :: "transport_call \<Rightarrow> string" where
  "transport_nonce (Transport_Reserve _ nonce _) = nonce"
| "transport_nonce _ = []"

fun transport_digest :: "transport_call \<Rightarrow> string" where
  "transport_digest (Transport_Reserve _ _ digest) = digest"
| "transport_digest _ = []"

lemma transport_reserve_cases:
  assumes call: "transport_reserve fault nonce digest lg = (r, lg')"
  obtains (kept) q where "lg' = lg\<lparr>tl_reservations := q\<rparr>" "r \<noteq> Inr True"
      "\<And>rs. r = Inr False \<Longrightarrow> transport_load lg = Inr rs \<Longrightarrow> nonce \<in> set (map fst rs) \<or> digest \<in> set (map snd rs)"
  | (added) rs where "transport_load lg = Inr rs" "nonce \<notin> set (map fst rs)" "digest \<notin> set (map snd rs)"
      "transport_load lg' = Inr (sort_key fst (rs @ [(nonce, digest)]))" "r \<noteq> Inr False"
proof -
  let ?args = "bind_res (ledger_nonce nonce) (\<lambda>n. bind_res (ledger_digest digest) (\<lambda>d.
    bind_res (transport_load lg) (\<lambda>rs. Inr (n, d, rs))))"
  consider e where "r = Inl e" "lg' = lg"
    | rs where "transport_load lg = Inr rs" "r = Inr False" "lg' = lg\<lparr>tl_reservations := rs\<rparr>"
        "nonce \<in> set (map fst rs) \<or> digest \<in> set (map snd rs)"
    | rs q lg1 where "transport_load lg = Inr rs" "len_between 16 256 nonce" "is_hex_digest digest"
        "nonce \<notin> set (map fst rs)" "digest \<notin> set (map snd rs)"
        "transport_persist fault (lg\<lparr>tl_reservations := rs @ [(nonce, digest)]\<rparr>) = (q, lg1)"
        "r = (case q of Inr _ \<Rightarrow> Inr True | Inl e \<Rightarrow> Inl e)" "lg' = (case q of Inr _ \<Rightarrow> lg1 | Inl e \<Rightarrow> lg1\<lparr>tl_reservations := rs\<rparr>)"
  proof (cases ?args)
    case (Inl e)
    then show thesis using call that(1) [of e] by (auto simp: transport_reserve_def)
  next
    case (Inr t)
    then obtain rs where t: "t = (nonce, digest, rs)" "transport_load lg = Inr rs" "len_between 16 256 nonce" "is_hex_digest digest"
      by (auto simp: res_simps ledger_nonce_def ledger_digest_def split: if_splits)
    obtain q lg1 where q: "transport_persist fault (lg\<lparr>tl_reservations := rs @ [(nonce, digest)]\<rparr>) = (q, lg1)" by fastforce
    note step = call [unfolded transport_reserve_def Inr t(1)]
    show thesis
    proof (cases "nonce \<in> set (map fst rs) \<or> digest \<in> set (map snd rs)")
      case True
      then show thesis using step that(2) [OF t(2)] by (auto simp: Let_def split: if_splits)
    next
      case False
      then show thesis using step that(3) [OF t(2-4) _ _ q] q by (cases q) simp_all
    qed
  qed
  then show thesis
  proof cases
    case 1
    then show thesis using kept [of "tl_reservations lg"] by simp
  next
    case 2
    then show thesis using kept [of rs] by simp
  next
    case (3 rs q lg1)
    have "valid_reservations (rs @ [(nonce, digest)])"
      using transport_loadD(1) [OF 3(1)] 3(2-5) by (auto simp: valid_reservations_def)
    with transport_persist_cases [OF 3(6)] have
      "lg1 = lg\<lparr>tl_reservations := rs @ [(nonce, digest)]\<rparr> \<and> q \<noteq> Inr () \<or>
       transport_load lg1 = Inr (sort_key fst (rs @ [(nonce, digest)]))" by simp
    then consider "lg1 = lg\<lparr>tl_reservations := rs @ [(nonce, digest)]\<rparr>" "q \<noteq> Inr ()"
      | "transport_load lg1 = Inr (sort_key fst (rs @ [(nonce, digest)]))" by blast
    then show thesis
    proof cases
      case 1
      then obtain e where "q = Inl e" by (cases q) simp_all
      then show thesis using kept [of rs] 3(7,8) 1(1) by simp
    next
      case 2
      then show thesis using added [OF 3(1,4,5)] 3(7,8) by (cases q) simp_all
    qed
  qed
qed

lemma transport_open_result:
  assumes "transport_open lock_free initialize fault a k d pe file = (result, file')"
  shows "file \<noteq> None \<Longrightarrow> file' = file"
    "result = Inr lg' \<Longrightarrow> tl_file lg' = file' \<and> tl_audience lg' = a \<and> tl_gateway_key_id lg' = k \<and>
       tl_gateway_public_key_sha256 lg' = d"
proof -
  have persist: "transport_persist fault lg = (r, lg1) \<Longrightarrow> tl_audience lg1 = tl_audience lg \<and>
      tl_gateway_key_id lg1 = tl_gateway_key_id lg \<and> tl_gateway_public_key_sha256 lg1 = tl_gateway_public_key_sha256 lg" for lg r lg1
    by (auto simp: transport_persist_def Let_def split: if_splits sum.splits persist_fault.splits)
  show "file \<noteq> None \<Longrightarrow> file' = file"
    using assms by (auto simp: transport_open_def Let_def case_prod_beta split: sum.splits if_splits)
  show "result = Inr lg' \<Longrightarrow> tl_file lg' = file' \<and> tl_audience lg' = a \<and> tl_gateway_key_id lg' = k \<and>
       tl_gateway_public_key_sha256 lg' = d"
    using assms persist
    by (auto simp: transport_open_def Let_def bounded_identity_def ledger_digest_def res_simps
        split: sum.splits if_splits prod.splits)
qed

lemma transport_load_config:
  assumes "tl_file l1 = tl_file l2" "tl_audience l1 = tl_audience l2" "tl_gateway_key_id l1 = tl_gateway_key_id l2"
    "tl_gateway_public_key_sha256 l1 = tl_gateway_public_key_sha256 l2"
  shows "durable_entries g l1 = durable_entries g l2"
proof -
  have "opened l1 = (opened l2)\<lparr>tl_reservations := tl_reservations l1\<rparr>"
    using assms by (cases l1; cases l2) (simp add: opened_def)
  then show ?thesis using assms(1) by (simp add: durable_entries_def)
qed

lemma transport_reopen_durable:
  assumes "transport_step (Transport_Reopen lock_free initialize fault pe) lg = (ok, lg')" "tl_file lg \<noteq> None"
  shows "durable_entries g lg' = durable_entries g lg"
proof -
  obtain result found where oc: "transport_open lock_free initialize fault (tl_audience lg) (tl_gateway_key_id lg)
      (tl_gateway_public_key_sha256 lg) pe (tl_file lg) = (result, found)" by fastforce
  note R = transport_open_result [OF oc]
  have found: "found = tl_file lg" using R(1) assms(2) by simp
  show ?thesis
  proof (cases result)
    case (Inl e)
    then have "lg' = transport_close (lg\<lparr>tl_file := found\<rparr>)" using assms(1) oc by (simp add: transport_close_def)
    then show ?thesis by (intro transport_load_config) (simp_all add: transport_close_def found)
  next
    case (Inr l)
    then have "lg' = l" using assms(1) oc by (simp add: transport_close_def)
    then show ?thesis using R(2) [OF Inr] found by (intro transport_load_config) simp_all
  qed
qed

lemma transport_step_durable:
  assumes step: "transport_step call lg = (ok, lg')"
  shows "durable_entries g lg' = durable_entries g lg \<and> \<not> ok \<or> tl_file lg = None \<and> \<not> ok \<or>
    (\<exists>fault nonce digest rs. call = Transport_Reserve fault nonce digest \<and> transport_load lg = Inr rs \<and>
       nonce \<notin> set (map fst rs) \<and> digest \<notin> set (map snd rs) \<and>
       durable_entries g lg' = set (map g (rs @ [(nonce, digest)])))"
proof (cases call)
  case (Transport_Reserve fault nonce digest)
  obtain r where r: "transport_reserve fault nonce digest lg = (r, lg')" "ok = (r = Inr True)"
    using step Transport_Reserve by (auto split: prod.splits)
  from r(1) show ?thesis
  proof (cases rule: transport_reserve_cases)
    case (kept q)
    then show ?thesis by (simp add: r(2))
  next
    case (added rs)
    then show ?thesis using transport_load_durable [OF added(4), of g] by (auto simp: Transport_Reserve)
  qed
next
  case (Transport_Query nonce)
  then show ?thesis using step by (auto simp: transport_contains_def split: sum.splits)
next
  case (Transport_Reopen lock_free initialize fault pe)
  then have "\<not> ok" using step by (auto split: prod.splits sum.splits)
  then show ?thesis using transport_reopen_durable [of lock_free initialize fault pe lg ok lg'] step Transport_Reopen by auto
qed

lemma transport_entry_once:
  assumes key: "\<And>fault nonce digest. key (Transport_Reserve fault nonce digest) = g (nonce, digest)"
    and fresh: "\<And>nonce digest rs. nonce \<notin> set (map fst rs) \<Longrightarrow> digest \<notin> set (map snd rs) \<Longrightarrow> g (nonce, digest) \<notin> set (map g rs)"
  shows "once_only transport_step (\<lambda>ok. ok) key (durable_entries g)"
proof
  fix call lg ok lg' assume "transport_step call lg = (ok, lg')"
  note cases = transport_step_durable [OF this, of g]
  show "durable_entries g lg \<subseteq> durable_entries g lg'"
    using cases transport_load_durable [of lg _ g] durable_entries_def [of g lg] by fastforce
  assume ok: "ok"
  with cases obtain fault nonce digest rs where call: "call = Transport_Reserve fault nonce digest" "transport_load lg = Inr rs"
    "nonce \<notin> set (map fst rs)" "digest \<notin> set (map snd rs)" "durable_entries g lg' = set (map g (rs @ [(nonce, digest)]))" by blast
  show "key call \<notin> durable_entries g lg"
    using fresh [OF call(3,4)] transport_load_durable [OF call(2), of g] by (simp add: call(1) key)
  show "key call \<in> durable_entries g lg'" by (simp add: call(1,5) key)
qed

interpretation transport_nonce_once: once_only transport_step "\<lambda>ok. ok" transport_nonce "durable_entries fst"
  by (rule transport_entry_once) simp_all

interpretation transport_digest_once: once_only transport_step "\<lambda>ok. ok" transport_digest "durable_entries snd"
  by (rule transport_entry_once) simp_all

section \<open>Properties\<close>

text \<open>
  (C32) The virtual PLC's reservations hold across restarts and failed updates: in any sequence of
  reservations, queries, closings and reopenings, with updates that fail before or after the new file is
  in place, no transaction digest, permit identifier, permit nonce or command identifier is accepted
  twice.
\<close>
theorem plc_reservations_once:
  "let calls = fst (run_steps semantic_step inputs sl)
   in distinct (accepted_keys (\<lambda>ok. ok) (field_key rk_request_digest) calls) \<and>
      distinct (accepted_keys (\<lambda>ok. ok) (field_key rk_permit_id) calls) \<and>
      distinct (accepted_keys (\<lambda>ok. ok) (field_key rk_permit_nonce) calls) \<and>
      distinct (accepted_keys (\<lambda>ok. ok) (field_key rk_command_id) calls)"
  unfolding Let_def
  by (intro conjI request_once.accepted_distinct plc_permit_once.accepted_distinct plc_nonce_once.accepted_distinct
      plc_command_once.accepted_distinct)

text \<open>
  (C31) The transport ledger accepts a nonce and a signed request at most once in its life time,
  whatever updates fail, at whatever point, and however often the adapter restarts on the file.
\<close>
theorem transport_reservations_once:
  "let calls = fst (run_steps transport_step inputs lg)
   in distinct (accepted_keys (\<lambda>ok. ok) transport_nonce calls) \<and>
      distinct (accepted_keys (\<lambda>ok. ok) transport_digest calls)"
  unfolding Let_def by (intro conjI transport_nonce_once.accepted_distinct transport_digest_once.accepted_distinct)

text \<open>
  An accepted transport reservation is durable: after the call returns true, a process that opens
  the file with the same configuration loads exactly the earlier reservations and the new one, sorted by
  nonce; after a call that raised, the file loads as before or with the new reservation added, never as
  anything else, so a failed update can lose a nonce but can never free one.
\<close>
theorem transport_reservation_durable:
  assumes load: "transport_load lg = Inr rs"
    and call: "transport_reserve fault nonce digest lg = (result, lg')"
  shows "let reloaded = transport_load (opened lg'); added = sort_key fst (rs @ [(nonce, digest)]) in
    case result of
      Inr True \<Rightarrow> reloaded = Inr added \<and> nonce \<notin> fst ` set rs \<and> digest \<notin> snd ` set rs
    | Inr False \<Rightarrow> reloaded = Inr rs \<and> (nonce \<in> fst ` set rs \<or> digest \<in> snd ` set rs)
    | Inl e \<Rightarrow> reloaded = Inr rs \<or> reloaded = Inr added"
  using call
proof (cases rule: transport_reserve_cases)
  case (kept q)
  then have "transport_load (opened lg') = Inr rs"
    using transport_load_opened [OF load] by (simp add: transport_reservations_only)
  then show ?thesis using kept(2,3) load by (auto simp: Let_def split: sum.splits bool.splits)
next
  case (added qs)
  then have "transport_load (opened lg') = Inr (sort_key fst (rs @ [(nonce, digest)]))"
    using load transport_load_opened by simp
  then show ?thesis using added load by (auto simp: Let_def split: sum.splits bool.splits)
qed

lemma string_length_bound: "string_length s \<le> 2 + 6 * length s"
proof -
  have "escaped_length c \<le> 6" for c by (simp add: escaped_length_def Let_def)
  then have "sum_list (map escaped_length s) \<le> 6 * length s" by (induction s) (simp_all add: add_mono)
  then show ?thesis by (simp add: string_length_def)
qed

lemma demo_document_size:
  assumes "length rs \<le> 1" "\<forall>(n, d) \<in> set rs. length n \<le> 256 \<and> length d \<le> 256"
    "length (tl_audience lg) \<le> 256" "length (tl_gateway_key_id lg) \<le> 256" "length (tl_gateway_public_key_sha256 lg) \<le> 256"
  shows "dumps_length (transport_document lg rs) \<le> max_ledger_bytes"
proof -
  note B = string_length_bound
  have rs: "rs = [] \<or> (\<exists>n d. rs = [(n, d)])" using assms(1) by (cases rs) auto
  have entry: "dumps_length (entry_json (n, d)) \<le> 10000" if "length n \<le> 256" "length d \<le> 256" for n d
    using B [of n] B [of d] B [of "''nonce''"] B [of "''signed_request_sha256''"] that by (simp add: entry_json_def commas_def)
  have "dumps_length (JArr (map entry_json (sort_key fst rs))) \<le> 10010"
    using rs
  proof
    assume "\<exists>n d. rs = [(n, d)]"
    then obtain n d where "rs = [(n, d)]" by blast
    then show ?thesis using entry [of n d] assms(2) by (simp add: commas_def)
  qed (simp add: commas_def)
  then show ?thesis
    using B [of "tl_audience lg"] B [of "tl_gateway_key_id lg"] B [of "tl_gateway_public_key_sha256 lg"]
      B [of "''audience''"] B [of "''gateway_key_id''"] B [of "''gateway_public_key_sha256''"] B [of "''reservations''"]
      B [of "''schema_version''"] B [of "''m4f-transport-replay-ledger-v1''"] assms(3-5)
    by (simp add: transport_document_def commas_def max_ledger_bytes_def del: dumps_length.simps(2))
qed

definition demo_transport :: transport_ledger where
  "demo_transport =
     (let fresh = \<lparr>tl_audience = ''ot-adapter'', tl_gateway_key_id = ''gateway-1'', tl_gateway_public_key_sha256 = zero_digest,
        tl_writer = True, tl_parent_error = None, tl_file = None, tl_reservations = []\<rparr>
      in fresh\<lparr>tl_file := Some (written_file (transport_document fresh []))\<rparr>)"

definition demo_nonce :: string where
  "demo_nonce = ''nonce-0123456789''"

lemma demo_transport_fields:
  "tl_writer demo_transport" "tl_parent_error demo_transport = None" "length (tl_audience demo_transport) \<le> 256"
  "length (tl_gateway_key_id demo_transport) \<le> 256" "length (tl_gateway_public_key_sha256 demo_transport) \<le> 256"
  by (simp_all add: demo_transport_def zero_digest_def)

lemma demo_transport_loads: "transport_load demo_transport = Inr []"
proof -
  have "transport_load demo_transport = Inr (sort_key fst [])"
  proof (rule transport_written)
    show "tl_file demo_transport = Some (written_file (transport_document demo_transport []))"
      by (simp add: demo_transport_def transport_document_def)
    show "dumps_length (transport_document demo_transport []) \<le> max_ledger_bytes"
      using demo_document_size [of "[]"] demo_transport_fields by simp
  qed (simp_all add: demo_transport_fields valid_reservations_def)
  then show ?thesis by simp
qed

lemma demo_transport_fault:
  "fst (transport_reserve Failed_After_Replace demo_nonce zero_digest demo_transport) =
   transport_error ''transport replay ledger update failed''"
proof -
  have "dumps_length (transport_document demo_transport [(demo_nonce, zero_digest)]) \<le> max_ledger_bytes"
    using demo_document_size [of "[(demo_nonce, zero_digest)]"] demo_transport_fields by (simp add: demo_nonce_def zero_digest_def)
  then show ?thesis
    using demo_transport_fields
    by (simp add: transport_reserve_def demo_transport_loads ledger_nonce_def ledger_digest_def demo_nonce_def len_between_def
        transport_persist_def check_parent_def max_reservations_def transport_reservations_only transport_document_canonical not_less)
qed

theorem transport_reservation_durable_witness:
  "\<exists>lg'. transport_reserve Failed_After_Replace demo_nonce zero_digest demo_transport =
      (transport_error ''transport replay ledger update failed'', lg') \<and>
    (transport_load (opened lg') = Inr [] \<or> transport_load (opened lg') = Inr [(demo_nonce, zero_digest)])"
proof -
  obtain lg' where call: "transport_reserve Failed_After_Replace demo_nonce zero_digest demo_transport =
      (transport_error ''transport replay ledger update failed'', lg')"
    using demo_transport_fault by (metis prod.collapse)
  from transport_reservation_durable [OF demo_transport_loads call] call show ?thesis by (simp add: Let_def)
qed

text \<open>
  An update is not bounded by the size limit of a load: a reservation that takes the document over the limit
  succeeds, and no later operation can read the ledger.
\<close>

lemma semantic_reserve_overflows:
  assumes "semantic_load sl = Inr rv" "replay_reason_in rv k = None"
    and "max_ledger_bytes < dumps_length (canonical (semantic_document (add_reservation k rv)))"
  shows "\<exists>sl'. semantic_reserve Persisted k sl = (Inr (), sl') \<and>
    semantic_load sl' = Inl (ValueError ''PLC replay ledger exceeds its size limit'')"
proof -
  have "sl_writer sl" using assms(1) by (simp add: semantic_load_def split: if_splits)
  then show ?thesis
    using assms by (simp add: semantic_reserve_def semantic_persist_def semantic_load_def [of "_\<lparr>sl_file := _\<rparr>"] written_file_def)
qed

end
