(* ===== verification/Capability_Plc.thy ===== *)
theory Capability_Plc
  imports Capability_Models Durable_Replay
begin

text \<open>
  \<^verbatim>\<open>CapabilityVirtualPlc\<close> of \<^verbatim>\<open>capability_plc.py\<close>: the permit-aware virtual PLC, which holds the only
  capability to change the plant and consumes a transaction in a durable ledger before it uses it. The
  plant is behind a port whose operations act on a world of the port's choosing, so that a failed
  exchange and the steps of other clients between two operations are behaviours of the model.
\<close>

section \<open>The plant port\<close>

text \<open>\<^verbatim>\<open>pp_deadline\<close>: the port is an \<^verbatim>\<open>EffectDeadlineCapabilityPlcPlantPort\<close> and carries the permit's deadline.\<close>

record 'w plc_port =
  pp_read :: "'w \<Rightarrow> snapshot res \<times> 'w"
  pp_simulate :: "command \<Rightarrow> 'w \<Rightarrow> assessment res \<times> 'w"
  pp_apply :: "apply_expectations \<Rightarrow> command \<Rightarrow> 'w \<Rightarrow> snapshot res \<times> 'w"
  pp_deadline :: bool

section \<open>The virtual PLC\<close>

record virtual_plc =
  vp_plc_id :: string
  vp_boot_epoch :: string
  vp_permit_key_id :: string
  vp_permit_public_key :: public_key
  vp_observer :: observer_identity
  vp_observer_public_key :: public_key
  vp_acknowledgment_private_key :: private_key
  vp_acknowledgment_key_id :: string
  vp_replay :: semantic_ledger
  vp_scan_counter :: int
  vp_execute_requests :: int

text \<open>The readings of one call: the clock in order, the fresh identifier and what the ledger's disk does.\<close>

record plc_env =
  px_clock :: "nat \<Rightarrow> instant"
  px_acknowledgment_id :: string
  px_persist_fault :: persist_fault

record plc_request =
  pq_request :: action_request
  pq_permit :: capability_permit
  pq_pre_observation :: observation
  pq_decision :: decision
  pq_assessment :: assessment

definition unsigned_plc_ack ::
  "runtime \<Rightarrow> plc_env \<Rightarrow> virtual_plc \<Rightarrow> action_request \<Rightarrow> capability_permit \<Rightarrow> command_status \<Rightarrow> dispatch_phase \<Rightarrow>
   string \<Rightarrow> instant \<Rightarrow> snapshot \<Rightarrow> snapshot option \<Rightarrow> plc_ack" where
  "unsigned_plc_ack rt env plc q p status phase reason acknowledged_at pre_state post_state =
     (let base = cp_base_permit p; c = ep_command base in
      \<lparr>pa_acknowledgment_id = px_acknowledgment_id env, pa_request_digest = request_digest rt q,
      pa_permit_digest = capability_permit_digest rt p,
      pa_observation_envelope_digest = cp_observation_envelope_digest p,
      pa_permit_id = ep_permit_id base, pa_permit_nonce = ep_permit_nonce base,
      pa_command_id = pc_command_id c, pa_command_digest = ep_command_digest base,
      pa_assessment_digest = ep_assessment_digest base, pa_proposal_id = ep_proposal_id base,
      pa_decision_id = ep_decision_id base, pa_plc_id = vp_plc_id plc,
      pa_plc_key_id = vp_acknowledgment_key_id plc, pa_plc_boot_epoch = vp_boot_epoch plc,
      pa_plc_scan = vp_scan_counter plc, pa_status = status, pa_dispatch_phase = phase, pa_reason = reason,
      pa_acknowledged_at = acknowledged_at, pa_pre_state = pre_state,
      pa_pre_state_digest = ps_state_digest pre_state, pa_pre_state_version = ps_state_version pre_state,
      pa_post_state_digest = map_option ps_state_digest post_state,
      pa_post_state_version = map_option ps_state_version post_state,
      pa_post_topology_digest = map_option ps_topology_digest post_state,
      pa_pre_actuator_setpoint = actuator_setpoint pre_state c,
      pa_post_actuator_setpoint =
        (case post_state of
           Some post \<Rightarrow> Some (actuator_setpoint post c)
         | None \<Rightarrow> if status = REJECTED then Some (actuator_setpoint pre_state c) else None),
      pa_simulation_time_s =
        (case post_state of Some post \<Rightarrow> ps_simulation_time_s post | None \<Rightarrow> ps_simulation_time_s pre_state),
      pa_signature = []\<rparr>)"

definition plc_acknowledge ::
  "runtime \<Rightarrow> plc_env \<Rightarrow> virtual_plc \<Rightarrow> action_request \<Rightarrow> capability_permit \<Rightarrow> command_status \<Rightarrow> dispatch_phase \<Rightarrow>
   string \<Rightarrow> instant \<Rightarrow> snapshot \<Rightarrow> snapshot option \<Rightarrow> plc_ack res" where
  "plc_acknowledge rt env plc q p status phase reason acknowledged_at pre_state post_state =
     bind_res (make_plc_ack rt (unsigned_plc_ack rt env plc q p status phase reason acknowledged_at pre_state post_state))
       (\<lambda>k. Inr (plc_ack_signed rt k (vp_acknowledgment_private_key plc)))"

definition permit_checks :: "runtime \<Rightarrow> virtual_plc \<Rightarrow> action_request \<Rightarrow> capability_permit \<Rightarrow> observation \<Rightarrow> (bool \<times> string) list" where
  "permit_checks rt plc q p pre = [
     (ep_audience (cp_base_permit p) = vp_plc_id plc, ''permit_wrong_audience''),
     (cp_signing_key_id p = vp_permit_key_id plc, ''permit_unknown_signing_key''),
     (capability_permit_verify rt p (vp_permit_public_key plc), ''permit_signature_invalid''),
     (cp_target_plc_id p = vp_plc_id plc, ''permit_wrong_plc''),
     (cp_target_plc_key_id p = vp_acknowledgment_key_id plc, ''permit_wrong_plc_key''),
     (cp_target_plc_boot_epoch p = vp_boot_epoch plc, ''permit_wrong_plc_boot''),
     (cp_request_digest p = request_digest rt q, ''permit_request_digest_mismatch''),
     (cp_observation_id p = so_observation_id pre, ''permit_observation_id_mismatch''),
     (cp_observation_envelope_digest p = so_envelope_digest pre, ''permit_observation_digest_mismatch''),
     (cp_observer_id p = so_observer_id pre, ''permit_observer_id_mismatch''),
     (cp_observer_key_id p = so_observer_key_id pre, ''permit_observer_key_mismatch''),
     (cp_observer_boot_epoch p = so_observer_boot_epoch pre, ''permit_observer_boot_mismatch'')]"

definition observation_checks :: "runtime \<Rightarrow> virtual_plc \<Rightarrow> action_request \<Rightarrow> observation \<Rightarrow> (bool \<times> string) list" where
  "observation_checks rt plc q pre = [
     (observation_verify rt pre (vp_observer_public_key plc), ''observation_signature_invalid''),
     (so_observer_id pre = oi_observer_id (vp_observer plc), ''observation_source_mismatch''),
     (so_observer_key_id pre = oi_key_id (vp_observer plc), ''observation_key_mismatch''),
     (so_observer_boot_epoch pre = oi_boot_epoch (vp_observer plc), ''observation_boot_mismatch''),
     (so_phase pre = Pre_Authorization, ''observation_phase_mismatch''),
     (ar_observation_challenge_nonce q = so_challenge_nonce pre, ''observation_challenge_mismatch''),
     (ar_correlation_id q = so_correlation_id pre, ''observation_correlation_mismatch''),
     (ap_observed_state_version (ar_proposal q) = ps_state_version (so_snapshot pre), ''proposal_observation_version_mismatch''),
     (ap_observed_at (ar_proposal q) = ps_observed_at (so_snapshot pre), ''proposal_observation_time_mismatch'')]"

definition authorization_checks ::
  "runtime \<Rightarrow> action_request \<Rightarrow> permit \<Rightarrow> decision \<Rightarrow> assessment \<Rightarrow> instant \<Rightarrow> (bool \<times> string) list" where
  "authorization_checks rt q base d a evaluated_at = [
     (ep_issued_at base \<le> evaluated_at, ''permit_not_yet_valid''),
     (evaluated_at < ep_expires_at base, ''permit_expired''),
     (ep_proposal_id base = ap_proposal_id (ar_proposal q), ''permit_proposal_id_mismatch''),
     (ep_proposal_digest base = proposal_digest rt (ar_proposal q), ''permit_proposal_digest_mismatch''),
     (ep_decision_id base = dec_decision_id d, ''permit_decision_id_mismatch''),
     (dec_outcome d = PERMIT, ''decision_not_permit''),
     (dec_proposal_id d = ap_proposal_id (ar_proposal q), ''decision_proposal_mismatch''),
     (dec_evidence_record_hash d = Some (ep_evidence_record_hash base), ''decision_evidence_mismatch''),
     (ep_policy_version base = dec_policy_version d, ''decision_policy_version_mismatch''),
     (ep_safety_version base = dec_safety_version d, ''decision_safety_version_mismatch''),
     (ep_state_version base = dec_state_version d, ''decision_state_version_mismatch''),
     (ep_command_digest base = command_digest rt (ep_command base), ''permit_command_digest_mismatch''),
     (ep_assessment_digest base = assessment_digest rt a, ''permit_assessment_digest_mismatch''),
     (ca_safe a, ''candidate_not_safe''),
     (ca_command_digest a = ep_command_digest base, ''candidate_command_mismatch''),
     (ps_state_digest (ca_pre_state a) = ep_state_digest base, ''candidate_state_digest_mismatch''),
     (ps_state_version (ca_post_state a) = ep_expected_post_state_version base, ''candidate_post_version_mismatch''),
     (ps_state_digest (ca_post_state a) = ep_expected_post_state_digest base, ''candidate_post_digest_mismatch''),
     (ps_topology_digest (ca_post_state a) = ep_expected_post_topology_digest base, ''candidate_post_topology_mismatch'')]"

definition state_checks :: "runtime \<Rightarrow> permit \<Rightarrow> snapshot \<Rightarrow> (bool \<times> string) list" where
  "state_checks rt base current = [
     (verify_digest rt current, ''current_state_digest_invalid''),
     (ep_model_digest base = ps_model_digest current, ''model_digest_changed''),
     (ep_topology_digest base = ps_topology_digest current, ''topology_digest_changed''),
     (ep_state_version base = ps_state_version current, ''precommit_state_version_changed''),
     (ep_state_digest base = ps_state_digest current, ''precommit_state_digest_changed''),
     (ep_observation_digest base = ps_observation_digest current, ''precommit_observation_changed'')]"

definition plc_checks :: "runtime \<Rightarrow> virtual_plc \<Rightarrow> plc_request \<Rightarrow> snapshot \<Rightarrow> instant \<Rightarrow> (bool \<times> string) list" where
  "plc_checks rt plc x current evaluated_at =
     permit_checks rt plc (pq_request x) (pq_permit x) (pq_pre_observation x) @
     observation_checks rt plc (pq_request x) (pq_pre_observation x) @
     authorization_checks rt (pq_request x) (cp_base_permit (pq_permit x)) (pq_decision x) (pq_assessment x) evaluated_at @
     state_checks rt (cp_base_permit (pq_permit x)) current"

definition reservation_of :: "runtime \<Rightarrow> action_request \<Rightarrow> permit \<Rightarrow> reservation_key" where
  "reservation_of rt q base =
     \<lparr>rk_request_digest = request_digest rt q, rk_permit_id = ep_permit_id base,
      rk_permit_nonce = ep_permit_nonce base, rk_command_id = pc_command_id (ep_command base)\<rparr>"

text \<open>
  The expectations of the dispatch; a port with a deadline compares the permit's expiry with its own clock
  at the effect, which the port supplies.
\<close>

definition dispatch_expectations :: "bool \<Rightarrow> permit \<Rightarrow> apply_expectations" where
  "dispatch_expectations deadline base =
     (permit_expectations base)\<lparr>ax_effect_deadline := (if deadline then Some (ep_expires_at base) else None)\<rparr>"

text \<open>The dispatch after the transaction is reserved and still in force, and its classification.\<close>

definition plc_dispatch ::
  "runtime \<Rightarrow> 'w plc_port \<Rightarrow> plc_env \<Rightarrow> virtual_plc \<Rightarrow> plc_request \<Rightarrow> snapshot \<Rightarrow> 'w \<Rightarrow> plc_ack res \<times> 'w" where
  "plc_dispatch rt port env plc x current w =
     (let q = pq_request x; p = pq_permit x; base = cp_base_permit p;
          (result, w1) = pp_apply port (dispatch_expectations (pp_deadline port) base) (ep_command base) w
      in case result of
           Inl (PhysicalSimulationError reason) \<Rightarrow>
             let (rejection_state, w2) = (if reason \<in> set cas_reasons then pp_read port w1 else (Inr current, w1))
             in (bind_res rejection_state (\<lambda>s.
                   plc_acknowledge rt env plc q p REJECTED Known_No_Effect reason (px_clock env 3) s None), w2)
         | Inl _ \<Rightarrow>
             (plc_acknowledge rt env plc q p UNKNOWN_EFFECT Effect_Unknown ''plant_dispatch_outcome_unavailable''
                (px_clock env 3) current None, w1)
         | Inr post_state \<Rightarrow>
             ((if ps_state_digest post_state \<noteq> ep_expected_post_state_digest base \<or>
                  ps_state_version post_state \<noteq> ep_expected_post_state_version base \<or>
                  ps_topology_digest post_state \<noteq> ep_expected_post_topology_digest base \<or>
                  ps_unsafe_state post_state
               then plc_acknowledge rt env plc q p UNKNOWN_EFFECT Effect_Unknown ''post_dispatch_candidate_divergence''
                      (px_clock env 3) current None
               else plc_acknowledge rt env plc q p APPLIED Committed ''command_applied_and_plc_read_back''
                      (px_clock env 3) current (Some post_state)), w1))"

text \<open>The reservation of a transaction that passed every check, and the last look at the clock.\<close>

definition plc_commit ::
  "runtime \<Rightarrow> 'w plc_port \<Rightarrow> plc_env \<Rightarrow> plc_request \<Rightarrow> snapshot \<Rightarrow> virtual_plc \<Rightarrow> 'w \<Rightarrow> plc_ack res \<times> virtual_plc \<times> 'w" where
  "plc_commit rt port env x current plc w =
     (let q = pq_request x; p = pq_permit x; base = cp_base_permit p;
          (reserved, ledger) = semantic_reserve (px_persist_fault env) (reservation_of rt q base) (vp_replay plc);
          plc1 = plc\<lparr>vp_replay := ledger\<rparr>
      in case reserved of
           Inl (ValueError reason) \<Rightarrow>
             (plc_acknowledge rt env plc1 q p REJECTED Pre_Dispatch reason (px_clock env 2) current None, plc1, w)
         | Inl e \<Rightarrow> (Inl e, plc1, w)
         | Inr _ \<Rightarrow>
             if ep_expires_at base \<le> px_clock env 2
             then (plc_acknowledge rt env plc1 q p REJECTED Pre_Dispatch ''permit_expired_after_replay_reservation''
                     (px_clock env 2) current None, plc1, w)
             else let (k, w1) = plc_dispatch rt port env plc1 x current w in (k, plc1, w1))"

definition plc_assess ::
  "runtime \<Rightarrow> 'w plc_port \<Rightarrow> plc_env \<Rightarrow> plc_request \<Rightarrow> snapshot \<Rightarrow> virtual_plc \<Rightarrow> 'w \<Rightarrow> plc_ack res \<times> virtual_plc \<times> 'w" where
  "plc_assess rt port env x current plc w =
     (let q = pq_request x; p = pq_permit x; base = cp_base_permit p; a = pq_assessment x
      in case pp_simulate port (ep_command base) w of
           (Inl e, w1) \<Rightarrow> (Inl e, plc, w1)
         | (Inr fresh, w1) \<Rightarrow>
             if \<not> ca_safe fresh \<or>
                ps_state_digest (ca_pre_state fresh) \<noteq> ps_state_digest (ca_pre_state a) \<or>
                ps_state_digest (ca_post_state fresh) \<noteq> ps_state_digest (ca_post_state a) \<or>
                ca_command_digest fresh \<noteq> ca_command_digest a
             then (plc_acknowledge rt env plc q p REJECTED Pre_Dispatch ''candidate_attestation_mismatch''
                     (px_clock env 1) current None, plc, w1)
             else if ep_expires_at base \<le> px_clock env 1
             then (plc_acknowledge rt env plc q p REJECTED Pre_Dispatch ''permit_expired_before_dispatch''
                     (px_clock env 1) current None, plc, w1)
             else plc_commit rt port env x current plc w1)"

definition plc_execute_locked ::
  "runtime \<Rightarrow> 'w plc_port \<Rightarrow> plc_env \<Rightarrow> plc_request \<Rightarrow> virtual_plc \<times> 'w \<Rightarrow> plc_ack res \<times> virtual_plc \<times> 'w" where
  "plc_execute_locked rt port env x = (\<lambda>(plc, w).
     let q = pq_request x; p = pq_permit x; base = cp_base_permit p; evaluated_at = px_clock env 0 in
     case pp_read port w of
       (Inl e, w1) \<Rightarrow> (Inl e, plc, w1)
     | (Inr current, w1) \<Rightarrow>
         let (reason, ledger) = replay_reason (reservation_of rt q base) (vp_replay plc);
             plc1 = plc\<lparr>vp_replay := ledger\<rparr>;
             reject = (\<lambda>reason. (plc_acknowledge rt env plc1 q p REJECTED Pre_Dispatch reason evaluated_at current None,
                plc1, w1))
         in case reason of
              Inl e \<Rightarrow> (Inl e, plc1, w1)
            | Inr (Some replayed) \<Rightarrow> reject replayed
            | Inr None \<Rightarrow>
                case first_failed (plc_checks rt plc1 x current evaluated_at) of
                  Some failed \<Rightarrow> reject failed
                | None \<Rightarrow> plc_assess rt port env x current plc1 w1)"

definition plc_execute ::
  "runtime \<Rightarrow> 'w plc_port \<Rightarrow> plc_env \<Rightarrow> plc_request \<Rightarrow> virtual_plc \<times> 'w \<Rightarrow> plc_ack res \<times> virtual_plc \<times> 'w" where
  "plc_execute rt port env x = (\<lambda>(plc, w).
     plc_execute_locked rt port env x
       (plc\<lparr>vp_execute_requests := vp_execute_requests plc + 1, vp_scan_counter := vp_scan_counter plc + 1\<rparr>, w))"

section \<open>The course of a call\<close>

lemma replay_reason_file: "replay_reason key sl = (r, sl') \<Longrightarrow> sl_file sl' = sl_file sl"
  by (auto simp: replay_reason_def split: sum.splits)

lemma plc_acknowledge_fields:
  assumes "plc_acknowledge rt env plc q p status phase reason t pre post = Inr k"
  shows "pa_status k = status" "pa_dispatch_phase k = phase" "pa_reason k = reason" "pa_acknowledged_at k = t"
    "pa_request_digest k = request_digest rt q" "pa_permit_digest k = capability_permit_digest rt p"
    "pa_observation_envelope_digest k = cp_observation_envelope_digest p"
    "pa_permit_id k = ep_permit_id (cp_base_permit p)" "pa_permit_nonce k = ep_permit_nonce (cp_base_permit p)"
    "pa_command_id k = pc_command_id (ep_command (cp_base_permit p))"
    "pa_command_digest k = ep_command_digest (cp_base_permit p)"
    "pa_assessment_digest k = ep_assessment_digest (cp_base_permit p)"
    "pa_proposal_id k = ep_proposal_id (cp_base_permit p)" "pa_decision_id k = ep_decision_id (cp_base_permit p)"
    "pa_plc_id k = vp_plc_id plc" "pa_plc_key_id k = vp_acknowledgment_key_id plc"
    "pa_plc_boot_epoch k = vp_boot_epoch plc" "pa_pre_state k = pre" "pa_pre_state_digest k = ps_state_digest pre"
    "pa_pre_state_version k = ps_state_version pre" "pa_post_state_digest k = map_option ps_state_digest post"
    "pa_post_state_version k = map_option ps_state_version post"
    "pa_post_topology_digest k = map_option ps_topology_digest post"
    "pa_pre_actuator_setpoint k = actuator_setpoint pre (ep_command (cp_base_permit p))"
    "pa_post_actuator_setpoint k =
       (case post of Some s \<Rightarrow> Some (actuator_setpoint s (ep_command (cp_base_permit p)))
        | None \<Rightarrow> if status = REJECTED then Some (actuator_setpoint pre (ep_command (cp_base_permit p))) else None)"
    "plc_ack_status_shape rt k"
proof -
  let ?u = "unsigned_plc_ack rt env plc q p status phase reason t pre post"
  from assms have shape: "plc_ack_status_shape rt ?u" and k: "k = plc_ack_signed rt ?u (vp_acknowledgment_private_key plc)"
    by (auto simp: plc_acknowledge_def res_simps plc_ack_shape_def)
  show "plc_ack_status_shape rt k" using shape by (simp add: k plc_ack_signed_def)
qed (use assms in \<open>auto simp: plc_acknowledge_def res_simps plc_ack_signed_def unsigned_plc_ack_def Let_def\<close>)

lemma plc_acknowledge_verifies:
  "signatures_ok rt \<Longrightarrow> plc_acknowledge rt env plc q p status phase reason t pre post = Inr k \<Longrightarrow>
   plc_ack_verify rt k (rt_public rt (vp_acknowledgment_private_key plc))"
  by (auto simp: plc_acknowledge_def res_simps)

lemma plc_acknowledge_ledger [simp]:
  "plc_acknowledge rt env (plc\<lparr>vp_replay := l\<rparr>) = plc_acknowledge rt env plc"
  by (intro ext) (simp add: plc_acknowledge_def unsigned_plc_ack_def)

lemma plc_checks_ledger [simp]: "plc_checks rt (plc\<lparr>vp_replay := l\<rparr>) = plc_checks rt plc"
  by (intro ext) (simp add: plc_checks_def permit_checks_def observation_checks_def)

definition scanned_plc :: "virtual_plc \<Rightarrow> virtual_plc" where
  "scanned_plc plc = plc\<lparr>vp_execute_requests := vp_execute_requests plc + 1, vp_scan_counter := vp_scan_counter plc + 1\<rparr>"

lemma scanned_plc_simps [simp]:
  "vp_plc_id (scanned_plc plc) = vp_plc_id plc" "vp_boot_epoch (scanned_plc plc) = vp_boot_epoch plc"
  "vp_permit_key_id (scanned_plc plc) = vp_permit_key_id plc"
  "vp_permit_public_key (scanned_plc plc) = vp_permit_public_key plc"
  "vp_observer (scanned_plc plc) = vp_observer plc"
  "vp_observer_public_key (scanned_plc plc) = vp_observer_public_key plc"
  "vp_acknowledgment_private_key (scanned_plc plc) = vp_acknowledgment_private_key plc"
  "vp_acknowledgment_key_id (scanned_plc plc) = vp_acknowledgment_key_id plc"
  "vp_replay (scanned_plc plc) = vp_replay plc"
  by (simp_all add: scanned_plc_def)

lemma plc_checks_scanned [simp]: "plc_checks rt (scanned_plc plc) = plc_checks rt plc"
  by (intro ext) (simp add: plc_checks_def permit_checks_def observation_checks_def)

lemma first_failed_append [simp]:
  "first_failed (xs @ ys) = None \<longleftrightarrow> first_failed xs = None \<and> first_failed ys = None"
  by (auto simp: first_failed_None)

text \<open>What a call that passed every check has established.\<close>

lemma plc_checks_passed:
  assumes "first_failed (plc_checks rt plc x current t) = None"
  shows "capability_permit_verify rt (pq_permit x) (vp_permit_public_key plc)"
    "cp_target_plc_id (pq_permit x) = vp_plc_id plc" "cp_target_plc_key_id (pq_permit x) = vp_acknowledgment_key_id plc"
    "cp_target_plc_boot_epoch (pq_permit x) = vp_boot_epoch plc"
    "cp_request_digest (pq_permit x) = request_digest rt (pq_request x)"
    "so_envelope_digest (pq_pre_observation x) = cp_observation_envelope_digest (pq_permit x)"
    "observation_verify rt (pq_pre_observation x) (vp_observer_public_key plc)"
    "so_phase (pq_pre_observation x) = Pre_Authorization"
    "ep_issued_at (cp_base_permit (pq_permit x)) \<le> t" "t < ep_expires_at (cp_base_permit (pq_permit x))"
    "ep_proposal_id (cp_base_permit (pq_permit x)) = ap_proposal_id (ar_proposal (pq_request x))"
    "ep_proposal_digest (cp_base_permit (pq_permit x)) = proposal_digest rt (ar_proposal (pq_request x))"
    "ep_decision_id (cp_base_permit (pq_permit x)) = dec_decision_id (pq_decision x)"
    "dec_outcome (pq_decision x) = PERMIT" "ca_safe (pq_assessment x)"
    "ep_assessment_digest (cp_base_permit (pq_permit x)) = assessment_digest rt (pq_assessment x)"
    "verify_digest rt current" "ps_model_digest current = ep_model_digest (cp_base_permit (pq_permit x))"
    "ps_topology_digest current = ep_topology_digest (cp_base_permit (pq_permit x))"
    "ps_state_version current = ep_state_version (cp_base_permit (pq_permit x))"
    "ps_state_digest current = ep_state_digest (cp_base_permit (pq_permit x))"
    "ps_observation_digest current = ep_observation_digest (cp_base_permit (pq_permit x))"
  using assms
  by (simp_all add: plc_checks_def permit_checks_def observation_checks_def authorization_checks_def state_checks_def
      split: if_splits)

text \<open>
  A call ends before the dispatch, with nothing but reads and simulations asked of the plant, or it has
  passed every check, has its transaction on disk and asks for the effect.
\<close>

definition only_read :: "'w plc_port \<Rightarrow> 'w \<Rightarrow> 'w \<Rightarrow> bool" where
  "only_read port w w' \<longleftrightarrow> (let w1 = snd (pp_read port w) in w' = w1 \<or> (\<exists>c. w' = snd (pp_simulate port c w1)))"

definition refused :: "runtime \<Rightarrow> plc_env \<Rightarrow> virtual_plc \<Rightarrow> plc_request \<Rightarrow> snapshot \<Rightarrow> plc_ack \<Rightarrow> bool" where
  "refused rt env plc x current k \<longleftrightarrow>
     (\<exists>reason t. plc_acknowledge rt env plc (pq_request x) (pq_permit x) REJECTED Pre_Dispatch reason t current None = Inr k)"

lemma refusedI:
  "plc_acknowledge rt env plc (pq_request x) (pq_permit x) REJECTED Pre_Dispatch reason t current None = Inr k \<Longrightarrow>
   refused rt env plc x current k"
  by (auto simp: refused_def)

lemma plc_dispatch_ledger [simp]: "plc_dispatch rt port env (plc\<lparr>vp_replay := l\<rparr>) = plc_dispatch rt port env plc"
  by (intro ext) (unfold plc_dispatch_def plc_acknowledge_ledger, rule refl)

lemma plc_commit_cases:
  assumes "plc_commit rt port env x current plc w = (result, plc', w')"
  obtains
    (stopped) r where "semantic_reserve (px_persist_fault env)
        (reservation_of rt (pq_request x) (cp_base_permit (pq_permit x))) (vp_replay plc) = (r, vp_replay plc')"
      "plc' = plc\<lparr>vp_replay := vp_replay plc'\<rparr>" "w' = w" "\<And>k. result = Inr k \<Longrightarrow> refused rt env plc x current k"
  | (dispatched) "semantic_reserve (px_persist_fault env)
        (reservation_of rt (pq_request x) (cp_base_permit (pq_permit x))) (vp_replay plc) = (Inr (), vp_replay plc')"
      "plc' = plc\<lparr>vp_replay := vp_replay plc'\<rparr>" "px_clock env 2 < ep_expires_at (cp_base_permit (pq_permit x))"
      "plc_dispatch rt port env plc x current w = (result, w')"
proof -
  obtain r sl where res: "semantic_reserve (px_persist_fault env)
      (reservation_of rt (pq_request x) (cp_base_permit (pq_permit x))) (vp_replay plc) = (r, sl)" by fastforce
  have plc': "plc' = plc\<lparr>vp_replay := sl\<rparr>"
    using assms res by (auto simp: plc_commit_def Let_def case_prod_beta split: sum.splits exn.splits if_splits)
  then have keep: "vp_replay plc' = sl" "plc' = plc\<lparr>vp_replay := vp_replay plc'\<rparr>" by simp_all
  show thesis
  proof (cases "r = Inr () \<and> px_clock env 2 < ep_expires_at (cp_base_permit (pq_permit x))")
    case True
    with assms res have "plc_dispatch rt port env plc x current w = (result, w')"
      by (simp add: plc_commit_def Let_def case_prod_beta prod_eq_iff)
    then show thesis using True res keep by (intro dispatched) simp_all
  next
    case False
    with assms res have "w' = w" "\<And>k. result = Inr k \<Longrightarrow> refused rt env plc x current k"
      by (auto simp: plc_commit_def Let_def not_less intro: refusedI split: sum.splits exn.splits if_splits)
    then show thesis using res keep by (intro stopped) simp_all
  qed
qed

lemma plc_execute_cases:
  assumes "plc_execute rt port env x (plc, w) = (result, plc', w')"
  obtains
    (stopped) "only_read port w w'"
      "sl_file (vp_replay plc') = sl_file (vp_replay plc) \<or>
       (\<exists>sl r. sl_file sl = sl_file (vp_replay plc) \<and> semantic_reserve (px_persist_fault env)
          (reservation_of rt (pq_request x) (cp_base_permit (pq_permit x))) sl = (r, vp_replay plc'))"
      "\<And>k. result = Inr k \<Longrightarrow> \<exists>current. fst (pp_read port w) = Inr current \<and> refused rt env (scanned_plc plc) x current k"
      "\<exists>sl. plc' = (scanned_plc plc)\<lparr>vp_replay := sl\<rparr>"
  | (dispatched) current fresh sl w1 w2 where "pp_read port w = (Inr current, w1)"
      "sl_file sl = sl_file (vp_replay plc)"
      "first_failed (plc_checks rt plc x current (px_clock env 0)) = None"
      "pp_simulate port (ep_command (cp_base_permit (pq_permit x))) w1 = (Inr fresh, w2)" "ca_safe fresh"
      "ps_state_digest (ca_post_state fresh) = ps_state_digest (ca_post_state (pq_assessment x))"
      "px_clock env 1 < ep_expires_at (cp_base_permit (pq_permit x))"
      "px_clock env 2 < ep_expires_at (cp_base_permit (pq_permit x))"
      "semantic_reserve (px_persist_fault env) (reservation_of rt (pq_request x) (cp_base_permit (pq_permit x))) sl =
         (Inr (), vp_replay plc')"
      "plc' = (scanned_plc plc)\<lparr>vp_replay := vp_replay plc'\<rparr>"
      "plc_dispatch rt port env (scanned_plc plc) x current w2 = (result, w')"
proof -
  let ?key = "reservation_of rt (pq_request x) (cp_base_permit (pq_permit x))"
  let ?base = "cp_base_permit (pq_permit x)"
  obtain read w1 where read: "pp_read port w = (read, w1)" by fastforce
  obtain reason sl where replay: "replay_reason ?key (vp_replay plc) = (reason, sl)" by fastforce
  note same = replay_reason_file [OF replay]
  note call = assms [unfolded plc_execute_def plc_execute_locked_def prod.case scanned_plc_def [symmetric]]
  show thesis
  proof (cases read)
    case (Inl e)
    then show thesis using call read by (intro stopped) (auto simp: only_read_def intro: exI [of _ "vp_replay plc"])
  next
    case (Inr current)
    show thesis
    proof (cases "reason = Inr None \<and> first_failed (plc_checks rt plc x current (px_clock env 0)) = None")
      case False
      then show thesis using call read replay Inr same
        by (intro stopped) (auto simp: only_read_def Let_def intro: refusedI split: sum.splits option.splits)
    next
      case True
      obtain sim w2 where sim: "pp_simulate port (ep_command ?base) w1 = (sim, w2)" by fastforce
      from True call have assess: "plc_assess rt port env x current ((scanned_plc plc)\<lparr>vp_replay := sl\<rparr>) w1 = (result, plc', w')"
        using read replay Inr by simp
      consider "plc' = (scanned_plc plc)\<lparr>vp_replay := sl\<rparr>" "w' = w2"
          "\<And>k. result = Inr k \<Longrightarrow> refused rt env (scanned_plc plc) x current k"
        | fresh where "sim = Inr fresh" "ca_safe fresh" "px_clock env 1 < ep_expires_at ?base"
          "ps_state_digest (ca_post_state fresh) = ps_state_digest (ca_post_state (pq_assessment x))"
          "plc_commit rt port env x current ((scanned_plc plc)\<lparr>vp_replay := sl\<rparr>) w2 = (result, plc', w')"
        using assess sim by (auto simp: plc_assess_def Let_def not_le intro: refusedI split: sum.splits if_splits)
      then show thesis
      proof cases
        case 1
        then show thesis using read sim Inr same
          by (intro stopped) (auto simp: only_read_def Let_def intro!: exI [of _ "ep_command ?base"])
      next
        case 2
        from 2(5) show thesis
        proof (cases rule: plc_commit_cases)
          case (stopped r)
          then show thesis using read Inr sim same
            by (intro that(1)) (auto simp: only_read_def Let_def refused_def intro: exI [of _ "ep_command ?base"])
        next
          case dispatched
          then show thesis using read Inr sim 2(1) True same
            by (intro that(2) [OF _ same _ _ 2(2,4,3)]) auto
        qed
      qed
    qed
  qed
qed

lemma plc_dispatch_cases:
  assumes "plc_dispatch rt port env plc x current w = (result, w')"
  obtains plant_result w1 where "pp_apply port (dispatch_expectations (pp_deadline port) (cp_base_permit (pq_permit x)))
      (ep_command (cp_base_permit (pq_permit x))) w = (plant_result, w1)"
    "w' = w1 \<or> w' = snd (pp_read port w1)"
    "\<And>k. result = Inr k \<Longrightarrow> \<exists>status phase reason pre post.
        plc_acknowledge rt env plc (pq_request x) (pq_permit x) status phase reason (px_clock env 3) pre post = Inr k \<and>
        (case status of
           APPLIED \<Rightarrow> pre = current \<and> (\<exists>s. plant_result = Inr s \<and> post = Some s \<and> \<not> ps_unsafe_state s \<and>
             ps_state_digest s = ep_expected_post_state_digest (cp_base_permit (pq_permit x)) \<and>
             ps_state_version s = ep_expected_post_state_version (cp_base_permit (pq_permit x)) \<and>
             ps_topology_digest s = ep_expected_post_topology_digest (cp_base_permit (pq_permit x)))
         | REJECTED \<Rightarrow> plant_result = Inl (PhysicalSimulationError reason) \<and> post = None \<and> phase = Known_No_Effect \<and>
             (if reason \<in> set cas_reasons then fst (pp_read port w1) = Inr pre else pre = current)
         | UNKNOWN_EFFECT \<Rightarrow> pre = current \<and> post = None)"
proof -
  obtain plant_result w1 where applied: "pp_apply port (dispatch_expectations (pp_deadline port)
      (cp_base_permit (pq_permit x))) (ep_command (cp_base_permit (pq_permit x))) w = (plant_result, w1)" by fastforce
  consider (rejected) reason where "plant_result = Inl (PhysicalSimulationError reason)"
    | (unknown) e where "plant_result = Inl e" "\<And>m. e \<noteq> PhysicalSimulationError m"
    | (returned) s where "plant_result = Inr s" by (cases plant_result; metis)
  then show thesis
  proof cases
    case rejected
    show thesis
    proof (cases "reason \<in> set cas_reasons")
      case True
      obtain r w2 where read: "pp_read port w1 = (r, w2)" by fastforce
      have "w' = w2" "\<And>k. result = Inr k \<Longrightarrow> \<exists>pre. r = Inr pre \<and> plc_acknowledge rt env plc (pq_request x) (pq_permit x)
          REJECTED Known_No_Effect reason (px_clock env 3) pre None = Inr k"
        using assms applied rejected read True by (auto simp: plc_dispatch_def Let_def res_simps)
      then show thesis using that [OF applied] rejected read True by fastforce
    next
      case False
      then have "w' = w1" "result = plc_acknowledge rt env plc (pq_request x) (pq_permit x)
          REJECTED Known_No_Effect reason (px_clock env 3) current None"
        using assms applied rejected by (auto simp: plc_dispatch_def Let_def)
      then show thesis using that [OF applied] rejected False by fastforce
    qed
  next
    case unknown
    then have "w' = w1" "result = plc_acknowledge rt env plc (pq_request x) (pq_permit x)
        UNKNOWN_EFFECT Effect_Unknown ''plant_dispatch_outcome_unavailable'' (px_clock env 3) current None"
      using assms applied by (auto simp: plc_dispatch_def Let_def split: exn.splits)
    then show thesis using that [OF applied] by fastforce
  next
    case returned
    show thesis
      using assms applied returned that [OF applied]
      by (fastforce simp: plc_dispatch_def Let_def split: if_splits)
  qed
qed

section \<open>Runs of the PLC\<close>

text \<open>
  The events at a PLC: calls, restarts on the ledger file with a new boot epoch and a new key, and steps
  of the world that are not the PLC's. A restart whose ledger cannot be opened leaves a PLC that refuses
  every call.
\<close>

record plc_restart_env =
  pr_lock_free :: bool
  pr_initialize :: bool
  pr_fault :: persist_fault
  pr_boot_epoch :: string
  pr_private_key :: private_key

datatype 'w plc_event = Plc_Call plc_env plc_request | Plc_Restart plc_restart_env | Elsewhere "'w \<Rightarrow> 'w"

definition plc_restart :: "plc_restart_env \<Rightarrow> virtual_plc \<Rightarrow> virtual_plc" where
  "plc_restart env plc =
     plc\<lparr>vp_replay := snd (semantic_step (Reopen (pr_lock_free env) (pr_initialize env) (pr_fault env)) (vp_replay plc)),
         vp_boot_epoch := pr_boot_epoch env, vp_acknowledgment_private_key := pr_private_key env,
         vp_scan_counter := 0, vp_execute_requests := 0\<rparr>"

fun plc_step ::
  "runtime \<Rightarrow> 'w plc_port \<Rightarrow> 'w plc_event \<Rightarrow> virtual_plc \<times> 'w \<Rightarrow> (plc_ack res \<times> 'w \<times> 'w) option \<times> virtual_plc \<times> 'w" where
  "plc_step rt port (Plc_Call env x) (plc, w) =
     (let (result, plc', w') = plc_execute rt port env x (plc, w) in (Some (result, w, w'), plc', w'))"
| "plc_step rt port (Plc_Restart env) (plc, w) = (None, plc_restart env plc, w)"
| "plc_step rt port (Elsewhere f) (plc, w) = (None, plc, f w)"

definition plc_effective :: "('w \<Rightarrow> 'p) \<Rightarrow> (plc_ack res \<times> 'w \<times> 'w) option \<Rightarrow> bool" where
  "plc_effective plant_of out =
     (case out of None \<Rightarrow> False
      | Some (result, w, w') \<Rightarrow> plant_of w' \<noteq> plant_of w \<or> (\<exists>k. result = Inr k \<and> pa_status k \<noteq> REJECTED))"

text \<open>The transaction of a call; the other events have none.\<close>

definition event_key :: "runtime \<Rightarrow> (reservation_key \<Rightarrow> string) \<Rightarrow> 'w plc_event \<Rightarrow> string" where
  "event_key rt g event =
     (case event of Plc_Call env x \<Rightarrow> g (reservation_of rt (pq_request x) (cp_base_permit (pq_permit x))) | _ \<Rightarrow> [])"

text \<open>
  What the PLC relies on at the plant: reading and simulating leave the plant alone, and a refused
  application does too.
\<close>

locale plant_port =
  fixes port :: "'w plc_port" and plant_of :: "'w \<Rightarrow> 'p"
  assumes read_keeps: "plant_of (snd (pp_read port w)) = plant_of w"
    and simulate_keeps: "plant_of (snd (pp_simulate port c w)) = plant_of w"
    and refusal_keeps: "pp_apply port x c w = (Inl (PhysicalSimulationError m), w') \<Longrightarrow> plant_of w' = plant_of w"
begin

lemma only_read_keeps: "only_read port w w' \<Longrightarrow> plant_of w' = plant_of w"
  by (auto simp: only_read_def Let_def read_keeps simulate_keeps)

text \<open>A call that has an effect consumed its transaction first, and no call forgets one.\<close>

lemma plc_call_reserves:
  assumes call: "plc_execute rt port env x (plc, w) = (result, plc', w')"
    and mono: "\<And>k rv. f (add_reservation k rv) = insert (g k) (f rv)"
    and new: "\<And>k rv. replay_reason_in rv k = None \<Longrightarrow> g k \<notin> f rv"
  defines "key \<equiv> g (reservation_of rt (pq_request x) (cp_base_permit (pq_permit x)))"
  shows "durable f (sl_file (vp_replay plc)) \<subseteq> durable f (sl_file (vp_replay plc'))"
    "plc_effective plant_of (Some (result, w, w')) \<Longrightarrow>
       key \<notin> durable f (sl_file (vp_replay plc)) \<and> key \<in> durable f (sl_file (vp_replay plc'))"
proof -
  have grows: "f rv \<subseteq> f (add_reservation k rv)" for k rv by (auto simp: mono)
  have reserved: "semantic_reserve fault k sl = (r, sl') \<Longrightarrow> durable f (sl_file sl) \<subseteq> durable f (sl_file sl')"
    for fault k sl r sl' by (erule semantic_reserve_durable(1)) (rule grows)
  from call have "durable f (sl_file (vp_replay plc)) \<subseteq> durable f (sl_file (vp_replay plc')) \<and>
    (plc_effective plant_of (Some (result, w, w')) \<longrightarrow>
       key \<notin> durable f (sl_file (vp_replay plc)) \<and> key \<in> durable f (sl_file (vp_replay plc')))"
  proof (cases rule: plc_execute_cases)
    case stopped
    have "\<not> plc_effective plant_of (Some (result, w, w'))"
      using only_read_keeps [OF stopped(1)] stopped(3)
      by (fastforce simp: plc_effective_def refused_def dest: plc_acknowledge_fields(1))
    moreover have "durable f (sl_file (vp_replay plc)) \<subseteq> durable f (sl_file (vp_replay plc'))"
      using stopped(2) reserved by fastforce
    ultimately show ?thesis by blast
  next
    case (dispatched current fresh sl w1 w2)
    from semantic_reserve_durable(2) [OF dispatched(9), of f, OF grows refl] obtain rv where
      rv: "semantic_load sl = Inr rv" "replay_reason_in rv (reservation_of rt (pq_request x) (cp_base_permit (pq_permit x))) = None"
        "insert key (f rv) \<subseteq> durable f (sl_file (vp_replay plc'))"
      by (auto simp: mono key_def)
    show ?thesis
      using rv new [OF rv(2)] semantic_load_durable(1) [OF rv(1), of f] by (auto simp: dispatched(2) key_def)
  qed
  then show "durable f (sl_file (vp_replay plc)) \<subseteq> durable f (sl_file (vp_replay plc'))"
    "plc_effective plant_of (Some (result, w, w')) \<Longrightarrow>
       key \<notin> durable f (sl_file (vp_replay plc)) \<and> key \<in> durable f (sl_file (vp_replay plc'))" by blast+
qed

lemma plc_field_once:
  assumes mono: "\<And>k rv. f (add_reservation k rv) = insert (g k) (f rv)"
    and new: "\<And>k rv. replay_reason_in rv k = None \<Longrightarrow> g k \<notin> f rv"
  shows "once_only (plc_step rt port) (plc_effective plant_of) (event_key rt g) (\<lambda>s. durable f (sl_file (vp_replay (fst s))))"
proof
  fix event :: "'w plc_event" and s out s'
  assume step: "plc_step rt port event s = (out, s')"
  obtain plc w plc' w' where s: "s = (plc, w)" "s' = (plc', w')" by (cases s, cases s') auto
  have all: "durable f (sl_file (vp_replay plc)) \<subseteq> durable f (sl_file (vp_replay plc')) \<and>
    (plc_effective plant_of out \<longrightarrow> event_key rt g event \<notin> durable f (sl_file (vp_replay plc)) \<and>
       event_key rt g event \<in> durable f (sl_file (vp_replay plc')))"
  proof (cases event)
    case (Plc_Call env x)
    obtain result where call: "plc_execute rt port env x (plc, w) = (result, plc', w')" "out = Some (result, w, w')"
      using step by (auto simp: s Plc_Call split: prod.splits)
    from plc_call_reserves [OF call(1), of f g] mono new show ?thesis by (simp add: call(2) event_key_def Plc_Call)
  next
    case (Plc_Restart env)
    have "durable f (sl_file (vp_replay plc)) \<subseteq> durable f (sl_file (vp_replay (plc_restart env plc)))"
    proof -
      let ?call = "Reopen (pr_lock_free env) (pr_initialize env) (pr_fault env)"
      have "vp_replay (plc_restart env plc) = snd (semantic_step ?call (vp_replay plc))" by (simp add: plc_restart_def)
      moreover have "durable f (sl_file (vp_replay plc)) \<subseteq> durable f (sl_file (snd (semantic_step ?call (vp_replay plc))))"
        by (rule semantic_step_durable [OF prod.collapse [symmetric]]) (auto simp: mono)
      ultimately show ?thesis by simp
    qed
    then show ?thesis using step by (simp add: s Plc_Restart plc_effective_def)
  next
    case (Elsewhere h)
    then show ?thesis using step by (auto simp: s plc_effective_def)
  qed
  show "durable f (sl_file (vp_replay (fst s))) \<subseteq> durable f (sl_file (vp_replay (fst s')))" using all by (simp add: s)
  assume "plc_effective plant_of out"
  then show "event_key rt g event \<notin> durable f (sl_file (vp_replay (fst s)))"
    "event_key rt g event \<in> durable f (sl_file (vp_replay (fst s')))" using all by (simp_all add: s)
qed

lemma plc_acts_at_most_once:
  "distinct (accepted_keys (plc_effective plant_of) (event_key rt rk_request_digest) (fst (run_steps (plc_step rt port) events s)))"
  "distinct (accepted_keys (plc_effective plant_of) (event_key rt rk_permit_id) (fst (run_steps (plc_step rt port) events s)))"
  "distinct (accepted_keys (plc_effective plant_of) (event_key rt rk_permit_nonce) (fst (run_steps (plc_step rt port) events s)))"
  "distinct (accepted_keys (plc_effective plant_of) (event_key rt rk_command_id) (fst (run_steps (plc_step rt port) events s)))"
proof -
  note once = once_only.accepted_distinct [OF plc_field_once]
  show "distinct (accepted_keys (plc_effective plant_of) (event_key rt rk_request_digest)
      (fst (run_steps (plc_step rt port) events s)))"
    by (rule once [of rv_request_digests]) (simp_all add: add_reservation_def replay_reason_in_None)
  show "distinct (accepted_keys (plc_effective plant_of) (event_key rt rk_permit_id)
      (fst (run_steps (plc_step rt port) events s)))"
    by (rule once [of rv_permit_ids]) (simp_all add: add_reservation_def replay_reason_in_None)
  show "distinct (accepted_keys (plc_effective plant_of) (event_key rt rk_permit_nonce)
      (fst (run_steps (plc_step rt port) events s)))"
    by (rule once [of rv_permit_nonces]) (simp_all add: add_reservation_def replay_reason_in_None)
  show "distinct (accepted_keys (plc_effective plant_of) (event_key rt rk_command_id)
      (fst (run_steps (plc_step rt port) events s)))"
    by (rule once [of rv_command_ids]) (simp_all add: add_reservation_def replay_reason_in_None)
qed

text \<open>An acknowledged rejection means that the plant did not move.\<close>

lemma rejection_truthful:
  assumes call: "plc_execute rt port env x (plc, w) = (Inr k, plc', w')" and k: "pa_status k = REJECTED"
  shows "plant_of w' = plant_of w"
  using call
proof (cases rule: plc_execute_cases)
  case stopped
  then show ?thesis by (simp add: only_read_keeps)
next
  case (dispatched current fresh sl w1 w2)
  have w2: "plant_of w2 = plant_of w"
    using dispatched(1,4) read_keeps [of w] simulate_keeps [of _ w1] by (metis snd_conv)
  from dispatched(11) show ?thesis
  proof (cases rule: plc_dispatch_cases)
    case (1 plant_result w3)
    from 1(3) [OF refl] k obtain reason where "plant_result = Inl (PhysicalSimulationError reason)"
      by (auto dest: plc_acknowledge_fields(1))
    then have "plant_of w3 = plant_of w2" using refusal_keeps 1(1) by simp
    then show ?thesis using 1(2) w2 read_keeps [of w3] by auto
  qed
qed

end

text \<open>
  A port that tells the truth about the plant behind it: a state that it reports is the state of the
  plant, and the state that an application returns is the state it left. A port may always fail instead.
\<close>

locale reading_port = plant_port port plant_of
  for port :: "'w plc_port" and plant_of :: "'w \<Rightarrow> 'p" +
  fixes reads :: "'p \<Rightarrow> snapshot res" and inv :: "'p \<Rightarrow> bool"
  assumes read_true: "pp_read port w = (Inr s, w') \<Longrightarrow> reads (plant_of w) = Inr s"
    and applied_true: "inv (plant_of w) \<Longrightarrow> pp_apply port x c w = (Inr s, w') \<Longrightarrow> reads (plant_of w') = Inr s"
begin

lemma dispatched_facts:
  assumes "pp_read port w = (Inr current, w1)" "pp_simulate port c w1 = (r, w2)"
  shows "reads (plant_of w) = Inr current" "plant_of w2 = plant_of w"
  using read_true [OF assms(1)] read_keeps [of w] simulate_keeps [of c w1] assms by simp_all

lemma effect_authorized:
  assumes call: "plc_execute rt port env x (plc, w) = (result, plc', w')" and moved: "plant_of w' \<noteq> plant_of w"
  shows "\<exists>current. reads (plant_of w) = Inr current \<and> first_failed (plc_checks rt plc x current (px_clock env 0)) = None \<and>
    px_clock env 2 < ep_expires_at (cp_base_permit (pq_permit x)) \<and>
    ep_permit_id (cp_base_permit (pq_permit x)) \<notin> durable rv_permit_ids (sl_file (vp_replay plc)) \<and>
    ep_permit_id (cp_base_permit (pq_permit x)) \<in> durable rv_permit_ids (sl_file (vp_replay plc'))"
  using call
proof (cases rule: plc_execute_cases)
  case stopped
  then show ?thesis using moved by (simp add: only_read_keeps)
next
  case (dispatched current fresh sl w1 w2)
  have "plc_effective plant_of (Some (result, w, w'))" using moved by (simp add: plc_effective_def)
  from plc_call_reserves(2) [OF call _ _ this, of rv_permit_ids rk_permit_id]
  have "ep_permit_id (cp_base_permit (pq_permit x)) \<notin> durable rv_permit_ids (sl_file (vp_replay plc)) \<and>
      ep_permit_id (cp_base_permit (pq_permit x)) \<in> durable rv_permit_ids (sl_file (vp_replay plc'))"
    by (simp add: add_reservation_def replay_reason_in_None reservation_of_def)
  with dispatched_facts(1) [OF dispatched(1,4)] dispatched(3,8) show ?thesis by simp
qed

text \<open>Every acknowledgment tells the truth about the plant.\<close>

lemma acknowledgment_truthful:
  assumes call: "plc_execute rt port env x (plc, w) = (Inr k, plc', w')" and inv: "inv (plant_of w)"
  shows "case pa_status k of
      APPLIED \<Rightarrow> reads (plant_of w) = Inr (pa_pre_state k) \<and>
        first_failed (plc_checks rt plc x (pa_pre_state k) (px_clock env 0)) = None \<and>
        (\<exists>post. reads (plant_of w') = Inr post \<and> \<not> ps_unsafe_state post \<and>
           ps_state_digest post = ep_expected_post_state_digest (cp_base_permit (pq_permit x)) \<and>
           ps_state_version post = ep_expected_post_state_version (cp_base_permit (pq_permit x)) \<and>
           ps_topology_digest post = ep_expected_post_topology_digest (cp_base_permit (pq_permit x)) \<and>
           pa_post_state_digest k = Some (ps_state_digest post) \<and> pa_post_state_version k = Some (ps_state_version post) \<and>
           pa_post_actuator_setpoint k = Some (actuator_setpoint post (ep_command (cp_base_permit (pq_permit x)))))
    | REJECTED \<Rightarrow> plant_of w' = plant_of w
    | UNKNOWN_EFFECT \<Rightarrow> ep_permit_id (cp_base_permit (pq_permit x)) \<in> durable rv_permit_ids (sl_file (vp_replay plc'))"
proof (cases "pa_status k")
  case REJECTED
  then show ?thesis using rejection_truthful [OF call] by simp
next
  case UNKNOWN_EFFECT
  then have "plc_effective plant_of (Some (Inr k, w, w'))" by (simp add: plc_effective_def)
  from plc_call_reserves(2) [OF call _ _ this, of rv_permit_ids rk_permit_id] UNKNOWN_EFFECT show ?thesis
    by (simp add: add_reservation_def replay_reason_in_None reservation_of_def)
next
  case APPLIED
  show ?thesis using call
  proof (cases rule: plc_execute_cases)
    case stopped
    then show ?thesis using APPLIED by (auto simp: refused_def dest: plc_acknowledge_fields(1))
  next
    case (dispatched current fresh sl w1 w2)
    note facts = dispatched_facts [OF dispatched(1,4)]
    from dispatched(11) show ?thesis
    proof (cases rule: plc_dispatch_cases)
      case (1 plant_result w3)
      from 1(3) [OF refl] obtain status phase reason pre post where
        ack: "plc_acknowledge rt env (scanned_plc plc) (pq_request x) (pq_permit x) status phase reason (px_clock env 3)
            pre post = Inr k"
        and answer: "case status of
           APPLIED \<Rightarrow> pre = current \<and> (\<exists>s. plant_result = Inr s \<and> post = Some s \<and> \<not> ps_unsafe_state s \<and>
             ps_state_digest s = ep_expected_post_state_digest (cp_base_permit (pq_permit x)) \<and>
             ps_state_version s = ep_expected_post_state_version (cp_base_permit (pq_permit x)) \<and>
             ps_topology_digest s = ep_expected_post_topology_digest (cp_base_permit (pq_permit x)))
         | REJECTED \<Rightarrow> plant_result = Inl (PhysicalSimulationError reason) \<and> post = None \<and> phase = Known_No_Effect \<and>
             (if reason \<in> set cas_reasons then fst (pp_read port w3) = Inr pre else pre = current)
         | UNKNOWN_EFFECT \<Rightarrow> pre = current \<and> post = None"
        by blast
      have "status = APPLIED" using plc_acknowledge_fields(1) [OF ack] APPLIED by simp
      with answer obtain s where pre: "pre = current" and post: "plant_result = Inr s" "post = Some s" "\<not> ps_unsafe_state s"
          "ps_state_digest s = ep_expected_post_state_digest (cp_base_permit (pq_permit x))"
          "ps_state_version s = ep_expected_post_state_version (cp_base_permit (pq_permit x))"
          "ps_topology_digest s = ep_expected_post_topology_digest (cp_base_permit (pq_permit x))"
        by auto
      have "reads (plant_of w3) = Inr s" using applied_true [of w2] 1(1) inv facts(2) post(1) by simp
      moreover have "plant_of w' = plant_of w3" using 1(2) read_keeps [of w3] by auto
      ultimately show ?thesis
        using APPLIED facts(1) dispatched(3) pre post plc_acknowledge_fields(18,21,22,25) [OF ack] by simp
    qed
  qed
qed

end

end
