(* ===== verification/Capability_Plant.thy ===== *)
theory Capability_Plant
  imports Capability_Plc
begin

text \<open>
  \<^verbatim>\<open>capability_plant.py\<close>: the process that owns the plant, the allowlist of operations per endpoint role and
  the clients that hold the other ends. A request is the operation with its decoded arguments, or the
  error that decoding them raised; what the operating system and the child processes contribute to an
  exchange is an argument of the step.
\<close>

section \<open>Roles and capabilities\<close>

datatype plant_role = Admin_End | Observer_End | Simulation_End | Plc_End | Plc_Restart_End

definition plant_capabilities :: "plant_role \<Rightarrow> string set" where
  "plant_capabilities role =
     (case role of
        Admin_End \<Rightarrow> {''health'', ''configure_plc'', ''spawn_replacement_plc'', ''shutdown''}
      | Observer_End \<Rightarrow> {''health'', ''capture_state''}
      | Simulation_End \<Rightarrow> {''health'', ''simulate_candidate''}
      | Plc_End \<Rightarrow> {''health'', ''read_state'', ''simulate_candidate'', ''apply_authorized_command''}
      | Plc_Restart_End \<Rightarrow> {''health'', ''read_state'', ''simulate_candidate'', ''apply_authorized_command''})"

record plc_configuration =
  pg_observer :: observer_identity
  pg_observer_public_key :: public_key
  pg_permit_public_key_b64 :: string
  pg_permit_key_id :: string
  pg_replay_ledger_path :: string

datatype plant_request =
    Plant_Health
  | Plant_Shutdown
  | Configure_Plc "plc_configuration res"
  | Spawn_Replacement_Plc
  | Capture_State
  | Read_State
  | Simulate_Candidate "command res"
  | Apply_Authorized_Command "command res" apply_expectations
  | Other_Operation string

fun plant_operation :: "plant_request \<Rightarrow> string" where
  "plant_operation Plant_Health = ''health''"
| "plant_operation Plant_Shutdown = ''shutdown''"
| "plant_operation (Configure_Plc _) = ''configure_plc''"
| "plant_operation Spawn_Replacement_Plc = ''spawn_replacement_plc''"
| "plant_operation Capture_State = ''capture_state''"
| "plant_operation Read_State = ''read_state''"
| "plant_operation (Simulate_Candidate _) = ''simulate_candidate''"
| "plant_operation (Apply_Authorized_Command _ _) = ''apply_authorized_command''"
| "plant_operation (Other_Operation name) = name"

record plant_health =
  ph_role :: plant_role
  ph_state_version :: int
  ph_state_digest :: string
  ph_apply_requests :: int
  ph_commit_count :: int
  ph_capture_count :: int

datatype plant_reply =
    Health_Reply plant_health
  | Stopping_Reply
  | Plc_Reply "string \<times> string"
  | State_Reply snapshot
  | Assessment_Reply assessment

datatype plant_response =
    Plant_Ok plant_reply
  | Plant_Rejected string "string option"
  | Plant_Error string string

section \<open>The service\<close>

record plant_service =
  sv_plant :: plant
  sv_apply_requests :: int
  sv_commit_count :: int
  sv_capture_count :: int
  sv_running :: bool
  sv_plc_configuration :: "plc_configuration option"
  sv_service_endpoints :: "plant_role set"
  sv_endpoints :: "plant_role set"
  sv_plc_processes :: "plant_role set"

text \<open>
  One exchange: the plant's clock and identifier, whether the first PLC process is still alive after the
  join, what a started child reports, and the text of exceptions the program does not word itself.
\<close>

record service_env =
  se_now :: instant
  se_assessment_id :: string
  se_plc_alive :: bool
  se_child :: "(string \<times> string) res"
  se_text :: "exn \<Rightarrow> string"

definition max_error_reason_chars :: nat where
  "max_error_reason_chars = 2048"

definition bounded_error_reason :: "(exn \<Rightarrow> string) \<Rightarrow> exn \<Rightarrow> string" where
  "bounded_error_reason other e = take max_error_reason_chars (exn_text other e)"

definition spawn_plc :: "service_env \<Rightarrow> plant_role \<Rightarrow> plant_service \<Rightarrow> plant_reply res \<times> plant_service" where
  "spawn_plc env role svc =
     (if sv_plc_configuration svc = None then (Inl (RuntimeError ''PLC configuration is unavailable''), svc)
      else if role \<notin> sv_service_endpoints svc
      then (Inl (RuntimeError ''PLC service capability has already been consumed''), svc)
      else let consumed = svc\<lparr>sv_service_endpoints := sv_service_endpoints svc - {role}\<rparr> in
        case se_child env of
          Inl e \<Rightarrow> (Inl e, consumed)
        | Inr child \<Rightarrow>
            (Inr (Plc_Reply child),
             consumed\<lparr>sv_endpoints := insert role (sv_endpoints svc),
                      sv_plc_processes := insert role (sv_plc_processes svc)\<rparr>))"

fun plant_handle ::
  "runtime \<Rightarrow> pandapower \<Rightarrow> service_env \<Rightarrow> plant_role \<Rightarrow> plant_request \<Rightarrow> plant_service \<Rightarrow> plant_reply res \<times> plant_service"
where
  "plant_handle rt pw env role Plant_Health svc =
     (bind_res (read_state rt pw (sv_plant svc)) (\<lambda>s. Inr (Health_Reply
        \<lparr>ph_role = role, ph_state_version = ps_state_version s, ph_state_digest = ps_state_digest s,
         ph_apply_requests = sv_apply_requests svc, ph_commit_count = sv_commit_count svc,
         ph_capture_count = sv_capture_count svc\<rparr>)), svc)"
| "plant_handle rt pw env role Plant_Shutdown svc = (Inr Stopping_Reply, svc\<lparr>sv_running := False\<rparr>)"
| "plant_handle rt pw env role (Configure_Plc decoded) svc =
     (if sv_plc_configuration svc \<noteq> None then (Inl (ValueError ''PLC configuration is already established''), svc)
      else case decoded of
        Inl e \<Rightarrow> (Inl e, svc)
      | Inr configuration \<Rightarrow> spawn_plc env Plc_End (svc\<lparr>sv_plc_configuration := Some configuration\<rparr>))"
| "plant_handle rt pw env role Spawn_Replacement_Plc svc =
     (if Plc_End \<in> sv_plc_processes svc \<and> se_plc_alive env
      then (Inl (RuntimeError ''active PLC must stop before replacement''), svc)
      else spawn_plc env Plc_Restart_End svc)"
| "plant_handle rt pw env role Capture_State svc =
     (let (result, pl) = capture_state rt pw (se_now env) (sv_plant svc)
      in (bind_res result (\<lambda>s. Inr (State_Reply s)),
          svc\<lparr>sv_capture_count := sv_capture_count svc + 1, sv_plant := pl\<rparr>))"
| "plant_handle rt pw env role Read_State svc =
     (bind_res (read_state rt pw (sv_plant svc)) (\<lambda>s. Inr (State_Reply s)), svc)"
| "plant_handle rt pw env role (Simulate_Candidate decoded) svc =
     (bind_res decoded (\<lambda>c. bind_res (simulate_candidate rt pw (se_assessment_id env) (sv_plant svc) c)
        (\<lambda>a. Inr (Assessment_Reply a))), svc)"
| "plant_handle rt pw env role (Apply_Authorized_Command decoded x) svc =
     (case decoded of
        Inl e \<Rightarrow> (Inl e, svc)
      | Inr c \<Rightarrow>
          let svc1 = svc\<lparr>sv_apply_requests := sv_apply_requests svc + 1\<rparr>;
              (result, pl) = apply_authorized_command rt pw (se_now env) x c (sv_plant svc)
          in case result of
               Inl e \<Rightarrow> (Inl e, svc1\<lparr>sv_plant := pl\<rparr>)
             | Inr s \<Rightarrow> (Inr (State_Reply s), svc1\<lparr>sv_plant := pl, sv_commit_count := sv_commit_count svc + 1\<rparr>))"
| "plant_handle rt pw env role (Other_Operation name) svc =
     (Inl (NamedError ''IpcProtocolError'' ''unreachable plant operation''), svc)"

text \<open>\<^verbatim>\<open>except (KeyError, TypeError, ValidationError, ValueError)\<close>\<close>

definition payload_error :: "exn \<Rightarrow> bool" where
  "payload_error e \<longleftrightarrow> exn_name e \<in> {''KeyError'', ''TypeError'', ''ValidationError'', ''ValueError''}"

definition plant_respond :: "(exn \<Rightarrow> string) \<Rightarrow> plant_reply res \<Rightarrow> plant_response" where
  "plant_respond other result =
     (case result of
        Inr reply \<Rightarrow> Plant_Ok reply
      | Inl e \<Rightarrow>
          let reason = bounded_error_reason other e in
          (case e of
             PhysicalSimulationError _ \<Rightarrow> Plant_Rejected ''physical_simulation_rejected'' (Some reason)
           | _ \<Rightarrow> if payload_error e then Plant_Rejected ''invalid_payload'' (Some reason)
                  else Plant_Error ''plant_internal_error'' reason))"

definition plant_serve ::
  "runtime \<Rightarrow> pandapower \<Rightarrow> service_env \<Rightarrow> plant_role \<Rightarrow> plant_request \<Rightarrow> plant_service \<Rightarrow> plant_response \<times> plant_service" where
  "plant_serve rt pw env role request svc =
     (if plant_operation request \<notin> plant_capabilities role then (Plant_Rejected ''capability_denied'' None, svc)
      else let (result, svc') = plant_handle rt pw env role request svc
           in (plant_respond (se_text env) result, svc'))"

section \<open>The PLC's client\<close>

text \<open>
  What becomes of one exchange over the pipe: the request does not arrive, its answer does not come back,
  or both arrive. A client that missed an answer closes its end.
\<close>

datatype link_fault = Link_Delivers | Request_Lost | Answer_Lost

record exchange_env =
  xe_link :: link_fault
  xe_service :: service_env

record plant_world =
  wd_service :: plant_service
  wd_closed_clients :: "plant_role set"
  wd_exchange :: nat

abbreviation transport_failure :: "string \<Rightarrow> 'a res" where
  "transport_failure m \<equiv> Inl (NamedError ''IpcTransportError'' m)"

abbreviation outcome_unknown :: "string \<Rightarrow> 'a res" where
  "outcome_unknown m \<equiv> Inl (NamedError ''IpcOutcomeUnknownError'' m)"

definition plant_exchange ::
  "runtime \<Rightarrow> pandapower \<Rightarrow> (nat \<Rightarrow> exchange_env) \<Rightarrow> bool \<Rightarrow> plant_role \<Rightarrow> plant_request \<Rightarrow> plant_world \<Rightarrow>
   plant_response res \<times> plant_world" where
  "plant_exchange rt pw sched consequential role request w =
     (if role \<in> wd_closed_clients w then (transport_failure ''IPC client is closed'', w)
      else
        let env = sched (wd_exchange w); w1 = w\<lparr>wd_exchange := wd_exchange w + 1\<rparr>;
            lost = (if consequential then outcome_unknown ''consequential IPC response became unavailable''
                    else transport_failure ''IPC peer became unavailable'')
        in if \<not> sv_running (wd_service w) \<or> role \<notin> sv_endpoints (wd_service w) \<or> xe_link env = Request_Lost
           then (lost, w1\<lparr>wd_closed_clients := insert role (wd_closed_clients w)\<rparr>)
           else let (response, svc) = plant_serve rt pw (xe_service env) role request (wd_service w)
                in if xe_link env = Answer_Lost
                   then (lost, w1\<lparr>wd_service := svc, wd_closed_clients := insert role (wd_closed_clients w)\<rparr>)
                   else (Inr response, w1\<lparr>wd_service := svc\<rparr>))"

text \<open>\<^verbatim>\<open>response.payload.get("reason", response.error_code)\<close>\<close>

definition refusal_reason :: "string \<Rightarrow> string option \<Rightarrow> string" where
  "refusal_reason error_code reason = (case reason of Some r \<Rightarrow> r | None \<Rightarrow> error_code)"

fun plant_payload :: "plant_response \<Rightarrow> plant_reply res" where
  "plant_payload (Plant_Ok reply) = Inr reply"
| "plant_payload (Plant_Rejected code reason) = Inl (NamedError ''PlantCapabilityError'' (refusal_reason code reason))"
| "plant_payload (Plant_Error code reason) = Inl (NamedError ''PlantCapabilityError'' reason)"

text \<open>\<^verbatim>\<open>payload["state"]\<close> and \<^verbatim>\<open>payload["assessment"]\<close>\<close>

fun state_of_reply :: "plant_reply \<Rightarrow> snapshot res" where
  "state_of_reply (State_Reply s) = (if snapshot_valid s then Inr s else Inl ValidationError)"
| "state_of_reply _ = Inl (NamedError ''KeyError'' ''state'')"

fun assessment_of_reply :: "runtime \<Rightarrow> plant_reply \<Rightarrow> assessment res" where
  "assessment_of_reply rt (Assessment_Reply a) = (if assessment_valid rt a then Inr a else Inl ValidationError)"
| "assessment_of_reply rt _ = Inl (NamedError ''KeyError'' ''assessment'')"

definition client_read_state ::
  "runtime \<Rightarrow> pandapower \<Rightarrow> (nat \<Rightarrow> exchange_env) \<Rightarrow> plant_role \<Rightarrow> plant_world \<Rightarrow> snapshot res \<times> plant_world" where
  "client_read_state rt pw sched role w =
     (let (response, w') = plant_exchange rt pw sched False role Read_State w
      in (bind_res response (\<lambda>r. bind_res (plant_payload r) state_of_reply), w'))"

definition client_simulate_candidate ::
  "runtime \<Rightarrow> pandapower \<Rightarrow> (nat \<Rightarrow> exchange_env) \<Rightarrow> plant_role \<Rightarrow> command \<Rightarrow> plant_world \<Rightarrow> assessment res \<times> plant_world" where
  "client_simulate_candidate rt pw sched role c w =
     (let (response, w') = plant_exchange rt pw sched False role (Simulate_Candidate (make_command c)) w
      in (bind_res response (\<lambda>r. bind_res (plant_payload r) (assessment_of_reply rt)), w'))"

definition client_capture_state ::
  "runtime \<Rightarrow> pandapower \<Rightarrow> (nat \<Rightarrow> exchange_env) \<Rightarrow> plant_world \<Rightarrow> snapshot res \<times> plant_world" where
  "client_capture_state rt pw sched w =
     (let (response, w') = plant_exchange rt pw sched False Observer_End Capture_State w
      in (bind_res response (\<lambda>r. bind_res (plant_payload r) state_of_reply), w'))"

text \<open>
  \<^verbatim>\<open>probe_forbidden_apply\<close> of the observer, simulation and admin clients: the service's decision about an
  application that the role does not hold.
\<close>

fun decision_of_response :: "plant_response \<Rightarrow> string" where
  "decision_of_response (Plant_Ok _) = ''ok''"
| "decision_of_response (Plant_Rejected code _) = code"
| "decision_of_response (Plant_Error code _) = code"

definition no_expectations_given :: apply_expectations where
  "no_expectations_given =
     \<lparr>ax_pre_state_version = None, ax_pre_state_digest = None, ax_pre_observation_digest = None,
      ax_post_state_digest = None, ax_post_topology_digest = None, ax_effect_deadline = None,
      ax_effect_clock = None, ax_durable_commit = None\<rparr>"

definition probe_forbidden_apply ::
  "runtime \<Rightarrow> pandapower \<Rightarrow> (nat \<Rightarrow> exchange_env) \<Rightarrow> plant_role \<Rightarrow> command \<Rightarrow> plant_world \<Rightarrow> string res \<times> plant_world" where
  "probe_forbidden_apply rt pw sched role c w =
     (let (response, w') = plant_exchange rt pw sched False role
            (Apply_Authorized_Command (make_command c) no_expectations_given) w
      in (bind_res response (\<lambda>r. Inr (decision_of_response r)), w'))"

text \<open>
  Only a refusal by the service is a physical rejection; every other way of not getting the committed state
  leaves the effect unknown.
\<close>

definition applied_state :: "plant_response \<Rightarrow> snapshot res" where
  "applied_state response =
     (case response of
        Plant_Error _ _ \<Rightarrow> outcome_unknown ''plant apply response reported an internal error''
      | Plant_Rejected code reason \<Rightarrow> Inl (PhysicalSimulationError (refusal_reason code reason))
      | Plant_Ok reply \<Rightarrow>
          (case state_of_reply reply of
             Inr s \<Rightarrow> Inr s
           | Inl _ \<Rightarrow> outcome_unknown ''plant apply response contained an invalid committed-state payload''))"

definition client_apply ::
  "runtime \<Rightarrow> pandapower \<Rightarrow> (nat \<Rightarrow> exchange_env) \<Rightarrow> plant_role \<Rightarrow> apply_expectations \<Rightarrow> command \<Rightarrow> plant_world \<Rightarrow>
   snapshot res \<times> plant_world" where
  "client_apply rt pw sched role x c w =
     (let (response, w') = plant_exchange rt pw sched True role (Apply_Authorized_Command (make_command c) x) w
      in (bind_res response applied_state, w'))"

definition plc_plant_client :: "runtime \<Rightarrow> pandapower \<Rightarrow> (nat \<Rightarrow> exchange_env) \<Rightarrow> plant_role \<Rightarrow> plant_world plc_port" where
  "plc_plant_client rt pw sched role =
     \<lparr>pp_read = client_read_state rt pw sched role, pp_simulate = client_simulate_candidate rt pw sched role,
      pp_apply = client_apply rt pw sched role, pp_deadline = False\<rparr>"

section \<open>Who can move the plant\<close>

text \<open>The part of the plant that a command changes; an observation only advances the observation envelope.\<close>

definition physical :: "plant_service \<Rightarrow> network \<times> pyfloat \<times> int" where
  "physical svc = (pl_net (sv_plant svc), pl_simulation_time_s (sv_plant svc), pl_state_version (sv_plant svc))"

lemma spawn_plc_keeps:
  "spawn_plc env role svc = (r, svc') \<Longrightarrow> sv_plant svc' = sv_plant svc \<and> sv_apply_requests svc' = sv_apply_requests svc \<and>
     sv_commit_count svc' = sv_commit_count svc"
  by (auto simp: spawn_plc_def Let_def split: sum.splits if_splits)

lemma applied_version_step:
  assumes "apply_authorized_command rt pw now x c pl = (Inr s, pl')"
  shows "pl_state_version pl' = pl_state_version pl + 1"
  using assms by (auto simp: apply_authorized_command_def prepare_command_def Let_def case_prod_beta res_simps split: sum.splits)

lemma apply_failed: "apply_authorized_command rt pw now x c pl = (Inl e, pl') \<Longrightarrow> pl' = pl"
  by (auto simp: apply_authorized_command_def split: sum.splits)

lemma plant_handle_physical:
  assumes "plant_handle rt pw env role request svc = (result, svc')"
  shows "(\<exists>decoded x. request = Apply_Authorized_Command decoded x) \<or> physical svc' = physical svc"
  using assms by (cases request)
    (auto simp: physical_def capture_state_def Let_def dest!: spawn_plc_keeps split: if_splits sum.splits)

text \<open>
  Every change of the physical state is a commit of the apply operation at a PLC endpoint, and the state
  version counts the commits.
\<close>

fun is_commit :: "(service_env \<times> plant_role \<times> plant_request) \<times> plant_response \<Rightarrow> bool" where
  "is_commit ((env, role, Apply_Authorized_Command (Inr c) x), Plant_Ok (State_Reply s)) = (role \<in> {Plc_End, Plc_Restart_End})"
| "is_commit _ = False"

lemma not_commit: "\<nexists>reply. response = Plant_Ok reply \<Longrightarrow> \<not> is_commit ((env, role, request), response)"
  by (cases "((env, role, request), response)" rule: is_commit.cases) auto

lemma respond_error: "plant_respond t (Inl e) \<noteq> Plant_Ok reply"
  by (cases e) (auto simp: plant_respond_def Let_def)

lemma plant_serve_step:
  assumes "plant_serve rt pw env role request svc = (response, svc')"
  shows "is_commit ((env, role, request), response) \<and>
      (\<exists>c x s. request = Apply_Authorized_Command (Inr c) x \<and> response = Plant_Ok (State_Reply s) \<and>
         apply_authorized_command rt pw (se_now env) x c (sv_plant svc) = (Inr s, sv_plant svc')) \<and>
      pl_state_version (sv_plant svc') = pl_state_version (sv_plant svc) + 1 \<and>
      sv_commit_count svc' = sv_commit_count svc + 1 \<and> sv_apply_requests svc' = sv_apply_requests svc + 1 \<or>
    \<not> is_commit ((env, role, request), response) \<and> physical svc' = physical svc \<and>
      sv_commit_count svc' = sv_commit_count svc \<and> sv_apply_requests svc \<le> sv_apply_requests svc'"
proof (cases "plant_operation request \<in> plant_capabilities role")
  case False
  then show ?thesis using assms by (auto simp: plant_serve_def not_commit)
next
  case True
  then obtain result where handle: "plant_handle rt pw env role request svc = (result, svc')"
    and response: "response = plant_respond (se_text env) result"
    using assms by (auto simp: plant_serve_def split: prod.splits)
  show ?thesis
  proof (cases "\<exists>decoded x. request = Apply_Authorized_Command decoded x")
    case False
    then show ?thesis
      using handle plant_handle_physical [OF handle]
      by (cases request) (auto simp: capture_state_def Let_def dest!: spawn_plc_keeps split: if_splits sum.splits)
  next
    case True
    then obtain decoded x where req: "request = Apply_Authorized_Command decoded x" by blast
    have role: "role \<in> {Plc_End, Plc_Restart_End}"
      using \<open>plant_operation request \<in> plant_capabilities role\<close> by (cases role) (simp_all add: req plant_capabilities_def)
    show ?thesis
    proof (cases decoded)
      case (Inl e)
      then show ?thesis using handle by (simp add: req response respond_error not_commit)
    next
      case (Inr c)
      obtain r pl where app: "apply_authorized_command rt pw (se_now env) x c (sv_plant svc) = (r, pl)" by fastforce
      show ?thesis
      proof (cases r)
        case failed: (Inl e)
        then show ?thesis using handle Inr app apply_failed [of rt pw "se_now env" x c "sv_plant svc" e pl]
          by (auto simp: req response respond_error not_commit physical_def)
      next
        case applied: (Inr s)
        then show ?thesis using handle Inr app role applied_version_step [of rt pw "se_now env" x c "sv_plant svc" s pl]
          by (auto simp: req response plant_respond_def)
      qed
    qed
  qed
qed

section \<open>The client is a truthful port\<close>

lemma plant_exchange_cases:
  assumes "plant_exchange rt pw sched cons role request w = (result, w')"
  obtains (failed) e m where "result = Inl (NamedError e m)"
      "wd_service w' = wd_service w \<or> (\<exists>env response. plant_serve rt pw env role request (wd_service w) = (response, wd_service w'))"
  | (served) env response where "result = Inr response" "plant_serve rt pw env role request (wd_service w) = (response, wd_service w')"
proof -
  let ?env = "xe_service (sched (wd_exchange w))"
  obtain response svc where serve: "plant_serve rt pw ?env role request (wd_service w) = (response, svc)" by fastforce
  consider "wd_service w' = wd_service w" "\<exists>e m. result = Inl (NamedError e m)"
    | "wd_service w' = svc" "\<exists>e m. result = Inl (NamedError e m)"
    | "wd_service w' = svc" "result = Inr response"
    using assms serve by (auto simp: plant_exchange_def Let_def split: if_splits)
  then show thesis using serve that by cases blast+
qed

lemma plant_serve_read:
  assumes "plant_serve rt pw env role Read_State svc = (response, svc')"
  shows "svc' = svc" "bind_res (plant_payload response) state_of_reply = Inr s \<Longrightarrow> read_state rt pw (sv_plant svc) = Inr s"
  using assms
  by (auto simp: plant_serve_def plant_respond_def res_simps Let_def split: if_splits sum.splits exn.splits)

lemma plant_serve_simulate:
  "plant_serve rt pw env role (Simulate_Candidate decoded) svc = (response, svc') \<Longrightarrow> svc' = svc"
  by (auto simp: plant_serve_def split: if_splits)

lemma plant_serve_apply:
  assumes "plant_serve rt pw env role (Apply_Authorized_Command decoded x) svc = (response, svc')"
  shows "applied_state response = Inl (PhysicalSimulationError m) \<Longrightarrow> sv_plant svc' = sv_plant svc"
    "applied_state response = Inr s \<Longrightarrow> \<exists>c. apply_authorized_command rt pw (se_now env) x c (sv_plant svc) = (Inr s, sv_plant svc')"
proof -
  consider (denied) "response = Plant_Rejected ''capability_denied'' None" "svc' = svc"
    | (undecoded) e where "decoded = Inl e" "response = plant_respond (se_text env) (Inl e)" "svc' = svc"
    | (failed) c e where "apply_authorized_command rt pw (se_now env) x c (sv_plant svc) = (Inl e, sv_plant svc')"
        "response = plant_respond (se_text env) (Inl e)"
    | (applied) c q where "apply_authorized_command rt pw (se_now env) x c (sv_plant svc) = (Inr q, sv_plant svc')"
        "response = Plant_Ok (State_Reply q)"
    using assms
    by (cases decoded) (auto simp: plant_serve_def plant_respond_def Let_def split: if_splits prod.splits sum.splits)
  note cases = this
  have no_state: "applied_state (plant_respond t (Inl e)) \<noteq> Inr q" for t e q
    by (cases e) (auto simp: plant_respond_def applied_state_def Let_def)
  show "sv_plant svc' = sv_plant svc" if "applied_state response = Inl (PhysicalSimulationError m)"
    using cases
  proof cases
    case applied
    with that show ?thesis by (auto simp: applied_state_def split: sum.splits)
  qed (auto dest: apply_failed)
  show "\<exists>c. apply_authorized_command rt pw (se_now env) x c (sv_plant svc) = (Inr s, sv_plant svc')"
    if "applied_state response = Inr s"
    using cases
  proof cases
    case denied
    with that show ?thesis by (simp add: applied_state_def)
  next
    case undecoded
    with that no_state show ?thesis by simp
  next
    case failed
    with that no_state show ?thesis by simp
  next
    case (applied c q)
    then have "q = s" using that by (auto simp: applied_state_def split: sum.splits if_splits)
    with applied show ?thesis by blast
  qed
qed

lemma client_read_state_keeps:
  assumes "client_read_state rt pw sched role w = (r, w')"
  shows "wd_service w' = wd_service w" "r = Inr s \<Longrightarrow> read_state rt pw (sv_plant (wd_service w)) = Inr s"
proof -
  obtain response where ex: "plant_exchange rt pw sched False role Read_State w = (response, w')"
    and r: "r = bind_res response (\<lambda>q. bind_res (plant_payload q) state_of_reply)"
    using assms by (auto simp: client_read_state_def split: prod.splits)
  from ex have "wd_service w' = wd_service w \<and> (r = Inr s \<longrightarrow> read_state rt pw (sv_plant (wd_service w)) = Inr s)"
  proof (cases rule: plant_exchange_cases)
    case failed
    then show ?thesis using plant_serve_read(1) by (auto simp: r)
  next
    case (served env resp)
    then show ?thesis using plant_serve_read [OF served(2)] by (auto simp: r)
  qed
  then show "wd_service w' = wd_service w" "r = Inr s \<Longrightarrow> read_state rt pw (sv_plant (wd_service w)) = Inr s" by blast+
qed

lemma client_simulate_keeps:
  assumes "client_simulate_candidate rt pw sched role c w = (r, w')"
  shows "wd_service w' = wd_service w"
proof -
  obtain response where ex: "plant_exchange rt pw sched False role (Simulate_Candidate (make_command c)) w = (response, w')"
    using assms by (auto simp: client_simulate_candidate_def split: prod.splits)
  from ex show ?thesis by (cases rule: plant_exchange_cases) (auto dest: plant_serve_simulate)
qed

lemma client_apply_plant:
  assumes "client_apply rt pw sched role x c w = (r, w')"
  shows "r = Inl (PhysicalSimulationError m) \<Longrightarrow> sv_plant (wd_service w') = sv_plant (wd_service w)"
    "r = Inr s \<Longrightarrow> \<exists>now c. apply_authorized_command rt pw now x c (sv_plant (wd_service w)) = (Inr s, sv_plant (wd_service w'))"
proof -
  obtain response where ex: "plant_exchange rt pw sched True role (Apply_Authorized_Command (make_command c) x) w = (response, w')"
    and r: "r = bind_res response applied_state"
    using assms by (auto simp: client_apply_def split: prod.splits)
  from ex have "(r = Inl (PhysicalSimulationError m) \<longrightarrow> sv_plant (wd_service w') = sv_plant (wd_service w)) \<and>
    (r = Inr s \<longrightarrow> (\<exists>now c. apply_authorized_command rt pw now x c (sv_plant (wd_service w)) = (Inr s, sv_plant (wd_service w'))))"
  proof (cases rule: plant_exchange_cases)
    case failed
    then show ?thesis by (simp add: r)
  next
    case (served env resp)
    then show ?thesis using plant_serve_apply [OF served(2)] by (fastforce simp: r)
  qed
  then show "r = Inl (PhysicalSimulationError m) \<Longrightarrow> sv_plant (wd_service w') = sv_plant (wd_service w)"
    "r = Inr s \<Longrightarrow> \<exists>now c. apply_authorized_command rt pw now x c (sv_plant (wd_service w)) = (Inr s, sv_plant (wd_service w'))"
    by blast+
qed

text \<open>An observation leaves the physical state alone, and so does a probe by a role without the capability.\<close>

lemma served_physical:
  assumes "plant_exchange rt pw sched cons role request w = (result, w')" "role \<notin> {Plc_End, Plc_Restart_End}"
  shows "physical (wd_service w') = physical (wd_service w)"
proof -
  have served: "plant_serve rt pw env role request (wd_service w) = (response, wd_service w') \<Longrightarrow> ?thesis" for env response
    using plant_serve_step [of rt pw env role request "wd_service w" response "wd_service w'"] assms(2)
    by (cases "((env, role, request), response)" rule: is_commit.cases) auto
  from assms(1) show ?thesis by (cases rule: plant_exchange_cases) (auto dest: served)
qed

lemma capture_physical:
  "client_capture_state rt pw sched w = (r, w') \<Longrightarrow> physical (wd_service w') = physical (wd_service w)"
  by (auto simp: client_capture_state_def dest: served_physical split: prod.splits)

lemma probe_physical:
  "probe_forbidden_apply rt pw sched role c w = (r, w') \<Longrightarrow> role \<notin> {Plc_End, Plc_Restart_End} \<Longrightarrow>
   physical (wd_service w') = physical (wd_service w)"
  by (auto simp: probe_forbidden_apply_def dest: served_physical split: prod.splits)

text \<open>A captured state is the state of the plant that the capture left.\<close>

lemma plant_serve_capture:
  assumes "plant_serve rt pw env role Capture_State svc = (response, svc')" "bind_res (plant_payload response) state_of_reply = Inr s"
  shows "read_state rt pw (sv_plant svc') = Inr s"
  using assms by (auto simp: plant_serve_def plant_respond_def capture_state_def res_simps Let_def
      split: if_splits sum.splits exn.splits)

lemma capture_true:
  assumes "client_capture_state rt pw sched w = (Inr s, w')"
  shows "read_state rt pw (sv_plant (wd_service w')) = Inr s"
proof -
  obtain response where ex: "plant_exchange rt pw sched False Observer_End Capture_State w = (response, w')"
    and r: "bind_res response (\<lambda>q. bind_res (plant_payload q) state_of_reply) = Inr s"
    using assms by (auto simp: client_capture_state_def split: prod.splits)
  from ex show ?thesis
  proof (cases rule: plant_exchange_cases)
    case (served env resp)
    then show ?thesis using r plant_serve_capture [OF served(2)] by simp
  qed (use r in simp)
qed

interpretation plc_link: reading_port "plc_plant_client rt pw sched role" "\<lambda>w. sv_plant (wd_service w)"
  "read_state rt pw" "plant_inv pw"
proof unfold_locales
  fix w x c s w' m
  let ?port = "plc_plant_client rt pw sched role"
  show "sv_plant (wd_service (snd (pp_read ?port w))) = sv_plant (wd_service w)"
    by (simp add: plc_plant_client_def client_read_state_keeps(1) [OF prod.collapse [symmetric]])
  show "sv_plant (wd_service (snd (pp_simulate ?port c w))) = sv_plant (wd_service w)"
    by (simp add: plc_plant_client_def client_simulate_keeps [OF prod.collapse [symmetric]])
  show "pp_apply ?port x c w = (Inl (PhysicalSimulationError m), w') \<Longrightarrow> sv_plant (wd_service w') = sv_plant (wd_service w)"
    using client_apply_plant(1) by (simp add: plc_plant_client_def)
  show "pp_read ?port w = (Inr s, w') \<Longrightarrow> read_state rt pw (sv_plant (wd_service w)) = Inr s"
    using client_read_state_keeps(2) by (simp add: plc_plant_client_def)
  assume inv: "plant_inv pw (sv_plant (wd_service w))" and app: "pp_apply ?port x c w = (Inr s, w')"
  then obtain now c' where "apply_authorized_command rt pw now x c' (sv_plant (wd_service w)) = (Inr s, sv_plant (wd_service w'))"
    using client_apply_plant(2) by (fastforce simp: plc_plant_client_def)
  then show "read_state rt pw (sv_plant (wd_service w')) = Inr s"
    using inv by (auto simp: applied_prepared plant_inv_def dest: apply_read_back)
qed

section \<open>Runs of the service\<close>

definition plant_step ::
  "runtime \<Rightarrow> pandapower \<Rightarrow> service_env \<times> plant_role \<times> plant_request \<Rightarrow> plant_service \<Rightarrow> plant_response \<times> plant_service" where
  "plant_step rt pw = (\<lambda>(env, role, request). plant_serve rt pw env role request)"

text \<open>
  (C10) The plant moves only through a PLC endpoint: whatever requests the five roles send in whatever
  order, the state version counts exactly the applications that a PLC endpoint had acknowledged as
  committed, no more than were asked for, and without such a commit the network, the simulated time and the
  state version are as they were.
\<close>
theorem only_plc_moves_plant:
  "let (calls, svc') = run_steps (plant_step rt pw) inputs svc;
       commits = int (length (filter is_commit calls))
   in pl_state_version (sv_plant svc') = pl_state_version (sv_plant svc) + commits \<and>
      sv_commit_count svc' = sv_commit_count svc + commits \<and>
      commits \<le> sv_apply_requests svc' - sv_apply_requests svc \<and>
      (physical svc' = physical svc \<or> 0 < commits)"
proof (induction inputs arbitrary: svc)
  case (Cons i inputs)
  obtain env role request where i: "i = (env, role, request)" by (cases i)
  obtain response svc1 where step: "plant_serve rt pw env role request svc = (response, svc1)" by fastforce
  then have first: "plant_step rt pw i svc = (response, svc1)" by (simp add: plant_step_def i)
  show ?case
    using Cons.IH [of svc1] plant_serve_step [OF step] first
    by (cases "run_steps (plant_step rt pw) inputs svc1") (auto simp: Let_def i physical_def)
qed simp

text \<open>
  (C11) The PLC acts at most once per transaction: in any sequence of calls, restarts on the same ledger and
  steps of other processes, with ledger updates that fail at any point and exchanges with the plant that
  are lost on either way, no two calls that move the plant or leave the effect open carry the same request
  digest, permit identifier, permit nonce or command identifier.
\<close>
theorem plc_acts_once:
  "let calls = fst (run_steps (plc_step rt (plc_plant_client rt pw sched role)) events s);
       acted = plc_effective (\<lambda>w. sv_plant (wd_service w))
   in distinct (accepted_keys acted (event_key rt rk_request_digest) calls) \<and>
      distinct (accepted_keys acted (event_key rt rk_permit_id) calls) \<and>
      distinct (accepted_keys acted (event_key rt rk_permit_nonce) calls) \<and>
      distinct (accepted_keys acted (event_key rt rk_command_id) calls)"
  unfolding Let_def by (intro conjI plc_link.plc_acts_at_most_once)

text \<open>
  (C7) The PLC moves the plant only when it is authorized to: after any call the plant is as before, or the
  state that the plant had passed every check of the PLC against the permit, the observation, the decision
  and the assessment, the permit was in force at the last look at the clock, and its identifier was put on
  disk by this call and was not there before.
\<close>
theorem plc_effect_authorized:
  "let (result, plc', w') = plc_execute rt (plc_plant_client rt pw sched role) env x (plc, w);
       p = pq_permit x; base = cp_base_permit p
   in sv_plant (wd_service w') = sv_plant (wd_service w) \<or>
      (\<exists>current. read_state rt pw (sv_plant (wd_service w)) = Inr current \<and>
         capability_permit_verify rt p (vp_permit_public_key plc) \<and> cp_target_plc_id p = vp_plc_id plc \<and>
         cp_target_plc_boot_epoch p = vp_boot_epoch plc \<and> cp_request_digest p = request_digest rt (pq_request x) \<and>
         observation_verify rt (pq_pre_observation x) (vp_observer_public_key plc) \<and>
         so_envelope_digest (pq_pre_observation x) = cp_observation_envelope_digest p \<and>
         dec_outcome (pq_decision x) = PERMIT \<and> ep_decision_id base = dec_decision_id (pq_decision x) \<and>
         ep_proposal_digest base = proposal_digest rt (ar_proposal (pq_request x)) \<and>
         ca_safe (pq_assessment x) \<and> ep_assessment_digest base = assessment_digest rt (pq_assessment x) \<and>
         ps_state_version current = ep_state_version base \<and> ps_state_digest current = ep_state_digest base \<and>
         ps_observation_digest current = ep_observation_digest base \<and>
         ep_issued_at base \<le> px_clock env 0 \<and> px_clock env 2 < ep_expires_at base \<and>
         ep_permit_id base \<in> durable rv_permit_ids (sl_file (vp_replay plc')) - durable rv_permit_ids (sl_file (vp_replay plc)))"
proof -
  obtain result plc' w' where call: "plc_execute rt (plc_plant_client rt pw sched role) env x (plc, w) = (result, plc', w')"
    by (metis prod.exhaust)
  show ?thesis
  proof (cases "sv_plant (wd_service w') = sv_plant (wd_service w)")
    case True
    then show ?thesis by (simp add: call)
  next
    case False
    from plc_link.effect_authorized [OF call False] obtain current where
      current: "read_state rt pw (sv_plant (wd_service w)) = Inr current"
        "first_failed (plc_checks rt plc x current (px_clock env 0)) = None"
        "px_clock env 2 < ep_expires_at (cp_base_permit (pq_permit x))"
        "ep_permit_id (cp_base_permit (pq_permit x)) \<notin> durable rv_permit_ids (sl_file (vp_replay plc))"
        "ep_permit_id (cp_base_permit (pq_permit x)) \<in> durable rv_permit_ids (sl_file (vp_replay plc'))"
      by blast
    from plc_checks_passed [OF current(2)] current show ?thesis by (auto simp: call)
  qed
qed

end
