(* ===== verification/Capability_Control.thy ===== *)
theory Capability_Control
  imports Capability_Plant
begin

text \<open>
  \<^verbatim>\<open>capability_control.py\<close>: the verifier of signed observations, the issuer of capability permits and the
  closed-loop controller that dispatches at most once and completes only on two signed artifacts. The
  observer, the simulator and the PLC are ports over a world of their choosing.
\<close>

section \<open>The observation verifier\<close>

record plant_identity =
  pn_observation_source_id :: string
  pn_model_digest :: string
  pn_simulator_version :: string

record observation_verifier =
  ov_observer :: observer_identity
  ov_observer_public_key :: public_key
  ov_plant :: plant_identity
  ov_maximum_age :: duration
  ov_last_sequence :: int
  ov_accepted_challenges :: "string set"

definition make_verifier :: "observer_identity \<Rightarrow> public_key \<Rightarrow> plant_identity \<Rightarrow> duration \<Rightarrow> observation_verifier res" where
  "make_verifier observer key plant maximum_age =
     (if maximum_age \<le> 0 then Inl (ValueError ''maximum observation age must be positive'')
      else Inr \<lparr>ov_observer = observer, ov_observer_public_key = key, ov_plant = plant, ov_maximum_age = maximum_age,
                ov_last_sequence = 0, ov_accepted_challenges = {}\<rparr>)"

definition common_reasons :: "runtime \<Rightarrow> observation_verifier \<Rightarrow> observation \<Rightarrow> instant \<Rightarrow> string list" where
  "common_reasons rt v ob evaluated_at =
     (let age = evaluated_at - so_captured_at ob; s = so_snapshot ob in reasons_of [
       (so_observer_id ob \<noteq> oi_observer_id (ov_observer v), ''observation_source_mismatch''),
       (so_observer_key_id ob \<noteq> oi_key_id (ov_observer v), ''observation_key_mismatch''),
       (so_observer_boot_epoch ob \<noteq> oi_boot_epoch (ov_observer v), ''observation_boot_mismatch''),
       (\<not> observation_verify rt ob (ov_observer_public_key v), ''observation_signature_invalid''),
       (ps_observation_source_id s \<noteq> pn_observation_source_id (ov_plant v), ''plant_observation_source_mismatch''),
       (ps_model_digest s \<noteq> pn_model_digest (ov_plant v), ''plant_model_digest_mismatch''),
       (ps_simulator_version s \<noteq> pn_simulator_version (ov_plant v), ''plant_simulator_version_mismatch''),
       (\<not> verify_digest rt s, ''observation_state_digest_invalid''),
       (age < 0, ''observation_from_future''),
       (\<not> age < 0 \<and> age > ov_maximum_age v, ''observation_stale''),
       (so_observer_sequence ob \<le> ov_last_sequence v, ''observation_sequence_regressed''),
       (so_challenge_nonce ob \<in> ov_accepted_challenges v, ''observation_challenge_replayed'')])"

definition accept_observation :: "observation \<Rightarrow> observation_verifier \<Rightarrow> observation_verifier" where
  "accept_observation ob v =
     v\<lparr>ov_last_sequence := so_observer_sequence ob,
       ov_accepted_challenges := insert (so_challenge_nonce ob) (ov_accepted_challenges v)\<rparr>"

definition verify_pre ::
  "runtime \<Rightarrow> observation \<Rightarrow> action_request \<Rightarrow> instant \<Rightarrow> observation_verifier \<Rightarrow> string list \<times> observation_verifier" where
  "verify_pre rt ob q evaluated_at v =
     (let p = ar_proposal q;
          reasons = common_reasons rt v ob evaluated_at @ reasons_of [
            (so_phase ob \<noteq> Pre_Authorization, ''observation_phase_mismatch''),
            (so_observation_id ob \<noteq> ar_observation_id q, ''observation_id_mismatch''),
            (so_envelope_digest ob \<noteq> ar_observation_envelope_digest q, ''observation_envelope_digest_mismatch''),
            (so_challenge_nonce ob \<noteq> ar_observation_challenge_nonce q, ''observation_challenge_mismatch''),
            (so_correlation_id ob \<noteq> ar_correlation_id q, ''observation_correlation_mismatch''),
            (ap_observed_state_version p \<noteq> ps_state_version (so_snapshot ob), ''proposal_observation_version_mismatch''),
            (ap_observed_at p \<noteq> ps_observed_at (so_snapshot ob), ''proposal_observation_time_mismatch'')]
      in (reasons, if reasons = [] then accept_observation ob v else v))"

definition verify_post ::
  "runtime \<Rightarrow> observation \<Rightarrow> action_request \<Rightarrow> capability_permit \<Rightarrow> plc_ack \<Rightarrow> string \<Rightarrow> instant \<Rightarrow> observation_verifier \<Rightarrow>
   string list \<times> observation_verifier" where
  "verify_post rt ob q p k challenge_nonce evaluated_at v =
     (let base = cp_base_permit p;
          reasons = common_reasons rt v ob evaluated_at @ reasons_of [
            (so_phase ob \<noteq> Post_Dispatch, ''post_observation_phase_mismatch''),
            (so_correlation_id ob \<noteq> ar_correlation_id q, ''post_observation_correlation_mismatch''),
            (so_challenge_nonce ob \<noteq> challenge_nonce, ''post_observation_challenge_mismatch''),
            (so_permit_id ob \<noteq> Some (ep_permit_id base), ''post_observation_permit_mismatch''),
            (so_command_digest ob \<noteq> Some (ep_command_digest base), ''post_observation_command_mismatch''),
            (so_plc_acknowledgment_digest ob \<noteq> Some (plc_ack_digest rt k), ''post_observation_acknowledgment_mismatch''),
            (so_previous_envelope_digest ob \<noteq> Some (cp_observation_envelope_digest p), ''post_observation_previous_envelope_mismatch''),
            (so_captured_at ob < pa_acknowledged_at k, ''post_observation_precedes_acknowledgment'')]
      in (reasons, if reasons = [] then accept_observation ob v else v))"

section \<open>The permit issuer\<close>

record capability_issuer =
  ci_base :: permit_issuer
  ci_target_plc :: plc_identity

definition make_capability_issuer :: "permit_issuer \<Rightarrow> private_key \<Rightarrow> plc_identity \<Rightarrow> capability_issuer res" where
  "make_capability_issuer base private_key target =
     (if pi_private_key base \<noteq> private_key
      then Inl (ValueError ''base and capability permits must use the same configured signer'')
      else Inr \<lparr>ci_base = base, ci_target_plc = target\<rparr>)"

definition rotate_target :: "plc_identity \<Rightarrow> capability_issuer \<Rightarrow> capability_issuer" where
  "rotate_target target issuer = issuer\<lparr>ci_target_plc := target\<rparr>"

definition capability_issue_checks :: "action_request \<Rightarrow> observation \<Rightarrow> assessment \<Rightarrow> unit res" where
  "capability_issue_checks q pre a =
     (let s = so_snapshot pre; before = ca_pre_state a in
      if ar_observation_id q \<noteq> so_observation_id pre \<or>
         ar_observation_envelope_digest q \<noteq> so_envelope_digest pre \<or>
         ar_observation_challenge_nonce q \<noteq> so_challenge_nonce pre
      then Inl (PermitIssuanceError ''request_observation_binding_mismatch'')
      else if ps_state_version before \<noteq> ps_state_version s \<or> ps_state_digest before \<noteq> ps_state_digest s \<or>
         ps_observation_digest before \<noteq> ps_observation_digest s \<or>
         ps_topology_digest before \<noteq> ps_topology_digest s \<or> ps_model_digest before \<noteq> ps_model_digest s
      then Inl (PermitIssuanceError ''candidate_signed_observation_mismatch'')
      else Inr ())"

definition unsigned_capability_permit ::
  "runtime \<Rightarrow> capability_issuer \<Rightarrow> action_request \<Rightarrow> observation \<Rightarrow> permit \<Rightarrow> capability_permit" where
  "unsigned_capability_permit rt issuer q pre base =
     \<lparr>cp_base_permit = base, cp_request_digest = request_digest rt q, cp_observation_id = so_observation_id pre,
      cp_observation_envelope_digest = so_envelope_digest pre, cp_observer_id = so_observer_id pre,
      cp_observer_key_id = so_observer_key_id pre, cp_observer_boot_epoch = so_observer_boot_epoch pre,
      cp_target_plc_id = pid_plc_id (ci_target_plc issuer), cp_target_plc_key_id = pid_key_id (ci_target_plc issuer),
      cp_target_plc_boot_epoch = pid_boot_epoch (ci_target_plc issuer),
      cp_signing_key_id = ep_signing_key_id base, cp_signature = []\<rparr>"

definition issue_capability ::
  "runtime \<Rightarrow> capability_issuer \<Rightarrow> instant \<Rightarrow> string \<Rightarrow> string \<Rightarrow> evidence_chain \<Rightarrow> action_request \<Rightarrow> observation \<Rightarrow>
   decision \<Rightarrow> command \<Rightarrow> assessment \<Rightarrow> capability_permit res" where
  "issue_capability rt issuer issued_at permit_id permit_nonce chain q pre d c a =
     bind_res (capability_issue_checks q pre a) (\<lambda>_.
     bind_res (issue rt (ci_base issuer) issued_at permit_id permit_nonce chain (ar_proposal q) d c a) (\<lambda>base.
     bind_res (make_capability_permit (unsigned_capability_permit rt issuer q pre base)) (\<lambda>p.
       Inr (capability_permit_signed rt p (pi_private_key (ci_base issuer))))))"

section \<open>The controller\<close>

text \<open>
  What a failed dispatch tells about itself: the attributes \<^verbatim>\<open>known_no_effect\<close>, \<^verbatim>\<open>dispatch_attempts\<close> and
  \<^verbatim>\<open>reason_code\<close> of the exception, with the defaults of \<^verbatim>\<open>getattr\<close>.
\<close>

record dispatch_failure =
  df_exn :: exn
  df_known_no_effect :: bool
  df_dispatch_attempts :: int
  df_reason_code :: "string option"

definition failure_reason :: "dispatch_failure \<Rightarrow> string" where
  "failure_reason f =
     (case df_reason_code f of
        Some r \<Rightarrow> if r = [] then ''plc_dispatch_rejected_before_effect'' else r
      | None \<Rightarrow> ''plc_dispatch_rejected_before_effect'')"

record 'w capability_ports =
  op_resolve :: "string \<Rightarrow> string \<Rightarrow> 'w \<Rightarrow> observation res \<times> 'w"
  op_capture_post :: "transaction_bindings \<Rightarrow> 'w \<Rightarrow> observation res \<times> 'w"
  op_simulate :: "command \<Rightarrow> 'w \<Rightarrow> assessment res \<times> 'w"
  op_plc :: "plc_request \<Rightarrow> 'w \<Rightarrow> (dispatch_failure + plc_ack) \<times> 'w"

record capability_controller =
  cc_bindings :: bindings
  cc_issuer :: capability_issuer
  cc_plc :: plc_identity
  cc_plc_public_key :: public_key

record capability_env =
  ce_clock :: "nat \<Rightarrow> instant"
  ce_decide :: decide_env
  ce_command_id :: string
  ce_issued_at :: instant
  ce_permit_id :: string
  ce_permit_nonce :: string
  ce_challenge_nonce :: string
  ce_recorded_at :: instant

text \<open>The keyword arguments of \<^verbatim>\<open>_record\<close>.\<close>

record capability_disposition =
  cd_status :: capability_status
  cd_reasons :: "string list"
  cd_dispatch_attempts :: int
  cd_pre_observation :: "observation option"
  cd_decision :: "decision option"
  cd_command :: "command option"
  cd_assessment :: "assessment option"
  cd_permit :: "capability_permit option"
  cd_acknowledgment :: "plc_ack option"
  cd_post_observation :: "observation option"
  cd_last_observation :: "observation option"

definition not_dispatched :: "string list \<Rightarrow> capability_disposition" where
  "not_dispatched reasons =
     \<lparr>cd_status = Loop_Not_Dispatched, cd_reasons = reasons, cd_dispatch_attempts = 0, cd_pre_observation = None,
      cd_decision = None, cd_command = None, cd_assessment = None, cd_permit = None, cd_acknowledgment = None,
      cd_post_observation = None, cd_last_observation = None\<rparr>"

definition capability_payload :: "action_request \<Rightarrow> capability_disposition \<Rightarrow> json" where
  "capability_payload q cd = JObj [
     (''event_type'', JStr ''capability_closed_loop_disposition''),
     (''coordination_backend'', JStr ''deterministic-local-v1''),
     (''status'', JStr (capability_status_value (cd_status cd))),
     (''reasons'', JArr (map JStr (cd_reasons cd))),
     (''dispatch_attempts'', JInt (cd_dispatch_attempts cd)),
     (''automatic_retry_count'', JInt 0),
     (''request'', action_request_dump q),
     (''pre_observation'', jopt observation_dump (cd_pre_observation cd)),
     (''decision'', jopt decision_dump (cd_decision cd)),
     (''command'', jopt command_dump (cd_command cd)),
     (''assessment'', jopt assessment_dump (cd_assessment cd)),
     (''permit'', jopt capability_permit_dump (cd_permit cd)),
     (''acknowledgment'', jopt plc_ack_dump (cd_acknowledgment cd)),
     (''post_observation'', jopt observation_dump (cd_post_observation cd)),
     (''last_observation'', jopt observation_dump (cd_last_observation cd))]"

definition result_of :: "action_request \<Rightarrow> capability_disposition \<Rightarrow> string \<Rightarrow> capability_result" where
  "result_of q cd evidence_hash =
     \<lparr>cr_status = cd_status cd, cr_reasons = cd_reasons cd, cr_request = q,
      cr_pre_observation = cd_pre_observation cd, cr_decision = cd_decision cd, cr_command = cd_command cd,
      cr_assessment = cd_assessment cd, cr_permit = cd_permit cd, cr_acknowledgment = cd_acknowledgment cd,
      cr_post_observation = cd_post_observation cd, cr_last_observation = cd_last_observation cd,
      cr_dispatch_attempts = cd_dispatch_attempts cd, cr_execution_evidence_hash = evidence_hash\<rparr>"

definition record_capability ::
  "runtime \<Rightarrow> capability_env \<Rightarrow> action_request \<Rightarrow> capability_disposition \<Rightarrow> gateway \<Rightarrow> capability_result res \<times> gateway" where
  "record_capability rt env q cd gw =
     (let decision_id = (case cd_decision cd of Some d \<Rightarrow> dec_decision_id d | None \<Rightarrow> ''not-issued:'' @ ar_request_id q);
          (chain, record) = evidence_append rt (ce_recorded_at env) (gw_evidence gw) (ap_proposal_id (ar_proposal q))
            decision_id (capability_payload q cd)
      in (make_capability_result rt (result_of q cd (ev_record_hash record)), gw\<lparr>gw_evidence := chain\<rparr>))"

text \<open>An applied acknowledgment: the post-dispatch observation decides between completion and divergence.\<close>

definition post_matches :: "observation \<Rightarrow> plc_ack \<Rightarrow> permit \<Rightarrow> bool" where
  "post_matches post k base \<longleftrightarrow>
     (let s = so_snapshot post in
      Some (ps_state_digest s) = pa_post_state_digest k \<and> Some (ps_state_version s) = pa_post_state_version k \<and>
      Some (ps_topology_digest s) = pa_post_topology_digest k \<and>
      ps_state_digest s = ep_expected_post_state_digest base \<and>
      ps_state_version s = ep_expected_post_state_version base \<and>
      ps_topology_digest s = ep_expected_post_topology_digest base)"

definition observe_effect ::
  "runtime \<Rightarrow> 'w capability_ports \<Rightarrow> capability_env \<Rightarrow> action_request \<Rightarrow> observation \<Rightarrow> capability_permit \<Rightarrow> plc_ack \<Rightarrow>
   capability_disposition \<Rightarrow> observation_verifier \<Rightarrow> 'w \<Rightarrow> capability_disposition \<times> observation_verifier \<times> 'w" where
  "observe_effect rt ports env q pre p k cd v w =
     (let base = cp_base_permit p;
          unknown = (\<lambda>reasons. cd\<lparr>cd_status := Loop_Unknown_Effect, cd_reasons := reasons\<rparr>)
      in case op_capture_post ports
             \<lparr>tb_correlation_id = ar_correlation_id q, tb_phase = Post_Dispatch,
              tb_challenge_nonce = ce_challenge_nonce env,
              tb_previous_envelope_digest = Some (so_envelope_digest pre), tb_permit_id = Some (ep_permit_id base),
              tb_command_digest = Some (ep_command_digest base),
              tb_plc_acknowledgment_digest = Some (plc_ack_digest rt k)\<rparr> w of
           (Inl e, w1) \<Rightarrow> (unknown [''post_observation_unavailable'', exn_name e], v, w1)
         | (Inr post, w1) \<Rightarrow>
             let (reasons, v1) = verify_post rt post q p k (ce_challenge_nonce env) (ce_clock env 1) v
             in if reasons \<noteq> []
                then ((unknown (''post_observation_invalid'' # reasons))
                        \<lparr>cd_last_observation := Some (if observation_valid rt post then post else pre)\<rparr>, v1, w1)
                else (cd\<lparr>cd_status := (if post_matches post k base then Loop_Completed else Loop_Observation_Diverged),
                         cd_reasons := (if post_matches post k base
                           then [''plc_acknowledgment_and_signed_post_observation_match'']
                           else [''signed_post_observation_contradiction'']),
                         cd_post_observation := Some post, cd_last_observation := Some post\<rparr>, v1, w1))"

definition conclude_dispatch ::
  "runtime \<Rightarrow> 'w capability_ports \<Rightarrow> capability_controller \<Rightarrow> capability_env \<Rightarrow> action_request \<Rightarrow> observation \<Rightarrow>
   capability_permit \<Rightarrow> plc_ack \<Rightarrow> capability_disposition \<Rightarrow> observation_verifier \<Rightarrow> 'w \<Rightarrow>
   capability_disposition \<times> observation_verifier \<times> 'w" where
  "conclude_dispatch rt ports ctl env q pre p k cd0 v w =
     (let cd = cd0\<lparr>cd_acknowledgment := Some k, cd_dispatch_attempts := 1\<rparr> in
      if \<not> plc_ack_verify_for_transaction rt k (cc_plc_public_key ctl) q p pre (cc_plc ctl)
      then (cd\<lparr>cd_status := Loop_Unknown_Effect, cd_reasons := [''plc_acknowledgment_invalid'']\<rparr>, v, w)
      else case pa_status k of
        REJECTED \<Rightarrow>
          (cd\<lparr>cd_status := (if pa_reason k = ''candidate_attestation_mismatch'' then Loop_Candidate_Rejected
                            else Loop_Plc_Rejected), cd_reasons := [pa_reason k]\<rparr>, v, w)
      | UNKNOWN_EFFECT \<Rightarrow> (cd\<lparr>cd_status := Loop_Unknown_Effect, cd_reasons := [pa_reason k]\<rparr>, v, w)
      | APPLIED \<Rightarrow> observe_effect rt ports env q pre p k cd v w)"

definition dispatch_capability ::
  "runtime \<Rightarrow> 'w capability_ports \<Rightarrow> capability_controller \<Rightarrow> capability_env \<Rightarrow> action_request \<Rightarrow> observation \<Rightarrow> decision \<Rightarrow>
   assessment \<Rightarrow> capability_permit \<Rightarrow> capability_disposition \<Rightarrow> observation_verifier \<Rightarrow> 'w \<Rightarrow>
   capability_disposition \<times> observation_verifier \<times> 'w" where
  "dispatch_capability rt ports ctl env q pre d a p cd0 v w =
     (let cd = cd0\<lparr>cd_permit := Some p\<rparr> in
      case op_plc ports \<lparr>pq_request = q, pq_permit = p, pq_pre_observation = pre, pq_decision = d, pq_assessment = a\<rparr> w of
        (Inl f, w1) \<Rightarrow>
          (if df_known_no_effect f \<and> df_dispatch_attempts f = 0
           then cd\<lparr>cd_status := Loop_Not_Dispatched, cd_reasons := [failure_reason f, exn_name (df_exn f)],
                   cd_dispatch_attempts := 0\<rparr>
           else cd\<lparr>cd_status := Loop_Unknown_Effect,
                   cd_reasons := [''plc_dispatch_outcome_unavailable'', exn_name (df_exn f)],
                   cd_dispatch_attempts := 1\<rparr>, v, w1)
      | (Inr k, w1) \<Rightarrow> conclude_dispatch rt ports ctl env q pre p k cd v w1)"

definition candidate_matches :: "runtime \<Rightarrow> assessment \<Rightarrow> command \<Rightarrow> snapshot \<Rightarrow> bool" where
  "candidate_matches rt a c s \<longleftrightarrow>
     (let before = ca_pre_state a in
      ca_command_digest a = command_digest rt c \<and> ps_state_version before = ps_state_version s \<and>
      ps_state_digest before = ps_state_digest s \<and> ps_observation_digest before = ps_observation_digest s \<and>
      ps_topology_digest before = ps_topology_digest s \<and> ps_model_digest before = ps_model_digest s)"

text \<open>The steps after a permit: translation, simulation, issue and dispatch.\<close>

definition permitted_dispatch ::
  "runtime \<Rightarrow> 'w capability_ports \<Rightarrow> capability_controller \<Rightarrow> capability_env \<Rightarrow> evidence_chain \<Rightarrow> action_request \<Rightarrow>
   observation \<Rightarrow> decision \<Rightarrow> capability_disposition \<Rightarrow> observation_verifier \<Rightarrow> 'w \<Rightarrow>
   capability_disposition \<times> observation_verifier \<times> 'w" where
  "permitted_dispatch rt ports ctl env chain q pre d cd v w =
     (let failed = (\<lambda>cd reason e. cd\<lparr>cd_reasons := [reason, exn_name e]\<rparr>) in
      case translate (cc_bindings ctl) (ce_command_id env) (ar_proposal q) of
        Inl e \<Rightarrow> (failed cd ''command_translation_failed'' e, v, w)
      | Inr c \<Rightarrow>
          let cd1 = cd\<lparr>cd_command := Some c\<rparr> in
          case op_simulate ports c w of
            (Inl e, w1) \<Rightarrow> (failed cd1 ''candidate_simulation_unavailable'' e, v, w1)
          | (Inr a, w1) \<Rightarrow>
              let cd2 = cd1\<lparr>cd_assessment := Some a\<rparr> in
              if \<not> ca_safe a \<or> \<not> candidate_matches rt a c (so_snapshot pre)
              then (cd2\<lparr>cd_status := Loop_Candidate_Rejected,
                        cd_reasons := (if \<not> ca_safe a then ca_reasons a else [''candidate_binding_mismatch''])\<rparr>, v, w1)
              else case issue_capability rt (cc_issuer ctl) (ce_issued_at env) (ce_permit_id env) (ce_permit_nonce env)
                     chain q pre d c a of
                Inl e \<Rightarrow> (failed cd2 ''permit_issuance_failed'' e, v, w1)
              | Inr p \<Rightarrow> dispatch_capability rt ports ctl env q pre d a p cd2 v w1)"

text \<open>
  The run up to its terminal disposition. The gateway's decision does not raise, so the handler for a
  failed decision has no counterpart.
\<close>

definition capability_run ::
  "runtime \<Rightarrow> 'w capability_ports \<Rightarrow> capability_controller \<Rightarrow> capability_env \<Rightarrow> action_request \<Rightarrow>
   gateway \<times> observation_verifier \<times> 'w \<Rightarrow> capability_disposition \<times> gateway \<times> observation_verifier \<times> 'w" where
  "capability_run rt ports ctl env q = (\<lambda>(gw, v, w).
     case op_resolve ports (ar_observation_id q) (ar_observation_envelope_digest q) w of
       (Inl e, w1) \<Rightarrow> (not_dispatched [''pre_observation_unavailable'', exn_name e], gw, v, w1)
     | (Inr observed, w1) \<Rightarrow>
         let evaluated_at = ce_clock env 0;
             (reasons, v1) = verify_pre rt observed q evaluated_at v
         in if reasons \<noteq> []
            then ((not_dispatched reasons)\<lparr>cd_last_observation := Some observed\<rparr>, gw, v1, w1)
            else
              let seen = (\<lambda>reasons. (not_dispatched reasons)
                    \<lparr>cd_pre_observation := Some observed, cd_last_observation := Some observed\<rparr>)
              in case physical_state_to_gateway_state (so_snapshot observed) of
                   Inl e \<Rightarrow> (seen [''gateway_state_conversion_failed'', exn_name e], gw, v1, w1)
                 | Inr gateway_state \<Rightarrow>
                     let (gw1, d) = decide rt (ce_decide env) gw (ar_proposal q) gateway_state (Some evaluated_at);
                         decided = (seen (dec_reasons d))\<lparr>cd_decision := Some d\<rparr>
                     in if dec_outcome d \<noteq> PERMIT then (decided, gw1, v1, w1)
                        else let (cd, v2, w2) =
                               permitted_dispatch rt ports ctl env (gw_evidence gw1) q observed d decided v1 w1
                             in (cd, gw1, v2, w2))"

definition capability_execute ::
  "runtime \<Rightarrow> 'w capability_ports \<Rightarrow> capability_controller \<Rightarrow> capability_env \<Rightarrow> action_request \<Rightarrow>
   gateway \<times> observation_verifier \<times> 'w \<Rightarrow> capability_result res \<times> gateway \<times> observation_verifier \<times> 'w" where
  "capability_execute rt ports ctl env q s =
     (let (cd, gw, v, w) = capability_run rt ports ctl env q s;
          (result, gw1) = record_capability rt env q cd gw
      in (result, gw1, v, w))"

section \<open>Challenges and sequence numbers\<close>

datatype verification_call =
    Pre_Check observation action_request instant
  | Post_Check observation action_request capability_permit plc_ack string instant

fun verifier_step :: "runtime \<Rightarrow> verification_call \<Rightarrow> observation_verifier \<Rightarrow> string list \<times> observation_verifier" where
  "verifier_step rt (Pre_Check ob q t) v = verify_pre rt ob q t v"
| "verifier_step rt (Post_Check ob q p k nonce t) v = verify_post rt ob q p k nonce t v"

fun checked_observation :: "verification_call \<Rightarrow> observation" where
  "checked_observation (Pre_Check ob q t) = ob"
| "checked_observation (Post_Check ob q p k nonce t) = ob"

text \<open>Empty reasons are read off as a conjunction, not by cases.\<close>

lemma common_reasons_empty:
  assumes "common_reasons rt v ob t = []"
  shows "observation_verify rt ob (ov_observer_public_key v)" "so_observer_id ob = oi_observer_id (ov_observer v)"
    "so_observer_key_id ob = oi_key_id (ov_observer v)" "so_observer_boot_epoch ob = oi_boot_epoch (ov_observer v)"
    "verify_digest rt (so_snapshot ob)" "so_captured_at ob \<le> t" "t - so_captured_at ob \<le> ov_maximum_age v"
    "ov_last_sequence v < so_observer_sequence ob" "so_challenge_nonce ob \<notin> ov_accepted_challenges v"
  using assms by (simp_all add: common_reasons_def Let_def reasons_of_empty not_less not_le del: reasons_of_Cons) auto

lemma verify_pre_cases:
  "verify_pre rt ob q t v = (reasons, v') \<Longrightarrow>
   reasons \<noteq> [] \<and> v' = v \<or> reasons = [] \<and> common_reasons rt v ob t = [] \<and> v' = accept_observation ob v"
  unfolding verify_pre_def Let_def by (auto simp del: reasons_of_Cons split: if_splits)

lemma verify_post_cases:
  "verify_post rt ob q p k nonce t v = (reasons, v') \<Longrightarrow>
   reasons \<noteq> [] \<and> v' = v \<or> reasons = [] \<and> common_reasons rt v ob t = [] \<and> v' = accept_observation ob v"
  unfolding verify_post_def Let_def by (auto simp del: reasons_of_Cons split: if_splits)

lemma verifier_step_cases:
  assumes "verifier_step rt call v = (reasons, v')"
  shows "reasons \<noteq> [] \<and> v' = v \<or>
    reasons = [] \<and> v' = accept_observation (checked_observation call) v \<and>
      so_challenge_nonce (checked_observation call) \<notin> ov_accepted_challenges v \<and>
      ov_last_sequence v < so_observer_sequence (checked_observation call)"
  using assms by (cases call) (auto dest!: verify_pre_cases verify_post_cases dest: common_reasons_empty(8,9))

interpretation challenge_once: once_only "verifier_step rt" "\<lambda>reasons. reasons = []"
  "\<lambda>call. so_challenge_nonce (checked_observation call)" ov_accepted_challenges
  by unfold_locales (auto simp: accept_observation_def dest!: verifier_step_cases)

lemma accepted_sequences:
  "run_steps (verifier_step rt) calls v = (outs, v') \<Longrightarrow>
   sorted_wrt (<) (ov_last_sequence v # accepted_keys (\<lambda>reasons. reasons = [])
     (\<lambda>call. so_observer_sequence (checked_observation call)) outs)"
proof (induction calls arbitrary: v outs)
  case (Cons call calls)
  obtain reasons v1 where first: "verifier_step rt call v = (reasons, v1)" by fastforce
  obtain rest v2 where rest: "run_steps (verifier_step rt) calls v1 = (rest, v2)" by fastforce
  have outs: "outs = (call, reasons) # rest" and v': "v' = v2" using Cons.prems first rest by simp_all
  note IH = Cons.IH [OF rest [folded v']]
  from verifier_step_cases [OF first] show ?case
  proof
    assume "reasons \<noteq> [] \<and> v1 = v"
    then show ?thesis using IH by (simp add: outs accepted_keys_def)
  next
    assume ok: "reasons = [] \<and> v1 = accept_observation (checked_observation call) v \<and>
      so_challenge_nonce (checked_observation call) \<notin> ov_accepted_challenges v \<and>
      ov_last_sequence v < so_observer_sequence (checked_observation call)"
    then have "ov_last_sequence v1 = so_observer_sequence (checked_observation call)" by (simp add: accept_observation_def)
    then show ?thesis using IH ok by (auto simp: outs accepted_keys_def)
  qed
qed (simp add: accepted_keys_def)

text \<open>
  (C36) The verifier accepts an observation once: in any sequence of checks before and after dispatches, the
  accepted observations answer pairwise different challenges, and their observer sequence numbers are
  positive and strictly increasing from the verifier's last one.
\<close>
theorem observations_accepted_once:
  "let outs = fst (run_steps (verifier_step rt) calls v)
   in distinct (accepted_keys (\<lambda>reasons. reasons = []) (\<lambda>call. so_challenge_nonce (checked_observation call)) outs) \<and>
      sorted_wrt (<) (ov_last_sequence v # accepted_keys (\<lambda>reasons. reasons = [])
        (\<lambda>call. so_observer_sequence (checked_observation call)) outs)"
  using challenge_once.accepted_distinct [of rt calls v]
    accepted_sequences [of rt calls v "fst (run_steps (verifier_step rt) calls v)" "snd (run_steps (verifier_step rt) calls v)"]
  by (simp add: Let_def)

section \<open>Every run ends in a terminal result\<close>

definition terminal :: "runtime \<Rightarrow> action_request \<Rightarrow> capability_disposition \<Rightarrow> bool" where
  "terminal rt q cd \<longleftrightarrow> cd_reasons cd \<noteq> [] \<and> 0 \<le> cd_dispatch_attempts cd \<and> cd_dispatch_attempts cd \<le> 1 \<and>
     capability_terminal_shape rt (result_of q cd [])"

lemma result_of_simps [simp]:
  "cr_status (result_of q cd h) = cd_status cd" "cr_reasons (result_of q cd h) = cd_reasons cd"
  "cr_request (result_of q cd h) = q" "cr_pre_observation (result_of q cd h) = cd_pre_observation cd"
  "cr_decision (result_of q cd h) = cd_decision cd" "cr_command (result_of q cd h) = cd_command cd"
  "cr_assessment (result_of q cd h) = cd_assessment cd" "cr_permit (result_of q cd h) = cd_permit cd"
  "cr_acknowledgment (result_of q cd h) = cd_acknowledgment cd"
  "cr_post_observation (result_of q cd h) = cd_post_observation cd"
  "cr_last_observation (result_of q cd h) = cd_last_observation cd"
  "cr_dispatch_attempts (result_of q cd h) = cd_dispatch_attempts cd"
  "cr_execution_evidence_hash (result_of q cd h) = h"
  by (simp_all add: result_of_def)

lemmas shape_defs = capability_terminal_shape_def signed_artifacts_def acknowledged_with_def signed_rejection_def
  post_bindings_match_def post_state_matches_expected_def

lemma terminal_shape_hash: "capability_terminal_shape rt (result_of q cd h) = capability_terminal_shape rt (result_of q cd [])"
proof -
  have "post_bindings_match rt (result_of q cd h) = post_bindings_match rt (result_of q cd [])"
    unfolding post_bindings_match_def result_of_simps by (rule refl)
  moreover have "post_state_matches_expected (result_of q cd h) = post_state_matches_expected (result_of q cd [])"
    unfolding post_state_matches_expected_def result_of_simps by (rule refl)
  ultimately show ?thesis
    by (cases "cd_status cd") (simp_all add: capability_terminal_shape_def signed_artifacts_def acknowledged_with_def
        signed_rejection_def)
qed

lemma terminal_recorded:
  assumes "digests_ok rt" "terminal rt q cd"
  shows "\<exists>h. fst (record_capability rt env q cd gw) = Inr (result_of q cd h)"
proof -
  define did where "did = (case cd_decision cd of Some d \<Rightarrow> dec_decision_id d | None \<Rightarrow> ''not-issued:'' @ ar_request_id q)"
  define ap where "ap = evidence_append rt (ce_recorded_at env) (gw_evidence gw) (ap_proposal_id (ar_proposal q)) did
      (capability_payload q cd)"
  have "fst (record_capability rt env q cd gw) = make_capability_result rt (result_of q cd (ev_record_hash (snd ap)))"
    by (simp add: record_capability_def ap_def did_def case_prod_beta Let_def)
  moreover have "is_hex_digest (ev_record_hash (snd ap))"
    using assms(1) by (simp add: ap_def evidence_append_def Let_def)
  ultimately show ?thesis using assms(2) terminal_shape_hash [of rt q cd]
    by (auto simp: make_capability_result_def terminal_def)
qed

lemma decide_reasons_nonempty: "dec_reasons (snd (decide rt env gw p s now)) \<noteq> []"
  by (simp add: decide_def Let_def case_prod_beta primary_decision_def pre_authorization_denial_def)

lemma verify_pre_signed: "verify_pre rt ob q t v = ([], v') \<Longrightarrow> so_signature ob \<noteq> []"
  by (auto simp: observation_verify_def dest!: verify_pre_cases common_reasons_empty(1))

lemma verify_postD:
  assumes "verify_post rt ob q p k nonce t v = ([], v')"
  shows "so_signature ob \<noteq> []" "so_phase ob = Post_Dispatch" "so_correlation_id ob = ar_correlation_id q"
    "so_permit_id ob = Some (ep_permit_id (cp_base_permit p))"
    "so_command_digest ob = Some (ep_command_digest (cp_base_permit p))"
    "so_plc_acknowledgment_digest ob = Some (plc_ack_digest rt k)"
    "so_previous_envelope_digest ob = Some (cp_observation_envelope_digest p)"
    "observation_verify rt ob (ov_observer_public_key v)" "so_challenge_nonce ob = nonce"
    "pa_acknowledged_at k \<le> so_captured_at ob" "verify_digest rt (so_snapshot ob)"
    "so_captured_at ob \<le> t" "t - so_captured_at ob \<le> ov_maximum_age v"
proof -
  have common: "common_reasons rt v ob t = []" using verify_post_cases [OF assms] by blast
  show "so_signature ob \<noteq> []" using common_reasons_empty(1) [OF common] by (simp add: observation_verify_def)
  show "observation_verify rt ob (ov_observer_public_key v)" "verify_digest rt (so_snapshot ob)"
    "so_captured_at ob \<le> t" "t - so_captured_at ob \<le> ov_maximum_age v"
    using common_reasons_empty [OF common] by blast+
  show "so_phase ob = Post_Dispatch" "so_correlation_id ob = ar_correlation_id q"
    "so_permit_id ob = Some (ep_permit_id (cp_base_permit p))"
    "so_command_digest ob = Some (ep_command_digest (cp_base_permit p))"
    "so_plc_acknowledgment_digest ob = Some (plc_ack_digest rt k)"
    "so_previous_envelope_digest ob = Some (cp_observation_envelope_digest p)" "so_challenge_nonce ob = nonce"
    "pa_acknowledged_at k \<le> so_captured_at ob"
    using assms by (simp_all add: verify_post_def Let_def reasons_of_empty not_less del: reasons_of_Cons)
qed

lemma issue_capabilityD:
  assumes "issue_capability rt issuer t pid nonce chain q pre d c a = Inr p"
  shows "cp_observation_envelope_digest p = so_envelope_digest pre" "signatures_ok rt \<Longrightarrow> cp_signature p \<noteq> []"
    "issue rt (ci_base issuer) t pid nonce chain (ar_proposal q) d c a = Inr (cp_base_permit p)"
    "cp_request_digest p = request_digest rt q" "cp_target_plc_id p = pid_plc_id (ci_target_plc issuer)"
    "cp_target_plc_key_id p = pid_key_id (ci_target_plc issuer)"
    "cp_target_plc_boot_epoch p = pid_boot_epoch (ci_target_plc issuer)"
    "capability_issue_checks q pre a = Inr ()"
  using assms
  by (auto simp: issue_capability_def res_simps capability_permit_signed_def unsigned_capability_permit_def)

lemma plc_ack_verified_signed:
  "plc_ack_verify_for_transaction rt k pk q p pre plc \<Longrightarrow> pa_signature k \<noteq> []"
  by (auto simp: plc_ack_verify_for_transaction_def plc_ack_verify_def Let_def split: if_splits)

text \<open>The disposition of a dispatched permit, with all earlier artifacts in place.\<close>

definition in_flight :: "observation \<Rightarrow> capability_permit \<Rightarrow> capability_disposition \<Rightarrow> bool" where
  "in_flight pre p cd \<longleftrightarrow> cd_pre_observation cd = Some pre \<and> cd_decision cd \<noteq> None \<and> cd_command cd \<noteq> None \<and>
     cd_assessment cd \<noteq> None \<and> cd_permit cd = Some p \<and> cd_post_observation cd = None \<and>
     so_signature pre \<noteq> [] \<and> cp_signature p \<noteq> [] \<and> cp_observation_envelope_digest p = so_envelope_digest pre"

lemma post_matches_iff:
  assumes "cr_permit r = Some p" "cr_acknowledgment r = Some k" "cr_post_observation r = Some post"
  shows "post_state_matches_expected r \<longleftrightarrow> post_matches post k (cp_base_permit p)"
  unfolding post_state_matches_expected_def post_matches_def Let_def
  by (cases "pa_post_state_digest k"; cases "pa_post_state_version k"; cases "pa_post_topology_digest k")
    (auto simp: assms)

lemma observe_effect_terminal:
  assumes flight: "in_flight pre p cd" "cd_acknowledgment cd = Some k" "cd_dispatch_attempts cd = 1"
    and k: "pa_status k = APPLIED" "pa_signature k \<noteq> []"
    and run: "observe_effect rt ports env q pre p k cd v w = (cd', v', w')"
  shows "terminal rt q cd'"
proof -
  let ?tb = "\<lparr>tb_correlation_id = ar_correlation_id q, tb_phase = Post_Dispatch, tb_challenge_nonce = ce_challenge_nonce env,
      tb_previous_envelope_digest = Some (so_envelope_digest pre), tb_permit_id = Some (ep_permit_id (cp_base_permit p)),
      tb_command_digest = Some (ep_command_digest (cp_base_permit p)),
      tb_plc_acknowledgment_digest = Some (plc_ack_digest rt k)\<rparr>"
  obtain r w1 where cap: "op_capture_post ports ?tb w = (r, w1)" by fastforce
  show ?thesis
  proof (cases r)
    case (Inl e)
    then show ?thesis using run cap flight
      by (auto simp: observe_effect_def Let_def terminal_def shape_defs in_flight_def)
  next
    case (Inr post)
    obtain reasons v1 where ver: "verify_post rt post q p k (ce_challenge_nonce env) (ce_clock env 1) v = (reasons, v1)"
      by fastforce
    show ?thesis
    proof (cases "reasons = []")
      case False
      then show ?thesis using run cap ver Inr flight
        by (auto simp: observe_effect_def Let_def terminal_def shape_defs in_flight_def)
    next
      case True
      note post = verify_postD [OF ver [unfolded True]]
      have cd': "cd' = cd\<lparr>cd_status := (if post_matches post k (cp_base_permit p) then Loop_Completed else Loop_Observation_Diverged),
          cd_reasons := (if post_matches post k (cp_base_permit p)
             then [''plc_acknowledgment_and_signed_post_observation_match'']
             else [''signed_post_observation_contradiction'']),
          cd_post_observation := Some post, cd_last_observation := Some post\<rparr>"
        using run cap ver Inr True by (simp add: observe_effect_def Let_def)
      show ?thesis
        using flight k post
        by (cases "post_matches post k (cp_base_permit p)")
          (auto simp: cd' terminal_def capability_terminal_shape_def signed_artifacts_def acknowledged_with_def
            post_bindings_match_def in_flight_def post_matches_iff)
    qed
  qed
qed

lemma conclude_dispatch_terminal:
  assumes flight: "in_flight pre p cd" and k: "pa_reason k \<noteq> []"
    and run: "conclude_dispatch rt ports ctl env q pre p k cd v w = (cd', v', w')"
  shows "terminal rt q cd'"
proof (cases "plc_ack_verify_for_transaction rt k (cc_plc_public_key ctl) q p pre (cc_plc ctl)")
  case False
  then show ?thesis using run flight
    by (auto simp: conclude_dispatch_def Let_def terminal_def shape_defs in_flight_def)
next
  case True
  note signed = plc_ack_verified_signed [OF True]
  show ?thesis
  proof (cases "pa_status k")
    case APPLIED
    let ?cd = "cd\<lparr>cd_acknowledgment := Some k, cd_dispatch_attempts := 1\<rparr>"
    have "observe_effect rt ports env q pre p k ?cd v w = (cd', v', w')"
      using run True APPLIED by (simp add: conclude_dispatch_def Let_def)
    moreover have "in_flight pre p ?cd" using flight by (simp add: in_flight_def)
    ultimately show ?thesis using APPLIED signed by (intro observe_effect_terminal) simp_all
  next
    case REJECTED
    then show ?thesis using run True flight k signed
      by (auto simp: conclude_dispatch_def Let_def terminal_def shape_defs in_flight_def)
  next
    case UNKNOWN_EFFECT
    then show ?thesis using run True flight k
      by (auto simp: conclude_dispatch_def Let_def terminal_def shape_defs in_flight_def)
  qed
qed

text \<open>The ports return models: an unsafe assessment has reasons, and an acknowledgment has one.\<close>

locale typed_ports =
  fixes rt :: runtime and ports :: "'w capability_ports"
  assumes assessed: "op_simulate ports c w = (Inr a, w') \<Longrightarrow> ca_safe a \<or> ca_reasons a \<noteq> []"
    and acknowledged: "op_plc ports x w = (Inr k, w') \<Longrightarrow> pa_reason k \<noteq> []"
begin

lemma dispatch_terminal:
  assumes flight: "in_flight pre p (cd\<lparr>cd_permit := Some p\<rparr>)" and idle: "cd_acknowledgment cd = None"
    and run: "dispatch_capability rt ports ctl env q pre d a p cd v w = (cd', v', w')"
  shows "terminal rt q cd'"
proof -
  let ?x = "\<lparr>pq_request = q, pq_permit = p, pq_pre_observation = pre, pq_decision = d, pq_assessment = a\<rparr>"
  obtain r w1 where plc: "op_plc ports ?x w = (r, w1)" by fastforce
  show ?thesis
  proof (cases r)
    case (Inl f)
    then show ?thesis using run plc flight idle
      by (cases "df_known_no_effect f \<and> df_dispatch_attempts f = 0")
        (auto simp: dispatch_capability_def Let_def terminal_def shape_defs in_flight_def)
  next
    case (Inr k)
    then show ?thesis using run plc acknowledged [of ?x w k w1]
      by (intro conclude_dispatch_terminal [OF flight]) (auto simp: dispatch_capability_def Let_def)
  qed
qed

lemma permitted_terminal:
  assumes sig: "signatures_ok rt" and pre: "so_signature pre \<noteq> []"
    and cd: "cd = (not_dispatched reasons)\<lparr>cd_pre_observation := Some pre, cd_last_observation := Some pre, cd_decision := Some d\<rparr>"
    and run: "permitted_dispatch rt ports ctl env chain q pre d cd v w = (cd', v', w')"
  shows "terminal rt q cd'"
proof (cases "translate (cc_bindings ctl) (ce_command_id env) (ar_proposal q)")
  case (Inl e)
  then show ?thesis using run by (auto simp: cd permitted_dispatch_def Let_def not_dispatched_def terminal_def shape_defs)
next
  case (Inr c)
  obtain r w1 where sim: "op_simulate ports c w = (r, w1)" by fastforce
  show ?thesis
  proof (cases r)
    case (Inl e)
    then show ?thesis using run sim Inr
      by (auto simp: cd permitted_dispatch_def Let_def not_dispatched_def terminal_def shape_defs)
  next
    case a: (Inr a)
    note run = run [unfolded permitted_dispatch_def Let_def Inr sum.case sim a prod.case]
    show ?thesis
    proof (cases "\<not> ca_safe a \<or> \<not> candidate_matches rt a c (so_snapshot pre)")
      case True
      then show ?thesis using run assessed [OF sim [unfolded a]]
        by (auto simp: cd not_dispatched_def terminal_def shape_defs split: if_splits)
    next
      case safe: False
      show ?thesis
      proof (cases "issue_capability rt (cc_issuer ctl) (ce_issued_at env) (ce_permit_id env) (ce_permit_nonce env)
          chain q pre d c a")
        case (Inl e)
        then show ?thesis using run safe by (auto simp: cd not_dispatched_def terminal_def shape_defs)
      next
        case p: (Inr p)
        note issued = issue_capabilityD [OF p]
        show ?thesis
          using run safe p pre issued(1) issued(2) [OF sig]
          by (intro dispatch_terminal) (auto simp: cd in_flight_def not_dispatched_def)
      qed
    qed
  qed
qed

lemma run_terminal:
  assumes sig: "signatures_ok rt" and run: "capability_run rt ports ctl env q (gw, v, w) = (cd, gw', v', w')"
  shows "terminal rt q cd"
proof -
  obtain r w1 where res: "op_resolve ports (ar_observation_id q) (ar_observation_envelope_digest q) w = (r, w1)" by fastforce
  show ?thesis
  proof (cases r)
    case (Inl e)
    then show ?thesis using run res by (auto simp: capability_run_def not_dispatched_def terminal_def shape_defs)
  next
    case (Inr ob)
    obtain reasons v1 where ver: "verify_pre rt ob q (ce_clock env 0) v = (reasons, v1)" by fastforce
    note run = run [unfolded capability_run_def prod.case res Inr sum.case Let_def ver]
    show ?thesis
    proof (cases "reasons = []")
      case False
      then show ?thesis using run by (auto simp: not_dispatched_def terminal_def shape_defs)
    next
      case True
      show ?thesis
      proof (cases "physical_state_to_gateway_state (so_snapshot ob)")
        case (Inl e)
        then show ?thesis using run True by (auto simp: not_dispatched_def terminal_def shape_defs)
      next
        case gs: (Inr gs)
        obtain gw1 d where dec: "decide rt (ce_decide env) gw (ar_proposal q) gs (Some (ce_clock env 0)) = (gw1, d)" by fastforce
        have reasons: "dec_reasons d \<noteq> []" using decide_reasons_nonempty [of rt "ce_decide env" gw "ar_proposal q" gs] dec by (metis snd_conv)
        show ?thesis
        proof (cases "dec_outcome d = PERMIT")
          case False
          then show ?thesis using run True gs dec reasons by (auto simp: not_dispatched_def terminal_def shape_defs)
        next
          case permit: True
          obtain cd2 v2 w2 where disp: "permitted_dispatch rt ports ctl env (gw_evidence gw1) q ob d
              ((not_dispatched (dec_reasons d))\<lparr>cd_pre_observation := Some ob, cd_last_observation := Some ob,
                 cd_decision := Some d\<rparr>) v1 w1 = (cd2, v2, w2)" by (metis prod.exhaust)
          have "cd = cd2" using run True gs dec permit disp by simp
          then show ?thesis using permitted_terminal [OF sig _ refl disp] verify_pre_signed [OF ver [unfolded True]] by simp
        qed
      qed
    qed
  qed
qed

lemma execute_total:
  assumes "digests_ok rt" "signatures_ok rt"
  shows "\<exists>r. fst (capability_execute rt ports ctl env q s) = Inr r \<and> capability_terminal_shape rt r"
proof -
  obtain gw v w where s: "s = (gw, v, w)" by (cases s)
  obtain cd gw1 v1 w1 where run: "capability_run rt ports ctl env q (gw, v, w) = (cd, gw1, v1, w1)" by (metis prod.exhaust)
  have t: "terminal rt q cd" by (rule run_terminal [OF assms(2) run])
  from terminal_recorded [OF assms(1) t, of env gw1] obtain h where
    "fst (record_capability rt env q cd gw1) = Inr (result_of q cd h)" by blast
  then show ?thesis using t terminal_shape_hash [of rt q cd h]
    by (simp add: s capability_execute_def run case_prod_beta terminal_def)
qed

end

section \<open>What a run does to the plant\<close>

text \<open>
  The effects of the ports: resolving, simulating and observing do not touch what a command changes, nor
  does a dispatch that the PLC rejects or that is known not to have happened; an applied command leaves
  the state that its permit expects; an observation after dispatch shows the plant, or leaves it as it was.
\<close>

definition expected_state :: "permit \<Rightarrow> snapshot \<Rightarrow> bool" where
  "expected_state base s \<longleftrightarrow> ps_state_digest s = ep_expected_post_state_digest base \<and>
     ps_state_version s = ep_expected_post_state_version base \<and>
     ps_topology_digest s = ep_expected_post_topology_digest base"

locale effect_ports =
  fixes rt :: runtime and ports :: "'w capability_ports" and effect_of :: "'w \<Rightarrow> 'p"
    and reads :: "'w \<Rightarrow> snapshot res" and inv :: "'w \<Rightarrow> bool"
  assumes resolve_keeps: "op_resolve ports i d w = (observed, w') \<Longrightarrow> effect_of w' = effect_of w \<and> (inv w \<longrightarrow> inv w')"
    and simulate_keeps: "op_simulate ports c w = (assessed, w') \<Longrightarrow> effect_of w' = effect_of w \<and> (inv w \<longrightarrow> inv w')"
    and capture_keeps: "op_capture_post ports tb w = (captured, w') \<Longrightarrow> effect_of w' = effect_of w"
    and rejected_keeps: "op_plc ports x w = (Inr k, w') \<Longrightarrow> pa_status k = REJECTED \<Longrightarrow> effect_of w' = effect_of w"
    and no_effect_keeps: "op_plc ports x w = (Inl f, w') \<Longrightarrow> df_known_no_effect f \<Longrightarrow> df_dispatch_attempts f = 0 \<Longrightarrow>
      effect_of w' = effect_of w"
    and applied_reads: "inv w \<Longrightarrow> op_plc ports x w = (Inr k, w') \<Longrightarrow> pa_status k = APPLIED \<Longrightarrow>
      \<exists>s. reads w' = Inr s \<and> expected_state (cp_base_permit (pq_permit x)) s"
    and captured_reads: "op_capture_post ports tb w = (Inr ob, w') \<Longrightarrow> reads w' = Inr (so_snapshot ob) \<or> reads w' = reads w"
begin

text \<open>A disposition that is true of the step from one world to another.\<close>

definition honest :: "capability_disposition \<Rightarrow> 'w \<Rightarrow> 'w \<Rightarrow> bool" where
  "honest cd w w' \<longleftrightarrow>
     (effect_of w' = effect_of w \<or>
      cd_status cd \<in> {Loop_Completed, Loop_Observation_Diverged, Loop_Unknown_Effect} \<and> cd_dispatch_attempts cd = 1 \<and>
      cd_permit cd \<noteq> None) \<and>
     (cd_status cd = Loop_Completed \<longrightarrow>
      (\<exists>p s. cd_permit cd = Some p \<and> reads w' = Inr s \<and> expected_state (cp_base_permit p) s))"

lemma honest_idle: "cd_status cd \<noteq> Loop_Completed \<Longrightarrow> effect_of w' = effect_of w \<Longrightarrow> honest cd w w'"
  by (simp add: honest_def)

lemma observe_effect_honest:
  assumes run: "observe_effect rt ports env q pre p k cd v w = (cd', v', w')"
    and cd: "cd_permit cd = Some p" "cd_dispatch_attempts cd = 1"
    and plant: "\<exists>s. reads w = Inr s \<and> expected_state (cp_base_permit p) s"
  shows "honest cd' w0 w'"
proof -
  let ?tb = "\<lparr>tb_correlation_id = ar_correlation_id q, tb_phase = Post_Dispatch, tb_challenge_nonce = ce_challenge_nonce env,
      tb_previous_envelope_digest = Some (so_envelope_digest pre), tb_permit_id = Some (ep_permit_id (cp_base_permit p)),
      tb_command_digest = Some (ep_command_digest (cp_base_permit p)),
      tb_plc_acknowledgment_digest = Some (plc_ack_digest rt k)\<rparr>"
  obtain r w1 where cap: "op_capture_post ports ?tb w = (r, w1)" by fastforce
  show ?thesis
  proof (cases r)
    case (Inl e)
    then show ?thesis using run cap cd by (auto simp: observe_effect_def Let_def honest_def)
  next
    case (Inr post)
    obtain reasons v1 where ver: "verify_post rt post q p k (ce_challenge_nonce env) (ce_clock env 1) v = (reasons, v1)"
      by fastforce
    have "post_matches post k (cp_base_permit p) \<Longrightarrow> \<exists>s. reads w1 = Inr s \<and> expected_state (cp_base_permit p) s"
      using captured_reads [OF cap [unfolded Inr]] plant by (auto simp: post_matches_def Let_def expected_state_def)
    then show ?thesis using run cap ver Inr cd
      by (cases "reasons = []"; cases "post_matches post k (cp_base_permit p)") (auto simp: observe_effect_def Let_def honest_def)
  qed
qed

lemma dispatch_honest:
  assumes run: "dispatch_capability rt ports ctl env q pre d a p cd v w = (cd', v', w')" and inv: "inv w"
  shows "honest cd' w w' \<and> (cd_permit cd' = Some p \<and> cd_decision cd' = cd_decision cd \<and> cd_assessment cd' = cd_assessment cd)"
proof -
  let ?x = "\<lparr>pq_request = q, pq_permit = p, pq_pre_observation = pre, pq_decision = d, pq_assessment = a\<rparr>"
  obtain r w1 where plc: "op_plc ports ?x w = (r, w1)" by fastforce
  show ?thesis
  proof (cases r)
    case (Inl f)
    then show ?thesis using run plc no_effect_keeps [of ?x w f w1]
      by (cases "df_known_no_effect f \<and> df_dispatch_attempts f = 0") (auto simp: dispatch_capability_def Let_def honest_def)
  next
    case (Inr k)
    let ?cd = "cd\<lparr>cd_permit := Some p, cd_acknowledgment := Some k, cd_dispatch_attempts := 1\<rparr>"
    have concl: "conclude_dispatch rt ports ctl env q pre p k (cd\<lparr>cd_permit := Some p\<rparr>) v w1 = (cd', v', w')"
      using run plc Inr by (simp add: dispatch_capability_def Let_def)
    show ?thesis
    proof (cases "plc_ack_verify_for_transaction rt k (cc_plc_public_key ctl) q p pre (cc_plc ctl) \<and> pa_status k = APPLIED")
      case True
      then have obs: "observe_effect rt ports env q pre p k ?cd v w1 = (cd', v', w')"
        using concl by (simp add: conclude_dispatch_def Let_def)
      have "\<exists>s. reads w1 = Inr s \<and> expected_state (cp_base_permit p) s"
        using applied_reads [OF inv plc [unfolded Inr]] True by simp
      moreover have "cd_permit cd' = Some p \<and> cd_decision cd' = cd_decision cd \<and> cd_assessment cd' = cd_assessment cd"
        using obs by (auto simp: observe_effect_def Let_def split: sum.splits prod.splits if_splits)
      ultimately show ?thesis using observe_effect_honest [OF obs] by simp
    next
      case False
      then show ?thesis using concl rejected_keeps [OF plc [unfolded Inr]]
        by (cases "pa_status k") (auto simp: conclude_dispatch_def Let_def honest_def split: if_splits)
    qed
  qed
qed

lemma permitted_honest:
  assumes run: "permitted_dispatch rt ports ctl env chain q pre d cd v w = (cd', v', w')" and inv: "inv w"
    and cd: "cd_status cd = Loop_Not_Dispatched" "cd_decision cd = Some d"
  shows "honest cd' w w' \<and> cd_decision cd' = Some d \<and>
    (effect_of w' = effect_of w \<or> (\<exists>c a p. cd_assessment cd' = Some a \<and> ca_safe a \<and> cd_permit cd' = Some p \<and>
       candidate_matches rt a c (so_snapshot pre) \<and>
       issue_capability rt (cc_issuer ctl) (ce_issued_at env) (ce_permit_id env) (ce_permit_nonce env) chain q pre d c a = Inr p))"
proof (cases "translate (cc_bindings ctl) (ce_command_id env) (ar_proposal q)")
  case (Inl e)
  then show ?thesis using run cd by (auto simp: permitted_dispatch_def Let_def intro: honest_idle)
next
  case (Inr c)
  obtain r w1 where sim: "op_simulate ports c w = (r, w1)" by fastforce
  note keep = simulate_keeps [OF sim]
  show ?thesis
  proof (cases "\<exists>a p. r = Inr a \<and> ca_safe a \<and> candidate_matches rt a c (so_snapshot pre) \<and>
      issue_capability rt (cc_issuer ctl) (ce_issued_at env) (ce_permit_id env) (ce_permit_nonce env) chain q pre d c a = Inr p")
    case False
    then have "w' = w1 \<and> cd_status cd' \<noteq> Loop_Completed \<and> cd_decision cd' = Some d"
      using run cd sim Inr by (auto simp: permitted_dispatch_def Let_def split: sum.splits if_splits)
    then show ?thesis using keep by (auto intro: honest_idle)
  next
    case True
    then obtain a p where p: "r = Inr a" "ca_safe a" "candidate_matches rt a c (so_snapshot pre)"
      "issue_capability rt (cc_issuer ctl) (ce_issued_at env) (ce_permit_id env) (ce_permit_nonce env) chain q pre d c a = Inr p"
      by blast
    then have "dispatch_capability rt ports ctl env q pre d a p (cd\<lparr>cd_command := Some c, cd_assessment := Some a\<rparr>) v w1 =
        (cd', v', w')"
      using run Inr sim by (simp add: permitted_dispatch_def Let_def)
    from dispatch_honest [OF this] keep inv cd p show ?thesis by (auto simp: honest_def)
  qed
qed

lemma run_honest:
  assumes run: "capability_run rt ports ctl env q (gw, v, w) = (cd, gw', v', w')" and inv: "inv w"
  shows "honest cd w w' \<and>
    (effect_of w' = effect_of w \<or> (\<exists>ob gs d c a p. cd_decision cd = Some d \<and> dec_outcome d = PERMIT \<and>
       decide rt (ce_decide env) gw (ar_proposal q) gs (Some (ce_clock env 0)) = (gw', d) \<and>
       physical_state_to_gateway_state (so_snapshot ob) = Inr gs \<and>
       fst (verify_pre rt ob q (ce_clock env 0) v) = [] \<and>
       cd_assessment cd = Some a \<and> ca_safe a \<and> candidate_matches rt a c (so_snapshot ob) \<and> cd_permit cd = Some p \<and>
       issue_capability rt (cc_issuer ctl) (ce_issued_at env) (ce_permit_id env) (ce_permit_nonce env) (gw_evidence gw')
         q ob d c a = Inr p))"
proof -
  obtain r w1 where res: "op_resolve ports (ar_observation_id q) (ar_observation_envelope_digest q) w = (r, w1)" by fastforce
  note keep = resolve_keeps [OF res]
  show ?thesis
  proof (cases "\<exists>ob gs. r = Inr ob \<and> fst (verify_pre rt ob q (ce_clock env 0) v) = [] \<and>
      physical_state_to_gateway_state (so_snapshot ob) = Inr gs \<and>
      dec_outcome (snd (decide rt (ce_decide env) gw (ar_proposal q) gs (Some (ce_clock env 0)))) = PERMIT")
    case False
    then have "w' = w1 \<and> cd_status cd \<noteq> Loop_Completed"
      using run res by (auto simp: capability_run_def Let_def not_dispatched_def split: sum.splits prod.splits if_splits)
    then show ?thesis using keep by (auto intro: honest_idle)
  next
    case True
    then obtain ob gs v1 gw1 d where ob: "r = Inr ob" "verify_pre rt ob q (ce_clock env 0) v = ([], v1)"
      "physical_state_to_gateway_state (so_snapshot ob) = Inr gs"
      "decide rt (ce_decide env) gw (ar_proposal q) gs (Some (ce_clock env 0)) = (gw1, d)" "dec_outcome d = PERMIT"
      by (metis prod.collapse)
    let ?cd = "(not_dispatched (dec_reasons d))\<lparr>cd_pre_observation := Some ob, cd_last_observation := Some ob,
        cd_decision := Some d\<rparr>"
    obtain cd2 v2 w2 where disp: "permitted_dispatch rt ports ctl env (gw_evidence gw1) q ob d ?cd v1 w1 = (cd2, v2, w2)"
      by (metis prod.exhaust)
    then have "cd2 = cd" "w2 = w'" "gw1 = gw'" using run res ob by (simp_all add: capability_run_def Let_def)
    moreover have "inv w1" using inv keep by simp
    ultimately show ?thesis
      using permitted_honest [OF disp] keep ob by (auto simp: honest_def not_dispatched_def)
  qed
qed

end

end
