(* ===== verification/Capability_Observer.thy ===== *)
theory Capability_Observer
  imports Capability_Plant
begin

text \<open>
  \<^verbatim>\<open>capability_observer.py\<close>: the process that signs observations. It holds a read-only plant capability, numbers
  what it signs, keeps the last 128 envelopes for resolution, and links a post-dispatch observation to the
  pre-authorization envelope of its transaction.
\<close>

section \<open>Roles and requests\<close>

datatype observer_role = Observer_Admin | Telemetry | Observer_Gateway

definition observer_capabilities :: "observer_role \<Rightarrow> string set" where
  "observer_capabilities role =
     (case role of
        Observer_Admin \<Rightarrow> {''health'', ''probe_plant_apply'', ''shutdown''}
      | Telemetry \<Rightarrow> {''health'', ''capture_pre''}
      | Observer_Gateway \<Rightarrow> {''health'', ''resolve'', ''capture_post''})"

datatype observer_request =
    Observer_Health
  | Observer_Shutdown
  | Probe_Plant_Apply "command res"
  | Capture_Pre "(string \<times> string) res"
  | Resolve "(string \<times> string) res"
  | Capture_Post "transaction_bindings res"
  | Other_Observer_Operation string

fun observer_operation :: "observer_request \<Rightarrow> string" where
  "observer_operation Observer_Health = ''health''"
| "observer_operation Observer_Shutdown = ''shutdown''"
| "observer_operation (Probe_Plant_Apply _) = ''probe_plant_apply''"
| "observer_operation (Capture_Pre _) = ''capture_pre''"
| "observer_operation (Resolve _) = ''resolve''"
| "observer_operation (Capture_Post _) = ''capture_post''"
| "observer_operation (Other_Observer_Operation name) = name"

record observer_health =
  oh_role :: observer_role
  oh_capture_count :: int
  oh_resolve_count :: int
  oh_cached_observations :: nat

datatype observer_reply =
    Observer_Health_Reply observer_health
  | Observer_Stopping
  | Probe_Reply string
  | Observation_Reply observation

datatype observer_response =
    Observer_Ok observer_reply
  | Observer_Rejected string "string option"
  | Observer_Error string string

section \<open>The service\<close>

text \<open>\<^verbatim>\<open>os_from_plant\<close>: \<^verbatim>\<open>post_snapshot_source\<close> is \<^verbatim>\<open>plant\<close>; otherwise a post observation repeats its predecessor.\<close>

record observer_service =
  os_identity :: observer_identity
  os_private_key :: private_key
  os_sequence :: int
  os_capture_count :: int
  os_resolve_count :: int
  os_previous_digest :: "string option"
  os_cache :: "(string \<times> observation) list"
  os_from_plant :: bool
  os_running :: bool

definition cache_limit :: nat where
  "cache_limit = 128"

text \<open>\<^verbatim>\<open>while len(cache) > 128: cache.popitem(last=False)\<close>, on the entries from the oldest to the newest.\<close>

function evict :: "'a list \<Rightarrow> 'a list" where
  "evict cache = (if length cache > cache_limit then evict (tl cache) else cache)"
  by auto
termination by (relation "measure length") (auto simp: cache_limit_def)

declare evict.simps [simp del]

text \<open>\<^verbatim>\<open>cache[id] = envelope; cache.move_to_end(id)\<close>\<close>

definition cache_put :: "string \<Rightarrow> 'a \<Rightarrow> (string \<times> 'a) list \<Rightarrow> (string \<times> 'a) list" where
  "cache_put k v cache = evict (filter (\<lambda>(k', _). k' \<noteq> k) cache @ [(k, v)])"

text \<open>
  One exchange of the observer: the fresh observation identifier, the text of foreign exceptions, and the
  observer's plant client acting on the world \<^typ>\<open>'w\<close>.
\<close>

record 'w observer_port =
  bp_capture :: "'w \<Rightarrow> snapshot res \<times> 'w"
  bp_probe :: "command \<Rightarrow> 'w \<Rightarrow> string res \<times> 'w"

record observer_env =
  be_observation_id :: string
  be_text :: "exn \<Rightarrow> string"

definition observer_capture ::
  "runtime \<Rightarrow> 'w observer_port \<Rightarrow> observer_env \<Rightarrow> transaction_bindings \<Rightarrow> snapshot option \<Rightarrow> observer_service \<times> 'w \<Rightarrow>
   observation res \<times> observer_service \<times> 'w" where
  "observer_capture rt port env tb snapshot_override = (\<lambda>(svc, w).
     case (case snapshot_override of Some s \<Rightarrow> (Inr s, w) | None \<Rightarrow> bp_capture port w) of
       (Inl e, w1) \<Rightarrow> (Inl e, svc, w1)
     | (Inr s, w1) \<Rightarrow>
         let svc1 = svc\<lparr>os_sequence := os_sequence svc + 1, os_capture_count := os_capture_count svc + 1\<rparr>;
             previous = (if tb_phase tb = Post_Dispatch then tb_previous_envelope_digest tb else os_previous_digest svc)
         in case issue_observation rt (be_observation_id env) s (tb\<lparr>tb_previous_envelope_digest := previous\<rparr>)
                (os_identity svc) (os_sequence svc1) (os_private_key svc) of
              Inl e \<Rightarrow> (Inl e, svc1, w1)
            | Inr ob \<Rightarrow>
                (Inr ob, svc1\<lparr>os_previous_digest := Some (so_envelope_digest ob),
                   os_cache := cache_put (so_observation_id ob) ob (os_cache svc)\<rparr>, w1))"

definition pre_bindings :: "string \<Rightarrow> string \<Rightarrow> transaction_bindings" where
  "pre_bindings correlation_id challenge_nonce =
     \<lparr>tb_correlation_id = correlation_id, tb_phase = Pre_Authorization, tb_challenge_nonce = challenge_nonce,
      tb_previous_envelope_digest = None, tb_permit_id = None, tb_command_digest = None,
      tb_plc_acknowledgment_digest = None\<rparr>"

definition predecessor :: "string option \<Rightarrow> (string \<times> observation) list \<Rightarrow> observation option" where
  "predecessor previous cache = find (\<lambda>ob. Some (so_envelope_digest ob) = previous) (map snd cache)"

fun observer_handle ::
  "runtime \<Rightarrow> 'w observer_port \<Rightarrow> observer_env \<Rightarrow> observer_role \<Rightarrow> observer_request \<Rightarrow> observer_service \<times> 'w \<Rightarrow>
   (string + observer_reply) res \<times> observer_service \<times> 'w" where
  "observer_handle rt port env role Observer_Health (svc, w) =
     (Inr (Inr (Observer_Health_Reply
        \<lparr>oh_role = role, oh_capture_count = os_capture_count svc, oh_resolve_count = os_resolve_count svc,
         oh_cached_observations = length (os_cache svc)\<rparr>)), svc, w)"
| "observer_handle rt port env role Observer_Shutdown (svc, w) =
     (Inr (Inr Observer_Stopping), svc\<lparr>os_running := False\<rparr>, w)"
| "observer_handle rt port env role (Probe_Plant_Apply decoded) (svc, w) =
     (case decoded of
        Inl e \<Rightarrow> (Inl e, svc, w)
      | Inr c \<Rightarrow> let (r, w') = bp_probe port c w in (bind_res r (\<lambda>m. Inr (Inr (Probe_Reply m))), svc, w'))"
| "observer_handle rt port env role (Capture_Pre decoded) (svc, w) =
     (case decoded of
        Inl e \<Rightarrow> (Inl e, svc, w)
      | Inr (correlation_id, challenge_nonce) \<Rightarrow>
          let (r, s') = observer_capture rt port env (pre_bindings correlation_id challenge_nonce) None (svc, w)
          in (bind_res r (\<lambda>ob. Inr (Inr (Observation_Reply ob))), s'))"
| "observer_handle rt port env role (Resolve decoded) (svc, w) =
     (let svc1 = svc\<lparr>os_resolve_count := os_resolve_count svc + 1\<rparr> in
      case decoded of
        Inl e \<Rightarrow> (Inl e, svc1, w)
      | Inr (observation_id, expected_digest) \<Rightarrow>
          (case map_of (os_cache svc) observation_id of
             Some ob \<Rightarrow>
               if so_envelope_digest ob \<noteq> expected_digest then (Inr (Inl ''observation_not_found''), svc1, w)
               else (Inr (Inr (Observation_Reply ob)), svc1, w)
           | None \<Rightarrow> (Inr (Inl ''observation_not_found''), svc1, w)))"
| "observer_handle rt port env role (Capture_Post decoded) (svc, w) =
     (case decoded of
        Inl e \<Rightarrow> (Inl e, svc, w)
      | Inr tb \<Rightarrow>
          let invalid = (Inl (ValueError ''post observation predecessor is unavailable or invalid''), svc, w) in
          case predecessor (tb_previous_envelope_digest tb) (os_cache svc) of
            None \<Rightarrow> invalid
          | Some before \<Rightarrow>
              if so_phase before \<noteq> Pre_Authorization \<or> so_correlation_id before \<noteq> tb_correlation_id tb then invalid
              else let (r, s') = observer_capture rt port env (tb\<lparr>tb_phase := Post_Dispatch\<rparr>)
                         (if os_from_plant svc then None else Some (so_snapshot before)) (svc, w)
                   in (bind_res r (\<lambda>ob. Inr (Inr (Observation_Reply ob))), s'))"
| "observer_handle rt port env role (Other_Observer_Operation name) (svc, w) =
     (Inl (RuntimeError ''unreachable observer operation''), svc, w)"

definition observer_respond :: "(exn \<Rightarrow> string) \<Rightarrow> (string + observer_reply) res \<Rightarrow> observer_response" where
  "observer_respond other result =
     (case result of
        Inr (Inr reply) \<Rightarrow> Observer_Ok reply
      | Inr (Inl error_code) \<Rightarrow> Observer_Rejected error_code None
      | Inl e \<Rightarrow>
          let reason = bounded_error_reason other e in
          if payload_error e then Observer_Rejected ''invalid_payload'' (Some reason)
          else Observer_Error ''observer_internal_error'' reason)"

definition observer_serve ::
  "runtime \<Rightarrow> 'w observer_port \<Rightarrow> observer_env \<Rightarrow> observer_role \<Rightarrow> observer_request \<Rightarrow> observer_service \<times> 'w \<Rightarrow>
   observer_response \<times> observer_service \<times> 'w" where
  "observer_serve rt port env role request s =
     (if observer_operation request \<notin> observer_capabilities role then (Observer_Rejected ''capability_denied'' None, s)
      else let (result, s') = observer_handle rt port env role request s
           in (observer_respond (be_text env) result, s'))"

text \<open>The observer's own plant client.\<close>

definition observer_plant_client :: "runtime \<Rightarrow> pandapower \<Rightarrow> (nat \<Rightarrow> exchange_env) \<Rightarrow> plant_world observer_port" where
  "observer_plant_client rt pw sched =
     \<lparr>bp_capture = client_capture_state rt pw sched, bp_probe = probe_forbidden_apply rt pw sched Observer_End\<rparr>"

section \<open>The cache\<close>

lemma evict_drop: "evict cache = drop (length cache - cache_limit) cache"
proof (induction cache rule: evict.induct)
  case (1 cache)
  show ?case
  proof (cases "length cache > cache_limit")
    case True
    then obtain n where n: "length cache - cache_limit = Suc n" by (metis Suc_diff_Suc)
    then have "length (tl cache) - cache_limit = n" by simp
    with n have "drop (length (tl cache) - cache_limit) (tl cache) = drop (length cache - cache_limit) cache"
      by (simp add: drop_Suc)
    then show ?thesis using 1 [OF True] True by (simp add: evict.simps [of cache])
  qed (simp add: evict.simps [of cache])
qed

lemma set_evict: "set (evict cache) \<subseteq> set cache"
  by (simp add: evict_drop set_drop_subset)

text \<open>
  (C37) The eviction loop of the observer's cache ends for a cache of any length and leaves the newest
  entries: the cache without its oldest entries, and as long as it was or as long as the limit, whichever
  is less. A stored envelope is the newest entry and the only one of its identifier.
\<close>
theorem eviction_keeps_newest:
  "evict cache = drop (length cache - cache_limit) cache \<and> length (evict cache) = min (length cache) cache_limit \<and>
   last (cache_put k v entries) = (k, v) \<and> map_of (cache_put k v entries) k = Some v \<and>
   length (cache_put k v entries) \<le> cache_limit"
proof -
  let ?old = "filter (\<lambda>(k', _). k' \<noteq> k) entries"
  let ?n = "length ?old + 1 - cache_limit"
  have put: "cache_put k v entries = drop ?n ?old @ [(k, v)]"
    by (simp add: cache_put_def evict_drop cache_limit_def Suc_diff_le)
  have "k \<notin> fst ` set (drop ?n ?old)" using set_drop_subset [of ?n ?old] by fastforce
  then have "map_of (drop ?n ?old) k = None" by (simp add: map_of_eq_None_iff)
  moreover have "length cache - (length cache - cache_limit) = min (length cache) cache_limit" by linarith
  moreover have "length ?old - ?n + 1 \<le> cache_limit" by (simp add: cache_limit_def)
  ultimately show ?thesis by (simp add: put evict_drop map_add_def)
qed

section \<open>What the observer signs\<close>

text \<open>An observation that this observer issued: its own identity and signature over a valid envelope.\<close>

definition issued_here :: "runtime \<Rightarrow> observer_service \<Rightarrow> observation \<Rightarrow> bool" where
  "issued_here rt svc ob \<longleftrightarrow> observation_valid rt ob \<and> verify_digest rt (so_snapshot ob) \<and>
     so_observer_id ob = oi_observer_id (os_identity svc) \<and> so_observer_key_id ob = oi_key_id (os_identity svc) \<and>
     so_observer_boot_epoch ob = oi_boot_epoch (os_identity svc) \<and> so_observer_sequence ob \<le> os_sequence svc \<and>
     so_signature ob = sign_bytes rt (os_private_key svc) (observation_signing_payload ob)"

definition observer_inv :: "runtime \<Rightarrow> observer_service \<Rightarrow> bool" where
  "observer_inv rt svc \<longleftrightarrow> length (os_cache svc) \<le> cache_limit \<and> distinct (map fst (os_cache svc)) \<and>
     sorted_wrt (<) (map (\<lambda>e. so_observer_sequence (snd e)) (os_cache svc)) \<and>
     list_all (\<lambda>(k, ob). k = so_observation_id ob \<and> issued_here rt svc ob) (os_cache svc)"

definition same_observer :: "observer_service \<Rightarrow> observer_service \<Rightarrow> bool" where
  "same_observer svc svc' \<longleftrightarrow> os_identity svc' = os_identity svc \<and> os_private_key svc' = os_private_key svc \<and>
     os_from_plant svc' = os_from_plant svc \<and> os_sequence svc \<le> os_sequence svc'"

lemma issued_here_mono: "same_observer svc svc' \<Longrightarrow> issued_here rt svc ob \<Longrightarrow> issued_here rt svc' ob"
  by (auto simp: same_observer_def issued_here_def)

lemma same_observer_refl: "same_observer svc svc" by (simp add: same_observer_def)

lemma issue_observation_signature:
  "issue_observation rt oid s tb oi n sk = Inr ob \<Longrightarrow> so_signature ob = sign_bytes rt sk (observation_signing_payload ob)"
  by (erule issue_observationE) simp

lemma cache_put_inv:
  assumes cache: "distinct (map fst cache)" "sorted_wrt (<) (map (\<lambda>e. f (snd e)) cache)" "\<forall>e \<in> set cache. f (snd e) < f v"
  shows "distinct (map fst (cache_put k v cache))" "sorted_wrt (<) (map (\<lambda>e. f (snd e)) (cache_put k v cache))"
proof -
  let ?old = "filter (\<lambda>(k', _). k' \<noteq> k) cache"
  have "distinct (map fst ?old)" by (rule distinct_map_filter [OF cache(1)])
  then have full: "distinct (map fst (?old @ [(k, v)]))" by auto
  have "sorted_wrt (\<lambda>a b. f (snd a) < f (snd b)) ?old"
    using cache(2) by (simp add: sorted_wrt_map sorted_wrt_filter)
  then have "sorted_wrt (\<lambda>a b. f (snd a) < f (snd b)) (?old @ [(k, v)])" using cache(3) by (auto simp: sorted_wrt_append)
  from sorted_wrt_drop [OF this] show "sorted_wrt (<) (map (\<lambda>e. f (snd e)) (cache_put k v cache))"
    unfolding cache_put_def evict_drop sorted_wrt_map .
  show "distinct (map fst (cache_put k v cache))"
    using distinct_drop [OF full] unfolding cache_put_def evict_drop drop_map .
qed

lemma set_cache_put: "set (cache_put k v cache) \<subseteq> insert (k, v) (set cache)"
  using set_evict [of "filter (\<lambda>(k', _). k' \<noteq> k) cache @ [(k, v)]"] by (auto simp: cache_put_def)

lemma observer_capture_step:
  assumes "observer_capture rt port env tb override (svc, w) = (r, svc', w')" and inv: "observer_inv rt svc"
  shows "observer_inv rt svc' \<and> same_observer svc svc' \<and>
    (case r of Inl _ \<Rightarrow> True
     | Inr ob \<Rightarrow> issued_here rt svc' ob \<and> so_observer_sequence ob = os_sequence svc + 1 \<and> os_sequence svc' = os_sequence svc + 1 \<and>
         so_phase ob = tb_phase tb \<and> so_correlation_id ob = tb_correlation_id tb \<and> so_challenge_nonce ob = tb_challenge_nonce tb)"
proof -
  obtain source w1 where source: "(case override of Some s \<Rightarrow> (Inr s, w) | None \<Rightarrow> bp_capture port w) = (source, w1)" by fastforce
  define svc1 where "svc1 = svc\<lparr>os_sequence := os_sequence svc + 1, os_capture_count := os_capture_count svc + 1\<rparr>"
  have step: "same_observer svc svc1" and cache: "os_cache svc1 = os_cache svc" by (simp_all add: same_observer_def svc1_def)
  have inv1: "observer_inv rt svc1"
    using inv issued_here_mono [OF step] by (auto simp: observer_inv_def cache list_all_iff)
  show ?thesis
  proof (cases source)
    case (Inl e)
    then show ?thesis using assms source by (auto simp: observer_capture_def same_observer_refl)
  next
    case (Inr s)
    define tb1 where "tb1 = tb\<lparr>tb_previous_envelope_digest :=
        (if tb_phase tb = Post_Dispatch then tb_previous_envelope_digest tb else os_previous_digest svc)\<rparr>"
    obtain issued where issued: "issue_observation rt (be_observation_id env) s tb1 (os_identity svc) (os_sequence svc + 1)
        (os_private_key svc) = issued" by blast
    note run = assms(1) [unfolded observer_capture_def prod.case source Inr sum.case Let_def]
    show ?thesis
    proof (cases issued)
      case (Inl e)
      then have "r = Inl e" "svc' = svc1" using run issued by (auto simp: tb1_def svc1_def)
      then show ?thesis using inv1 step by simp
    next
      case ob: (Inr ob)
      note D = issue_observationD [OF issued [unfolded ob]]
      define svc2 where "svc2 = svc1\<lparr>os_previous_digest := Some (so_envelope_digest ob),
          os_cache := cache_put (so_observation_id ob) ob (os_cache svc)\<rparr>"
      have r: "r = Inr ob" "svc' = svc2" using run issued ob by (simp_all add: tb1_def svc2_def svc1_def)
      have here: "issued_here rt svc2 ob"
        using D issue_observation_signature [OF issued [unfolded ob]] by (simp add: issued_here_def svc2_def svc1_def)
      have same: "same_observer svc svc2" by (simp add: same_observer_def svc2_def svc1_def)
      have seqs: "\<forall>e \<in> set (os_cache svc). so_observer_sequence (snd e) < so_observer_sequence ob"
        using inv D(9) by (fastforce simp: observer_inv_def list_all_iff issued_here_def)
      have entries: "\<forall>(k, v) \<in> set (os_cache svc). k = so_observation_id v \<and> issued_here rt svc2 v"
        using inv issued_here_mono [OF same] by (auto simp: observer_inv_def list_all_iff)
      have put: "os_cache svc2 = cache_put (so_observation_id ob) ob (os_cache svc)" by (simp add: svc2_def)
      have "observer_inv rt svc2"
        using cache_put_inv [of "os_cache svc" so_observer_sequence ob "so_observation_id ob"] inv seqs entries here
          set_cache_put [of "so_observation_id ob" ob "os_cache svc"]
        by (auto simp: observer_inv_def list_all_iff put) (simp add: cache_put_def evict_drop cache_limit_def)
      then show ?thesis using here same D by (simp add: r) (simp add: svc2_def svc1_def tb1_def)
    qed
  qed
qed

definition observed_in :: "observer_response \<Rightarrow> observation option" where
  "observed_in response = (case response of Observer_Ok (Observation_Reply ob) \<Rightarrow> Some ob | _ \<Rightarrow> None)"

lemma observer_count_same: "same_observer svc (svc\<lparr>os_resolve_count := n\<rparr>)" "same_observer svc (svc\<lparr>os_running := b\<rparr>)"
  "observer_inv rt (svc\<lparr>os_resolve_count := n\<rparr>) = observer_inv rt svc" "observer_inv rt (svc\<lparr>os_running := b\<rparr>) = observer_inv rt svc"
  by (simp_all add: same_observer_def observer_inv_def issued_here_def)

lemma observer_handle_step:
  assumes run: "observer_handle rt port env role request (svc, w) = (r, svc', w')" and inv: "observer_inv rt svc"
  shows "observer_inv rt svc' \<and> same_observer svc svc' \<and> (\<forall>ob. r = Inr (Inr (Observation_Reply ob)) \<longrightarrow> issued_here rt svc' ob)"
proof (cases request)
  case (Capture_Pre decoded)
  show ?thesis
  proof (cases decoded)
    case (Inr args)
    obtain result svc1 w1 where cap: "observer_capture rt port env (pre_bindings (fst args) (snd args)) None (svc, w) = (result, svc1, w1)"
      by (metis prod.exhaust)
    from observer_capture_step [OF cap inv] show ?thesis using run cap
      by (auto simp: Capture_Pre Inr res_simps case_prod_beta split: sum.splits)
  qed (use run inv in \<open>auto simp: Capture_Pre same_observer_refl\<close>)
next
  case (Capture_Post decoded)
  show ?thesis
  proof (cases decoded)
    case (Inr tb)
    show ?thesis
    proof (cases "\<exists>before. predecessor (tb_previous_envelope_digest tb) (os_cache svc) = Some before \<and>
        so_phase before = Pre_Authorization \<and> so_correlation_id before = tb_correlation_id tb")
      case True
      then obtain before where before: "predecessor (tb_previous_envelope_digest tb) (os_cache svc) = Some before"
        "so_phase before = Pre_Authorization" "so_correlation_id before = tb_correlation_id tb" by blast
      obtain result svc1 w1 where cap: "observer_capture rt port env (tb\<lparr>tb_phase := Post_Dispatch\<rparr>)
          (if os_from_plant svc then None else Some (so_snapshot before)) (svc, w) = (result, svc1, w1)" by (metis prod.exhaust)
      from observer_capture_step [OF cap inv] show ?thesis using run cap before
        by (auto simp: Capture_Post Inr res_simps Let_def split: sum.splits)
    qed (use run inv in \<open>auto simp: Capture_Post Inr Let_def same_observer_refl split: option.splits if_splits\<close>)
  qed (use run inv in \<open>auto simp: Capture_Post same_observer_refl\<close>)
next
  case (Resolve decoded)
  show ?thesis
  proof (cases decoded)
    case (Inr args)
    have "issued_here rt svc ob" if "map_of (os_cache svc) (fst args) = Some ob" for ob
      using that inv by (auto simp: observer_inv_def list_all_iff dest!: map_of_SomeD)
    then show ?thesis using run inv
      by (auto simp: Resolve Inr Let_def observer_count_same case_prod_beta issued_here_def split: option.splits if_splits)
  qed (use run inv in \<open>auto simp: Resolve Let_def observer_count_same\<close>)
next
  case (Probe_Plant_Apply decoded)
  then show ?thesis using run inv by (auto simp: res_simps same_observer_refl case_prod_beta split: sum.splits)
qed (use run inv in \<open>auto simp: observer_count_same same_observer_refl\<close>)

lemma observer_serve_step:
  assumes "observer_serve rt port env role request (svc, w) = (response, svc', w')" and inv: "observer_inv rt svc"
  shows "observer_inv rt svc' \<and> same_observer svc svc' \<and>
    (case observed_in response of None \<Rightarrow> True | Some ob \<Rightarrow> issued_here rt svc' ob)"
proof (cases "observer_operation request \<in> observer_capabilities role")
  case True
  then obtain r where handle: "observer_handle rt port env role request (svc, w) = (r, svc', w')"
    and response: "response = observer_respond (be_text env) r"
    using assms(1) by (auto simp: observer_serve_def split: prod.splits)
  have "observed_in response = Some ob \<Longrightarrow> r = Inr (Inr (Observation_Reply ob))" for ob
    by (auto simp: response observed_in_def observer_respond_def Let_def split: sum.splits if_splits observer_reply.splits)
  with observer_handle_step [OF handle inv] show ?thesis by (auto split: option.splits)
qed (use assms in \<open>auto simp: observer_serve_def observed_in_def same_observer_refl\<close>)

definition observer_step ::
  "runtime \<Rightarrow> 'w observer_port \<Rightarrow> observer_env \<times> observer_role \<times> observer_request \<Rightarrow> observer_service \<times> 'w \<Rightarrow>
   observer_response \<times> observer_service \<times> 'w" where
  "observer_step rt port = (\<lambda>(env, role, request). observer_serve rt port env role request)"

definition fresh_observer :: "observer_identity \<Rightarrow> private_key \<Rightarrow> bool \<Rightarrow> observer_service" where
  "fresh_observer oi private_key from_plant =
     \<lparr>os_identity = oi, os_private_key = private_key, os_sequence = 0, os_capture_count = 0, os_resolve_count = 0,
      os_previous_digest = None, os_cache = [], os_from_plant = from_plant, os_running = True\<rparr>"

lemma same_observer_trans: "same_observer a b \<Longrightarrow> same_observer b c \<Longrightarrow> same_observer a c"
  by (auto simp: same_observer_def)

lemma observer_run:
  assumes "run_steps (observer_step rt port) inputs (svc, w) = (outs, svc', w')" "observer_inv rt svc"
  shows "observer_inv rt svc' \<and> same_observer svc svc' \<and>
    list_all (\<lambda>(_, response). case observed_in response of None \<Rightarrow> True | Some ob \<Rightarrow> issued_here rt svc' ob) outs"
  using assms
proof (induction inputs arbitrary: svc w outs)
  case (Cons i inputs)
  obtain env role request where i: "i = (env, role, request)" by (cases i)
  obtain response svc1 w1 where step: "observer_serve rt port env role request (svc, w) = (response, svc1, w1)"
    by (metis prod.exhaust)
  obtain rest svc2 w2 where rest: "run_steps (observer_step rt port) inputs (svc1, w1) = (rest, svc2, w2)" by (metis prod.exhaust)
  have outs: "outs = (i, response) # rest" "svc' = svc2" "w' = w2"
    using Cons.prems(1) step rest by (simp_all add: i observer_step_def)
  note first = observer_serve_step [OF step Cons.prems(2)]
  with Cons.IH [OF rest [folded outs(2,3)]] show ?case
    by (auto simp: outs(1) intro: same_observer_trans issued_here_mono split: option.splits)
qed (simp add: same_observer_refl)

text \<open>
  (C20) The observer hands out only what it signed: whatever requests the three roles send, every observation
  that an answer carries, freshly captured or resolved from the cache, is a valid envelope with the
  observer's identity, its signature, and a sequence number that it has used; the cache holds at most 128
  of them, under their own identifiers, in the order of their sequence numbers.
\<close>
theorem observer_hands_out_what_it_signed:
  "let (outs, svc, w') = run_steps (observer_step rt port) inputs (fresh_observer oi private_key from_plant, w)
   in os_identity svc = oi \<and> os_private_key svc = private_key \<and> observer_inv rt svc \<and>
      list_all (\<lambda>(_, response). case observed_in response of None \<Rightarrow> True | Some ob \<Rightarrow> issued_here rt svc ob) outs"
proof -
  obtain outs svc w' where run: "run_steps (observer_step rt port) inputs (fresh_observer oi private_key from_plant, w) = (outs, svc, w')"
    by (metis prod.exhaust)
  have "observer_inv rt (fresh_observer oi private_key from_plant)" by (simp add: observer_inv_def fresh_observer_def)
  from observer_run [OF run this] run show ?thesis by (simp add: same_observer_def fresh_observer_def)
qed

end
