(* ===== verification/Capability_System.thy ===== *)
theory Capability_System
  imports Capability_Control Capability_Observer Closed_Loop
begin

text \<open>
  The processes of the capability laboratory put together: the PLC service around the virtual PLC
  (\<^verbatim>\<open>capability_plc.py\<close>), the clients of the observer and the PLC services, and the gateway's closed loop
  over them. An exchange over a pipe may lose the request or the answer.
\<close>

section \<open>The PLC service\<close>

datatype plc_role = Plc_Admin | Plc_Gateway

definition plc_capabilities :: "plc_role \<Rightarrow> string set" where
  "plc_capabilities role =
     (case role of Plc_Admin \<Rightarrow> {''health'', ''shutdown''} | Plc_Gateway \<Rightarrow> {''health'', ''execute''})"

datatype plc_service_request =
    Plc_Health
  | Plc_Shutdown
  | Plc_Execute "plc_request res"
  | Other_Plc_Operation string

fun plc_operation :: "plc_service_request \<Rightarrow> string" where
  "plc_operation Plc_Health = ''health''"
| "plc_operation Plc_Shutdown = ''shutdown''"
| "plc_operation (Plc_Execute _) = ''execute''"
| "plc_operation (Other_Plc_Operation name) = name"

record plc_health =
  qh_role :: plc_role
  qh_execute_requests :: int
  qh_plc_scan :: int
  qh_replay_reservations :: nat
  qh_plant :: plant_reply

datatype plc_reply =
    Plc_Health_Reply plc_health
  | Plc_Stopping
  | Acknowledgment_Reply plc_ack

datatype plc_response =
    Plc_Ok plc_reply
  | Plc_Rejected string "string option"
  | Plc_Error string string

record plc_service =
  pv_device :: virtual_plc
  pv_end :: plant_role
  pv_running :: bool

record plc_service_env =
  pe_call :: plc_env
  pe_text :: "exn \<Rightarrow> string"

definition client_plant_health ::
  "runtime \<Rightarrow> pandapower \<Rightarrow> (nat \<Rightarrow> exchange_env) \<Rightarrow> plant_role \<Rightarrow> plant_world \<Rightarrow> plant_reply res \<times> plant_world" where
  "client_plant_health rt pw sched role w =
     (let (response, w') = plant_exchange rt pw sched False role Plant_Health w
      in (bind_res response plant_payload, w'))"

fun plc_handle ::
  "runtime \<Rightarrow> pandapower \<Rightarrow> (nat \<Rightarrow> exchange_env) \<Rightarrow> plc_service_env \<Rightarrow> plc_role \<Rightarrow> plc_service_request \<Rightarrow>
   plc_service \<times> plant_world \<Rightarrow> plc_reply res \<times> plc_service \<times> plant_world" where
  "plc_handle rt pw sched env role Plc_Health (svc, w) =
     (let device = pv_device svc in
      case client_plant_health rt pw sched (pv_end svc) w of
        (Inl e, w1) \<Rightarrow> (Inl e, svc, w1)
      | (Inr plant_health, w1) \<Rightarrow>
          let (reserved, ledger) = reservation_count (vp_replay device)
          in (bind_res reserved (\<lambda>n. Inr (Plc_Health_Reply
                \<lparr>qh_role = role, qh_execute_requests = vp_execute_requests device, qh_plc_scan = vp_scan_counter device,
                 qh_replay_reservations = n, qh_plant = plant_health\<rparr>)),
              svc\<lparr>pv_device := device\<lparr>vp_replay := ledger\<rparr>\<rparr>, w1))"
| "plc_handle rt pw sched env role Plc_Shutdown (svc, w) = (Inr Plc_Stopping, svc\<lparr>pv_running := False\<rparr>, w)"
| "plc_handle rt pw sched env role (Plc_Execute decoded) (svc, w) =
     (case decoded of
        Inl e \<Rightarrow> (Inl e, svc, w)
      | Inr x \<Rightarrow>
          let (result, device, w1) =
                plc_execute rt (plc_plant_client rt pw sched (pv_end svc)) (pe_call env) x (pv_device svc, w)
          in (bind_res result (\<lambda>k. Inr (Acknowledgment_Reply k)), svc\<lparr>pv_device := device\<rparr>, w1))"
| "plc_handle rt pw sched env role (Other_Plc_Operation name) (svc, w) =
     (Inl (RuntimeError ''unreachable PLC operation''), svc, w)"

definition plc_respond :: "(exn \<Rightarrow> string) \<Rightarrow> plc_reply res \<Rightarrow> plc_response" where
  "plc_respond other result =
     (case result of
        Inr reply \<Rightarrow> Plc_Ok reply
      | Inl e \<Rightarrow>
          let reason = bounded_error_reason other e in
          if payload_error e then Plc_Rejected ''invalid_payload'' (Some reason)
          else Plc_Error ''plc_internal_error'' reason)"

definition plc_serve ::
  "runtime \<Rightarrow> pandapower \<Rightarrow> (nat \<Rightarrow> exchange_env) \<Rightarrow> plc_service_env \<Rightarrow> plc_role \<Rightarrow> plc_service_request \<Rightarrow>
   plc_service \<times> plant_world \<Rightarrow> plc_response \<times> plc_service \<times> plant_world" where
  "plc_serve rt pw sched env role request s =
     (if plc_operation request \<notin> plc_capabilities role then (Plc_Rejected ''capability_denied'' None, s)
      else let (result, s') = plc_handle rt pw sched env role request s
           in (plc_respond (pe_text env) result, s'))"

section \<open>The processes and their links\<close>

datatype client_link = Plc_Link plc_role | Observer_Link observer_role

record capability_system =
  cy_plc :: plc_service
  cy_observer :: observer_service
  cy_plant :: plant_world
  cy_closed_clients :: "client_link set"
  cy_exchange :: nat

text \<open>What the environment contributes to the exchanges, each read at the number of the exchange.\<close>

record system_env =
  sy_link :: "nat \<Rightarrow> link_fault"
  sy_plc :: "nat \<Rightarrow> plc_service_env"
  sy_observer :: "nat \<Rightarrow> observer_env"
  sy_plant :: "nat \<Rightarrow> exchange_env"

definition link_exchange ::
  "system_env \<Rightarrow> bool \<Rightarrow> client_link \<Rightarrow> (capability_system \<Rightarrow> bool) \<Rightarrow>
   (nat \<Rightarrow> capability_system \<Rightarrow> 'r \<times> capability_system) \<Rightarrow> capability_system \<Rightarrow> 'r res \<times> capability_system" where
  "link_exchange envs consequential link running serve y =
     (if link \<in> cy_closed_clients y then (transport_failure ''IPC client is closed'', y)
      else
        let n = cy_exchange y; y1 = y\<lparr>cy_exchange := n + 1\<rparr>;
            close = (\<lambda>y. y\<lparr>cy_closed_clients := insert link (cy_closed_clients y)\<rparr>);
            lost = (if consequential then outcome_unknown ''consequential IPC response became unavailable''
                    else transport_failure ''IPC peer became unavailable'')
        in if \<not> running y \<or> sy_link envs n = Request_Lost then (lost, close y1)
           else let (response, y2) = serve n y1
                in if sy_link envs n = Answer_Lost then (lost, close y2) else (Inr response, y2))"

definition observer_exchange ::
  "runtime \<Rightarrow> pandapower \<Rightarrow> system_env \<Rightarrow> observer_role \<Rightarrow> observer_request \<Rightarrow> capability_system \<Rightarrow>
   observer_response res \<times> capability_system" where
  "observer_exchange rt pw envs role request =
     link_exchange envs False (Observer_Link role) (\<lambda>y. os_running (cy_observer y)) (\<lambda>n y.
       let (response, svc, w) = observer_serve rt (observer_plant_client rt pw (sy_plant envs)) (sy_observer envs n) role
             request (cy_observer y, cy_plant y)
       in (response, y\<lparr>cy_observer := svc, cy_plant := w\<rparr>))"

definition plc_exchange ::
  "runtime \<Rightarrow> pandapower \<Rightarrow> system_env \<Rightarrow> bool \<Rightarrow> plc_role \<Rightarrow> plc_service_request \<Rightarrow> capability_system \<Rightarrow>
   plc_response res \<times> capability_system" where
  "plc_exchange rt pw envs consequential role request =
     link_exchange envs consequential (Plc_Link role) (\<lambda>y. pv_running (cy_plc y)) (\<lambda>n y.
       let (response, svc, w) = plc_serve rt pw (sy_plant envs) (sy_plc envs n) role request (cy_plc y, cy_plant y)
       in (response, y\<lparr>cy_plc := svc, cy_plant := w\<rparr>))"

section \<open>The observer's clients\<close>

fun observer_payload :: "observer_response \<Rightarrow> observer_reply res" where
  "observer_payload (Observer_Ok reply) = Inr reply"
| "observer_payload (Observer_Rejected code reason) = Inl (NamedError ''ObserverServiceError'' (refusal_reason code reason))"
| "observer_payload (Observer_Error code reason) = Inl (NamedError ''ObserverServiceError'' reason)"

definition invalid_observation :: "observation res" where
  "invalid_observation = Inl (NamedError ''ObserverServiceError'' ''observer returned an invalid observation'')"

fun observation_of_reply :: "runtime \<Rightarrow> observer_reply \<Rightarrow> observation res" where
  "observation_of_reply rt (Observation_Reply ob) = (if observation_valid rt ob then Inr ob else invalid_observation)"
| "observation_of_reply rt _ = invalid_observation"

definition client_observation ::
  "runtime \<Rightarrow> pandapower \<Rightarrow> system_env \<Rightarrow> observer_role \<Rightarrow> observer_request \<Rightarrow> capability_system \<Rightarrow>
   observation res \<times> capability_system" where
  "client_observation rt pw envs role request y =
     (let (response, y') = observer_exchange rt pw envs role request y
      in (bind_res response (\<lambda>r. bind_res (observer_payload r) (observation_of_reply rt)), y'))"

definition client_capture_pre ::
  "runtime \<Rightarrow> pandapower \<Rightarrow> system_env \<Rightarrow> string \<Rightarrow> string \<Rightarrow> capability_system \<Rightarrow> observation res \<times> capability_system" where
  "client_capture_pre rt pw envs correlation_id challenge_nonce =
     client_observation rt pw envs Telemetry (Capture_Pre (Inr (correlation_id, challenge_nonce)))"

definition client_resolve ::
  "runtime \<Rightarrow> pandapower \<Rightarrow> system_env \<Rightarrow> string \<Rightarrow> string \<Rightarrow> capability_system \<Rightarrow> observation res \<times> capability_system" where
  "client_resolve rt pw envs observation_id envelope_digest =
     client_observation rt pw envs Observer_Gateway (Resolve (Inr (observation_id, envelope_digest)))"

definition client_capture_post ::
  "runtime \<Rightarrow> pandapower \<Rightarrow> system_env \<Rightarrow> transaction_bindings \<Rightarrow> capability_system \<Rightarrow> observation res \<times> capability_system" where
  "client_capture_post rt pw envs tb = client_observation rt pw envs Observer_Gateway (Capture_Post (Inr tb))"

fun decision_of_observer :: "observer_response \<Rightarrow> string" where
  "decision_of_observer (Observer_Ok _) = ''ok''"
| "decision_of_observer (Observer_Rejected code _) = code"
| "decision_of_observer (Observer_Error code _) = code"

text \<open>\<^verbatim>\<open>capture_post\<close> with an empty payload, whose first subscript raises \<^verbatim>\<open>KeyError\<close>.\<close>

definition probe_forbidden_post_capture ::
  "runtime \<Rightarrow> pandapower \<Rightarrow> system_env \<Rightarrow> capability_system \<Rightarrow> string res \<times> capability_system" where
  "probe_forbidden_post_capture rt pw envs y =
     (let (response, y') = observer_exchange rt pw envs Telemetry
            (Capture_Post (Inl (NamedError ''KeyError'' ''previous_envelope_digest''))) y
      in (bind_res response (\<lambda>r. Inr (decision_of_observer r)), y'))"

fun probe_of_reply :: "observer_reply \<Rightarrow> string res" where
  "probe_of_reply (Probe_Reply m) = Inr m"
| "probe_of_reply _ = Inl (NamedError ''KeyError'' ''decision'')"

definition probe_forbidden_plant_apply ::
  "runtime \<Rightarrow> pandapower \<Rightarrow> system_env \<Rightarrow> command \<Rightarrow> capability_system \<Rightarrow> string res \<times> capability_system" where
  "probe_forbidden_plant_apply rt pw envs c y =
     (let (response, y') = observer_exchange rt pw envs Observer_Admin (Probe_Plant_Apply (make_command c)) y
      in (bind_res response (\<lambda>r. bind_res (observer_payload r) probe_of_reply), y'))"

text \<open>The shutdown requests ignore a transport failure and a refusal.\<close>

definition observer_shutdown :: "runtime \<Rightarrow> pandapower \<Rightarrow> system_env \<Rightarrow> capability_system \<Rightarrow> capability_system" where
  "observer_shutdown rt pw envs y = snd (observer_exchange rt pw envs Observer_Admin Observer_Shutdown y)"

section \<open>The PLC's clients\<close>

definition received_request :: "runtime \<Rightarrow> plc_request \<Rightarrow> plc_request res" where
  "received_request rt x =
     (if action_request_valid (pq_request x) \<and> capability_permit_valid rt (pq_permit x) \<and>
         observation_valid rt (pq_pre_observation x) \<and> assessment_valid rt (pq_assessment x)
      then Inr x else Inl ValidationError)"

fun plc_payload :: "plc_response \<Rightarrow> plc_reply res" where
  "plc_payload (Plc_Ok reply) = Inr reply"
| "plc_payload (Plc_Rejected code reason) = Inl (NamedError ''PlcServiceError'' (refusal_reason code reason))"
| "plc_payload (Plc_Error code reason) = Inl (NamedError ''PlcServiceError'' reason)"

definition invalid_acknowledgment :: "plc_ack res" where
  "invalid_acknowledgment = Inl (NamedError ''PlcServiceError'' ''virtual PLC returned an invalid acknowledgment'')"

fun acknowledgment_of_reply :: "runtime \<Rightarrow> plc_reply \<Rightarrow> plc_ack res" where
  "acknowledgment_of_reply rt (Acknowledgment_Reply k) = (if plc_ack_valid rt k then Inr k else invalid_acknowledgment)"
| "acknowledgment_of_reply rt _ = invalid_acknowledgment"

definition gateway_plc_execute ::
  "runtime \<Rightarrow> pandapower \<Rightarrow> system_env \<Rightarrow> plc_request \<Rightarrow> capability_system \<Rightarrow> plc_ack res \<times> capability_system" where
  "gateway_plc_execute rt pw envs x y =
     (let (response, y') = plc_exchange rt pw envs True Plc_Gateway (Plc_Execute (received_request rt x)) y
      in (bind_res response (\<lambda>r. bind_res (plc_payload r) (acknowledgment_of_reply rt)), y'))"

definition plc_shutdown :: "runtime \<Rightarrow> pandapower \<Rightarrow> system_env \<Rightarrow> capability_system \<Rightarrow> capability_system" where
  "plc_shutdown rt pw envs y = snd (plc_exchange rt pw envs False Plc_Admin Plc_Shutdown y)"

text \<open>The exceptions of the PLC client carry none of the attributes that the controller looks for.\<close>

definition plain_failure :: "exn \<Rightarrow> dispatch_failure" where
  "plain_failure e = \<lparr>df_exn = e, df_known_no_effect = False, df_dispatch_attempts = 1, df_reason_code = None\<rparr>"

definition gateway_ports :: "runtime \<Rightarrow> pandapower \<Rightarrow> system_env \<Rightarrow> capability_system capability_ports" where
  "gateway_ports rt pw envs =
     \<lparr>op_resolve = client_resolve rt pw envs, op_capture_post = client_capture_post rt pw envs,
      op_simulate = (\<lambda>c y.
        let (a, w) = client_simulate_candidate rt pw (sy_plant envs) Simulation_End c (cy_plant y)
        in (a, y\<lparr>cy_plant := w\<rparr>)),
      op_plc = (\<lambda>x y.
        let (k, y') = gateway_plc_execute rt pw envs x y
        in ((case k of Inl e \<Rightarrow> Inl (plain_failure e) | Inr k \<Rightarrow> Inr k), y'))\<rparr>"

section \<open>The ports keep their contract\<close>

abbreviation plant_at :: "capability_system \<Rightarrow> plant" where
  "plant_at y \<equiv> sv_plant (wd_service (cy_plant y))"

abbreviation physical_at :: "capability_system \<Rightarrow> network \<times> pyfloat \<times> int" where
  "physical_at y \<equiv> physical (wd_service (cy_plant y))"

lemma physical_plant: "sv_plant svc' = sv_plant svc \<Longrightarrow> physical svc' = physical svc"
  by (simp add: physical_def)

text \<open>An exchange changes the plant only by serving the request.\<close>

lemma link_exchange_cases:
  assumes "link_exchange envs cons link running serve y = (r, y')"
  obtains (unserved) e where "r = Inl e" "cy_plant y' = cy_plant y"
  | (served) response y1 y2 where "serve (cy_exchange y) y1 = (response, y2)" "cy_plant y1 = cy_plant y"
      "cy_observer y1 = cy_observer y" "cy_plc y1 = cy_plc y" "cy_plant y' = cy_plant y2" "cy_plc y' = cy_plc y2"
      "r = Inr response \<or> (\<exists>e. r = Inl e)"
proof -
  let ?y1 = "y\<lparr>cy_exchange := cy_exchange y + 1\<rparr>"
  obtain response y2 where serve: "serve (cy_exchange y) ?y1 = (response, y2)" by fastforce
  consider "\<exists>e. r = Inl e" "cy_plant y' = cy_plant y"
    | "cy_plant y' = cy_plant y2" "cy_plc y' = cy_plc y2" "r = Inr response \<or> (\<exists>e. r = Inl e)"
    using assms serve by (auto simp: link_exchange_def Let_def split: if_splits)
  then show thesis using serve that by cases auto
qed

lemma observer_plant_client_simps [simp]:
  "bp_capture (observer_plant_client rt pw sched) = client_capture_state rt pw sched"
  "bp_probe (observer_plant_client rt pw sched) = probe_forbidden_apply rt pw sched Observer_End"
  by (simp_all add: observer_plant_client_def)

lemma observer_capture_plant:
  assumes "observer_capture rt (observer_plant_client rt pw sched) env tb override (svc, w) = (r, svc', w')"
  shows "physical (wd_service w') = physical (wd_service w)"
    "r = Inr ob \<Longrightarrow> read_state rt pw (sv_plant (wd_service w')) = Inr (so_snapshot ob) \<or> w' = w"
proof -
  obtain source w1 where source: "(case override of Some s \<Rightarrow> (Inr s, w) | None \<Rightarrow> client_capture_state rt pw sched w) = (source, w1)"
    by fastforce
  note run = assms [unfolded observer_capture_def prod.case observer_plant_client_simps source]
  have w1: "w' = w1" using run by (auto simp: Let_def split: sum.splits)
  show "physical (wd_service w') = physical (wd_service w)"
    using source capture_physical [of rt pw sched w] by (auto simp: w1 split: option.splits)
  assume r: "r = Inr ob"
  then obtain s where "source = Inr s" "so_snapshot ob = s"
    using run by (auto simp: Let_def dest: issue_observationD(2) split: sum.splits)
  then show "read_state rt pw (sv_plant (wd_service w')) = Inr (so_snapshot ob) \<or> w' = w"
    using source capture_true [of rt pw sched w] by (auto simp: w1 split: option.splits)
qed

lemma observer_serve_plant:
  assumes "observer_serve rt (observer_plant_client rt pw sched) env role request (svc, w) = (response, svc', w')"
  shows "physical (wd_service w') = physical (wd_service w)"
proof (cases "observer_operation request \<in> observer_capabilities role")
  case True
  then obtain r where handle: "observer_handle rt (observer_plant_client rt pw sched) env role request (svc, w) = (r, svc', w')"
    using assms by (auto simp: observer_serve_def split: prod.splits)
  show ?thesis
    using handle
    by (cases request) (auto simp: Let_def
        dest!: observer_capture_plant(1) probe_physical split: sum.splits prod.splits option.splits if_splits)
qed (use assms in \<open>auto simp: observer_serve_def\<close>)

lemma observer_serve_resolve:
  "observer_serve rt port env role (Resolve decoded) (svc, w) = (response, svc', w') \<Longrightarrow> w' = w"
  by (auto simp: observer_serve_def Let_def case_prod_beta split: if_splits sum.splits option.splits)

lemma observer_serve_post:
  assumes "observer_serve rt (observer_plant_client rt pw sched) env role (Capture_Post decoded) (svc, w) = (response, svc', w')"
    and "bind_res (observer_payload response) (observation_of_reply rt) = Inr ob"
  shows "read_state rt pw (sv_plant (wd_service w')) = Inr (so_snapshot ob) \<or> w' = w"
proof -
  obtain r where handle: "observer_handle rt (observer_plant_client rt pw sched) env role (Capture_Post decoded) (svc, w) = (r, svc', w')"
    and "observer_respond (be_text env) r = response"
    using assms by (auto simp: observer_serve_def split: if_splits prod.splits)
  then have "r = Inr (Inr (Observation_Reply ob))" using assms(2)
    by (auto simp: observer_respond_def res_simps Let_def invalid_observation_def
        split: sum.splits if_splits elim!: observation_of_reply.elims)
  then show ?thesis using handle
    by (auto simp: Let_def res_simps dest!: observer_capture_plant(2) [OF _ refl] split: sum.splits option.splits if_splits prod.splits)
qed

lemma client_resolve_keeps: "client_resolve rt pw envs i d y = (r, y') \<Longrightarrow> cy_plant y' = cy_plant y"
  by (auto simp: client_resolve_def client_observation_def observer_exchange_def
      elim!: link_exchange_cases dest!: observer_serve_resolve split: prod.splits)

lemma client_capture_post_plant:
  assumes "client_capture_post rt pw envs tb y = (r, y')"
  shows "physical_at y' = physical_at y"
    "r = Inr ob \<Longrightarrow> read_state rt pw (plant_at y') = Inr (so_snapshot ob) \<or> read_state rt pw (plant_at y') = read_state rt pw (plant_at y)"
proof -
  obtain response where ex: "observer_exchange rt pw envs Observer_Gateway (Capture_Post (Inr tb)) y = (response, y')"
    and r: "r = bind_res response (\<lambda>q. bind_res (observer_payload q) (observation_of_reply rt))"
    using assms by (auto simp: client_capture_post_def client_observation_def split: prod.splits)
  from ex [unfolded observer_exchange_def]
  have "physical_at y' = physical_at y \<and>
    (r = Inr ob \<longrightarrow> read_state rt pw (plant_at y') = Inr (so_snapshot ob) \<or> read_state rt pw (plant_at y') = read_state rt pw (plant_at y))"
  proof (cases rule: link_exchange_cases)
    case unserved
    then show ?thesis by (simp add: r)
  next
    case (served resp y1 y2)
    obtain svc w where serve: "observer_serve rt (observer_plant_client rt pw (sy_plant envs)) (sy_observer envs (cy_exchange y))
        Observer_Gateway (Capture_Post (Inr tb)) (cy_observer y, cy_plant y) = (resp, svc, w)" and w: "cy_plant y' = w"
      using served by (auto split: prod.splits)
    show ?thesis
      using observer_serve_plant [OF serve] observer_serve_post [OF serve] served(7) by (auto simp: w r)
  qed
  then show "physical_at y' = physical_at y"
    "r = Inr ob \<Longrightarrow> read_state rt pw (plant_at y') = Inr (so_snapshot ob) \<or> read_state rt pw (plant_at y') = read_state rt pw (plant_at y)"
    by blast+
qed

text \<open>A dispatch that the gateway hears about is a call of the virtual PLC.\<close>

lemma gateway_plc_executeE:
  assumes "gateway_plc_execute rt pw envs x y = (Inr k, y')"
  obtains env device where "plc_execute rt (plc_plant_client rt pw (sy_plant envs) (pv_end (cy_plc y))) env x
      (pv_device (cy_plc y), cy_plant y) = (Inr k, device, cy_plant y')" "plc_ack_valid rt k"
proof -
  obtain response where ex: "plc_exchange rt pw envs True Plc_Gateway (Plc_Execute (received_request rt x)) y = (response, y')"
    and r: "bind_res response (\<lambda>q. bind_res (plc_payload q) (acknowledgment_of_reply rt)) = Inr k"
    using assms by (auto simp: gateway_plc_execute_def split: prod.splits)
  from ex [unfolded plc_exchange_def] show thesis
  proof (cases rule: link_exchange_cases)
    case (served resp y1 y2)
    then have "resp = Plc_Ok (Acknowledgment_Reply k)" and valid: "plc_ack_valid rt k"
      using r by (auto simp: res_simps invalid_acknowledgment_def split: if_splits
          elim!: plc_payload.elims acknowledgment_of_reply.elims)
    then show thesis
      using served that [OF _ valid]
      by (auto simp: plc_serve_def plc_respond_def received_request_def res_simps Let_def
          split: prod.splits sum.splits if_splits)
  qed (use r in simp)
qed

interpretation gateway_typed: typed_ports rt "gateway_ports rt pw envs"
proof
  fix c y a y' x k
  show "ca_safe a \<or> ca_reasons a \<noteq> []" if "op_simulate (gateway_ports rt pw envs) c y = (Inr a, y')"
    using that by (auto simp: gateway_ports_def client_simulate_candidate_def res_simps assessment_valid_def
        split: prod.splits if_splits elim!: assessment_of_reply.elims)
  show "pa_reason k \<noteq> []" if "op_plc (gateway_ports rt pw envs) x y = (Inr k, y')"
    using that by (auto simp: gateway_ports_def plc_ack_valid_def plc_ack_shape_def
        split: prod.splits sum.splits elim!: gateway_plc_executeE)
qed

interpretation gateway_effects: effect_ports rt "gateway_ports rt pw envs" physical_at
  "\<lambda>y. read_state rt pw (plant_at y)" "\<lambda>y. plant_inv pw (plant_at y)"
proof
  fix i d y observed y' c assessed tb captured x k f ob
  let ?ports = "gateway_ports rt pw envs"
  show "physical_at y' = physical_at y \<and> (plant_inv pw (plant_at y) \<longrightarrow> plant_inv pw (plant_at y'))"
    if "op_resolve ?ports i d y = (observed, y')"
    using that by (simp add: gateway_ports_def client_resolve_keeps)
  show "physical_at y' = physical_at y \<and> (plant_inv pw (plant_at y) \<longrightarrow> plant_inv pw (plant_at y'))"
    if "op_simulate ?ports c y = (assessed, y')"
    using that client_simulate_keeps [of rt pw "sy_plant envs" Simulation_End c "cy_plant y"]
    by (auto simp: gateway_ports_def split: prod.splits)
  show "physical_at y' = physical_at y" if "op_capture_post ?ports tb y = (captured, y')"
    using that client_capture_post_plant(1) by (simp add: gateway_ports_def)
  show "read_state rt pw (plant_at y') = Inr (so_snapshot ob) \<or> read_state rt pw (plant_at y') = read_state rt pw (plant_at y)"
    if "op_capture_post ?ports tb y = (Inr ob, y')"
    using that client_capture_post_plant(2) by (simp add: gateway_ports_def)
  show "physical_at y' = physical_at y" if "op_plc ?ports x y = (Inl f, y')" "df_known_no_effect f"
    using that by (auto simp: gateway_ports_def plain_failure_def split: prod.splits sum.splits)
  have call: thesis if "op_plc ?ports x y = (Inr k, y')" "\<And>env device. plc_execute rt
      (plc_plant_client rt pw (sy_plant envs) (pv_end (cy_plc y))) env x (pv_device (cy_plc y), cy_plant y) =
      (Inr k, device, cy_plant y') \<Longrightarrow> thesis" for thesis
    using that by (auto simp: gateway_ports_def split: prod.splits sum.splits elim!: gateway_plc_executeE)
  show "physical_at y' = physical_at y" if "op_plc ?ports x y = (Inr k, y')" "pa_status k = REJECTED"
    by (rule call [OF that(1)], rule physical_plant, erule plc_link.rejection_truthful, rule that(2))
  show "\<exists>s. read_state rt pw (plant_at y') = Inr s \<and> expected_state (cp_base_permit (pq_permit x)) s"
    if "plant_inv pw (plant_at y)" "op_plc ?ports x y = (Inr k, y')" "pa_status k = APPLIED"
    by (rule call [OF that(2)], drule plc_link.acknowledgment_truthful [OF _ that(1)])
      (use that(3) in \<open>auto simp: expected_state_def\<close>)
qed


section \<open>A concrete system\<close>

definition demo_observer_identity :: observer_identity where
  "demo_observer_identity =
     \<lparr>oi_observer_id = ''observer-1'', oi_key_id = ''observer-key-1'', oi_boot_epoch = ''observer-boot-0001''\<rparr>"

definition demo_plc_identity :: plc_identity where
  "demo_plc_identity = \<lparr>pid_plc_id = ''device:plc-1'', pid_key_id = ''ack-1'', pid_boot_epoch = ''plc-boot-epoch-0001''\<rparr>"

definition demo_plc :: virtual_plc where
  "demo_plc =
     \<lparr>vp_plc_id = ''device:plc-1'', vp_boot_epoch = ''plc-boot-epoch-0001'', vp_permit_key_id = ''issuer-1'',
      vp_permit_public_key = ''issuer-key'', vp_observer = demo_observer_identity,
      vp_observer_public_key = ''observer-secret'', vp_acknowledgment_private_key = ''device-key'',
      vp_acknowledgment_key_id = ''ack-1'',
      vp_replay = \<lparr>sl_writer = True, sl_file = Some (written_file (semantic_document empty_reservations)),
        sl_state = empty_reservations\<rparr>,
      vp_scan_counter = 0, vp_execute_requests = 0\<rparr>"

definition demo_plant_service :: plant_service where
  "demo_plant_service =
     \<lparr>sv_plant = demo_plant, sv_apply_requests = 0, sv_commit_count = 0, sv_capture_count = 0, sv_running = True,
      sv_plc_configuration = None, sv_service_endpoints = {Plc_Restart_End},
      sv_endpoints = {Admin_End, Observer_End, Simulation_End, Plc_End}, sv_plc_processes = {Plc_End}\<rparr>"

definition demo_system :: capability_system where
  "demo_system =
     \<lparr>cy_plc = \<lparr>pv_device = demo_plc, pv_end = Plc_End, pv_running = True\<rparr>,
      cy_observer = fresh_observer demo_observer_identity ''observer-secret'' True,
      cy_plant = \<lparr>wd_service = demo_plant_service, wd_closed_clients = {}, wd_exchange = 0\<rparr>,
      cy_closed_clients = {}, cy_exchange = 0\<rparr>"

definition demo_plc_env :: plc_env where
  "demo_plc_env = \<lparr>px_clock = (\<lambda>_. 1), px_acknowledgment_id = ''ack-id-1'', px_persist_fault = Persisted\<rparr>"

definition demo_system_env :: system_env where
  "demo_system_env =
     \<lparr>sy_link = (\<lambda>_. Link_Delivers), sy_plc = (\<lambda>_. \<lparr>pe_call = demo_plc_env, pe_text = (\<lambda>_. [])\<rparr>),
      sy_observer = (\<lambda>n. \<lparr>be_observation_id = (if n = 0 then ''observation-pre'' else ''observation-post''), be_text = (\<lambda>_. [])\<rparr>),
      sy_plant = (\<lambda>n. \<lparr>xe_link = Link_Delivers, xe_service = \<lparr>se_now = (if n = 0 then 0 else 1), se_assessment_id = ''assessment-1'',
        se_plc_alive = True, se_child = Inl (RuntimeError []), se_text = (\<lambda>_. [])\<rparr>\<rparr>)\<rparr>"

definition demo_capability_controller :: capability_controller where
  "demo_capability_controller =
     \<lparr>cc_bindings = default_resource_bindings, cc_issuer = \<lparr>ci_base = demo_issuer, ci_target_plc = demo_plc_identity\<rparr>,
      cc_plc = demo_plc_identity, cc_plc_public_key = ''device-key''\<rparr>"

definition demo_capability_env :: capability_env where
  "demo_capability_env =
     \<lparr>ce_clock = (\<lambda>n. int n), ce_decide = demo_env, ce_command_id = ''command-1'', ce_issued_at = 0,
      ce_permit_id = ''permit-1'', ce_permit_nonce = ''permit-nonce-0001'', ce_challenge_nonce = ''challenge-nonce-post'',
      ce_recorded_at = 2\<rparr>"

definition demo_verifier :: observation_verifier where
  "demo_verifier =
     \<lparr>ov_observer = demo_observer_identity, ov_observer_public_key = ''observer-secret'',
      ov_plant = \<lparr>pn_observation_source_id = ''pandapower-cigre-mv-process'', pn_model_digest = zero_digest,
        pn_simulator_version = simulator_version demo_pandapower\<rparr>,
      ov_maximum_age = seconds 2, ov_last_sequence = 0, ov_accepted_challenges = {}\<rparr>"

definition demo_action_request :: action_request where
  "demo_action_request =
     \<lparr>ar_request_id = ''request-1'', ar_correlation_id = ''correlation-1'', ar_proposal = demo_plant_proposal,
      ar_observation_id = ''observation-pre'', ar_observation_envelope_digest = zero_digest,
      ar_observation_challenge_nonce = ''challenge-nonce-pre''\<rparr>"

definition demo_telemetry :: capability_system where
  "demo_telemetry = snd (client_capture_pre demo_runtime demo_pandapower demo_system_env ''correlation-1''
     ''challenge-nonce-pre'' demo_system)"

abbreviation "demo_ports \<equiv> gateway_ports demo_runtime demo_pandapower demo_system_env"

lemma demo_telemetry_inv: "plant_inv demo_pandapower (plant_at demo_system)"
  using demo_plant_inv by (simp add: demo_system_def demo_plant_service_def)

section \<open>The closed loop over the processes\<close>

lemma capability_executeE:
  assumes "capability_execute rt ports ctl env q (gw, v, w) = (Inr r, gw', v', w')"
  obtains cd gw1 h where "capability_run rt ports ctl env q (gw, v, w) = (cd, gw1, v', w')"
    "record_capability rt env q cd gw1 = (Inr r, gw')" "r = result_of q cd h"
proof -
  obtain cd gw1 v1 w1 where run: "capability_run rt ports ctl env q (gw, v, w) = (cd, gw1, v1, w1)" by (metis prod.exhaust)
  then have rec: "record_capability rt env q cd gw1 = (Inr r, gw')" "v1 = v'" "w1 = w'"
    using assms by (auto simp: capability_execute_def split: prod.splits)
  from rec(1) obtain h where "r = result_of q cd h"
    by (auto simp: record_capability_def make_capability_result_def Let_def case_prod_beta split: if_splits)
  with that run rec show thesis by blast
qed

text \<open>
  (C35) The gateway always answers: whatever the observer, the PLC and the plant do, whatever exchanges are
  lost and whatever the request holds, a run of the capability loop ends with a result, and the result has the
  shape of its terminal status.
\<close>
theorem capability_loop_returns:
  assumes "digests_ok rt" "signatures_ok rt"
  shows "\<exists>r. fst (capability_execute rt (gateway_ports rt pw envs) ctl env q s) = Inr r \<and> capability_terminal_shape rt r"
  by (rule gateway_typed.execute_total [OF assms])

theorem capability_loop_returns_witness:
  "\<exists>r. fst (capability_execute demo_runtime demo_ports demo_capability_controller demo_capability_env demo_action_request
       (demo_gateway, demo_verifier, demo_telemetry)) = Inr r \<and> capability_terminal_shape demo_runtime r"
  by (rule capability_loop_returns) simp_all

text \<open>
  (C5) The result of the capability loop is truthful. The plant's network, time and version are as before,
  or the result says completed, diverged or unknown after one dispatch of a permit that was issued for a
  permitting decision of the gateway on a verified observation and for a safe candidate of the observed
  state. When the result says completed, the plant now reports the state that the permit expected.
\<close>
theorem capability_loop_truthful:
  assumes inv: "plant_inv pw (plant_at y)"
    and run: "capability_execute rt (gateway_ports rt pw envs) ctl env q (gw, v, y) = (Inr r, gw', v', y')"
  shows "(physical_at y' = physical_at y \<or>
      cr_status r \<in> {Loop_Completed, Loop_Observation_Diverged, Loop_Unknown_Effect} \<and> cr_dispatch_attempts r = 1 \<and>
      (\<exists>ob gs gw1 d c a p. decide rt (ce_decide env) gw (ar_proposal q) gs (Some (ce_clock env 0)) = (gw1, d) \<and>
         dec_outcome d = PERMIT \<and> cr_decision r = Some d \<and> physical_state_to_gateway_state (so_snapshot ob) = Inr gs \<and>
         fst (verify_pre rt ob q (ce_clock env 0) v) = [] \<and> cr_assessment r = Some a \<and> ca_safe a \<and>
         candidate_matches rt a c (so_snapshot ob) \<and> cr_permit r = Some p \<and>
         issue_capability rt (cc_issuer ctl) (ce_issued_at env) (ce_permit_id env) (ce_permit_nonce env) (gw_evidence gw1)
           q ob d c a = Inr p)) \<and>
    (cr_status r = Loop_Completed \<longrightarrow>
      (\<exists>p s. cr_permit r = Some p \<and> read_state rt pw (plant_at y') = Inr s \<and> expected_state (cp_base_permit p) s))"
proof -
  from run obtain cd gw1 h where cd: "capability_run rt (gateway_ports rt pw envs) ctl env q (gw, v, y) = (cd, gw1, v', y')"
    and r: "r = result_of q cd h" by (rule capability_executeE)
  show ?thesis
    using gateway_effects.run_honest [OF cd inv] unfolding gateway_effects.honest_def r result_of_simps by blast
qed

theorem capability_loop_truthful_witness:
  "\<exists>r gw' v' y'. capability_execute demo_runtime demo_ports demo_capability_controller demo_capability_env demo_action_request
       (demo_gateway, demo_verifier, demo_system) = (Inr r, gw', v', y') \<and>
     (physical_at y' = physical_at demo_system \<or> cr_dispatch_attempts r = 1)"
proof -
  obtain r gw' v' y' where run: "capability_execute demo_runtime demo_ports demo_capability_controller demo_capability_env
      demo_action_request (demo_gateway, demo_verifier, demo_system) = (Inr r, gw', v', y')"
    using gateway_typed.execute_total [of demo_runtime demo_pandapower demo_system_env demo_capability_controller
        demo_capability_env demo_action_request "(demo_gateway, demo_verifier, demo_system)"] demo_runtime_ok(1,2)
    by (metis prod.collapse)
  from capability_loop_truthful [OF demo_telemetry_inv run] run show ?thesis by blast
qed


end
