(* ===== verification/Capability_Progress.thy ===== *)
theory Capability_Progress
  imports Capability_System
begin

text \<open>
  The capability loop completes: from a telemetry capture over the gateway's decision, the permit, the
  dispatch through the PLC process and the plant process to the signed observation of the effect, when the
  processes are up, configured for each other and the links deliver.
\<close>

section \<open>The plant process answers\<close>

definition plant_up :: "plant_role \<Rightarrow> plant_world \<Rightarrow> bool" where
  "plant_up role w \<longleftrightarrow> role \<notin> wd_closed_clients w \<and> sv_running (wd_service w) \<and> role \<in> sv_endpoints (wd_service w)"

definition links_deliver :: "(nat \<Rightarrow> exchange_env) \<Rightarrow> bool" where
  "links_deliver sched \<longleftrightarrow> (\<forall>n. xe_link (sched n) = Link_Delivers \<and> se_assessment_id (xe_service (sched n)) \<noteq> [])"

abbreviation next_exchange :: "plant_world \<Rightarrow> plant_world" where
  "next_exchange w \<equiv> w\<lparr>wd_exchange := wd_exchange w + 1\<rparr>"

lemma plant_up_next [simp]: "plant_up role (w\<lparr>wd_exchange := n\<rparr>) = plant_up role w"
  by (simp add: plant_up_def)

lemma exchange_delivers:
  assumes "links_deliver sched" "plant_up role w"
  shows "plant_exchange rt pw sched cons role request w =
    (let (response, svc) = plant_serve rt pw (xe_service (sched (wd_exchange w))) role request (wd_service w)
     in (Inr response, (next_exchange w)\<lparr>wd_service := svc\<rparr>))"
  using assms by (simp add: plant_exchange_def plant_up_def links_deliver_def Let_def case_prod_beta)

lemma client_read_delivers:
  assumes "links_deliver sched" "plant_up role w" "role \<in> {Plc_End, Plc_Restart_End}"
    and "read_state rt pw (sv_plant (wd_service w)) = Inr s" "snapshot_valid s"
  shows "client_read_state rt pw sched role w = (Inr s, next_exchange w)"
  using assms by (auto simp: client_read_state_def exchange_delivers plant_serve_def plant_capabilities_def
      plant_respond_def Let_def)

lemma client_simulate_delivers:
  assumes links: "links_deliver sched" "plant_up role w" "role \<in> {Simulation_End, Plc_End, Plc_Restart_End}"
    and sim: "simulate_candidate rt pw i (sv_plant (wd_service w)) c = Inr a" and c: "command_valid c"
  shows "client_simulate_candidate rt pw sched role c w =
    (Inr (a\<lparr>ca_assessment_id := se_assessment_id (xe_service (sched (wd_exchange w)))\<rparr>), next_exchange w)"
proof -
  let ?j = "se_assessment_id (xe_service (sched (wd_exchange w)))"
  have again: "simulate_candidate rt pw ?j (sv_plant (wd_service w)) c = Inr (a\<lparr>ca_assessment_id := ?j\<rparr>)"
    by (rule simulate_candidate_id [OF sim]) (use links(1) in \<open>simp add: links_deliver_def\<close>)
  then have "assessment_valid rt (a\<lparr>ca_assessment_id := ?j\<rparr>)" by (rule simulate_candidateD)
  with again show ?thesis
    using links c by (auto simp: client_simulate_candidate_def exchange_delivers plant_serve_def plant_capabilities_def
        plant_respond_def make_command_def Let_def)
qed

lemma client_apply_delivers:
  assumes "links_deliver sched" "plant_up role w" "role \<in> {Plc_End, Plc_Restart_End}" "command_valid c"
    and "apply_authorized_command rt pw (se_now (xe_service (sched (wd_exchange w)))) x c (sv_plant (wd_service w)) = (Inr s, pl)"
    and "snapshot_valid s"
  obtains w' where "client_apply rt pw sched role x c w = (Inr s, w')" "sv_plant (wd_service w') = pl"
    "wd_closed_clients w' = wd_closed_clients w" "wd_exchange w' = wd_exchange w + 1"
    "sv_running (wd_service w') = sv_running (wd_service w)" "sv_endpoints (wd_service w') = sv_endpoints (wd_service w)"
  using assms that
  by (auto simp: client_apply_def exchange_delivers plant_serve_def plant_capabilities_def
      plant_respond_def applied_state_def make_command_def Let_def)

lemma client_capture_delivers:
  assumes "links_deliver sched" "plant_up Observer_End w"
    and "capture_state rt pw (se_now (xe_service (sched (wd_exchange w)))) (sv_plant (wd_service w)) = (Inr s, pl)"
    and "snapshot_valid s"
  obtains w' where "client_capture_state rt pw sched w = (Inr s, w')" "sv_plant (wd_service w') = pl"
    "wd_closed_clients w' = wd_closed_clients w" "wd_exchange w' = wd_exchange w + 1"
    "sv_running (wd_service w') = sv_running (wd_service w)" "sv_endpoints (wd_service w') = sv_endpoints (wd_service w)"
  using assms that
  by (auto simp: client_capture_state_def exchange_delivers plant_serve_def plant_capabilities_def
      plant_respond_def Let_def)

section \<open>The PLC applies\<close>

text \<open>A call whose readings are in order and whose transaction is new asks for the effect and acknowledges it.\<close>

lemma plc_execute_applies:
  fixes x :: plc_request and rt :: runtime
  defines "base \<equiv> cp_base_permit (pq_permit x)"
  defines "key \<equiv> reservation_of rt (pq_request x) base"
  assumes read: "pp_read port w = (Inr current, w1)"
    and ledger: "semantic_load (vp_replay plc) = Inr rv" "replay_reason_in rv key = None" "sl_writer (vp_replay plc)"
      "px_persist_fault env = Persisted"
    and checks: "first_failed (plc_checks rt plc x current (px_clock env 0)) = None"
    and sim: "pp_simulate port (ep_command base) w1 = (Inr fresh, w2)" "ca_safe fresh"
      "ps_state_digest (ca_pre_state fresh) = ps_state_digest (ca_pre_state (pq_assessment x))"
      "ps_state_digest (ca_post_state fresh) = ps_state_digest (ca_post_state (pq_assessment x))"
      "ca_command_digest fresh = ca_command_digest (pq_assessment x)"
    and clock: "px_clock env 1 < ep_expires_at base" "px_clock env 2 < ep_expires_at base"
    and app: "pp_apply port (dispatch_expectations (pp_deadline port) base) (ep_command base) w2 = (Inr post, w3)"
      "expected_state base post" "\<not> ps_unsafe_state post"
  obtains sl where
    "plc_execute rt port env x (plc, w) =
       (plc_acknowledge rt env (scanned_plc plc) (pq_request x) (pq_permit x) APPLIED Committed
          ''command_applied_and_plc_read_back'' (px_clock env 3) current (Some post),
        (scanned_plc plc)\<lparr>vp_replay := sl\<rparr>, w3)"
    "sl_file sl = Some (written_file (semantic_document (add_reservation key rv)))"
proof -
  have load: "semantic_load ((vp_replay plc)\<lparr>sl_state := rv\<rparr>) = semantic_load (vp_replay plc)"
    by (simp add: semantic_load_def)
  define sl where "sl = (vp_replay plc)\<lparr>sl_state := add_reservation key rv,
      sl_file := Some (written_file (semantic_document (add_reservation key rv)))\<rparr>"
  have reserve: "semantic_reserve (px_persist_fault env) key ((vp_replay plc)\<lparr>sl_state := rv\<rparr>) = (Inr (), sl)"
    using ledger load by (simp add: semantic_reserve_def semantic_persist_def sl_def Let_def)
  have dispatch: "plc_dispatch rt port env (scanned_plc plc) x current w2 =
      (plc_acknowledge rt env (scanned_plc plc) (pq_request x) (pq_permit x) APPLIED Committed
          ''command_applied_and_plc_read_back'' (px_clock env 3) current (Some post), w3)"
    using app by (simp add: plc_dispatch_def Let_def base_def expected_state_def)
  have commit: "plc_commit rt port env x current ((scanned_plc plc)\<lparr>vp_replay := (vp_replay plc)\<lparr>sl_state := rv\<rparr>\<rparr>) w2 =
      (plc_acknowledge rt env (scanned_plc plc) (pq_request x) (pq_permit x) APPLIED Committed
          ''command_applied_and_plc_read_back'' (px_clock env 3) current (Some post), (scanned_plc plc)\<lparr>vp_replay := sl\<rparr>, w3)"
    using reserve clock dispatch by (simp add: plc_commit_def Let_def base_def key_def)
  have "plc_execute rt port env x (plc, w) =
       (plc_acknowledge rt env (scanned_plc plc) (pq_request x) (pq_permit x) APPLIED Committed
          ''command_applied_and_plc_read_back'' (px_clock env 3) current (Some post),
        (scanned_plc plc)\<lparr>vp_replay := sl\<rparr>, w3)"
    using read ledger checks sim clock commit
    by (simp add: plc_execute_def plc_execute_locked_def scanned_plc_def [symmetric] replay_reason_def Let_def
        plc_assess_def base_def key_def)
  then show thesis by (rule that) (simp add: sl_def)
qed


section \<open>An issued permit passes the PLC\<close>

lemma capability_permit_shape_signature [simp]:
  "capability_permit_shape (p\<lparr>cp_signature := s\<rparr>) \<longleftrightarrow> capability_permit_shape p"
  by (simp add: capability_permit_shape_def)

lemma issued_capability:
  assumes "issue_capability rt issuer t pid nonce chain q pre d c a = Inr p" "signatures_ok rt"
  shows "capability_permit_verify rt p (rt_public rt (pi_private_key (ci_base issuer)))" "capability_permit_valid rt p"
    "cp_signing_key_id p = pi_signing_key_id (ci_base issuer)" "cp_observation_id p = so_observation_id pre"
    "cp_observer_id p = so_observer_id pre" "cp_observer_key_id p = so_observer_key_id pre"
    "cp_observer_boot_epoch p = so_observer_boot_epoch pre"
proof -
  let ?u = "unsigned_capability_permit rt issuer q pre (cp_base_permit p)"
  have iss: "issue rt (ci_base issuer) t pid nonce chain (ar_proposal q) d c a = Inr (cp_base_permit p)"
    and shape: "capability_permit_shape ?u"
    and p: "p = capability_permit_signed rt ?u (pi_private_key (ci_base issuer))"
    using assms(1) by (auto simp: issue_capability_def res_simps capability_permit_signed_def unsigned_capability_permit_def)
  have base: "permit_valid rt (cp_base_permit p)"
    "permit_verify rt (cp_base_permit p) (rt_public rt (pi_private_key (ci_base issuer)))"
    "ep_signing_key_id (cp_base_permit p) = pi_signing_key_id (ci_base issuer)"
    by (rule issueD [OF iss], use assms(2) in simp)+
  have sig: "cp_signature p = sign_bytes rt (pi_private_key (ci_base issuer)) (capability_permit_payload p)"
    by (subst p, subst (2) p) (simp add: capability_permit_signed_def)
  show "capability_permit_verify rt p (rt_public rt (pi_private_key (ci_base issuer)))"
    using base(2) assms(2) by (simp add: capability_permit_verify_def sig)
  have "capability_permit_shape p"
    using shape by (subst p) (simp add: capability_permit_signed_def)
  then show "capability_permit_valid rt p" using base(1) by (simp add: capability_permit_valid_def)
  show "cp_signing_key_id p = pi_signing_key_id (ci_base issuer)" "cp_observation_id p = so_observation_id pre"
    "cp_observer_id p = so_observer_id pre" "cp_observer_key_id p = so_observer_key_id pre"
    "cp_observer_boot_epoch p = so_observer_boot_epoch pre"
    using base(3) by (subst p, simp add: capability_permit_signed_def unsigned_capability_permit_def)+
qed

text \<open>An issuer and a PLC that are configured for each other, and a request that names an observation.\<close>

definition plc_trusts :: "runtime \<Rightarrow> capability_issuer \<Rightarrow> virtual_plc \<Rightarrow> bool" where
  "plc_trusts rt issuer plc \<longleftrightarrow>
     vp_plc_id plc = pi_audience (ci_base issuer) \<and> pid_plc_id (ci_target_plc issuer) = pi_audience (ci_base issuer) \<and>
     vp_acknowledgment_key_id plc = pid_key_id (ci_target_plc issuer) \<and>
     vp_boot_epoch plc = pid_boot_epoch (ci_target_plc issuer) \<and>
     vp_permit_key_id plc = pi_signing_key_id (ci_base issuer) \<and>
     vp_permit_public_key plc = rt_public rt (pi_private_key (ci_base issuer))"

definition plc_accepts_observation :: "runtime \<Rightarrow> virtual_plc \<Rightarrow> observation \<Rightarrow> bool" where
  "plc_accepts_observation rt plc ob \<longleftrightarrow>
     observation_verify rt ob (vp_observer_public_key plc) \<and> so_observer_id ob = oi_observer_id (vp_observer plc) \<and>
     so_observer_key_id ob = oi_key_id (vp_observer plc) \<and> so_observer_boot_epoch ob = oi_boot_epoch (vp_observer plc) \<and>
     so_phase ob = Pre_Authorization \<and> verify_digest rt (so_snapshot ob)"

definition names_observation :: "action_request \<Rightarrow> observation \<Rightarrow> bool" where
  "names_observation q ob \<longleftrightarrow>
     ar_observation_id q = so_observation_id ob \<and> ar_observation_envelope_digest q = so_envelope_digest ob \<and>
     ar_observation_challenge_nonce q = so_challenge_nonce ob \<and> ar_correlation_id q = so_correlation_id ob \<and>
     ap_observed_state_version (ar_proposal q) = ps_state_version (so_snapshot ob) \<and>
     ap_observed_at (ar_proposal q) = ps_observed_at (so_snapshot ob)"

lemma issued_permit_passes_plc:
  assumes sig: "signatures_ok rt" and iss: "issue_capability rt issuer t pid nonce chain q ob d c a = Inr p"
    and plc: "plc_trusts rt issuer plc" "plc_accepts_observation rt plc ob" "names_observation q ob"
    and pre: "ca_pre_state a = so_snapshot ob" and clock: "t \<le> now" "now < t + pi_time_to_live (ci_base issuer)"
  shows "first_failed (plc_checks rt plc \<lparr>pq_request = q, pq_permit = p, pq_pre_observation = ob, pq_decision = d,
      pq_assessment = a\<rparr> (so_snapshot ob) now) = None"
proof -
  note D = issue_capabilityD [OF iss] and C = issued_capability [OF iss sig]
  from D(3) show ?thesis
  proof (rule issueD)
    fix h r gs
    assume h: "dec_evidence_record_hash d = Some h"
      and base: "cp_base_permit p = permit_signed rt
        (unsigned_permit rt (ci_base issuer) t pid nonce (ar_proposal q) d c a h) (pi_private_key (ci_base issuer))"
      and d: "dec_outcome d = PERMIT" "dec_proposal_id d = ap_proposal_id (ar_proposal q)" "ca_safe a"
        "ca_command_digest a = command_digest rt c" "dec_state_version d = ps_state_version (ca_pre_state a)"
        "verify_digest rt (ca_pre_state a)"
    have "first_failed (permit_checks rt plc q p ob) = None"
      using D C plc by (simp add: permit_checks_def plc_trusts_def base)
    moreover have "first_failed (observation_checks rt plc q ob) = None"
      using plc by (simp add: observation_checks_def plc_accepts_observation_def names_observation_def)
    moreover have "first_failed (authorization_checks rt q (cp_base_permit p) d a now) = None"
      using h d clock by (simp add: authorization_checks_def base)
    moreover have "first_failed (state_checks rt (cp_base_permit p) (so_snapshot ob)) = None"
      using plc(2) pre by (simp add: state_checks_def plc_accepts_observation_def base)
    ultimately show ?thesis by (simp add: plc_checks_def)
  qed
qed

lemma plc_acknowledge_applied:
  assumes rt: "digests_ok rt" and p: "capability_permit_valid rt p"
    and states: "snapshot_valid pre" "verify_digest rt pre" "snapshot_valid post"
    and plc: "px_acknowledgment_id env \<noteq> []" "vp_plc_id plc \<noteq> []" "vp_acknowledgment_key_id plc \<noteq> []"
      "16 \<le> length (vp_boot_epoch plc)" "0 \<le> vp_scan_counter plc" "reason \<noteq> []"
  obtains k where "plc_acknowledge rt env (scanned_plc plc) q p APPLIED Committed reason t pre (Some post) = Inr k"
    "plc_ack_valid rt k"
proof -
  let ?u = "unsigned_plc_ack rt env (scanned_plc plc) q p APPLIED Committed reason t pre (Some post)"
  have base: "permit_valid rt (cp_base_permit p)" "is_hex_digest (cp_observation_envelope_digest p)"
    using p by (simp_all add: capability_permit_valid_def capability_permit_shape_def)
  have scan: "vp_scan_counter (scanned_plc plc) = vp_scan_counter plc + 1" by (simp add: scanned_plc_def)
  have fields: "pa_pre_state ?u = pre" "pa_reason ?u = reason" "pa_status ?u = APPLIED" by (simp_all add: unsigned_plc_ack_def Let_def)
  have status: "plc_ack_status_shape rt ?u"
    using states(2) by (simp add: plc_ack_status_shape_def unsigned_plc_ack_def Let_def)
  have "plc_ack_shape rt ?u"
    unfolding plc_ack_shape_def using status rt base states plc scan
      actuator_setpoint_finite [OF states(1)] actuator_setpoint_finite [OF states(3)]
    by (simp add: unsigned_plc_ack_def Let_def permit_valid_def command_valid_def snapshot_valid_def
        request_digest_def capability_permit_digest_def)
  then show thesis
    using that [of "plc_ack_signed rt ?u (vp_acknowledgment_private_key (scanned_plc plc))"] fields(1) states(1)
    by (simp add: plc_acknowledge_def make_plc_ack_def plc_ack_signed_def plc_ack_valid_def)
qed


lemma plc_ack_transaction:
  assumes rt: "signatures_ok rt" and iss: "issue_capability rt issuer t pid nonce chain q ob d c a = Inr p"
    and ack: "plc_acknowledge rt env plc q p APPLIED Committed reason now (so_snapshot ob) (Some post) = Inr k"
    and plc: "plc_trusts rt issuer plc" and pre: "ca_pre_state a = so_snapshot ob"
    and valid: "snapshot_valid (so_snapshot ob)" "verify_digest rt (so_snapshot ob)"
    and post: "expected_state (cp_base_permit p) post" "actuator_setpoint post c = pc_setpoint c"
    and clock: "t \<le> now" "now < t + pi_time_to_live (ci_base issuer)"
  shows "plc_ack_verify_for_transaction rt k (rt_public rt (vp_acknowledgment_private_key plc)) q p ob (ci_target_plc issuer)"
proof -
  note D = issue_capabilityD [OF iss] and F = plc_acknowledge_fields [OF ack] and V = plc_acknowledge_verifies [OF rt ack]
  have base: "ep_command (cp_base_permit p) = c" "ep_issued_at (cp_base_permit p) = t"
    "ep_expires_at (cp_base_permit p) = t + pi_time_to_live (ci_base issuer)"
    "ep_proposal_id (cp_base_permit p) = ap_proposal_id (ar_proposal q)"
    "ep_state_digest (cp_base_permit p) = ps_state_digest (so_snapshot ob)"
    "ep_state_version (cp_base_permit p) = ps_state_version (so_snapshot ob)"
    "ep_observation_digest (cp_base_permit p) = ps_observation_digest (so_snapshot ob)"
    "ep_topology_digest (cp_base_permit p) = ps_topology_digest (so_snapshot ob)"
    "ep_model_digest (cp_base_permit p) = ps_model_digest (so_snapshot ob)" "command_valid c"
    by (rule issueD [OF D(3)], simp add: pre)+
  have fin: "is_finite (actuator_setpoint (so_snapshot ob) c)" "is_finite (pc_setpoint c)"
    using actuator_setpoint_finite [OF valid(1)] base(10) by (simp_all add: command_valid_def)
  have "identifiers_match rt k q p ob (ci_target_plc issuer)" "target_instance_matches p (ci_target_plc issuer)"
    using D plc by (simp_all add: identifiers_match_def target_instance_matches_def F Let_def base plc_trusts_def)
  moreover have "pre_state_valid rt k (ep_command (cp_base_permit p))"
    using valid(2) fin(1) by (cases "pc_command_type c = SET_LINE_SERVICE") (auto simp: pre_state_valid_def F base actuator_setpoint_def)
  moreover have "authorized_pre_state_matches k (cp_base_permit p) ob"
    by (simp add: authorized_pre_state_matches_def F Let_def base snapshot_eq_def)
  ultimately show ?thesis
    using V post clock fin(2)
    by (simp add: plc_ack_verify_for_transaction_def F Let_def base expected_state_def feq_opt_def)
qed

definition same_source :: "plant \<Rightarrow> plant \<Rightarrow> bool" where
  "same_source pl pl' \<longleftrightarrow> pl_observation_source_id pl' = pl_observation_source_id pl \<and> pl_model_digest pl' = pl_model_digest pl"

text \<open>A plant's own safe candidate, applied through the plant process, leaves the expected state.\<close>

lemma issued_permit_applies:
  assumes rt: "digests_ok rt" and inv: "plant_inv pw pl" and sim: "simulate_candidate rt pw i pl c = Inr a"
    and iss: "issue rt issuer t pid nonce chain p d c a = Inr base"
  obtains s pl' where "apply_authorized_command rt pw now (permit_expectations base) c pl = (Inr s, pl')"
    "read_state rt pw pl' = Inr s" "expected_state base s" "\<not> ps_unsafe_state s" "snapshot_valid s"
    "actuator_setpoint s c = pc_setpoint c" "same_source pl pl'"
proof -
  from sim obtain pre where pre: "read_state rt pw pl = Inr pre" "ca_pre_state a = pre" by (rule simulate_candidateD)
  have a: "ca_safe a" "assessment_valid rt a" "command_valid c"
    "ep_expected_post_state_digest base = ps_state_digest (ca_post_state a)"
    "ep_expected_post_state_version base = ps_state_version (ca_post_state a)"
    "ep_expected_post_topology_digest base = ps_topology_digest (ca_post_state a)"
    by (rule issueD [OF iss], simp)+
  from safe_candidate_applies [OF sim a(1), of now] obtain s pl' where
    prep: "prepare_command rt pw now (expectations_of a) c pl = Inr (s, pl')"
    and dig: "ps_state_digest s = ps_state_digest (ca_post_state a)" by blast
  note P = prepared_plant [OF inv prep]
  have top: "ps_topology_digest s = ps_topology_digest (ca_post_state a)"
    using prep by (rule prepare_commandD) (simp add: expectations_of_def expected_def)
  have ver: "ps_state_version s = ps_state_version (ca_post_state a)"
    using P(3) read_state_version [OF pre(1)] a(2) pre(2) by (simp add: assessment_valid_def)
  have src: "same_source pl pl'" using prep by (rule prepare_commandD) (simp add: same_source_def)
  have rd: "read_state rt pw pl' = Inr s" using apply_read_back [OF _ prep] inv by (simp add: plant_inv_def)
  show thesis
    by (rule that [of s pl'])
      (use prep dig top ver rd src P a read_state_valid [OF rt rd] issued_expectations(1) [OF iss] in
        \<open>simp_all add: applied_prepared expected_state_def\<close>)
qed



text \<open>The readings of a PLC call within the life time of a permit, and a PLC with names.\<close>

definition plc_in_time :: "plc_env \<Rightarrow> instant \<Rightarrow> duration \<Rightarrow> bool" where
  "plc_in_time env t ttl \<longleftrightarrow> (\<forall>n. t \<le> px_clock env n \<and> px_clock env n < t + ttl) \<and> px_acknowledgment_id env \<noteq> [] \<and>
     px_persist_fault env = Persisted"

definition plc_named :: "virtual_plc \<Rightarrow> bool" where
  "plc_named plc \<longleftrightarrow> vp_plc_id plc \<noteq> [] \<and> vp_acknowledgment_key_id plc \<noteq> [] \<and> 16 \<le> length (vp_boot_epoch plc) \<and>
     0 \<le> vp_scan_counter plc"

lemma plc_executes:
  assumes rt: "digests_ok rt" "signatures_ok rt" and inv: "plant_inv pw (sv_plant (wd_service w))"
    and links: "links_deliver sched" "plant_up role w" "role \<in> {Plc_End, Plc_Restart_End}"
    and rd: "read_state rt pw (sv_plant (wd_service w)) = Inr (so_snapshot ob)"
    and sim: "simulate_candidate rt pw i (sv_plant (wd_service w)) c = Inr a"
    and iss: "issue_capability rt issuer t pid nonce chain q ob d c a = Inr p"
    and plc: "plc_trusts rt issuer plc" "plc_accepts_observation rt plc ob" "names_observation q ob" "plc_named plc"
    and env: "plc_in_time env t (pi_time_to_live (ci_base issuer))"
    and ledger: "semantic_load (vp_replay plc) = Inr rv" "sl_writer (vp_replay plc)"
      "replay_reason_in rv (reservation_of rt q (cp_base_permit p)) = None"
  obtains k sl w' s where
    "plc_execute rt (plc_plant_client rt pw sched role) env \<lparr>pq_request = q, pq_permit = p, pq_pre_observation = ob,
       pq_decision = d, pq_assessment = a\<rparr> (plc, w) = (Inr k, (scanned_plc plc)\<lparr>vp_replay := sl\<rparr>, w')"
    "sl_file sl = Some (written_file (semantic_document (add_reservation (reservation_of rt q (cp_base_permit p)) rv)))"
    "plc_ack_valid rt k" "pa_status k = APPLIED" "pa_acknowledged_at k = px_clock env 3"
    "plc_ack_verify_for_transaction rt k (rt_public rt (vp_acknowledgment_private_key plc)) q p ob (ci_target_plc issuer)"
    "pa_post_state_digest k = Some (ps_state_digest s)" "pa_post_state_version k = Some (ps_state_version s)"
    "pa_post_topology_digest k = Some (ps_topology_digest s)"
    "read_state rt pw (sv_plant (wd_service w')) = Inr s" "expected_state (cp_base_permit p) s"
    "same_source (sv_plant (wd_service w)) (sv_plant (wd_service w'))"
    "wd_closed_clients w' = wd_closed_clients w" "wd_exchange w' = wd_exchange w + 3"
    "sv_running (wd_service w') = sv_running (wd_service w)" "sv_endpoints (wd_service w') = sv_endpoints (wd_service w)"
proof -
  let ?x = "\<lparr>pq_request = q, pq_permit = p, pq_pre_observation = ob, pq_decision = d, pq_assessment = a\<rparr>"
  let ?port = "plc_plant_client rt pw sched role"
  let ?fresh = "a\<lparr>ca_assessment_id := se_assessment_id (xe_service (sched (wd_exchange w + 1)))\<rparr>"
  note D = issue_capabilityD [OF iss] and C = issued_capability [OF iss rt(2)]
  have pre: "ca_pre_state a = so_snapshot ob" using sim rd by (auto elim: simulate_candidateD)
  have base: "ep_command (cp_base_permit p) = c" "command_valid c" "ca_safe a"
    "ep_expires_at (cp_base_permit p) = t + pi_time_to_live (ci_base issuer)"
    by (rule issueD [OF D(3)], simp)+
  have exp: "dispatch_expectations (pp_deadline ?port) (cp_base_permit p) = permit_expectations (cp_base_permit p)"
    by (simp add: dispatch_expectations_def plc_plant_client_def permit_expectations_def)
  have valid: "snapshot_valid (so_snapshot ob)" by (rule read_state_valid [OF rt(1) rd])
  have read: "pp_read ?port w = (Inr (so_snapshot ob), next_exchange w)"
    using client_read_delivers [OF links rd valid] by (simp add: plc_plant_client_def)
  have again: "pp_simulate ?port c (next_exchange w) = (Inr ?fresh, next_exchange (next_exchange w))"
    using client_simulate_delivers [OF links(1) _ _ _ base(2), of role "next_exchange w" rt pw i a] links(2,3) sim
    by (auto simp: plc_plant_client_def)
  obtain s pl' where app: "apply_authorized_command rt pw (se_now (xe_service (sched (wd_exchange w + 2))))
        (permit_expectations (cp_base_permit p)) c (sv_plant (wd_service w)) = (Inr s, pl')"
    and s: "read_state rt pw pl' = Inr s" "expected_state (cp_base_permit p) s" "\<not> ps_unsafe_state s" "snapshot_valid s"
      "actuator_setpoint s c = pc_setpoint c" "same_source (sv_plant (wd_service w)) pl'"
    using issued_permit_applies [OF rt(1) inv sim D(3)] by metis
  obtain w' where w': "client_apply rt pw sched role (permit_expectations (cp_base_permit p)) c (next_exchange (next_exchange w)) = (Inr s, w')"
      "sv_plant (wd_service w') = pl'" "wd_closed_clients w' = wd_closed_clients w" "wd_exchange w' = wd_exchange w + 3"
      "sv_running (wd_service w') = sv_running (wd_service w)" "sv_endpoints (wd_service w') = sv_endpoints (wd_service w)"
    by (rule client_apply_delivers [OF links(1) _ links(3) base(2), of "next_exchange (next_exchange w)" rt pw
        "permit_expectations (cp_base_permit p)" s pl'])
      (use links(2) app s(4) in \<open>simp_all add: numeral_3_eq_3\<close>)
  have checks: "first_failed (plc_checks rt plc ?x (so_snapshot ob) (px_clock env 0)) = None"
    by (rule issued_permit_passes_plc [OF rt(2) iss plc(1-3) pre]) (use env in \<open>simp_all add: plc_in_time_def\<close>)
  obtain sl where ex: "plc_execute rt ?port env ?x (plc, w) =
       (plc_acknowledge rt env (scanned_plc plc) q p APPLIED Committed
          ''command_applied_and_plc_read_back'' (px_clock env 3) (so_snapshot ob) (Some s),
        (scanned_plc plc)\<lparr>vp_replay := sl\<rparr>, w')"
    and sl: "sl_file sl = Some (written_file (semantic_document (add_reservation (reservation_of rt q (cp_base_permit p)) rv)))"
    using plc_execute_applies [OF read ledger(1) _ ledger(2) _ checks, of ?fresh "next_exchange (next_exchange w)" s w']
      again w'(1) ledger(3) env base s exp by (auto simp: plc_in_time_def plc_plant_client_def)
  obtain k where k: "plc_acknowledge rt env (scanned_plc plc) q p APPLIED Committed ''command_applied_and_plc_read_back''
      (px_clock env 3) (so_snapshot ob) (Some s) = Inr k" "plc_ack_valid rt k"
    using plc_acknowledge_applied [OF rt(1) C(2) valid _ s(4), of env plc "''command_applied_and_plc_read_back''" q "px_clock env 3"]
      plc env by (auto simp: plc_in_time_def plc_named_def plc_accepts_observation_def)
  have trust: "plc_trusts rt issuer (scanned_plc plc)" using plc(1) by (simp add: plc_trusts_def)
  have tx: "plc_ack_verify_for_transaction rt k (rt_public rt (vp_acknowledgment_private_key plc)) q p ob (ci_target_plc issuer)"
    using plc_ack_transaction [OF rt(2) iss k(1) trust pre valid _ s(2,5)] plc(2) env
    by (simp add: plc_in_time_def plc_accepts_observation_def)
  note F = plc_acknowledge_fields [OF k(1)]
  show thesis
    by (rule that [of k sl w' s]) (use ex sl k tx F s w' in simp_all)
qed



section \<open>The observer answers\<close>

lemma read_state_identity:
  assumes "read_state rt pw pl = Inr s"
  shows "ps_observation_source_id s = pl_observation_source_id pl" "ps_model_digest s = pl_model_digest pl"
    "ps_simulator_version s = simulator_version pw" "ps_observed_at s = pl_observed_at pl"
    "ps_observation_sequence s = pl_observation_sequence pl"
  using assms by (auto simp: read_state_def plant_snapshot_def Let_def res_simps with_digests_def)

text \<open>Looking at the plant again shows the same state under a new observation.\<close>

lemma capture_observes:
  assumes rt: "digests_ok rt" and rd: "read_state rt pw pl = Inr s"
  obtains s' where "capture_state rt pw now pl =
      (Inr s', pl\<lparr>pl_observed_at := now, pl_observation_sequence := pl_observation_sequence pl + 1\<rparr>)"
    "ps_state_digest s' = ps_state_digest s" "ps_state_version s' = ps_state_version s"
    "ps_topology_digest s' = ps_topology_digest s" "ps_observed_at s' = now" "snapshot_valid s'" "verify_digest rt s'"
    "ps_observation_source_id s' = pl_observation_source_id pl" "ps_model_digest s' = pl_model_digest pl"
    "ps_simulator_version s' = simulator_version pw"
proof -
  let ?q = "pl\<lparr>pl_observed_at := now, pl_observation_sequence := pl_observation_sequence pl + 1\<rparr>"
  have seq: "0 \<le> pl_observation_sequence pl"
    using read_state_valid [OF rt rd] read_state_identity(5) [OF rd] by (simp add: snapshot_valid_def)
  have same: "plant_snapshot rt pw ?q = plant_snapshot rt pw pl" by (intro ext) (simp add: plant_snapshot_def)
  have mat: "model_material pw ?q = model_material pw pl" by (intro ext) (simp add: model_material_def)
  have integ: "assert_model_integrity rt pw pl = Inr ()"
    and snap: "plant_snapshot rt pw pl (pl_net pl) (pl_state_version pl) (pl_simulation_time_s pl)
      (pl_observed_at pl) (pl_observation_sequence pl) (nt_converged (pl_net pl)) = Inr s"
    using rd by (auto simp: read_state_def res_simps)
  from plant_snapshot_envelope [OF snap, of "pl_observation_sequence pl + 1" now] seq
  obtain s' where s': "plant_snapshot rt pw pl (pl_net pl) (pl_state_version pl) (pl_simulation_time_s pl)
      now (pl_observation_sequence pl + 1) (nt_converged (pl_net pl)) = Inr s'" "ps_state_digest s' = ps_state_digest s"
      "ps_topology_digest s' = ps_topology_digest s" by auto
  have rd': "read_state rt pw ?q = Inr s'"
    using integ s'(1) by (simp add: read_state_def same assert_model_integrity_def mat)
  show thesis
    by (rule that [of s']) (use rd' s' read_state_identity [OF rd'] read_state_valid [OF rt rd'] read_state_verifies [OF rd']
        plant_snapshot_fields(2) [OF s'(1)] plant_snapshot_fields(2) [OF snap] in \<open>simp_all add: capture_state_def\<close>)
qed

definition observer_named :: "observer_identity \<Rightarrow> bool" where
  "observer_named oi \<longleftrightarrow> oi_observer_id oi \<noteq> [] \<and> oi_key_id oi \<noteq> [] \<and> 16 \<le> length (oi_boot_epoch oi)"

definition bindings_fit :: "transaction_bindings \<Rightarrow> bool" where
  "bindings_fit tb \<longleftrightarrow>
     opt_ok is_hex_digest (tb_previous_envelope_digest tb) \<and> opt_ok (\<lambda>v. v \<noteq> []) (tb_permit_id tb) \<and>
     opt_ok is_hex_digest (tb_command_digest tb) \<and> opt_ok is_hex_digest (tb_plc_acknowledgment_digest tb) \<and>
     (case tb_phase tb of
        Pre_Authorization \<Rightarrow> tb_permit_id tb = None \<and> tb_command_digest tb = None \<and> tb_plc_acknowledgment_digest tb = None
      | Post_Dispatch \<Rightarrow> tb_previous_envelope_digest tb \<noteq> None \<and> tb_permit_id tb \<noteq> None \<and> tb_command_digest tb \<noteq> None \<and>
          tb_plc_acknowledgment_digest tb \<noteq> None)"

lemma issue_observation_total:
  assumes rt: "digests_ok rt" and names: "oid \<noteq> []" "tb_correlation_id tb \<noteq> []" "len_between 16 256 (tb_challenge_nonce tb)"
      "observer_named oi" "1 \<le> n"
    and s: "snapshot_valid s" "verify_digest rt s" and tb: "bindings_fit tb"
  obtains ob where "issue_observation rt oid s tb oi n sk = Inr ob"
proof -
  let ?u = "provisional_observation oid s tb oi n"
  let ?sealed = "?u\<lparr>so_envelope_digest := canonical_digest rt (observation_digest_material ?u)\<rparr>"
  have time: "nonneg (ps_simulation_time_s s)" "feq (ps_simulation_time_s s) (ps_simulation_time_s s)"
    using s(1) by (auto simp: snapshot_valid_def nonneg_def)
  have "require_consistent_envelope rt ?sealed"
    using s(2) time(2) tb
    by (cases "tb_phase tb") (simp_all add: require_consistent_envelope_def Let_def bindings_fit_def)
  then have "observation_valid rt ?sealed"
    unfolding observation_valid_def using rt names s time tb by (simp add: observer_named_def bindings_fit_def)
  then show thesis using that by (simp add: issue_observation_def Let_def make_observation_def)
qed

section \<open>The links of the gateway\<close>

definition system_delivers :: "system_env \<Rightarrow> bool" where
  "system_delivers envs \<longleftrightarrow> (\<forall>n. sy_link envs n = Link_Delivers) \<and> links_deliver (sy_plant envs) \<and>
     (\<forall>n. be_observation_id (sy_observer envs n) \<noteq> [])"

lemma link_delivers:
  assumes "system_delivers envs" "link \<notin> cy_closed_clients y" "running y"
  shows "link_exchange envs cons link running serve y =
    (let (response, y2) = serve (cy_exchange y) (y\<lparr>cy_exchange := cy_exchange y + 1\<rparr>) in (Inr response, y2))"
  using assms by (simp add: link_exchange_def system_delivers_def Let_def case_prod_beta)

lemma client_observation_delivers:
  assumes "system_delivers envs" "Observer_Link role \<notin> cy_closed_clients y" "os_running (cy_observer y)"
    and "observer_serve rt (observer_plant_client rt pw (sy_plant envs)) (sy_observer envs (cy_exchange y)) role request
        (cy_observer y, cy_plant y) = (Observer_Ok (Observation_Reply ob), svc, w)" "observation_valid rt ob"
  shows "client_observation rt pw envs role request y =
    (Inr ob, y\<lparr>cy_exchange := cy_exchange y + 1, cy_observer := svc, cy_plant := w\<rparr>)"
  using assms by (simp add: client_observation_def observer_exchange_def link_delivers)

lemma gateway_plc_delivers:
  assumes "system_delivers envs" "Plc_Link Plc_Gateway \<notin> cy_closed_clients y" "pv_running (cy_plc y)"
    and "received_request rt x = Inr x"
    and "plc_execute rt (plc_plant_client rt pw (sy_plant envs) (pv_end (cy_plc y))) (pe_call (sy_plc envs (cy_exchange y))) x
        (pv_device (cy_plc y), cy_plant y) = (Inr k, device, w)" "plc_ack_valid rt k"
  shows "gateway_plc_execute rt pw envs x y =
    (Inr k, y\<lparr>cy_exchange := cy_exchange y + 1, cy_plc := (cy_plc y)\<lparr>pv_device := device\<rparr>, cy_plant := w\<rparr>)"
  using assms by (simp add: gateway_plc_execute_def plc_exchange_def link_delivers plc_serve_def plc_capabilities_def
      plc_respond_def)

text \<open>
  An observation that the gateway can refer to: its identifier resolves to it, and its digest finds it as a predecessor,
  among whatever else the observer has cached.
\<close>

definition holds_observation :: "(string \<times> observation) list \<Rightarrow> observation \<Rightarrow> bool" where
  "holds_observation cache ob \<longleftrightarrow> map_of cache (so_observation_id ob) = Some ob \<and> predecessor (Some (so_envelope_digest ob)) cache = Some ob"

definition digest_cached :: "observation \<Rightarrow> (string \<times> observation) list \<Rightarrow> bool" where
  "digest_cached ob cache \<longleftrightarrow> list_ex (\<lambda>(_, cached). so_envelope_digest cached = so_envelope_digest ob) cache"

lemma find_append: "find P (xs @ ys) = (case find P xs of None \<Rightarrow> find P ys | Some x \<Rightarrow> Some x)"
  by (induction xs) simp_all

lemma holds_cache_put:
  assumes "\<not> digest_cached ob cache"
  shows "holds_observation (cache_put (so_observation_id ob) ob cache) ob"
proof -
  let ?old = "filter (\<lambda>(k', _). k' \<noteq> so_observation_id ob) cache"
  let ?n = "length ?old + 1 - cache_limit"
  have put: "cache_put (so_observation_id ob) ob cache = drop ?n ?old @ [(so_observation_id ob, ob)]"
    by (simp add: cache_put_def evict_drop cache_limit_def Suc_diff_le)
  have old: "set (drop ?n ?old) \<subseteq> set ?old" by (rule set_drop_subset)
  then have "so_observation_id ob \<notin> fst ` set (drop ?n ?old)" by fastforce
  then have "map_of (drop ?n ?old) (so_observation_id ob) = None" by (simp add: map_of_eq_None_iff)
  moreover have "find (\<lambda>x. Some (so_envelope_digest x) = Some (so_envelope_digest ob)) (map snd (drop ?n ?old)) = None"
    using assms old by (fastforce simp: find_None_iff digest_cached_def list_ex_iff)
  ultimately show ?thesis
    unfolding holds_observation_def predecessor_def put map_append by (simp add: map_add_def find_append)
qed

text \<open>What a telemetry capture leaves: a cached observation of the plant's own state, next to the earlier ones.\<close>

lemma capture_pre_result:
  assumes links: "system_delivers envs" "plant_up Observer_End (cy_plant y)"
    and up: "Observer_Link Telemetry \<notin> cy_closed_clients y" "os_running (cy_observer y)" "\<not> digest_cached ob (os_cache (cy_observer y))"
    and cap: "client_capture_pre rt pw envs corr nonce y = (Inr ob, y1)" and rt: "digests_ok rt"
  obtains svc w where "y1 = y\<lparr>cy_exchange := cy_exchange y + 1, cy_observer := svc, cy_plant := w\<rparr>"
    "holds_observation (os_cache svc) ob" "os_sequence svc = os_sequence (cy_observer y) + 1"
    "os_identity svc = os_identity (cy_observer y)" "os_private_key svc = os_private_key (cy_observer y)"
    "os_from_plant svc = os_from_plant (cy_observer y)" "os_running svc"
    "capture_state rt pw (se_now (xe_service (sy_plant envs (wd_exchange (cy_plant y))))) (plant_at y) =
       (Inr (so_snapshot ob), sv_plant (wd_service w))"
    "wd_closed_clients w = wd_closed_clients (cy_plant y)" "wd_exchange w = wd_exchange (cy_plant y) + 1"
    "sv_running (wd_service w) = sv_running (wd_service (cy_plant y))"
    "sv_endpoints (wd_service w) = sv_endpoints (wd_service (cy_plant y))"
    "issue_observation rt (be_observation_id (sy_observer envs (cy_exchange y))) (so_snapshot ob)
       ((pre_bindings corr nonce)\<lparr>tb_previous_envelope_digest := os_previous_digest (cy_observer y)\<rparr>)
       (os_identity (cy_observer y)) (os_sequence (cy_observer y) + 1) (os_private_key (cy_observer y)) = Inr ob"
    "observation_valid rt ob"
proof -
  let ?port = "observer_plant_client rt pw (sy_plant envs)" and ?env = "sy_observer envs (cy_exchange y)"
  let ?now = "se_now (xe_service (sy_plant envs (wd_exchange (cy_plant y))))"
  let ?tb = "(pre_bindings corr nonce)\<lparr>tb_previous_envelope_digest := os_previous_digest (cy_observer y)\<rparr>"
  obtain r svc w where serve: "observer_capture rt ?port ?env (pre_bindings corr nonce) None (cy_observer y, cy_plant y) = (r, svc, w)"
    by (metis prod.exhaust)
  have served: "client_capture_pre rt pw envs corr nonce y =
      (bind_res (observer_payload (observer_respond (be_text ?env) (bind_res r (\<lambda>ob. Inr (Inr (Observation_Reply ob))))))
         (observation_of_reply rt), y\<lparr>cy_exchange := cy_exchange y + 1, cy_observer := svc, cy_plant := w\<rparr>)"
    using links up serve by (simp add: client_capture_pre_def client_observation_def observer_exchange_def link_delivers
        observer_serve_def observer_capabilities_def)
  have r: "r = Inr ob" "observation_valid rt ob" and y1: "y1 = y\<lparr>cy_exchange := cy_exchange y + 1, cy_observer := svc, cy_plant := w\<rparr>"
    using cap served by (cases r; auto simp: observer_respond_def Let_def invalid_observation_def split: if_splits)+
  obtain s pl where cs: "capture_state rt pw ?now (plant_at y) = (s, pl)" by fastforce
  obtain source w1 where source: "client_capture_state rt pw (sy_plant envs) (cy_plant y) = (source, w1)" by fastforce
  note run = serve [unfolded observer_capture_def prod.case option.case observer_plant_client_simps source r(1)]
  obtain s' where src: "source = Inr s'" and iss: "issue_observation rt (be_observation_id ?env) s' ?tb (os_identity (cy_observer y))
      (os_sequence (cy_observer y) + 1) (os_private_key (cy_observer y)) = Inr ob" and w: "w = w1"
    and svc: "svc = (cy_observer y)\<lparr>os_sequence := os_sequence (cy_observer y) + 1,
        os_capture_count := os_capture_count (cy_observer y) + 1, os_previous_digest := Some (so_envelope_digest ob),
        os_cache := cache_put (so_observation_id ob) ob (os_cache (cy_observer y))\<rparr>"
    using run by (auto simp: Let_def pre_bindings_def split: sum.splits)
  have snap: "so_snapshot ob = s'" by (rule issue_observationD(2) [OF iss])
  have deliver: "links_deliver (sy_plant envs)" using links(1) by (simp add: system_delivers_def)
  have plant: "s = Inr s' \<and> sv_plant (wd_service w1) = pl \<and> wd_closed_clients w1 = wd_closed_clients (cy_plant y) \<and>
      wd_exchange w1 = wd_exchange (cy_plant y) + 1 \<and> sv_running (wd_service w1) = sv_running (wd_service (cy_plant y)) \<and>
      sv_endpoints (wd_service w1) = sv_endpoints (wd_service (cy_plant y))"
    using source [unfolded src] cs links(2) deliver
    by (cases s) (auto simp: client_capture_state_def exchange_delivers plant_serve_def plant_capabilities_def
        plant_respond_def Let_def split: exn.splits if_splits)
  note put = holds_cache_put [OF up(3)]
  show thesis
    by (rule that [OF y1]) (use svc put plant cs iss r(2) up in \<open>simp_all add: snap w\<close>)
qed



lemma capture_post_result:
  assumes links: "system_delivers envs" "plant_up Observer_End (cy_plant y)" and rt: "digests_ok rt"
    and up: "Observer_Link Observer_Gateway \<notin> cy_closed_clients y" "os_running (cy_observer y)" "os_from_plant (cy_observer y)"
      "holds_observation (os_cache (cy_observer y)) ob" "0 \<le> os_sequence (cy_observer y)"
      "observer_named (os_identity (cy_observer y))"
    and ob: "so_phase ob = Pre_Authorization" "so_correlation_id ob = tb_correlation_id tb" "is_hex_digest (so_envelope_digest ob)"
    and tb: "tb_phase tb = Post_Dispatch" "tb_previous_envelope_digest tb = Some (so_envelope_digest ob)"
      "tb_correlation_id tb \<noteq> []" "len_between 16 256 (tb_challenge_nonce tb)"
      "tb_permit_id tb = Some pid" "pid \<noteq> []" "tb_command_digest tb = Some cdig" "is_hex_digest cdig"
      "tb_plc_acknowledgment_digest tb = Some kdig" "is_hex_digest kdig"
    and rd: "read_state rt pw (plant_at y) = Inr s"
  obtains post y' where "client_capture_post rt pw envs tb y = (Inr post, y')"
    "issue_observation rt (be_observation_id (sy_observer envs (cy_exchange y))) (so_snapshot post) tb
       (os_identity (cy_observer y)) (os_sequence (cy_observer y) + 1) (os_private_key (cy_observer y)) = Inr post"
    "ps_state_digest (so_snapshot post) = ps_state_digest s" "ps_state_version (so_snapshot post) = ps_state_version s"
    "ps_topology_digest (so_snapshot post) = ps_topology_digest s"
    "ps_observed_at (so_snapshot post) = se_now (xe_service (sy_plant envs (wd_exchange (cy_plant y))))"
    "ps_observation_source_id (so_snapshot post) = pl_observation_source_id (plant_at y)"
    "ps_model_digest (so_snapshot post) = pl_model_digest (plant_at y)"
    "ps_simulator_version (so_snapshot post) = simulator_version pw"
    "cy_plc y' = cy_plc y" "read_state rt pw (plant_at y') = Inr (so_snapshot post)"
proof -
  let ?now = "se_now (xe_service (sy_plant envs (wd_exchange (cy_plant y))))" and ?env = "sy_observer envs (cy_exchange y)"
  obtain s' where cs: "capture_state rt pw ?now (plant_at y) =
        (Inr s', (plant_at y)\<lparr>pl_observed_at := ?now, pl_observation_sequence := pl_observation_sequence (plant_at y) + 1\<rparr>)"
    and s': "ps_state_digest s' = ps_state_digest s" "ps_state_version s' = ps_state_version s"
      "ps_topology_digest s' = ps_topology_digest s" "ps_observed_at s' = ?now" "snapshot_valid s'" "verify_digest rt s'"
      "ps_observation_source_id s' = pl_observation_source_id (plant_at y)" "ps_model_digest s' = pl_model_digest (plant_at y)"
      "ps_simulator_version s' = simulator_version pw"
    using capture_observes [OF rt rd, of ?now] by metis
  have deliver: "links_deliver (sy_plant envs)" "be_observation_id ?env \<noteq> []" using links(1) by (simp_all add: system_delivers_def)
  obtain w' where w': "client_capture_state rt pw (sy_plant envs) (cy_plant y) = (Inr s', w')"
    using client_capture_delivers [OF deliver(1) links(2) cs s'(5)] by blast
  obtain post where iss: "issue_observation rt (be_observation_id ?env) s' tb (os_identity (cy_observer y))
      (os_sequence (cy_observer y) + 1) (os_private_key (cy_observer y)) = Inr post"
    by (rule issue_observation_total [OF rt deliver(2) tb(3,4) up(6) _ s'(5,6), of "os_sequence (cy_observer y) + 1"
          "os_private_key (cy_observer y)"]) (use tb ob(3) up(5) in \<open>simp_all add: bindings_fit_def\<close>)
  note D = issue_observationD [OF iss]
  have pred: "predecessor (tb_previous_envelope_digest tb) (os_cache (cy_observer y)) = Some ob"
    using up(4) by (simp add: holds_observation_def tb(2))
  have same: "tb\<lparr>tb_phase := Post_Dispatch\<rparr> = tb" "tb\<lparr>tb_previous_envelope_digest := tb_previous_envelope_digest tb\<rparr> = tb"
    "tb\<lparr>tb_phase := Post_Dispatch, tb_previous_envelope_digest := tb_previous_envelope_digest tb\<rparr> = tb"
    using tb(1) by simp_all
  obtain svc where cap: "observer_capture rt (observer_plant_client rt pw (sy_plant envs)) ?env tb None (cy_observer y, cy_plant y) =
      (Inr post, svc, w')"
    using w' iss by (simp add: observer_capture_def tb(1) Let_def)
  have serve: "observer_serve rt (observer_plant_client rt pw (sy_plant envs)) ?env Observer_Gateway (Capture_Post (Inr tb))
      (cy_observer y, cy_plant y) = (Observer_Ok (Observation_Reply post), svc, w')"
    using pred ob up(3) cap same(1) by (simp add: observer_serve_def observer_capabilities_def Let_def observer_respond_def)
  note result = client_observation_delivers [OF links(1) up(1,2) serve D(15)]
  have "read_state rt pw (sv_plant (wd_service w')) = Inr s'" by (rule capture_true [OF w'])
  then show thesis
    using that [of post "y\<lparr>cy_exchange := cy_exchange y + 1, cy_observer := svc, cy_plant := w'\<rparr>"] result iss s' D(2)
    by (simp add: client_capture_post_def)
qed

text \<open>A telemetry capture succeeds when the plant can be read.\<close>

lemma capture_pre_delivers:
  assumes links: "system_delivers envs" "plant_up Observer_End (cy_plant y)" and rt: "digests_ok rt"
    and up: "Observer_Link Telemetry \<notin> cy_closed_clients y" "os_running (cy_observer y)" "0 \<le> os_sequence (cy_observer y)"
      "observer_named (os_identity (cy_observer y))" "opt_ok is_hex_digest (os_previous_digest (cy_observer y))"
    and args: "corr \<noteq> []" "len_between 16 256 nonce"
    and cs: "capture_state rt pw (se_now (xe_service (sy_plant envs (wd_exchange (cy_plant y))))) (plant_at y) = (Inr s, pl)"
  obtains ob y1 where "client_capture_pre rt pw envs corr nonce y = (Inr ob, y1)" "plant_at y1 = pl"
    "issue_observation rt (be_observation_id (sy_observer envs (cy_exchange y))) s
       ((pre_bindings corr nonce)\<lparr>tb_previous_envelope_digest := os_previous_digest (cy_observer y)\<rparr>)
       (os_identity (cy_observer y)) (os_sequence (cy_observer y) + 1) (os_private_key (cy_observer y)) = Inr ob"
proof -
  let ?env = "sy_observer envs (cy_exchange y)"
  let ?tb = "(pre_bindings corr nonce)\<lparr>tb_previous_envelope_digest := os_previous_digest (cy_observer y)\<rparr>"
  have rd: "read_state rt pw pl = Inr s" using cs by (auto simp: capture_state_def Let_def)
  have s: "snapshot_valid s" "verify_digest rt s" using read_state_valid [OF rt rd] read_state_verifies [OF rd] by simp_all
  have deliver: "links_deliver (sy_plant envs)" "be_observation_id ?env \<noteq> []" using links(1) by (simp_all add: system_delivers_def)
  obtain w where w: "client_capture_state rt pw (sy_plant envs) (cy_plant y) = (Inr s, w)" "sv_plant (wd_service w) = pl"
    using client_capture_delivers [OF deliver(1) links(2) cs s(1)] by blast
  have fit: "bindings_fit ?tb" "tb_correlation_id ?tb = corr" "tb_challenge_nonce ?tb = nonce"
    using up(5) by (simp_all add: bindings_fit_def pre_bindings_def)
  obtain ob where iss: "issue_observation rt (be_observation_id ?env) s ?tb (os_identity (cy_observer y))
      (os_sequence (cy_observer y) + 1) (os_private_key (cy_observer y)) = Inr ob"
    by (rule issue_observation_total [OF rt deliver(2) _ _ up(4) _ s fit(1), of "os_sequence (cy_observer y) + 1"
          "os_private_key (cy_observer y)"]) (use args up(3) fit in simp_all)
  have phase: "tb_phase (pre_bindings corr nonce) = Pre_Authorization" by (simp add: pre_bindings_def)
  obtain svc where "observer_capture rt (observer_plant_client rt pw (sy_plant envs)) ?env (pre_bindings corr nonce) None
      (cy_observer y, cy_plant y) = (Inr ob, svc, w)"
    using w(1) iss phase by (simp add: observer_capture_def Let_def)
  then have serve: "observer_serve rt (observer_plant_client rt pw (sy_plant envs)) ?env Telemetry
      (Capture_Pre (Inr (corr, nonce))) (cy_observer y, cy_plant y) = (Observer_Ok (Observation_Reply ob), svc, w)"
    by (simp add: observer_serve_def observer_capabilities_def observer_respond_def)
  show thesis
    by (rule that [of ob "y\<lparr>cy_exchange := cy_exchange y + 1, cy_observer := svc, cy_plant := w\<rparr>"])
      (use client_observation_delivers [OF links(1) up(1,2) serve issue_observationD(15) [OF iss]] w(2) iss in
        \<open>simp_all add: client_capture_pre_def\<close>)
qed

section \<open>The verifier accepts\<close>

definition in_window :: "observation_verifier \<Rightarrow> instant \<Rightarrow> instant \<Rightarrow> bool" where
  "in_window v captured now \<longleftrightarrow> captured \<le> now \<and> now \<le> captured + ov_maximum_age v"

lemma common_reasons_none:
  assumes "so_observer_id ob = oi_observer_id (ov_observer v)" "so_observer_key_id ob = oi_key_id (ov_observer v)"
    "so_observer_boot_epoch ob = oi_boot_epoch (ov_observer v)" "observation_verify rt ob (ov_observer_public_key v)"
    "ps_observation_source_id (so_snapshot ob) = pn_observation_source_id (ov_plant v)"
    "ps_model_digest (so_snapshot ob) = pn_model_digest (ov_plant v)"
    "ps_simulator_version (so_snapshot ob) = pn_simulator_version (ov_plant v)" "verify_digest rt (so_snapshot ob)"
    "in_window v (so_captured_at ob) now" "ov_last_sequence v < so_observer_sequence ob"
    "so_challenge_nonce ob \<notin> ov_accepted_challenges v"
  shows "common_reasons rt v ob now = []"
  using assms by (simp add: common_reasons_def Let_def in_window_def)

lemma verify_pre_accepts:
  assumes "common_reasons rt v ob now = []" "so_phase ob = Pre_Authorization" "names_observation q ob"
  shows "verify_pre rt ob q now v = ([], accept_observation ob v)"
  using assms by (simp add: verify_pre_def Let_def names_observation_def)

lemma verify_post_accepts:
  assumes "common_reasons rt v ob now = []" "so_phase ob = Post_Dispatch" "so_correlation_id ob = ar_correlation_id q"
    "so_challenge_nonce ob = nonce" "so_permit_id ob = Some (ep_permit_id (cp_base_permit p))"
    "so_command_digest ob = Some (ep_command_digest (cp_base_permit p))"
    "so_plc_acknowledgment_digest ob = Some (plc_ack_digest rt k)"
    "so_previous_envelope_digest ob = Some (cp_observation_envelope_digest p)" "pa_acknowledged_at k \<le> so_captured_at ob"
  shows "verify_post rt ob q p k nonce now v = ([], accept_observation ob v)"
  using assms by (simp add: verify_post_def Let_def)



section \<open>The loop completes\<close>

text \<open>
  Processes that are up and configured for each other, whatever they did before: the roles of the gateway and
  telemetry are connected, the verifier and the PLC trust the observer's key, the PLC the issuer's and the
  controller the PLC's.
\<close>

definition system_up ::
  "runtime \<Rightarrow> system_env \<Rightarrow> capability_controller \<Rightarrow> observation_verifier \<Rightarrow> capability_system \<Rightarrow> bool" where
  "system_up rt envs ctl v y \<longleftrightarrow>
     (let observer = cy_observer y; device = pv_device (cy_plc y); issuer = cc_issuer ctl in
      system_delivers envs \<and>
      cy_closed_clients y \<inter> {Observer_Link Telemetry, Observer_Link Observer_Gateway, Plc_Link Plc_Gateway} = {} \<and>
      plant_up Observer_End (cy_plant y) \<and> plant_up Simulation_End (cy_plant y) \<and> plant_up (pv_end (cy_plc y)) (cy_plant y) \<and>
      pv_running (cy_plc y) \<and> pv_end (cy_plc y) \<in> {Plc_End, Plc_Restart_End} \<and>
      os_running observer \<and> os_from_plant observer \<and> 0 \<le> os_sequence observer \<and>
      ov_observer v = os_identity observer \<and> vp_observer device = os_identity observer \<and>
      ov_observer_public_key v = rt_public rt (os_private_key observer) \<and>
      vp_observer_public_key device = rt_public rt (os_private_key observer) \<and>
      issuer_ok (ci_base issuer) \<and> plc_trusts rt issuer device \<and> plc_named device \<and>
      cc_plc ctl = ci_target_plc issuer \<and> cc_plc_public_key ctl = rt_public rt (vp_acknowledgment_private_key device) \<and>
      sl_writer (vp_replay device))"

definition watches_plant :: "pandapower \<Rightarrow> observation_verifier \<Rightarrow> plant \<Rightarrow> bool" where
  "watches_plant pw v pl \<longleftrightarrow> pn_observation_source_id (ov_plant v) = pl_observation_source_id pl \<and>
     pn_model_digest (ov_plant v) = pl_model_digest pl \<and> pn_simulator_version (ov_plant v) = simulator_version pw"

text \<open>
  The readings of one run: identifiers that the ledger has not seen, fresh challenges, clocks within the
  permit's life time and the verifier's window. The exchanges with the plant are, in order, the capture, a
  simulation, the PLC's read, simulation and application, and the second capture.
\<close>

definition run_in_time ::
  "system_env \<Rightarrow> capability_controller \<Rightarrow> capability_env \<Rightarrow> observation_verifier \<Rightarrow> string \<Rightarrow> capability_system \<Rightarrow> bool" where
  "run_in_time envs ctl env v challenge y \<longleftrightarrow>
     (let plant_now = (\<lambda>i. se_now (xe_service (sy_plant envs (wd_exchange (cy_plant y) + i))));
          call = pe_call (sy_plc envs (cy_exchange y + 2)) in
      ce_permit_id env \<noteq> [] \<and> 16 \<le> length (ce_permit_nonce env) \<and> env_decision_id (ce_decide env) \<noteq> [] \<and>
      len_between 16 256 (ce_challenge_nonce env) \<and> ce_challenge_nonce env \<noteq> challenge \<and>
      challenge \<notin> ov_accepted_challenges v \<and> ce_challenge_nonce env \<notin> ov_accepted_challenges v \<and>
      plc_in_time call (ce_issued_at env) (pi_time_to_live (ci_base (cc_issuer ctl))) \<and>
      in_window v (plant_now 0) (ce_clock env 0) \<and> in_window v (plant_now 5) (ce_clock env 1) \<and>
      px_clock call 3 \<le> plant_now 5)"

lemma issue_capability_succeeds:
  assumes rt: "digests_ok rt" and q: "action_request_valid q" "names_observation q ob" and ob: "observation_valid rt ob"
    and plc: "plc_trusts rt issuer plc" "plc_named plc" and pre: "ca_pre_state a = so_snapshot ob"
    and base: "issue rt (ci_base issuer) t pid nonce chain (ar_proposal q) d c a = Inr base"
  obtains p where "issue_capability rt issuer t pid nonce chain q ob d c a = Inr p" "cp_base_permit p = base"
proof -
  let ?u = "unsigned_capability_permit rt issuer q ob base"
  have key: "ep_signing_key_id base = pi_signing_key_id (ci_base issuer)" "permit_valid rt base"
    by (rule issueD [OF base], simp)+
  have "capability_permit_shape ?u"
    using rt ob plc key
    by (simp add: capability_permit_shape_def unsigned_capability_permit_def observation_valid_def plc_trusts_def
        plc_named_def request_digest_def permit_valid_def)
  moreover have "capability_issue_checks q ob a = Inr ()"
    using q(2) pre by (simp add: capability_issue_checks_def names_observation_def Let_def)
  ultimately have "issue_capability rt issuer t pid nonce chain q ob d c a =
      Inr (capability_permit_signed rt ?u (pi_private_key (ci_base issuer)))"
    using base by (simp add: issue_capability_def make_capability_permit_def)
  then show thesis
    by (rule that) (simp add: capability_permit_signed_def unsigned_capability_permit_def)
qed

lemma dispatch_completes:
  assumes rt: "digests_ok rt" "signatures_ok rt" and up: "system_up rt envs ctl v y" and inv: "plant_inv pw (plant_at y)"
    and obs: "holds_observation (os_cache (cy_observer y)) ob" "ov_last_sequence v \<le> os_sequence (cy_observer y)"
    and ob: "observation_valid rt ob" "plc_accepts_observation rt (pv_device (cy_plc y)) ob" "names_observation q ob"
      "action_request_valid q"
    and plant: "read_state rt pw (plant_at y) = Inr (so_snapshot ob)" "watches_plant pw v (plant_at y)"
      "simulate_candidate rt pw i (plant_at y) c = Inr a"
    and iss: "issue_capability rt (cc_issuer ctl) (ce_issued_at env) (ce_permit_id env) (ce_permit_nonce env) chain q ob d c a = Inr p"
    and ledger: "semantic_load (vp_replay (pv_device (cy_plc y))) = Inr rv"
      "replay_reason_in rv (reservation_of rt q (cp_base_permit p)) = None"
    and call: "call = pe_call (sy_plc envs (cy_exchange y))" "plc_in_time call (ce_issued_at env) (pi_time_to_live (ci_base (cc_issuer ctl)))"
    and later: "later = se_now (xe_service (sy_plant envs (wd_exchange (cy_plant y) + 3)))" "in_window v later (ce_clock env 1)"
      "px_clock call 3 \<le> later"
    and nonce: "len_between 16 256 (ce_challenge_nonce env)" "ce_challenge_nonce env \<notin> ov_accepted_challenges v"
  obtains cd' v' y' s where "dispatch_capability rt (gateway_ports rt pw envs) ctl env q ob d a p cd v y = (cd', v', y')"
    "cd_status cd' = Loop_Completed" "cd_permit cd' = Some p" "read_state rt pw (plant_at y') = Inr s" "expected_state (cp_base_permit p) s"
    "sl_file (vp_replay (pv_device (cy_plc y'))) =
       Some (written_file (semantic_document (add_reservation (reservation_of rt q (cp_base_permit p)) rv)))"
proof -
  let ?x = "\<lparr>pq_request = q, pq_permit = p, pq_pre_observation = ob, pq_decision = d, pq_assessment = a\<rparr>"
  note up = up [unfolded system_up_def Let_def]
  note D = issue_capabilityD [OF iss] and C = issued_capability [OF iss rt(2)]
  have deliver: "links_deliver (sy_plant envs)" using up by (simp add: system_delivers_def)
  have a: "assessment_valid rt a" "permit_valid rt (cp_base_permit p)" by (rule issueD [OF D(3)], simp)+
  obtain k sl w' s where ex: "plc_execute rt (plc_plant_client rt pw (sy_plant envs) (pv_end (cy_plc y))) call ?x
        (pv_device (cy_plc y), cy_plant y) = (Inr k, (scanned_plc (pv_device (cy_plc y)))\<lparr>vp_replay := sl\<rparr>, w')"
    and sl: "sl_file sl = Some (written_file (semantic_document (add_reservation (reservation_of rt q (cp_base_permit p)) rv)))"
    and k: "plc_ack_valid rt k" "pa_status k = APPLIED" "pa_acknowledged_at k = px_clock call 3"
      "plc_ack_verify_for_transaction rt k (rt_public rt (vp_acknowledgment_private_key (pv_device (cy_plc y)))) q p ob
         (ci_target_plc (cc_issuer ctl))"
      "pa_post_state_digest k = Some (ps_state_digest s)" "pa_post_state_version k = Some (ps_state_version s)"
      "pa_post_topology_digest k = Some (ps_topology_digest s)"
    and s: "read_state rt pw (sv_plant (wd_service w')) = Inr s" "expected_state (cp_base_permit p) s"
    and w': "same_source (plant_at y) (sv_plant (wd_service w'))"
      "wd_closed_clients w' = wd_closed_clients (cy_plant y)" "wd_exchange w' = wd_exchange (cy_plant y) + 3"
      "sv_running (wd_service w') = sv_running (wd_service (cy_plant y))"
      "sv_endpoints (wd_service w') = sv_endpoints (wd_service (cy_plant y))"
    using plc_executes [OF rt inv deliver _ _ plant(1,3) iss _ ob(2,3) _ call(2) ledger(1) _ ledger(2)] up by metis
  define y2 where "y2 = y\<lparr>cy_exchange := cy_exchange y + 1,
      cy_plc := (cy_plc y)\<lparr>pv_device := (scanned_plc (pv_device (cy_plc y)))\<lparr>vp_replay := sl\<rparr>\<rparr>, cy_plant := w'\<rparr>"
  have "received_request rt ?x = Inr ?x" using ob C(2) a(1) by (simp add: received_request_def)
  then have plc: "gateway_plc_execute rt pw envs ?x y = (Inr k, y2)"
    using gateway_plc_delivers [of envs y rt ?x pw k] ex k(1) call(1) up by (simp add: y2_def)
  have y2: "cy_observer y2 = cy_observer y" "cy_plant y2 = w'" "cy_closed_clients y2 = cy_closed_clients y"
    "sl_file (vp_replay (pv_device (cy_plc y2))) = sl_file sl" by (simp_all add: y2_def)
  let ?tb = "\<lparr>tb_correlation_id = ar_correlation_id q, tb_phase = Post_Dispatch, tb_challenge_nonce = ce_challenge_nonce env,
      tb_previous_envelope_digest = Some (so_envelope_digest ob), tb_permit_id = Some (ep_permit_id (cp_base_permit p)),
      tb_command_digest = Some (ep_command_digest (cp_base_permit p)),
      tb_plc_acknowledgment_digest = Some (plc_ack_digest rt k)\<rparr>"
  have up2: "plant_up Observer_End (cy_plant y2)" "Observer_Link Observer_Gateway \<notin> cy_closed_clients y2"
    using up w' by (auto simp: y2 plant_up_def)
  have named: "observer_named (os_identity (cy_observer y2))"
    using ob(1,2) up by (simp add: y2 observer_named_def observation_valid_def plc_accepts_observation_def)
  obtain post y' where cap: "client_capture_post rt pw envs ?tb y2 = (Inr post, y')"
    and iss2: "issue_observation rt (be_observation_id (sy_observer envs (cy_exchange y2))) (so_snapshot post) ?tb
       (os_identity (cy_observer y2)) (os_sequence (cy_observer y2) + 1) (os_private_key (cy_observer y2)) = Inr post"
    and post: "ps_state_digest (so_snapshot post) = ps_state_digest s" "ps_state_version (so_snapshot post) = ps_state_version s"
      "ps_topology_digest (so_snapshot post) = ps_topology_digest s"
      "ps_observed_at (so_snapshot post) = se_now (xe_service (sy_plant envs (wd_exchange (cy_plant y2))))"
      "ps_observation_source_id (so_snapshot post) = pl_observation_source_id (plant_at y2)"
      "ps_model_digest (so_snapshot post) = pl_model_digest (plant_at y2)"
      "ps_simulator_version (so_snapshot post) = simulator_version pw"
    and y': "cy_plc y' = cy_plc y2" "read_state rt pw (plant_at y') = Inr (so_snapshot post)"
    by (rule capture_post_result [of envs y2 rt ob ?tb "ep_permit_id (cp_base_permit p)" "ep_command_digest (cp_base_permit p)"
          "plc_ack_digest rt k" pw s])
      (use up up2 rt named obs ob a s nonce in \<open>simp_all add: y2 names_observation_def plc_accepts_observation_def
         action_request_valid_def observation_valid_def permit_valid_def plc_ack_digest_def\<close>)
  note P = issue_observationD [OF iss2]
  have "common_reasons rt v post (ce_clock env 1) = []"
    by (rule common_reasons_none)
      (use P up post plant(2) w' later nonce obs issue_observation_verifies [OF rt(2) iss2] in
        \<open>simp_all add: y2 watches_plant_def same_source_def\<close>)
  then have ver: "verify_post rt post q p k (ce_challenge_nonce env) (ce_clock env 1) v = ([], accept_observation post v)"
    by (rule verify_post_accepts) (use P post later k D in \<open>simp_all add: y2 w'\<close>)
  have match: "post_matches post k (cp_base_permit p)" using post k s(2) by (simp add: post_matches_def expected_state_def)
  obtain cd' where disp: "dispatch_capability rt (gateway_ports rt pw envs) ctl env q ob d a p cd v y = (cd', accept_observation post v, y')"
    and cd': "cd_status cd' = Loop_Completed" "cd_permit cd' = Some p"
    using plc cap ver match k(2,4) up
    by (simp add: dispatch_capability_def conclude_dispatch_def observe_effect_def gateway_ports_def Let_def)
  show thesis
    by (rule that [OF disp cd'(1,2) y'(2)]) (use post s(2) sl y' in \<open>simp_all add: expected_state_def y2\<close>)
qed

lemma system_up_observed:
  assumes "system_up rt envs ctl v y" "os_identity svc = os_identity (cy_observer y)"
    "os_private_key svc = os_private_key (cy_observer y)" "os_from_plant svc = os_from_plant (cy_observer y)" "os_running svc"
    "os_sequence svc = os_sequence (cy_observer y) + 1" "wd_closed_clients w = wd_closed_clients (cy_plant y)"
    "sv_running (wd_service w) = sv_running (wd_service (cy_plant y))"
    "sv_endpoints (wd_service w) = sv_endpoints (wd_service (cy_plant y))"
  shows "system_up rt envs ctl (accept_observation ob v)
    (y\<lparr>cy_exchange := n, cy_observer := svc\<lparr>os_resolve_count := m\<rparr>, cy_plant := w\<lparr>wd_exchange := j\<rparr>\<rparr>)"
  using assms by (simp add: system_up_def Let_def plant_up_def accept_observation_def)

lemma resolve_cached:
  assumes "system_delivers envs" "Observer_Link Observer_Gateway \<notin> cy_closed_clients y" "os_running (cy_observer y)"
    and "holds_observation (os_cache (cy_observer y)) ob" "observation_valid rt ob"
  shows "client_resolve rt pw envs (so_observation_id ob) (so_envelope_digest ob) y =
    (Inr ob, y\<lparr>cy_exchange := cy_exchange y + 1,
      cy_observer := (cy_observer y)\<lparr>os_resolve_count := os_resolve_count (cy_observer y) + 1\<rparr>\<rparr>)"
  using client_observation_delivers [OF assms(1-3) _ assms(5), where pw = pw and w = "cy_plant y" and
      request = "Resolve (Inr (so_observation_id ob, so_envelope_digest ob))" and
      svc = "(cy_observer y)\<lparr>os_resolve_count := os_resolve_count (cy_observer y) + 1\<rparr>"] assms(4)
  by (simp add: client_resolve_def observer_serve_def observer_capabilities_def observer_respond_def holds_observation_def Let_def)

lemma run_completes:
  assumes rt: "digests_ok rt" "signatures_ok rt" and up: "system_up rt envs ctl v y" and inv: "plant_inv pw (plant_at y)"
    and fresh: "\<not> digest_cached ob (os_cache (cy_observer y))" "ov_last_sequence v \<le> os_sequence (cy_observer y)" "watches_plant pw v (plant_at y)"
    and capture: "client_capture_pre rt pw envs (ar_correlation_id q) (ar_observation_challenge_nonce q) y = (Inr ob, y1)"
    and q: "action_request_valid q" "names_observation q ob"
    and gs: "physical_state_to_gateway_state (so_snapshot ob) = Inr gs"
    and dec: "decide rt (ce_decide env) gw (ar_proposal q) gs (Some (ce_clock env 0)) = (gw1, d)" "dec_outcome d = PERMIT"
    and log: "evidence_verify rt (gw_evidence gw)"
      "\<forall>r \<in> set (gw_evidence gw). Some (ev_record_hash r) \<noteq> dec_evidence_record_hash d"
    and names: "gw_policy_version gw \<noteq> []" "sk_version (gw_safety gw) \<noteq> []"
    and c: "translate (cc_bindings ctl) (ce_command_id env) (ar_proposal q) = Inr c"
    and sim: "simulate_candidate rt pw i (plant_at y1) c = Inr a" "ca_safe a"
    and ledger: "semantic_load (vp_replay (pv_device (cy_plc y))) = Inr rv" "replay_reason_in rv key = None"
      "key = \<lparr>rk_request_digest = request_digest rt q, rk_permit_id = ce_permit_id env, rk_permit_nonce = ce_permit_nonce env,
         rk_command_id = ce_command_id env\<rparr>"
    and time: "run_in_time envs ctl env v (ar_observation_challenge_nonce q) y"
  obtains cd v' y' p s where "capability_run rt (gateway_ports rt pw envs) ctl env q (gw, v, y1) = (cd, gw1, v', y')"
    "cd_status cd = Loop_Completed" "cd_permit cd = Some p" "read_state rt pw (plant_at y') = Inr s"
    "expected_state (cp_base_permit p) s" "ps_state_digest s = ps_state_digest (ca_post_state a)"
    "sl_file (vp_replay (pv_device (cy_plc y'))) = Some (written_file (semantic_document (add_reservation key rv)))"
proof -
  note U = up [unfolded system_up_def Let_def] and T = time [unfolded run_in_time_def Let_def]
  obtain svc w where y1: "y1 = y\<lparr>cy_exchange := cy_exchange y + 1, cy_observer := svc, cy_plant := w\<rparr>"
    and svc: "holds_observation (os_cache svc) ob" "os_sequence svc = os_sequence (cy_observer y) + 1"
      "os_identity svc = os_identity (cy_observer y)" "os_private_key svc = os_private_key (cy_observer y)"
      "os_from_plant svc = os_from_plant (cy_observer y)" "os_running svc"
    and cs: "capture_state rt pw (se_now (xe_service (sy_plant envs (wd_exchange (cy_plant y))))) (plant_at y) =
       (Inr (so_snapshot ob), sv_plant (wd_service w))"
    and w: "wd_closed_clients w = wd_closed_clients (cy_plant y)" "wd_exchange w = wd_exchange (cy_plant y) + 1"
      "sv_running (wd_service w) = sv_running (wd_service (cy_plant y))"
      "sv_endpoints (wd_service w) = sv_endpoints (wd_service (cy_plant y))"
    and iss: "issue_observation rt (be_observation_id (sy_observer envs (cy_exchange y))) (so_snapshot ob)
       ((pre_bindings (ar_correlation_id q) (ar_observation_challenge_nonce q))\<lparr>tb_previous_envelope_digest :=
          os_previous_digest (cy_observer y)\<rparr>)
       (os_identity (cy_observer y)) (os_sequence (cy_observer y) + 1) (os_private_key (cy_observer y)) = Inr ob"
    and valid: "observation_valid rt ob"
    by (rule capture_pre_result [OF _ _ _ _ fresh(1) capture rt(1)]) (use U in auto)
  note O = issue_observationD [OF iss, simplified pre_bindings_def, simplified]
    and V = issue_observation_verifies [OF rt(2) iss]
  have rd: "read_state rt pw (sv_plant (wd_service w)) = Inr (so_snapshot ob)" "plant_inv pw (sv_plant (wd_service w))"
    using cs capture_reads [where rt = rt and pw = pw and pl = "plant_at y"] inv by (metis fst_conv snd_conv)+
  have wpl: "sv_plant (wd_service w) = (plant_at y)\<lparr>pl_observed_at := se_now (xe_service (sy_plant envs (wd_exchange (cy_plant y)))),
      pl_observation_sequence := pl_observation_sequence (plant_at y) + 1\<rparr>"
    using cs by (auto simp: capture_state_def Let_def)
  have src: "watches_plant pw v (sv_plant (wd_service w))" using fresh(3) by (simp add: wpl watches_plant_def)
  have "common_reasons rt v ob (ce_clock env 0) = []"
    by (rule common_reasons_none)
      (use O V U T src fresh(2) read_state_identity [OF rd(1)] in \<open>simp_all add: watches_plant_def wpl\<close>)
  then have pre: "verify_pre rt ob q (ce_clock env 0) v = ([], accept_observation ob v)"
    by (rule verify_pre_accepts) (use O q in simp_all)
  define j where "j = se_assessment_id (xe_service (sy_plant envs (wd_exchange w)))"
  define a1 where "a1 = a\<lparr>ca_assessment_id := j\<rparr>"
  define y3 where "y3 = y\<lparr>cy_exchange := cy_exchange y + 2, cy_observer := svc\<lparr>os_resolve_count := os_resolve_count svc + 1\<rparr>,
      cy_plant := w\<lparr>wd_exchange := wd_exchange w + 1\<rparr>\<rparr>"
  have up3: "system_up rt envs ctl (accept_observation ob v) y3"
    unfolding y3_def by (rule system_up_observed [OF up]) (use svc w in simp_all)
  have y2: "client_resolve rt pw envs (ar_observation_id q) (ar_observation_envelope_digest q) y1 =
      (Inr ob, y1\<lparr>cy_exchange := cy_exchange y + 2, cy_observer := svc\<lparr>os_resolve_count := os_resolve_count svc + 1\<rparr>\<rparr>)"
    using resolve_cached [where envs = envs and y = y1 and ob = ob and rt = rt and pw = pw] U svc valid q(2) by (simp add: y1 names_observation_def)
  have simw: "client_simulate_candidate rt pw (sy_plant envs) Simulation_End c w = (Inr a1, w\<lparr>wd_exchange := wd_exchange w + 1\<rparr>)"
    using client_simulate_delivers [where sched = "sy_plant envs" and role = Simulation_End and w = w and i = i and c = c and a = a and rt = rt and pw = pw] sim(1) U w translateD(1) [OF c]
    by (simp add: y1 a1_def j_def system_delivers_def plant_up_def)
  have sim1: "simulate_candidate rt pw j (sv_plant (wd_service w)) c = Inr a1"
    unfolding a1_def by (rule simulate_candidate_id) (use sim(1) U in \<open>simp_all add: y1 j_def system_delivers_def links_deliver_def\<close>)
  have a1: "ca_pre_state a1 = so_snapshot ob" "assessment_valid rt a1" "ca_command_digest a1 = command_digest rt c" "ca_safe a1"
    using sim1 rd(1) sim(2) by (auto simp: a1_def elim: simulate_candidateD)
  obtain base where base: "issue rt (ci_base (cc_issuer ctl)) (ce_issued_at env) (ce_permit_id env) (ce_permit_nonce env)
        (gw_evidence gw1) (ar_proposal q) d c a1 = Inr base"
  proof -
    have "action_proposal_valid (ar_proposal q)" "env_decision_id (ce_decide env) \<noteq> []" "issuer_ok (ci_base (cc_issuer ctl))"
      "ce_permit_id env \<noteq> []" "16 \<le> length (ce_permit_nonce env)"
      using q(1) U T by (simp_all add: action_request_valid_def)
    from issue_succeeds [OF rt(1) this(1) dec log this(2) names c a1(2,4,3) gs [folded a1(1)] this(3-5)] show thesis
      using that by blast
  qed
  obtain p where p: "issue_capability rt (cc_issuer ctl) (ce_issued_at env) (ce_permit_id env) (ce_permit_nonce env)
        (gw_evidence gw1) q ob d c a1 = Inr p" and pb: "cp_base_permit p = base"
    by (rule issue_capability_succeeds [OF rt(1) q valid _ _ a1(1) base, where plc = "pv_device (cy_plc y)"]) (use U in simp_all)
  have key: "reservation_of rt q (cp_base_permit p) = key"
    by (rule issueD [OF base]) (simp add: reservation_of_def pb ledger(3) translateD(5) [OF c])
  have match: "candidate_matches rt a1 c (so_snapshot ob)" using a1 by (simp add: candidate_matches_def)
  have accepts: "plc_accepts_observation rt (pv_device (cy_plc y3)) ob"
    using O V U by (simp add: plc_accepts_observation_def y3_def)
  have y3: "holds_observation (os_cache (cy_observer y3)) ob" "plant_at y3 = sv_plant (wd_service w)"
    "cy_plc y3 = cy_plc y" "cy_exchange y3 = cy_exchange y + 2" "wd_exchange (cy_plant y3) = wd_exchange (cy_plant y) + 2"
    "os_sequence (cy_observer y3) = os_sequence (cy_observer y) + 1"
    using svc w by (simp_all add: y3_def)
  let ?cd = "(not_dispatched (dec_reasons d))\<lparr>cd_pre_observation := Some ob, cd_last_observation := Some ob, cd_decision := Some d,
      cd_command := Some c, cd_assessment := Some a1\<rparr>"
  obtain cd' v' y' s where disp: "dispatch_capability rt (gateway_ports rt pw envs) ctl env q ob d a1 p ?cd
        (accept_observation ob v) y3 = (cd', v', y')"
    and res: "cd_status cd' = Loop_Completed" "cd_permit cd' = Some p" "read_state rt pw (plant_at y') = Inr s"
      "expected_state (cp_base_permit p) s"
      "sl_file (vp_replay (pv_device (cy_plc y'))) =
         Some (written_file (semantic_document (add_reservation (reservation_of rt q (cp_base_permit p)) rv)))"
    by (rule dispatch_completes [OF rt up3 _ y3(1) _ valid accepts q(2,1) _ _ _ p, of pw j rv
          "pe_call (sy_plc envs (cy_exchange y + 2))" "se_now (xe_service (sy_plant envs (wd_exchange (cy_plant y) + 5)))" ?cd])
      (use rd src sim1 ledger key T O in
        \<open>simp_all add: y3 watches_plant_def accept_observation_def in_window_def add.commute [of 5]\<close>)
  have "capability_run rt (gateway_ports rt pw envs) ctl env q (gw, v, y1) = (cd', gw1, v', y')"
    using y2 pre gs dec c simw a1(4) match p disp
    by (simp add: capability_run_def permitted_dispatch_def gateway_ports_def Let_def y1 y3_def)
  moreover have "ps_state_digest s = ps_state_digest (ca_post_state a)"
  proof -
    have "ep_expected_post_state_digest base = ps_state_digest (ca_post_state a1)" by (rule issueD [OF base], simp)
    then show ?thesis using res(4) by (simp add: expected_state_def pb a1_def)
  qed
  ultimately show thesis using that res key by metis
qed

text \<open>
  (C13) Progress of the capability loop. Let the processes be up and configured for each other, in any state of their
  history, the links deliver, and telemetry capture an observation whose digest no observation still cached by the
  observer has. A valid request that names this observation, that the
  gateway permits for the observed state, that translates to a command with a safe candidate, and whose
  identifiers and challenges are new and clock readings in time, ends as completed: the plant reports the
  state of the permit, with the digest that the candidate predicted, and the permit is durably consumed.
\<close>
theorem capability_loop_completes:
  assumes rt: "digests_ok rt" "signatures_ok rt" and up: "system_up rt envs ctl v y" and inv: "plant_inv pw (plant_at y)"
    and fresh: "\<not> digest_cached ob (os_cache (cy_observer y))" "ov_last_sequence v \<le> os_sequence (cy_observer y)" "watches_plant pw v (plant_at y)"
    and capture: "client_capture_pre rt pw envs (ar_correlation_id q) (ar_observation_challenge_nonce q) y = (Inr ob, y1)"
    and q: "action_request_valid q" "names_observation q ob"
    and gs: "physical_state_to_gateway_state (so_snapshot ob) = Inr gs"
    and dec: "decide rt (ce_decide env) gw (ar_proposal q) gs (Some (ce_clock env 0)) = (gw1, d)" "dec_outcome d = PERMIT"
    and log: "evidence_verify rt (gw_evidence gw)"
      "\<forall>r \<in> set (gw_evidence gw). Some (ev_record_hash r) \<noteq> dec_evidence_record_hash d"
    and names: "gw_policy_version gw \<noteq> []" "sk_version (gw_safety gw) \<noteq> []"
    and c: "translate (cc_bindings ctl) (ce_command_id env) (ar_proposal q) = Inr c"
    and sim: "simulate_candidate rt pw i (plant_at y1) c = Inr a" "ca_safe a"
    and ledger: "semantic_load (vp_replay (pv_device (cy_plc y))) = Inr rv" "replay_reason_in rv key = None"
      "key = \<lparr>rk_request_digest = request_digest rt q, rk_permit_id = ce_permit_id env, rk_permit_nonce = ce_permit_nonce env,
         rk_command_id = ce_command_id env\<rparr>"
    and time: "run_in_time envs ctl env v (ar_observation_challenge_nonce q) y"
  shows "\<exists>r gw' v' y' p s. capability_execute rt (gateway_ports rt pw envs) ctl env q (gw, v, y1) = (Inr r, gw', v', y') \<and>
    cr_status r = Loop_Completed \<and> cr_permit r = Some p \<and> read_state rt pw (plant_at y') = Inr s \<and>
    expected_state (cp_base_permit p) s \<and> ps_state_digest s = ps_state_digest (ca_post_state a) \<and>
    ce_permit_id env \<in> durable rv_permit_ids (sl_file (vp_replay (pv_device (cy_plc y'))))"
proof -
  obtain cd v' y' p s where run: "capability_run rt (gateway_ports rt pw envs) ctl env q (gw, v, y1) = (cd, gw1, v', y')"
    and res: "cd_status cd = Loop_Completed" "cd_permit cd = Some p" "read_state rt pw (plant_at y') = Inr s"
      "expected_state (cp_base_permit p) s" "ps_state_digest s = ps_state_digest (ca_post_state a)"
      "sl_file (vp_replay (pv_device (cy_plc y'))) = Some (written_file (semantic_document (add_reservation key rv)))"
    by (rule run_completes [OF assms])
  obtain r gw' where ex: "capability_execute rt (gateway_ports rt pw envs) ctl env q (gw, v, y1) = (Inr r, gw', v', y')"
    using gateway_typed.execute_total [OF rt, of pw envs ctl env q "(gw, v, y1)"] run
    by (auto simp: capability_execute_def split: prod.splits)
  from ex obtain h where "r = result_of q cd h" by (rule capability_executeE) (use run in simp)
  moreover have "ce_permit_id env \<in> durable rv_permit_ids (sl_file (vp_replay (pv_device (cy_plc y'))))"
    using durable_written [of "add_reservation key rv" rv_permit_ids] semantic_load_finite [OF ledger(1)]
    by (simp add: res(6) ledger(3)) (simp add: add_reservation_def)
  ultimately show ?thesis using ex res by auto
qed

section \<open>A completed run\<close>

lemma demo_ledger: "semantic_load (vp_replay demo_plc) = Inr empty_reservations"
proof -
  have "dumps_length (semantic_document empty_reservations) \<le> max_ledger_bytes"
    by (simp add: semantic_document_def sorted_strings_def empty_reservations_def commas_def string_length_def
        escaped_length_def max_ledger_bytes_def Let_def)
  then show ?thesis
    by (intro semantic_written(2)) (simp_all add: demo_plc_def reservations_finite_def no_empty_key_def empty_reservations_def)
qed

lemma demo_system_up: "system_up demo_runtime demo_system_env demo_capability_controller demo_verifier demo_system"
  by (simp add: system_up_def Let_def demo_system_def demo_system_env_def system_delivers_def links_deliver_def plant_up_def
      demo_plant_service_def fresh_observer_def demo_verifier_def demo_plc_def demo_capability_controller_def issuer_ok_def
      demo_issuer_def plc_trusts_def plc_named_def demo_plc_identity_def)

lemma demo_in_time: "run_in_time demo_system_env demo_capability_controller demo_capability_env demo_verifier
    (ar_observation_challenge_nonce demo_action_request) demo_system"
  by (simp add: run_in_time_def Let_def demo_system_env_def demo_capability_controller_def demo_capability_env_def
      demo_verifier_def demo_action_request_def demo_system_def len_between_def plc_in_time_def demo_plc_env_def demo_issuer_def
      in_window_def demo_env_def)

lemma demo_watches: "watches_plant demo_pandapower demo_verifier (plant_at demo_system)"
  by (simp add: watches_plant_def demo_verifier_def demo_system_def demo_plant_service_def demo_plant_eq)

lemma demo_request_valid: "action_request_valid demo_action_request"
  using demo_plant_proposal_valid
  by (simp add: action_request_valid_def demo_action_request_def len_between_def)

text \<open>The laboratory's observer after an earlier capture, whose envelope is still in its cache.\<close>

definition served_system :: "observation \<Rightarrow> capability_system" where
  "served_system earlier = demo_system\<lparr>cy_observer := (cy_observer demo_system)\<lparr>os_sequence := 1, os_capture_count := 1,
     os_previous_digest := Some (so_envelope_digest earlier), os_cache := [(so_observation_id earlier, earlier)]\<rparr>\<rparr>"

lemma served_system_simps [simp]:
  "cy_plc (served_system earlier) = cy_plc demo_system" "cy_plant (served_system earlier) = cy_plant demo_system"
  "cy_exchange (served_system earlier) = cy_exchange demo_system" "cy_closed_clients (served_system earlier) = cy_closed_clients demo_system"
  "os_cache (cy_observer (served_system earlier)) = [(so_observation_id earlier, earlier)]"
  "os_sequence (cy_observer (served_system earlier)) = 1"
  "os_previous_digest (cy_observer (served_system earlier)) = Some (so_envelope_digest earlier)"
  "os_identity (cy_observer (served_system earlier)) = os_identity (cy_observer demo_system)"
  "os_private_key (cy_observer (served_system earlier)) = os_private_key (cy_observer demo_system)"
  "os_from_plant (cy_observer (served_system earlier)) = os_from_plant (cy_observer demo_system)"
  "os_running (cy_observer (served_system earlier)) = os_running (cy_observer demo_system)"
  by (simp_all add: served_system_def)

lemma served_system_up: "system_up demo_runtime demo_system_env demo_capability_controller demo_verifier (served_system earlier)"
  using demo_system_up unfolding system_up_def Let_def served_system_simps by simp

lemma served_captures:
  assumes "capture_state demo_runtime demo_pandapower 0 demo_plant = (Inr pre, demo_observed)" "is_hex_digest (so_envelope_digest earlier)"
  obtains ob y1 where "client_capture_pre demo_runtime demo_pandapower demo_system_env (ar_correlation_id demo_action_request)
      (ar_observation_challenge_nonce demo_action_request) (served_system earlier) = (Inr ob, y1)" "plant_at y1 = demo_observed"
    "so_snapshot ob = pre" "names_observation demo_action_request ob" "so_envelope_digest ob = zero_digest"
proof -
  note U = served_system_up [unfolded system_up_def Let_def, of earlier]
  have sys: "plant_at (served_system earlier) = demo_plant" "wd_exchange (cy_plant demo_system) = 0" "cy_exchange demo_system = 0"
    "os_identity (cy_observer demo_system) = demo_observer_identity" "os_private_key (cy_observer demo_system) = ''observer-secret''"
    "se_now (xe_service (sy_plant demo_system_env 0)) = 0" "be_observation_id (sy_observer demo_system_env 0) = ''observation-pre''"
    by (simp_all add: demo_system_def fresh_observer_def demo_plant_service_def demo_system_env_def)
  obtain ob y1 where cap: "client_capture_pre demo_runtime demo_pandapower demo_system_env ''correlation-1'' ''challenge-nonce-pre''
      (served_system earlier) = (Inr ob, y1)" "plant_at y1 = demo_observed"
    and iss: "issue_observation demo_runtime ''observation-pre'' pre
       ((pre_bindings ''correlation-1'' ''challenge-nonce-pre'')\<lparr>tb_previous_envelope_digest := Some (so_envelope_digest earlier)\<rparr>)
       demo_observer_identity 2 ''observer-secret'' = Inr ob"
  proof (rule capture_pre_delivers [of demo_system_env "served_system earlier" demo_runtime "''correlation-1''" "''challenge-nonce-pre''"
        demo_pandapower pre demo_observed])
    show "observer_named (os_identity (cy_observer (served_system earlier)))" "len_between 16 256 ''challenge-nonce-pre''"
      by (simp_all add: sys observer_named_def demo_observer_identity_def len_between_def)
  qed (use U assms sys that in simp_all)
  note D = issue_observationD [OF iss]
  have dig: "so_envelope_digest ob = zero_digest" using iss by (rule issue_observationE) simp
  have rd: "read_state demo_runtime demo_pandapower demo_observed = Inr pre"
    using assms capture_reads(1) [of demo_runtime demo_pandapower 0 demo_plant] by simp
  have "names_observation demo_action_request ob"
    using D dig read_state_version [OF rd] read_state_identity(4) [OF rd]
    by (simp add: names_observation_def demo_action_request_def pre_bindings_def demo_plant_proposal_def demo_proposal_def)
  then show thesis
    using that [OF _ cap(2)] cap(1) D(2) dig by (simp add: demo_action_request_def)
qed

theorem capability_loop_completes_witness:
  "\<exists>earlier ob y1 r gw' v' y' s. so_envelope_digest earlier \<noteq> so_envelope_digest ob \<and>
     client_capture_pre demo_runtime demo_pandapower demo_system_env ''correlation-1'' ''challenge-nonce-pre''
       (served_system earlier) = (Inr ob, y1) \<and>
     capability_execute demo_runtime demo_ports demo_capability_controller demo_capability_env demo_action_request
       (demo_gateway, demo_verifier, y1) = (Inr r, gw', v', y') \<and>
     cr_status r = Loop_Completed \<and> read_state demo_runtime demo_pandapower (plant_at y') = Inr s \<and>
     ''permit-1'' \<in> durable rv_permit_ids (sl_file (vp_replay (pv_device (cy_plc y'))))"
proof -
  obtain pre a gw1 where steps: "capture_state demo_runtime demo_pandapower 0 demo_plant = (Inr pre, demo_observed)"
    "physical_state_to_gateway_state pre = Inr demo_gateway_state"
    and dec: "decide demo_runtime (le_decide demo_loop_env) demo_gateway demo_plant_proposal demo_gateway_state
       (Some (le_clock demo_loop_env)) =
     (gw1, snd (decide demo_runtime demo_env demo_gateway demo_plant_proposal demo_gateway_state (Some 0)))"
    and tr: "translate (co_bindings demo_controller) (le_command_id demo_loop_env) demo_plant_proposal = Inr demo_command"
    and sim: "simulate_candidate demo_runtime demo_pandapower ''assessment-1'' demo_observed demo_command = Inr a" "ca_safe a"
    by (rule demo_loop)
  define earlier where "earlier = (provisional_observation ''observation-earlier'' pre (pre_bindings ''correlation-0'' ''challenge-nonce-old'')
      demo_observer_identity 1)\<lparr>so_envelope_digest := replicate 64 CHR ''a''\<rparr>"
  have old: "so_envelope_digest earlier = replicate 64 CHR ''a''" by (simp add: earlier_def)
  then have hex: "is_hex_digest (so_envelope_digest earlier)" by (simp add: is_hex_digest_def list_all_iff)
  obtain ob y1 where cap: "client_capture_pre demo_runtime demo_pandapower demo_system_env (ar_correlation_id demo_action_request)
      (ar_observation_challenge_nonce demo_action_request) (served_system earlier) = (Inr ob, y1)" "plant_at y1 = demo_observed"
    and ob: "so_snapshot ob = pre" "names_observation demo_action_request ob" "so_envelope_digest ob = zero_digest"
    by (rule served_captures [OF steps(1) hex])
  have new: "so_envelope_digest earlier \<noteq> so_envelope_digest ob" by (simp add: old ob(3) zero_digest_def)
  have env: "ce_decide demo_capability_env = le_decide demo_loop_env" "ce_clock demo_capability_env 0 = le_clock demo_loop_env"
    "cc_bindings demo_capability_controller = co_bindings demo_controller" "ce_command_id demo_capability_env = le_command_id demo_loop_env"
    "ar_proposal demo_action_request = demo_plant_proposal" "ce_permit_id demo_capability_env = ''permit-1''"
    "pv_device (cy_plc (served_system earlier)) = demo_plc" "ar_correlation_id demo_action_request = ''correlation-1''"
    "ar_observation_challenge_nonce demo_action_request = ''challenge-nonce-pre''"
    by (simp_all add: demo_capability_env_def demo_loop_env_def demo_capability_controller_def demo_controller_def
        demo_action_request_def demo_system_def)
  have fresh: "\<not> digest_cached ob (os_cache (cy_observer (served_system earlier)))"
    "ov_last_sequence demo_verifier \<le> os_sequence (cy_observer (served_system earlier))"
    using new by (simp_all add: digest_cached_def demo_verifier_def)
  have plant: "plant_inv demo_pandapower (plant_at (served_system earlier))" "watches_plant demo_pandapower demo_verifier (plant_at (served_system earlier))"
    using demo_telemetry_inv demo_watches by simp_all
  have time: "run_in_time demo_system_env demo_capability_controller demo_capability_env demo_verifier
      (ar_observation_challenge_nonce demo_action_request) (served_system earlier)"
    using demo_in_time by (simp add: run_in_time_def)
  have unused: "replay_reason_in empty_reservations k = None" for k
    by (simp add: replay_reason_in_None empty_reservations_def)
  from capability_loop_completes [OF demo_runtime_ok(1,2) served_system_up plant(1) fresh plant(2) cap(1)
      demo_request_valid ob(2), of demo_gateway_state demo_capability_env demo_gateway gw1, unfolded env ob(1) cap(2),
      OF steps(2) dec demo_plant_permit demo_log demo_versions tr sim demo_ledger unused refl time [unfolded env]] cap(1) new
  show ?thesis unfolding env by blast
qed

end
