(* ===== verification/Capability_Ipc.thy ===== *)
theory Capability_Ipc
  imports Capability_Plant
begin

text \<open>
  \<^verbatim>\<open>capability_ipc.py\<close>: the canonical-JSON frames that the processes of the capability stack exchange over pipes,
  and the client of one pipe. A pipe is the record \<open>ipc_pipe\<close> over an arbitrary world, so that the lemmas hold
  for every peer, whatever it sends; the text of a frame and the validation of a parsed frame are fields of
  the record \<open>ipc_codec\<close>.
\<close>

section \<open>Frames\<close>

record ipc_request =
  iq_request_id :: string
  iq_operation :: string
  iq_payload :: "(string \<times> json) list"
  iq_payload_digest :: string

datatype ipc_status = Ipc_Ok | Ipc_Rejected | Ipc_Error

record ipc_response =
  ir_request_id :: string
  ir_operation :: string
  ir_request_payload_digest :: string
  ir_status :: ipc_status
  ir_payload :: "(string \<times> json) list"
  ir_payload_digest :: string
  ir_error_code :: "string option"
  ir_server_boot_epoch :: string
  ir_response_counter :: int

definition ipc_request_valid :: "runtime \<Rightarrow> ipc_request \<Rightarrow> bool" where
  "ipc_request_valid rt f \<longleftrightarrow> len_between 1 128 (iq_request_id f) \<and> len_between 1 64 (iq_operation f) \<and>
     is_hex_digest (iq_payload_digest f) \<and> iq_payload_digest f = canonical_digest rt (JObj (iq_payload f))"

definition create_request :: "runtime \<Rightarrow> string \<Rightarrow> string \<Rightarrow> (string \<times> json) list \<Rightarrow> ipc_request res" where
  "create_request rt request_id operation payload =
     (let f = \<lparr>iq_request_id = request_id, iq_operation = operation, iq_payload = payload,
               iq_payload_digest = canonical_digest rt (JObj payload)\<rparr>
      in if ipc_request_valid rt f then Inr f else Inl ValidationError)"

definition ipc_response_valid :: "runtime \<Rightarrow> ipc_response \<Rightarrow> bool" where
  "ipc_response_valid rt f \<longleftrightarrow> len_between 1 128 (ir_request_id f) \<and> len_between 1 64 (ir_operation f) \<and>
     is_hex_digest (ir_request_payload_digest f) \<and> is_hex_digest (ir_payload_digest f) \<and>
     (case ir_error_code f of None \<Rightarrow> True | Some c \<Rightarrow> length c \<le> 128) \<and> len_between 16 256 (ir_server_boot_epoch f) \<and>
     1 \<le> ir_response_counter f \<and> ir_payload_digest f = canonical_digest rt (JObj (ir_payload f)) \<and>
     (if ir_status f = Ipc_Ok then ir_error_code f = None else (case ir_error_code f of None \<Rightarrow> False | Some c \<Rightarrow> c \<noteq> []))"

definition create_response ::
  "runtime \<Rightarrow> ipc_request \<Rightarrow> ipc_status \<Rightarrow> (string \<times> json) list \<Rightarrow> string option \<Rightarrow> string \<Rightarrow> int \<Rightarrow> ipc_response res" where
  "create_response rt request status payload error_code server_boot_epoch response_counter =
     (let f = \<lparr>ir_request_id = iq_request_id request, ir_operation = iq_operation request,
               ir_request_payload_digest = iq_payload_digest request, ir_status = status, ir_payload = payload,
               ir_payload_digest = canonical_digest rt (JObj payload), ir_error_code = error_code,
               ir_server_boot_epoch = server_boot_epoch, ir_response_counter = response_counter\<rparr>
      in if ipc_response_valid rt f then Inr f else Inl ValidationError)"

definition ipc_request_dump :: "ipc_request \<Rightarrow> json" where
  "ipc_request_dump f = JObj [
     (''schema_version'', JStr ''capability-ipc-request-v1''), (''request_id'', JStr (iq_request_id f)),
     (''operation'', JStr (iq_operation f)), (''payload'', JObj (iq_payload f)),
     (''payload_digest'', JStr (iq_payload_digest f))]"

fun ipc_status_value :: "ipc_status \<Rightarrow> string" where
  "ipc_status_value Ipc_Ok = ''ok''"
| "ipc_status_value Ipc_Rejected = ''rejected''"
| "ipc_status_value Ipc_Error = ''error''"

definition ipc_response_dump :: "ipc_response \<Rightarrow> json" where
  "ipc_response_dump f = JObj [
     (''schema_version'', JStr ''capability-ipc-response-v1''), (''request_id'', JStr (ir_request_id f)),
     (''operation'', JStr (ir_operation f)), (''request_payload_digest'', JStr (ir_request_payload_digest f)),
     (''status'', JStr (ipc_status_value (ir_status f))), (''payload'', JObj (ir_payload f)),
     (''payload_digest'', JStr (ir_payload_digest f)), (''error_code'', jopt JStr (ir_error_code f)),
     (''server_boot_epoch'', JStr (ir_server_boot_epoch f)), (''response_counter'', JInt (ir_response_counter f))]"

section \<open>Encoding\<close>

text \<open>
  \<open>ic_bytes\<close> is \<^verbatim>\<open>json.dumps\<close> of a sorted value, None where it raises one of the errors that the encoder catches;
  \<open>ic_json\<close> is \<^verbatim>\<open>json.loads\<close>, None where the text is refused; the other fields parse a parsed frame.
\<close>

record ipc_codec =
  ic_bytes :: "json \<Rightarrow> nat list option"
  ic_json :: "nat list \<Rightarrow> json option"
  ic_request :: "json \<Rightarrow> ipc_request option"
  ic_response :: "json \<Rightarrow> ipc_response option"

definition max_frame_bytes :: nat where "max_frame_bytes = 1048576"

abbreviation ipc_protocol_error :: "string \<Rightarrow> 'a res" where
  "ipc_protocol_error m \<equiv> Inl (NamedError ''IpcProtocolError'' m)"

definition encode_frame :: "ipc_codec \<Rightarrow> json \<Rightarrow> nat list res" where
  "encode_frame cd frame =
     (case ic_bytes cd (canonical frame) of
        None \<Rightarrow> ipc_protocol_error ''IPC frame cannot be encoded as canonical JSON''
      | Some payload \<Rightarrow>
          if max_frame_bytes < length payload then ipc_protocol_error ''IPC frame exceeds the bounded payload size''
          else Inr payload)"

definition decode_frame :: "ipc_codec \<Rightarrow> (json \<Rightarrow> 'f option) \<Rightarrow> ('f \<Rightarrow> json) \<Rightarrow> nat list \<Rightarrow> 'f res" where
  "decode_frame cd parse dump payload =
     (if max_frame_bytes < length payload then ipc_protocol_error ''IPC frame exceeds the bounded payload size''
      else case ic_json cd payload of
        None \<Rightarrow> ipc_protocol_error ''IPC frame is not canonical JSON data''
      | Some parsed \<Rightarrow>
          if (case parsed of JObj _ \<Rightarrow> False | _ \<Rightarrow> True) then ipc_protocol_error ''IPC frame root must be an object''
          else case parse parsed of
            None \<Rightarrow> ipc_protocol_error ''IPC frame failed structural validation''
          | Some result \<Rightarrow>
              bind_res (encode_frame cd (dump result)) (\<lambda>again.
                if again \<noteq> payload then ipc_protocol_error ''IPC frame is not in canonical JSON form'' else Inr result))"

section \<open>The client of a pipe\<close>

text \<open>
  What a \<^verbatim>\<open>multiprocessing\<close> connection raises: the peer is gone, or the operating system refused the operation (a
  received message that is longer than the bound included).
\<close>

datatype pipe_error = EOFError | BrokenPipeError | OSError

record 'w ipc_pipe =
  pp_send :: "nat list \<Rightarrow> 'w \<Rightarrow> (pipe_error + unit) \<times> 'w"
  pp_poll :: "'w \<Rightarrow> (pipe_error + bool) \<times> 'w"
  pp_recv :: "'w \<Rightarrow> (pipe_error + nat list) \<times> 'w"
  pp_close :: "'w \<Rightarrow> 'w"

record pipe_client =
  jc_expected_boot_epoch :: string
  jc_last_response_counter :: int
  jc_closed :: bool
  jc_request_counts :: "string \<Rightarrow> nat"

text \<open>A failed exchange closes the client; a consequential one has an unknown outcome.\<close>

definition give_up ::
  "'w ipc_pipe \<Rightarrow> bool \<Rightarrow> string \<Rightarrow> exn \<Rightarrow> pipe_client \<Rightarrow> 'w \<Rightarrow> ipc_response res \<times> pipe_client \<times> 'w" where
  "give_up pipe consequential unknown definite jc w =
     (if consequential then outcome_unknown unknown else Inl definite, jc\<lparr>jc_closed := True\<rparr>, pp_close pipe w)"

definition count_request :: "string \<Rightarrow> pipe_client \<Rightarrow> pipe_client" where
  "count_request operation jc =
     jc\<lparr>jc_request_counts := (jc_request_counts jc)(operation := jc_request_counts jc operation + 1)\<rparr>"

text \<open>Sending the frame and waiting for an answer.\<close>

definition pipe_exchange ::
  "'w ipc_pipe \<Rightarrow> bool \<Rightarrow> string \<Rightarrow> nat list \<Rightarrow> pipe_client \<Rightarrow> 'w \<Rightarrow>
   (ipc_response res \<times> pipe_client \<times> 'w) + (nat list \<times> pipe_client \<times> 'w)" where
  "pipe_exchange pipe consequential operation raw jc w =
     (let failed = give_up pipe consequential ''consequential IPC response became unavailable''
            (NamedError ''IpcTransportError'' ''IPC peer became unavailable'')
      in case pp_send pipe raw w of
           (Inl e, w1) \<Rightarrow> Inl (failed jc w1)
         | (Inr _, w1) \<Rightarrow>
             let jc1 = count_request operation jc
             in case pp_poll pipe w1 of
                  (Inl e, w2) \<Rightarrow> Inl (failed jc1 w2)
                | (Inr answered, w2) \<Rightarrow>
                    if \<not> answered
                    then Inl (give_up pipe consequential ''consequential IPC response timed out''
                      (NamedError ''IpcTransportError'' ''IPC response timed out'') jc1 w2)
                    else case pp_recv pipe w2 of
                        (Inl e, w3) \<Rightarrow> Inl (failed jc1 w3)
                      | (Inr response_raw, w3) \<Rightarrow> Inr (response_raw, jc1, w3))"

definition accept_answer ::
  "ipc_codec \<Rightarrow> 'w ipc_pipe \<Rightarrow> bool \<Rightarrow> ipc_request \<Rightarrow> nat list \<Rightarrow> pipe_client \<Rightarrow> 'w \<Rightarrow> ipc_response res \<times> pipe_client \<times> 'w" where
  "accept_answer cd pipe consequential frame response_raw jc w =
     (let refused = (\<lambda>unknown definite. give_up pipe consequential unknown (NamedError ''IpcProtocolError'' definite) jc w)
      in case decode_frame cd (ic_response cd) ipc_response_dump response_raw of
           Inl e \<Rightarrow> give_up pipe consequential ''consequential IPC response failed protocol validation'' e jc w
         | Inr response \<Rightarrow>
             if ir_request_id response \<noteq> iq_request_id frame \<or> ir_operation response \<noteq> iq_operation frame \<or>
                ir_request_payload_digest response \<noteq> iq_payload_digest frame
             then refused ''consequential IPC response did not match the request'' ''IPC response does not match the request''
             else if ir_server_boot_epoch response \<noteq> jc_expected_boot_epoch jc
             then refused ''consequential IPC response came from an unexpected boot epoch''
               ''IPC response came from an unexpected boot epoch''
             else if ir_response_counter response \<le> jc_last_response_counter jc
             then refused ''consequential IPC response counter did not advance'' ''IPC response counter did not advance''
             else (Inr response, jc\<lparr>jc_last_response_counter := ir_response_counter response\<rparr>, w))"

definition pipe_request ::
  "runtime \<Rightarrow> ipc_codec \<Rightarrow> 'w ipc_pipe \<Rightarrow> string \<Rightarrow> string \<Rightarrow> (string \<times> json) list \<Rightarrow> bool \<Rightarrow> pipe_client \<times> 'w \<Rightarrow>
   ipc_response res \<times> pipe_client \<times> 'w" where
  "pipe_request rt cd pipe request_id operation payload consequential = (\<lambda>(jc, w).
     case create_request rt request_id operation payload of
       Inl e \<Rightarrow> (Inl e, jc, w)
     | Inr frame \<Rightarrow>
         (case encode_frame cd (ipc_request_dump frame) of
            Inl e \<Rightarrow> (Inl e, jc, w)
          | Inr raw \<Rightarrow>
              if jc_closed jc then (transport_failure ''IPC client is closed'', jc, w)
              else case pipe_exchange pipe consequential operation raw jc w of
                  Inl out \<Rightarrow> out
                | Inr (response_raw, jc1, w1) \<Rightarrow> accept_answer cd pipe consequential frame response_raw jc1 w1))"

definition pipe_close :: "'w ipc_pipe \<Rightarrow> pipe_client \<times> 'w \<Rightarrow> pipe_client \<times> 'w" where
  "pipe_close pipe = (\<lambda>(jc, w). if jc_closed jc then (jc, w) else (jc\<lparr>jc_closed := True\<rparr>, pp_close pipe w))"

section \<open>The server's end\<close>

definition receive_request :: "ipc_codec \<Rightarrow> 'w ipc_pipe \<Rightarrow> 'w \<Rightarrow> ipc_request res \<times> 'w" where
  "receive_request cd pipe w =
     (case pp_recv pipe w of
        (Inl e, w') \<Rightarrow> (transport_failure ''IPC request endpoint closed'', w')
      | (Inr raw, w') \<Rightarrow> (decode_frame cd (ic_request cd) ipc_request_dump raw, w'))"

definition send_response :: "ipc_codec \<Rightarrow> 'w ipc_pipe \<Rightarrow> ipc_response \<Rightarrow> 'w \<Rightarrow> unit res \<times> 'w" where
  "send_response cd pipe response w =
     (case encode_frame cd (ipc_response_dump response) of
        Inl e \<Rightarrow> (Inl e, w)
      | Inr raw \<Rightarrow>
          (case pp_send pipe raw w of
             (Inl e, w') \<Rightarrow> (transport_failure ''IPC response endpoint closed'', w')
           | (Inr _, w') \<Rightarrow> (Inr (), w')))"

section \<open>Frames are unambiguous\<close>

definition frame_carried :: "ipc_codec \<Rightarrow> (json \<Rightarrow> 'f option) \<Rightarrow> ('f \<Rightarrow> json) \<Rightarrow> 'f \<Rightarrow> bool" where
  "frame_carried cd parse dump f \<longleftrightarrow>
     (\<exists>raw. encode_frame cd (dump f) = Inr raw \<and> decode_frame cd parse dump raw = Inr f)"

lemma decode_frame_encoded: "decode_frame cd parse dump raw = Inr f \<Longrightarrow> encode_frame cd (dump f) = Inr raw"
  by (auto simp: decode_frame_def bind_res_Inr split: if_splits option.splits)

interpretation ipc_frames: codec "\<lambda>f. encode_frame cd (dump f)" "decode_frame cd parse dump" "frame_carried cd parse dump" "\<lambda>raw. True"
  by unfold_locales (auto simp: frame_carried_def dest: decode_frame_encoded)

section \<open>What a client accepts\<close>

lemma accept_answer_cases:
  assumes "accept_answer cd pipe consequential frame response_raw jc w = (result, jc', w')"
  obtains (accepted) r where "result = Inr r" "decode_frame cd (ic_response cd) ipc_response_dump response_raw = Inr r"
      "ir_request_id r = iq_request_id frame" "ir_operation r = iq_operation frame" "ir_request_payload_digest r = iq_payload_digest frame"
      "ir_server_boot_epoch r = jc_expected_boot_epoch jc" "jc_last_response_counter jc < ir_response_counter r"
      "jc' = jc\<lparr>jc_last_response_counter := ir_response_counter r\<rparr>"
    | (refused) e where "result = Inl e" "jc' = jc\<lparr>jc_closed := True\<rparr>" "consequential \<Longrightarrow> exn_name e = ''IpcOutcomeUnknownError''"
proof (cases "decode_frame cd (ic_response cd) ipc_response_dump response_raw")
  case (Inl e)
  show ?thesis
    by (rule refused [of "if consequential then NamedError ''IpcOutcomeUnknownError'' ''consequential IPC response failed protocol validation'' else e"])
      (use assms Inl in \<open>auto simp: accept_answer_def give_up_def Let_def\<close>)
next
  case (Inr r)
  show ?thesis
  proof (cases result)
    case (Inl e)
    show ?thesis
      by (rule refused [OF Inl]) (use assms Inl Inr in \<open>auto simp: accept_answer_def give_up_def Let_def split: if_splits\<close>)
  next
    case res: (Inr r')
    show ?thesis
      by (rule accepted [of r]) (use assms res Inr in \<open>auto simp: accept_answer_def give_up_def Let_def split: if_splits\<close>)
  qed
qed

lemma pipe_exchange_cases:
  assumes "pipe_exchange pipe consequential operation raw jc w = Inl (result, jc', w')"
  obtains e where "result = Inl e" "jc' \<in> {jc\<lparr>jc_closed := True\<rparr>, (count_request operation jc)\<lparr>jc_closed := True\<rparr>}"
      "consequential \<Longrightarrow> exn_name e = ''IpcOutcomeUnknownError''"
  using assms
  by (auto simp: pipe_exchange_def give_up_def Let_def split: sum.splits if_splits prod.splits)

lemma pipe_exchange_answered:
  "pipe_exchange pipe consequential operation raw jc w = Inr (response_raw, jc', w') \<Longrightarrow> jc' = count_request operation jc"
  by (auto simp: pipe_exchange_def Let_def split: sum.splits if_splits prod.splits)

lemma count_request_simps [simp]:
  "jc_closed (count_request operation jc) = jc_closed jc"
  "jc_expected_boot_epoch (count_request operation jc) = jc_expected_boot_epoch jc"
  "jc_last_response_counter (count_request operation jc) = jc_last_response_counter jc"
  by (simp_all add: count_request_def)

text \<open>An answer is accepted only for the request that was sent, from the expected server and in order.\<close>

definition answers :: "runtime \<Rightarrow> string \<Rightarrow> string \<Rightarrow> string \<Rightarrow> (string \<times> json) list \<Rightarrow> ipc_response \<Rightarrow> bool" where
  "answers rt epoch request_id operation payload r \<longleftrightarrow> ir_request_id r = request_id \<and> ir_operation r = operation \<and>
     ir_request_payload_digest r = canonical_digest rt (JObj payload) \<and> ir_server_boot_epoch r = epoch"

lemma pipe_request_cases:
  assumes "pipe_request rt cd pipe request_id operation payload consequential (jc, w) = (result, jc', w')"
  obtains (accepted) r where "result = Inr r" "answers rt (jc_expected_boot_epoch jc) request_id operation payload r" "\<not> jc_closed jc"
      "jc_last_response_counter jc < ir_response_counter r" "jc_last_response_counter jc' = ir_response_counter r" "\<not> jc_closed jc'"
      "jc_expected_boot_epoch jc' = jc_expected_boot_epoch jc"
    | (closed) e where "result = Inl e" "jc_closed jc'" "jc_last_response_counter jc' = jc_last_response_counter jc" "\<not> jc_closed jc"
      "consequential \<Longrightarrow> exn_name e = ''IpcOutcomeUnknownError''" "jc_expected_boot_epoch jc' = jc_expected_boot_epoch jc"
    | (unsent) e where "result = Inl e" "jc' = jc" "w' = w" "create_request rt request_id operation payload = Inl e \<or>
        exn_name e = ''IpcProtocolError'' \<or> jc_closed jc \<and> exn_name e = ''IpcTransportError''"
proof (cases "create_request rt request_id operation payload")
  case (Inl e)
  show ?thesis by (rule unsent [of e]) (use assms Inl in \<open>auto simp: pipe_request_def\<close>)
next
  case (Inr frame)
  have frame: "iq_request_id frame = request_id" "iq_operation frame = operation" "iq_payload_digest frame = canonical_digest rt (JObj payload)"
    using Inr by (auto simp: create_request_def Let_def split: if_splits)
  show ?thesis
  proof (cases "encode_frame cd (ipc_request_dump frame)")
    case Enc: (Inl e)
    then have "exn_name e = ''IpcProtocolError''" by (auto simp: encode_frame_def split: option.splits if_splits)
    then show ?thesis by (intro unsent [of e]) (use assms Inr Enc in \<open>auto simp: pipe_request_def\<close>)
  next
    case Enc: (Inr raw)
    show ?thesis
    proof (cases "jc_closed jc")
      case True
      then show ?thesis
        by (intro unsent [of "NamedError ''IpcTransportError'' ''IPC client is closed''"]) (use assms Inr Enc in \<open>auto simp: pipe_request_def\<close>)
    next
      case opened: False
      show ?thesis
      proof (cases "pipe_exchange pipe consequential operation raw jc w")
        case Ex: (Inl out)
        then have "pipe_exchange pipe consequential operation raw jc w = Inl (result, jc', w')"
          using assms Inr Enc opened by (simp add: pipe_request_def)
        then show ?thesis by (cases rule: pipe_exchange_cases) (use closed opened in auto)
      next
        case Ex: (Inr out)
        obtain response_raw jc1 w1 where out: "out = (response_raw, jc1, w1)" by (cases out)
        note jc1 = pipe_exchange_answered [OF Ex [unfolded out]]
        have "accept_answer cd pipe consequential frame response_raw jc1 w1 = (result, jc', w')"
          using assms Inr Enc opened Ex out by (simp add: pipe_request_def)
        then show ?thesis
          by (cases rule: accept_answer_cases) (use accepted closed opened jc1 frame in \<open>auto simp: answers_def\<close>)
      qed
    qed
  qed
qed

text \<open>The calls of one client over a pipe whose other end may do anything.\<close>

type_synonym ipc_call = "string \<times> string \<times> (string \<times> json) list \<times> bool"

definition pipe_step ::
  "runtime \<Rightarrow> ipc_codec \<Rightarrow> 'w ipc_pipe \<Rightarrow> ipc_call \<Rightarrow> pipe_client \<times> 'w \<Rightarrow> ipc_response res \<times> pipe_client \<times> 'w" where
  "pipe_step rt cd pipe = (\<lambda>(request_id, operation, payload, consequential).
     pipe_request rt cd pipe request_id operation payload consequential)"

fun accepted_answers :: "(ipc_call \<times> ipc_response res) list \<Rightarrow> ipc_response list" where
  "accepted_answers [] = []"
| "accepted_answers ((call, Inr r) # calls) = r # accepted_answers calls"
| "accepted_answers ((call, Inl e) # calls) = accepted_answers calls"

text \<open>After an outcome that is unknown nothing is accepted any more.\<close>

fun fail_stop :: "(ipc_call \<times> ipc_response res) list \<Rightarrow> bool" where
  "fail_stop [] = True"
| "fail_stop ((call, Inl e) # calls) = ((exn_name e \<noteq> ''IpcOutcomeUnknownError'' \<or> accepted_answers calls = []) \<and> fail_stop calls)"
| "fail_stop ((call, Inr r) # calls) = fail_stop calls"

definition answered :: "runtime \<Rightarrow> string \<Rightarrow> ipc_call \<times> ipc_response res \<Rightarrow> bool" where
  "answered rt epoch = (\<lambda>((request_id, operation, payload, consequential), out).
     case out of Inl _ \<Rightarrow> True | Inr r \<Rightarrow> answers rt epoch request_id operation payload r)"

lemma pipe_run:
  assumes "run_steps (pipe_step rt cd pipe) is (jc, w) = (calls, jc', w')"
  shows "list_all (answered rt (jc_expected_boot_epoch jc)) calls \<and>
    sorted_wrt (<) (jc_last_response_counter jc # map ir_response_counter (accepted_answers calls)) \<and>
    (accepted_answers calls = [] \<or> \<not> jc_closed jc) \<and> fail_stop calls"
  using assms
proof (induction "is" arbitrary: jc w calls)
  case Nil
  then show ?case by simp
next
  case (Cons call "is")
  obtain request_id operation payload consequential where call: "call = (request_id, operation, payload, consequential)" by (cases call)
  obtain out jc1 w1 where st: "pipe_step rt cd pipe call (jc, w) = (out, jc1, w1)" by (metis prod_cases3)
  obtain rest s2 where rest: "run_steps (pipe_step rt cd pipe) is (jc1, w1) = (rest, s2)" by (rule prod.exhaust)
  have calls: "calls = (call, out) # rest" "s2 = (jc', w')" using Cons.prems st rest by simp_all
  note IH = Cons.IH [OF rest [unfolded calls(2)]]
  from st [unfolded pipe_step_def call, simplified] show ?case
  proof (cases rule: pipe_request_cases)
    case (accepted r)
    then show ?thesis using IH by (auto simp: calls call answered_def)
  next
    case (closed e)
    then show ?thesis using IH by (auto simp: calls call answered_def)
  next
    case (unsent e)
    then have "exn_name e \<noteq> ''IpcOutcomeUnknownError''"
      by (auto simp: create_request_def Let_def split: if_splits)
    then show ?thesis using IH unsent by (auto simp: calls call answered_def)
  qed
qed

text \<open>
  (C21) A pipe client trusts nothing that its peer sends: whatever the other end answers, loses or forges, in any
  sequence of requests every accepted response carries the identifier, the operation and the payload digest of
  its own request and the expected boot epoch, the counters of accepted responses strictly increase, and after a
  consequential request whose outcome is unknown no later response is accepted. A consequential request that was
  sent and not answered acceptably always ends in that error, and the client is closed.
\<close>
theorem ipc_answers_match:
  "case run_steps (pipe_step rt cd pipe) calls (jc, w) of (outs, jc', w') \<Rightarrow>
     list_all (answered rt (jc_expected_boot_epoch jc)) outs \<and>
     sorted_wrt (<) (jc_last_response_counter jc # map ir_response_counter (accepted_answers outs)) \<and> fail_stop outs \<and>
     (case pipe_request rt cd pipe request_id operation payload True (jc', w') of
        (Inr r, jc'', _) \<Rightarrow> answers rt (jc_expected_boot_epoch jc') request_id operation payload r
      | (Inl e, jc'', w'') \<Rightarrow> jc'' = jc' \<and> w'' = w' \<or> jc_closed jc'' \<and> exn_name e = ''IpcOutcomeUnknownError'')"
proof (cases "run_steps (pipe_step rt cd pipe) calls (jc, w)")
  case (fields outs jc' w')
  obtain result jc'' w'' where req: "pipe_request rt cd pipe request_id operation payload True (jc', w') = (result, jc'', w'')" by (metis prod_cases3)
  from req have "case result of Inr r \<Rightarrow> answers rt (jc_expected_boot_epoch jc') request_id operation payload r
      | Inl e \<Rightarrow> jc'' = jc' \<and> w'' = w' \<or> jc_closed jc'' \<and> exn_name e = ''IpcOutcomeUnknownError''"
    by (cases rule: pipe_request_cases) auto
  then show ?thesis using pipe_run [OF fields] by (cases result) (simp_all add: fields req)
qed

text \<open>A peer that answers: the client gets exactly the response that the server created for its request.\<close>

lemma pipe_request_delivers:
  assumes frame: "create_request rt request_id operation payload = Inr frame" "encode_frame cd (ipc_request_dump frame) = Inr raw"
    and pipe: "\<not> jc_closed jc" "pp_send pipe raw w = (Inr (), w1)" "pp_poll pipe w1 = (Inr True, w2)" "pp_recv pipe w2 = (Inr answer, w3)"
    and served: "create_response rt frame status reply error_code (jc_expected_boot_epoch jc) counter = Inr r"
      "decode_frame cd (ic_response cd) ipc_response_dump answer = Inr r" "jc_last_response_counter jc < counter"
  shows "pipe_request rt cd pipe request_id operation payload consequential (jc, w) =
    (Inr r, (count_request operation jc)\<lparr>jc_last_response_counter := counter\<rparr>, w3)"
proof -
  have r: "ir_request_id r = iq_request_id frame" "ir_operation r = iq_operation frame" "ir_request_payload_digest r = iq_payload_digest frame"
    "ir_server_boot_epoch r = jc_expected_boot_epoch jc" "ir_response_counter r = counter"
    using served(1) by (auto simp: create_response_def Let_def split: if_splits)
  show ?thesis
    using frame pipe served r by (simp add: pipe_request_def pipe_exchange_def accept_answer_def)
qed

end
