(* ===== verification/Compromise.thy ===== *)
theory Compromise
  imports Degraded
begin

text \<open>
  \<^verbatim>\<open>m5_compromise.py\<close>: operation through a compromise. The mission gate decides whether a request may enter primary
  assurance, given a snapshot of compromised, revoked and quarantined principals, of the assurance services and of
  telemetry; the recovery verifier admits signed administrative recovery steps, each at most once.
\<close>

section \<open>Conditions\<close>

datatype assurance_service = Svc_Identity | Svc_Policy | Svc_Evidence | Svc_Gateway
datatype service_condition = Svc_Healthy | Svc_Unavailable | Svc_Untrusted
datatype telemetry_condition = Tel_Fresh | Tel_Unavailable | Tel_Delayed | Tel_Replayed | Tel_Biased | Tel_Contradictory
datatype mission_gate_outcome = Continue_Primary_Assurance | Deny | Quarantine
datatype recovery_operation = Publish_Revocation | Rotate_Credential | Reconcile_Effect | Restore_Assurance_Service | Release_Quarantine

fun service_value :: "assurance_service \<Rightarrow> string" where
  "service_value Svc_Identity = ''identity''"
| "service_value Svc_Policy = ''policy''"
| "service_value Svc_Evidence = ''evidence''"
| "service_value Svc_Gateway = ''gateway''"

fun service_condition_value :: "service_condition \<Rightarrow> string" where
  "service_condition_value Svc_Healthy = ''healthy''"
| "service_condition_value Svc_Unavailable = ''unavailable''"
| "service_condition_value Svc_Untrusted = ''untrusted''"

fun telemetry_value :: "telemetry_condition \<Rightarrow> string" where
  "telemetry_value Tel_Fresh = ''fresh''"
| "telemetry_value Tel_Unavailable = ''unavailable''"
| "telemetry_value Tel_Delayed = ''delayed''"
| "telemetry_value Tel_Replayed = ''replayed''"
| "telemetry_value Tel_Biased = ''biased''"
| "telemetry_value Tel_Contradictory = ''contradictory''"

fun recovery_operation_value :: "recovery_operation \<Rightarrow> string" where
  "recovery_operation_value Publish_Revocation = ''publish_revocation''"
| "recovery_operation_value Rotate_Credential = ''rotate_credential''"
| "recovery_operation_value Reconcile_Effect = ''reconcile_effect''"
| "recovery_operation_value Restore_Assurance_Service = ''restore_assurance_service''"
| "recovery_operation_value Release_Quarantine = ''release_quarantine''"

text \<open>The members of the enumeration, in order.\<close>

definition assurance_services :: "assurance_service list" where
  "assurance_services = [Svc_Identity, Svc_Policy, Svc_Evidence, Svc_Gateway]"

definition service_of_value :: "string \<Rightarrow> assurance_service option" where
  "service_of_value value = find (\<lambda>s. service_value s = value) assurance_services"

section \<open>Snapshots and requests\<close>

record compromise_snapshot =
  cs_snapshot_id :: string
  cs_captured_at :: instant
  cs_service_conditions :: "assurance_service \<Rightarrow> service_condition option"
  cs_telemetry_condition :: telemetry_condition
  cs_compromised_principals :: "string set"
  cs_revoked_principals :: "string set"
  cs_quarantined_principals :: "string set"
  cs_unresolved_effect :: bool

definition compromise_snapshot_valid :: "compromise_snapshot \<Rightarrow> bool" where
  "compromise_snapshot_valid s \<longleftrightarrow> len_between 16 128 (cs_snapshot_id s) \<and>
     (\<forall>p \<in> cs_compromised_principals s \<union> cs_revoked_principals s \<union> cs_quarantined_principals s. canonical_text p) \<and>
     finite (cs_compromised_principals s) \<and> finite (cs_revoked_principals s) \<and> finite (cs_quarantined_principals s) \<and>
     list_all (\<lambda>service. cs_service_conditions s service \<noteq> None) assurance_services"

definition make_compromise_snapshot :: "compromise_snapshot \<Rightarrow> compromise_snapshot res" where
  "make_compromise_snapshot s = (if compromise_snapshot_valid s then Inr s else Inl ValidationError)"

definition serialize_service_conditions :: "compromise_snapshot \<Rightarrow> json" where
  "serialize_service_conditions s =
     JObj (concat (map (\<lambda>service. case cs_service_conditions s service of
        Some c \<Rightarrow> [(service_value service, JStr (service_condition_value c))]
      | None \<Rightarrow> []) assurance_services))"

definition serialize_principals :: "string set \<Rightarrow> json" where
  "serialize_principals principals = JArr (map JStr (sorted_list_of_set principals))"

definition compromise_snapshot_dump :: "compromise_snapshot \<Rightarrow> json" where
  "compromise_snapshot_dump s = JObj [
     (''snapshot_id'', JStr (cs_snapshot_id s)), (''captured_at'', JTime (cs_captured_at s)),
     (''service_conditions'', serialize_service_conditions s),
     (''telemetry_condition'', JStr (telemetry_value (cs_telemetry_condition s))),
     (''compromised_principals'', serialize_principals (cs_compromised_principals s)),
     (''revoked_principals'', serialize_principals (cs_revoked_principals s)),
     (''quarantined_principals'', serialize_principals (cs_quarantined_principals s)),
     (''unresolved_effect'', JBool (cs_unresolved_effect s))]"

definition compromise_digest :: "runtime \<Rightarrow> compromise_snapshot \<Rightarrow> string" where
  "compromise_digest rt s = canonical_digest rt (compromise_snapshot_dump s)"

record mission_request =
  mr_request_id :: string
  mr_actor_id :: string
  mr_delegation_principals :: "string list"
  mr_requested_at :: instant

definition mission_request_valid :: "mission_request \<Rightarrow> bool" where
  "mission_request_valid r \<longleftrightarrow> len_between 16 128 (mr_request_id r) \<and> len_between 1 256 (mr_actor_id r) \<and>
     mr_delegation_principals r \<noteq> [] \<and> length (mr_delegation_principals r) \<le> 32 \<and>
     last (mr_delegation_principals r) = mr_actor_id r \<and> distinct (mr_delegation_principals r) \<and>
     list_all canonical_text (mr_delegation_principals r)"

definition make_mission_request :: "mission_request \<Rightarrow> mission_request res" where
  "make_mission_request r = (if mission_request_valid r then Inr r else Inl ValidationError)"

record mission_gate_result =
  mg_outcome :: mission_gate_outcome
  mg_reasons :: "string list"
  mg_evaluated_at :: instant
  mg_snapshot_sha256 :: string
  mg_may_enter_primary_assurance :: bool
  mg_execution_authorized :: bool

definition mission_gate_result_valid :: "mission_gate_result \<Rightarrow> bool" where
  "mission_gate_result_valid r \<longleftrightarrow> mg_reasons r \<noteq> [] \<and> is_hex_digest (mg_snapshot_sha256 r) \<and>
     mg_may_enter_primary_assurance r = (mg_outcome r = Continue_Primary_Assurance) \<and>
     \<not> mg_execution_authorized r \<and> distinct (mg_reasons r)"

definition make_mission_gate_result :: "mission_gate_result \<Rightarrow> mission_gate_result res" where
  "make_mission_gate_result r = (if mission_gate_result_valid r then Inr r else Inl ValidationError)"

section \<open>The mission gate\<close>

definition mission_reasons :: "mission_request \<Rightarrow> compromise_snapshot \<Rightarrow> instant \<Rightarrow> duration \<Rightarrow> string list" where
  "mission_reasons r s evaluated_at maximum_snapshot_age =
     (let ancestors = butlast (mr_delegation_principals r); age = evaluated_at - cs_captured_at s;
          inherited = (\<lambda>principals. list_ex (\<lambda>p. p \<in> principals) ancestors) in
      reasons_of [
        (mr_requested_at r > evaluated_at, ''mission_request_from_future''),
        (age < 0, ''compromise_snapshot_from_future''),
        (\<not> age < 0 \<and> age > maximum_snapshot_age, ''compromise_snapshot_stale''),
        (mr_actor_id r \<in> cs_compromised_principals s, ''actor_compromised''),
        (inherited (cs_compromised_principals s), ''delegation_ancestor_compromised''),
        (mr_actor_id r \<in> cs_revoked_principals s, ''actor_revoked''),
        (inherited (cs_revoked_principals s), ''delegation_ancestor_revoked''),
        (mr_actor_id r \<in> cs_quarantined_principals s, ''actor_quarantined''),
        (inherited (cs_quarantined_principals s), ''delegation_ancestor_quarantined'')] @
      concat (map (\<lambda>service. case cs_service_conditions s service of
          Some c \<Rightarrow> if c \<noteq> Svc_Healthy then [service_value service @ ''_'' @ service_condition_value c] else []
        | None \<Rightarrow> []) assurance_services) @
      reasons_of [
        (cs_telemetry_condition s \<noteq> Tel_Fresh, ''telemetry_'' @ telemetry_value (cs_telemetry_condition s)),
        (cs_unresolved_effect s, ''outcome_reconciliation_required'')])"

definition evaluate_mission_admission ::
  "runtime \<Rightarrow> mission_request \<Rightarrow> compromise_snapshot \<Rightarrow> instant option \<Rightarrow> duration \<Rightarrow> mission_gate_result res" where
  "evaluate_mission_admission rt r s now maximum_snapshot_age =
     (let evaluated_at = (case now of None \<Rightarrow> mr_requested_at r | Some t \<Rightarrow> t) in
      if maximum_snapshot_age < 0 then Inl (ValueError ''maximum compromise snapshot age must not be negative'')
      else if list_ex (\<lambda>service. cs_service_conditions s service = None) assurance_services then Inl (NamedError ''KeyError'' '''')
      else let reasons = mission_reasons r s evaluated_at maximum_snapshot_age;
          outcome = (if reasons = [] then Continue_Primary_Assurance
                     else if mr_actor_id r \<in> cs_compromised_principals s then Quarantine else Deny) in
        make_mission_gate_result
          \<lparr>mg_outcome = outcome, mg_reasons = (if reasons = [] then [''continue_to_primary_assurance''] else reasons),
           mg_evaluated_at = evaluated_at, mg_snapshot_sha256 = compromise_digest rt s,
           mg_may_enter_primary_assurance = (outcome = Continue_Primary_Assurance), mg_execution_authorized = False\<rparr>)"

section \<open>Recovery authorizations\<close>

record recovery_authorization =
  ra_authorization_id :: string
  ra_sequence :: int
  ra_authority_id :: string
  ra_subject_id :: string
  ra_operation :: recovery_operation
  ra_target :: string
  ra_evidence_sha256 :: string
  ra_reconciliation_complete :: bool
  ra_nonce :: string
  ra_issued_at :: instant
  ra_expires_at :: instant
  ra_signature :: string

definition recovery_authorization_valid :: "recovery_authorization \<Rightarrow> bool" where
  "recovery_authorization_valid a \<longleftrightarrow> len_between 16 128 (ra_authorization_id a) \<and> 1 \<le> ra_sequence a \<and>
     len_between 1 256 (ra_authority_id a) \<and> len_between 1 256 (ra_subject_id a) \<and> len_between 1 256 (ra_target a) \<and>
     is_hex_digest (ra_evidence_sha256 a) \<and> len_between 16 256 (ra_nonce a) \<and> \<not> ra_expires_at a \<le> ra_issued_at a \<and>
     list_all no_whitespace [ra_authorization_id a, ra_authority_id a, ra_subject_id a, ra_target a, ra_nonce a] \<and>
     \<not> (ra_reconciliation_complete a \<and> ra_operation a \<noteq> Release_Quarantine)"

definition make_recovery_authorization :: "recovery_authorization \<Rightarrow> recovery_authorization res" where
  "make_recovery_authorization a = (if recovery_authorization_valid a then Inr a else Inl ValidationError)"

definition recovery_unsigned_fields :: "recovery_authorization \<Rightarrow> (string \<times> json) list" where
  "recovery_unsigned_fields a = [
     (''schema_version'', JStr ''aegis-ot-m5-recovery-authorization-v1''),
     (''authorization_id'', JStr (ra_authorization_id a)), (''sequence'', JInt (ra_sequence a)),
     (''authority_id'', JStr (ra_authority_id a)), (''subject_id'', JStr (ra_subject_id a)),
     (''operation'', JStr (recovery_operation_value (ra_operation a))), (''target'', JStr (ra_target a)),
     (''evidence_sha256'', JStr (ra_evidence_sha256 a)), (''reconciliation_complete'', JBool (ra_reconciliation_complete a)),
     (''nonce'', JStr (ra_nonce a)), (''issued_at'', JTime (ra_issued_at a)), (''expires_at'', JTime (ra_expires_at a))]"

definition recovery_authorization_digest :: "runtime \<Rightarrow> recovery_authorization \<Rightarrow> string" where
  "recovery_authorization_digest rt a =
     canonical_digest rt (JObj (recovery_unsigned_fields a @ [(''signature'', JStr (ra_signature a))]))"

definition recovery_signing_payload :: "recovery_authorization \<Rightarrow> payload" where
  "recovery_signing_payload a =
     (''aegis-ot:m5:recovery-authorization:v1'' @ [CHR 0x00], canonical (JObj (recovery_unsigned_fields a)))"

definition recovery_authorization_signed :: "runtime \<Rightarrow> recovery_authorization \<Rightarrow> private_key \<Rightarrow> recovery_authorization" where
  "recovery_authorization_signed rt a private_key =
     a\<lparr>ra_signature := sign_bytes rt private_key (recovery_signing_payload a)\<rparr>"

record recovery_request =
  rq_subject_id :: string
  rq_operation :: recovery_operation
  rq_target :: string
  rq_evidence_sha256 :: string
  rq_reconciliation_complete :: bool

definition recovery_request_valid :: "recovery_request \<Rightarrow> bool" where
  "recovery_request_valid q \<longleftrightarrow> len_between 1 256 (rq_subject_id q) \<and> len_between 1 256 (rq_target q) \<and>
     is_hex_digest (rq_evidence_sha256 q) \<and> no_whitespace (rq_subject_id q) \<and> no_whitespace (rq_target q) \<and>
     \<not> (rq_reconciliation_complete q \<and> rq_operation q \<noteq> Release_Quarantine)"

definition make_recovery_request :: "recovery_request \<Rightarrow> recovery_request res" where
  "make_recovery_request q = (if recovery_request_valid q then Inr q else Inl ValidationError)"

record recovery_gate_result =
  rg_allowed :: bool
  rg_reasons :: "string list"
  rg_evaluated_at :: instant
  rg_authorization_sha256 :: string
  rg_plant_control_authorized :: bool

definition recovery_gate_result_valid :: "recovery_gate_result \<Rightarrow> bool" where
  "recovery_gate_result_valid r \<longleftrightarrow> rg_reasons r \<noteq> [] \<and> is_hex_digest (rg_authorization_sha256 r) \<and>
     \<not> rg_plant_control_authorized r \<and> distinct (rg_reasons r)"

definition make_recovery_gate_result :: "recovery_gate_result \<Rightarrow> recovery_gate_result res" where
  "make_recovery_gate_result r = (if recovery_gate_result_valid r then Inr r else Inl ValidationError)"

section \<open>The recovery verifier\<close>

record recovery_verifier =
  rf_authority_id :: string
  rf_authority_public_key :: public_key
  rf_maximum_lifetime_seconds :: int
  rf_highest_sequence :: int
  rf_accepted_nonces :: "string set"

definition make_recovery_verifier :: "string \<Rightarrow> public_key \<Rightarrow> int \<Rightarrow> recovery_verifier res" where
  "make_recovery_verifier authority_id public_key maximum_lifetime_seconds =
     (if \<not> canonical_text authority_id
      then Inl (ValueError ''pinned recovery authority ID must contain no whitespace'')
      else if maximum_lifetime_seconds \<le> 0
      then Inl (ValueError ''maximum recovery authorization lifetime must be positive'')
      else Inr \<lparr>rf_authority_id = authority_id, rf_authority_public_key = public_key,
                rf_maximum_lifetime_seconds = maximum_lifetime_seconds, rf_highest_sequence = 0, rf_accepted_nonces = {}\<rparr>)"

text \<open>\<^verbatim>\<open>total_seconds()\<close> is a float; Python compares it with the integer limit exactly.\<close>

definition lifetime_exceeded :: "recovery_verifier \<Rightarrow> recovery_authorization \<Rightarrow> bool" where
  "lifetime_exceeded v a \<longleftrightarrow>
     flt (Fin (of_int (rf_maximum_lifetime_seconds v))) (round64 (of_int (ra_expires_at a - ra_issued_at a) / 1000000))"

definition binding_reasons ::
  "runtime \<Rightarrow> recovery_verifier \<Rightarrow> recovery_request \<Rightarrow> recovery_authorization \<Rightarrow> compromise_snapshot \<Rightarrow> instant \<Rightarrow> string list" where
  "binding_reasons rt v q a s evaluated_at = reasons_of [
     (ra_authority_id a \<noteq> rf_authority_id v \<or> ra_signature a = [] \<or>
      \<not> verify_bytes rt (rf_authority_public_key v) (recovery_signing_payload a) (ra_signature a), ''recovery_authority_invalid''),
     (\<not> (ra_issued_at a \<le> evaluated_at \<and> evaluated_at < ra_expires_at a), ''recovery_authorization_inactive''),
     (lifetime_exceeded v a, ''recovery_authorization_lifetime_exceeded''),
     (ra_subject_id a \<noteq> rq_subject_id q, ''recovery_subject_mismatch''),
     (ra_operation a \<noteq> rq_operation q, ''recovery_operation_mismatch''),
     (ra_target a \<noteq> rq_target q, ''recovery_target_mismatch''),
     (ra_evidence_sha256 a \<noteq> rq_evidence_sha256 q, ''recovery_request_evidence_mismatch''),
     (ra_evidence_sha256 a \<noteq> compromise_digest rt s, ''recovery_snapshot_evidence_mismatch''),
     (ra_reconciliation_complete a \<noteq> rq_reconciliation_complete q, ''recovery_reconciliation_claim_mismatch'')]"

text \<open>A validated snapshot has a condition for every service, so that the lookup of a restored service never fails.\<close>

definition operation_reasons :: "recovery_request \<Rightarrow> compromise_snapshot \<Rightarrow> string list" where
  "operation_reasons q s =
     (case rq_operation q of
        Release_Quarantine \<Rightarrow> reasons_of [
          (rq_target q \<notin> cs_quarantined_principals s, ''recovery_target_not_quarantined''),
          (\<not> rq_reconciliation_complete q \<or> cs_unresolved_effect s, ''recovery_reconciliation_incomplete'')]
      | Reconcile_Effect \<Rightarrow> reasons_of [(\<not> cs_unresolved_effect s, ''recovery_effect_already_resolved'')]
      | Restore_Assurance_Service \<Rightarrow>
          (case service_of_value (rq_target q) of
             None \<Rightarrow> [''recovery_service_target_invalid'']
           | Some service \<Rightarrow> reasons_of [(cs_service_conditions s service = Some Svc_Healthy, ''recovery_service_already_healthy'')])
      | _ \<Rightarrow> reasons_of [
          (rq_target q \<notin> cs_compromised_principals s \<union> cs_revoked_principals s \<union> cs_quarantined_principals s,
           ''recovery_identity_target_not_affected'')])"

definition recovery_replay_reasons :: "recovery_verifier \<Rightarrow> recovery_authorization \<Rightarrow> string list" where
  "recovery_replay_reasons v a = reasons_of [
     (ra_sequence a \<le> rf_highest_sequence v, ''recovery_authorization_sequence_not_monotonic''),
     (ra_nonce a \<in> rf_accepted_nonces v, ''recovery_authorization_replayed'')]"

definition recovery_evaluate ::
  "runtime \<Rightarrow> recovery_request \<Rightarrow> recovery_authorization \<Rightarrow> compromise_snapshot \<Rightarrow> instant \<Rightarrow> recovery_verifier \<Rightarrow>
   recovery_gate_result res \<times> recovery_verifier" where
  "recovery_evaluate rt q a s evaluated_at v =
     (let reasons = binding_reasons rt v q a s evaluated_at @ operation_reasons q s @ recovery_replay_reasons v a;
          allowed = (reasons = []);
          v' = (if allowed then v\<lparr>rf_highest_sequence := ra_sequence a,
                                   rf_accepted_nonces := insert (ra_nonce a) (rf_accepted_nonces v)\<rparr> else v)
      in (make_recovery_gate_result
            \<lparr>rg_allowed = allowed, rg_reasons = (if allowed then [''authorized_recovery_step''] else reasons),
             rg_evaluated_at = evaluated_at, rg_authorization_sha256 = recovery_authorization_digest rt a,
             rg_plant_control_authorized = False\<rparr>, v'))"

section \<open>The gate decides\<close>

lemma distinct_reasons_of: "distinct (map snd cs) \<Longrightarrow> distinct (reasons_of cs)"
  by (induction cs) (auto simp: reasons_of_def)

definition healthy_path :: "mission_request \<Rightarrow> compromise_snapshot \<Rightarrow> bool" where
  "healthy_path r s \<longleftrightarrow> list_all (\<lambda>p. p \<notin> cs_compromised_principals s \<and> p \<notin> cs_revoked_principals s \<and>
     p \<notin> cs_quarantined_principals s) (mr_delegation_principals r)"

definition mission_may_continue :: "mission_request \<Rightarrow> compromise_snapshot \<Rightarrow> instant \<Rightarrow> duration \<Rightarrow> bool" where
  "mission_may_continue r s t maximum_age \<longleftrightarrow> mr_requested_at r \<le> t \<and> cs_captured_at s \<le> t \<and> t \<le> cs_captured_at s + maximum_age \<and>
     healthy_path r s \<and> list_all (\<lambda>service. cs_service_conditions s service = Some Svc_Healthy) assurance_services \<and>
     cs_telemetry_condition s = Tel_Fresh \<and> \<not> cs_unresolved_effect s"

lemma service_reasons:
  assumes "compromise_snapshot_valid s"
  shows "concat (map (\<lambda>service. case cs_service_conditions s service of
      Some c \<Rightarrow> if c \<noteq> Svc_Healthy then [service_value service @ ''_'' @ service_condition_value c] else []
    | None \<Rightarrow> []) assurance_services) =
    reasons_of (map (\<lambda>service. (cs_service_conditions s service \<noteq> Some Svc_Healthy,
      service_value service @ ''_'' @ service_condition_value (the (cs_service_conditions s service)))) assurance_services)"
  using assms by (auto simp: compromise_snapshot_valid_def assurance_services_def)

lemma mission_reasons_distinct:
  assumes "compromise_snapshot_valid s"
  shows "distinct (mission_reasons r s t maximum_age)"
  unfolding mission_reasons_def Let_def service_reasons [OF assms] reasons_of_append [symmetric]
  by (rule distinct_reasons_of) (simp add: assurance_services_def)

lemma mission_reasons_empty:
  assumes "compromise_snapshot_valid s" "mission_request_valid r"
  shows "mission_reasons r s t maximum_age = [] \<longleftrightarrow> mission_may_continue r s t maximum_age"
proof -
  have path: "mr_delegation_principals r = butlast (mr_delegation_principals r) @ [mr_actor_id r]"
    using assms(2) by (metis mission_request_valid_def append_butlast_last_id)
  have "healthy_path r s \<longleftrightarrow> mr_actor_id r \<notin> cs_compromised_principals s \<union> cs_revoked_principals s \<union> cs_quarantined_principals s \<and>
      (\<forall>p \<in> set (butlast (mr_delegation_principals r)). p \<notin> cs_compromised_principals s \<union> cs_revoked_principals s \<union> cs_quarantined_principals s)"
    unfolding healthy_path_def list_all_iff by (subst path) auto
  then show ?thesis
    unfolding mission_reasons_def Let_def service_reasons [OF assms(1)] mission_may_continue_def
    by (auto simp: assurance_services_def list_ex_iff)
qed

text \<open>
  (C39) The mission gate lets a request continue exactly when the request is not from the future, the snapshot is
  neither from the future nor stale, no principal on the delegation path is compromised, revoked or quarantined,
  every assurance service is healthy, telemetry is fresh and no effect is unresolved. It quarantines exactly the
  requests of a compromised actor, never raises on validated input, gives distinct reasons and never authorizes
  execution.
\<close>
theorem mission_gate_decides:
  assumes "digests_ok rt" "mission_request_valid r" "compromise_snapshot_valid s" "0 \<le> maximum_age"
  shows "\<exists>g. evaluate_mission_admission rt r s now maximum_age = Inr g \<and> mission_gate_result_valid g \<and>
    mg_may_enter_primary_assurance g =
      mission_may_continue r s (case now of None \<Rightarrow> mr_requested_at r | Some t \<Rightarrow> t) maximum_age \<and>
    (mg_outcome g = Quarantine) = (mr_actor_id r \<in> cs_compromised_principals s) \<and> \<not> mg_execution_authorized g"
proof -
  let ?t = "case now of None \<Rightarrow> mr_requested_at r | Some t \<Rightarrow> t"
  let ?reasons = "mission_reasons r s ?t maximum_age"
  have total: "\<not> list_ex (\<lambda>service. cs_service_conditions s service = None) assurance_services"
    using assms(3) by (auto simp: compromise_snapshot_valid_def list_all_iff list_ex_iff)
  have "is_hex_digest (compromise_digest rt s)" using assms(1) by (simp add: compromise_digest_def)
  moreover have "mr_actor_id r \<in> cs_compromised_principals s \<Longrightarrow> ?reasons \<noteq> []"
    by (simp add: mission_reasons_def Let_def)
  ultimately show ?thesis
    using assms(4) total mission_reasons_empty [OF assms(3,2), of ?t maximum_age] mission_reasons_distinct [OF assms(3), of r ?t maximum_age]
    by (auto simp: evaluate_mission_admission_def Let_def make_mission_gate_result_def mission_gate_result_valid_def)
qed

definition demo_compromise_snapshot :: compromise_snapshot where
  "demo_compromise_snapshot = \<lparr>cs_snapshot_id = ''snapshot-0000001'', cs_captured_at = 0, cs_service_conditions = (\<lambda>_. Some Svc_Healthy),
     cs_telemetry_condition = Tel_Fresh, cs_compromised_principals = {''agent-b''}, cs_revoked_principals = {},
     cs_quarantined_principals = {''agent-b''}, cs_unresolved_effect = False\<rparr>"

definition demo_mission_request :: "string \<Rightarrow> mission_request" where
  "demo_mission_request actor = \<lparr>mr_request_id = ''request-00000001'', mr_actor_id = actor, mr_delegation_principals = [''supervisor'', actor],
     mr_requested_at = 1\<rparr>"

theorem mission_gate_decides_witness:
  "(\<exists>g. evaluate_mission_admission demo_runtime (demo_mission_request ''agent-a'') demo_compromise_snapshot None (seconds 5) = Inr g \<and>
     mg_may_enter_primary_assurance g) \<and>
   (\<exists>g. evaluate_mission_admission demo_runtime (demo_mission_request ''agent-b'') demo_compromise_snapshot None (seconds 5) = Inr g \<and>
     mg_outcome g = Quarantine \<and> \<not> mg_may_enter_primary_assurance g)"
proof -
  have ok: "compromise_snapshot_valid demo_compromise_snapshot" "mission_request_valid (demo_mission_request ''agent-a'')"
    "mission_request_valid (demo_mission_request ''agent-b'')"
    by (simp_all add: compromise_snapshot_valid_def demo_compromise_snapshot_def mission_request_valid_def demo_mission_request_def
        len_between_def canonical_text_def no_whitespace_def is_space_def assurance_services_def)
  have decide: "mission_may_continue (demo_mission_request ''agent-a'') demo_compromise_snapshot 1 (seconds 5)"
    "\<not> mission_may_continue (demo_mission_request ''agent-b'') demo_compromise_snapshot 1 (seconds 5)"
    "''agent-b'' \<in> cs_compromised_principals demo_compromise_snapshot"
    by (simp_all add: mission_may_continue_def healthy_path_def demo_compromise_snapshot_def demo_mission_request_def assurance_services_def)
  have "mr_requested_at (demo_mission_request x) = 1" "mr_actor_id (demo_mission_request x) = x" for x by (simp_all add: demo_mission_request_def)
  then show ?thesis
    using decide mission_gate_decides [OF demo_runtime_ok(1) ok(2,1), of "seconds 5" None]
      mission_gate_decides [OF demo_runtime_ok(1) ok(3,1), of "seconds 5" None] by fastforce
qed

section \<open>Recovery steps\<close>

definition recovery_bound ::
  "runtime \<Rightarrow> recovery_verifier \<Rightarrow> recovery_request \<Rightarrow> recovery_authorization \<Rightarrow> compromise_snapshot \<Rightarrow> instant \<Rightarrow> bool" where
  "recovery_bound rt v q a s t \<longleftrightarrow> ra_authority_id a = rf_authority_id v \<and>
     verify_bytes rt (rf_authority_public_key v) (recovery_signing_payload a) (ra_signature a) \<and>
     ra_issued_at a \<le> t \<and> t < ra_expires_at a \<and> \<not> lifetime_exceeded v a \<and>
     ra_subject_id a = rq_subject_id q \<and> ra_operation a = rq_operation q \<and> ra_target a = rq_target q \<and>
     ra_evidence_sha256 a = rq_evidence_sha256 q \<and> ra_evidence_sha256 a = compromise_digest rt s \<and>
     ra_reconciliation_complete a = rq_reconciliation_complete q"

definition recovery_applies :: "recovery_request \<Rightarrow> compromise_snapshot \<Rightarrow> bool" where
  "recovery_applies q s \<longleftrightarrow>
     (case rq_operation q of
        Release_Quarantine \<Rightarrow> rq_target q \<in> cs_quarantined_principals s \<and> rq_reconciliation_complete q \<and> \<not> cs_unresolved_effect s
      | Reconcile_Effect \<Rightarrow> cs_unresolved_effect s
      | Restore_Assurance_Service \<Rightarrow>
          (case service_of_value (rq_target q) of None \<Rightarrow> False | Some service \<Rightarrow> cs_service_conditions s service \<noteq> Some Svc_Healthy)
      | _ \<Rightarrow> rq_target q \<in> cs_compromised_principals s \<union> cs_revoked_principals s \<union> cs_quarantined_principals s)"

lemma operation_reasons_empty: "operation_reasons q s = [] \<longleftrightarrow> recovery_applies q s"
  by (cases "rq_operation q"; cases "service_of_value (rq_target q)") (simp_all add: operation_reasons_def recovery_applies_def)

lemma recovery_replay_reasons_empty:
  "recovery_replay_reasons v a = [] \<longleftrightarrow> rf_highest_sequence v < ra_sequence a \<and> ra_nonce a \<notin> rf_accepted_nonces v"
  by (simp add: recovery_replay_reasons_def not_le)

lemma binding_reasons_empty: "binding_reasons rt v q a s t = [] \<Longrightarrow> recovery_bound rt v q a s t"
  by (auto simp: binding_reasons_def recovery_bound_def reasons_of_empty simp del: reasons_of_Cons)

definition operation_labels :: "string list list" where
  "operation_labels = [[''recovery_target_not_quarantined'', ''recovery_reconciliation_incomplete''], [''recovery_effect_already_resolved''],
     [''recovery_service_target_invalid''], [''recovery_service_already_healthy''], [''recovery_identity_target_not_affected'']]"

lemma operation_labelsI:
  "r = reasons_of cs \<Longrightarrow> map snd cs = operation_labels ! n \<Longrightarrow> n < length operation_labels \<Longrightarrow>
   \<exists>cs. r = reasons_of cs \<and> map snd cs \<in> set operation_labels"
  by (metis nth_mem)

lemma operation_reasons_of: "\<exists>cs. operation_reasons q s = reasons_of cs \<and> map snd cs \<in> set operation_labels"
proof (cases "rq_operation q")
  case Restore_Assurance_Service
  show ?thesis
  proof (cases "service_of_value (rq_target q)")
    case None
    show ?thesis
      by (rule operation_labelsI [where n = 2 and cs = "[(True, ''recovery_service_target_invalid'')]"])
        (simp_all add: operation_reasons_def operation_labels_def None Restore_Assurance_Service)
  next
    case (Some service)
    show ?thesis
      by (rule operation_labelsI [where n = 3 and
            cs = "[(cs_service_conditions s service = Some Svc_Healthy, ''recovery_service_already_healthy'')]"])
        (simp_all add: operation_reasons_def operation_labels_def Some Restore_Assurance_Service)
  qed
next
  case Release_Quarantine
  show ?thesis
    unfolding operation_reasons_def Release_Quarantine recovery_operation.simps
    by (rule operation_labelsI [where n = 0], rule refl) (simp_all add: operation_labels_def)
next
  case Reconcile_Effect
  show ?thesis
    unfolding operation_reasons_def Reconcile_Effect recovery_operation.simps
    by (rule operation_labelsI [where n = 1], rule refl) (simp_all add: operation_labels_def)
qed (simp only: operation_reasons_def recovery_operation.simps,
  rule operation_labelsI [where n = 4], rule refl, simp add: operation_labels_def, simp add: operation_labels_def)+

lemma recovery_reasons_distinct:
  "distinct (binding_reasons rt v q a s t @ operation_reasons q s @ recovery_replay_reasons v a)"
proof -
  obtain cs where cs: "operation_reasons q s = reasons_of cs" "map snd cs \<in> set operation_labels"
    using operation_reasons_of [of q s] by (elim exE conjE)
  have "map snd cs = operation_labels ! 0 \<or> map snd cs = operation_labels ! 1 \<or> map snd cs = operation_labels ! 2 \<or>
      map snd cs = operation_labels ! 3 \<or> map snd cs = operation_labels ! 4"
    using cs(2) by (simp only: operation_labels_def list.set insert_iff empty_iff nth_Cons_0 nth_Cons_numeral One_nat_def nth_Cons_Suc) simp
  then show ?thesis
    unfolding binding_reasons_def recovery_replay_reasons_def cs(1) reasons_of_append [symmetric]
    by (intro distinct_reasons_of, elim disjE) (simp_all add: operation_labels_def)
qed

text \<open>The verifier always answers.\<close>

lemma recovery_evaluate_total:
  assumes "digests_ok rt"
  shows "\<exists>g. fst (recovery_evaluate rt q a s t v) = Inr g \<and> recovery_gate_result_valid g \<and>
    rg_allowed g = (binding_reasons rt v q a s t = [] \<and> operation_reasons q s = [] \<and> recovery_replay_reasons v a = [])"
  using assms recovery_reasons_distinct [of rt v q a s t]
  by (auto simp: recovery_evaluate_def Let_def make_recovery_gate_result_def recovery_gate_result_valid_def recovery_authorization_digest_def)

type_synonym recovery_call = "recovery_request \<times> recovery_authorization \<times> compromise_snapshot \<times> instant"

definition recovery_step :: "runtime \<Rightarrow> recovery_call \<Rightarrow> recovery_verifier \<Rightarrow> recovery_gate_result res \<times> recovery_verifier" where
  "recovery_step rt = (\<lambda>(q, a, s, t). recovery_evaluate rt q a s t)"

definition recovery_allowed :: "recovery_gate_result res \<Rightarrow> bool" where
  "recovery_allowed out \<longleftrightarrow> (case out of Inl _ \<Rightarrow> False | Inr g \<Rightarrow> rg_allowed g)"

lemma recovery_step_cases:
  assumes "recovery_step rt (q, a, s, t) v = (out, v')"
  obtains (allowed) "recovery_bound rt v q a s t" "recovery_applies q s" "rf_highest_sequence v < ra_sequence a" "ra_nonce a \<notin> rf_accepted_nonces v"
      "v' = v\<lparr>rf_highest_sequence := ra_sequence a, rf_accepted_nonces := insert (ra_nonce a) (rf_accepted_nonces v)\<rparr>"
    | (refused) "\<not> recovery_allowed out" "v' = v"
proof (cases "binding_reasons rt v q a s t @ operation_reasons q s @ recovery_replay_reasons v a = []")
  case True
  then show ?thesis
    by (intro allowed)
      (use assms in \<open>simp_all add: recovery_step_def recovery_evaluate_def operation_reasons_empty recovery_replay_reasons_empty binding_reasons_empty\<close>)
next
  case False
  then have "\<not> recovery_allowed out" "v' = v"
    using assms by (auto simp: recovery_step_def recovery_evaluate_def Let_def make_recovery_gate_result_def recovery_allowed_def split: if_splits)
  then show ?thesis by (rule refused)
qed

interpretation recovery_nonce: once_only "recovery_step rt" recovery_allowed "\<lambda>(q, a, s, t). ra_nonce a" rf_accepted_nonces
proof
  fix i v out v' assume "recovery_step rt i v = (out, v')"
  then have step: "case i of (q, a, s, t) \<Rightarrow> recovery_step rt (q, a, s, t) v = (out, v')" by (cases i) simp
  then show "rf_accepted_nonces v \<subseteq> rf_accepted_nonces v'" by (cases i) (auto elim: recovery_step_cases)
  assume "recovery_allowed out"
  then show "(case i of (q, a, s, t) \<Rightarrow> ra_nonce a) \<notin> rf_accepted_nonces v" "(case i of (q, a, s, t) \<Rightarrow> ra_nonce a) \<in> rf_accepted_nonces v'"
    using step by (cases i, auto elim: recovery_step_cases)+
qed

definition allowed_calls :: "(recovery_call \<times> recovery_gate_result res) list \<Rightarrow> recovery_call list" where
  "allowed_calls outs = map fst (filter (\<lambda>(call, out). recovery_allowed out) outs)"

lemma allowed_calls_Cons [simp]:
  "allowed_calls ((call, out) # outs) = (if recovery_allowed out then call # allowed_calls outs else allowed_calls outs)"
  by (simp add: allowed_calls_def)

lemma recovery_bound_cong:
  "rf_authority_id v' = rf_authority_id v \<Longrightarrow> rf_authority_public_key v' = rf_authority_public_key v \<Longrightarrow>
   rf_maximum_lifetime_seconds v' = rf_maximum_lifetime_seconds v \<Longrightarrow> recovery_bound rt v' q a s t = recovery_bound rt v q a s t"
  by (simp add: recovery_bound_def lifetime_exceeded_def)

lemma recovery_run:
  assumes "run_steps (recovery_step rt) calls v = (outs, v')"
  shows "sorted_wrt (<) (rf_highest_sequence v # map (\<lambda>(q, a, s, t). ra_sequence a) (allowed_calls outs)) \<and>
    list_all (\<lambda>(q, a, s, t). recovery_bound rt v q a s t \<and> recovery_applies q s) (allowed_calls outs)"
  using assms
proof (induction calls arbitrary: v outs)
  case Nil
  then show ?case by (simp add: allowed_calls_def)
next
  case (Cons call calls)
  obtain q a s t where call: "call = (q, a, s, t)" by (cases call)
  obtain out v1 where st: "recovery_step rt call v = (out, v1)" by fastforce
  obtain rest v2 where rest: "run_steps (recovery_step rt) calls v1 = (rest, v2)" by fastforce
  have outs: "outs = (call, out) # rest" using Cons.prems st rest by simp
  have "v2 = v'" using Cons.prems st rest by simp
  note IH = Cons.IH [OF rest [unfolded this]]
  from st [unfolded call] show ?case
  proof (cases rule: recovery_step_cases)
    case allowed
    then have "recovery_bound rt v1 q' a' s' t' = recovery_bound rt v q' a' s' t'" for q' a' s' t' by (intro recovery_bound_cong) simp_all
    then show ?thesis using IH allowed by (auto simp: outs call)
  next
    case refused
    then show ?thesis using IH refused by (auto simp: outs call)
  qed
qed

lemma recovery_step_harmless: "case fst (recovery_step rt call v) of Inl _ \<Rightarrow> True | Inr g \<Rightarrow> \<not> rg_plant_control_authorized g"
  by (cases call) (simp add: recovery_step_def recovery_evaluate_def Let_def make_recovery_gate_result_def)

text \<open>
  (C40) A recovery authorization is spent once: in any sequence of evaluations, refused ones included, the sequence
  numbers of the admitted steps strictly increase beyond the highest one seen, no nonce is admitted twice, and every
  admitted step carries an authorization of the pinned authority that verifies, is in force and within the lifetime
  limit, matches the request, names the digest of the presented snapshot, and fits that snapshot: a release only of a
  quarantined principal with reconciliation complete and no unresolved effect, a restore only of a service that is not
  healthy, an identity step only for an affected principal. No result authorizes plant control.
\<close>
theorem recovery_steps_once:
  "case run_steps (recovery_step rt) calls v of (outs, v') \<Rightarrow>
     sorted_wrt (<) (rf_highest_sequence v # map (\<lambda>(q, a, s, t). ra_sequence a) (allowed_calls outs)) \<and>
     distinct (accepted_keys recovery_allowed (\<lambda>(q, a, s, t). ra_nonce a) outs) \<and>
     list_all (\<lambda>(q, a, s, t). recovery_bound rt v q a s t \<and> recovery_applies q s) (allowed_calls outs) \<and>
     list_all (\<lambda>(call, out). case out of Inl _ \<Rightarrow> True | Inr g \<Rightarrow> \<not> rg_plant_control_authorized g) outs"
proof (cases "run_steps (recovery_step rt) calls v")
  case (Pair outs v')
  have never: "list_all (\<lambda>(call, out). case out of Inl _ \<Rightarrow> True | Inr g \<Rightarrow> \<not> rg_plant_control_authorized g) (fst (run_steps (recovery_step rt) calls v))" for v
    by (induction calls arbitrary: v) (simp_all add: recovery_step_harmless split: prod.splits, metis recovery_step_harmless fst_conv)
  then show ?thesis
    using recovery_run [OF Pair] recovery_nonce.accepted_distinct [of rt calls v] never [of v] by (simp add: Pair)
qed

end
