(* ===== verification/Spec2Isabelle.thy ===== *)
theory Spec2Isabelle
  imports Modbus_Client Capability_Progress Capability_Ipc Compromise
begin

text \<open>
  \<^bold>\<open>Aegis-OT: a verification library.\<close>

  Aegis-OT (\<^verbatim>\<open>src/src/aegis_ot\<close>) stands between autonomous agents and a power-grid control process. An agent sends an
  action proposal; a gateway authorizes it by identity, delegation, replay, freshness, policy and safety and writes
  evidence; a controller binds the decision to the observed physical state, simulates the command, issues a signed
  one-time permit and dispatches it to a device, which checks everything again before the plant moves; the effect is
  read back and recorded. The program has this path three times: in one process (M3), with the device behind a
  Modbus mailbox, and split over processes with signed observations, a durable PLC ledger and pipes (M4). The
  development models all three, from the Python source, as total functions over explicit states.

  \<^bold>\<open>Parts and theories\<close>

  \<^item> \<^verbatim>\<open>Prelude\<close>: exceptions and results, JSON values, collected reasons and first failing checks, and the two contracts
    that recur in the program: \<open>once_only\<close> (a component that consumes one-time identifiers) and \<open>codec\<close> (a writer and
    a reader of a wire format).
  \<^item> \<^verbatim>\<open>Py_Float\<close>: Python floats as finite rationals, infinities and NaN, with round-to-nearest-even at binary64.
  \<^item> \<^verbatim>\<open>Crypto\<close>: \<^verbatim>\<open>crypto.py\<close>, canonical digests, and the record \<open>runtime\<close> of what lies outside the repository.
  \<^item> \<^verbatim>\<open>Models\<close>, \<^verbatim>\<open>Delegation\<close>, \<^verbatim>\<open>Identity_Policy\<close>, \<^verbatim>\<open>Safety\<close>, \<^verbatim>\<open>Replay\<close>, \<^verbatim>\<open>Evidence\<close>: the files of the same names
    (\<^verbatim>\<open>identity.py\<close> and \<^verbatim>\<open>policy.py\<close> in one theory): proposals, states and decisions with their validators, grant
    chains and revocation, the policy engine, the transition model and its limits, the in-memory nonce ledger,
    the hash-chained log.
  \<^item> \<^verbatim>\<open>Degraded\<close>: \<^verbatim>\<open>m5_degraded.py\<close>, the gate for degraded operation with signed leases and reversals, its durable
    state and the faults of its store.
  \<^item> \<^verbatim>\<open>Compromise\<close>: \<^verbatim>\<open>m5_compromise.py\<close>, the mission gate over a snapshot of compromised principals, services and
    telemetry, and the verifier of signed recovery steps with its sequence and nonce state.
  \<^item> \<^verbatim>\<open>Gateway\<close>: \<^verbatim>\<open>gateway.py\<close>, \<^verbatim>\<open>lab.py\<close> and \<^verbatim>\<open>factory.py\<close>: one decision (\<open>decide\<close>), runs of decisions and
    revocations, the command adapter and the local laboratory.
  \<^item> \<^verbatim>\<open>Physical_Models\<close>, \<^verbatim>\<open>Plant\<close>: \<^verbatim>\<open>physical_models.py\<close> and \<^verbatim>\<open>pandapower_plant.py\<close>: snapshots, commands, candidates,
    permits and acknowledgments with digests and signatures; capture, simulation, application and restore.
  \<^item> \<^verbatim>\<open>Physical_Control\<close>, \<^verbatim>\<open>Closed_Loop\<close>: \<^verbatim>\<open>physical_control.py\<close>: translation, permit issuance, the permit-aware
    device, the controller, and their composition in one process.
  \<^item> \<^verbatim>\<open>Modbus_Wire\<close>, \<^verbatim>\<open>Modbus_Device\<close>, \<^verbatim>\<open>Modbus_Client\<close>: \<^verbatim>\<open>modbus_wire.py\<close> and \<^verbatim>\<open>modbus_device.py\<close>: register
    encodings and headers, the mailbox service with its staged, committed and released transactions, and the client
    with its chunked register accesses.
  \<^item> \<^verbatim>\<open>Durable_Replay\<close>: \<^verbatim>\<open>semantic_replay.py\<close> and \<^verbatim>\<open>transport_replay.py\<close>: reservations in files, reloaded before
    every operation and replaced atomically, with faults before and after the rename.
  \<^item> \<^verbatim>\<open>Capability_Models\<close>, \<^verbatim>\<open>Capability_Plc\<close>, \<^verbatim>\<open>Capability_Plant\<close>, \<^verbatim>\<open>Capability_Observer\<close>, \<^verbatim>\<open>Capability_Control\<close>: the
    \<^verbatim>\<open>capability_*.py\<close> files: signed observations, action requests, capability permits and PLC acknowledgments; the
    PLC with its ledger; the plant and observer processes with their allowlists; the verifier, the issuer and the
    controller.
  \<^item> \<^verbatim>\<open>Capability_System\<close>, \<^verbatim>\<open>Capability_Progress\<close>: the processes composed over links that deliver, lose a request or
    lose an answer: what every run guarantees, and when a run completes.
  \<^item> \<^verbatim>\<open>Capability_Ipc\<close>: \<^verbatim>\<open>capability_ipc.py\<close>, the frames and the pipe client under those links.

  \<^bold>\<open>How the model corresponds to the code\<close>

  A class or a pydantic model is a record whose fields carry a prefix of the record; construction of a model is a
  function that returns the value or \<open>ValidationError\<close>. A method is a definition that takes the state and returns it
  updated; every raise and early return is a branch of type \<open>exn + 'a\<close>. Guards appear in the order of the code. Locks
  make a method one step. Clock readings, fresh identifiers, faults of a store and fates of a message are arguments
  (environment records), so that a statement holds for all of them. A JSON document is its value; where the text
  matters (ledger files, frames, mailbox payloads) the model keeps its size and whether it is canonical, or takes the
  text codec as a parameter and performs the canonical-form checks of the code. Loops are recursive functions with
  termination proofs; no definition uses fuel.

  Parameters stand for what the repository does not contain: \<open>runtime\<close> (SHA-256, Ed25519, iteration order of a
  \<^verbatim>\<open>frozenset\<close>), \<open>pandapower\<close> (the power-flow solver), \<open>wire_codec\<close> and \<open>ipc_codec\<close> (JSON text and validation of
  parsed messages), \<open>modbus_port\<close> and \<open>ipc_pipe\<close> (connections). The hypotheses on them are named: \<open>digests_ok\<close> and
  \<open>signatures_ok\<close> (digests are hexadecimal; a signature verifies under its own key), \<open>plant_inv\<close> with
  \<open>pandapower_ok\<close> (the solver keeps the tables it was given), \<open>codec_bytes\<close>, \<open>codec_validates\<close> and \<open>carried\<close> (a
  transmitted message is read back and was validated), and the locale \<open>register_server\<close> (a Modbus server stores the
  writes that the mailbox accepts and returns its registers, for requests within the bounds of the Modbus protocol:
  123 registers of sixteen bits in a write, 125 in a read). No statement assumes that signatures cannot be forged or that digests cannot
  collide: where security rests on that, the conclusion says that a verifying signature or an equal digest was
  present. Concrete instances (\<open>demo_runtime\<close>, \<open>demo_pandapower\<close>, \<open>demo_codec\<close>, \<open>direct_port\<close>) satisfy the hypotheses.

  Interfaces between components are locales: \<open>nonce_ledger\<close>, \<open>evidence_log\<close> and \<open>policy_engine\<close> for the gateway,
  \<open>transactional_plant\<close> for the device, \<open>plant_port\<close> and \<open>reading_port\<close> for the PLC, \<open>typed_ports\<close> and \<open>effect_ports\<close>
  for the capability controller, \<open>register_server\<close> for the Modbus client, next to \<open>once_only\<close> and \<open>codec\<close>. Each is
  interpreted on the definitions that provide it, and the statements about clients go through these
  interpretations.

  \<^bold>\<open>What is shown\<close>

  \<^item> Authorization: the gateway permits exactly when the degraded gate admits the call and every check holds; the
    link-by-link delegation validator decides a declarative notion of an attenuating chain; a revoked grant never
    permits again; a proposal is permitted at most once, as long as the clock does not go backwards and the replay
    retention covers the maximum state age; the adapter executes under a permit exactly the identified proposal on
    the identified state; approval is requested exactly when nothing else is missing.
  \<^item> Degraded operation: exactly when the gate lets a proposal through; it never raises; its state only advances under
    faults and interleavings; revoked leases and used reversals stay so.
  \<^item> Compromise: exactly when a mission request may continue and when its actor is quarantined; recovery steps are
    admitted once, in increasing order, bound to the presented evidence, and never authorize plant control.
  \<^item> Evidence: one matching record per decision, a verifying log whose newest hash determines it.
  \<^item> Plant: an application is complete or has no effect, a safe candidate predicts it, a checkpoint is restored
    faithfully.
  \<^item> Devices: the plant moves only for an unused, trusted and in-force permit that binds a permitting decision to the
    current state, and at most once per permit, nonce and command, for the device in process, behind the Modbus
    mailbox (whatever is written to its registers) and for the PLC (across restarts and lost messages).
  \<^item> Loops: the terminal result of a run is true about the plant, has the shape of its status and is recorded; a
    configured run on a permitted, safe proposal completes, also with earlier observations in the observer's cache.
  \<^item> Wires and stores: headers, payloads, Base64 texts and frames are unambiguous; the mailbox is transparent over a
    faithful server; a pipe client accepts only answers to its own requests and fails closed; reservations survive
    restarts and failed updates.

  \<^bold>\<open>Not modelled\<close>

  Process start-up and shutdown, TCP, TLS, HTTP and SQLite; the coordination services and the segmented deployment,
  which repeat the modelled path over HTTP and a database; workload identity and its certificates; the publication
  and provisioning of degraded-operation artifacts; the fleet study, experiment drivers, evidence packages, release
  tooling, scripts and user interfaces. They are either input and output around the modelled components or reports about them.
\<close>

end
